(* ===== verification/JsNum.thy ===== *)
theory JsNum
  imports Complex_Main "HOL-Library.Log_Nat"
begin

text \<open>
  The Number type of JavaScript, as the program uses it: IEEE 754 binary64 with
  round-to-nearest-even. A finite number is carried as the rational it denotes, and every
  arithmetic operation is the exact rational operation followed by \<open>rnd\<close>, which rounds to
  the nearest representable value and overflows to an infinity. The two zeros of IEEE are
  identified: no code of the model distinguishes them.

  The lemmas say that rounding is monotone, that representable values (in particular the
  integers up to 2 to the 53) are fixed points, and that addition and scaling are monotone
  as a consequence. These are what the cap, budget and threshold checks rest on.
\<close>

datatype jsnum = Fin rat | PosInf | NegInf | NaN

section \<open>Rounding\<close>

definition binexp :: "rat \<Rightarrow> int" where
  "binexp x =
     (let (p, q) = quotient_of x; k = bitlen p - bitlen q
      in if 2 powi k \<le> x then k else k - 1)"

definition round_even :: "rat \<Rightarrow> int" where
  "round_even x =
     (let f = \<lfloor>x\<rfloor>; d = x - of_int f
      in if d < 1 / 2 then f else if 1 / 2 < d then f + 1 else if even f then f else f + 1)"

definition ulp_exp :: "rat \<Rightarrow> int" where
  "ulp_exp x = max (binexp \<bar>x\<bar> - 52) (- 1074)"

definition rnd :: "rat \<Rightarrow> jsnum" where
  "rnd x =
     (if x = 0 then Fin 0
      else let e = ulp_exp x; m = round_even (x / 2 powi e)
           in if 971 < e \<or> e = 971 \<and> 2 ^ 53 \<le> \<bar>m\<bar> then (if 0 < x then PosInf else NegInf)
              else Fin (of_int m * 2 powi e))"

section \<open>Arithmetic and comparison\<close>

fun jneg :: "jsnum \<Rightarrow> jsnum" where
  "jneg (Fin x) = Fin (- x)"
| "jneg PosInf = NegInf"
| "jneg NegInf = PosInf"
| "jneg NaN = NaN"

fun jadd :: "jsnum \<Rightarrow> jsnum \<Rightarrow> jsnum" where
  "jadd (Fin x) (Fin y) = rnd (x + y)"
| "jadd NaN _ = NaN"
| "jadd _ NaN = NaN"
| "jadd PosInf NegInf = NaN"
| "jadd NegInf PosInf = NaN"
| "jadd PosInf _ = PosInf"
| "jadd NegInf _ = NegInf"
| "jadd _ PosInf = PosInf"
| "jadd _ NegInf = NegInf"

definition jsub :: "jsnum \<Rightarrow> jsnum \<Rightarrow> jsnum" where
  "jsub a b = jadd a (jneg b)"

definition inf_signed :: "bool \<Rightarrow> jsnum" where
  "inf_signed pos = (if pos then PosInf else NegInf)"

fun is_nan :: "jsnum \<Rightarrow> bool" where
  "is_nan NaN = True"
| "is_nan _ = False"

fun jsign :: "jsnum \<Rightarrow> int" where
  "jsign (Fin x) = (if 0 < x then 1 else if x < 0 then - 1 else 0)"
| "jsign PosInf = 1"
| "jsign NegInf = - 1"
| "jsign NaN = 0"

definition jmul :: "jsnum \<Rightarrow> jsnum \<Rightarrow> jsnum" where
  "jmul a b =
     (case (a, b) of
        (Fin x, Fin y) \<Rightarrow> rnd (x * y)
      | _ \<Rightarrow> if is_nan a \<or> is_nan b \<or> jsign a * jsign b = 0 then NaN
             else inf_signed (0 < jsign a * jsign b))"

text \<open>Division: a zero divisor counts as positive zero, the two zeros being identified.\<close>

definition jdiv :: "jsnum \<Rightarrow> jsnum \<Rightarrow> jsnum" where
  "jdiv a b =
     (case (a, b) of
        (Fin x, Fin y) \<Rightarrow>
          if y = 0 then (if x = 0 then NaN else inf_signed (0 < x)) else rnd (x / y)
      | (NaN, _) \<Rightarrow> NaN
      | (_, NaN) \<Rightarrow> NaN
      | (Fin x, _) \<Rightarrow> Fin 0
      | (_, Fin y) \<Rightarrow> inf_signed (0 < jsign a * (if y < 0 then - 1 else 1))
      | _ \<Rightarrow> NaN)"

fun jle :: "jsnum \<Rightarrow> jsnum \<Rightarrow> bool" where
  "jle (Fin x) (Fin y) = (x \<le> y)"
| "jle NaN _ = False"
| "jle _ NaN = False"
| "jle NegInf _ = True"
| "jle _ PosInf = True"
| "jle _ _ = False"

fun jlt :: "jsnum \<Rightarrow> jsnum \<Rightarrow> bool" where
  "jlt (Fin x) (Fin y) = (x < y)"
| "jlt NaN _ = False"
| "jlt _ NaN = False"
| "jlt PosInf _ = False"
| "jlt _ NegInf = False"
| "jlt _ _ = True"

text \<open>\<open>a === b\<close> on numbers: NaN equals nothing.\<close>

definition jeq :: "jsnum \<Rightarrow> jsnum \<Rightarrow> bool" where
  "jeq a b \<longleftrightarrow> a = b \<and> a \<noteq> NaN"

fun is_fin :: "jsnum \<Rightarrow> bool" where
  "is_fin (Fin _) = True"
| "is_fin _ = False"

definition jmin :: "jsnum \<Rightarrow> jsnum \<Rightarrow> jsnum" where
  "jmin a b = (if is_nan a \<or> is_nan b then NaN else if jlt b a then b else a)"

definition jmax :: "jsnum \<Rightarrow> jsnum \<Rightarrow> jsnum" where
  "jmax a b = (if is_nan a \<or> is_nan b then NaN else if jlt a b then b else a)"

fun jabs :: "jsnum \<Rightarrow> jsnum" where
  "jabs (Fin x) = Fin \<bar>x\<bar>"
| "jabs NaN = NaN"
| "jabs _ = PosInf"

fun jceil :: "jsnum \<Rightarrow> jsnum" where
  "jceil (Fin x) = Fin (of_int \<lceil>x\<rceil>)"
| "jceil a = a"

fun jfloor :: "jsnum \<Rightarrow> jsnum" where
  "jfloor (Fin x) = Fin (of_int \<lfloor>x\<rfloor>)"
| "jfloor a = a"

text \<open>A decimal literal of the source, and an integer literal.\<close>

definition lit :: "int \<Rightarrow> int \<Rightarrow> jsnum" where
  "lit p q = rnd (Fract p q)"

definition jint :: "int \<Rightarrow> jsnum" where
  "jint n = rnd (of_int n)"

text \<open>\<open>xs.reduce((sum, value) => sum + value, 0)\<close>\<close>

definition jsum :: "jsnum list \<Rightarrow> jsnum" where
  "jsum xs = foldl jadd (Fin 0) xs"

section \<open>Facts about rounding\<close>

lemma powi_2_pos [simp]: "(0::rat) < 2 powi e"
  by (simp add: power_int_def)

lemma powi_2_nonzero [simp]: "(2::rat) powi e \<noteq> 0"
  by (simp add: power_int_def)

lemma powi_2_mono: "d \<le> e \<Longrightarrow> (2::rat) powi d \<le> 2 powi e"
  by (rule power_int_increasing) auto

lemma powi_2_Suc: "(2::rat) powi (e + 1) = 2 * 2 powi e"
  by (simp add: power_int_add_1)

lemma powi_2_less_iff: "(2::rat) powi d < 2 powi e \<longleftrightarrow> d < e"
  by (metis linorder_not_less one_less_numeral_iff power_int_strict_increasing powi_2_mono semiring_norm(76))

lemma round_even_int [simp]: "round_even (of_int n) = n"
  by (simp add: round_even_def)

lemma round_even_bounds: "\<lfloor>x\<rfloor> \<le> round_even x" "round_even x \<le> \<lfloor>x\<rfloor> + 1"
  by (auto simp: round_even_def Let_def)

lemma round_even_mono:
  assumes "x \<le> y"
  shows "round_even x \<le> round_even y"
proof (cases "\<lfloor>x\<rfloor> = \<lfloor>y\<rfloor>")
  case True
  with assms show ?thesis by (auto simp: round_even_def Let_def)
next
  case False
  with assms have "\<lfloor>x\<rfloor> + 1 \<le> \<lfloor>y\<rfloor>" using floor_mono [OF assms] by linarith
  with round_even_bounds(2) [of x] round_even_bounds(1) [of y] show ?thesis by linarith
qed

lemma round_even_neg: "round_even (- x) = - round_even x"
proof (cases "x = of_int \<lfloor>x\<rfloor>")
  case True
  then obtain n where "x = of_int n" by blast
  then show ?thesis by (simp flip: of_int_minus)
next
  case False
  then have fl: "\<lfloor>- x\<rfloor> = - \<lfloor>x\<rfloor> - 1"
    by (metis add_diff_cancel_left' ceiling_altdef ceiling_def diff_minus_eq_add minus_diff_eq
        uminus_add_conv_diff)
  then show ?thesis by (auto simp: round_even_def Let_def)
qed


lemma binexp_bounds:
  assumes "0 < x"
  shows "2 powi binexp x \<le> x" "x < 2 powi (binexp x + 1)"
proof -
  obtain p q where pq: "quotient_of x = (p, q)" by (cases "quotient_of x")
  have q: "0 < q" using pq by (rule quotient_of_denom_pos)
  have x: "x = of_int p / of_int q" using pq by (rule quotient_of_div)
  have p: "0 < p" using assms q by (simp add: x zero_less_divide_iff)
  have pb: "2 ^ nat (bitlen p - 1) \<le> p" "p < 2 ^ nat (bitlen p)"
    using bitlen_bounds [OF p] by auto
  have qb: "2 ^ nat (bitlen q - 1) \<le> q" "q < 2 ^ nat (bitlen q)"
    using bitlen_bounds [OF q] by auto
  have bp: "1 \<le> bitlen p" and bq: "1 \<le> bitlen q"
    using p q by (simp_all add: bitlen_def floorlog_def Suc_leI)
  have conv: "(2::rat) powi n = of_int (2 ^ nat n)" if "0 \<le> n" for n
    using that by (simp add: power_int_def)
  have pl: "(2::rat) powi (bitlen p - 1) \<le> of_int p" and pu: "of_int p < (2::rat) powi bitlen p"
    using pb bp by (simp_all only: conv of_int_le_iff of_int_less_iff diff_ge_0_iff_ge)
  have ql: "(2::rat) powi (bitlen q - 1) \<le> of_int q" and qu: "of_int q < (2::rat) powi bitlen q"
    using qb bq by (simp_all only: conv of_int_le_iff of_int_less_iff diff_ge_0_iff_ge)
  let ?k = "bitlen p - bitlen q"
  have q0: "(0::rat) < of_int q" using q by simp
  have lower: "2 powi (?k - 1) \<le> x"
  proof -
    have "(2::rat) powi (?k - 1) * of_int q \<le> 2 powi (?k - 1) * 2 powi bitlen q"
      using qu by (intro mult_left_mono) auto
    also have "\<dots> = 2 powi (bitlen p - 1)" by (simp flip: power_int_add)
    finally show ?thesis using pl q0 by (simp add: x pos_le_divide_eq)
  qed
  have upper: "x < 2 powi (?k + 1)"
  proof -
    have "of_int p < (2::rat) powi bitlen p" by (rule pu)
    also have "\<dots> = 2 powi (?k + 1) * 2 powi (bitlen q - 1)" by (simp flip: power_int_add)
    also have "\<dots> \<le> 2 powi (?k + 1) * of_int q"
      using ql by (intro mult_left_mono) auto
    finally show ?thesis using q0 by (simp add: x pos_divide_less_eq)
  qed
  have b: "binexp x = (if 2 powi ?k \<le> x then ?k else ?k - 1)"
    by (simp add: binexp_def pq)
  show "2 powi binexp x \<le> x" using lower by (simp add: b)
  show "x < 2 powi (binexp x + 1)" using upper by (auto simp: b not_le)
qed

lemma binexp_unique:
  assumes "0 < x" "2 powi k \<le> x" "x < 2 powi (k + 1)"
  shows "binexp x = k"
proof -
  have "(2::rat) powi binexp x < 2 powi (k + 1)" and "(2::rat) powi k < 2 powi (binexp x + 1)"
    using binexp_bounds [OF assms(1)] assms(2,3) by linarith+
  then show ?thesis by (simp add: powi_2_less_iff)
qed

lemma binexp_mono:
  assumes "0 < x" "x \<le> y"
  shows "binexp x \<le> binexp y"
proof -
  have "0 < y" using assms by linarith
  have "(2::rat) powi binexp x < 2 powi (binexp y + 1)"
    using binexp_bounds(1) [OF assms(1)] binexp_bounds(2) [OF \<open>0 < y\<close>] assms(2) by linarith
  then show ?thesis by (simp add: powi_2_less_iff)
qed

lemma ulp_exp_mono: "0 < x \<Longrightarrow> x \<le> y \<Longrightarrow> ulp_exp x \<le> ulp_exp y"
  using binexp_mono [of x y] by (auto simp: ulp_exp_def)

lemma ulp_exp_minus [simp]: "ulp_exp (- x) = ulp_exp x"
  by (simp add: ulp_exp_def)

text \<open>The significand of a positive number, before overflow is decided.\<close>

definition signif :: "rat \<Rightarrow> int" where
  "signif x = round_even (x / 2 powi ulp_exp x)"

lemma signif_upper:
  assumes "0 < x"
  shows "signif x \<le> 2 ^ 53"
proof -
  let ?e = "ulp_exp x"
  have e: "binexp x + 1 \<le> ?e + 53" using assms by (simp add: ulp_exp_def)
  have "x < 2 powi (binexp x + 1)" by (rule binexp_bounds(2) [OF assms])
  also have "\<dots> \<le> 2 powi (?e + 53)" by (rule powi_2_mono [OF e])
  also have "\<dots> = 2 powi ?e * 2 ^ 53" by (simp add: power_int_add)
  finally have "x / 2 powi ?e \<le> of_int (2 ^ 53)" by (simp add: divide_le_eq mult.commute)
  then have "signif x \<le> round_even (of_int (2 ^ 53))"
    unfolding signif_def by (rule round_even_mono)
  then show ?thesis by (simp only: round_even_int)
qed

lemma signif_lower:
  assumes "0 < x" "ulp_exp x = binexp x - 52"
  shows "2 ^ 52 \<le> signif x"
proof -
  let ?e = "ulp_exp x"
  have "(2::rat) powi binexp x = 2 powi (?e + 52)" by (simp add: assms(2))
  then have "(2::rat) powi ?e * 2 ^ 52 = 2 powi binexp x" by (simp add: power_int_add)
  also have "\<dots> \<le> x" by (rule binexp_bounds(1) [OF assms(1)])
  finally have "of_int (2 ^ 52) \<le> x / 2 powi ?e" by (simp add: le_divide_eq mult.commute)
  then have "round_even (of_int (2 ^ 52)) \<le> signif x"
    unfolding signif_def by (rule round_even_mono)
  then show ?thesis by (simp only: round_even_int)
qed

lemma signif_nonneg: "0 < x \<Longrightarrow> 0 \<le> signif x"
  using round_even_mono [of 0 "x / 2 powi ulp_exp x"] round_even_int [of 0]
  by (simp add: signif_def)

text \<open>The value before overflow is decided; \<open>rnd\<close> is this value or an infinity.\<close>

definition pre_round :: "rat \<Rightarrow> rat" where
  "pre_round x = of_int (signif x) * 2 powi ulp_exp x"

lemma pre_round_mono:
  assumes "0 < x" "x \<le> y"
  shows "pre_round x \<le> pre_round y"
proof (cases "ulp_exp x = ulp_exp y")
  case True
  have "x / 2 powi ulp_exp y \<le> y / 2 powi ulp_exp y"
    using assms(2) by (simp add: divide_right_mono)
  then have "signif x \<le> signif y"
    by (simp add: signif_def True round_even_mono)
  then show ?thesis by (simp add: pre_round_def True mult_right_mono)
next
  case False
  have y: "0 < y" using assms by linarith
  from False ulp_exp_mono [OF assms] have less: "ulp_exp x + 1 \<le> ulp_exp y" by linarith
  then have ey: "ulp_exp y = binexp y - 52" using y by (auto simp: ulp_exp_def)
  have "pre_round x \<le> of_int (2 ^ 53) * 2 powi ulp_exp x"
    unfolding pre_round_def using signif_upper [OF assms(1)]
    by (intro mult_right_mono order_less_imp_le [OF powi_2_pos]) (simp only: of_int_le_iff)
  also have "\<dots> = of_int (2 ^ 52) * 2 powi (ulp_exp x + 1)"
    by (simp add: powi_2_Suc)
  also have "\<dots> \<le> of_int (2 ^ 52) * 2 powi ulp_exp y"
    by (intro mult_left_mono powi_2_mono less) auto
  also have "\<dots> \<le> pre_round y"
    unfolding pre_round_def using signif_lower [OF y ey]
    by (intro mult_right_mono order_less_imp_le [OF powi_2_pos]) (simp only: of_int_le_iff)
  finally show ?thesis .
qed

definition overflows :: "rat \<Rightarrow> bool" where
  "overflows x \<longleftrightarrow> 971 < ulp_exp x \<or> ulp_exp x = 971 \<and> 2 ^ 53 \<le> signif x"

lemma rnd_0 [simp]: "rnd 0 = Fin 0"
  by (simp add: rnd_def)

lemma signif_minus: "signif (- x) = - signif x"
  by (simp add: signif_def round_even_neg)

lemma rnd_signif:
  "x \<noteq> 0 \<Longrightarrow> rnd x =
     (if 971 < ulp_exp x \<or> ulp_exp x = 971 \<and> 2 ^ 53 \<le> \<bar>signif x\<bar>
      then (if 0 < x then PosInf else NegInf)
      else Fin (of_int (signif x) * 2 powi ulp_exp x))"
  by (simp only: rnd_def Let_def signif_def if_False)

lemma rnd_pos: "0 < x \<Longrightarrow> rnd x = (if overflows x then PosInf else Fin (pre_round x))"
  using signif_nonneg [of x]
  by (simp add: rnd_signif overflows_def pre_round_def)

lemma rnd_minus: "rnd (- x) = jneg (rnd x)"
  by (cases "x = 0") (auto simp: rnd_signif signif_minus)

lemma overflows_mono:
  assumes "0 < x" "x \<le> y" "overflows x"
  shows "overflows y"
proof (cases "ulp_exp x = ulp_exp y")
  case True
  have "x / 2 powi ulp_exp y \<le> y / 2 powi ulp_exp y"
    using assms(2) by (simp add: divide_right_mono)
  then have "signif x \<le> signif y" by (simp add: signif_def True round_even_mono)
  with assms(3) True show ?thesis by (auto simp: overflows_def)
next
  case False
  with ulp_exp_mono [OF assms(1,2)] assms(3) show ?thesis by (auto simp: overflows_def)
qed

lemma pre_round_nonneg: "0 < x \<Longrightarrow> 0 \<le> pre_round x"
  by (simp add: pre_round_def signif_nonneg)

lemma rnd_nonneg_le: "0 < x \<Longrightarrow> x \<le> y \<Longrightarrow> jle (rnd x) (rnd y)"
  using pre_round_mono [of x y] overflows_mono [of x y] by (auto simp: rnd_pos)

lemma jle_jneg: "jle (jneg a) (jneg b) \<longleftrightarrow> jle b a"
  by (cases a; cases b) auto

lemma jle_refl: "a \<noteq> NaN \<Longrightarrow> jle a a"
  by (cases a) auto

lemma jle_trans: "jle a b \<Longrightarrow> jle b c \<Longrightarrow> jle a c"
  by (cases a; cases b; cases c) auto

lemma rnd_not_nan [simp]: "rnd x \<noteq> NaN"
  by (simp add: rnd_def Let_def)

lemma rnd_sign: "0 < x \<Longrightarrow> jle (Fin 0) (rnd x)"
  using pre_round_nonneg [of x] by (auto simp: rnd_pos)

theorem rnd_mono:
  assumes "x \<le> y"
  shows "jle (rnd x) (rnd y)"
proof -
  consider "0 < x" | "y < 0" | "x \<le> 0" "0 \<le> y" by linarith
  then show ?thesis
  proof cases
    case 1
    then show ?thesis using assms by (rule rnd_nonneg_le)
  next
    case 2
    then have "jle (rnd (- y)) (rnd (- x))" using assms by (intro rnd_nonneg_le) auto
    then show ?thesis by (simp add: rnd_minus jle_jneg)
  next
    case 3
    have "jle (rnd x) (Fin 0)"
      using 3(1) rnd_sign [of "- x"] jle_jneg [of "Fin 0" "rnd x"]
      by (cases "x = 0") (auto simp: rnd_minus)
    moreover have "jle (Fin 0) (rnd y)"
      using 3(2) rnd_sign [of y] by (cases "y = 0") auto
    ultimately show ?thesis by (rule jle_trans)
  qed
qed

lemma rnd_exactI:
  assumes "0 < x" "x = of_int m * 2 powi ulp_exp x" "\<not> overflows x"
  shows "rnd x = Fin x"
proof -
  have "x / 2 powi ulp_exp x = of_int m"
    using assms(2) by (simp add: divide_eq_eq)
  then have "pre_round x = x" using assms(2) by (simp add: pre_round_def signif_def)
  with assms(1,3) show ?thesis by (simp add: rnd_pos)
qed

lemma rnd_dyadic_less:
  assumes m: "0 < m" "m < 2 ^ 53" and e: "- 1074 \<le> e" "e \<le> 971"
  shows "rnd (of_int m * 2 powi e) = Fin (of_int m * 2 powi e)"
proof -
  let ?r = "of_int m * 2 powi e :: rat"
  have r: "0 < ?r" using m by simp
  have "of_int m < (of_int (2 ^ 53) :: rat)" using m(2) by (simp only: of_int_less_iff)
  then have "?r < 2 ^ 53 * 2 powi e" by simp
  also have "\<dots> = 2 powi (e + 53)" by (simp add: power_int_add)
  finally have "(2::rat) powi binexp ?r < 2 powi (e + 53)"
    using binexp_bounds(1) [OF r] by linarith
  then have "binexp ?r < e + 53" by (simp only: powi_2_less_iff)
  then have u: "ulp_exp ?r \<le> e" using e r by (simp add: ulp_exp_def)
  define d where "d = nat (e - ulp_exp ?r)"
  have ed: "e = ulp_exp ?r + int d" using u by (simp add: d_def)
  have x: "?r = of_int (m * 2 ^ d) * 2 powi ulp_exp ?r"
    by (subst (1) ed) (simp add: power_int_add)
  have "\<not> overflows ?r"
  proof
    assume o: "overflows ?r"
    with u e have "ulp_exp ?r = 971" "e = 971" by (auto simp: overflows_def)
    then have "signif ?r = m" by (simp add: signif_def)
    with o m \<open>ulp_exp ?r = 971\<close> show False by (simp add: overflows_def)
  qed
  with r x show ?thesis by (rule rnd_exactI)
qed

lemma rnd_dyadic:
  assumes m: "\<bar>m\<bar> \<le> 2 ^ 53" and e: "- 1074 \<le> e" "e < 971 \<or> e = 971 \<and> \<bar>m\<bar> < 2 ^ 53"
  shows "rnd (of_int m * 2 powi e) = Fin (of_int m * 2 powi e)"
proof -
  have pos: "rnd (of_int m * 2 powi e) = Fin (of_int m * 2 powi e)"
    if "0 < m" "m \<le> 2 ^ 53" "e < 971 \<or> e = 971 \<and> m < 2 ^ 53" for m
  proof (cases "m = 2 ^ 53")
    case True
    have "rnd (of_int (2 ^ 52) * 2 powi (e + 1)) = Fin (of_int (2 ^ 52) * 2 powi (e + 1))"
      using that e True by (intro rnd_dyadic_less) auto
    then show ?thesis by (simp add: True powi_2_Suc)
  next
    case False
    then show ?thesis using that e by (intro rnd_dyadic_less) auto
  qed
  consider "m = 0" | "0 < m" | "m < 0" by linarith
  then show ?thesis
  proof cases
    case 1
    then show ?thesis by simp
  next
    case 2
    then show ?thesis using assms by (intro pos) auto
  next
    case 3
    then have "rnd (of_int (- m) * 2 powi e) = Fin (of_int (- m) * 2 powi e)"
      using assms by (intro pos) auto
    then show ?thesis using rnd_minus [of "of_int (- m) * 2 powi e"] by simp
  qed
qed

theorem rnd_int: "\<bar>n\<bar> \<le> 2 ^ 53 \<Longrightarrow> rnd (of_int n) = Fin (of_int n)"
  using rnd_dyadic [of n 0] by simp

lemma rnd_numeral [simp]: "(numeral k :: int) \<le> 2 ^ 53 \<Longrightarrow> rnd (numeral k) = Fin (numeral k)"
  using rnd_int [of "numeral k"] by simp

lemma rnd_1 [simp]: "rnd 1 = Fin 1"
  using rnd_int [of 1] by simp

section \<open>Representable values\<close>

text \<open>
  The numbers a program can hold: those \<open>rnd\<close> leaves alone. Every operation yields one.
\<close>

definition is_double :: "jsnum \<Rightarrow> bool" where
  "is_double a = (case a of Fin x \<Rightarrow> rnd x = Fin x | _ \<Rightarrow> True)"

lemma is_double_inf [simp]: "is_double PosInf" "is_double NegInf" "is_double NaN"
  by (simp_all add: is_double_def)

lemma is_double_rnd [simp]: "is_double (rnd x)"
proof -
  have pos: "is_double (rnd x)" if x: "0 < x" for x
  proof (cases "overflows x")
    case True
    with x show ?thesis by (simp add: rnd_pos)
  next
    case False
    then have "ulp_exp x < 971 \<or> ulp_exp x = 971 \<and> \<bar>signif x\<bar> < 2 ^ 53"
      using signif_nonneg [OF x] by (auto simp: overflows_def)
    moreover have "\<bar>signif x\<bar> \<le> 2 ^ 53" using signif_upper [OF x] signif_nonneg [OF x] by simp
    moreover have "- 1074 \<le> ulp_exp x" by (simp add: ulp_exp_def)
    ultimately have "rnd (pre_round x) = Fin (pre_round x)"
      unfolding pre_round_def by (intro rnd_dyadic)
    with x False show ?thesis by (simp add: rnd_pos is_double_def)
  qed
  have neg: "is_double (jneg a)" if "is_double a" for a
    using that by (cases a) (auto simp: is_double_def rnd_minus)
  consider "x = 0" | "0 < x" | "0 < - x" by linarith
  then show ?thesis
  proof cases
    case 1
    then show ?thesis by (simp add: is_double_def)
  next
    case 2
    then show ?thesis by (rule pos)
  next
    case 3
    then have "is_double (jneg (rnd (- x)))" by (intro neg pos)
    then show ?thesis by (simp add: rnd_minus [of "- x", symmetric])
  qed
qed

lemma is_double_jadd [simp]: "is_double (jadd a b)"
  by (cases a; cases b) auto

lemma jle_PosInf: "a \<noteq> NaN \<Longrightarrow> jle a PosInf"
  by (cases a) auto

lemma jle_NegInf: "a \<noteq> NaN \<Longrightarrow> jle NegInf a"
  by (cases a) auto

lemma jadd_mono:
  "jle a b \<Longrightarrow> is_fin c \<Longrightarrow> jle (jadd a c) (jadd b c)"
  by (cases a; cases b; cases c) (auto intro!: rnd_mono jle_refl jle_PosInf jle_NegInf rnd_not_nan)

lemma jadd_mono2:
  "jle a b \<Longrightarrow> is_fin c \<Longrightarrow> jle (jadd c a) (jadd c b)"
  by (cases a; cases b; cases c) (auto intro!: rnd_mono jle_refl jle_PosInf jle_NegInf rnd_not_nan)

lemma jadd_0_right: "is_double a \<Longrightarrow> jadd a (Fin 0) = a"
  by (cases a) (auto simp: is_double_def)

lemma jadd_increasing:
  assumes "is_double a" "is_fin a" "jle (Fin 0) c"
  shows "jle a (jadd a c)"
proof -
  have "jle (jadd a (Fin 0)) (jadd a c)" using assms by (intro jadd_mono2)
  with assms(1) show ?thesis by (simp add: jadd_0_right)
qed

lemma jsum_Nil [simp]: "jsum [] = Fin 0"
  by (simp add: jsum_def)

lemma jsum_snoc [simp]: "jsum (xs @ [x]) = jadd (jsum xs) x"
  by (simp add: jsum_def)

lemma is_double_jsum [simp]: "is_double (jsum xs)"
  by (cases xs rule: rev_cases) (auto simp: is_double_def [of "Fin 0"])

lemma jadd_nonneg:
  assumes "jle (Fin 0) a" "jle (Fin 0) b"
  shows "jle (Fin 0) (jadd a b)"
  using assms rnd_mono [of 0] by (cases a; cases b) auto

lemma jsum_nonneg: "(\<And>x. x \<in> set xs \<Longrightarrow> jle (Fin 0) x) \<Longrightarrow> jle (Fin 0) (jsum xs)"
  by (induction xs rule: rev_induct) (auto intro: jadd_nonneg)

lemma jlt_iff_not_jle: "a \<noteq> NaN \<Longrightarrow> b \<noteq> NaN \<Longrightarrow> jlt a b \<longleftrightarrow> \<not> jle b a"
  by (cases a; cases b) auto

lemma jlt_fin [simp]: "jlt (Fin x) (Fin y) \<longleftrightarrow> x < y"
  by simp

lemma is_finE: "is_fin a \<Longrightarrow> (\<And>x. a = Fin x \<Longrightarrow> P) \<Longrightarrow> P"
  by (cases a) auto

lemma is_fin_not_nan: "is_fin a \<Longrightarrow> a \<noteq> NaN"
  by (cases a) auto

text \<open>Evaluation of an integer literal does not go through the rounding.\<close>

lemma jint_code [code]: "jint n = (if \<bar>n\<bar> \<le> 2 ^ 53 then Fin (of_int n) else rnd (of_int n))"
  by (simp add: jint_def rnd_int)

text \<open>Literals of moderate size are finite.\<close>

lemma is_fin_rnd:
  assumes "\<bar>x\<bar> \<le> 2 ^ 53"
  shows "is_fin (rnd x)"
proof -
  have hi: "jle (rnd x) (Fin (2 ^ 53))"
    using rnd_mono [of x "2 ^ 53"] rnd_int [of "2 ^ 53"] assms by simp
  have lo: "jle (Fin (- (2 ^ 53))) (rnd x)"
    using rnd_mono [of "- (2 ^ 53)" x] rnd_int [of "- (2 ^ 53)"] assms by simp
  from hi lo show ?thesis by (cases "rnd x") auto
qed

lemma is_fin_jint [simp]: "(numeral k :: int) \<le> 2 ^ 53 \<Longrightarrow> is_fin (jint (numeral k))"
  by (simp add: jint_def)

lemma is_fin_lit: "\<bar>Fract p q\<bar> \<le> 2 ^ 53 \<Longrightarrow> is_fin (lit p q)"
  by (simp add: lit_def is_fin_rnd)

lemma is_fin_lit_numeral [simp]:
  assumes "(numeral p :: int) \<le> 2 ^ 53"
  shows "is_fin (lit (numeral p) (numeral q))"
proof (rule is_fin_lit)
  have "(of_int (numeral p) :: rat) \<le> of_int (2 ^ 53)"
    using assms by (simp only: of_int_le_iff)
  then have p: "(numeral p :: rat) \<le> 2 ^ 53"
    by (simp only: of_int_numeral of_int_power)
  have "(1::rat) \<le> numeral q" by (rule one_le_numeral)
  then have "(numeral p :: rat) / numeral q \<le> numeral p / 1"
    by (intro divide_left_mono) simp_all
  then have "(numeral p :: rat) / numeral q \<le> numeral p" by simp
  with p have "(numeral p :: rat) / numeral q \<le> 2 ^ 53" by (rule order_trans [rotated])
  then show "\<bar>Fract (numeral p) (numeral q)\<bar> \<le> 2 ^ 53"
    by (simp only: Fract_of_int_quotient of_int_numeral abs_divide abs_numeral)
qed

section \<open>The sign of a difference\<close>

text \<open>Gradual underflow: two doubles that differ have a difference that is not rounded to zero.\<close>

lemma double_dyadic:
  assumes "is_double (Fin x)"
  obtains m where "x = of_int m * 2 powi (- 1074)"
proof (cases "x = 0")
  case True
  then show ?thesis using that [of 0] by simp
next
  case False
  have e: "0 \<le> ulp_exp x + 1074" by (simp add: ulp_exp_def)
  from assms False have "x = of_int (signif x) * 2 powi ulp_exp x"
    by (auto simp: is_double_def rnd_signif split: if_splits)
  also have "(2::rat) powi ulp_exp x = 2 powi (ulp_exp x + 1074) * 2 powi (- 1074)"
    by (subst power_int_add [symmetric]) auto
  also have "(2::rat) powi (ulp_exp x + 1074) = of_int (2 ^ nat (ulp_exp x + 1074))"
    using e by (simp add: power_int_def)
  finally have "x = of_int (signif x * 2 ^ nat (ulp_exp x + 1074)) * 2 powi (- 1074)"
    by (simp only: of_int_mult mult.assoc)
  then show ?thesis by (rule that)
qed

lemma rnd_least: "rnd (- (2 powi (- 1074))) = Fin (- (2 powi (- 1074)))"
  using rnd_dyadic [of "- 1" "- 1074"] by simp

lemma jsub_sign:
  assumes "is_double (Fin x)" "is_double (Fin y)"
  shows "jlt (jsub (Fin x) (Fin y)) (Fin 0) \<longleftrightarrow> x < y"
proof -
  obtain m n where x: "x = of_int m * 2 powi (- 1074)" and y: "y = of_int n * 2 powi (- 1074)"
    using double_dyadic [OF assms(1)] double_dyadic [OF assms(2)] by metis
  have d: "jsub (Fin x) (Fin y) = rnd (x - y)" by (simp add: jsub_def)
  show ?thesis
  proof
    assume "x < y"
    then have "m < n" unfolding x y by (simp add: mult_less_cancel_right)
    then have "of_int (m - n) * 2 powi (- 1074) \<le> (- 1 :: rat) * 2 powi (- 1074)"
      by (intro mult_right_mono) (auto simp: of_int_le_iff [of _ "- 1", simplified])
    then have "x - y \<le> - (2 powi (- 1074))" by (simp add: x y left_diff_distrib)
    then have "jle (rnd (x - y)) (Fin (- (2 powi (- 1074))))"
      using rnd_mono rnd_least by metis
    then show "jlt (jsub (Fin x) (Fin y)) (Fin 0)"
      unfolding d using powi_2_pos [of "- 1074"] by (cases "rnd (x - y)") (auto simp del: powi_2_pos)
  next
    assume lt: "jlt (jsub (Fin x) (Fin y)) (Fin 0)"
    show "x < y"
    proof (rule ccontr)
      assume "\<not> x < y"
      then have "jle (Fin 0) (rnd (x - y))" using rnd_mono [of 0 "x - y"] by simp
      with lt show False unfolding d by (cases "rnd (x - y)") auto
    qed
  qed
qed

end
