(* ===== verification/JsValue.thy ===== *)
theory JsValue
  imports JsNum "HOL-Library.AList"
begin

text \<open>
  Dynamically typed JavaScript values, as the program receives them: intents, audit records,
  receipts, snapshots and committed configuration are JSON objects whose fields may be
  absent or of any type. The datatype keeps the language's distinctions (undefined, null,
  booleans, binary64 numbers, strings, arrays, objects with their keys in insertion order)
  and the functions below are the coercions and operators of the language that the source
  uses: truthiness, \<open>||\<close>, \<open>??\<close>, \<open>?.\<close>, \<open>===\<close>, the relational operators, Number(), String(),
  BigInt(), and the string methods.

  Strings are lists of 8-bit characters (Latin-1 code units). Objects and arrays have no
  identity: \<open>===\<close> between two of them is false, and the code never relies on it. Property
  reads see own properties, and length on arrays and strings. Reading a property of
  undefined or null gives undefined, as \<open>?.\<close> does; where the source writes a plain dot,
  the value read is an object by construction.
\<close>

section \<open>Strings\<close>

definition is_digit :: "char \<Rightarrow> bool" where
  "is_digit c \<longleftrightarrow> 48 \<le> (of_char c :: nat) \<and> (of_char c :: nat) \<le> 57"

definition digit_val :: "char \<Rightarrow> int" where
  "digit_val c = int (of_char c) - 48"

definition is_space :: "char \<Rightarrow> bool" where
  "is_space c \<longleftrightarrow> (of_char c :: nat) \<in> {9, 10, 11, 12, 13, 32, 160}"

definition trim :: "string \<Rightarrow> string" where
  "trim s = rev (dropWhile is_space (rev (dropWhile is_space s)))"

definition lower_char :: "char \<Rightarrow> char" where
  "lower_char c =
     (let n = of_char c :: nat
      in if 65 \<le> n \<and> n \<le> 90 \<or> 192 \<le> n \<and> n \<le> 222 \<and> n \<noteq> 215 then char_of (n + 32) else c)"

definition lowercase :: "string \<Rightarrow> string" where
  "lowercase s = List.map lower_char s"

fun is_prefix :: "string \<Rightarrow> string \<Rightarrow> bool" where
  "is_prefix [] _ = True"
| "is_prefix (_ # _) [] = False"
| "is_prefix (c # cs) (d # ds) = (c = d \<and> is_prefix cs ds)"

fun str_includes :: "string \<Rightarrow> string \<Rightarrow> bool" where
  "str_includes pat [] = (pat = [])"
| "str_includes pat (c # cs) = (is_prefix pat (c # cs) \<or> str_includes pat cs)"

fun join :: "string \<Rightarrow> string list \<Rightarrow> string" where
  "join sep [] = []"
| "join sep [x] = x"
| "join sep (x # xs) = x @ sep @ join sep xs"

fun str_lt :: "string \<Rightarrow> string \<Rightarrow> bool" where
  "str_lt _ [] = False"
| "str_lt [] (_ # _) = True"
| "str_lt (c # cs) (d # ds) =
     ((of_char c :: nat) < of_char d \<or> c = d \<and> str_lt cs ds)"

section \<open>Numbers and strings\<close>

definition digit_char :: "int \<Rightarrow> char" where
  "digit_char d = char_of (nat (48 + d))"

text \<open>The decimal digits of a non-negative integer.\<close>

function nat_str :: "int \<Rightarrow> string" where
  "nat_str n = (if n < 10 then [digit_char n] else nat_str (n div 10) @ [digit_char (n mod 10)])"
  by pat_completeness auto
termination
  by (relation "measure nat") auto

declare nat_str.simps [simp del]

definition int_str :: "int \<Rightarrow> string" where
  "int_str n = (if n < 0 then ''-'' @ nat_str (- n) else nat_str n)"

text \<open>
  Number::toString: the shortest decimal significand that reads back as the number, laid
  out as the language specifies; a significand that rounds up to a power of ten moves the
  exponent. \<open>dec_exp\<close> is the exponent \<open>n\<close> with
  \<open>10^(n-1) \<le> x < 10^n\<close>; the fuel covers the smallest positive double.
\<close>

fun dec_exp_small :: "nat \<Rightarrow> rat \<Rightarrow> int" where
  "dec_exp_small 0 x = 0"
| "dec_exp_small (Suc k) x = (if 1 / 10 \<le> x then 0 else dec_exp_small k (10 * x) - 1)"

definition dec_exp :: "rat \<Rightarrow> int" where
  "dec_exp x = (if 1 \<le> x then int (length (nat_str \<lfloor>x\<rfloor>)) else dec_exp_small 330 x)"

fun shortest_digits :: "nat \<Rightarrow> nat \<Rightarrow> rat \<Rightarrow> int \<Rightarrow> nat \<times> int" where
  "shortest_digits 0 k x n = (k, \<lfloor>x / 10 powi (n - int k)\<rfloor>)"
| "shortest_digits (Suc fuel) k x n =
     (let y = x / 10 powi (n - int k); lo = \<lfloor>y\<rfloor>; hi = lo + 1;
          good = (\<lambda>s. rnd (of_int s * 10 powi (n - int k)) = Fin x)
      in if good lo \<and> (\<not> good hi \<or> y - of_int lo \<le> of_int hi - y) then (k, lo)
         else if good hi then (k, hi)
         else shortest_digits fuel (Suc k) x n)"

definition pos_num_str :: "rat \<Rightarrow> string" where
  "pos_num_str x =
     (let (k, s0) = shortest_digits 17 1 x (dec_exp x); carry = (s0 = 10 ^ k);
          n = (if carry then dec_exp x + 1 else dec_exp x); s = (if carry then s0 div 10 else s0);
          ds = nat_str s
      in if int k \<le> n \<and> n \<le> 21 then ds @ replicate (nat (n - int k)) (CHR ''0'')
         else if 0 < n \<and> n \<le> 21 then take (nat n) ds @ ''.'' @ drop (nat n) ds
         else if - 6 < n \<and> n \<le> 0 then ''0.'' @ replicate (nat (- n)) (CHR ''0'') @ ds
         else (case ds of
             [d] \<Rightarrow> [d]
           | d # rest \<Rightarrow> d # ''.'' @ rest
           | [] \<Rightarrow> []) @ ''e'' @ (if n \<le> 0 then ''-'' else ''+'') @ nat_str \<bar>n - 1\<bar>)"

fun num_str :: "jsnum \<Rightarrow> string" where
  "num_str (Fin x) =
     (if x = 0 then ''0'' else if x < 0 then ''-'' @ pos_num_str (- x) else pos_num_str x)"
| "num_str PosInf = ''Infinity''"
| "num_str NegInf = ''-Infinity''"
| "num_str NaN = ''NaN''"

definition digits_val :: "string \<Rightarrow> int" where
  "digits_val ds = foldl (\<lambda>acc c. 10 * acc + digit_val c) 0 ds"

text \<open>An optional exponent part that must end the literal.\<close>

definition exponent_part :: "string \<Rightarrow> int option" where
  "exponent_part s =
     (case s of
        [] \<Rightarrow> Some 0
      | c # r \<Rightarrow>
          if c = CHR ''e'' \<or> c = CHR ''E''
          then (let neg = (r \<noteq> [] \<and> hd r = CHR ''-'');
                    ds = (if r \<noteq> [] \<and> (hd r = CHR ''-'' \<or> hd r = CHR ''+'') then tl r else r)
                in if ds \<noteq> [] \<and> list_all is_digit ds
                   then Some (if neg then - digits_val ds else digits_val ds) else None)
          else None)"

definition unsigned_decimal :: "string \<Rightarrow> rat option" where
  "unsigned_decimal s =
     (let ip = takeWhile is_digit s; r = dropWhile is_digit s;
          frac = (r \<noteq> [] \<and> hd r = CHR ''.'');
          fp = (if frac then takeWhile is_digit (tl r) else []);
          r' = (if frac then dropWhile is_digit (tl r) else r)
      in if ip = [] \<and> fp = [] then None
         else map_option
           (\<lambda>e. of_int (digits_val (ip @ fp)) * 10 powi (e - int (length fp)))
           (exponent_part r'))"

definition hex_val :: "char \<Rightarrow> int option" where
  "hex_val c =
     (let n = int (of_char c)
      in if 48 \<le> n \<and> n \<le> 57 then Some (n - 48)
         else if 97 \<le> n \<and> n \<le> 102 then Some (n - 87)
         else if 65 \<le> n \<and> n \<le> 70 then Some (n - 55) else None)"

definition radix_digits :: "int \<Rightarrow> string \<Rightarrow> int option" where
  "radix_digits b ds =
     (if ds = [] then None
      else foldl (\<lambda>acc c. case (acc, hex_val c) of
             (Some a, Some d) \<Rightarrow> if d < b then Some (b * a + d) else None
           | _ \<Rightarrow> None) (Some 0) ds)"

text \<open>A non-decimal integer literal: \<open>0x\<close>, \<open>0o\<close>, \<open>0b\<close>; no sign is allowed.\<close>

definition radix_literal :: "string \<Rightarrow> int option" where
  "radix_literal s =
     (let p = lowercase (take 2 s); r = drop 2 s
      in if p = ''0x'' then radix_digits 16 r
         else if p = ''0o'' then radix_digits 8 r
         else if p = ''0b'' then radix_digits 2 r else None)"

definition str_to_num :: "string \<Rightarrow> jsnum" where
  "str_to_num s =
     (let t = trim s;
          neg = (t \<noteq> [] \<and> hd t = CHR ''-'');
          u = (if t \<noteq> [] \<and> (hd t = CHR ''-'' \<or> hd t = CHR ''+'') then tl t else t)
      in if t = [] then Fin 0
         else case radix_literal t of
             Some n \<Rightarrow> rnd (of_int n)
           | None \<Rightarrow>
               if u = ''Infinity'' then (if neg then NegInf else PosInf)
               else case unsigned_decimal u of
                   Some x \<Rightarrow> rnd (if neg then - x else x)
                 | None \<Rightarrow> NaN)"

text \<open>StringToBigInt: an optional sign and decimal digits, or a radix literal; empty is 0.\<close>

definition str_to_bigint :: "string \<Rightarrow> int option" where
  "str_to_bigint s =
     (let t = trim s;
          neg = (t \<noteq> [] \<and> hd t = CHR ''-'');
          u = (if t \<noteq> [] \<and> (hd t = CHR ''-'' \<or> hd t = CHR ''+'') then tl t else t)
      in if t = [] then Some 0
         else case radix_literal t of
             Some n \<Rightarrow> Some n
           | None \<Rightarrow> if u \<noteq> [] \<and> list_all is_digit u
                     then Some (if neg then - digits_val u else digits_val u) else None)"

section \<open>Values\<close>

datatype jsv =
    JUndef
  | JNull
  | JBool bool
  | JNum jsnum
  | JStr string
  | JArr "jsv list"
  | JObj "(string \<times> jsv) list"

type_synonym fields = "(string \<times> jsv) list"

fun nullish :: "jsv \<Rightarrow> bool" where
  "nullish JUndef = True"
| "nullish JNull = True"
| "nullish _ = False"

fun truthy :: "jsv \<Rightarrow> bool" where
  "truthy JUndef = False"
| "truthy JNull = False"
| "truthy (JBool b) = b"
| "truthy (JNum n) = (n \<noteq> NaN \<and> n \<noteq> Fin 0)"
| "truthy (JStr s) = (s \<noteq> [])"
| "truthy (JArr _) = True"
| "truthy (JObj _) = True"

text \<open>\<open>a || b\<close> and \<open>a ?? b\<close>\<close>

definition orelse :: "jsv \<Rightarrow> jsv \<Rightarrow> jsv" where
  "orelse a b = (if truthy a then a else b)"

definition coal :: "jsv \<Rightarrow> jsv \<Rightarrow> jsv" where
  "coal a b = (if nullish a then b else a)"

text \<open>A chain \<open>a || b || c\<close> and a chain \<open>a ?? b ?? c\<close>: the last value is the default.\<close>

fun first_truthy :: "jsv list \<Rightarrow> jsv" where
  "first_truthy [] = JUndef"
| "first_truthy [v] = v"
| "first_truthy (v # vs) = (if truthy v then v else first_truthy vs)"

fun first_present :: "jsv list \<Rightarrow> jsv" where
  "first_present [] = JUndef"
| "first_present [v] = v"
| "first_present (v # vs) = (if nullish v then first_present vs else v)"

fun to_str :: "jsv \<Rightarrow> string" where
  "to_str JUndef = ''undefined''"
| "to_str JNull = ''null''"
| "to_str (JBool b) = (if b then ''true'' else ''false'')"
| "to_str (JNum n) = num_str n"
| "to_str (JStr s) = s"
| "to_str (JArr xs) = join '','' (List.map (\<lambda>v. if nullish v then [] else to_str v) xs)"
| "to_str (JObj _) = ''[object Object]''"

fun to_num :: "jsv \<Rightarrow> jsnum" where
  "to_num JUndef = NaN"
| "to_num JNull = Fin 0"
| "to_num (JBool b) = (if b then Fin 1 else Fin 0)"
| "to_num (JNum n) = n"
| "to_num (JStr s) = str_to_num s"
| "to_num (JArr xs) = str_to_num (to_str (JArr xs))"
| "to_num (JObj fs) = NaN"

text \<open>BigInt(value): \<open>None\<close> where the call throws.\<close>

fun to_bigint :: "jsv \<Rightarrow> int option" where
  "to_bigint JUndef = None"
| "to_bigint JNull = None"
| "to_bigint (JBool b) = Some (if b then 1 else 0)"
| "to_bigint (JNum n) = (case n of Fin x \<Rightarrow> if of_int \<lfloor>x\<rfloor> = x then Some \<lfloor>x\<rfloor> else None | _ \<Rightarrow> None)"
| "to_bigint (JStr s) = str_to_bigint s"
| "to_bigint (JArr xs) = str_to_bigint (to_str (JArr xs))"
| "to_bigint (JObj _) = None"

text \<open>Number.isFinite: true of finite numbers only, with no coercion.\<close>

fun is_finite :: "jsv \<Rightarrow> bool" where
  "is_finite (JNum n) = is_fin n"
| "is_finite _ = False"

text \<open>Number.isFinite, as the modules' own \<open>isFiniteNumber\<close> helpers wrap it.\<close>

definition isFiniteNumber :: "jsv \<Rightarrow> bool" where
  "isFiniteNumber value = is_finite value"

section \<open>Objects and arrays\<close>

definition fld :: "fields \<Rightarrow> string \<Rightarrow> jsv" where
  "fld fs k = (case map_of fs k of None \<Rightarrow> JUndef | Some v \<Rightarrow> v)"

fun dot :: "jsv \<Rightarrow> string \<Rightarrow> jsv" where
  "dot (JObj fs) k = fld fs k"
| "dot (JArr xs) k = (if k = ''length'' then JNum (Fin (of_nat (length xs))) else JUndef)"
| "dot (JStr s) k = (if k = ''length'' then JNum (Fin (of_nat (length s))) else JUndef)"
| "dot _ k = JUndef"

text \<open>\<open>v?.k1?.k2\<close>\<close>

definition dots :: "jsv \<Rightarrow> string list \<Rightarrow> jsv" where
  "dots v ks = foldl dot v ks"

text \<open>\<open>table[key]\<close> with a computed key\<close>

definition index :: "jsv \<Rightarrow> jsv \<Rightarrow> jsv" where
  "index v key = dot v (to_str key)"

fun fields_of :: "jsv \<Rightarrow> fields" where
  "fields_of (JObj fs) = fs"
| "fields_of _ = []"

fun elems :: "jsv \<Rightarrow> jsv list" where
  "elems (JArr xs) = xs"
| "elems _ = []"

fun is_arr :: "jsv \<Rightarrow> bool" where
  "is_arr (JArr _) = True"
| "is_arr _ = False"

fun is_string :: "jsv \<Rightarrow> bool" where
  "is_string (JStr _) = True"
| "is_string _ = False"

text \<open>\<open>typeof v === "object"\<close>\<close>

fun typeof_object :: "jsv \<Rightarrow> bool" where
  "typeof_object JNull = True"
| "typeof_object (JArr _) = True"
| "typeof_object (JObj _) = True"
| "typeof_object _ = False"

fun typeof_boolean :: "jsv \<Rightarrow> bool" where
  "typeof_boolean (JBool _) = True"
| "typeof_boolean _ = False"

text \<open>Assignment of a property, and \<open>{...a, ...b}\<close>.\<close>

definition set_fld :: "string \<Rightarrow> jsv \<Rightarrow> fields \<Rightarrow> fields" where
  "set_fld k v fs = AList.update k v fs"

definition spread :: "fields \<Rightarrow> fields \<Rightarrow> fields" where
  "spread a b = foldl (\<lambda>acc (k, v). set_fld k v acc) a b"

text \<open>\<open>===\<close>, and the relational operators with their coercions.\<close>

fun strict_eq :: "jsv \<Rightarrow> jsv \<Rightarrow> bool" where
  "strict_eq (JNum a) (JNum b) = jeq a b"
| "strict_eq (JArr _) _ = False"
| "strict_eq (JObj _) _ = False"
| "strict_eq a b = (a = b)"

definition to_prim :: "jsv \<Rightarrow> jsv" where
  "to_prim v = (case v of JArr _ \<Rightarrow> JStr (to_str v) | JObj _ \<Rightarrow> JStr (to_str v) | _ \<Rightarrow> v)"

definition vlt :: "jsv \<Rightarrow> jsv \<Rightarrow> bool" where
  "vlt a b =
     (case (to_prim a, to_prim b) of
        (JStr s, JStr t) \<Rightarrow> str_lt s t
      | (x, y) \<Rightarrow> jlt (to_num x) (to_num y))"

definition vle :: "jsv \<Rightarrow> jsv \<Rightarrow> bool" where
  "vle a b =
     (case (to_prim a, to_prim b) of
        (JStr s, JStr t) \<Rightarrow> \<not> str_lt t s
      | (x, y) \<Rightarrow> jle (to_num x) (to_num y))"

text \<open>\<open>[...names].includes(v)\<close> for a list of string constants\<close>

definition one_of :: "string list \<Rightarrow> jsv \<Rightarrow> bool" where
  "one_of names v = (case v of JStr s \<Rightarrow> s \<in> set names | _ \<Rightarrow> False)"

text \<open>A number or null, as the finiteNumber helpers return it.\<close>

definition num_or_null :: "jsnum option \<Rightarrow> jsv" where
  "num_or_null n = (case n of Some x \<Rightarrow> JNum x | None \<Rightarrow> JNull)"

definition str_or_null :: "string option \<Rightarrow> jsv" where
  "str_or_null s = (case s of Some x \<Rightarrow> JStr x | None \<Rightarrow> JNull)"

section \<open>Facts\<close>

lemma coal_simps [simp]:
  "coal JUndef b = b" "coal JNull b = b" "coal (JNum n) b = JNum n" "coal (JStr s) b = JStr s"
  "coal (JBool p) b = JBool p" "coal (JArr xs) b = JArr xs" "coal (JObj fs) b = JObj fs"
  by (simp_all add: coal_def)

lemma orelse_simps [simp]:
  "orelse JUndef b = b" "orelse JNull b = b" "orelse (JArr xs) b = JArr xs"
  "orelse (JObj fs) b = JObj fs" "orelse (JStr (c # s)) b = JStr (c # s)" "orelse (JStr []) b = b"
  "orelse (JBool True) b = JBool True" "orelse (JBool False) b = b"
  by (simp_all add: orelse_def)

lemma fld_Nil [simp]: "fld [] k = JUndef"
  by (simp add: fld_def)

lemma fld_Cons [simp]: "fld ((k', v) # fs) k = (if k' = k then v else fld fs k)"
  by (simp add: fld_def)

lemma dots_Nil [simp]: "dots v [] = v"
  by (simp add: dots_def)

lemma dots_Cons [simp]: "dots v (k # ks) = dots (dot v k) ks"
  by (simp add: dots_def)

lemma fld_set_fld: "fld (set_fld k v fs) k' = (if k' = k then v else fld fs k')"
  by (simp add: fld_def set_fld_def update_conv')

lemma fld_spread: "fld (spread a b) k = (case map_of (rev b) k of None \<Rightarrow> fld a k | Some v \<Rightarrow> v)"
  unfolding spread_def
  by (induction b rule: rev_induct) (auto simp: fld_set_fld)

lemma spread_Nil [simp]: "spread a [] = a"
  by (simp add: spread_def)

lemma is_finiteE:
  assumes "is_finite v"
  obtains x where "v = JNum (Fin x)"
  using assms by (cases v rule: is_finite.cases) (auto elim: is_finE)

lemma is_finite_iff: "is_finite v \<longleftrightarrow> (\<exists>x. v = JNum (Fin x))"
  by (auto elim: is_finiteE)

lemma is_finite_to_num: "is_finite v \<Longrightarrow> v = JNum (to_num v)"
  by (auto simp: is_finite_iff)

lemma vlt_num [simp]: "vlt (JNum a) (JNum b) = jlt a b"
  by (simp add: vlt_def to_prim_def)

lemma vle_num [simp]: "vle (JNum a) (JNum b) = jle a b"
  by (simp add: vle_def to_prim_def)

lemma one_of_simps [simp]:
  "one_of ns (JStr s) \<longleftrightarrow> s \<in> set ns" "\<not> one_of ns JUndef" "\<not> one_of ns JNull"
  "\<not> one_of ns (JNum n)" "\<not> one_of ns (JBool b)" "\<not> one_of ns (JArr xs)" "\<not> one_of ns (JObj fs)"
  by (simp_all add: one_of_def)

end
