(* ===== verification/JsDate.thy ===== *)
theory JsDate
  imports JsValue
begin

text \<open>
  Dates and the standard-library operations on lists that the policy code uses: the
  proleptic Gregorian calendar, \<open>new Date(v).getTime()\<close>, \<open>toISOString\<close>, the stable
  \<open>Array.prototype.sort\<close>, \<open>[...new Set(xs)]\<close>, and exceptions as values.

  A time value is a number of milliseconds since 1970 (NaN when invalid). Strings are read
  in the ECMAScript interchange format; any other string is an invalid date. A date-time
  without an offset is local time, and the process is taken to run in UTC. Sorting follows
  the specification for consistent comparators (stable insertion); for an inconsistent
  comparator the language leaves the order to the implementation.
\<close>

section \<open>Exceptions\<close>

datatype js_error = RangeError | TypeError | SyntaxError | ErrorMsg string

type_synonym 'a throws = "js_error + 'a"

definition and_then :: "'a throws \<Rightarrow> ('a \<Rightarrow> 'b throws) \<Rightarrow> 'b throws" where
  "and_then m k = (case m of Inl e \<Rightarrow> Inl e | Inr v \<Rightarrow> k v)"

lemma and_then_simps [simp]: "and_then (Inl e) k = Inl e" "and_then (Inr v) k = k v"
  by (simp_all add: and_then_def)

lemma and_then_Inr: "and_then m k = Inr w \<longleftrightarrow> (\<exists>v. m = Inr v \<and> k v = Inr w)"
  by (auto simp: and_then_def split: sum.splits)

fun map_throws :: "('a \<Rightarrow> 'b throws) \<Rightarrow> 'a list \<Rightarrow> 'b list throws" where
  "map_throws f [] = Inr []"
| "map_throws f (x # xs) = and_then (f x) (\<lambda>y. and_then (map_throws f xs) (\<lambda>ys. Inr (y # ys)))"

fun filter_throws :: "('a \<Rightarrow> bool throws) \<Rightarrow> 'a list \<Rightarrow> 'a list throws" where
  "filter_throws p [] = Inr []"
| "filter_throws p (x # xs) =
     and_then (p x) (\<lambda>b. and_then (filter_throws p xs) (\<lambda>ys. Inr (if b then x # ys else ys)))"

lemma filter_throws_total:
  "(\<And>x. x \<in> set xs \<Longrightarrow> p x = Inr (q x)) \<Longrightarrow> filter_throws p xs = Inr (List.filter q xs)"
  by (induction xs) auto

section \<open>Calendar\<close>

definition days_from_civil :: "int \<Rightarrow> int \<Rightarrow> int \<Rightarrow> int" where
  "days_from_civil y m d =
     (let y' = (if m \<le> 2 then y - 1 else y); era = y' div 400; yoe = y' mod 400;
          doy = (153 * ((m + 9) mod 12) + 2) div 5 + d - 1;
          doe = yoe * 365 + yoe div 4 - yoe div 100 + doy
      in era * 146097 + doe - 719468)"

definition civil_from_days :: "int \<Rightarrow> int \<times> int \<times> int" where
  "civil_from_days z =
     (let z' = z + 719468; era = z' div 146097; doe = z' mod 146097;
          yoe = (doe - doe div 1460 + doe div 36524 - doe div 146096) div 365;
          doy = doe - (365 * yoe + yoe div 4 - yoe div 100);
          mp = (5 * doy + 2) div 153;
          d = doy - (153 * mp + 2) div 5 + 1;
          m = (if mp < 10 then mp + 3 else mp - 9)
      in (yoe + era * 400 + (if m \<le> 2 then 1 else 0), m, d))"

definition ms_per_day :: int where
  "ms_per_day = 86400000"

section \<open>toISOString\<close>

definition pad :: "nat \<Rightarrow> int \<Rightarrow> string" where
  "pad w n = (let s = nat_str n in replicate (w - length s) (CHR ''0'') @ s)"

definition year_str :: "int \<Rightarrow> string" where
  "year_str y =
     (if 0 \<le> y \<and> y \<le> 9999 then pad 4 y
      else if y < 0 then ''-'' @ pad 6 (- y) else ''+'' @ pad 6 y)"

definition iso_of_ms :: "int \<Rightarrow> string" where
  "iso_of_ms t =
     (let (y, m, d) = civil_from_days (t div ms_per_day); r = t mod ms_per_day
      in year_str y @ ''-'' @ pad 2 m @ ''-'' @ pad 2 d @ ''T'' @
         pad 2 (r div 3600000) @ '':'' @ pad 2 (r div 60000 mod 60) @ '':'' @
         pad 2 (r div 1000 mod 60) @ ''.'' @ pad 3 (r mod 1000) @ ''Z'')"

definition to_iso :: "jsnum \<Rightarrow> string throws" where
  "to_iso t = (case t of Fin x \<Rightarrow> Inr (iso_of_ms \<lfloor>x\<rfloor>) | _ \<Rightarrow> Inl RangeError)"

section \<open>Reading a date\<close>

text \<open>Exactly \<open>n\<close> digits, and the rest of the string.\<close>

definition take_digits :: "nat \<Rightarrow> string \<Rightarrow> (int \<times> string) option" where
  "take_digits n s =
     (let ds = take n s
      in if length ds = n \<and> list_all is_digit ds then Some (digits_val ds, drop n s) else None)"

definition take_char :: "char \<Rightarrow> string \<Rightarrow> string option" where
  "take_char c s = (case s of [] \<Rightarrow> None | d # r \<Rightarrow> if d = c then Some r else None)"

definition read_year :: "string \<Rightarrow> (int \<times> string) option" where
  "read_year s =
     (case s of
        [] \<Rightarrow> None
      | c # r \<Rightarrow>
          if c = CHR ''+'' then take_digits 6 r
          else if c = CHR ''-'' then map_option (apfst uminus) (take_digits 6 r)
          else take_digits 4 s)"

text \<open>\<open>-mm\<close> or \<open>:ss\<close>, when present: the default and the string unchanged otherwise.\<close>

definition read_opt2 :: "char \<Rightarrow> int \<Rightarrow> string \<Rightarrow> (int \<times> string) option" where
  "read_opt2 c dflt s =
     (case take_char c s of None \<Rightarrow> Some (dflt, s) | Some r \<Rightarrow> take_digits 2 r)"

text \<open>A fraction of a second, truncated to milliseconds.\<close>

definition read_millis :: "string \<Rightarrow> (int \<times> string) option" where
  "read_millis s =
     (case take_char (CHR ''.'') s of
        None \<Rightarrow> Some (0, s)
      | Some r \<Rightarrow>
          let ds = takeWhile is_digit r
          in if ds = [] then None
             else Some (digits_val (take 3 (ds @ ''00'')), dropWhile is_digit r))"

text \<open>The offset in minutes, which must end the string.\<close>

definition read_offset :: "string \<Rightarrow> int option" where
  "read_offset s =
     (if s = [] \<or> s = ''Z'' then Some 0
      else if hd s = CHR ''+'' \<or> hd s = CHR ''-''
      then Option.bind (take_digits 2 (tl s)) (\<lambda>(h, r).
             Option.bind (take_char (CHR '':'') r) (\<lambda>r.
             Option.bind (take_digits 2 r) (\<lambda>(m, r).
               if r = [] \<and> h < 24 \<and> m < 60
               then Some ((if hd s = CHR ''-'' then - 1 else 1) * (60 * h + m)) else None)))
      else None)"

definition read_time :: "string \<Rightarrow> int option" where
  "read_time s =
     (if s = [] then Some 0
      else Option.bind (take_char (CHR ''T'') s) (\<lambda>r.
           Option.bind (take_digits 2 r) (\<lambda>(h, r).
           Option.bind (take_char (CHR '':'') r) (\<lambda>r.
           Option.bind (take_digits 2 r) (\<lambda>(mi, r).
           Option.bind (read_opt2 (CHR '':'') 0 r) (\<lambda>(sec, r).
           Option.bind (read_millis r) (\<lambda>(ms, r).
           Option.bind (read_offset r) (\<lambda>off.
             if (h < 24 \<or> h = 24 \<and> mi = 0 \<and> sec = 0 \<and> ms = 0) \<and> mi < 60 \<and> sec < 60
             then Some (h * 3600000 + mi * 60000 + sec * 1000 + ms - off * 60000) else None))))))))"

definition read_date :: "string \<Rightarrow> int option" where
  "read_date s =
     Option.bind (read_year s) (\<lambda>(y, r).
     Option.bind (read_opt2 (CHR ''-'') 1 r) (\<lambda>(m, r).
     Option.bind (read_opt2 (CHR ''-'') 1 r) (\<lambda>(d, r).
     Option.bind (read_time r) (\<lambda>t.
       if 1 \<le> m \<and> m \<le> 12 \<and> 1 \<le> d \<and> d \<le> 31
       then Some (days_from_civil y m d * ms_per_day + t) else None))))"

definition time_clip :: "int \<Rightarrow> jsnum" where
  "time_clip t = (if \<bar>t\<bar> \<le> 8640000000000000 then Fin (of_int t) else NaN)"

definition date_of_str :: "string \<Rightarrow> jsnum" where
  "date_of_str s = (case read_date s of Some t \<Rightarrow> time_clip t | None \<Rightarrow> NaN)"

definition trunc :: "rat \<Rightarrow> int" where
  "trunc x = (if 0 \<le> x then \<lfloor>x\<rfloor> else \<lceil>x\<rceil>)"

text \<open>\<open>new Date(v).getTime()\<close>\<close>

definition date_of :: "jsv \<Rightarrow> jsnum" where
  "date_of v =
     (case to_prim v of
        JStr s \<Rightarrow> date_of_str s
      | w \<Rightarrow> (case to_num w of Fin x \<Rightarrow> time_clip (trunc x) | _ \<Rightarrow> NaN))"

text \<open>\<open>new Date(v).toISOString().slice(0, 10)\<close>: throws on an invalid date.\<close>

definition dayKey :: "jsv \<Rightarrow> string throws" where
  "dayKey timestamp = and_then (to_iso (date_of timestamp)) (\<lambda>s. Inr (take 10 s))"

section \<open>Lists\<close>

text \<open>Stable insertion with a numeric comparator: \<open>x\<close> goes before the first element it precedes.\<close>

fun insert_by :: "('a \<Rightarrow> 'a \<Rightarrow> jsnum) \<Rightarrow> 'a \<Rightarrow> 'a list \<Rightarrow> 'a list" where
  "insert_by cmp x [] = [x]"
| "insert_by cmp x (y # ys) =
     (if jlt (cmp x y) (Fin 0) then x # y # ys else y # insert_by cmp x ys)"

definition sort_by :: "('a \<Rightarrow> 'a \<Rightarrow> jsnum) \<Rightarrow> 'a list \<Rightarrow> 'a list" where
  "sort_by cmp xs = foldl (\<lambda>acc x. insert_by cmp x acc) [] xs"

text \<open>\<open>[...new Set(xs)]\<close>: the first occurrence of each value, in order.\<close>

definition unique_list :: "'a list \<Rightarrow> 'a list" where
  "unique_list xs = foldl (\<lambda>acc x. if x \<in> set acc then acc else acc @ [x]) [] xs"

section \<open>Facts\<close>

lemma set_insert_by [simp]: "set (insert_by cmp x ys) = insert x (set ys)"
  by (induction ys) auto

lemma length_insert_by [simp]: "length (insert_by cmp x ys) = Suc (length ys)"
  by (induction ys) auto

lemma sort_by_Nil [simp]: "sort_by cmp [] = []"
  by (simp add: sort_by_def)

lemma sort_by_snoc [simp]: "sort_by cmp (xs @ [x]) = insert_by cmp x (sort_by cmp xs)"
  by (simp add: sort_by_def)

lemma set_sort_by [simp]: "set (sort_by cmp xs) = set xs"
  by (induction xs rule: rev_induct) auto

lemma length_sort_by [simp]: "length (sort_by cmp xs) = length xs"
  by (induction xs rule: rev_induct) auto

lemma sort_by_eq_Nil [simp]: "sort_by cmp xs = [] \<longleftrightarrow> xs = []"
  by (metis length_0_conv length_sort_by)

lemma unique_list_Nil [simp]: "unique_list [] = []"
  by (simp add: unique_list_def)

lemma unique_list_snoc [simp]:
  "unique_list (xs @ [x]) = (if x \<in> set (unique_list xs) then unique_list xs else unique_list xs @ [x])"
  by (simp add: unique_list_def)

lemma set_unique_list [simp]: "set (unique_list xs) = set xs"
  by (induction xs rule: rev_induct) auto

lemma distinct_unique_list [simp]: "distinct (unique_list xs)"
  by (induction xs rule: rev_induct) auto

lemma unique_list_eq_Nil [simp]: "unique_list xs = [] \<longleftrightarrow> xs = []"
  by (metis set_empty set_unique_list)

lemma unique_list_distinct: "distinct xs \<Longrightarrow> unique_list xs = xs"
  by (induction xs rule: rev_induct) auto

text \<open>Sorting by a finite numeric key gives an ascending list.\<close>

lemma insert_by_sorted:
  assumes "\<And>a b. jlt (cmp a b) (Fin 0) \<longleftrightarrow> key a < (key b :: rat)" "sorted (List.map key ys)"
  shows "sorted (List.map key (insert_by cmp x ys))"
  using assms(2) by (induction ys) (auto simp: assms(1))

lemma sort_by_sorted:
  assumes "\<And>a b. jlt (cmp a b) (Fin 0) \<longleftrightarrow> key a < (key b :: rat)"
  shows "sorted (List.map key (sort_by cmp xs))"
  by (induction xs rule: rev_induct) (auto intro: insert_by_sorted [OF assms])

lemma is_double_time_clip [simp]: "is_double (time_clip t)"
  using rnd_int [of t] by (auto simp: time_clip_def is_double_def)

end
