(* ===== verification/PolicyCore.thy ===== *)
theory PolicyCore
  imports JsDate
begin

text \<open>
  What the policy checks share: the result every check returns, and the contract under which
  the engine composes them. A check answers ALLOW or BLOCK with a list of blocker codes; the
  engine decides from the blocker lists alone, so the contract a check owes it is that its
  decision is BLOCK exactly when it names a blocker. Checks that can throw return a sum.
\<close>

named_theorems gate_simps \<open>unfolding rules for policy results\<close>

datatype decision = ALLOW | BLOCK

text \<open>
  The object literal a check returns. The four fields every check has are record fields; the
  others (metrics, evidence, verdicts) are kept as the remaining fields of the object.
\<close>

record policy_result =
  pr_policy :: string
  pr_observedAt :: jsv
  pr_decision :: decision
  pr_blockers :: "string list"
  pr_extra :: fields

text \<open>\<open>decision: blockers.length > 0 ? "BLOCK" : "ALLOW"\<close>\<close>

definition decide :: "string list \<Rightarrow> decision" where
  "decide blockers = (if blockers \<noteq> [] then BLOCK else ALLOW)"

definition policy_answer :: "string \<Rightarrow> jsv \<Rightarrow> string list \<Rightarrow> fields \<Rightarrow> policy_result" where
  "policy_answer name now blockers extra =
     \<lparr>pr_policy = name, pr_observedAt = now, pr_decision = decide blockers,
      pr_blockers = blockers, pr_extra = extra\<rparr>"

definition policy_allow :: "string \<Rightarrow> jsv \<Rightarrow> fields \<Rightarrow> policy_result" where
  "policy_allow name now extra =
     \<lparr>pr_policy = name, pr_observedAt = now, pr_decision = ALLOW, pr_blockers = [],
      pr_extra = extra\<rparr>"

definition policy_block :: "string \<Rightarrow> jsv \<Rightarrow> string list \<Rightarrow> fields \<Rightarrow> policy_result" where
  "policy_block name now blockers extra =
     \<lparr>pr_policy = name, pr_observedAt = now, pr_decision = BLOCK, pr_blockers = blockers,
      pr_extra = extra\<rparr>"

text \<open>\<open>if (cond) blockers.push(code)\<close>, as the list it contributes.\<close>

definition push_if :: "bool \<Rightarrow> string \<Rightarrow> string list" where
  "push_if c code = (if c then [code] else [])"

definition strs :: "string list \<Rightarrow> jsv" where
  "strs xs = JArr (List.map JStr xs)"

definition jnat :: "nat \<Rightarrow> jsv" where
  "jnat n = JNum (rnd (of_nat n))"

text \<open>
  The modules' own \<open>finiteNumber\<close> helper (ev-gate, cold-start-clamp, leverage-collateral-rule
  have the same one): Number(value) when finite, else null. Note Number(null) is 0.
\<close>

definition finiteNumber :: "jsv \<Rightarrow> jsnum option" where
  "finiteNumber value = (let parsed = to_num value in if is_fin parsed then Some parsed else None)"

fun firstFinite :: "jsv list \<Rightarrow> jsnum option" where
  "firstFinite [] = None"
| "firstFinite (candidate # rest) =
     (case finiteNumber candidate of Some parsed \<Rightarrow> Some parsed | None \<Rightarrow> firstFinite rest)"

section \<open>The contract\<close>

definition consistent :: "policy_result \<Rightarrow> bool" where
  "consistent r \<longleftrightarrow> (pr_decision r = BLOCK \<longleftrightarrow> pr_blockers r \<noteq> [])"

locale policy_gate =
  fixes gate :: "'i \<Rightarrow> policy_result"
    and name :: string
  assumes gate_named: "pr_policy (gate i) = name"
    and gate_consistent: "consistent (gate i)"
begin

lemma allow_iff_no_blockers: "pr_decision (gate i) = ALLOW \<longleftrightarrow> pr_blockers (gate i) = []"
  using gate_consistent [of i] by (cases "pr_decision (gate i)") (auto simp: consistent_def)

lemma block_iff_blockers: "pr_decision (gate i) = BLOCK \<longleftrightarrow> pr_blockers (gate i) \<noteq> []"
  using gate_consistent [of i] by (simp add: consistent_def)

end

text \<open>A check that may throw owes the contract for the results it returns.\<close>

locale throwing_gate =
  fixes tgate :: "'i \<Rightarrow> policy_result throws"
    and tname :: string
  assumes tgate_named: "tgate i = Inr r \<Longrightarrow> pr_policy r = tname"
    and tgate_consistent: "tgate i = Inr r \<Longrightarrow> consistent r"
begin

lemma tgate_allow_iff: "tgate i = Inr r \<Longrightarrow> pr_decision r = ALLOW \<longleftrightarrow> pr_blockers r = []"
  using tgate_consistent [of i r] by (cases "pr_decision r") (auto simp: consistent_def)

end

sublocale policy_gate \<subseteq> thrown: throwing_gate "\<lambda>i. Inr (gate i)" name
  by unfold_locales (auto simp: gate_named gate_consistent)

section \<open>Facts\<close>

lemma policy_answer_simps [gate_simps, simp]:
  "pr_policy (policy_answer n t b x) = n"
  "pr_observedAt (policy_answer n t b x) = t"
  "pr_decision (policy_answer n t b x) = decide b"
  "pr_blockers (policy_answer n t b x) = b"
  "pr_extra (policy_answer n t b x) = x"
  by (simp_all add: policy_answer_def)

lemma policy_allow_simps [gate_simps, simp]:
  "pr_policy (policy_allow n t x) = n"
  "pr_observedAt (policy_allow n t x) = t"
  "pr_decision (policy_allow n t x) = ALLOW"
  "pr_blockers (policy_allow n t x) = []"
  "pr_extra (policy_allow n t x) = x"
  by (simp_all add: policy_allow_def)

lemma policy_block_simps [gate_simps, simp]:
  "pr_policy (policy_block n t b x) = n"
  "pr_observedAt (policy_block n t b x) = t"
  "pr_decision (policy_block n t b x) = BLOCK"
  "pr_blockers (policy_block n t b x) = b"
  "pr_extra (policy_block n t b x) = x"
  by (simp_all add: policy_block_def)

lemma decide_eq [simp]:
  "decide b = BLOCK \<longleftrightarrow> b \<noteq> []" "decide b = ALLOW \<longleftrightarrow> b = []"
  "BLOCK = decide b \<longleftrightarrow> b \<noteq> []" "ALLOW = decide b \<longleftrightarrow> b = []"
  by (auto simp: decide_def)

lemma consistent_answer [simp]: "consistent (policy_answer n t b x)"
  by (simp add: consistent_def)

lemma consistent_allow [simp]: "consistent (policy_allow n t x)"
  by (simp add: consistent_def)

lemma consistent_block [simp]: "consistent (policy_block n t b x) \<longleftrightarrow> b \<noteq> []"
  by (simp add: consistent_def)

lemma push_if_simps [simp]:
  "push_if True c = [c]" "push_if False c = []"
  "push_if p c = [] \<longleftrightarrow> \<not> p" "x \<in> set (push_if p c) \<longleftrightarrow> p \<and> x = c"
  by (auto simp: push_if_def)

lemma finiteNumber_Some: "finiteNumber v = Some x \<longleftrightarrow> to_num v = x \<and> is_fin x"
  by (auto simp: finiteNumber_def Let_def)

lemma firstFinite_fin: "firstFinite vs = Some x \<Longrightarrow> is_fin x"
  by (induction vs) (auto simp: finiteNumber_Some split: option.splits)

end
