(* ===== verification/PolicyConfig.thy ===== *)
theory PolicyConfig
  imports PolicyCore
begin

text \<open>
  The committed configuration the policy checks read, as the objects the modules of
  src/src/config export (caps per strategy are in CapsRegistry). Values are the literals of
  the files; computed entries are computed as the files compute them.
\<close>

definition OFFICIAL_GATEWAY_DESTINATION_CHAINS :: "string list" where
  "OFFICIAL_GATEWAY_DESTINATION_CHAINS =
     [''ethereum'', ''bob'', ''base'', ''bsc'', ''avalanche'', ''unichain'', ''bera'',
      ''optimism'', ''soneium'', ''sei'', ''sonic'']"

definition SMALL_CAPITAL_DEFAULT_BUDGETS_USD_BASELINE :: jsv where
  "SMALL_CAPITAL_DEFAULT_BUDGETS_USD_BASELINE = JObj [
      (''opportunisticMaxUsd'', JNum (jint 125)),
      (''microMaxUsd'', JNum (jint 50)),
      (''initialCampaignUsd'', JNum (jint 35)),
      (''maxCampaignUsd'', JNum (jint 80)),
      (''initialMicroUsd'', JNum (jint 10)),
      (''maxMicroUsd'', JNum (jint 35))]"

definition NON_PRIMARY_ENTRY_EV_POLICY :: jsv where
  "NON_PRIMARY_ENTRY_EV_POLICY = JObj [
      (''mode'', JStr ''p90_cost_plus_sample_uncertainty_v1''),
      (''minEdgeFloorUsd'', JNum (lit 5 10)),
      (''minEdgePctOfNotional'', JNum (lit 5 1000)),
      (''sampleUncertainty'', JObj [
          (''sparseSampleMaxExclusive'', JNum (jint 10)),
          (''sparseP90Multiplier'', JNum (lit 5 10)),
          (''mediumSampleMaxExclusive'', JNum (jint 30)),
          (''mediumP90Multiplier'', JNum (lit 25 100)),
          (''establishedP90Multiplier'', JNum (lit 1 10))]),
      (''reEvaluateEveryDays'', JNum (jint 14)),
      (''expiresAt'', JStr ''2026-05-22T00:00:00.000Z'')]"

definition SMALL_CAPITAL_NON_PRIMARY_ENTRY_BASELINE :: jsv where
  "SMALL_CAPITAL_NON_PRIMARY_ENTRY_BASELINE = JObj [
      (''mode'', dot NON_PRIMARY_ENTRY_EV_POLICY ''mode''),
      (''minEdgeFloorUsd'', dot NON_PRIMARY_ENTRY_EV_POLICY ''minEdgeFloorUsd''),
      (''minEdgePctOfNotional'', dot NON_PRIMARY_ENTRY_EV_POLICY ''minEdgePctOfNotional''),
      (''sampleUncertainty'', dot NON_PRIMARY_ENTRY_EV_POLICY ''sampleUncertainty''),
      (''reEvaluateEveryDays'', dot NON_PRIMARY_ENTRY_EV_POLICY ''reEvaluateEveryDays''),
      (''expiresAt'', dot NON_PRIMARY_ENTRY_EV_POLICY ''expiresAt'')]"

definition SMALL_CAPITAL_RADAR_CAPS_BASELINE :: jsv where
  "SMALL_CAPITAL_RADAR_CAPS_BASELINE = JObj [
      (''perCanaryUsd'', JNum (jint 30)),
      (''perDayUsd'', JNum (jint 90)),
      (''cumulativeOpenUsd'', JNum (jint 200)),
      (''maxConcurrentOpen'', JNum (jint 6))]"

definition AGGRESSIVE_DEFAULT_BUDGETS_USD_BASELINE :: jsv where
  "AGGRESSIVE_DEFAULT_BUDGETS_USD_BASELINE = JObj [
      (''opportunisticMaxUsd'', JNum (jint 220)),
      (''microMaxUsd'', JNum (jint 80)),
      (''initialCampaignUsd'', JNum (jint 50)),
      (''maxCampaignUsd'', JNum (jint 140)),
      (''initialMicroUsd'', JNum (jint 15)),
      (''maxMicroUsd'', JNum (jint 60))]"

definition AGGRESSIVE_NON_PRIMARY_ENTRY_BASELINE :: jsv where
  "AGGRESSIVE_NON_PRIMARY_ENTRY_BASELINE = JObj [
      (''mode'', dot NON_PRIMARY_ENTRY_EV_POLICY ''mode''),
      (''minEdgeFloorUsd'', dot NON_PRIMARY_ENTRY_EV_POLICY ''minEdgeFloorUsd''),
      (''minEdgePctOfNotional'', dot NON_PRIMARY_ENTRY_EV_POLICY ''minEdgePctOfNotional''),
      (''sampleUncertainty'', dot NON_PRIMARY_ENTRY_EV_POLICY ''sampleUncertainty''),
      (''reEvaluateEveryDays'', dot NON_PRIMARY_ENTRY_EV_POLICY ''reEvaluateEveryDays''),
      (''expiresAt'', dot NON_PRIMARY_ENTRY_EV_POLICY ''expiresAt'')]"

definition CURRENT_EVIDENCE_PRIMARY_CHAIN_PROFILES :: jsv where
  "CURRENT_EVIDENCE_PRIMARY_CHAIN_PROFILES = JObj [
      (''base'', JObj [
          (''role'', JStr ''primary''),
          (''maxSharePct'', JNum (lit 70 100)),
          (''evidenceStatus'', JStr ''current_evidence_primary''),
          (''evidenceSource'', JStr ''live receipts, low same-chain cost, current inventory, and supported executor paths''),
          (''reviewBy'', JStr ''2026-05-16'')])]"

definition DEFAULT_CANDIDATE_CHAIN_PROFILE :: jsv where
  "DEFAULT_CANDIDATE_CHAIN_PROFILE = JObj [
      (''role'', JStr ''candidate''),
      (''maxSharePct'', JNull),
      (''evidenceStatus'', JStr ''candidate_pending_evidence''),
      (''evidenceSource'', JStr ''official Gateway destination awaiting receipt-backed primary-chain evidence''),
      (''reviewBy'', JStr ''2026-05-16'')]"

definition SMALL_CAPITAL_CHAIN_PROFILES :: jsv where
  "SMALL_CAPITAL_CHAIN_PROFILES = JObj (List.map (\<lambda>chain.
     (chain, coal (dot CURRENT_EVIDENCE_PRIMARY_CHAIN_PROFILES chain) DEFAULT_CANDIDATE_CHAIN_PROFILE))
     OFFICIAL_GATEWAY_DESTINATION_CHAINS)"

definition SMALL_CAPITAL_CAMPAIGN_MODE :: jsv where
  "SMALL_CAPITAL_CAMPAIGN_MODE = JObj [
      (''profileId'', JStr ''small_capital_campaign_mode_v1''),
      (''executionStage'', JStr ''aggressive_non_auto_cap_small_cap_v1''),
      (''autoCapRaise'', JBool False),
      (''enabled'', JBool True),
      (''autoMicroTest'', JBool True),
      (''capitalThresholdUsd'', JNum (jint 1000)),
      (''transportEffectivePerDayUsd'', JNum (jint 200)),
      (''transportEffectiveMaxDailyLossUsd'', JNum (jint 100)),
      (''anchorTargetPct'', JObj [(''min'', JNum (lit 55 100)), (''max'', JNum (lit 70 100))]),
      (''opportunisticMaxPct'', JNum (lit 30 100)),
      (''microMaxPct'', JNum (lit 10 100)),
      (''defaultBudgetsUsd'', SMALL_CAPITAL_DEFAULT_BUDGETS_USD_BASELINE),
      (''defaultBudgetsUsdBaseline'', SMALL_CAPITAL_DEFAULT_BUDGETS_USD_BASELINE),
      (''chainSelection'', JObj [
          (''mode'', JStr ''evidence_led_primary_chains''),
          (''primaryMaxSharePct'', JNum (lit 70 100)),
          (''defaultCandidateRole'', JStr ''candidate''),
          (''reviewCadenceHours'', JNum (jmul (jint 14) (jint 24))),
          (''chainProfiles'', SMALL_CAPITAL_CHAIN_PROFILES)]),
      (''nonPrimaryEntry'', SMALL_CAPITAL_NON_PRIMARY_ENTRY_BASELINE),
      (''nonPrimaryEntryBaseline'', SMALL_CAPITAL_NON_PRIMARY_ENTRY_BASELINE),
      (''nonPrimaryEntryEvPolicy'', NON_PRIMARY_ENTRY_EV_POLICY),
      (''rewardHaircuts'', JObj [
          (''stable'', JNum (lit 0 10)),
          (''liquidBluechip'', JNum (lit 25 100)),
          (''defaultRewardToken'', JNum (lit 50 100)),
          (''preTgeOrPoints'', JNum (lit 85 100))]),
      (''campaignEntry'', JObj [
          (''minHoursRemaining'', JNum (jint 24)),
          (''realizedNetBufferUsd'', JNum (jint 3)),
          (''maxGasAndClaimPctOfExpectedReward'', JNum (lit 20 100)),
          (''aprDecayExitPct'', JNum (lit 50 100)),
          (''tvlDrainExitPct'', JNum (lit 30 100)),
          (''rewardTokenDropExitPct'', JNum (lit 25 100))]),
      (''microEntry'', JObj [
          (''minSafetyScore'', JNum (jint 70)),
          (''maxNewProtocolInitialUsd'', JNum (jint 10)),
          (''maxNewProtocolAfterProofUsd'', JNum (jint 25)),
          (''observationHoursBeforeScale'', JNum (jint 48))]),
      (''clRisk'', JObj [
          (''maxEthBtcMove7dPct'', JNum (lit 15 100)),
          (''minTimeInRangePct24h'', JNum (lit 80 100)),
          (''exitWhenIlExceedsFeesHours'', JNum (jint 24))]),
      (''protocolConcentration'', JObj [
          (''defaultMaxPct'', JNum (lit 25 100)),
          (''venueMaxPctWithLiveMonitor'', JNum (lit 50 100))]),
      (''radarLane'', JObj [
          (''enabled'', JBool True),
          (''perCanaryUsd'', dot SMALL_CAPITAL_RADAR_CAPS_BASELINE ''perCanaryUsd''),
          (''perDayUsd'', dot SMALL_CAPITAL_RADAR_CAPS_BASELINE ''perDayUsd''),
          (''cumulativeOpenUsd'', dot SMALL_CAPITAL_RADAR_CAPS_BASELINE ''cumulativeOpenUsd''),
          (''maxConcurrentOpen'', dot SMALL_CAPITAL_RADAR_CAPS_BASELINE ''maxConcurrentOpen''),
          (''minRealizedPnlBufferUsd'', JNum (jint 0)),
          (''realizedDailyLossLockUsd'', JNum (jint 25)),
          (''newProtocolFirstEntryUsd'', JNum (jint 10)),
          (''capGraduationUsd'', JArr [
              JNum (jint 10),
              JNum (jint 25),
              JNum (jint 50),
              JNum (jint 80),
              JNum (jint 100)])]),
      (''radarCapsBaseline'', SMALL_CAPITAL_RADAR_CAPS_BASELINE),
      (''canaryGraduation'', JObj [
          (''enabled'', JBool True),
          (''rungsUsd'', JArr [
              JNum (jint 5),
              JNum (jint 10),
              JNum (jint 25),
              JNum (jint 50),
              JNum (jint 80)]),
          (''maxAutoGraduatedUsd'', JNum (jint 80)),
          (''ethereumMinRungUsd'', JNum (jint 25)),
          (''minDeliveredForSecondRung'', JNum (jint 1)),
          (''minDeliveredForThirdRung'', JNum (jint 2)),
          (''minPositiveRealizedForThirdRung'', JNum (jint 1)),
          (''minPositiveRealizedForFourthRung'', JNum (jint 2)),
          (''minDistinctWindowsForFourthRung'', JNum (jint 2)),
          (''minPositiveRealizedForFifthRung'', JNum (jint 3)),
          (''minDistinctWindowsForFifthRung'', JNum (jint 2)),
          (''realizedLossWindowMs'', JNum (jmul (jmul (jmul (jint 24) (jint 60)) (jint 60)) (jint 1000))),
          (''realizedDailyLossLockUsd'', JNum (jint 25)),
          (''maxSubstantiveFailures'', JNum (jint 2)),
          (''noTxSentIsNeutral'', JBool True)])]"

definition SLEEVE_PROFILES :: jsv where
  "SLEEVE_PROFILES = JObj [
      (''smallCapital_v1'', JObj [
          (''id'', JStr ''smallCapital_v1''),
          (''label'', JStr ''Current small-capital sleeve''),
          (''btcFloorPct'', JNum (lit 20 100)),
          (''nonBtcMaxPct'', JNum (lit 80 100)),
          (''capital'', JObj [
              (''canaryStartUsdMin'', JNum (jint 20)),
              (''canaryStartUsdMax'', JNum (jint 50)),
              (''reserveChain'', JStr ''base''),
              (''reserveChainTargetWalletShare'', JNum (lit 8 10)),
              (''reserveConcentrationToleranceUsd'', JNum (lit 5 10)),
              (''maxIdleCapitalPerChainUsd'', JNum (jint 60)),
              (''fragmentationDragPct'', JNum (lit 5 1000)),
              (''maxRefillCost24hUsd'', JNum (jint 12))]),
          (''smallCapitalOverrides'', JObj [
              (''profileId'', JStr ''small_capital_campaign_mode_v1''),
              (''executionStage'', JStr ''aggressive_non_auto_cap_small_cap_v1''),
              (''anchorTargetPct'', JObj [(''min'', JNum (lit 55 100)), (''max'', JNum (lit 70 100))]),
              (''opportunisticMaxPct'', JNum (lit 30 100)),
              (''microMaxPct'', JNum (lit 10 100)),
              (''defaultBudgetsUsd'', SMALL_CAPITAL_DEFAULT_BUDGETS_USD_BASELINE),
              (''chainSelection'', JObj [(''primaryMaxSharePct'', JNum (lit 70 100))]),
              (''nonPrimaryEntry'', SMALL_CAPITAL_NON_PRIMARY_ENTRY_BASELINE),
              (''protocolConcentration'', JObj [
                  (''defaultMaxPct'', JNum (lit 25 100)),
                  (''venueMaxPctWithLiveMonitor'', JNum (lit 50 100))])]),
          (''strategyCapCeilings'', JObj [
              (''onlyNonBtc'', JBool True),
              (''perTxUsd'', JNum (jint 150)),
              (''perDayUsd'', JNum (jint 300)),
              (''tinyLivePerTxUsd'', JNum (jint 50)),
              (''perChainUsd'', JObj [
                  (''default'', JNum (jint 150)),
                  (''base'', JNum (jint 200)),
                  (''ethereum'', JNum (jint 125)),
                  (''bob'', JNum (jint 75))])]),
          (''diversification'', JObj [
              (''perStrategyMaxShare'', JNum (lit 25 100)),
              (''perChainMaxShare'', JNum (lit 35 100)),
              (''perProtocolMaxShare'', JNum (lit 30 100)),
              (''hhiMax'', JNum (lit 30 100)),
              (''bobL2DirectMaxShare'', JNum (lit 10 100)),
              (''minSharesForHhi'', JNum (jint 2))]),
          (''portfolioExposure'', JObj [
              (''profileId'', JStr ''aggressive_non_btc_payback_v1''),
              (''maxProtocolSharePct'', JNum (lit 25 100)),
              (''maxDefaultChainSharePct'', JNum (lit 20 100)),
              (''chainSharePct'', JObj [(''ethereum'', JNum (lit 50 100)), (''bob'', JNum (lit 10 100))]),
              (''minBtcDenominatedSharePct'', JNum (lit 20 100)),
              (''maxNonBtcDenominatedSharePct'', JNum (lit 80 100))]),
          (''radarCaps'', SMALL_CAPITAL_RADAR_CAPS_BASELINE)]),
      (''aggressive_v1'', JObj [
          (''id'', JStr ''aggressive_v1''),
          (''label'', JStr ''Aggressive non-BTC sleeve''),
          (''btcFloorPct'', JNum (lit 20 100)),
          (''nonBtcMaxPct'', JNum (lit 80 100)),
          (''capital'', JObj [
              (''canaryStartUsdMin'', JNum (jint 25)),
              (''canaryStartUsdMax'', JNum (jint 80)),
              (''reserveChain'', JStr ''base''),
              (''reserveChainTargetWalletShare'', JNum (lit 8 10)),
              (''reserveConcentrationToleranceUsd'', JNum (lit 5 10)),
              (''maxIdleCapitalPerChainUsd'', JNum (jint 120)),
              (''fragmentationDragPct'', JNum (lit 5 1000)),
              (''maxRefillCost24hUsd'', JNum (jint 18))]),
          (''smallCapitalOverrides'', JObj [
              (''profileId'', JStr ''small_capital_campaign_mode_aggressive_v1''),
              (''executionStage'', JStr ''aggressive_non_btc_allocation_v1''),
              (''anchorTargetPct'', JObj [(''min'', JNum (lit 20 100)), (''max'', JNum (lit 45 100))]),
              (''opportunisticMaxPct'', JNum (lit 55 100)),
              (''microMaxPct'', JNum (lit 15 100)),
              (''defaultBudgetsUsd'', AGGRESSIVE_DEFAULT_BUDGETS_USD_BASELINE),
              (''chainSelection'', JObj [(''primaryMaxSharePct'', JNum (lit 80 100))]),
              (''nonPrimaryEntry'', AGGRESSIVE_NON_PRIMARY_ENTRY_BASELINE),
              (''protocolConcentration'', JObj [
                  (''defaultMaxPct'', JNum (lit 30 100)),
                  (''venueMaxPctWithLiveMonitor'', JNum (lit 55 100))])]),
          (''strategyCapCeilings'', JObj [
              (''onlyNonBtc'', JBool True),
              (''perTxUsd'', JNum (jint 200)),
              (''perDayUsd'', JNum (jint 600)),
              (''tinyLivePerTxUsd'', JNum (jint 100)),
              (''perChainUsd'', JObj [
                  (''default'', JNum (jint 300)),
                  (''base'', JNum (jint 400)),
                  (''ethereum'', JNum (jint 250)),
                  (''bob'', JNum (jint 125))])]),
          (''diversification'', JObj [
              (''perStrategyMaxShare'', JNum (lit 30 100)),
              (''perChainMaxShare'', JNum (lit 45 100)),
              (''perProtocolMaxShare'', JNum (lit 35 100)),
              (''hhiMax'', JNum (lit 35 100)),
              (''bobL2DirectMaxShare'', JNum (lit 15 100)),
              (''minSharesForHhi'', JNum (jint 2))]),
          (''portfolioExposure'', JObj [
              (''profileId'', JStr ''aggressive_non_btc_payback_v1''),
              (''maxProtocolSharePct'', JNum (lit 30 100)),
              (''maxDefaultChainSharePct'', JNum (lit 25 100)),
              (''chainSharePct'', JObj [(''ethereum'', JNum (lit 60 100)), (''bob'', JNum (lit 15 100))]),
              (''minBtcDenominatedSharePct'', JNum (lit 20 100)),
              (''maxNonBtcDenominatedSharePct'', JNum (lit 80 100))]),
          (''radarCaps'', SMALL_CAPITAL_RADAR_CAPS_BASELINE)])]"

definition TINY_CANARY_COST_POLICY :: jsv where
  "TINY_CANARY_COST_POLICY = JObj [
      (''defaultSameChainRoundTripCostUsd'', JNum (lit 12 100)),
      (''sameChainRoundTripCostUsdByChain'', JObj [
          (''base'', JNum (lit 12 1000)),
          (''bob'', JNum (lit 3 1000)),
          (''optimism'', JNum (lit 3 1000)),
          (''unichain'', JNum (lit 3 1000)),
          (''sei'', JNum (lit 3 1000)),
          (''soneium'', JNum (lit 3 1000)),
          (''sonic'', JNum (lit 3 1000)),
          (''avalanche'', JNum (lit 3 1000)),
          (''bera'', JNum (lit 3 1000)),
          (''bsc'', JNum (lit 3 100)),
          (''ethereum'', JNum (lit 36 100))]),
      (''safetyFactor'', JNum (lit 5 10)),
      (''fallbackHoldDays'', JNum (jint 7))]"

definition EXECUTION_EV_COST_POLICY :: jsv where
  "EXECUTION_EV_COST_POLICY = JObj [
      (''lookbackDays'', JNum (jint 90)),
      (''minSamples'', JNum (jint 10)),
      (''costPercentile'', JNum (lit 9 10)),
      (''costMultiplier'', JNum (jint 1)),
      (''minProfitFloorUsd'', JNum (jint 0)),
      (''defaultP99CostUsd'', JNum (lit 12 100)),
      (''p99CostUsdByChain'', JObj [
          (''avalanche'', JNum (lit 81 1000)),
          (''base'', JNum (lit 85 100)),
          (''bera'', JNum (lit 1 10)),
          (''bob'', JNum (lit 425 100)),
          (''bsc'', JNum (lit 67 1000)),
          (''ethereum'', JNum (lit 852 100)),
          (''optimism'', JNum (lit 2 1000)),
          (''sei'', JNum (lit 921 100)),
          (''soneium'', JNum (lit 57 1000)),
          (''sonic'', JNum (lit 1 1000)),
          (''unichain'', JNum (lit 2 1000))])]"

definition EV_MARGIN_FLOOR_POLICY :: jsv where
  "EV_MARGIN_FLOOR_POLICY = JObj [
      (''enabled'', JBool True),
      (''defaultMinRatio'', JNum (lit 15 10)),
      (''minRatioByChain'', JObj []),
      (''minRatioByRoute'', JObj [])]"

definition BROADCAST_BUDGET_POLICY :: jsv where
  "BROADCAST_BUDGET_POLICY = JObj [
      (''enabled'', JBool True),
      (''scopedLifecycleStages'', JArr [JStr ''refill'', JStr ''discovery_probe'', JStr ''idle_consolidation_planned'']),
      (''maxDailyGasUsd'', JNull),
      (''dailyGasBurnFractionCap'', JNull),
      (''operatorReviewRequired'', JBool True)]"

definition AUTO_KILL_DEFAULTS :: jsv where
  "AUTO_KILL_DEFAULTS = JObj [
      (''cumulativeLoss'', JObj [
          (''enabled'', JBool True),
          (''windowMs'', JNum (jmul (jmul (jmul (jint 24) (jint 60)) (jint 60)) (jint 1000))),
          (''thresholdUsd'', JNum (jint 1000)),
          (''operatingCapitalFractionFloor'', JNum (lit 5 100))]),
      (''failureBurst'', JObj [
          (''enabled'', JBool True),
          (''windowMs'', JNum (jmul (jmul (jint 5) (jint 60)) (jint 1000))),
          (''failureCount'', JNum (jint 8)),
          (''perStrategyFailureCount'', JNum (jint 5))]),
      (''oracleDivergence'', JObj [
          (''enabled'', JBool True),
          (''maxDivergencePct'', JNum (lit 5 100)),
          (''minSourceCount'', JNum (jint 2))]),
      (''heartbeat'', JObj [(''enabled'', JBool True), (''maxAgeMs'', JNum (jint 60000))]),
      (''relativePriceMove'', JObj [
          (''enabled'', JBool True),
          (''windowMs'', JNum (jmul (jmul (jmul (jmul (jint 7) (jint 24)) (jint 60)) (jint 60)) (jint 1000))),
          (''maxCurrentAgeMs'', JNum (jmul (jmul (jint 30) (jint 60)) (jint 1000))),
          (''maxMovePct'', JNum (lit 15 100)),
          (''pair'', JStr ''ETH/BTC'')]),
      (''clRangeHealth'', JObj [
          (''enabled'', JBool True),
          (''minTimeInRangePct24h'', JNum (lit 80 100)),
          (''maxIlExceedsFeesHours'', JNum (jint 24))]),
      (''protocolIncident'', JObj [(''enabled'', JBool True), (''incidentFilePath'', JNull)]),
      (''campaignDecay'', JObj [
          (''enabled'', JBool True),
          (''aprDecayExitPct'', JNum (lit 50 100)),
          (''tvlDrainExitPct'', JNum (lit 30 100)),
          (''rewardTokenDropExitPct'', JNum (lit 25 100))])]"

definition GATEWAY_POLICY :: jsv where
  "GATEWAY_POLICY = JObj [
      (''enabled'', JBool True),
      (''apiBase'', JStr ''https://gateway-api.gobob.xyz''),
      (''pausedReason'', JNull),
      (''pausedSince'', JNull),
      (''stateFile'', JStr ''state/gateway.disabled''),
      (''healthProbeIntervalSeconds'', JNum (jint 300)),
      (''consecutiveFailuresToDisable'', JNum (jint 2))]"

definition RESET_GATEWAY_NATIVE_ASSET_CONVERSION :: jsv where
  "RESET_GATEWAY_NATIVE_ASSET_CONVERSION = JObj [
      (''resetReason'', JStr ''cold-start canary gate and proof path fixed after pre-reset broadcast failures''),
      (''evidenceRef'', JStr ''f6a3fb14ee3d25741e07b21d13d4ccd7ad7575b5''),
      (''resetAt'', JStr ''2026-05-09T02:06:00.000Z'')]"

definition RESET_RECURSIVE_WRAPPED_BTC_LENDING_LOOP :: jsv where
  "RESET_RECURSIVE_WRAPPED_BTC_LENDING_LOOP = JObj [
      (''resetReason'', JStr ''yield EV evidence path fixed after pre-reset Moonwell canary failures''),
      (''evidenceRef'', JStr ''49d350c87d60e5db16f7a2af6ac996f30e7e2174''),
      (''resetAt'', JStr ''2026-05-09T03:26:15.000Z'')]"

definition STRATEGY_PAUSE_STATE :: jsv where
  "STRATEGY_PAUSE_STATE = JObj [
      (''paused'', JObj []),
      (''reset'', JObj [
          (''gateway_native_asset_conversion_sleeve'', RESET_GATEWAY_NATIVE_ASSET_CONVERSION),
          (''recursive_wrapped_btc_lending_loop'', RESET_RECURSIVE_WRAPPED_BTC_LENDING_LOOP)])]"

definition perCategoryDailyUsd :: jsv where
  "perCategoryDailyUsd = JObj [
      (''probe'', JNum (jint 3)),
      (''refuel'', JNum (jint 5)),
      (''bridge'', JNum (jint 10)),
      (''consolidation'', JNum (jint 5))]"

definition CHAIN_AWARE_QUOTE_TTLS_MS :: jsv where
  "CHAIN_AWARE_QUOTE_TTLS_MS = JObj [
      (''ethereum'', JNum (jint 90000)),
      (''bitcoin'', JNum (jint 120000)),
      (''base'', JNum (jint 30000)),
      (''bob'', JNum (jint 30000)),
      (''avalanche'', JNum (jint 30000)),
      (''bera'', JNum (jint 30000)),
      (''bsc'', JNum (jint 30000)),
      (''optimism'', JNum (jint 30000)),
      (''sei'', JNum (jint 30000)),
      (''soneium'', JNum (jint 30000)),
      (''sonic'', JNum (jint 30000)),
      (''unichain'', JNum (jint 30000))]"

definition FALLBACK_DISCRETIONARY_24H_BUDGET_USD_BY_CATEGORY :: jsv where
  "FALLBACK_DISCRETIONARY_24H_BUDGET_USD_BY_CATEGORY = JObj [
      (''probe'', JNum (lit 30 10)),
      (''refuel'', JNum (lit 50 10)),
      (''bridge'', JNum (lit 100 10)),
      (''consolidation'', JNum (lit 50 10))]"



text \<open>Runtime profile and the policies computed from it.\<close>

definition ACTIVE_SLEEVE_PROFILE :: jsv where
  "ACTIVE_SLEEVE_PROFILE = dot SLEEVE_PROFILES ''smallCapital_v1''"

definition evidencePrimaryChainShareOverrides :: "jsv \<Rightarrow> jsv" where
  "evidencePrimaryChainShareOverrides policy =
     JObj (List.map (\<lambda>(chain, profile). (chain, dot profile ''maxSharePct''))
       (List.filter (\<lambda>(_, profile). is_finite (dot profile ''maxSharePct'')
            \<and> vlt (JNum (Fin 0)) (dot profile ''maxSharePct''))
         (List.filter (\<lambda>(_, profile). dot profile ''role'' = JStr ''primary'')
           (fields_of (dots policy [''chainSelection'', ''chainProfiles''])))))"

definition PORTFOLIO_EXPOSURE_POLICY :: jsv where
  "PORTFOLIO_EXPOSURE_POLICY =
     (let overrides = orelse (dot ACTIVE_SLEEVE_PROFILE ''portfolioExposure'') (JObj [])
      in JObj [
        (''profileId'', orelse (dot overrides ''profileId'') (JStr ''aggressive_non_btc_payback_v1'')),
        (''maxProtocolSharePct'', coal (dot overrides ''maxProtocolSharePct'') (JNum (lit 25 100))),
        (''chainSelectionMode'', dots SMALL_CAPITAL_CAMPAIGN_MODE [''chainSelection'', ''mode'']),
        (''maxDefaultChainSharePct'',
          coal (dot overrides ''maxDefaultChainSharePct'') (JNum (lit 20 100))),
        (''chainSharePct'',
          JObj (spread (fields_of (evidencePrimaryChainShareOverrides SMALL_CAPITAL_CAMPAIGN_MODE))
            (fields_of (orelse (dot overrides ''chainSharePct'') (JObj []))))),
        (''minBtcDenominatedSharePct'',
          coal (dot overrides ''minBtcDenominatedSharePct'') (JNum (lit 20 100))),
        (''maxNonBtcDenominatedSharePct'',
          coal (dot overrides ''maxNonBtcDenominatedSharePct'') (JNum (lit 80 100)))])"

definition DIVERSIFICATION_POLICY :: jsv where
  "DIVERSIFICATION_POLICY =
     (let overrides = orelse (dot ACTIVE_SLEEVE_PROFILE ''diversification'') (JObj [])
      in JObj [
        (''perStrategyMaxShare'', coal (dot overrides ''perStrategyMaxShare'') (JNum (lit 25 100))),
        (''perChainMaxShare'', coal (dot overrides ''perChainMaxShare'') (JNum (lit 35 100))),
        (''chainSelectionMode'', dots SMALL_CAPITAL_CAMPAIGN_MODE [''chainSelection'', ''mode'']),
        (''perChainMaxShareByChain'', evidencePrimaryChainShareOverrides SMALL_CAPITAL_CAMPAIGN_MODE),
        (''perProtocolMaxShare'', coal (dot overrides ''perProtocolMaxShare'') (JNum (lit 30 100))),
        (''hhiMax'', coal (dot overrides ''hhiMax'') (JNum (lit 30 100))),
        (''bobL2DirectMaxShare'', coal (dot overrides ''bobL2DirectMaxShare'') (JNum (lit 10 100))),
        (''minSharesForHhi'', coal (dot overrides ''minSharesForHhi'') (JNum (jint 2)))])"

end
