(* ===== verification/CapsRegistry.thy ===== *)
theory CapsRegistry
  imports JsDate
begin

text \<open>
  The committed per-strategy caps table, \<open>STRATEGY_CAPS\<close> of
  src/src/config/strategy-caps/registry.mjs: one definition per strategy, in the order of the
  file, and the table itself. Numbers are binary64 literals (\<open>jint\<close>, \<open>lit\<close>).
\<close>

definition DEFAULT_FAILED_GAS_COST_24H_USD :: jsnum where
  "DEFAULT_FAILED_GAS_COST_24H_USD = jint 3"

definition caps_gateway_instant_swap_verification :: jsv where
  "caps_gateway_instant_swap_verification = JObj [
      (''strategyId'', JStr ''gateway-instant-swap-verification''),
      (''label'', JStr ''BOB Gateway / Instant Swap quote verification''),
      (''autoExecute'', JBool False),
      (''intentTtlMs'', JNum (jint 30000)),
      (''caps'', JObj [
          (''perTxUsd'', JNum (jint 25)),
          (''perDayUsd'', JNum (jint 300)),
          (''perChainUsd'', JObj [
              (''bob'', JNum (jint 1000000)),
              (''base'', JNum (jint 1000000)),
              (''ethereum'', JNum (jint 1000000))]),
          (''maxDailyLossUsd'', JNum (jint 25)),
          (''maxFailedGasCost24hUsd'', JNum DEFAULT_FAILED_GAS_COST_24H_USD)]),
      (''gasFloat'', JObj [
          (''bob'', JObj [(''minUsd'', JNum (jint 8)), (''targetUsd'', JNum (jint 15))]),
          (''base'', JObj [(''minUsd'', JNum (jint 6)), (''targetUsd'', JNum (jint 12))]),
          (''ethereum'', JObj [(''minUsd'', JNum (jint 15)), (''targetUsd'', JNum (jint 30))])])]"

definition caps_gateway_btc_funding_transfer :: jsv where
  "caps_gateway_btc_funding_transfer = JObj [
      (''strategyId'', JStr ''gateway-btc-funding-transfer''),
      (''label'', JStr ''Gateway BTC funding transfer''),
      (''autoExecute'', JBool True),
      (''intentTtlMs'', JNum (jint 60000)),
      (''exposure'', JObj [
          (''protocols'', JArr [JStr ''gateway'']),
          (''assetFamily'', JStr ''btc_wrappers''),
          (''btcDenominated'', JBool True)]),
      (''caps'', JObj [
          (''perTxUsd'', JNum (jint 75)),
          (''perDayUsd'', JNum (jint 1000000)),
          (''perChainUsd'', JObj [
              (''bob'', JNum (jint 1000000)),
              (''avalanche'', JNum (jint 1000000)),
              (''bera'', JNum (jint 1000000)),
              (''bsc'', JNum (jint 1000000)),
              (''ethereum'', JNum (jint 75)),
              (''sonic'', JNum (jint 1000000)),
              (''soneium'', JNum (jint 1000000)),
              (''base'', JNum (jint 75)),
              (''unichain'', JNum (jint 1000000))]),
          (''maxDailyLossUsd'', JNum (jint 1000000)),
          (''maxFailedGasCost24hUsd'', JNum DEFAULT_FAILED_GAS_COST_24H_USD),
          (''tinyLivePerTxUsd'', JNum (jint 25))]),
      (''gasFloat'', JObj [
          (''bob'', JObj [(''minUsd'', JNum (jint 3)), (''targetUsd'', JNum (jint 6))]),
          (''avalanche'', JObj [(''minUsd'', JNum (jint 3)), (''targetUsd'', JNum (jint 6))]),
          (''bera'', JObj [(''minUsd'', JNum (jint 3)), (''targetUsd'', JNum (jint 6))]),
          (''bsc'', JObj [(''minUsd'', JNum (jint 3)), (''targetUsd'', JNum (jint 6))]),
          (''ethereum'', JObj [(''minUsd'', JNum (jint 10)), (''targetUsd'', JNum (jint 20))]),
          (''sonic'', JObj [(''minUsd'', JNum (jint 3)), (''targetUsd'', JNum (jint 6))]),
          (''soneium'', JObj [(''minUsd'', JNum (jint 3)), (''targetUsd'', JNum (jint 6))]),
          (''base'', JObj [(''minUsd'', JNum (jint 3)), (''targetUsd'', JNum (jint 6))]),
          (''unichain'', JObj [(''minUsd'', JNum (jint 3)), (''targetUsd'', JNum (jint 6))])])]"

definition caps_gateway_btc_onramp :: jsv where
  "caps_gateway_btc_onramp = JObj [
      (''strategyId'', JStr ''gateway-btc-onramp''),
      (''label'', JStr ''Gateway BTC onramp''),
      (''autoExecute'', JBool True),
      (''intentTtlMs'', JNum (jint 60000)),
      (''exposure'', JObj [
          (''protocols'', JArr [JStr ''gateway'']),
          (''assetFamily'', JStr ''btc_wrappers''),
          (''btcDenominated'', JBool True)]),
      (''caps'', JObj [
          (''perTxUsd'', JNum (jint 500)),
          (''perDayUsd'', JNum (jint 2000)),
          (''perChainUsd'', JObj [(''bitcoin'', JNum (jint 1000000)), (''base'', JNum (jint 1000000))]),
          (''maxDailyLossUsd'', JNum (jint 1000000)),
          (''maxFailedGasCost24hUsd'', JNum DEFAULT_FAILED_GAS_COST_24H_USD),
          (''tinyLivePerTxUsd'', JNum (jint 25))]),
      (''gasFloat'', JObj [(''base'', JObj [(''minUsd'', JNum (jint 3)), (''targetUsd'', JNum (jint 6))])])]"

definition caps_gateway_btc_offramp :: jsv where
  "caps_gateway_btc_offramp = JObj [
      (''strategyId'', JStr ''gateway-btc-offramp''),
      (''label'', JStr ''Gateway BTC offramp''),
      (''autoExecute'', JBool True),
      (''intentTtlMs'', JNum (jint 60000)),
      (''exposure'', JObj [
          (''protocols'', JArr [JStr ''gateway'']),
          (''assetFamily'', JStr ''btc_wrappers''),
          (''btcDenominated'', JBool True)]),
      (''caps'', JObj [
          (''perTxUsd'', JNum (jint 50)),
          (''perDayUsd'', JNum (jint 1000000)),
          (''perChainUsd'', JObj [
              (''bob'', JNum (jint 1000000)),
              (''base'', JNum (jint 2000)),
              (''avalanche'', JNum (jint 1000000)),
              (''bera'', JNum (jint 1000000)),
              (''bsc'', JNum (jint 1000000)),
              (''ethereum'', JNum (jint 1000000)),
              (''soneium'', JNum (jint 1000000)),
              (''sonic'', JNum (jint 1000000)),
              (''unichain'', JNum (jint 1000000))]),
          (''maxDailyLossUsd'', JNum (jint 1000000)),
          (''maxFailedGasCost24hUsd'', JNum DEFAULT_FAILED_GAS_COST_24H_USD)]),
      (''gasFloat'', JObj [
          (''bob'', JObj [(''minUsd'', JNum (jint 3)), (''targetUsd'', JNum (jint 6))]),
          (''base'', JObj [(''minUsd'', JNum (jint 3)), (''targetUsd'', JNum (jint 6))]),
          (''avalanche'', JObj [(''minUsd'', JNum (jint 3)), (''targetUsd'', JNum (jint 6))]),
          (''bera'', JObj [(''minUsd'', JNum (jint 3)), (''targetUsd'', JNum (jint 6))]),
          (''bsc'', JObj [(''minUsd'', JNum (jint 3)), (''targetUsd'', JNum (jint 6))]),
          (''ethereum'', JObj [(''minUsd'', JNum (jint 10)), (''targetUsd'', JNum (jint 20))]),
          (''soneium'', JObj [(''minUsd'', JNum (jint 3)), (''targetUsd'', JNum (jint 6))]),
          (''sonic'', JObj [(''minUsd'', JNum (jint 3)), (''targetUsd'', JNum (jint 6))]),
          (''unichain'', JObj [(''minUsd'', JNum (jint 3)), (''targetUsd'', JNum (jint 6))])])]"

definition caps_gas_zip_native_refuel :: jsv where
  "caps_gas_zip_native_refuel = JObj [
      (''strategyId'', JStr ''gas-zip-native-refuel''),
      (''label'', JStr ''Gas.Zip native gas refuel fallback''),
      (''autoExecute'', JBool True),
      (''intentTtlMs'', JNum (jint 60000)),
      (''exposure'', JObj [
          (''protocols'', JArr [JStr ''gas_zip'']),
          (''assetFamily'', JStr ''native_gas''),
          (''btcDenominated'', JBool False)]),
      (''caps'', JObj [
          (''perTxUsd'', JNum (jint 20)),
          (''perDayUsd'', JNum (jint 1000000)),
          (''perChainUsd'', JObj [
              (''bob'', JNum (jint 1000000)),
              (''avalanche'', JNum (jint 1000000)),
              (''bera'', JNum (jint 1000000)),
              (''bsc'', JNum (jint 1000000)),
              (''ethereum'', JNum (jint 1000000)),
              (''optimism'', JNum (jint 1000000)),
              (''sei'', JNum (jint 1000000)),
              (''soneium'', JNum (jint 1000000)),
              (''sonic'', JNum (jint 1000000)),
              (''base'', JNum (jint 25)),
              (''unichain'', JNum (jint 1000000))]),
          (''maxDailyLossUsd'', JNum (jint 1000000)),
          (''maxFailedGasCost24hUsd'', JNum DEFAULT_FAILED_GAS_COST_24H_USD)]),
      (''gasFloat'', JObj [
          (''bob'', JObj [(''minUsd'', JNum (jint 3)), (''targetUsd'', JNum (jint 6))]),
          (''avalanche'', JObj [(''minUsd'', JNum (jint 3)), (''targetUsd'', JNum (jint 6))]),
          (''bera'', JObj [(''minUsd'', JNum (jint 3)), (''targetUsd'', JNum (jint 6))]),
          (''bsc'', JObj [(''minUsd'', JNum (jint 3)), (''targetUsd'', JNum (jint 6))]),
          (''ethereum'', JObj [(''minUsd'', JNum (jint 10)), (''targetUsd'', JNum (jint 20))]),
          (''optimism'', JObj [(''minUsd'', JNum (jint 3)), (''targetUsd'', JNum (jint 6))]),
          (''sei'', JObj [(''minUsd'', JNum (jint 3)), (''targetUsd'', JNum (jint 6))]),
          (''soneium'', JObj [(''minUsd'', JNum (jint 3)), (''targetUsd'', JNum (jint 6))]),
          (''sonic'', JObj [(''minUsd'', JNum (jint 3)), (''targetUsd'', JNum (jint 6))]),
          (''base'', JObj [(''minUsd'', JNum (jint 3)), (''targetUsd'', JNum (jint 6))]),
          (''unichain'', JObj [(''minUsd'', JNum (jint 3)), (''targetUsd'', JNum (jint 6))])])]"

definition caps_native_gas_refill :: jsv where
  "caps_native_gas_refill = JObj [
      (''strategyId'', JStr ''native-gas-refill''),
      (''label'', JStr ''Same-chain native gas refill''),
      (''autoExecute'', JBool True),
      (''resumeAfterFailureAt'', JStr ''2026-05-02T09:37:30.000Z''),
      (''intentTtlMs'', JNum (jint 60000)),
      (''exposure'', JObj [
          (''protocols'', JArr [JStr ''wrapped_native'', JStr ''odos'']),
          (''assetFamily'', JStr ''native_gas''),
          (''btcDenominated'', JBool False)]),
      (''caps'', JObj [
          (''perTxUsd'', JNum (jint 20)),
          (''perDayUsd'', JNum (jint 150)),
          (''perChainUsd'', JObj [
              (''bob'', JNum (jint 45)),
              (''avalanche'', JNum (jint 45)),
              (''bera'', JNum (jint 45)),
              (''bsc'', JNum (jint 45)),
              (''ethereum'', JNum (jint 45)),
              (''optimism'', JNum (jint 45)),
              (''sei'', JNum (jint 45)),
              (''soneium'', JNum (jint 45)),
              (''sonic'', JNum (jint 45)),
              (''base'', JNum (jint 45)),
              (''unichain'', JNum (jint 45))]),
          (''maxDailyLossUsd'', JNum (jint 25)),
          (''maxFailedGasCost24hUsd'', JNum DEFAULT_FAILED_GAS_COST_24H_USD)]),
      (''gasFloat'', JObj [
          (''bob'', JObj [(''minUsd'', JNum (jint 3)), (''targetUsd'', JNum (jint 6))]),
          (''avalanche'', JObj [(''minUsd'', JNum (jint 3)), (''targetUsd'', JNum (jint 6))]),
          (''bera'', JObj [(''minUsd'', JNum (jint 3)), (''targetUsd'', JNum (jint 6))]),
          (''bsc'', JObj [(''minUsd'', JNum (jint 3)), (''targetUsd'', JNum (jint 6))]),
          (''ethereum'', JObj [(''minUsd'', JNum (jint 10)), (''targetUsd'', JNum (jint 20))]),
          (''optimism'', JObj [(''minUsd'', JNum (jint 3)), (''targetUsd'', JNum (jint 6))]),
          (''sei'', JObj [(''minUsd'', JNum (jint 3)), (''targetUsd'', JNum (jint 6))]),
          (''soneium'', JObj [(''minUsd'', JNum (jint 3)), (''targetUsd'', JNum (jint 6))]),
          (''sonic'', JObj [(''minUsd'', JNum (jint 3)), (''targetUsd'', JNum (jint 6))]),
          (''base'', JObj [(''minUsd'', JNum (jint 3)), (''targetUsd'', JNum (jint 6))]),
          (''unichain'', JObj [(''minUsd'', JNum (jint 3)), (''targetUsd'', JNum (jint 6))])])]"

definition caps_across_bridge :: jsv where
  "caps_across_bridge = JObj [
      (''strategyId'', JStr ''across-bridge''),
      (''label'', JStr ''Across v3 cross-chain bridge (Gateway fallback)''),
      (''autoExecute'', JBool True),
      (''intentTtlMs'', JNum (jint 60000)),
      (''exposure'', JObj [
          (''protocols'', JArr [JStr ''across'']),
          (''assetFamily'', JStr ''cross_chain''),
          (''btcDenominated'', JBool False)]),
      (''caps'', JObj [
          (''perTxUsd'', JNum (jint 500)),
          (''perDayUsd'', JNum (jint 5000)),
          (''perChainUsd'', JObj [
              (''base'', JNum (jint 5000)),
              (''optimism'', JNum (jint 5000)),
              (''unichain'', JNum (jint 5000)),
              (''ethereum'', JNum (jint 5000)),
              (''arbitrum'', JNum (jint 5000)),
              (''polygon'', JNum (jint 5000))]),
          (''maxDailyLossUsd'', JNum (jint 200)),
          (''maxFailedGasCost24hUsd'', JNum DEFAULT_FAILED_GAS_COST_24H_USD)]),
      (''gasFloat'', JObj [
          (''base'', JObj [(''minUsd'', JNum (jint 3)), (''targetUsd'', JNum (jint 6))]),
          (''optimism'', JObj [(''minUsd'', JNum (jint 3)), (''targetUsd'', JNum (jint 6))]),
          (''unichain'', JObj [(''minUsd'', JNum (jint 3)), (''targetUsd'', JNum (jint 6))]),
          (''ethereum'', JObj [(''minUsd'', JNum (jint 10)), (''targetUsd'', JNum (jint 20))]),
          (''arbitrum'', JObj [(''minUsd'', JNum (jint 3)), (''targetUsd'', JNum (jint 6))]),
          (''polygon'', JObj [(''minUsd'', JNum (jint 3)), (''targetUsd'', JNum (jint 6))])])]"

definition caps_lifi_bridge :: jsv where
  "caps_lifi_bridge = JObj [
      (''strategyId'', JStr ''lifi-bridge''),
      (''label'', JStr ''LI.FI cross-chain bridge fallback''),
      (''autoExecute'', JBool True),
      (''resumeAfterFailureAt'', JStr ''2026-04-27T01:18:00.000Z''),
      (''intentTtlMs'', JNum (jint 60000)),
      (''exposure'', JObj [
          (''protocols'', JArr [JStr ''lifi'']),
          (''assetFamily'', JStr ''cross_chain''),
          (''btcDenominated'', JBool False)]),
      (''caps'', JObj [
          (''perTxUsd'', JNum (jint 125)),
          (''perDayUsd'', JNum (jint 500)),
          (''perChainUsd'', JObj [
              (''avalanche'', JNum (jint 300)),
              (''bsc'', JNum (jint 500)),
              (''base'', JNum (jint 500)),
              (''bob'', JNum (jint 150)),
              (''bera'', JNum (jint 150)),
              (''ethereum'', JNum (jint 300)),
              (''optimism'', JNum (jint 150)),
              (''sei'', JNum (jint 150)),
              (''soneium'', JNum (jint 150)),
              (''sonic'', JNum (jint 150)),
              (''unichain'', JNum (jint 150))]),
          (''maxDailyLossUsd'', JNum (jint 25)),
          (''maxFailedGasCost24hUsd'', JNum DEFAULT_FAILED_GAS_COST_24H_USD)]),
      (''gasFloat'', JObj [
          (''avalanche'', JObj [(''minUsd'', JNum (jint 3)), (''targetUsd'', JNum (jint 6))]),
          (''bsc'', JObj [(''minUsd'', JNum (jint 3)), (''targetUsd'', JNum (jint 6))]),
          (''base'', JObj [(''minUsd'', JNum (jint 3)), (''targetUsd'', JNum (jint 6))]),
          (''bob'', JObj [(''minUsd'', JNum (jint 3)), (''targetUsd'', JNum (jint 6))]),
          (''bera'', JObj [(''minUsd'', JNum (jint 3)), (''targetUsd'', JNum (jint 6))]),
          (''ethereum'', JObj [(''minUsd'', JNum (jint 10)), (''targetUsd'', JNum (jint 20))]),
          (''optimism'', JObj [(''minUsd'', JNum (jint 3)), (''targetUsd'', JNum (jint 6))]),
          (''sei'', JObj [(''minUsd'', JNum (jint 3)), (''targetUsd'', JNum (jint 6))]),
          (''soneium'', JObj [(''minUsd'', JNum (jint 3)), (''targetUsd'', JNum (jint 6))]),
          (''sonic'', JObj [(''minUsd'', JNum (jint 3)), (''targetUsd'', JNum (jint 6))]),
          (''unichain'', JObj [(''minUsd'', JNum (jint 3)), (''targetUsd'', JNum (jint 6))])])]"

definition caps_native_dex_experiment :: jsv where
  "caps_native_dex_experiment = JObj [
      (''strategyId'', JStr ''native-dex-experiment''),
      (''label'', JStr ''Native asset DEX experiment''),
      (''autoExecute'', JBool True),
      (''resumeAfterFailureAt'', JStr ''2026-04-22T15:16:42.000Z''),
      (''intentTtlMs'', JNum (jint 60000)),
      (''exposure'', JObj [
          (''protocols'', JArr [JStr ''odos'']),
          (''assetFamily'', JStr ''native_gas''),
          (''btcDenominated'', JBool False)]),
      (''caps'', JObj [
          (''perTxUsd'', JNum (jint 50)),
          (''perDayUsd'', JNum (jint 1000000)),
          (''perChainUsd'', JObj [
              (''base'', JNum (jint 1000000)),
              (''avalanche'', JNum (jint 1000000)),
              (''bera'', JNum (jint 1000000)),
              (''bsc'', JNum (jint 1000000)),
              (''ethereum'', JNum (jint 1000000)),
              (''optimism'', JNum (jint 1000000)),
              (''soneium'', JNum (jint 1000000)),
              (''sonic'', JNum (jint 1000000)),
              (''unichain'', JNum (jint 1000000))]),
          (''maxDailyLossUsd'', JNum (jint 1000000)),
          (''maxFailedGasCost24hUsd'', JNum DEFAULT_FAILED_GAS_COST_24H_USD)]),
      (''gasFloat'', JObj [
          (''base'', JObj [(''minUsd'', JNum (jint 3)), (''targetUsd'', JNum (jint 6))]),
          (''avalanche'', JObj [(''minUsd'', JNum (jint 3)), (''targetUsd'', JNum (jint 6))]),
          (''bera'', JObj [(''minUsd'', JNum (jint 3)), (''targetUsd'', JNum (jint 6))]),
          (''bsc'', JObj [(''minUsd'', JNum (jint 3)), (''targetUsd'', JNum (jint 6))]),
          (''ethereum'', JObj [(''minUsd'', JNum (jint 10)), (''targetUsd'', JNum (jint 20))]),
          (''optimism'', JObj [(''minUsd'', JNum (jint 3)), (''targetUsd'', JNum (jint 6))]),
          (''soneium'', JObj [(''minUsd'', JNum (jint 3)), (''targetUsd'', JNum (jint 6))]),
          (''sonic'', JObj [(''minUsd'', JNum (jint 3)), (''targetUsd'', JNum (jint 6))]),
          (''unichain'', JObj [(''minUsd'', JNum (jint 3)), (''targetUsd'', JNum (jint 6))])])]"

definition caps_stablecoin_spread_loop :: jsv where
  "caps_stablecoin_spread_loop = JObj [
      (''strategyId'', JStr ''stablecoin_spread_loop''),
      (''label'', JStr ''Stablecoin spread loop''),
      (''autoExecute'', JBool True),
      (''intentTtlMs'', JNum (jint 60000)),
      (''exposure'', JObj [
          (''protocols'', JArr [JStr ''moonwell'', JStr ''morpho'']),
          (''assetFamily'', JStr ''stablecoin''),
          (''btcDenominated'', JBool False)]),
      (''caps'', JObj [
          (''perTxUsd'', JNum (jint 25)),
          (''perDayUsd'', JNum (jint 1000000)),
          (''perChainUsd'', JObj [
              (''base'', JNum (jint 1000000)),
              (''avalanche'', JNum (jint 1000000)),
              (''bera'', JNum (jint 1000000)),
              (''bsc'', JNum (jint 1000000)),
              (''ethereum'', JNum (jint 1000000)),
              (''optimism'', JNum (jint 1000000)),
              (''soneium'', JNum (jint 1000000)),
              (''sonic'', JNum (jint 1000000)),
              (''unichain'', JNum (jint 1000000))]),
          (''maxDailyLossUsd'', JNum (jint 1000000)),
          (''maxFailedGasCost24hUsd'', JNum DEFAULT_FAILED_GAS_COST_24H_USD),
          (''tinyLivePerTxUsd'', JNum (jint 25))]),
      (''gasFloat'', JObj [
          (''base'', JObj [(''minUsd'', JNum (jint 3)), (''targetUsd'', JNum (jint 6))]),
          (''avalanche'', JObj [(''minUsd'', JNum (jint 3)), (''targetUsd'', JNum (jint 6))]),
          (''bera'', JObj [(''minUsd'', JNum (jint 3)), (''targetUsd'', JNum (jint 6))]),
          (''bsc'', JObj [(''minUsd'', JNum (jint 3)), (''targetUsd'', JNum (jint 6))]),
          (''ethereum'', JObj [(''minUsd'', JNum (jint 10)), (''targetUsd'', JNum (jint 20))]),
          (''optimism'', JObj [(''minUsd'', JNum (jint 3)), (''targetUsd'', JNum (jint 6))]),
          (''soneium'', JObj [(''minUsd'', JNum (jint 3)), (''targetUsd'', JNum (jint 6))]),
          (''sonic'', JObj [(''minUsd'', JNum (jint 3)), (''targetUsd'', JNum (jint 6))]),
          (''unichain'', JObj [(''minUsd'', JNum (jint 3)), (''targetUsd'', JNum (jint 6))])])]"

definition caps_proxy_spread_expansion :: jsv where
  "caps_proxy_spread_expansion = JObj [
      (''strategyId'', JStr ''proxy_spread_expansion''),
      (''label'', JStr ''Proxy spread expansion''),
      (''autoExecute'', JBool True),
      (''intentTtlMs'', JNum (jint 60000)),
      (''exposure'', JObj [
          (''protocols'', JArr [JStr ''morpho'', JStr ''odos'']),
          (''assetFamily'', JStr ''proxy''),
          (''btcDenominated'', JBool False)]),
      (''caps'', JObj [
          (''perTxUsd'', JNum (jint 25)),
          (''perDayUsd'', JNum (jint 1000000)),
          (''perChainUsd'', JObj [
              (''base'', JNum (jint 1000000)),
              (''avalanche'', JNum (jint 1000000)),
              (''bera'', JNum (jint 1000000)),
              (''bsc'', JNum (jint 1000000)),
              (''ethereum'', JNum (jint 1000000)),
              (''optimism'', JNum (jint 1000000)),
              (''soneium'', JNum (jint 1000000)),
              (''sonic'', JNum (jint 1000000)),
              (''unichain'', JNum (jint 1000000))]),
          (''maxDailyLossUsd'', JNum (jint 1000000)),
          (''maxFailedGasCost24hUsd'', JNum DEFAULT_FAILED_GAS_COST_24H_USD)]),
      (''gasFloat'', JObj [
          (''base'', JObj [(''minUsd'', JNum (jint 3)), (''targetUsd'', JNum (jint 6))]),
          (''avalanche'', JObj [(''minUsd'', JNum (jint 3)), (''targetUsd'', JNum (jint 6))]),
          (''bera'', JObj [(''minUsd'', JNum (jint 3)), (''targetUsd'', JNum (jint 6))]),
          (''bsc'', JObj [(''minUsd'', JNum (jint 3)), (''targetUsd'', JNum (jint 6))]),
          (''ethereum'', JObj [(''minUsd'', JNum (jint 10)), (''targetUsd'', JNum (jint 20))]),
          (''optimism'', JObj [(''minUsd'', JNum (jint 3)), (''targetUsd'', JNum (jint 6))]),
          (''soneium'', JObj [(''minUsd'', JNum (jint 3)), (''targetUsd'', JNum (jint 6))]),
          (''sonic'', JObj [(''minUsd'', JNum (jint 3)), (''targetUsd'', JNum (jint 6))]),
          (''unichain'', JObj [(''minUsd'', JNum (jint 3)), (''targetUsd'', JNum (jint 6))])])]"

definition caps_tokenized_reserve_sleeve :: jsv where
  "caps_tokenized_reserve_sleeve = JObj [
      (''strategyId'', JStr ''tokenized_reserve_sleeve''),
      (''label'', JStr ''Tokenized reserve sleeve''),
      (''autoExecute'', JBool True),
      (''intentTtlMs'', JNum (jint 60000)),
      (''exposure'', JObj [
          (''protocols'', JArr [JStr ''pendle'', JStr ''solv'']),
          (''assetFamily'', JStr ''reserve''),
          (''btcDenominated'', JBool True)]),
      (''caps'', JObj [
          (''perTxUsd'', JNum (jint 25)),
          (''perDayUsd'', JNum (jint 1000000)),
          (''perChainUsd'', JObj [
              (''base'', JNum (jint 1000000)),
              (''avalanche'', JNum (jint 1000000)),
              (''bera'', JNum (jint 1000000)),
              (''bsc'', JNum (jint 1000000)),
              (''ethereum'', JNum (jint 1000000)),
              (''optimism'', JNum (jint 1000000)),
              (''soneium'', JNum (jint 1000000)),
              (''sonic'', JNum (jint 1000000)),
              (''unichain'', JNum (jint 1000000))]),
          (''maxDailyLossUsd'', JNum (jint 1000000)),
          (''maxFailedGasCost24hUsd'', JNum DEFAULT_FAILED_GAS_COST_24H_USD),
          (''tinyLivePerTxUsd'', JNum (jint 25))]),
      (''gasFloat'', JObj [
          (''base'', JObj [(''minUsd'', JNum (jint 3)), (''targetUsd'', JNum (jint 6))]),
          (''avalanche'', JObj [(''minUsd'', JNum (jint 3)), (''targetUsd'', JNum (jint 6))]),
          (''bera'', JObj [(''minUsd'', JNum (jint 3)), (''targetUsd'', JNum (jint 6))]),
          (''bsc'', JObj [(''minUsd'', JNum (jint 3)), (''targetUsd'', JNum (jint 6))]),
          (''ethereum'', JObj [(''minUsd'', JNum (jint 10)), (''targetUsd'', JNum (jint 20))]),
          (''optimism'', JObj [(''minUsd'', JNum (jint 3)), (''targetUsd'', JNum (jint 6))]),
          (''soneium'', JObj [(''minUsd'', JNum (jint 3)), (''targetUsd'', JNum (jint 6))]),
          (''sonic'', JObj [(''minUsd'', JNum (jint 3)), (''targetUsd'', JNum (jint 6))]),
          (''unichain'', JObj [(''minUsd'', JNum (jint 3)), (''targetUsd'', JNum (jint 6))])])]"

definition caps_token_dex_experiment :: jsv where
  "caps_token_dex_experiment = JObj [
      (''strategyId'', JStr ''token-dex-experiment''),
      (''label'', JStr ''ERC20 token DEX experiment''),
      (''autoExecute'', JBool True),
      (''resumeAfterFailureAt'', JStr ''2026-05-02T10:54:00.000Z''),
      (''intentTtlMs'', JNum (jint 60000)),
      (''exposure'', JObj [
          (''protocols'', JArr [JStr ''odos'']),
          (''assetFamily'', JStr ''mixed_assets''),
          (''btcDenominated'', JBool False)]),
      (''caps'', JObj [
          (''perTxUsd'', JNum (jint 50)),
          (''perDayUsd'', JNum (jint 1000000)),
          (''perChainUsd'', JObj [
              (''base'', JNum (jint 1000000)),
              (''avalanche'', JNum (jint 1000000)),
              (''bera'', JNum (jint 1000000)),
              (''bsc'', JNum (jint 1000000)),
              (''ethereum'', JNum (jint 1000000)),
              (''optimism'', JNum (jint 1000000)),
              (''soneium'', JNum (jint 1000000)),
              (''sonic'', JNum (jint 1000000)),
              (''unichain'', JNum (jint 1000000))]),
          (''maxDailyLossUsd'', JNum (jint 1000000)),
          (''maxFailedGasCost24hUsd'', JNum DEFAULT_FAILED_GAS_COST_24H_USD)]),
      (''gasFloat'', JObj [
          (''base'', JObj [(''minUsd'', JNum (jint 3)), (''targetUsd'', JNum (jint 6))]),
          (''avalanche'', JObj [(''minUsd'', JNum (jint 3)), (''targetUsd'', JNum (jint 6))]),
          (''bera'', JObj [(''minUsd'', JNum (jint 3)), (''targetUsd'', JNum (jint 6))]),
          (''bsc'', JObj [(''minUsd'', JNum (jint 3)), (''targetUsd'', JNum (jint 6))]),
          (''ethereum'', JObj [(''minUsd'', JNum (jint 10)), (''targetUsd'', JNum (jint 20))]),
          (''optimism'', JObj [(''minUsd'', JNum (jint 3)), (''targetUsd'', JNum (jint 6))]),
          (''soneium'', JObj [(''minUsd'', JNum (jint 3)), (''targetUsd'', JNum (jint 6))]),
          (''sonic'', JObj [(''minUsd'', JNum (jint 3)), (''targetUsd'', JNum (jint 6))]),
          (''unichain'', JObj [(''minUsd'', JNum (jint 3)), (''targetUsd'', JNum (jint 6))])])]"

definition caps_gateway_native_asset_conversion_sleeve :: jsv where
  "caps_gateway_native_asset_conversion_sleeve = JObj [
      (''strategyId'', JStr ''gateway_native_asset_conversion_sleeve''),
      (''label'', JStr ''Gateway native-asset conversion sleeve''),
      (''autoExecute'', JBool True),
      (''resumeAfterFailureAt'', JStr ''2026-05-01T22:54:52.000Z''),
      (''intentTtlMs'', JNum (jint 60000)),
      (''exposure'', JObj [
          (''protocols'', JArr [JStr ''morpho'', JStr ''aave'', JStr ''euler'', JStr ''odos'']),
          (''assetFamily'', JStr ''multi_asset_yield''),
          (''btcDenominated'', JBool False)]),
      (''caps'', JObj [
          (''perTxUsd'', JNum (jint 500)),
          (''perDayUsd'', JNum (jint 5000)),
          (''perChainUsd'', JObj [
              (''base'', JNum (jint 2000)),
              (''ethereum'', JNum (jint 3000)),
              (''optimism'', JNum (jint 300)),
              (''sei'', JNum (jint 150)),
              (''avalanche'', JNum (jint 500)),
              (''bera'', JNum (jint 300)),
              (''bsc'', JNum (jint 750)),
              (''soneium'', JNum (jint 300)),
              (''sonic'', JNum (jint 500)),
              (''unichain'', JNum (jint 300))]),
          (''tinyLivePerTxUsd'', JNum (jint 25)),
          (''maxDailyLossUsd'', JNum (jint 500)),
          (''maxFailedGasCost24hUsd'', JNum (jint 5))]),
      (''gasFloat'', JObj [
          (''base'', JObj [(''minUsd'', JNum (jint 3)), (''targetUsd'', JNum (jint 6))]),
          (''ethereum'', JObj [(''minUsd'', JNum (jint 10)), (''targetUsd'', JNum (jint 20))]),
          (''optimism'', JObj [(''minUsd'', JNum (jint 3)), (''targetUsd'', JNum (jint 6))]),
          (''sei'', JObj [(''minUsd'', JNum (jint 3)), (''targetUsd'', JNum (jint 6))]),
          (''avalanche'', JObj [(''minUsd'', JNum (jint 3)), (''targetUsd'', JNum (jint 6))]),
          (''bera'', JObj [(''minUsd'', JNum (jint 3)), (''targetUsd'', JNum (jint 6))]),
          (''bsc'', JObj [(''minUsd'', JNum (jint 3)), (''targetUsd'', JNum (jint 6))]),
          (''soneium'', JObj [(''minUsd'', JNum (jint 3)), (''targetUsd'', JNum (jint 6))]),
          (''sonic'', JObj [(''minUsd'', JNum (jint 3)), (''targetUsd'', JNum (jint 6))]),
          (''unichain'', JObj [(''minUsd'', JNum (jint 3)), (''targetUsd'', JNum (jint 6))])])]"

definition caps_eth_destination_deployment :: jsv where
  "caps_eth_destination_deployment = JObj [
      (''strategyId'', JStr ''eth_destination_deployment''),
      (''label'', JStr ''ETH destination deployment''),
      (''autoExecute'', JBool True),
      (''intentTtlMs'', JNum (jint 60000)),
      (''exposure'', JObj [
          (''protocols'', JArr [
              JStr ''aave'',
              JStr ''morpho'',
              JStr ''pendle'',
              JStr ''gearbox'',
              JStr ''summerfinance'',
              JStr ''yo'',
              JStr ''ethstrat'']),
          (''assetFamily'', JStr ''eth_like_yield''),
          (''btcDenominated'', JBool False)]),
      (''caps'', JObj [
          (''perTxUsd'', JNum (jint 5)),
          (''perDayUsd'', JNum (jint 25)),
          (''perChainUsd'', JObj [
              (''base'', JNum (jint 5)),
              (''ethereum'', JNum (jint 10)),
              (''optimism'', JNum (jint 5)),
              (''sei'', JNum (jint 5))]),
          (''maxDailyLossUsd'', JNum (jint 25)),
          (''maxFailedGasCost24hUsd'', JNum DEFAULT_FAILED_GAS_COST_24H_USD),
          (''tinyLivePerTxUsd'', JNum (jint 5))]),
      (''gasFloat'', JObj [
          (''base'', JObj [(''minUsd'', JNum (jint 3)), (''targetUsd'', JNum (jint 6))]),
          (''ethereum'', JObj [(''minUsd'', JNum (jint 10)), (''targetUsd'', JNum (jint 20))]),
          (''optimism'', JObj [(''minUsd'', JNum (jint 3)), (''targetUsd'', JNum (jint 6))]),
          (''sei'', JObj [(''minUsd'', JNum (jint 3)), (''targetUsd'', JNum (jint 6))])])]"

definition caps_proxy_spread_experiment :: jsv where
  "caps_proxy_spread_experiment = JObj [
      (''strategyId'', JStr ''proxy-spread-experiment''),
      (''label'', JStr ''BTC proxy spread experiment''),
      (''autoExecute'', JBool True),
      (''intentTtlMs'', JNum (jint 60000)),
      (''exposure'', JObj [
          (''protocols'', JArr [JStr ''gateway'', JStr ''odos'']),
          (''assetFamily'', JStr ''btc_wrappers''),
          (''btcDenominated'', JBool True)]),
      (''caps'', JObj [
          (''perTxUsd'', JNum (jint 25)),
          (''perDayUsd'', JNum (jint 1000000)),
          (''perChainUsd'', JObj [
              (''base'', JNum (jint 25)),
              (''avalanche'', JNum (jint 1000000)),
              (''bera'', JNum (jint 1000000)),
              (''bsc'', JNum (jint 1000000)),
              (''ethereum'', JNum (jint 1000000)),
              (''sonic'', JNum (jint 1000000)),
              (''soneium'', JNum (jint 1000000)),
              (''unichain'', JNum (jint 1000000))]),
          (''maxDailyLossUsd'', JNum (jint 1000000)),
          (''maxFailedGasCost24hUsd'', JNum DEFAULT_FAILED_GAS_COST_24H_USD)]),
      (''gasFloat'', JObj [
          (''base'', JObj [(''minUsd'', JNum (jint 3)), (''targetUsd'', JNum (jint 6))]),
          (''avalanche'', JObj [(''minUsd'', JNum (jint 3)), (''targetUsd'', JNum (jint 6))]),
          (''bera'', JObj [(''minUsd'', JNum (jint 3)), (''targetUsd'', JNum (jint 6))]),
          (''bsc'', JObj [(''minUsd'', JNum (jint 3)), (''targetUsd'', JNum (jint 6))]),
          (''ethereum'', JObj [(''minUsd'', JNum (jint 10)), (''targetUsd'', JNum (jint 20))]),
          (''sonic'', JObj [(''minUsd'', JNum (jint 3)), (''targetUsd'', JNum (jint 6))]),
          (''soneium'', JObj [(''minUsd'', JNum (jint 3)), (''targetUsd'', JNum (jint 6))]),
          (''unichain'', JObj [(''minUsd'', JNum (jint 3)), (''targetUsd'', JNum (jint 6))])])]"

definition caps_wrapper_btc_arbitrage :: jsv where
  "caps_wrapper_btc_arbitrage = JObj [
      (''strategyId'', JStr ''wrapper-btc-arbitrage''),
      (''label'', JStr ''Wrapper BTC arbitrage''),
      (''autoExecute'', JBool True),
      (''intentTtlMs'', JNum (jint 45000)),
      (''exposure'', JObj [
          (''protocols'', JArr [JStr ''gateway'']),
          (''assetFamily'', JStr ''btc_wrappers''),
          (''btcDenominated'', JBool True)]),
      (''caps'', JObj [
          (''perTxUsd'', JNum (jint 500)),
          (''perDayUsd'', JNum (jint 1000000)),
          (''perChainUsd'', JObj [
              (''bob'', JNum (jint 1000000)),
              (''base'', JNum (jint 1000000)),
              (''unichain'', JNum (jint 1000000))]),
          (''maxDailyLossUsd'', JNum (jint 1000000)),
          (''maxFailedGasCost24hUsd'', JNum DEFAULT_FAILED_GAS_COST_24H_USD)]),
      (''gasFloat'', JObj [
          (''bob'', JObj [(''minUsd'', JNum (jint 10)), (''targetUsd'', JNum (jint 18))]),
          (''base'', JObj [(''minUsd'', JNum (jint 8)), (''targetUsd'', JNum (jint 16))]),
          (''unichain'', JObj [(''minUsd'', JNum (jint 6)), (''targetUsd'', JNum (jint 12))])])]"

definition caps_prelive_fork_execution :: jsv where
  "caps_prelive_fork_execution = JObj [
      (''strategyId'', JStr ''prelive_fork_execution''),
      (''label'', JStr ''Pre-live fork execution''),
      (''autoExecute'', JBool True),
      (''intentTtlMs'', JNum (jint 60000)),
      (''exposure'', JObj [
          (''protocols'', JArr [JStr ''gateway'']),
          (''assetFamily'', JStr ''btc_wrappers''),
          (''btcDenominated'', JBool True)]),
      (''caps'', JObj [
          (''perTxUsd'', JNum (jint 25)),
          (''perDayUsd'', JNum (jint 1000000)),
          (''perChainUsd'', JObj [
              (''bob'', JNum (jint 1000000)),
              (''base'', JNum (jint 25)),
              (''avalanche'', JNum (jint 1000000)),
              (''bera'', JNum (jint 1000000)),
              (''bsc'', JNum (jint 1000000)),
              (''ethereum'', JNum (jint 1000000)),
              (''sonic'', JNum (jint 1000000)),
              (''soneium'', JNum (jint 1000000)),
              (''unichain'', JNum (jint 1000000))]),
          (''maxDailyLossUsd'', JNum (jint 1000000)),
          (''maxFailedGasCost24hUsd'', JNum DEFAULT_FAILED_GAS_COST_24H_USD)])]"

definition caps_recursive_wrapped_btc_lending_loop :: jsv where
  "caps_recursive_wrapped_btc_lending_loop = JObj [
      (''strategyId'', JStr ''recursive_wrapped_btc_lending_loop''),
      (''label'', JStr ''Recursive wrapped-BTC lending loop''),
      (''autoExecute'', JBool True),
      (''intentTtlMs'', JNum (jint 60000)),
      (''exposure'', JObj [
          (''protocols'', JArr [JStr ''moonwell'', JStr ''odos'']),
          (''assetFamily'', JStr ''btc_wrappers''),
          (''btcDenominated'', JBool True)]),
      (''caps'', JObj [
          (''perTxUsd'', JNum (jint 150)),
          (''perDayUsd'', JNum (jint 200)),
          (''perChainUsd'', JObj [(''base'', JNum (jint 200))]),
          (''maxDailyLossUsd'', JNum (jint 25)),
          (''maxFailedGasCost24hUsd'', JNum DEFAULT_FAILED_GAS_COST_24H_USD),
          (''tinyLivePerTxUsd'', JNum (jint 25))]),
      (''leverage'', JObj [
          (''healthFactorMin'', JNum (lit 135 100)),
          (''liquidationBufferPct'', JNum (jint 12)),
          (''emergencyUnwindPath'', JArr [
              JStr ''repay USDC debt'',
              JStr ''withdraw cbBTC collateral'',
              JStr ''return collateral to BTC treasury sleeve''])]),
      (''gasFloat'', JObj [(''base'', JObj [(''minUsd'', JNum (jint 10)), (''targetUsd'', JNum (jint 20))])])]"

definition caps_wrapped_btc_loop_base_moonwell :: jsv where
  "caps_wrapped_btc_loop_base_moonwell = JObj [
      (''strategyId'', JStr ''wrapped-btc-loop-base-moonwell''),
      (''label'', JStr ''Wrapped BTC lending loop (Base / Moonwell)''),
      (''autoExecute'', JBool True),
      (''resumeAfterFailureAt'', JStr ''2026-04-30T22:50:28.000Z''),
      (''intentTtlMs'', JNum (jint 60000)),
      (''exposure'', JObj [
          (''protocols'', JArr [JStr ''moonwell'', JStr ''odos'']),
          (''assetFamily'', JStr ''btc_wrappers''),
          (''btcDenominated'', JBool True)]),
      (''caps'', JObj [
          (''perTxUsd'', JNum (jint 500)),
          (''perDayUsd'', JNum (jint 2000)),
          (''perChainUsd'', JObj [(''base'', JNum (jint 2000))]),
          (''maxDailyLossUsd'', JNum (jint 250)),
          (''maxFailedGasCost24hUsd'', JNum DEFAULT_FAILED_GAS_COST_24H_USD),
          (''tinyLivePerTxUsd'', JNum (jint 25))]),
      (''leverage'', JObj [
          (''healthFactorMin'', JNum (lit 135 100)),
          (''liquidationBufferPct'', JNum (jint 12)),
          (''emergencyUnwindPath'', JArr [
              JStr ''repay borrow asset'',
              JStr ''withdraw collateral'',
              JStr ''bridge or swap back to settlement path''])]),
      (''gasFloat'', JObj [(''base'', JObj [(''minUsd'', JNum (jint 10)), (''targetUsd'', JNum (jint 20))])])]"

definition caps_recursive_stablecoin_lending_loop :: jsv where
  "caps_recursive_stablecoin_lending_loop = JObj [
      (''strategyId'', JStr ''recursive_stablecoin_lending_loop''),
      (''label'', JStr ''Recursive stablecoin lending loop''),
      (''autoExecute'', JBool True),
      (''intentTtlMs'', JNum (jint 60000)),
      (''exposure'', JObj [
          (''protocols'', JArr [JStr ''morpho'', JStr ''aave'', JStr ''euler'']),
          (''assetFamily'', JStr ''stablecoin''),
          (''btcDenominated'', JBool False)]),
      (''caps'', JObj [
          (''perTxUsd'', JNum (jint 5)),
          (''perDayUsd'', JNum (jint 25)),
          (''perChainUsd'', JObj [(''base'', JNum (jint 25)), (''ethereum'', JNum (jint 25))]),
          (''maxDailyLossUsd'', JNum (jint 25)),
          (''maxFailedGasCost24hUsd'', JNum DEFAULT_FAILED_GAS_COST_24H_USD),
          (''tinyLivePerTxUsd'', JNum (jint 5))]),
      (''gasFloat'', JObj [
          (''base'', JObj [(''minUsd'', JNum (jint 10)), (''targetUsd'', JNum (jint 20))]),
          (''ethereum'', JObj [(''minUsd'', JNum (jint 10)), (''targetUsd'', JNum (jint 20))])])]"

definition caps_destination_wrapped_btc_rotation :: jsv where
  "caps_destination_wrapped_btc_rotation = JObj [
      (''strategyId'', JStr ''destination_wrapped_btc_rotation''),
      (''label'', JStr ''Destination wrapped-BTC rotation''),
      (''autoExecute'', JBool True),
      (''intentTtlMs'', JNum (jint 60000)),
      (''exposure'', JObj [
          (''protocols'', JArr [JStr ''gateway'', JStr ''odos'']),
          (''assetFamily'', JStr ''btc_wrappers''),
          (''btcDenominated'', JBool True)]),
      (''caps'', JObj [
          (''perTxUsd'', JNum (jint 25)),
          (''perDayUsd'', JNum (jint 100)),
          (''perChainUsd'', JObj [
              (''base'', JNum (jint 100)),
              (''bob'', JNum (jint 100)),
              (''bsc'', JNum (jint 100))]),
          (''maxDailyLossUsd'', JNum (jint 100)),
          (''maxFailedGasCost24hUsd'', JNum DEFAULT_FAILED_GAS_COST_24H_USD)]),
      (''gasFloat'', JObj [
          (''base'', JObj [(''minUsd'', JNum (jint 3)), (''targetUsd'', JNum (jint 6))]),
          (''bob'', JObj [(''minUsd'', JNum (jint 3)), (''targetUsd'', JNum (jint 6))]),
          (''bsc'', JObj [(''minUsd'', JNum (jint 3)), (''targetUsd'', JNum (jint 6))])])]"

definition caps_stablecoin_treasury_rotation :: jsv where
  "caps_stablecoin_treasury_rotation = JObj [
      (''strategyId'', JStr ''stablecoin_treasury_rotation''),
      (''label'', JStr ''Stablecoin treasury rotation''),
      (''autoExecute'', JBool True),
      (''intentTtlMs'', JNum (jint 60000)),
      (''exposure'', JObj [
          (''protocols'', JArr [JStr ''gateway'', JStr ''odos'']),
          (''assetFamily'', JStr ''stablecoin''),
          (''btcDenominated'', JBool False)]),
      (''caps'', JObj [
          (''perTxUsd'', JNum (jint 10)),
          (''perDayUsd'', JNum (jint 50)),
          (''perChainUsd'', JObj [(''base'', JNum (jint 50)), (''ethereum'', JNum (jint 50))]),
          (''maxDailyLossUsd'', JNum (jint 50)),
          (''maxFailedGasCost24hUsd'', JNum DEFAULT_FAILED_GAS_COST_24H_USD)]),
      (''gasFloat'', JObj [
          (''base'', JObj [(''minUsd'', JNum (jint 3)), (''targetUsd'', JNum (jint 6))]),
          (''ethereum'', JObj [(''minUsd'', JNum (jint 10)), (''targetUsd'', JNum (jint 20))])])]"

definition caps_gateway_proxy_spread_rebalance_recheck :: jsv where
  "caps_gateway_proxy_spread_rebalance_recheck = JObj [
      (''strategyId'', JStr ''gateway_proxy_spread_rebalance_recheck''),
      (''label'', JStr ''Gateway proxy spread rebalance recheck''),
      (''autoExecute'', JBool True),
      (''intentTtlMs'', JNum (jint 60000)),
      (''exposure'', JObj [
          (''protocols'', JArr [JStr ''gateway'', JStr ''odos'']),
          (''assetFamily'', JStr ''btc_wrappers''),
          (''btcDenominated'', JBool True)]),
      (''caps'', JObj [
          (''perTxUsd'', JNum (jint 25)),
          (''perDayUsd'', JNum (jint 100)),
          (''perChainUsd'', JObj [(''base'', JNum (jint 100)), (''ethereum'', JNum (jint 100))]),
          (''maxDailyLossUsd'', JNum (jint 100)),
          (''maxFailedGasCost24hUsd'', JNum DEFAULT_FAILED_GAS_COST_24H_USD)]),
      (''gasFloat'', JObj [
          (''base'', JObj [(''minUsd'', JNum (jint 3)), (''targetUsd'', JNum (jint 6))]),
          (''ethereum'', JObj [(''minUsd'', JNum (jint 10)), (''targetUsd'', JNum (jint 20))])])]"

definition caps_macro_asset_rotation :: jsv where
  "caps_macro_asset_rotation = JObj [
      (''strategyId'', JStr ''macro_asset_rotation''),
      (''label'', JStr ''Macro asset rotation''),
      (''autoExecute'', JBool True),
      (''intentTtlMs'', JNum (jint 60000)),
      (''exposure'', JObj [
          (''protocols'', JArr [JStr ''gateway'', JStr ''odos'']),
          (''assetFamily'', JStr ''multi_asset''),
          (''btcDenominated'', JBool False)]),
      (''caps'', JObj [
          (''perTxUsd'', JNum (jint 10)),
          (''perDayUsd'', JNum (jint 50)),
          (''perChainUsd'', JObj [(''base'', JNum (jint 50)), (''ethereum'', JNum (jint 50))]),
          (''maxDailyLossUsd'', JNum (jint 50)),
          (''maxFailedGasCost24hUsd'', JNum DEFAULT_FAILED_GAS_COST_24H_USD)]),
      (''gasFloat'', JObj [
          (''base'', JObj [(''minUsd'', JNum (jint 3)), (''targetUsd'', JNum (jint 6))]),
          (''ethereum'', JObj [(''minUsd'', JNum (jint 10)), (''targetUsd'', JNum (jint 20))])])]"

definition caps_onchain_btc_perp_basis :: jsv where
  "caps_onchain_btc_perp_basis = JObj [
      (''strategyId'', JStr ''onchain_btc_perp_basis''),
      (''label'', JStr ''On-chain BTC perp basis''),
      (''autoExecute'', JBool True),
      (''intentTtlMs'', JNum (jint 60000)),
      (''exposure'', JObj [
          (''protocols'', JArr [JStr ''gmx'']),
          (''assetFamily'', JStr ''btc_wrappers''),
          (''btcDenominated'', JBool True)]),
      (''caps'', JObj [
          (''perTxUsd'', JNum (jint 25)),
          (''perDayUsd'', JNum (jint 100)),
          (''perChainUsd'', JObj [(''avalanche'', JNum (jint 100))]),
          (''maxDailyLossUsd'', JNum (jint 100)),
          (''maxFailedGasCost24hUsd'', JNum DEFAULT_FAILED_GAS_COST_24H_USD),
          (''tinyLivePerTxUsd'', JNum (jint 25))]),
      (''leverage'', JObj [
          (''healthFactorMin'', JNum (lit 12 10)),
          (''liquidationBufferPct'', JNum (jint 10)),
          (''emergencyUnwindPath'', JArr [
              JStr ''close perp position'',
              JStr ''settle funding'',
              JStr ''bridge or swap back to settlement path''])]),
      (''gasFloat'', JObj [
          (''avalanche'', JObj [(''minUsd'', JNum (jint 3)), (''targetUsd'', JNum (jint 6))])])]"

definition caps_beefy_folding_vault :: jsv where
  "caps_beefy_folding_vault = JObj [
      (''strategyId'', JStr ''beefy-folding-vault''),
      (''label'', JStr ''Beefy folding vault''),
      (''autoExecute'', JBool True),
      (''resumeAfterFailureAt'', JStr ''2026-04-24T13:47:00.000Z''),
      (''intentTtlMs'', JNum (jint 60000)),
      (''exposure'', JObj [
          (''protocols'', JArr [JStr ''beefy'']),
          (''assetFamily'', JStr ''btc_wrappers''),
          (''btcDenominated'', JBool True)]),
      (''caps'', JObj [
          (''perTxUsd'', JNum (jint 25)),
          (''perDayUsd'', JNum (jint 100)),
          (''perChainUsd'', JObj [(''base'', JNum (jint 100)), (''bsc'', JNum (jint 100))]),
          (''maxDailyLossUsd'', JNum (jint 100)),
          (''maxFailedGasCost24hUsd'', JNum DEFAULT_FAILED_GAS_COST_24H_USD)]),
      (''gasFloat'', JObj [(''bsc'', JObj [(''minUsd'', JNum (jint 3)), (''targetUsd'', JNum (jint 6))])])]"

definition caps_pendle_pt_lbtc_base :: jsv where
  "caps_pendle_pt_lbtc_base = JObj [
      (''strategyId'', JStr ''pendle-pt-lbtc-base''),
      (''label'', JStr ''Pendle PT-LBTC Base''),
      (''autoExecute'', JBool True),
      (''intentTtlMs'', JNum (jint 60000)),
      (''exposure'', JObj [
          (''protocols'', JArr [JStr ''pendle'']),
          (''assetFamily'', JStr ''btc_wrappers''),
          (''btcDenominated'', JBool True)]),
      (''caps'', JObj [
          (''perTxUsd'', JNum (jint 25)),
          (''perDayUsd'', JNum (jint 100)),
          (''perChainUsd'', JObj [(''base'', JNum (jint 100))]),
          (''maxDailyLossUsd'', JNum (jint 100)),
          (''maxFailedGasCost24hUsd'', JNum DEFAULT_FAILED_GAS_COST_24H_USD),
          (''tinyLivePerTxUsd'', JNum (jint 25))]),
      (''gasFloat'', JObj [(''base'', JObj [(''minUsd'', JNum (jint 10)), (''targetUsd'', JNum (jint 20))])])]"

definition caps_aerodrome_cl_base :: jsv where
  "caps_aerodrome_cl_base = JObj [
      (''strategyId'', JStr ''aerodrome-cl-base''),
      (''label'', JStr ''Aerodrome concentrated liquidity Base''),
      (''autoExecute'', JBool True),
      (''intentTtlMs'', JNum (jint 60000)),
      (''exposure'', JObj [
          (''protocols'', JArr [JStr ''aerodrome'']),
          (''assetFamily'', JStr ''btc_wrappers''),
          (''btcDenominated'', JBool True)]),
      (''caps'', JObj [
          (''perTxUsd'', JNum (jint 150)),
          (''perDayUsd'', JNum (jint 500)),
          (''perChainUsd'', JObj [(''base'', JNum (jint 500))]),
          (''maxDailyLossUsd'', JNum (jint 100)),
          (''maxFailedGasCost24hUsd'', JNum DEFAULT_FAILED_GAS_COST_24H_USD),
          (''tinyLivePerTxUsd'', JNum (jint 10))]),
      (''gasFloat'', JObj [(''base'', JObj [(''minUsd'', JNum (jint 10)), (''targetUsd'', JNum (jint 20))])])]"

definition caps_pendle_pt_solvbtc_bbn_bsc :: jsv where
  "caps_pendle_pt_solvbtc_bbn_bsc = JObj [
      (''strategyId'', JStr ''pendle-pt-solvbtc-bbn-bsc''),
      (''label'', JStr ''Pendle PT-SolvBTC.BBN BSC''),
      (''autoExecute'', JBool True),
      (''intentTtlMs'', JNum (jint 60000)),
      (''exposure'', JObj [
          (''protocols'', JArr [JStr ''pendle'', JStr ''gateway'']),
          (''assetFamily'', JStr ''btc_wrappers''),
          (''btcDenominated'', JBool True)]),
      (''caps'', JObj [
          (''perTxUsd'', JNum (jint 25)),
          (''perDayUsd'', JNum (jint 100)),
          (''perChainUsd'', JObj [(''bsc'', JNum (jint 100))]),
          (''maxDailyLossUsd'', JNum (jint 100)),
          (''maxFailedGasCost24hUsd'', JNum DEFAULT_FAILED_GAS_COST_24H_USD)]),
      (''gasFloat'', JObj [(''bsc'', JObj [(''minUsd'', JNum (jint 3)), (''targetUsd'', JNum (jint 6))])])]"

definition caps_berachain_bend_bex_bgt :: jsv where
  "caps_berachain_bend_bex_bgt = JObj [
      (''strategyId'', JStr ''berachain-bend-bex-bgt''),
      (''label'', JStr ''Berachain Bend + BEX + BGT''),
      (''autoExecute'', JBool True),
      (''intentTtlMs'', JNum (jint 60000)),
      (''exposure'', JObj [
          (''protocols'', JArr [JStr ''bend'', JStr ''bex'']),
          (''assetFamily'', JStr ''btc_wrappers''),
          (''btcDenominated'', JBool True)]),
      (''caps'', JObj [
          (''perTxUsd'', JNum (jint 25)),
          (''perDayUsd'', JNum (jint 100)),
          (''perChainUsd'', JObj [(''bera'', JNum (jint 100))]),
          (''maxDailyLossUsd'', JNum (jint 100)),
          (''maxFailedGasCost24hUsd'', JNum DEFAULT_FAILED_GAS_COST_24H_USD)]),
      (''gasFloat'', JObj [(''bera'', JObj [(''minUsd'', JNum (jint 3)), (''targetUsd'', JNum (jint 6))])])]"

definition caps_gmx_v2_perp_basis_avax :: jsv where
  "caps_gmx_v2_perp_basis_avax = JObj [
      (''strategyId'', JStr ''gmx-v2-perp-basis-avax''),
      (''label'', JStr ''GMX V2 perp basis Avalanche''),
      (''autoExecute'', JBool True),
      (''intentTtlMs'', JNum (jint 60000)),
      (''exposure'', JObj [
          (''protocols'', JArr [JStr ''gmx'']),
          (''assetFamily'', JStr ''btc_wrappers''),
          (''btcDenominated'', JBool True)]),
      (''caps'', JObj [
          (''perTxUsd'', JNum (jint 25)),
          (''perDayUsd'', JNum (jint 100)),
          (''perChainUsd'', JObj [(''avalanche'', JNum (jint 100))]),
          (''maxDailyLossUsd'', JNum (jint 100)),
          (''maxFailedGasCost24hUsd'', JNum DEFAULT_FAILED_GAS_COST_24H_USD)]),
      (''gasFloat'', JObj [
          (''avalanche'', JObj [(''minUsd'', JNum (jint 3)), (''targetUsd'', JNum (jint 6))])])]"

definition caps_pendle_yt_canary :: jsv where
  "caps_pendle_yt_canary = JObj [
      (''strategyId'', JStr ''pendle-yt-canary''),
      (''label'', JStr ''Pendle YT canary''),
      (''autoExecute'', JBool True),
      (''intentTtlMs'', JNum (jint 60000)),
      (''exposure'', JObj [
          (''protocols'', JArr [JStr ''pendle'']),
          (''assetFamilies'', JArr [
              JStr ''btc_wrappers'',
              JStr ''eth_family'',
              JStr ''stable_carry'',
              JStr ''non_core_yield'']),
          (''btcDenominated'', JBool False)]),
      (''caps'', JObj [
          (''perTxUsd'', JNum (jint 10)),
          (''perDayUsd'', JNum (jint 90)),
          (''perChainUsd'', JObj [
              (''base'', JNum (jint 90)),
              (''ethereum'', JNum (jint 30)),
              (''optimism'', JNum (jint 30))]),
          (''maxDailyLossUsd'', JNum (jint 25)),
          (''maxFailedGasCost24hUsd'', JNum DEFAULT_FAILED_GAS_COST_24H_USD),
          (''tinyLivePerTxUsd'', JNum (jint 10))]),
      (''gasFloat'', JObj [
          (''base'', JObj [(''minUsd'', JNum (jint 10)), (''targetUsd'', JNum (jint 20))]),
          (''ethereum'', JObj [(''minUsd'', JNum (jint 5)), (''targetUsd'', JNum (jint 10))]),
          (''optimism'', JObj [(''minUsd'', JNum (jint 3)), (''targetUsd'', JNum (jint 6))])])]"

definition STRATEGY_CAPS :: fields where
  "STRATEGY_CAPS = [
    (''gateway-instant-swap-verification'', caps_gateway_instant_swap_verification),
    (''gateway-btc-funding-transfer'', caps_gateway_btc_funding_transfer),
    (''gateway-btc-onramp'', caps_gateway_btc_onramp),
    (''gateway-btc-offramp'', caps_gateway_btc_offramp),
    (''gas-zip-native-refuel'', caps_gas_zip_native_refuel),
    (''native-gas-refill'', caps_native_gas_refill),
    (''across-bridge'', caps_across_bridge),
    (''lifi-bridge'', caps_lifi_bridge),
    (''native-dex-experiment'', caps_native_dex_experiment),
    (''stablecoin_spread_loop'', caps_stablecoin_spread_loop),
    (''proxy_spread_expansion'', caps_proxy_spread_expansion),
    (''tokenized_reserve_sleeve'', caps_tokenized_reserve_sleeve),
    (''token-dex-experiment'', caps_token_dex_experiment),
    (''gateway_native_asset_conversion_sleeve'', caps_gateway_native_asset_conversion_sleeve),
    (''eth_destination_deployment'', caps_eth_destination_deployment),
    (''proxy-spread-experiment'', caps_proxy_spread_experiment),
    (''wrapper-btc-arbitrage'', caps_wrapper_btc_arbitrage),
    (''prelive_fork_execution'', caps_prelive_fork_execution),
    (''recursive_wrapped_btc_lending_loop'', caps_recursive_wrapped_btc_lending_loop),
    (''wrapped-btc-loop-base-moonwell'', caps_wrapped_btc_loop_base_moonwell),
    (''recursive_stablecoin_lending_loop'', caps_recursive_stablecoin_lending_loop),
    (''destination_wrapped_btc_rotation'', caps_destination_wrapped_btc_rotation),
    (''stablecoin_treasury_rotation'', caps_stablecoin_treasury_rotation),
    (''gateway_proxy_spread_rebalance_recheck'', caps_gateway_proxy_spread_rebalance_recheck),
    (''macro_asset_rotation'', caps_macro_asset_rotation),
    (''onchain_btc_perp_basis'', caps_onchain_btc_perp_basis),
    (''beefy-folding-vault'', caps_beefy_folding_vault),
    (''pendle-pt-lbtc-base'', caps_pendle_pt_lbtc_base),
    (''aerodrome-cl-base'', caps_aerodrome_cl_base),
    (''pendle-pt-solvbtc-bbn-bsc'', caps_pendle_pt_solvbtc_bbn_bsc),
    (''berachain-bend-bex-bgt'', caps_berachain_bend_bex_bgt),
    (''gmx-v2-perp-basis-avax'', caps_gmx_v2_perp_basis_avax),
    (''pendle-yt-canary'', caps_pendle_yt_canary)]"

end
