(* ===== verification/StrategyCaps.thy ===== *)
theory StrategyCaps
  imports CapsRegistry PolicyConfig
begin

text \<open>
  The caps interface of src/src/config/strategy-caps.mjs: the lookup with the small-capital
  clamp on transport strategies, the validation of a caps object, and the first policy check,
  evaluateStrategyCapsPresence of src/src/executor/policy/index.mjs.

  The lemmas: every entry of the committed table validates and stays valid under the clamp,
  the clamp only lowers the two budgets it touches, and validation accepts a config exactly
  when its error list is empty.
\<close>

definition TRANSPORT_INFRA_STRATEGY_IDS :: "string list" where
  "TRANSPORT_INFRA_STRATEGY_IDS =
     [''gateway-btc-funding-transfer'', ''gateway-btc-onramp'', ''gateway-btc-offramp'',
      ''gas-zip-native-refuel'', ''across-bridge'', ''lifi-bridge'', ''native-dex-experiment'',
      ''prelive_fork_execution'']"

definition isSmallCapitalMode :: "jsv \<Rightarrow> jsv \<Rightarrow> bool" where
  "isSmallCapitalMode activeCapitalUsd policy =
     (if \<not> truthy (dot policy ''enabled'') then False
      else vlt (JNum (to_num activeCapitalUsd)) (dot policy ''capitalThresholdUsd''))"

definition smallCapitalClampActive :: "jsv \<Rightarrow> jsv \<Rightarrow> bool" where
  "smallCapitalClampActive activeCapitalUsd smallCapitalMode =
     (if \<not> truthy (dot smallCapitalMode ''enabled'') then False
      else if nullish activeCapitalUsd then True
      else isSmallCapitalMode activeCapitalUsd smallCapitalMode)"

definition applyTransportInfraSmallCapitalClamp :: "jsv \<Rightarrow> jsv \<Rightarrow> jsv \<Rightarrow> jsv" where
  "applyTransportInfraSmallCapitalClamp config activeCapitalUsd smallCapitalMode =
     (if \<not> truthy config \<or> \<not> one_of TRANSPORT_INFRA_STRATEGY_IDS (dot config ''strategyId'')
      then config
      else if \<not> smallCapitalClampActive activeCapitalUsd smallCapitalMode then config
      else
        let caps = dot config ''caps'';
            perDayUsd = jmin (to_num (dot caps ''perDayUsd''))
              (to_num (dot smallCapitalMode ''transportEffectivePerDayUsd''));
            maxDailyLossUsd = jmin (to_num (dot caps ''maxDailyLossUsd''))
              (to_num (dot smallCapitalMode ''transportEffectiveMaxDailyLossUsd''))
        in if strict_eq (JNum perDayUsd) (dot caps ''perDayUsd'')
              \<and> strict_eq (JNum maxDailyLossUsd) (dot caps ''maxDailyLossUsd'')
           then config
           else JObj (spread (fields_of config)
             [(''caps'', JObj (spread (fields_of caps)
                [(''perDayUsd'', JNum perDayUsd), (''maxDailyLossUsd'', JNum maxDailyLossUsd)])),
              (''effectiveCapSource'', JObj
                [(''kind'', JStr ''small_capital_transport_infra_clamp''),
                 (''declaredPerDayUsd'', dot caps ''perDayUsd''),
                 (''declaredMaxDailyLossUsd'', dot caps ''maxDailyLossUsd''),
                 (''effectivePerDayUsd'', JNum perDayUsd),
                 (''effectiveMaxDailyLossUsd'', JNum maxDailyLossUsd),
                 (''policyProfileId'', dot smallCapitalMode ''profileId'')])]))"

definition getStrategyCaps :: "jsv \<Rightarrow> jsv" where
  "getStrategyCaps strategyId =
     applyTransportInfraSmallCapitalClamp
       (orelse (index (JObj STRATEGY_CAPS) strategyId) JNull) JNull SMALL_CAPITAL_CAMPAIGN_MODE"

definition no_keys :: "jsv \<Rightarrow> bool" where
  "no_keys v = (case v of JObj fs \<Rightarrow> fs = [] | JArr xs \<Rightarrow> xs = [] | _ \<Rightarrow> True)"

definition caps_errors :: "jsv \<Rightarrow> string list" where
  "caps_errors caps =
     (if \<not> truthy caps \<or> \<not> typeof_object caps then [''caps are required'']
      else
        concat (List.map (\<lambda>field. push_if (\<not> isFiniteNumber (dot caps field))
            (''caps.'' @ field @ '' must be a finite number''))
          [''perTxUsd'', ''perDayUsd'', ''maxDailyLossUsd'', ''maxFailedGasCost24hUsd''])
        @ push_if (\<not> truthy (dot caps ''perChainUsd'') \<or> \<not> typeof_object (dot caps ''perChainUsd'')
              \<or> no_keys (dot caps ''perChainUsd''))
            ''caps.perChainUsd must declare at least one chain budget''
        @ push_if (dot caps ''tinyLivePerTxUsd'' \<noteq> JUndef
              \<and> \<not> isFiniteNumber (dot caps ''tinyLivePerTxUsd''))
            ''caps.tinyLivePerTxUsd must be a finite number when provided'')"

definition leverage_errors :: "jsv \<Rightarrow> string list" where
  "leverage_errors leverage =
     (if \<not> truthy leverage then []
      else
        push_if (\<not> isFiniteNumber (dot leverage ''healthFactorMin''))
          ''leverage.healthFactorMin must be a finite number''
        @ push_if (\<not> isFiniteNumber (dot leverage ''liquidationBufferPct''))
          ''leverage.liquidationBufferPct must be a finite number''
        @ push_if (\<not> is_arr (dot leverage ''emergencyUnwindPath'')
              \<or> elems (dot leverage ''emergencyUnwindPath'') = [])
          ''leverage.emergencyUnwindPath must be a non-empty array'')"

definition exposure_errors :: "jsv \<Rightarrow> string list" where
  "exposure_errors exposure =
     (if \<not> truthy exposure then []
      else
        push_if (\<not> is_arr (dot exposure ''protocols'') \<or> elems (dot exposure ''protocols'') = [])
          ''exposure.protocols must be a non-empty array when provided''
        @ push_if (dot exposure ''assetFamily'' \<noteq> JUndef \<and> \<not> is_string (dot exposure ''assetFamily''))
          ''exposure.assetFamily must be a string when provided''
        @ push_if (dot exposure ''btcDenominated'' \<noteq> JUndef
              \<and> \<not> typeof_boolean (dot exposure ''btcDenominated''))
          ''exposure.btcDenominated must be a boolean when provided'')"

record validation =
  val_ok :: bool
  val_errors :: "string list"

definition validateStrategyCapsConfig :: "jsv \<Rightarrow> validation" where
  "validateStrategyCapsConfig config =
     (let errors =
        push_if (\<not> truthy (dot config ''strategyId'')) ''strategyId is required''
        @ caps_errors (dot config ''caps'')
        @ leverage_errors (dot config ''leverage'')
        @ exposure_errors (dot config ''exposure'')
      in \<lparr>val_ok = (errors = []), val_errors = errors\<rparr>)"

definition assertStrategyCaps :: "jsv \<Rightarrow> jsv throws" where
  "assertStrategyCaps strategyId =
     (let config = getStrategyCaps strategyId
      in if \<not> truthy config
         then Inl (ErrorMsg (''Unknown strategy caps for '' @ to_str strategyId))
         else let validation = validateStrategyCapsConfig config
              in if \<not> val_ok validation
                 then Inl (ErrorMsg (''Invalid strategy caps for '' @ to_str strategyId @ '': ''
                        @ join '', '' (val_errors validation)))
                 else Inr config)"

definition capsForChain :: "jsv \<Rightarrow> jsv \<Rightarrow> jsv throws" where
  "capsForChain strategyId chain =
     and_then (assertStrategyCaps strategyId)
       (\<lambda>config. Inr (coal (index (dots config [''caps'', ''perChainUsd'']) chain) JNull))"

definition evaluateStrategyCapsPresence :: "jsv \<Rightarrow> jsv \<Rightarrow> jsv \<Rightarrow> policy_result" where
  "evaluateStrategyCapsPresence intent strategyCaps now =
     (if \<not> truthy strategyCaps
      then policy_block ''strategy_caps'' now [''strategy_caps_missing'']
        [(''errors'', JArr [JStr (''Unknown strategy caps for ''
            @ to_str (orelse (dot intent ''strategyId'') (JStr ''unknown'')))])]
      else
        let validation = validateStrategyCapsConfig strategyCaps
        in \<lparr>pr_policy = ''strategy_caps'', pr_observedAt = now,
            pr_decision = (if val_ok validation then ALLOW else BLOCK),
            pr_blockers = (if val_ok validation then [] else [''strategy_caps_invalid'']),
            pr_extra = [(''errors'', strs (val_errors validation))]\<rparr>)"

section \<open>Facts\<close>

interpretation strategy_caps_gate: policy_gate
  "\<lambda>(intent, caps, now). evaluateStrategyCapsPresence intent caps now" "''strategy_caps''"
  by unfold_locales
    (auto simp: evaluateStrategyCapsPresence_def Let_def consistent_def split: prod.splits)

lemma val_ok_iff: "val_ok (validateStrategyCapsConfig c) \<longleftrightarrow> val_errors (validateStrategyCapsConfig c) = []"
  by (simp add: validateStrategyCapsConfig_def Let_def)

lemma caps_presence_allow_iff:
  "pr_decision (evaluateStrategyCapsPresence intent caps now) = ALLOW
     \<longleftrightarrow> truthy caps \<and> val_ok (validateStrategyCapsConfig caps)"
  by (simp add: evaluateStrategyCapsPresence_def Let_def)

text \<open>Every committed entry is stored under its own id and validates.\<close>

lemma committed_entries:
  "list_all (\<lambda>(k, v). dot v ''strategyId'' = JStr k \<and> val_ok (validateStrategyCapsConfig v))
     STRATEGY_CAPS"
  by code_simp

lemma committed_entry:
  assumes "map_of STRATEGY_CAPS k = Some v"
  shows "dot v ''strategyId'' = JStr k" "val_ok (validateStrategyCapsConfig v)"
  using committed_entries map_of_SomeD [OF assms] by (auto simp: list_all_iff)

lemma valid_config_shape:
  assumes "val_ok (validateStrategyCapsConfig c)"
  obtains fs cf where "c = JObj fs" "fld fs ''caps'' = JObj cf" "truthy (fld fs ''strategyId'')"
    "is_finite (fld cf ''perDayUsd'')" "is_finite (fld cf ''maxDailyLossUsd'')"
proof -
  from assms have errs: "caps_errors (dot c ''caps'') = []" and sid: "truthy (dot c ''strategyId'')"
    by (auto simp: validateStrategyCapsConfig_def Let_def)
  then have fin: "is_finite (dot (dot c ''caps'') ''perDayUsd'')"
      "is_finite (dot (dot c ''caps'') ''maxDailyLossUsd'')"
    and "truthy (dot c ''caps'')"
    by (auto simp: caps_errors_def isFiniteNumber_def split: if_splits)
  obtain cf where cf: "dot c ''caps'' = JObj cf"
    using fin(1) by (cases "dot c ''caps''") (auto split: if_splits)
  obtain fs where fs: "c = JObj fs"
    using sid cf by (cases c) (auto split: if_splits)
  show ?thesis using that [of fs cf] fs cf sid fin by auto
qed

text \<open>The clamp keeps a valid config valid, and never raises a budget.\<close>

lemma clamp_cases:
  fixes c a m :: jsv
  defines "c' \<equiv> applyTransportInfraSmallCapitalClamp c a m"
  obtains "c' = c"
  | pd ml src where
      "c' = JObj (spread (fields_of c)
         [(''caps'', JObj (spread (fields_of (dot c ''caps''))
            [(''perDayUsd'', JNum pd), (''maxDailyLossUsd'', JNum ml)])),
          (''effectiveCapSource'', src)])"
      "pd = jmin (to_num (dot (dot c ''caps'') ''perDayUsd''))
         (to_num (dot m ''transportEffectivePerDayUsd''))"
      "ml = jmin (to_num (dot (dot c ''caps'') ''maxDailyLossUsd''))
         (to_num (dot m ''transportEffectiveMaxDailyLossUsd''))"
      "one_of TRANSPORT_INFRA_STRATEGY_IDS (dot c ''strategyId'')"
proof -
  let ?pd = "jmin (to_num (dot (dot c ''caps'') ''perDayUsd''))
         (to_num (dot m ''transportEffectivePerDayUsd''))"
  let ?ml = "jmin (to_num (dot (dot c ''caps'') ''maxDailyLossUsd''))
         (to_num (dot m ''transportEffectiveMaxDailyLossUsd''))"
  note def = c'_def applyTransportInfraSmallCapitalClamp_def Let_def
  consider "\<not> truthy c \<or> \<not> one_of TRANSPORT_INFRA_STRATEGY_IDS (dot c ''strategyId'')
        \<or> \<not> smallCapitalClampActive a m"
    | "strict_eq (JNum ?pd) (dot (dot c ''caps'') ''perDayUsd'')"
      "strict_eq (JNum ?ml) (dot (dot c ''caps'') ''maxDailyLossUsd'')"
    | "truthy c" "one_of TRANSPORT_INFRA_STRATEGY_IDS (dot c ''strategyId'')"
      "smallCapitalClampActive a m"
      "\<not> (strict_eq (JNum ?pd) (dot (dot c ''caps'') ''perDayUsd'')
          \<and> strict_eq (JNum ?ml) (dot (dot c ''caps'') ''maxDailyLossUsd''))"
    by blast
  then show ?thesis
  proof cases
    case 1
    show ?thesis by (rule that(1), unfold def) (use 1 in auto)
  next
    case 2
    show ?thesis by (rule that(1), unfold def) (use 2 in auto)
  next
    case 3
    show ?thesis
      by (rule that(2) [OF _ refl refl 3(2)], unfold def, subst if_not_P, use 3 in blast,
          subst if_not_P, use 3 in blast, subst if_not_P, use 3 in blast, rule refl)
  qed
qed

lemma jmin_fin: "is_fin a \<Longrightarrow> is_fin b \<Longrightarrow> is_fin (jmin a b)"
  by (cases a; cases b) (auto simp: jmin_def)

lemma jmin_le1: "is_fin a \<Longrightarrow> is_fin b \<Longrightarrow> jle (jmin a b) a"
  by (cases a; cases b) (auto simp: jmin_def)

lemma jmin_le2: "is_fin a \<Longrightarrow> is_fin b \<Longrightarrow> jle (jmin a b) b"
  by (cases a; cases b) (auto simp: jmin_def)

lemma clamp_valid:
  assumes valid: "val_ok (validateStrategyCapsConfig c)"
    and mode: "is_fin (to_num (dot m ''transportEffectivePerDayUsd''))"
      "is_fin (to_num (dot m ''transportEffectiveMaxDailyLossUsd''))"
  shows "val_ok (validateStrategyCapsConfig (applyTransportInfraSmallCapitalClamp c a m))"
proof -
  obtain fs cf where c: "c = JObj fs" "fld fs ''caps'' = JObj cf" "truthy (fld fs ''strategyId'')"
    and fin: "is_finite (fld cf ''perDayUsd'')" "is_finite (fld cf ''maxDailyLossUsd'')"
    by (rule valid_config_shape [OF valid])
  show ?thesis
  proof (rule clamp_cases [of c a m])
    assume "applyTransportInfraSmallCapitalClamp c a m = c"
    then show ?thesis using valid by simp
  next
    fix pd ml src
    assume eq: "applyTransportInfraSmallCapitalClamp c a m =
        JObj (spread (fields_of c)
         [(''caps'', JObj (spread (fields_of (dot c ''caps''))
            [(''perDayUsd'', JNum pd), (''maxDailyLossUsd'', JNum ml)])),
          (''effectiveCapSource'', src)])"
      and pd: "pd = jmin (to_num (dot (dot c ''caps'') ''perDayUsd''))
         (to_num (dot m ''transportEffectivePerDayUsd''))"
      and ml: "ml = jmin (to_num (dot (dot c ''caps'') ''maxDailyLossUsd''))
         (to_num (dot m ''transportEffectiveMaxDailyLossUsd''))"
    have "is_fin pd" "is_fin ml"
      using fin mode by (auto simp: pd ml c is_finite_iff intro!: jmin_fin)
    then show ?thesis
      using valid fin unfolding eq
      by (auto simp: c validateStrategyCapsConfig_def caps_errors_def Let_def fld_spread
          isFiniteNumber_def)
  qed
qed

lemma small_capital_numbers:
  "to_num (dot SMALL_CAPITAL_CAMPAIGN_MODE ''transportEffectivePerDayUsd'') = Fin 200"
  "to_num (dot SMALL_CAPITAL_CAMPAIGN_MODE ''transportEffectiveMaxDailyLossUsd'') = Fin 100"
  "truthy (dot SMALL_CAPITAL_CAMPAIGN_MODE ''enabled'')"
  by (simp_all add: SMALL_CAPITAL_CAMPAIGN_MODE_def jint_def)

lemma getStrategyCaps_Some:
  assumes "map_of STRATEGY_CAPS k = Some v"
  shows "getStrategyCaps (JStr k) = applyTransportInfraSmallCapitalClamp v JNull SMALL_CAPITAL_CAMPAIGN_MODE"
proof -
  have "truthy v"
    using committed_entry(2) [OF assms] by (auto elim: valid_config_shape)
  then show ?thesis using assms by (simp add: getStrategyCaps_def index_def fld_def orelse_def)
qed

lemma getStrategyCaps_valid:
  assumes "map_of STRATEGY_CAPS k = Some v"
  shows "val_ok (validateStrategyCapsConfig (getStrategyCaps (JStr k)))"
  unfolding getStrategyCaps_Some [OF assms]
  by (rule clamp_valid [OF committed_entry(2) [OF assms]]) (simp_all add: small_capital_numbers)

lemma getStrategyCaps_None:
  assumes "map_of STRATEGY_CAPS k = None"
  shows "getStrategyCaps (JStr k) = JNull"
  using assms
  by (simp add: getStrategyCaps_def index_def fld_def applyTransportInfraSmallCapitalClamp_def)

text \<open>C40: every strategy of the committed caps table is stored under its own id, and what the lookup
  returns for it under the committed small-capital mode validates; the clamp never raises its
  daily budget or its daily loss limit.\<close>

theorem committed_caps_valid:
  assumes "map_of STRATEGY_CAPS k = Some v" "c = getStrategyCaps (JStr k)"
  shows "dot v ''strategyId'' = JStr k \<and> val_ok (validateStrategyCapsConfig c)
    \<and> jle (to_num (dots c [''caps'', ''perDayUsd''])) (to_num (dots v [''caps'', ''perDayUsd'']))
    \<and> jle (to_num (dots c [''caps'', ''maxDailyLossUsd''])) (to_num (dots v [''caps'', ''maxDailyLossUsd'']))"
proof -
  obtain fs cf where v: "v = JObj fs" "fld fs ''caps'' = JObj cf" "truthy (fld fs ''strategyId'')"
    and fin: "is_finite (fld cf ''perDayUsd'')" "is_finite (fld cf ''maxDailyLossUsd'')"
    by (rule valid_config_shape [OF committed_entry(2) [OF assms(1)]])
  have n: "is_fin (to_num (fld cf ''perDayUsd''))" "is_fin (to_num (fld cf ''maxDailyLossUsd''))"
    using fin by (auto simp: is_finite_iff)
  have refl: "is_fin x \<Longrightarrow> jle x x" for x by (cases x) auto
  have "jle (to_num (dots c [''caps'', ''perDayUsd''])) (to_num (fld cf ''perDayUsd''))
    \<and> jle (to_num (dots c [''caps'', ''maxDailyLossUsd''])) (to_num (fld cf ''maxDailyLossUsd''))"
    unfolding assms(2) getStrategyCaps_Some [OF assms(1)]
    by (rule clamp_cases [of v JNull SMALL_CAPITAL_CAMPAIGN_MODE])
      (auto simp: v n refl dots_def fld_spread small_capital_numbers intro!: jmin_le1)
  then show ?thesis
    using committed_entry(1) [OF assms(1)] getStrategyCaps_valid [OF assms(1)]
    by (simp add: assms(2) v dots_def)
qed

theorem committed_caps_valid_witness:
  "jle (to_num (dots (getStrategyCaps (JStr ''lifi-bridge'')) [''caps'', ''perDayUsd'']))
     (to_num (dots caps_lifi_bridge [''caps'', ''perDayUsd'']))"
proof -
  have "map_of STRATEGY_CAPS ''lifi-bridge'' = Some caps_lifi_bridge" by (simp add: STRATEGY_CAPS_def)
  from committed_caps_valid [OF this refl] show ?thesis by blast
qed

end
