(* ===== verification/StaleQuote.thy ===== *)
theory StaleQuote
  imports PolicyConfig
begin

text \<open>
  src/src/executor/policy/stale-quote.mjs: the time to live of a quote, per chain, and the
  check that a quote is present, dated in the past and young enough. The lemmas give the
  decision on every branch and the bound an allowed quote satisfies.
\<close>

definition chainAwareTtlMs :: "jsv \<Rightarrow> jsv" where
  "chainAwareTtlMs chain = coal (index CHAIN_AWARE_QUOTE_TTLS_MS chain) JNull"

definition configuredQuoteMaxAgeMs :: "jsv \<Rightarrow> jsv \<Rightarrow> jsv" where
  "configuredQuoteMaxAgeMs intent maxAgeMs =
     first_present [dots intent [''quote'', ''maxAgeMs''],
       dots intent [''strategyConfig'', ''intentTtlMs''], maxAgeMs, JNum (jint 30000)]"

definition resolveQuoteMaxAgeMs :: "jsv \<Rightarrow> jsv \<Rightarrow> jsv" where
  "resolveQuoteMaxAgeMs intent maxAgeMs =
     (let configuredMaxAgeMs = configuredQuoteMaxAgeMs intent maxAgeMs;
          chainDefaultMs = chainAwareTtlMs (dot intent ''chain'')
      in if \<not> isFiniteNumber chainDefaultMs then configuredMaxAgeMs
         else if \<not> isFiniteNumber configuredMaxAgeMs then chainDefaultMs
         else JNum (jmax (to_num configuredMaxAgeMs) (to_num chainDefaultMs)))"

text \<open>\<open>intent.quote?.observedAt || intent.observedAt || null\<close>\<close>

definition quoteObservedAt :: "jsv \<Rightarrow> jsv" where
  "quoteObservedAt intent =
     first_truthy [dots intent [''quote'', ''observedAt''], dot intent ''observedAt'', JNull]"

definition age_ms :: "jsv \<Rightarrow> jsv \<Rightarrow> jsnum" where
  "age_ms now t = jsub (date_of now) (date_of t)"

definition evaluateStaleQuote :: "jsv \<Rightarrow> jsv \<Rightarrow> jsv \<Rightarrow> policy_result" where
  "evaluateStaleQuote intent maxAgeMs now =
     (let resolvedMaxAgeMs = resolveQuoteMaxAgeMs intent maxAgeMs;
          observedAt = quoteObservedAt intent;
          quoteAgeMs = (if truthy observedAt then JNum (age_ms now observedAt) else JNull);
          blockers =
            (if \<not> truthy observedAt then [''quote_timestamp_missing'']
             else if \<not> isFiniteNumber quoteAgeMs \<or> vlt quoteAgeMs (JNum (Fin 0))
             then [''quote_timestamp_invalid'']
             else if vlt resolvedMaxAgeMs quoteAgeMs then [''quote_stale'']
             else [])
      in policy_answer ''stale_quote'' now blockers
        [(''metrics'', JObj
           [(''quoteObservedAt'', observedAt),
            (''quoteAgeMs'', quoteAgeMs),
            (''maxAgeMs'', resolvedMaxAgeMs),
            (''configuredMaxAgeMs'', configuredQuoteMaxAgeMs intent maxAgeMs),
            (''chainAwareDefaultMs'', chainAwareTtlMs (dot intent ''chain''))])])"

interpretation stale_quote_gate: policy_gate
  "\<lambda>(intent, maxAgeMs, now). evaluateStaleQuote intent maxAgeMs now" "''stale_quote''"
  by unfold_locales (auto simp: evaluateStaleQuote_def Let_def split: prod.splits)

lemma stale_quote_blockers:
  "pr_blockers (evaluateStaleQuote intent m now) =
     (if \<not> truthy (quoteObservedAt intent) then [''quote_timestamp_missing'']
      else if \<not> is_fin (age_ms now (quoteObservedAt intent))
              \<or> jlt (age_ms now (quoteObservedAt intent)) (Fin 0)
      then [''quote_timestamp_invalid'']
      else if vlt (resolveQuoteMaxAgeMs intent m) (JNum (age_ms now (quoteObservedAt intent)))
      then [''quote_stale''] else [])"
  by (simp add: evaluateStaleQuote_def Let_def isFiniteNumber_def)

text \<open>The chain table never lets a configured value shorten a quote's life below the chain's.\<close>

lemma resolve_at_least_chain_default:
  assumes "isFiniteNumber (chainAwareTtlMs (dot intent ''chain''))"
  shows "is_finite (resolveQuoteMaxAgeMs intent m)
    \<and> vle (chainAwareTtlMs (dot intent ''chain'')) (resolveQuoteMaxAgeMs intent m)"
proof -
  from assms obtain d where d: "chainAwareTtlMs (dot intent ''chain'') = JNum (Fin d)"
    by (auto simp: isFiniteNumber_def is_finite_iff)
  show ?thesis
  proof (cases "isFiniteNumber (configuredQuoteMaxAgeMs intent m)")
    case True
    then obtain c where "configuredQuoteMaxAgeMs intent m = JNum (Fin c)"
      by (auto simp: isFiniteNumber_def is_finite_iff)
    then show ?thesis by (simp add: resolveQuoteMaxAgeMs_def Let_def d isFiniteNumber_def jmax_def)
  next
    case False
    then show ?thesis by (simp add: resolveQuoteMaxAgeMs_def Let_def d isFiniteNumber_def)
  qed
qed

text \<open>A quote passes exactly when it is dated, its age is a number that is not negative, and the age is
  not above its limit; and on a chain of the committed table the limit is never below the chain's.\<close>

theorem quote_fresh_iff:
  "(pr_decision (evaluateStaleQuote intent m now) = ALLOW \<longleftrightarrow>
     truthy (quoteObservedAt intent) \<and> jle (Fin 0) (age_ms now (quoteObservedAt intent))
     \<and> is_fin (age_ms now (quoteObservedAt intent))
     \<and> \<not> vlt (resolveQuoteMaxAgeMs intent m) (JNum (age_ms now (quoteObservedAt intent))))
   \<and> (isFiniteNumber (chainAwareTtlMs (dot intent ''chain'')) \<longrightarrow>
     vle (chainAwareTtlMs (dot intent ''chain'')) (resolveQuoteMaxAgeMs intent m))"
proof -
  have "jlt a (Fin 0) \<longleftrightarrow> \<not> jle (Fin 0) a" if "is_fin a" for a using that by (cases a) auto
  moreover have "pr_decision (evaluateStaleQuote intent m now) = ALLOW \<longleftrightarrow> pr_blockers (evaluateStaleQuote intent m now) = []"
    by (simp add: evaluateStaleQuote_def Let_def)
  ultimately show ?thesis
    using resolve_at_least_chain_default [of intent m] by (auto simp: stale_quote_blockers)
qed

theorem quote_fresh_iff_witness:
  "vle (JNum (jint 90000)) (resolveQuoteMaxAgeMs (JObj [(''chain'', JStr ''ethereum'')]) (JNum (Fin 1)))"
proof -
  have "chainAwareTtlMs (dot (JObj [(''chain'', JStr ''ethereum'')]) ''chain'') = JNum (jint 90000)"
    by (simp add: chainAwareTtlMs_def CHAIN_AWARE_QUOTE_TTLS_MS_def index_def)
  with quote_fresh_iff [of "JObj [(''chain'', JStr ''ethereum'')]" "JNum (Fin 1)" JNull] show ?thesis
    by (simp add: isFiniteNumber_def jint_def)
qed

end
