(* ===== verification/ApprovalHygiene.thy ===== *)
theory ApprovalHygiene
  imports PolicyCore
begin

text \<open>
  src/src/executor/policy/approval-hygiene.mjs: token approvals must be bounded (no unlimited
  amounts), have a target, and be exact or time-boxed. The lemmas characterise when the check
  allows an approval, mode by mode.
\<close>

text \<open>\<open>[...new Set(values.filter(Boolean))]\<close> on strings\<close>

definition unique_codes :: "string list \<Rightarrow> string list" where
  "unique_codes values = unique_list (List.filter (\<lambda>s. s \<noteq> []) values)"

definition parseApprovalAmount :: "jsv \<Rightarrow> int option" where
  "parseApprovalAmount value = to_bigint value"

definition approval_ttl :: "jsv \<Rightarrow> jsv \<Rightarrow> jsv" where
  "approval_ttl approval now =
     (let expiresAt = (if truthy (dot approval ''expiresAt'')
                       then JNum (date_of (dot approval ''expiresAt'')) else JNull)
      in if isFiniteNumber expiresAt then JNum (jsub (to_num expiresAt) (date_of now)) else JNull)"

definition approval_mode_blockers :: "jsv \<Rightarrow> jsnum \<Rightarrow> jsv \<Rightarrow> string list" where
  "approval_mode_blockers approval maxApprovalTtlMs now =
     (if one_of [''permit2'', ''per_tx''] (dot approval ''mode'')
      then (case parseApprovalAmount (dot approval ''amount'') of
              None \<Rightarrow> [''approval_exact_amount_missing'']
            | Some amount \<Rightarrow> push_if (amount < 0) ''approval_exact_amount_missing'')
      else if dot approval ''mode'' = JStr ''time_boxed''
      then
        (let ttlMs = approval_ttl approval now
         in (if \<not> isFiniteNumber ttlMs \<or> vle ttlMs (JNum (Fin 0))
             then [''approval_expiry_missing_or_invalid'']
             else push_if (vlt (JNum maxApprovalTtlMs) ttlMs) ''approval_ttl_exceeds_policy'')
            @ push_if (dot approval ''revokeWhenIdle'' \<noteq> JBool True) ''approval_idle_revoke_missing'')
      else [])"

definition approval_mode_warnings :: "jsv \<Rightarrow> string list" where
  "approval_mode_warnings approval =
     push_if (\<not> one_of [''permit2'', ''per_tx'', ''time_boxed''] (dot approval ''mode''))
       ''approval_mode_unrecognized''"

definition unlimited_approval :: "jsv \<Rightarrow> bool" where
  "unlimited_approval approval \<longleftrightarrow>
     dot approval ''isUnlimited'' = JBool True \<or> dot approval ''amount'' = JStr ''max''
     \<or> dot approval ''mode'' = JStr ''unlimited''"

definition evaluateApprovalHygiene :: "jsv \<Rightarrow> jsnum \<Rightarrow> jsv \<Rightarrow> policy_result" where
  "evaluateApprovalHygiene intent maxApprovalTtlMs now =
     (let approval = orelse (dot intent ''approval'') JNull
      in if \<not> truthy approval
         then policy_allow ''approval_hygiene'' now [(''warnings'', JArr [])]
         else
           let blockers =
                 push_if (\<not> truthy (dot approval ''token'') \<or> \<not> truthy (dot approval ''spender''))
                   ''approval_target_missing''
                 @ push_if (unlimited_approval approval) ''unlimited_approval_forbidden''
                 @ approval_mode_blockers approval maxApprovalTtlMs now
           in \<lparr>pr_policy = ''approval_hygiene'', pr_observedAt = now,
               pr_decision = decide blockers, pr_blockers = unique_codes blockers,
               pr_extra = [(''warnings'', strs (unique_codes (approval_mode_warnings approval)))]\<rparr>)"

definition DEFAULT_MAX_APPROVAL_TTL_MS :: jsnum where
  "DEFAULT_MAX_APPROVAL_TTL_MS = jint 3600000"

lemma set_unique_codes: "set (unique_codes xs) = set xs - {[]}"
  by (auto simp: unique_codes_def)

lemma unique_codes_eq_Nil: "unique_codes xs = [] \<longleftrightarrow> set xs \<subseteq> {[]}"
  by (metis Diff_eq_empty_iff set_empty set_unique_codes)

lemma approval_mode_codes: "[] \<notin> set (approval_mode_blockers a m now)"
  by (auto simp: approval_mode_blockers_def Let_def split: option.splits)

interpretation approval_gate: policy_gate
  "\<lambda>(intent, ttl, now). evaluateApprovalHygiene intent ttl now" "''approval_hygiene''"
proof (unfold_locales, goal_cases)
  case (1 i)
  then show ?case by (auto simp: evaluateApprovalHygiene_def Let_def split: prod.splits)
next
  case (2 i)
  obtain intent ttl now where i: "i = (intent, ttl, now)" by (cases i)
  have "approval_mode_blockers a ttl now = [] \<longleftrightarrow> set (approval_mode_blockers a ttl now) \<subseteq> {[]}" for a
    using approval_mode_codes [of a ttl now] by (cases "approval_mode_blockers a ttl now") auto
  then show ?case
    by (auto simp: i evaluateApprovalHygiene_def Let_def consistent_def unique_codes_eq_Nil push_if_def)
qed

text \<open>What an allowed approval looks like.\<close>

lemma approval_allowed_iff:
  assumes "truthy (dot intent ''approval'')"
  shows "pr_decision (evaluateApprovalHygiene intent ttl now) = ALLOW \<longleftrightarrow>
     truthy (dots intent [''approval'', ''token'']) \<and> truthy (dots intent [''approval'', ''spender''])
     \<and> \<not> unlimited_approval (dot intent ''approval'')
     \<and> approval_mode_blockers (dot intent ''approval'') ttl now = []"
  using assms by (auto simp: evaluateApprovalHygiene_def Let_def orelse_def)

lemma time_boxed_ok_iff:
  assumes "dot a ''mode'' = JStr ''time_boxed''"
  shows "approval_mode_blockers a ttl now = [] \<longleftrightarrow>
     (\<exists>t. approval_ttl a now = JNum (Fin t) \<and> 0 < t \<and> \<not> jlt ttl (Fin t))
     \<and> dot a ''revokeWhenIdle'' = JBool True"
  using assms
  by (auto simp: approval_mode_blockers_def Let_def isFiniteNumber_def is_finite_iff)

text \<open>A time-boxed approval passes exactly when it names a token and a spender, is not
  unlimited, expires within the policy's limit but not already, and is revoked when idle.\<close>

theorem approval_time_boxed_iff:
  assumes "dot intent ''approval'' = a" "truthy a" "dot a ''mode'' = JStr ''time_boxed''"
  shows "pr_decision (evaluateApprovalHygiene intent ttl now) = ALLOW \<longleftrightarrow>
     truthy (dot a ''token'') \<and> truthy (dot a ''spender'') \<and> \<not> unlimited_approval a
     \<and> (\<exists>t. approval_ttl a now = JNum (Fin t) \<and> 0 < t \<and> \<not> jlt ttl (Fin t))
     \<and> dot a ''revokeWhenIdle'' = JBool True"
  using approval_allowed_iff [of intent ttl now] time_boxed_ok_iff [OF assms(3), of ttl now] assms(1,2)
  by (auto simp: dots_def)

theorem approval_time_boxed_iff_witness:
  "pr_decision (evaluateApprovalHygiene (JObj [(''approval'', JObj [(''mode'', JStr ''time_boxed''),
     (''token'', JStr ''t''), (''spender'', JStr ''p'')])]) (Fin 1) JNull) = BLOCK"
proof -
  let ?a = "JObj [(''mode'', JStr ''time_boxed''), (''token'', JStr ''t''), (''spender'', JStr ''p'')]"
  have "pr_decision (evaluateApprovalHygiene (JObj [(''approval'', ?a)]) (Fin 1) JNull) \<noteq> ALLOW"
    using approval_time_boxed_iff [of "JObj [(''approval'', ?a)]" ?a "Fin 1" JNull] by simp
  then show ?thesis by (cases "pr_decision (evaluateApprovalHygiene (JObj [(''approval'', ?a)]) (Fin 1) JNull)") auto
qed

end
