(* ===== verification/HealthFactor.thy ===== *)
theory HealthFactor
  imports PolicyCore
begin

text \<open>
  src/src/executor/policy/hf-check.mjs and leverage-collateral-rule.mjs: the health-factor and
  liquidation-buffer floors of leveraged strategies, before and after the trade, with the
  emergency-unwind exemption, and the rule that collateral covers the declared cap.
\<close>

section \<open>Health factor\<close>

definition below :: "jsv \<Rightarrow> jsv \<Rightarrow> bool" where
  "below value minimum \<longleftrightarrow> isFiniteNumber value \<and> isFiniteNumber minimum \<and> vlt value minimum"

record leverage_view =
  lv_config :: jsv
  lv_isLeverage :: bool
  lv_currentHf :: jsv
  lv_projectedHf :: jsv
  lv_currentBuffer :: jsv
  lv_projectedBuffer :: jsv
  lv_emergency :: bool

definition leverage_view_of :: "jsv \<Rightarrow> jsv \<Rightarrow> leverage_view" where
  "leverage_view_of intent strategyCaps =
     \<lparr>lv_config = first_truthy [dot strategyCaps ''leverage'',
         dots intent [''strategyConfig'', ''leverage''], dot intent ''strategyConfig'', JObj []],
      lv_isLeverage = (dot intent ''isLeverage'' = JBool True \<or> truthy (dot strategyCaps ''leverage'')
         \<or> truthy (dots intent [''strategyConfig'', ''isLeverage''])),
      lv_currentHf = first_present [dots intent [''healthFactor'', ''current''],
         dots intent [''positionState'', ''currentHealthFactor''], JNull],
      lv_projectedHf = first_present [dots intent [''healthFactor'', ''projectedPost''],
         dots intent [''positionState'', ''projectedHealthFactor''], JNull],
      lv_currentBuffer = first_present [dots intent [''liquidationBuffer'', ''currentPct''],
         dots intent [''positionState'', ''currentLiquidationBufferPct''], JNull],
      lv_projectedBuffer = first_present [dots intent [''liquidationBuffer'', ''projectedPostPct''],
         dots intent [''positionState'', ''projectedLiquidationBufferPct''], JNull],
      lv_emergency = (dot intent ''intentType'' = JStr ''emergency_unwind'')\<rparr>"

definition hf_blockers :: "leverage_view \<Rightarrow> string list" where
  "hf_blockers v =
     (let hfMin = dot (lv_config v) ''healthFactorMin'';
          bufMin = dot (lv_config v) ''liquidationBufferPct''
      in push_if (\<not> isFiniteNumber hfMin) ''health_factor_min_missing''
         @ push_if (\<not> isFiniteNumber bufMin) ''liquidation_buffer_min_missing''
         @ push_if (below (lv_currentHf v) hfMin \<and> \<not> lv_emergency v)
             ''health_factor_below_min_pre_trade''
         @ push_if (below (lv_projectedHf v) hfMin \<and> \<not> lv_emergency v)
             ''health_factor_below_min_post_trade''
         @ push_if (below (lv_currentBuffer v) bufMin \<and> \<not> lv_emergency v)
             ''liquidation_buffer_below_min_pre_trade''
         @ push_if (below (lv_projectedBuffer v) bufMin \<and> \<not> lv_emergency v)
             ''liquidation_buffer_below_min_post_trade'')"

definition hf_triggers :: "leverage_view \<Rightarrow> string list" where
  "hf_triggers v =
     (let hfMin = dot (lv_config v) ''healthFactorMin'';
          bufMin = dot (lv_config v) ''liquidationBufferPct''
      in push_if (below (lv_currentHf v) hfMin) ''health_factor_below_min''
         @ push_if (below (lv_projectedHf v) hfMin) ''projected_health_factor_below_min''
         @ push_if (below (lv_currentBuffer v) bufMin) ''liquidation_buffer_below_min''
         @ push_if (below (lv_projectedBuffer v) bufMin) ''projected_liquidation_buffer_below_min'')"

definition evaluateHealthFactorCheck :: "jsv \<Rightarrow> jsv \<Rightarrow> jsv \<Rightarrow> policy_result" where
  "evaluateHealthFactorCheck intent strategyCaps now =
     (let v = leverage_view_of intent strategyCaps
      in if \<not> lv_isLeverage v
         then policy_allow ''hf_check'' now
           [(''triggers'', JArr []), (''requiresUnwind'', JBool False)]
         else
           let blockers = hf_blockers v; triggers = hf_triggers v
           in \<lparr>pr_policy = ''hf_check'', pr_observedAt = now, pr_decision = decide blockers,
               pr_blockers = unique_list blockers,
               pr_extra =
                 [(''triggers'', strs (unique_list triggers)),
                  (''requiresUnwind'', JBool (if lv_emergency v then True else triggers \<noteq> [])),
                  (''emergencyUnwindPath'',
                     orelse (dots strategyCaps [''leverage'', ''emergencyUnwindPath'']) JNull)]\<rparr>)"

interpretation hf_gate: policy_gate
  "\<lambda>(intent, caps, now). evaluateHealthFactorCheck intent caps now" "''hf_check''"
  by unfold_locales
    (auto simp: evaluateHealthFactorCheck_def Let_def consistent_def split: prod.splits)

text \<open>A leveraged, non-emergency intent under a valid floor is blocked exactly below a floor.\<close>

lemma hf_decision:
  assumes "lv_isLeverage (leverage_view_of intent caps)"
  shows "pr_decision (evaluateHealthFactorCheck intent caps now) = decide (hf_blockers (leverage_view_of intent caps))"
    "pr_blockers (evaluateHealthFactorCheck intent caps now) = unique_list (hf_blockers (leverage_view_of intent caps))"
    "fld (pr_extra (evaluateHealthFactorCheck intent caps now)) ''requiresUnwind''
       = JBool (lv_emergency (leverage_view_of intent caps) \<or> hf_triggers (leverage_view_of intent caps) \<noteq> [])"
  using assms by (simp_all add: evaluateHealthFactorCheck_def Let_def)

lemma hf_not_leverage:
  assumes "\<not> lv_isLeverage (leverage_view_of intent caps)"
  shows "pr_decision (evaluateHealthFactorCheck intent caps now) = ALLOW"
    "fld (pr_extra (evaluateHealthFactorCheck intent caps now)) ''requiresUnwind'' = JBool False"
  using assms by (simp_all add: evaluateHealthFactorCheck_def Let_def)

lemma hf_trigger_blocks: "\<not> lv_emergency v \<Longrightarrow> hf_triggers v \<noteq> [] \<Longrightarrow> hf_blockers v \<noteq> []"
  by (auto simp: hf_triggers_def hf_blockers_def Let_def)

lemma hf_emergency_blockers:
  "lv_emergency v \<Longrightarrow> set (hf_blockers v) \<subseteq> {''health_factor_min_missing'', ''liquidation_buffer_min_missing''}"
  by (auto simp: hf_blockers_def Let_def)

section \<open>Collateral\<close>

definition isLeverageStrategy :: "jsv \<Rightarrow> jsv \<Rightarrow> bool" where
  "isLeverageStrategy strategy intent \<longleftrightarrow>
     dot intent ''isLeverage'' = JBool True
     \<or> dots intent [''strategyConfig'', ''isLeverage''] = JBool True
     \<or> truthy (dots intent [''strategyConfig'', ''leverage''])
     \<or> truthy (dot strategy ''leverage'')"

definition actual_collateral :: "jsv \<Rightarrow> jsv \<Rightarrow> jsnum option" where
  "actual_collateral strategy intent =
     firstFinite
       [dots intent [''collateral'', ''actualCollateralUnits''],
        dots intent [''positionState'', ''actualCollateralUnits''],
        dots intent [''metadata'', ''actualCollateralUnits''],
        dots strategy [''collateral'', ''actualCollateralUnits'']]"

definition required_collateral :: "jsv \<Rightarrow> jsv \<Rightarrow> jsnum option" where
  "required_collateral strategy intent =
     firstFinite
       [dots intent [''collateral'', ''requiredCollateralUnitsForCap''],
        dots intent [''positionState'', ''requiredCollateralUnitsForCap''],
        dots intent [''metadata'', ''requiredCollateralUnitsForCap''],
        dots strategy [''collateral'', ''requiredCollateralUnitsForCap''],
        dots strategy [''leverage'', ''requiredCollateralUnitsForCap'']]"

definition evaluateLeverageCollateralRule :: "jsv \<Rightarrow> jsv \<Rightarrow> jsv \<Rightarrow> policy_result" where
  "evaluateLeverageCollateralRule strategy intent now =
     (let leverage = isLeverageStrategy strategy intent;
          actualCollateralUnits = actual_collateral strategy intent;
          requiredCollateralUnitsForCap = required_collateral strategy intent;
          blockers =
            (case (actualCollateralUnits, requiredCollateralUnitsForCap) of
               (Some actual, Some required) \<Rightarrow>
                 push_if (leverage \<and> jlt actual required) ''collateral_below_cap_requirement''
             | _ \<Rightarrow> [])
      in policy_answer ''leverage_collateral'' now blockers
        [(''metrics'', JObj
           [(''leverage'', JBool leverage),
            (''actualCollateralUnits'', num_or_null actualCollateralUnits),
            (''requiredCollateralUnitsForCap'', num_or_null requiredCollateralUnitsForCap)])])"

interpretation collateral_gate: policy_gate
  "\<lambda>(strategy, intent, now). evaluateLeverageCollateralRule strategy intent now"
  "''leverage_collateral''"
  by unfold_locales
    (auto simp: evaluateLeverageCollateralRule_def Let_def split: prod.splits)

lemma collateral_decision:
  "pr_decision (evaluateLeverageCollateralRule strategy intent now) = BLOCK \<longleftrightarrow>
     isLeverageStrategy strategy intent
     \<and> (\<exists>a r. actual_collateral strategy intent = Some a \<and> required_collateral strategy intent = Some r
             \<and> jlt a r)"
  by (auto simp: evaluateLeverageCollateralRule_def Let_def split: option.splits)

text \<open>With committed floors, a leveraged intent is blocked exactly when it is not an emergency unwind
  and a health factor or a liquidation buffer, before or after the trade, is below its floor; an
  unwind is asked for in exactly those cases and for emergency unwinds.\<close>

theorem health_floor_iff:
  assumes "v = leverage_view_of intent caps" "lv_isLeverage v"
    "isFiniteNumber (dot (lv_config v) ''healthFactorMin'')" "isFiniteNumber (dot (lv_config v) ''liquidationBufferPct'')"
  shows "(pr_decision (evaluateHealthFactorCheck intent caps now) = BLOCK \<longleftrightarrow>
       \<not> lv_emergency v
       \<and> (below (lv_currentHf v) (dot (lv_config v) ''healthFactorMin'')
          \<or> below (lv_projectedHf v) (dot (lv_config v) ''healthFactorMin'')
          \<or> below (lv_currentBuffer v) (dot (lv_config v) ''liquidationBufferPct'')
          \<or> below (lv_projectedBuffer v) (dot (lv_config v) ''liquidationBufferPct'')))
   \<and> (fld (pr_extra (evaluateHealthFactorCheck intent caps now)) ''requiresUnwind'' = JBool True \<longleftrightarrow>
       lv_emergency v \<or> pr_decision (evaluateHealthFactorCheck intent caps now) = BLOCK)"
  using hf_decision(1,3) [of intent caps now] assms
  by (auto simp: hf_blockers_def hf_triggers_def Let_def)

definition sample_position :: "int \<Rightarrow> jsv" where
  "sample_position hf = JObj [(''healthFactor'', JObj [(''current'', JNum (Fin (of_int hf)))])]"

definition sample_floors :: jsv where
  "sample_floors = JObj [(''leverage'', JObj [(''healthFactorMin'', JNum (Fin 2)), (''liquidationBufferPct'', JNum (Fin 12))])]"

theorem health_floor_iff_witness:
  "pr_decision (evaluateHealthFactorCheck (sample_position 1) sample_floors JNull) = BLOCK"
proof -
  let ?v = "leverage_view_of (sample_position 1) sample_floors"
  have "lv_isLeverage ?v = True" "isFiniteNumber (dot (lv_config ?v) ''healthFactorMin'') = True"
    "isFiniteNumber (dot (lv_config ?v) ''liquidationBufferPct'') = True" "lv_emergency ?v = False"
    "below (lv_currentHf ?v) (dot (lv_config ?v) ''healthFactorMin'') = True"
    by code_simp+
  with health_floor_iff [OF refl, of "sample_position 1" sample_floors JNull] show ?thesis by simp
qed

end
