(* ===== verification/CanaryGates.thy ===== *)
theory CanaryGates
  imports PolicyCore
begin

text \<open>
  Four small policy modules: the capital-audit gate, the cold-start clamp (which shrinks the
  amount of an intent in a strategy's first day of automatic execution), the tiny-live-canary
  policy and the two builders of protective intents. The lemmas give the decision of each
  check and the bound the clamp enforces.
\<close>

section \<open>capital-audit-gate.mjs\<close>

definition capital_audit_featureEnabled :: "jsv \<Rightarrow> bool" where
  "capital_audit_featureEnabled profile = (if profile = JStr ''dev'' then False else True)"

definition evaluateCapitalAuditGate :: "jsv \<Rightarrow> jsv \<Rightarrow> jsv \<Rightarrow> policy_result" where
  "evaluateCapitalAuditGate intent capitalAuditState now =
     (if \<not> truthy capitalAuditState \<or> \<not> is_arr (dot capitalAuditState ''flaggedStrategies'')
      then policy_allow ''capital_audit'' now
        [(''metrics'', JObj [(''bypassReason'', JStr ''feature_disabled_or_no_state'')])]
      else
        case List.find (\<lambda>item. strict_eq (dot item ''strategyId'') (dot intent ''strategyId''))
            (elems (dot capitalAuditState ''flaggedStrategies'')) of
          Some strategyFlag \<Rightarrow>
            (if truthy strategyFlag
             then policy_block ''capital_audit'' now [''capital_audit_pair_unmatched'']
               [(''metrics'', JObj
                  [(''unmatchedCount'', dot strategyFlag ''unmatchedCount''),
                   (''latestUnmatchedAt'', dot strategyFlag ''latestUnmatchedAt'')])]
             else policy_allow ''capital_audit'' now
               [(''metrics'', JObj [(''unmatchedCount'', JNum (Fin 0))])])
        | None \<Rightarrow> policy_allow ''capital_audit'' now
            [(''metrics'', JObj [(''unmatchedCount'', JNum (Fin 0))])])"

interpretation capital_audit_gate: policy_gate
  "\<lambda>(intent, state, now). evaluateCapitalAuditGate intent state now" "''capital_audit''"
  by unfold_locales (auto simp: evaluateCapitalAuditGate_def split: prod.splits option.splits)

section \<open>cold-start-clamp.mjs\<close>

definition COLD_START_MS :: jsnum where
  "COLD_START_MS = jint (24 * 60 * 60 * 1000)"

record clamp_result =
  cl_clamp :: jsnum
  cl_reason :: jsv
  cl_count :: jsv

definition evaluateColdStartClamp :: "jsv \<Rightarrow> jsv list \<Rightarrow> jsv \<Rightarrow> clamp_result" where
  "evaluateColdStartClamp strategy signerAuditRecords now =
     (let firstAutoExecuteAt = coal (dot strategy ''firstAutoExecuteAt'') JNull;
          count = jnat (length signerAuditRecords)
      in if \<not> truthy firstAutoExecuteAt
         then \<lparr>cl_clamp = jint 1, cl_reason = JNull, cl_count = count\<rparr>
         else
           let ageMs = jsub (date_of now) (date_of firstAutoExecuteAt)
           in if is_fin ageMs \<and> jle (Fin 0) ageMs \<and> jlt ageMs COLD_START_MS
              then \<lparr>cl_clamp = lit 25 100, cl_reason = JStr ''cold_start_first_24h'', cl_count = count\<rparr>
              else \<lparr>cl_clamp = jint 1, cl_reason = JNull, cl_count = count\<rparr>)"

definition applyColdStartClampToIntent :: "jsv \<Rightarrow> clamp_result \<Rightarrow> jsv" where
  "applyColdStartClampToIntent intent clampResult =
     (case (finiteNumber (JNum (cl_clamp clampResult)), finiteNumber (dot intent ''amountUsd'')) of
        (Some clamp, Some amountUsd) \<Rightarrow>
          if jle (Fin 1) clamp then intent
          else
            let clampedAmountUsd = jmul amountUsd clamp
            in JObj (spread (fields_of intent)
              [(''amountUsd'', JNum clampedAmountUsd),
               (''metadata'', JObj (spread (fields_of (orelse (dot intent ''metadata'') (JObj [])))
                 [(''coldStartClamp'', JObj
                    [(''clamp'', JNum clamp),
                     (''reason'', orelse (cl_reason clampResult) JNull),
                     (''originalAmountUsd'', JNum amountUsd),
                     (''clampedAmountUsd'', JNum clampedAmountUsd)])]))])
      | _ \<Rightarrow> intent)"

definition buildColdStartClampPolicyResult :: "clamp_result \<Rightarrow> jsv \<Rightarrow> jsv \<Rightarrow> jsv \<Rightarrow> policy_result" where
  "buildColdStartClampPolicyResult clampResult originalIntent effectiveIntent now =
     policy_allow ''cold_start_clamp'' now
       [(''clamp'', JNum (case finiteNumber (JNum (cl_clamp clampResult)) of
            Some c \<Rightarrow> c | None \<Rightarrow> jint 1)),
        (''reason'', orelse (cl_reason clampResult) JNull),
        (''metrics'', JObj
          [(''originalAmountUsd'', num_or_null (finiteNumber (dot originalIntent ''amountUsd''))),
           (''effectiveAmountUsd'', num_or_null (finiteNumber (dot effectiveIntent ''amountUsd''))),
           (''signerAuditRecordCount'', coal (cl_count clampResult) JNull)])]"

interpretation cold_start_gate: policy_gate
  "\<lambda>(cl, i, e, now). buildColdStartClampPolicyResult cl i e now" "''cold_start_clamp''"
  by unfold_locales (auto simp: buildColdStartClampPolicyResult_def split: prod.splits)

text \<open>One quarter is representable, and the clamp is one of two values.\<close>

lemma lit_quarter: "lit 25 100 = Fin (1 / 4)"
  by code_simp

lemma clamp_values: "cl_clamp (evaluateColdStartClamp s r now) \<in> {Fin 1, Fin (1 / 4)}"
  by (simp add: evaluateColdStartClamp_def Let_def lit_quarter jint_def)

lemma clamped_amount:
  assumes "cl_clamp cl = Fin (1 / 4)" "finiteNumber (dot intent ''amountUsd'') = Some (Fin x)"
  shows "dot (applyColdStartClampToIntent intent cl) ''amountUsd'' = JNum (rnd (x / 4))"
  using assms
  by (simp add: applyColdStartClampToIntent_def finiteNumber_def jmul_def fld_spread Let_def)

lemma unclamped_intent: "cl_clamp cl = Fin 1 \<Longrightarrow> applyColdStartClampToIntent intent cl = intent"
  by (simp add: applyColdStartClampToIntent_def finiteNumber_def split: option.splits)

text \<open>The clamp changes the amount and the metadata of an intent, nothing else.\<close>

lemma clamp_frame:
  assumes "k \<noteq> ''amountUsd''" "k \<noteq> ''metadata''"
  shows "dot (applyColdStartClampToIntent intent cl) k = dot intent k
    \<or> (\<forall>fs. intent \<noteq> JObj fs)"
  using assms
  by (cases intent)
    (auto simp: applyColdStartClampToIntent_def Let_def fld_spread split: option.splits)

section \<open>tiny-live-canary-policy.mjs\<close>

definition hoursAgo :: "jsv \<Rightarrow> jsv \<Rightarrow> jsnum" where
  "hoursAgo timestamp now = jdiv (jsub (date_of now) (date_of timestamp)) (jint 3600000)"

definition VALID_MICRO_CANARY_STAGES :: "string list" where
  "VALID_MICRO_CANARY_STAGES = [''minimal_live_proof_exists'', ''micro_canary_repeatable'']"

definition hasLeveragePolicy :: "jsv \<Rightarrow> bool" where
  "hasLeveragePolicy strategyCaps \<longleftrightarrow>
     truthy (dot strategyCaps ''leverage'') \<and> typeof_object (dot strategyCaps ''leverage'')"

definition nonempty_arr :: "jsv \<Rightarrow> bool" where
  "nonempty_arr v \<longleftrightarrow> is_arr v \<and> elems v \<noteq> []"

definition hasCommittedExitPath :: "jsv \<Rightarrow> bool" where
  "hasCommittedExitPath intent \<longleftrightarrow>
     nonempty_arr (dot intent ''exitPath'') \<or> nonempty_arr (dot intent ''unwindPath'')
     \<or> nonempty_arr (dots intent [''unwindPlan'', ''steps''])
     \<or> nonempty_arr (dots intent [''metadata'', ''exitPath''])
     \<or> nonempty_arr (dots intent [''metadata'', ''unwindPlan'', ''steps''])"

definition record_time :: "jsv \<Rightarrow> jsv \<Rightarrow> jsv" where
  "record_time record dflt =
     first_truthy [dot record ''timestamp'', dot record ''observedAt'', dflt]"

definition proves_emergency_unwind :: "jsv \<Rightarrow> jsv \<Rightarrow> jsv \<Rightarrow> bool" where
  "proves_emergency_unwind intent now record \<longleftrightarrow>
     strict_eq (dot record ''strategyId'') (dot intent ''strategyId'')
     \<and> dots record [''intent'', ''intentType''] = JStr ''emergency_unwind''
     \<and> dots record [''lifecycle'', ''stage''] = JStr ''confirmed''
     \<and> jle (hoursAgo (record_time record now) now) (jint 24)"

definition evaluateTinyLiveCanaryPolicy ::
    "jsv \<Rightarrow> jsv \<Rightarrow> jsv \<Rightarrow> jsv list \<Rightarrow> jsv \<Rightarrow> policy_result" where
  "evaluateTinyLiveCanaryPolicy intent strategyCaps microCanaryStatus auditRecords now =
     (if dot intent ''intentType'' \<noteq> JStr ''tiny_live_canary''
      then policy_allow ''tiny_live_canary'' now [(''requiresTinyLive'', JBool False)]
      else
        let stageBlockers = push_if (\<not> one_of VALID_MICRO_CANARY_STAGES microCanaryStatus)
              ''tiny_live_micro_canary_stage_insufficient''
        in if \<not> hasLeveragePolicy strategyCaps
           then
             let blockers = stageBlockers
                   @ push_if (\<not> hasCommittedExitPath intent) ''tiny_live_exit_path_missing''
             in policy_answer ''tiny_live_canary'' now blockers
                  [(''requiresTinyLive'', JBool (blockers = []))]
           else
             let emergencyUnwindPath = dots strategyCaps [''leverage'', ''emergencyUnwindPath''];
                 blockers = stageBlockers
                   @ push_if (\<not> nonempty_arr emergencyUnwindPath)
                       ''tiny_live_emergency_unwind_path_missing''
                   @ push_if (\<not> list_ex (proves_emergency_unwind intent now) auditRecords)
                       ''tiny_live_emergency_unwind_not_proven''
             in policy_answer ''tiny_live_canary'' now blockers
                  [(''requiresTinyLive'', JBool (blockers = []))])"

interpretation tiny_canary_gate: policy_gate
  "\<lambda>(i, c, m, a, now). evaluateTinyLiveCanaryPolicy i c m a now" "''tiny_live_canary''"
  by unfold_locales (auto simp: evaluateTinyLiveCanaryPolicy_def Let_def split: prod.splits)

section \<open>Intent builders\<close>

definition finite_or_zero :: "jsv \<Rightarrow> jsv" where
  "finite_or_zero v = (if isFiniteNumber v then v else JNum (Fin 0))"

definition buildTinyLiveCanaryIntent ::
    "jsv \<Rightarrow> jsv \<Rightarrow> jsv \<Rightarrow> jsv \<Rightarrow> jsv \<Rightarrow> jsv \<Rightarrow> jsv \<Rightarrow> jsv throws" where
  "buildTinyLiveCanaryIntent strategyId chain family amountUsd microCanaryStatus metadata now =
     (if \<not> truthy strategyId then Inl (ErrorMsg ''strategyId is required'')
      else if \<not> truthy chain then Inl (ErrorMsg ''chain is required'')
      else Inr (JObj
        [(''schemaVersion'', JNum (jint 1)),
         (''intentId'', JStr (to_str strategyId @ '':tiny-live-canary:'' @ to_str now)),
         (''strategyId'', strategyId),
         (''chain'', chain),
         (''family'', family),
         (''mode'', JStr ''tiny_live''),
         (''intentType'', JStr ''tiny_live_canary''),
         (''amountUsd'', finite_or_zero amountUsd),
         (''executionReason'', JStr ''tiny_live_canary_execution''),
         (''observedAt'', now),
         (''metadata'', JObj (spread (fields_of metadata)
            [(''microCanaryStatus'', orelse microCanaryStatus JNull)]))]))"

definition arr_or_empty :: "jsv \<Rightarrow> jsv" where
  "arr_or_empty v = (if is_arr v then v else JArr [])"

definition buildEmergencyUnwindIntent ::
    "jsv \<Rightarrow> jsv \<Rightarrow> jsv \<Rightarrow> jsv \<Rightarrow> jsv \<Rightarrow> jsv \<Rightarrow> jsv \<Rightarrow> jsv \<Rightarrow> jsv \<Rightarrow> jsv throws" where
  "buildEmergencyUnwindIntent strategyId chain family amountUsd emergencyUnwindPath triggers
       positionState metadata now =
     (if \<not> truthy strategyId then Inl (ErrorMsg ''strategyId is required'')
      else if \<not> truthy chain then Inl (ErrorMsg ''chain is required'')
      else
        let hf = first_present [dot positionState ''currentHealthFactor'',
              dot metadata ''healthFactorPath'', JNull];
            buffer = first_present [dot positionState ''currentLiquidationBufferPct'',
              dot metadata ''liquidationBufferPath'', JNull]
        in Inr (JObj
          [(''schemaVersion'', JNum (jint 1)),
           (''intentId'', JStr (to_str strategyId @ '':emergency-unwind:'' @ to_str now)),
           (''strategyId'', strategyId),
           (''chain'', chain),
           (''family'', family),
           (''mode'', JStr ''emergency''),
           (''intentType'', JStr ''emergency_unwind''),
           (''amountUsd'', finite_or_zero amountUsd),
           (''executionReason'', JStr ''risk_unwind''),
           (''observedAt'', now),
           (''positionState'', JObj
              [(''currentHealthFactor'', hf), (''currentLiquidationBufferPct'', buffer)]),
           (''metadata'', JObj (spread (fields_of metadata)
              [(''emergencyUnwindPath'', arr_or_empty emergencyUnwindPath),
               (''triggers'', arr_or_empty triggers),
               (''healthFactorPath'', hf),
               (''liquidationBufferPath'', buffer)]))]))"

lemma emergency_intent_fields:
  assumes "buildEmergencyUnwindIntent s c f a p t ps m now = Inr i"
  shows "dot i ''intentType'' = JStr ''emergency_unwind''"
    "dot i ''executionReason'' = JStr ''risk_unwind''" "dot i ''strategyId'' = s"
    "is_finite (dot i ''amountUsd'')"
  using assms
  by (auto simp: buildEmergencyUnwindIntent_def Let_def finite_or_zero_def isFiniteNumber_def
      split: if_splits)

lemma canary_intent_fields:
  assumes "buildTinyLiveCanaryIntent s c f a st m now = Inr i"
  shows "dot i ''intentType'' = JStr ''tiny_live_canary''" "dot i ''strategyId'' = s"
    "is_finite (dot i ''amountUsd'')"
  using assms
  by (auto simp: buildTinyLiveCanaryIntent_def finite_or_zero_def isFiniteNumber_def split: if_splits)

end
