(* ===== verification/AssetCoverage.thy ===== *)
theory AssetCoverage
  imports PolicyCore
begin

text \<open>
  src/src/executor/policy/asset-coverage-guard.mjs: while the wallet holds assets nobody has
  identified, intents that open or increase exposure are blocked and exits stay possible. The
  lemmas say that an exit is never blocked, and what an allowed opening implies.
\<close>

definition finiteCount :: "jsv \<Rightarrow> jsnum" where
  "finiteCount value =
     (let parsed = to_num value in if is_fin parsed \<and> jlt (Fin 0) parsed then parsed else Fin 0)"

definition compactArray :: "jsv \<Rightarrow> jsv list" where
  "compactArray value = (if is_arr value then List.filter truthy (elems value) else [])"

definition normalizedText :: "jsv \<Rightarrow> string" where
  "normalizedText value = (case value of JStr s \<Rightarrow> lowercase (trim s) | _ \<Rightarrow> [])"

definition EXPLICIT_NEW_EXPOSURE_INTENT_TYPES :: "string list" where
  "EXPLICIT_NEW_EXPOSURE_INTENT_TYPES =
     [''deposit'', ''erc4626_deposit'', ''supply'', ''stake'', ''mint'', ''open_position'',
      ''increase_position'', ''tiny_live_canary'']"

definition exit_text :: "string \<Rightarrow> bool" where
  "exit_text value \<longleftrightarrow>
     value = ''risk_unwind''
     \<or> list_ex (\<lambda>w. str_includes w value)
         [''emergency_unwind'', ''unwind'', ''redeem'', ''withdraw'', ''exit'',
          ''close_position'', ''decrease'']"

definition isExitLikeIntent :: "jsv \<Rightarrow> bool" where
  "isExitLikeIntent intent =
     list_ex exit_text (List.map normalizedText
       [dot intent ''intentType'', dot intent ''kind'', dot intent ''mode'',
        dot intent ''executionReason'', dot intent ''intentId'',
        dots intent [''metadata'', ''exposureAction''],
        dots intent [''metadata'', ''executionReason'']])"

definition isOpeningOrIncreasingIntent :: "jsv \<Rightarrow> bool" where
  "isOpeningOrIncreasingIntent intent =
     (let exposureAction = normalizedText
            (orelse (dots intent [''metadata'', ''exposureAction'']) (dot intent ''exposureAction''))
      in if exposureAction \<in> set [''open'', ''entry'', ''enter'', ''increase'', ''deposit'',
              ''supply'', ''stake'', ''mint''] then True
         else if isExitLikeIntent intent then False
         else normalizedText (orelse (dot intent ''intentType'') (dot intent ''kind''))
            \<in> set EXPLICIT_NEW_EXPOSURE_INTENT_TYPES)"

definition resolveAssetCoverage :: "jsv \<Rightarrow> jsv \<Rightarrow> jsv" where
  "resolveAssetCoverage intent riskContext =
     first_truthy
       [dot riskContext ''assetCoverage'',
        dots riskContext [''walletHoldings'', ''assetCoverage''],
        dots riskContext [''walletHoldings'', ''summary''],
        dots intent [''metadata'', ''assetCoverage''],
        dots intent [''metadata'', ''assetUniverse''],
        JNull]"

definition unknown_asset_count :: "jsv \<Rightarrow> jsv \<Rightarrow> jsnum" where
  "unknown_asset_count assetCoverage intent =
     jadd (jadd (jadd (jadd (finiteCount (dot assetCoverage ''unknownAssetBalanceCount''))
       (finiteCount (dot assetCoverage ''unknownTargetCount'')))
       (finiteCount (dot assetCoverage ''assetUniverseUnknownTargetCount'')))
       (finiteCount (dots intent [''metadata'', ''unknownAssetBalanceCount''])))
       (finiteCount (dots intent [''metadata'', ''assetUniverseUnknownTargetCount'']))"

definition coverageGaps :: "jsv \<Rightarrow> jsv \<Rightarrow> jsv list" where
  "coverageGaps assetCoverage intent =
     concat (List.map (\<lambda>k. compactArray (dot assetCoverage k))
       [''gaps'', ''coverageGaps'', ''unknownAssets'', ''unknownTargets'', ''unknownAssetBalances''])
     @ concat (List.map (\<lambda>k. compactArray (dots intent [''metadata'', k]))
       [''assetCoverageGaps'', ''unknownAssets'', ''unknownAssetBalances''])
     @ (if dot assetCoverage ''ok'' = JBool False
           \<or> dot assetCoverage ''status'' = JStr ''needs_review''
        then [JObj [(''kind'', JStr ''asset_coverage_status''),
                (''status'', orelse (dot assetCoverage ''status'') (JStr ''needs_review''))]]
        else [])
     @ (if jlt (Fin 0) (unknown_asset_count assetCoverage intent)
        then [JObj [(''kind'', JStr ''unknown_asset_count''),
                (''unknownCount'', JNum (unknown_asset_count assetCoverage intent))]]
        else [])"

definition missing_coverage :: "jsv \<Rightarrow> jsv \<Rightarrow> bool" where
  "missing_coverage intent riskContext \<longleftrightarrow>
     \<not> truthy (resolveAssetCoverage intent riskContext)
     \<and> isOpeningOrIncreasingIntent intent \<and> \<not> isExitLikeIntent intent"

definition evaluateAssetCoverageGuard :: "jsv \<Rightarrow> jsv \<Rightarrow> jsv \<Rightarrow> policy_result" where
  "evaluateAssetCoverageGuard intent riskContext now =
     (let assetCoverage = resolveAssetCoverage intent riskContext;
          gaps = coverageGaps assetCoverage intent;
          exitLike = isExitLikeIntent intent;
          openingOrIncreasing = isOpeningOrIncreasingIntent intent;
          missingCoverage = missing_coverage intent riskContext;
          hasGaps = (gaps \<noteq> [] \<or> missingCoverage);
          blocksNewExposure = (hasGaps \<and> openingOrIncreasing \<and> \<not> exitLike)
      in \<lparr>pr_policy = ''asset_coverage_guard'', pr_observedAt = now,
          pr_decision = (if blocksNewExposure then BLOCK else ALLOW),
          pr_blockers = (if blocksNewExposure
            then [if missingCoverage then ''asset_coverage_missing_for_new_exposure''
                  else ''asset_coverage_gap_blocks_new_exposure''] else []),
          pr_extra =
            [(''warnings'', strs (push_if (hasGaps \<and> exitLike)
                ''asset_coverage_gap_exit_unwind_redeem_only'')),
             (''evidence'', JObj
               [(''status'', orelse (dot assetCoverage ''status'') JNull),
                (''gapCount'', jnat (length gaps)),
                (''missingCoverage'', JBool missingCoverage),
                (''exitLike'', JBool exitLike),
                (''openingOrIncreasing'', JBool openingOrIncreasing),
                (''gaps'', JArr (take 10 gaps))])]\<rparr>)"

interpretation asset_coverage_gate: policy_gate
  "\<lambda>(intent, riskContext, now). evaluateAssetCoverageGuard intent riskContext now"
  "''asset_coverage_guard''"
  by unfold_locales
    (auto simp: evaluateAssetCoverageGuard_def Let_def consistent_def split: prod.splits)

text \<open>While the wallet's assets are not fully covered (a gap is reported, or nothing is
  reported), an intent is blocked exactly when it opens or increases exposure and nothing marks
  it as an exit.\<close>

theorem asset_coverage_blocks_iff:
  "pr_decision (evaluateAssetCoverageGuard intent riskContext now) = BLOCK \<longleftrightarrow>
     isOpeningOrIncreasingIntent intent \<and> \<not> isExitLikeIntent intent
     \<and> (coverageGaps (resolveAssetCoverage intent riskContext) intent \<noteq> []
        \<or> \<not> truthy (resolveAssetCoverage intent riskContext))"
  by (auto simp: evaluateAssetCoverageGuard_def Let_def missing_coverage_def)

theorem asset_coverage_blocks_iff_witness:
  "pr_decision (evaluateAssetCoverageGuard (JObj [(''intentType'', JStr ''deposit'')]) JNull JNull) = BLOCK"
proof -
  let ?i = "JObj [(''intentType'', JStr ''deposit'')]"
  have "isOpeningOrIncreasingIntent ?i = True" "isExitLikeIntent ?i = False"
    "truthy (resolveAssetCoverage ?i JNull) = False"
    by code_simp+
  then show ?thesis using asset_coverage_blocks_iff [of ?i JNull JNull] by simp
qed

lemma finiteCount_nonneg: "jle (Fin 0) (finiteCount v)"
  by (cases "to_num v") (auto simp: finiteCount_def Let_def)

end
