(* ===== verification/FailureStreak.thy ===== *)
theory FailureStreak
  imports PolicyConfig
begin

text \<open>
  src/src/executor/policy/consecutive-failures.mjs and strategy-pause-state.mjs: classification
  of signer audit records, the latest record per attempt, the streak of failed broadcasts of a
  strategy on a chain, operator resets and the pause check built on them. The wall clock that
  countRecentBroadcastFailures reads is a parameter. Record and intent ids are strings.

  The lemmas: the streak is the number of failures before the first success or reset in the
  newest-first order, neutral records (policy rejections, failures before any transaction) do
  not change it, no counted record predates an effective reset, and the check blocks exactly
  when the streak reaches the limit.
\<close>

section \<open>Pause state\<close>

definition strategyPauseResetFor :: "jsv \<Rightarrow> jsv" where
  "strategyPauseResetFor strategyId =
     (if \<not> is_string strategyId \<or> \<not> truthy strategyId then JNull
      else orelse (index (dot STRATEGY_PAUSE_STATE ''reset'') strategyId) JNull)"

definition finite_time :: "jsnum \<Rightarrow> jsnum option" where
  "finite_time t = (if is_fin t then Some t else None)"

definition strategyPauseResetTimestamp :: "jsv \<Rightarrow> jsnum option" where
  "strategyPauseResetTimestamp reset =
     (if \<not> truthy (dot reset ''resetAt'') then None else finite_time (date_of (dot reset ''resetAt'')))"

definition buildDefaultRiskPolicy :: jsv where
  "buildDefaultRiskPolicy = JObj
     [(''schemaVersion'', JNum (jint 2)),
      (''projectLossCapUsd'', JNull),
      (''dailyLossCapUsd'', JNull),
      (''maxConsecutiveFailures'', JNum (jint 3)),
      (''resumeAfterFailureAt'', JNull),
      (''maxFailedGasCost24hUsd'', JNum (jint 3)),
      (''canaryWalletFloorUsd'', JNull),
      (''minNetProfitUsd'', JNum (jint 0)),
      (''minNetProfitPct'', JNum (jint 0)),
      (''minNetProfitEpsilonUsd'', JNum (jint 0)),
      (''staleJobMinutes'', JNum (jint 30)),
      (''leverage'', JObj
        [(''allowed'', JBool True), (''healthFactorMin'', JNull), (''liquidationBufferPct'', JNull)])]"

section \<open>Records\<close>

definition DEFAULT_RECENT_FAILURE_WINDOW_MS :: jsnum where
  "DEFAULT_RECENT_FAILURE_WINDOW_MS = jint (60 * 60 * 1000)"

definition CONSECUTIVE_FAILURE_RESET_INTENT_TYPE :: string where
  "CONSECUTIVE_FAILURE_RESET_INTENT_TYPE = ''operator_reset_consecutive_failures''"

definition CONSECUTIVE_FAILURE_RESET_STAGE :: string where
  "CONSECUTIVE_FAILURE_RESET_STAGE = ''consecutive_failures_reset''"

definition normalizeChain :: "jsv \<Rightarrow> string option" where
  "normalizeChain chain = (case chain of JStr s \<Rightarrow> if s \<noteq> [] then Some s else None | _ \<Rightarrow> None)"

definition recordChain :: "jsv \<Rightarrow> string option" where
  "recordChain record =
     normalizeChain (first_truthy [dot record ''chain'', dots record [''intent'', ''chain''], JNull])"

definition isResetRecord :: "jsv \<Rightarrow> bool" where
  "isResetRecord record \<longleftrightarrow>
     dots record [''intent'', ''intentType''] = JStr CONSECUTIVE_FAILURE_RESET_INTENT_TYPE
     \<or> dots record [''lifecycle'', ''stage''] = JStr CONSECUTIVE_FAILURE_RESET_STAGE"

definition recordKey :: "jsv \<Rightarrow> jsv" where
  "recordKey record =
     (if isResetRecord record
      then JStr (''reset:'' @ to_str (orelse (dot record ''strategyId'') (JStr ''unknown'')) @ '':''
             @ (case recordChain record of Some c \<Rightarrow> c | None \<Rightarrow> ''*'') @ '':''
             @ to_str (first_truthy [dot record ''timestamp'', dot record ''observedAt'', JStr ''0'']))
      else first_truthy [dot record ''intentHash'', dot record ''intentId'',
             JStr (to_str (orelse (dot record ''strategyId'') (JStr ''unknown'')) @ '':''
               @ (case recordChain record of Some c \<Rightarrow> c | None \<Rightarrow> ''unknown''))])"

definition recordTimestamp :: "jsv \<Rightarrow> jsnum" where
  "recordTimestamp record =
     date_of (first_truthy [dot record ''timestamp'', dot record ''observedAt'', JNum (Fin 0)])"

definition resumeAfterTimestamp :: "jsv \<Rightarrow> jsnum option" where
  "resumeAfterTimestamp resumeAfter =
     (if \<not> truthy resumeAfter then None else finite_time (date_of resumeAfter))"

record reset_scope =
  rs_resumeAfter :: jsv
  rs_resumeAfterMs :: "jsnum option"
  rs_committedReset :: jsv

definition effectiveResumeAfter :: "jsv \<Rightarrow> jsv \<Rightarrow> reset_scope" where
  "effectiveResumeAfter strategyId resumeAfter =
     (let explicitMs = resumeAfterTimestamp resumeAfter;
          committedReset = strategyPauseResetFor strategyId
      in case strategyPauseResetTimestamp committedReset of
           None \<Rightarrow> \<lparr>rs_resumeAfter = resumeAfter, rs_resumeAfterMs = explicitMs,
                    rs_committedReset = JNull\<rparr>
         | Some resetMs \<Rightarrow>
             if (case explicitMs of Some e \<Rightarrow> jle resetMs e | None \<Rightarrow> False)
             then \<lparr>rs_resumeAfter = resumeAfter, rs_resumeAfterMs = explicitMs,
                   rs_committedReset = committedReset\<rparr>
             else \<lparr>rs_resumeAfter = dot committedReset ''resetAt'', rs_resumeAfterMs = Some resetMs,
                   rs_committedReset = committedReset\<rparr>)"

definition isApprovalRevocationIntent :: "jsv \<Rightarrow> bool" where
  "isApprovalRevocationIntent intent =
     (if dot intent ''intentType'' \<noteq> JStr ''approve_exact'' then False
      else if \<not> truthy (dot intent ''approval'') then False
      else to_bigint (coal (dots intent [''approval'', ''amount'']) (JNum (Fin (- 1)))) = Some 0)"

definition isApprovalIntentRecord :: "jsv \<Rightarrow> bool" where
  "isApprovalIntentRecord record \<longleftrightarrow>
     dots record [''intent'', ''intentType''] = JStr ''approve_exact''
     \<or> dot record ''intentType'' = JStr ''approve_exact''"

definition recordBlockers :: "jsv \<Rightarrow> jsv list" where
  "recordBlockers record =
     unique_list (List.filter (\<lambda>item. is_string item \<and> truthy item)
       (concat (List.map (\<lambda>x. case x of JArr ys \<Rightarrow> ys | y \<Rightarrow> [y])
         (concat (List.map elems (List.filter is_arr
           [dot record ''blockers'', dot record ''policyBlockers'',
            dots record [''lifecycle'', ''blockers''], dots record [''policy'', ''blockers'']]))))))"

definition matchesStrategyChain :: "jsv \<Rightarrow> jsv \<Rightarrow> jsv \<Rightarrow> bool" where
  "matchesStrategyChain record strategyId chain =
     (if \<not> truthy strategyId \<or> \<not> strict_eq (dot record ''strategyId'') strategyId then False
      else case normalizeChain chain of
          None \<Rightarrow> True
        | Some c \<Rightarrow> recordChain record = Some c \<or> isResetRecord record \<and> recordChain record = None)"

definition hasBroadcastEvidence :: "jsv \<Rightarrow> bool" where
  "hasBroadcastEvidence record \<longleftrightarrow>
     truthy (dot record ''broadcast'')
     \<or> one_of [''broadcasted'', ''confirmed'', ''reverted''] (dots record [''lifecycle'', ''stage''])"

section \<open>Classification\<close>

datatype classification =
  BroadcastFailed | BroadcastSucceeded | PolicyRejected | NoTxFailure | Reset

definition classifyConsecutiveFailureRecord :: "jsv \<Rightarrow> classification option" where
  "classifyConsecutiveFailureRecord record =
     (let stage = orelse (dots record [''lifecycle'', ''stage'']) JNull;
          broadcasted = hasBroadcastEvidence record;
          verdict = dot record ''policyVerdict''
      in if isResetRecord record then Some Reset
         else if dot record ''strategyId'' = JStr ''prelive_fork_execution''
              \<and> stage = JStr ''rejected'' \<and> \<not> broadcasted then None
         else if isApprovalIntentRecord record
              \<and> (stage = JStr ''broadcasted'' \<or> stage = JStr ''confirmed''
                 \<or> verdict = JStr ''approved'' \<and> broadcasted) then None
         else if stage = JStr ''broadcasted'' \<or> stage = JStr ''confirmed'' then Some BroadcastSucceeded
         else if stage = JStr ''reverted'' then Some BroadcastFailed
         else if stage = JStr ''rejected''
              then Some (if broadcasted then BroadcastFailed else PolicyRejected)
         else if stage = JStr ''error''
              then Some (if broadcasted then BroadcastFailed else NoTxFailure)
         else if verdict = JStr ''approved'' \<and> broadcasted then Some BroadcastSucceeded
         else if verdict = JStr ''rejected''
              then Some (if broadcasted then BroadcastFailed else PolicyRejected)
         else if verdict = JStr ''errored''
              then Some (if broadcasted then BroadcastFailed else NoTxFailure)
         else None)"

type_synonym classified = "classification \<times> jsv"

definition skipped_by_reset :: "jsnum option \<Rightarrow> jsv \<Rightarrow> bool" where
  "skipped_by_reset resumeAfterMs record =
     (case resumeAfterMs of Some r \<Rightarrow> jle (recordTimestamp record) r | None \<Rightarrow> False)"

definition group_record ::
    "jsnum option \<Rightarrow> (jsv \<times> classified) list \<Rightarrow> jsv \<Rightarrow> (jsv \<times> classified) list" where
  "group_record resumeAfterMs grouped record =
     (if skipped_by_reset resumeAfterMs record then grouped
      else case classifyConsecutiveFailureRecord record of
          None \<Rightarrow> grouped
        | Some classification \<Rightarrow>
            (let key = recordKey record
             in case map_of grouped key of
                  Some (_, existing) \<Rightarrow>
                    if jle (recordTimestamp existing) (recordTimestamp record)
                    then AList.update key (classification, record) grouped else grouped
                | None \<Rightarrow> AList.update key (classification, record) grouped))"

definition newest_first :: "classified \<Rightarrow> classified \<Rightarrow> jsnum" where
  "newest_first left right = jsub (recordTimestamp (snd right)) (recordTimestamp (snd left))"

definition latestClassifiedRecords :: "jsv list \<Rightarrow> jsv \<Rightarrow> jsv \<Rightarrow> jsv \<Rightarrow> classified list" where
  "latestClassifiedRecords auditRecords strategyId chain resumeAfter =
     (let grouped = foldl (group_record (resumeAfterTimestamp resumeAfter)) []
            (List.filter (\<lambda>item. matchesStrategyChain item strategyId chain) auditRecords)
      in sort_by newest_first (List.map snd grouped))"

section \<open>The streak\<close>

record failure_window =
  fw_count :: nat
  fw_latestFailureAt :: jsv
  fw_boundaryStatus :: "classification option"
  fw_boundaryObservedAt :: jsv

definition observed_or_null :: "jsv \<Rightarrow> jsv" where
  "observed_or_null record = first_truthy [dot record ''timestamp'', dot record ''observedAt'', JNull]"

fun count_streak :: "classified list \<Rightarrow> failure_window \<Rightarrow> failure_window" where
  "count_streak [] w = w"
| "count_streak ((c, record) # rest) w =
     (if c = PolicyRejected \<or> c = NoTxFailure then count_streak rest w
      else if c = BroadcastFailed
      then count_streak rest (w\<lparr>fw_count := Suc (fw_count w),
             fw_latestFailureAt := orelse (fw_latestFailureAt w) (observed_or_null record)\<rparr>)
      else w\<lparr>fw_boundaryStatus := Some c, fw_boundaryObservedAt := observed_or_null record\<rparr>)"

definition countConsecutiveBroadcastFailures :: "classified list \<Rightarrow> failure_window" where
  "countConsecutiveBroadcastFailures sortedClassifiedRecords =
     count_streak sortedClassifiedRecords
       \<lparr>fw_count = 0, fw_latestFailureAt = JNull, fw_boundaryStatus = None,
        fw_boundaryObservedAt = JNull\<rparr>"

definition countRecentBroadcastFailures ::
    "jsv list \<Rightarrow> jsv \<Rightarrow> jsv \<Rightarrow> jsnum \<Rightarrow> jsnum option \<Rightarrow> jsnum \<Rightarrow> nat" where
  "countRecentBroadcastFailures auditRecords strategyId chain windowMs resumeAfterMs clock =
     (let cutoff = jsub clock windowMs
      in length (List.filter
           (\<lambda>record. \<not> jlt (recordTimestamp record) cutoff
              \<and> \<not> skipped_by_reset resumeAfterMs record
              \<and> classifyConsecutiveFailureRecord record = Some BroadcastFailed)
           (List.filter (\<lambda>item. matchesStrategyChain item strategyId chain) auditRecords)))"

definition intent_records :: "jsv list \<Rightarrow> jsv \<Rightarrow> jsv \<Rightarrow> jsnum option \<Rightarrow> jsv \<Rightarrow> classified list" where
  "intent_records auditRecords strategyId chain resumeAfterMs intentId =
     List.map (\<lambda>record. (the (classifyConsecutiveFailureRecord record), record))
       (List.filter
         (\<lambda>record. \<not> skipped_by_reset resumeAfterMs record
            \<and> classifyConsecutiveFailureRecord record \<noteq> None
            \<and> (strict_eq (dot record ''intentId'') intentId
               \<or> is_string (dot record ''intentId'')
                  \<and> is_prefix (to_str intentId) (to_str (dot record ''intentId''))))
         (List.filter (\<lambda>item. matchesStrategyChain item strategyId chain) auditRecords))"

definition count_class :: "classification \<Rightarrow> classified list \<Rightarrow> nat" where
  "count_class c items = length (List.filter (\<lambda>(c', _). c' = c) items)"

record failure_state =
  fs_strategyId :: jsv
  fs_chain :: "string option"
  fs_intentId :: jsv
  fs_consecutiveFailures :: nat
  fs_strategyConsecutiveFailures :: nat
  fs_intentConsecutiveFailures :: nat
  fs_recentFailureCount :: nat
  fs_terminalRecordCount :: nat
  fs_lastTerminalStatus :: "classification option"
  fs_latestFailureAt :: jsv
  fs_lastResetAt :: jsv
  fs_broadcastFailureCount :: nat
  fs_successfulBroadcastCount :: nat
  fs_policyRejectedCount :: nat
  fs_noTxFailureCount :: nat
  fs_resetCount :: nat
  fs_resumeAfter :: jsv
  fs_committedReset :: jsv

definition buildConsecutiveFailureState ::
    "jsv \<Rightarrow> jsv \<Rightarrow> jsv list \<Rightarrow> jsv \<Rightarrow> jsv \<Rightarrow> jsnum \<Rightarrow> jsnum \<Rightarrow> failure_state" where
  "buildConsecutiveFailureState strategyId chain auditRecords resumeAfter intentId
       recentFailureWindowMs clock =
     (let resetScope = effectiveResumeAfter strategyId resumeAfter;
          resumeAfterMs = rs_resumeAfterMs resetScope;
          activeResumeAfter = rs_resumeAfter resetScope;
          records = latestClassifiedRecords auditRecords strategyId chain activeResumeAfter;
          window = countConsecutiveBroadcastFailures records;
          intentFailures =
            (if truthy intentId
             then fw_count (countConsecutiveBroadcastFailures (sort_by newest_first
                    (intent_records auditRecords strategyId chain resumeAfterMs intentId)))
             else 0)
      in \<lparr>fs_strategyId = strategyId,
          fs_chain = normalizeChain chain,
          fs_intentId = intentId,
          fs_consecutiveFailures = fw_count window,
          fs_strategyConsecutiveFailures = fw_count window,
          fs_intentConsecutiveFailures = intentFailures,
          fs_recentFailureCount = countRecentBroadcastFailures auditRecords strategyId chain
             recentFailureWindowMs resumeAfterMs clock,
          fs_terminalRecordCount = length (List.filter
             (\<lambda>(c, _). c \<in> {BroadcastFailed, BroadcastSucceeded, Reset}) records),
          fs_lastTerminalStatus = (case records of [] \<Rightarrow> None | (c, _) # _ \<Rightarrow> Some c),
          fs_latestFailureAt = fw_latestFailureAt window,
          fs_lastResetAt = (case List.find (\<lambda>(c, _). c = Reset) records of
             Some (_, record) \<Rightarrow> observed_or_null record | None \<Rightarrow> JNull),
          fs_broadcastFailureCount = count_class BroadcastFailed records,
          fs_successfulBroadcastCount = count_class BroadcastSucceeded records,
          fs_policyRejectedCount = count_class PolicyRejected records,
          fs_noTxFailureCount = count_class NoTxFailure records,
          fs_resetCount = count_class Reset records,
          fs_resumeAfter = activeResumeAfter,
          fs_committedReset = rs_committedReset resetScope\<rparr>)"

section \<open>The check\<close>

fun class_str :: "classification \<Rightarrow> string" where
  "class_str BroadcastFailed = ''broadcastFailed''"
| "class_str BroadcastSucceeded = ''broadcastSucceeded''"
| "class_str PolicyRejected = ''policyRejected''"
| "class_str NoTxFailure = ''noTxFailure''"
| "class_str Reset = ''reset''"

definition class_or_null :: "classification option \<Rightarrow> jsv" where
  "class_or_null c = str_or_null (map_option class_str c)"

definition failure_metrics :: "failure_state \<Rightarrow> jsv \<Rightarrow> jsv" where
  "failure_metrics state maxConsecutiveFailures = JObj
     [(''chain'', str_or_null (fs_chain state)),
      (''maxConsecutiveFailures'', maxConsecutiveFailures),
      (''consecutiveFailures'', jnat (fs_consecutiveFailures state)),
      (''strategyConsecutiveFailures'', jnat (fs_strategyConsecutiveFailures state)),
      (''intentConsecutiveFailures'', jnat (fs_intentConsecutiveFailures state)),
      (''recentFailureCount'', jnat (fs_recentFailureCount state)),
      (''terminalRecordCount'', jnat (fs_terminalRecordCount state)),
      (''lastTerminalStatus'', class_or_null (fs_lastTerminalStatus state)),
      (''latestFailureAt'', fs_latestFailureAt state),
      (''lastResetAt'', fs_lastResetAt state),
      (''broadcastFailureCount'', jnat (fs_broadcastFailureCount state)),
      (''successfulBroadcastCount'', jnat (fs_successfulBroadcastCount state)),
      (''policyRejectedCount'', jnat (fs_policyRejectedCount state)),
      (''noTxFailureCount'', jnat (fs_noTxFailureCount state)),
      (''resetCount'', jnat (fs_resetCount state)),
      (''resumeAfter'', fs_resumeAfter state),
      (''committedReset'', fs_committedReset state)]"

text \<open>\<open>state.consecutiveFailures >= max\<close>, where the limit is finite.\<close>

definition limit_reached :: "jsv \<Rightarrow> nat \<Rightarrow> bool" where
  "limit_reached maxConsecutiveFailures n \<longleftrightarrow>
     isFiniteNumber maxConsecutiveFailures \<and> vle maxConsecutiveFailures (jnat n)"

definition evaluateConsecutiveFailures ::
    "jsv \<Rightarrow> jsv list \<Rightarrow> jsv \<Rightarrow> jsv \<Rightarrow> jsnum \<Rightarrow> jsv \<Rightarrow> policy_result" where
  "evaluateConsecutiveFailures intent auditRecords maxFailures resumeAfter clock now =
     (let maxConsecutiveFailures =
            (if maxFailures = JUndef then dot buildDefaultRiskPolicy ''maxConsecutiveFailures''
             else maxFailures)
      in if isApprovalRevocationIntent intent
         then policy_allow ''consecutive_failures'' now
           [(''metrics'', JObj
              [(''maxConsecutiveFailures'', maxConsecutiveFailures),
               (''consecutiveFailures'', jnat 0),
               (''terminalRecordCount'', jnat 0),
               (''lastTerminalStatus'', JNull),
               (''latestFailureAt'', JNull),
               (''resumeAfter'', resumeAfter),
               (''committedReset'',
                 orelse (strategyPauseResetFor (dot intent ''strategyId'')) JNull),
               (''bypassReason'', JStr ''approval_revocation'')])]
         else
           let state = buildConsecutiveFailureState (dot intent ''strategyId'')
                 (orelse (dot intent ''chain'') JNull) auditRecords resumeAfter
                 (orelse (dot intent ''intentId'') JNull) DEFAULT_RECENT_FAILURE_WINDOW_MS clock;
               blockers = push_if (limit_reached maxConsecutiveFailures (fs_consecutiveFailures state))
                 ''max_consecutive_failures_reached''
           in policy_answer ''consecutive_failures'' now blockers
                [(''metrics'', failure_metrics state maxConsecutiveFailures)])"

interpretation failure_gate: policy_gate
  "\<lambda>(i, a, m, r, c, now). evaluateConsecutiveFailures i a m r c now" "''consecutive_failures''"
  by unfold_locales (auto simp: evaluateConsecutiveFailures_def Let_def split: prod.splits)

section \<open>Facts\<close>

text \<open>The streak against its specification: failures before the first success or reset.\<close>

fun streak_spec :: "classification list \<Rightarrow> nat" where
  "streak_spec [] = 0"
| "streak_spec (c # cs) =
     (case c of BroadcastFailed \<Rightarrow> Suc (streak_spec cs)
      | PolicyRejected \<Rightarrow> streak_spec cs | NoTxFailure \<Rightarrow> streak_spec cs | _ \<Rightarrow> 0)"

lemma count_streak_spec: "fw_count (count_streak xs w) = fw_count w + streak_spec (List.map fst xs)"
  by (induction xs w rule: count_streak.induct) (auto split: classification.splits)

lemma streak_is_spec:
  "fw_count (countConsecutiveBroadcastFailures xs) = streak_spec (List.map fst xs)"
  by (simp add: countConsecutiveBroadcastFailures_def count_streak_spec)

definition neutral :: "classification \<Rightarrow> bool" where
  "neutral c \<longleftrightarrow> c = PolicyRejected \<or> c = NoTxFailure"

lemma streak_spec_neutral: "streak_spec (List.filter (\<lambda>c. \<not> neutral c) cs) = streak_spec cs"
  by (induction cs) (auto simp: neutral_def split: classification.splits)

lemma streak_spec_boundary:
  "streak_spec cs = count_list (takeWhile (\<lambda>c. c \<noteq> BroadcastSucceeded \<and> c \<noteq> Reset) cs) BroadcastFailed"
  by (induction cs) (auto split: classification.splits)

text \<open>Everything the grouping keeps is a classified record of the scope, after the reset.\<close>

definition eligible :: "jsnum option \<Rightarrow> classified \<Rightarrow> bool" where
  "eligible r x \<longleftrightarrow> \<not> skipped_by_reset r (snd x)
     \<and> classifyConsecutiveFailureRecord (snd x) = Some (fst x)"

lemma update_values: "y \<in> set (List.map snd (AList.update k v g)) \<Longrightarrow> y = v \<or> y \<in> set (List.map snd g)"
  by (induction g) (auto split: if_splits)

text \<open>One record either leaves the groups as they are or is written under its key.\<close>

lemma group_record_cases:
  obtains "group_record r g rec = g"
  | c where "group_record r g rec = AList.update (recordKey rec) (c, rec) g"
      "\<not> skipped_by_reset r rec" "classifyConsecutiveFailureRecord rec = Some c"
  by (cases "skipped_by_reset r rec"; cases "classifyConsecutiveFailureRecord rec";
      cases "map_of g (recordKey rec)";
      cases "jle (recordTimestamp (snd (the (map_of g (recordKey rec))))) (recordTimestamp rec)")
    (auto simp: group_record_def Let_def)

lemma group_record_eligible:
  assumes "\<And>x. x \<in> set (List.map snd g) \<Longrightarrow> eligible r x"
    and x: "x \<in> set (List.map snd (group_record r g rec))"
  shows "eligible r x"
proof (cases rule: group_record_cases [of r g rec])
  case 1
  with x assms(1) show ?thesis by simp
next
  case (2 c)
  from x have "x = (c, rec) \<or> x \<in> set (List.map snd g)"
    unfolding 2(1) by (rule update_values)
  then show ?thesis
  proof
    assume "x = (c, rec)"
    then show ?thesis using 2(2,3) by (simp add: eligible_def)
  qed (rule assms(1))
qed

lemma foldl_group_eligible:
  "x \<in> set (List.map snd (foldl (group_record r) [] recs)) \<Longrightarrow> eligible r x"
proof (induction recs arbitrary: x rule: rev_induct)
  case Nil
  then show ?case by simp
next
  case (snoc rec recs)
  show ?case
    by (rule group_record_eligible [OF snoc.IH]) (use snoc.prems in simp_all)
qed

definition kept_records :: "(jsv \<times> classified) list \<Rightarrow> jsv set" where
  "kept_records g = (\<lambda>x. snd (snd x)) ` set g"

lemma kept_records_update: "kept_records (AList.update k (c, rec) g) \<subseteq> insert rec (kept_records g)"
  by (induction g) (auto simp: kept_records_def)

lemma kept_records_group: "kept_records (group_record r g rec) \<subseteq> insert rec (kept_records g)"
  by (cases rule: group_record_cases [of r g rec]) (use kept_records_update in \<open>simp_all add: subset_insertI\<close>)

lemma foldl_group_members:
  "kept_records (foldl (group_record r) g recs) \<subseteq> kept_records g \<union> set recs"
proof (induction recs arbitrary: g)
  case Nil
  then show ?case by simp
next
  case (Cons rec recs)
  have "kept_records (foldl (group_record r) (group_record r g rec) recs)
      \<subseteq> kept_records (group_record r g rec) \<union> set recs" by (rule Cons.IH)
  also have "\<dots> \<subseteq> insert rec (kept_records g) \<union> set recs"
    using kept_records_group by blast
  finally show ?case by simp
qed

lemma latest_records_grouped:
  assumes "x \<in> set (latestClassifiedRecords recs sid chain resumeAfter)"
  shows "x \<in> set (List.map snd (foldl (group_record (resumeAfterTimestamp resumeAfter)) []
           (List.filter (\<lambda>item. matchesStrategyChain item sid chain) recs)))"
  using assms unfolding latestClassifiedRecords_def Let_def set_sort_by .

lemma latest_records_eligible:
  assumes "x \<in> set (latestClassifiedRecords recs sid chain resumeAfter)"
  shows "eligible (resumeAfterTimestamp resumeAfter) x"
  using latest_records_grouped [OF assms] by (rule foldl_group_eligible)

lemma latest_records_in_scope:
  assumes "x \<in> set (latestClassifiedRecords recs sid chain resumeAfter)"
  shows "snd x \<in> set recs \<and> matchesStrategyChain (snd x) sid chain"
proof -
  let ?rs = "List.filter (\<lambda>item. matchesStrategyChain item sid chain) recs"
  have "snd x \<in> kept_records (foldl (group_record (resumeAfterTimestamp resumeAfter)) [] ?rs)"
    using latest_records_grouped [OF assms] by (auto simp: kept_records_def)
  then have "snd x \<in> kept_records [] \<union> set ?rs"
    using foldl_group_members by blast
  then show ?thesis by (simp add: kept_records_def)
qed

lemma streak_spec_no_failure: "BroadcastFailed \<notin> set cs \<Longrightarrow> streak_spec cs = 0"
  by (induction cs) (auto split: classification.splits)

lemma failure_decision:
  assumes "\<not> isApprovalRevocationIntent intent" "m \<noteq> JUndef"
  shows "pr_decision (evaluateConsecutiveFailures intent recs m resumeAfter clock now) = BLOCK \<longleftrightarrow>
     limit_reached m (streak_spec (List.map fst (latestClassifiedRecords recs
       (dot intent ''strategyId'') (orelse (dot intent ''chain'') JNull)
       (rs_resumeAfter (effectiveResumeAfter (dot intent ''strategyId'') resumeAfter)))))"
  using assms
  by (simp add: evaluateConsecutiveFailures_def Let_def buildConsecutiveFailureState_def streak_is_spec)

lemma streak_le_length: "streak_spec cs \<le> length cs"
  by (induction cs) (auto split: classification.splits)

lemma limit_reached_jint: "n < 2 ^ 53 \<Longrightarrow> limit_reached (JNum (Fin (of_nat m))) n \<longleftrightarrow> m \<le> n"
  using rnd_int [of "int n"] by (simp add: limit_reached_def isFiniteNumber_def jnat_def)

lemma length_update: "length (AList.update k v g) \<le> Suc (length g)"
  by (induction g) auto

lemma length_group_record: "length (group_record r g rec) \<le> Suc (length g)"
  by (cases rule: group_record_cases [of r g rec]) (simp_all add: length_update)

lemma latest_records_length: "length (latestClassifiedRecords recs sid chain resumeAfter) \<le> length recs"
proof -
  have "length (foldl (group_record r) g rs) \<le> length g + length rs" for r g rs
  proof (induction rs arbitrary: g)
    case (Cons rec rs)
    show ?case using Cons.IH [of "group_record r g rec"] length_group_record [of r g rec] by simp
  qed simp
  from this [of "resumeAfterTimestamp resumeAfter" "[]" "List.filter (\<lambda>item. matchesStrategyChain item sid chain) recs"]
    length_filter_le [of "\<lambda>item. matchesStrategyChain item sid chain" recs]
  show ?thesis by (simp add: latestClassifiedRecords_def Let_def) (erule le_trans, rule length_filter_le)
qed

text \<open>C20: unless the intent revokes an approval, it is held back exactly when the failed broadcasts
  among the newest records of its strategy and chain, up to the first success or reset, reach
  the limit.\<close>

theorem failure_pause_iff:
  assumes "\<not> isApprovalRevocationIntent intent" "limit = JNum (Fin (of_nat m))" "length recs < 2 ^ 53"
    "cs = List.map fst (latestClassifiedRecords recs (dot intent ''strategyId'')
       (orelse (dot intent ''chain'') JNull)
       (rs_resumeAfter (effectiveResumeAfter (dot intent ''strategyId'') resumeAfter)))"
  shows "pr_decision (evaluateConsecutiveFailures intent recs limit resumeAfter clock now) = BLOCK \<longleftrightarrow>
     m \<le> count_list (takeWhile (\<lambda>c. c \<noteq> BroadcastSucceeded \<and> c \<noteq> Reset) cs) BroadcastFailed"
proof -
  have "streak_spec cs \<le> length cs" by (rule streak_le_length)
  also have "length cs \<le> length recs" unfolding assms(4) by (simp add: latest_records_length)
  finally have "streak_spec cs < 2 ^ 53" using assms(3) by linarith
  from limit_reached_jint [OF this, of m] show ?thesis
    using failure_decision [OF assms(1), of limit recs resumeAfter clock now] assms(2,4)
    by (simp add: streak_spec_boundary)
qed

definition sample_failed :: "string \<Rightarrow> string \<Rightarrow> jsv" where
  "sample_failed hash stage = JObj
     [(''strategyId'', JStr ''s''), (''chain'', JStr ''base''), (''intentHash'', JStr hash),
      (''timestamp'', JStr ''2026-01-05T10:00:00.000Z''), (''lifecycle'', JObj [(''stage'', JStr stage)])]"

theorem failure_pause_iff_witness:
  "pr_decision (evaluateConsecutiveFailures (JObj [(''strategyId'', JStr ''s''), (''chain'', JStr ''base'')])
     [sample_failed ''a'' ''reverted'', sample_failed ''b'' ''reverted''] (JNum (Fin 2)) JNull (Fin 0) JNull) = BLOCK"
proof -
  let ?i = "JObj [(''strategyId'', JStr ''s''), (''chain'', JStr ''base'')]"
  let ?recs = "[sample_failed ''a'' ''reverted'', sample_failed ''b'' ''reverted'']"
  have "List.map fst (latestClassifiedRecords ?recs (dot ?i ''strategyId'') (orelse (dot ?i ''chain'') JNull)
       (rs_resumeAfter (effectiveResumeAfter (dot ?i ''strategyId'') JNull))) = [BroadcastFailed, BroadcastFailed]"
    by code_simp
  moreover have "\<not> isApprovalRevocationIntent ?i" by (simp add: isApprovalRevocationIntent_def)
  ultimately show ?thesis
    using failure_pause_iff [of ?i "JNum (Fin 2)" 2 ?recs, OF _ _ _ refl] by simp
qed

text \<open>Only records of the audit log that concern the strategy and chain, that classify as an
  outcome and that are newer than the reset the operator committed count toward the streak.\<close>

theorem failure_records_scope:
  assumes "(c, rec) \<in> set (latestClassifiedRecords recs sid chain resumeAfter)"
  shows "rec \<in> set recs \<and> matchesStrategyChain rec sid chain \<and> classifyConsecutiveFailureRecord rec = Some c
    \<and> (\<forall>t. resumeAfterTimestamp resumeAfter = Some t \<longrightarrow> \<not> jle (recordTimestamp rec) t)"
  using latest_records_in_scope [OF assms] latest_records_eligible [OF assms]
  by (auto simp: eligible_def skipped_by_reset_def split: option.splits)

theorem failure_records_scope_witness:
  "matchesStrategyChain (sample_failed ''a'' ''reverted'') (JStr ''s'') (JStr ''base'')"
proof -
  have "(BroadcastFailed, sample_failed ''a'' ''reverted'')
      \<in> set (latestClassifiedRecords [sample_failed ''a'' ''reverted''] (JStr ''s'') (JStr ''base'') JNull)"
    by code_simp
  from failure_records_scope [OF this] show ?thesis by blast
qed

end
