(* ===== verification/CapCheck.thy ===== *)
theory CapCheck
  imports StrategyCaps StaleQuote
begin

text \<open>
  src/src/executor/policy/cap-check.mjs: what an intent or an audit record counts against the
  caps, the day's state of a strategy and of the portfolio rebuilt from audit records, the
  discretionary budget, and the cap check. Rebuilding the state throws a RangeError on a record
  with an unreadable date, as toISOString does.

  The lemmas: an allowed intent stays within its per-transaction, per-day and per-chain caps and
  within the shares of the portfolio, emergency intents skip exactly the amount checks, and how a
  record changes the day's volume (CapSession follows the volume over a day of the signer's log).
\<close>

section \<open>Records\<close>

definition str_of_or_empty :: "jsv \<Rightarrow> string" where
  "str_of_or_empty v = to_str (orelse v (JStr []))"

definition legacyCapAmountUsd :: "jsv \<Rightarrow> jsv \<Rightarrow> jsv \<Rightarrow> jsv \<Rightarrow> jsv \<Rightarrow> jsnum option" where
  "legacyCapAmountUsd strategyId intentId intentType executionReason amountUsd =
     (if strategyId = JStr ''wrapped-btc-loop-base-moonwell'' then
        (if executionReason = JStr ''risk_unwind''
            \<or> str_includes '':unwind:'' (str_of_or_empty intentId) then Some (Fin 0)
         else if intentType = JStr ''tiny_live_canary'' then Some (to_num (coal amountUsd (JNum (Fin 0))))
         else if str_includes '':entry:mint-initial-collateral'' (str_of_or_empty intentId)
         then Some (to_num (coal amountUsd (JNum (Fin 0))))
         else Some (Fin 0))
      else if strategyId = JStr ''native-dex-experiment'' then
        (if intentType = JStr ''wrap_native'' \<or> intentType = JStr ''approve_exact''
         then Some (Fin 0) else None)
      else if strategyId = JStr ''token-dex-experiment'' then
        (if intentType = JStr ''approve_exact'' then Some (Fin 0) else None)
      else None)"

definition hours_between :: "jsv \<Rightarrow> jsv \<Rightarrow> jsnum" where
  "hours_between timestamp now = jdiv (jsub (date_of now) (date_of timestamp)) (jint 3600000)"

definition successfulBroadcast :: "jsv \<Rightarrow> bool" where
  "successfulBroadcast record =
     (let stage = dots record [''lifecycle'', ''stage'']
      in if dot record ''strategyId'' = JStr ''prelive_fork_execution'' \<and> stage = JStr ''signed''
            \<and> \<not> truthy (dot record ''broadcast'') then False
         else if stage = JStr ''signed'' \<and> \<not> truthy (dot record ''broadcast'') then False
         else one_of [''approved'', ''signed'', ''broadcasted'', ''confirmed''] (dot record ''policyVerdict'')
            \<or> one_of [''broadcasted'', ''confirmed''] stage)"

definition stageRank :: "jsv \<Rightarrow> nat" where
  "stageRank record =
     (let stage = orelse (dots record [''lifecycle'', ''stage'']) JNull
      in if stage = JStr ''reverted'' then 5
         else if stage = JStr ''confirmed'' then 4
         else if stage = JStr ''broadcasted'' then 3
         else if stage = JStr ''signed'' then 2
         else if dot record ''policyVerdict'' = JStr ''approved'' then 1 else 0)"

definition capRecordKey :: "jsv \<Rightarrow> jsv" where
  "capRecordKey record =
     first_truthy [dot record ''intentId'', dot record ''intentHash'',
       JStr (to_str (orelse (dot record ''strategyId'') (JStr ''unknown'')) @ '':''
         @ to_str (orelse (dot record ''chain'') (JStr ''unknown'')) @ '':''
         @ to_str (first_truthy [dot record ''timestamp'', dot record ''observedAt'', JStr ''unknown'']))]"

definition capRecordTime :: "jsv \<Rightarrow> jsnum" where
  "capRecordTime record =
     date_of (first_truthy [dot record ''timestamp'', dot record ''observedAt'', JNum (Fin 0)])"

text \<open>One turn of the loop: the first record of a key, or one at a later or equal stage, is kept.\<close>

definition dedupe_step :: "(jsv \<times> jsv) list \<Rightarrow> jsv \<Rightarrow> (jsv \<times> jsv) list" where
  "dedupe_step bestByKey record =
     (let key = capRecordKey record
      in case map_of bestByKey key of
          None \<Rightarrow> AList.update key record bestByKey
        | Some existing \<Rightarrow>
            (let rank = stageRank record; existingRank = stageRank existing
             in if existingRank < rank
                   \<or> rank = existingRank \<and> jle (capRecordTime existing) (capRecordTime record)
                then AList.update key record bestByKey else bestByKey))"

definition dedupeRecords :: "jsv list \<Rightarrow> jsv list" where
  "dedupeRecords records = List.map snd (foldl dedupe_step [] records)"

definition finite_override :: "jsnum option \<Rightarrow> jsnum option" where
  "finite_override n = (case n of Some x \<Rightarrow> if is_fin x then Some x else None | None \<Rightarrow> None)"

definition recordAmountUsd :: "jsv \<Rightarrow> jsnum" where
  "recordAmountUsd record =
     (let intent = dot record ''intent'';
          metadataOverride = dots intent [''metadata'', ''capCheckAmountUsd''];
          amount = coal (dot record ''amountUsd'') (dot intent ''amountUsd'')
      in if is_fin (to_num metadataOverride) then to_num metadataOverride
         else case finite_override (legacyCapAmountUsd
                (coal (dot record ''strategyId'') (dot intent ''strategyId''))
                (coal (dot record ''intentId'') (dot intent ''intentId''))
                (dot intent ''intentType'') (dot intent ''executionReason'') amount) of
             Some x \<Rightarrow> x
           | None \<Rightarrow> to_num (coal amount (JNum (Fin 0))))"

definition intentCapAmountUsd :: "jsv \<Rightarrow> jsnum" where
  "intentCapAmountUsd intent =
     (let metadataOverride = dots intent [''metadata'', ''capCheckAmountUsd'']
      in if is_fin (to_num metadataOverride) then to_num metadataOverride
         else case finite_override (legacyCapAmountUsd (dot intent ''strategyId'')
                (dot intent ''intentId'') (dot intent ''intentType'')
                (dot intent ''executionReason'') (dot intent ''amountUsd'')) of
             Some x \<Rightarrow> x
           | None \<Rightarrow> to_num (coal (dot intent ''amountUsd'') (JNum (Fin 0))))"

section \<open>Exposure of a strategy\<close>

definition protocolTagsForStrategy :: "jsv \<Rightarrow> jsv list" where
  "protocolTagsForStrategy strategyId =
     unique_list (elems (dots (getStrategyCaps strategyId) [''exposure'', ''protocols'']))"

definition assetFamilyForStrategy :: "jsv \<Rightarrow> jsv" where
  "assetFamilyForStrategy strategyId =
     orelse (dots (getStrategyCaps strategyId) [''exposure'', ''assetFamily'']) JNull"

definition btcDenominatedForStrategy :: "jsv \<Rightarrow> bool" where
  "btcDenominatedForStrategy strategyId \<longleftrightarrow>
     dots (getStrategyCaps strategyId) [''exposure'', ''btcDenominated''] = JBool True"

definition finiteBudget :: "jsv \<Rightarrow> jsnum option" where
  "finiteBudget value =
     (let parsed = to_num value in if is_fin parsed \<and> jlt (Fin 0) parsed then Some parsed else None)"

section \<open>Volumes per key\<close>

type_synonym volumes = "(string \<times> jsnum) list"

text \<open>\<open>volumes[key] || 0\<close> and \<open>volumes[key] = (volumes[key] || 0) + amount\<close>\<close>

definition vol :: "volumes \<Rightarrow> jsv \<Rightarrow> jsnum" where
  "vol m key = (case map_of m (to_str key) of
      Some v \<Rightarrow> if v = NaN then Fin 0 else v | None \<Rightarrow> Fin 0)"

definition vol_add :: "jsv \<Rightarrow> jsnum \<Rightarrow> volumes \<Rightarrow> volumes" where
  "vol_add key amount m = AList.update (to_str key) (jadd (vol m key) amount) m"

definition vol_obj :: "volumes \<Rightarrow> jsv" where
  "vol_obj m = JObj (List.map (\<lambda>(k, v). (k, JNum v)) m)"

definition record_chain :: "jsv \<Rightarrow> jsv" where
  "record_chain item =
     first_truthy [dot item ''chain'', dots item [''intent'', ''chain''], JStr ''unknown'']"

definition record_when :: "jsv \<Rightarrow> jsv \<Rightarrow> jsv" where
  "record_when now item = first_truthy [dot item ''timestamp'', dot item ''observedAt'', now]"

definition same_day :: "string \<Rightarrow> jsv \<Rightarrow> jsv \<Rightarrow> bool throws" where
  "same_day currentDay now item =
     and_then (dayKey (record_when now item)) (\<lambda>d. Inr (d = currentDay))"

section \<open>Portfolio state\<close>

record portfolio_state =
  ps_observedAt :: jsv
  ps_protocolVolumeUsd :: volumes
  ps_chainVolumeUsd :: volumes
  ps_assetFamilyVolumeUsd :: volumes
  ps_btcDenominatedVolumeUsd :: jsnum
  ps_nonBtcDenominatedVolumeUsd :: jsnum

definition portfolio_add :: "portfolio_state \<Rightarrow> jsv \<Rightarrow> portfolio_state" where
  "portfolio_add st item =
     (let strategyId = coal (dot item ''strategyId'') (dots item [''intent'', ''strategyId'']);
          amountUsd = recordAmountUsd item
      in if \<not> is_fin amountUsd then st
         else
           let assetFamily = assetFamilyForStrategy strategyId;
               st = st\<lparr>ps_chainVolumeUsd := vol_add (record_chain item) amountUsd (ps_chainVolumeUsd st)\<rparr>;
               st = (if truthy assetFamily
                     then st\<lparr>ps_assetFamilyVolumeUsd :=
                       vol_add assetFamily amountUsd (ps_assetFamilyVolumeUsd st)\<rparr>
                     else st);
               st = st\<lparr>ps_protocolVolumeUsd := foldl (\<lambda>m protocol. vol_add protocol amountUsd m)
                       (ps_protocolVolumeUsd st) (protocolTagsForStrategy strategyId)\<rparr>
           in if btcDenominatedForStrategy strategyId
              then st\<lparr>ps_btcDenominatedVolumeUsd := jadd (ps_btcDenominatedVolumeUsd st) amountUsd\<rparr>
              else st\<lparr>ps_nonBtcDenominatedVolumeUsd :=
                     jadd (ps_nonBtcDenominatedVolumeUsd st) amountUsd\<rparr>)"

definition buildPortfolioExposureState :: "jsv list \<Rightarrow> jsv \<Rightarrow> portfolio_state throws" where
  "buildPortfolioExposureState auditRecords now =
     and_then (dayKey now) (\<lambda>currentDay.
     and_then (filter_throws (same_day currentDay now) auditRecords) (\<lambda>todays.
       Inr (foldl portfolio_add
         \<lparr>ps_observedAt = now, ps_protocolVolumeUsd = [], ps_chainVolumeUsd = [],
          ps_assetFamilyVolumeUsd = [], ps_btcDenominatedVolumeUsd = Fin 0,
          ps_nonBtcDenominatedVolumeUsd = Fin 0\<rparr>
         (List.filter successfulBroadcast (dedupeRecords todays)))))"

section \<open>Strategy state\<close>

record cap_state =
  cs_strategyId :: jsv
  cs_observedAt :: jsv
  cs_dailyVolumeUsd :: jsnum
  cs_perChainVolumeUsd :: volumes
  cs_dailyRealizedPnlUsd :: jsnum
  cs_failedGasCost24hUsd :: jsnum
  cs_attemptedCount24h :: nat

text \<open>\<open>.map(f).filter(isFiniteNumber).reduce((sum, value) => sum + value, 0)\<close>\<close>

definition sum_finite :: "jsv list \<Rightarrow> jsnum" where
  "sum_finite vs = jsum (List.map to_num (List.filter isFiniteNumber vs))"

definition volume_of :: "jsv list \<Rightarrow> jsnum" where
  "volume_of executed = sum_finite (List.map (\<lambda>r. JNum (recordAmountUsd r)) executed)"

definition chain_volumes :: "jsv list \<Rightarrow> volumes" where
  "chain_volumes executed =
     foldl (\<lambda>m item. let amountUsd = recordAmountUsd item
              in vol_add (record_chain item) (if is_fin amountUsd then amountUsd else Fin 0) m)
       [] executed"

definition within_24h :: "jsv \<Rightarrow> jsv \<Rightarrow> bool" where
  "within_24h now item \<longleftrightarrow> jle (hours_between (record_when now item) now) (jint 24)"

definition buildStrategyCapState :: "jsv \<Rightarrow> jsv list \<Rightarrow> jsv \<Rightarrow> cap_state throws" where
  "buildStrategyCapState strategyId auditRecords now =
     and_then (dayKey now) (\<lambda>currentDay.
       let relevant = List.filter (\<lambda>item. strict_eq (dot item ''strategyId'') strategyId) auditRecords
       in and_then (filter_throws (same_day currentDay now) relevant) (\<lambda>today.
         let executedToday = List.filter successfulBroadcast (dedupeRecords today);
             recent = List.filter (within_24h now) relevant
         in Inr \<lparr>cs_strategyId = strategyId,
                 cs_observedAt = now,
                 cs_dailyVolumeUsd = volume_of executedToday,
                 cs_perChainVolumeUsd = chain_volumes executedToday,
                 cs_dailyRealizedPnlUsd =
                   sum_finite (List.map (\<lambda>item. dots item [''realized'', ''realizedNetPnlUsd'']) today),
                 cs_failedGasCost24hUsd =
                   sum_finite (List.map (\<lambda>item. dots item [''realized'', ''actualKnownCostUsd'']) recent),
                 cs_attemptedCount24h = length recent\<rparr>))"

section \<open>Discretionary budget\<close>

definition normalizeDiscretionaryCategory :: "jsv \<Rightarrow> string option" where
  "normalizeDiscretionaryCategory category =
     (let normalized = lowercase (trim (str_of_or_empty category))
      in if normalized = [] then None else Some normalized)"

text \<open>The first candidate that Number() makes finite; \<open>Number(null)\<close> is 0.\<close>

definition or_zero :: "jsnum option \<Rightarrow> jsnum" where
  "or_zero n = (case n of Some x \<Rightarrow> x | None \<Rightarrow> Fin 0)"

definition when_refuel :: "string option \<Rightarrow> jsv \<Rightarrow> jsv" where
  "when_refuel category v = (if category = Some ''refuel'' then v else JNull)"

definition recordDiscretionarySpendUsd :: "jsv \<Rightarrow> string option \<Rightarrow> jsnum" where
  "recordDiscretionarySpendUsd record category = or_zero (firstFinite
     [dot record ''discretionaryBudgetUsd'',
      dots record [''metadata'', ''discretionaryBudgetUsd''],
      dots record [''intent'', ''discretionaryBudgetUsd''],
      dots record [''intent'', ''metadata'', ''discretionaryBudgetUsd''],
      dots record [''realized'', ''actualKnownCostUsd''],
      dots record [''execution'', ''actualKnownCostUsd''],
      dots record [''quote'', ''feeUsd''],
      dots record [''quote'', ''totalFeeUsd''],
      dots record [''quote'', ''fees'', ''totalUsd''],
      dots record [''movementBudget'', ''bridgeQuoteCostUsd''],
      dots record [''fundingSource'', ''expectedExecutionRefillCostUsd''],
      when_refuel category (dot record ''amountUsd''),
      when_refuel category (dots record [''intent'', ''amountUsd''])])"

definition intentDiscretionarySpendUsd :: "jsv \<Rightarrow> string option \<Rightarrow> jsnum" where
  "intentDiscretionarySpendUsd intent category = or_zero (firstFinite
     [dot intent ''discretionaryBudgetUsd'',
      dots intent [''metadata'', ''discretionaryBudgetUsd''],
      dots intent [''realized'', ''actualKnownCostUsd''],
      dots intent [''quote'', ''feeUsd''],
      dots intent [''quote'', ''totalFeeUsd''],
      dots intent [''quote'', ''fees'', ''totalUsd''],
      dots intent [''movementBudget'', ''bridgeQuoteCostUsd''],
      dots intent [''fundingSource'', ''expectedExecutionRefillCostUsd''],
      when_refuel category (dot intent ''amountUsd'')])"

definition resolveDiscretionaryBudgetCaps :: jsv where
  "resolveDiscretionaryBudgetCaps =
     (let normalizedCaps = foldl (\<lambda>acc (category, budgetUsd).
            case (normalizeDiscretionaryCategory (JStr category), finiteBudget budgetUsd) of
              (Some c, Some b) \<Rightarrow> set_fld c (JNum b) acc
            | _ \<Rightarrow> acc) [] (fields_of perCategoryDailyUsd)
      in if normalizedCaps \<noteq> [] then JObj normalizedCaps
         else FALLBACK_DISCRETIONARY_24H_BUDGET_USD_BY_CATEGORY)"

definition discretionarySliceCategory :: "jsv \<Rightarrow> string option" where
  "discretionarySliceCategory entry = normalizeDiscretionaryCategory (first_present
     [dot entry ''discretionaryBudgetCategory'',
      dot entry ''category'',
      dots entry [''metadata'', ''discretionaryBudgetCategory''],
      dots entry [''intent'', ''discretionaryBudgetCategory''],
      dots entry [''intent'', ''category''],
      dots entry [''intent'', ''metadata'', ''discretionaryBudgetCategory'']])"

definition isStrategyRealizedPnlIntent :: "jsv \<Rightarrow> bool" where
  "isStrategyRealizedPnlIntent intent \<longleftrightarrow>
     dot intent ''classification'' = JStr ''strategy_realized_pnl''
     \<or> dots intent [''metadata'', ''classification''] = JStr ''strategy_realized_pnl''
     \<or> dot intent ''kind'' = JStr ''strategy_realized_pnl''"

text \<open>\<open>clock\<close> is the time that \<open>new Date()\<close> reads.\<close>

definition isFreshAutoExecuteIntent :: "jsv \<Rightarrow> jsv \<Rightarrow> bool" where
  "isFreshAutoExecuteIntent intent clock =
     (let strategyCaps = (if truthy (dot intent ''strategyId'')
            then getStrategyCaps (dot intent ''strategyId'') else JNull);
          observedAt = quoteObservedAt intent
      in if dot strategyCaps ''autoExecute'' \<noteq> JBool True then False
         else if \<not> truthy observedAt then True
         else
           let now = first_truthy [dot intent ''now'', dot intent ''evaluatedAt'',
                 dot intent ''createdAt'', clock];
               quoteAgeMs = age_ms now observedAt;
               maxAgeMs = resolveQuoteMaxAgeMs intent (coal (dot strategyCaps ''intentTtlMs'') JUndef)
           in is_fin quoteAgeMs \<and> jle (Fin 0) quoteAgeMs \<and> vle (JNum quoteAgeMs) maxAgeMs)"

record budget_verdict =
  bv_allowed :: bool
  bv_blockers :: "string list"
  bv_runningTotalUsd :: jsnum

definition evaluateDiscretionaryBudget :: "jsv \<Rightarrow> jsv \<Rightarrow> jsv list \<Rightarrow> jsv \<Rightarrow> budget_verdict" where
  "evaluateDiscretionaryBudget category intent last24hSlice clock =
     (if isStrategyRealizedPnlIntent intent \<or> isFreshAutoExecuteIntent intent clock
      then \<lparr>bv_allowed = True, bv_blockers = [], bv_runningTotalUsd = Fin 0\<rparr>
      else
        let normalizedCategory = normalizeDiscretionaryCategory category;
            max24hBudgetUsd = index resolveDiscretionaryBudgetCaps (str_or_null normalizedCategory)
        in if normalizedCategory = None \<or> \<not> is_finite max24hBudgetUsd
           then \<lparr>bv_allowed = False, bv_blockers = [''discretionary_budget_category_unknown''],
                 bv_runningTotalUsd = Fin 0\<rparr>
           else
             let historicalTotalUsd = sum_finite (List.map
                   (\<lambda>entry. JNum (recordDiscretionarySpendUsd entry normalizedCategory))
                   (List.filter (\<lambda>entry. discretionarySliceCategory entry = normalizedCategory)
                     last24hSlice));
                 currentAmountUsd = intentDiscretionarySpendUsd intent normalizedCategory;
                 runningTotalUsd = jadd historicalTotalUsd
                   (if is_fin currentAmountUsd then currentAmountUsd else Fin 0);
                 blockers = push_if (vlt max24hBudgetUsd (JNum runningTotalUsd))
                   ''discretionary_budget_24h_category_exhausted''
             in \<lparr>bv_allowed = (blockers = []), bv_blockers = blockers,
                 bv_runningTotalUsd = runningTotalUsd\<rparr>)"

section \<open>Portfolio exposure policy\<close>

record portfolio_policy =
  pp_activeBudgetUsd :: jsnum
  pp_profileId :: jsv
  pp_maxProtocolSharePct :: jsv
  pp_maxDefaultChainSharePct :: jsv
  pp_chainSharePct :: jsv
  pp_minBtcDenominatedSharePct :: jsv

definition own_or_default :: "jsv \<Rightarrow> string \<Rightarrow> jsv" where
  "own_or_default policy key =
     (if is_finite (dot policy key) then dot policy key else dot PORTFOLIO_EXPOSURE_POLICY key)"

definition resolvePortfolioExposurePolicy :: "jsv \<Rightarrow> jsv \<Rightarrow> portfolio_policy option" where
  "resolvePortfolioExposurePolicy activeBudgetUsd policy =
     (let normalizedPolicy = orelse (if policy = JUndef then JObj [] else policy) PORTFOLIO_EXPOSURE_POLICY
      in case finiteBudget activeBudgetUsd of
          None \<Rightarrow> None
        | Some budgetUsd \<Rightarrow> Some
            \<lparr>pp_activeBudgetUsd = budgetUsd,
             pp_profileId = orelse (dot normalizedPolicy ''profileId'') JNull,
             pp_maxProtocolSharePct = own_or_default normalizedPolicy ''maxProtocolSharePct'',
             pp_maxDefaultChainSharePct = own_or_default normalizedPolicy ''maxDefaultChainSharePct'',
             pp_chainSharePct =
               (if truthy (dot normalizedPolicy ''chainSharePct'')
                   \<and> typeof_object (dot normalizedPolicy ''chainSharePct'')
                then dot normalizedPolicy ''chainSharePct''
                else dot PORTFOLIO_EXPOSURE_POLICY ''chainSharePct''),
             pp_minBtcDenominatedSharePct =
               own_or_default normalizedPolicy ''minBtcDenominatedSharePct''\<rparr>)"

section \<open>The check\<close>

definition isEmergencyCapIntent :: "jsv \<Rightarrow> bool" where
  "isEmergencyCapIntent intent \<longleftrightarrow>
     dot intent ''intentType'' = JStr ''emergency_unwind''
     \<or> dot intent ''executionReason'' = JStr ''risk_unwind''"

definition isTinyLiveCanaryCap :: "jsv \<Rightarrow> bool" where
  "isTinyLiveCanaryCap intent \<longleftrightarrow>
     dot intent ''intentType'' = JStr ''tiny_live_canary''
     \<or> dot intent ''executionReason'' = JStr ''merkl_canary_autopilot''
     \<or> dot intent ''executionReason'' = JStr ''radar_tiny_live_canary''
     \<or> dots intent [''metadata'', ''tinyLiveCanary''] = JBool True"

definition perTxCapOf :: "jsv \<Rightarrow> jsv \<Rightarrow> jsv" where
  "perTxCapOf caps intent =
     (if isTinyLiveCanaryCap intent then dot caps ''tinyLivePerTxUsd'' else dot caps ''perTxUsd'')"

definition chainCapOf :: "jsv \<Rightarrow> jsv \<Rightarrow> jsv" where
  "chainCapOf caps intent = coal (index (dot caps ''perChainUsd'') (dot intent ''chain'')) JNull"

text \<open>\<open>isFiniteNumber(cap) && isFiniteNumber(amount) && used + amount > cap\<close>\<close>

definition over_cap :: "jsv \<Rightarrow> jsnum \<Rightarrow> jsnum \<Rightarrow> bool" where
  "over_cap cap used amount \<longleftrightarrow>
     isFiniteNumber cap \<and> is_fin amount \<and> vlt cap (JNum (jadd used amount))"

definition strategy_cap_blockers :: "jsv \<Rightarrow> jsv \<Rightarrow> cap_state \<Rightarrow> string list" where
  "strategy_cap_blockers intent strategyCaps state =
     (let caps = orelse (dot strategyCaps ''caps'') (JObj []);
          chainCapUsd = chainCapOf caps intent;
          capAmountUsd = intentCapAmountUsd intent;
          isEmergency = isEmergencyCapIntent intent;
          perTxCapUsd = perTxCapOf caps intent
      in push_if (\<not> isEmergency \<and> dot intent ''mode'' \<noteq> JStr ''dry_run''
             \<and> dot strategyCaps ''autoExecute'' \<noteq> JBool True) ''strategy_auto_execute_disabled''
         @ push_if (\<not> isEmergency \<and> \<not> isFiniteNumber perTxCapUsd)
             (if isTinyLiveCanaryCap intent then ''strategy_tiny_live_cap_missing''
              else ''strategy_per_tx_cap_missing'')
         @ push_if (\<not> isEmergency \<and> \<not> isFiniteNumber (dot caps ''perDayUsd''))
             ''strategy_per_day_cap_missing''
         @ push_if (\<not> isEmergency \<and> \<not> isFiniteNumber (dot caps ''maxDailyLossUsd''))
             ''strategy_max_daily_loss_missing''
         @ push_if (\<not> isEmergency \<and> \<not> isFiniteNumber chainCapUsd)
             ''strategy_per_chain_cap_missing''
         @ push_if (\<not> isEmergency \<and> isFiniteNumber perTxCapUsd \<and> is_fin capAmountUsd
               \<and> vlt perTxCapUsd (JNum capAmountUsd)) ''strategy_per_tx_cap_exceeded''
         @ push_if (\<not> isEmergency
               \<and> over_cap (dot caps ''perDayUsd'') (cs_dailyVolumeUsd state) capAmountUsd)
             ''strategy_per_day_cap_exceeded''
         @ push_if (\<not> isEmergency
               \<and> over_cap chainCapUsd (vol (cs_perChainVolumeUsd state) (dot intent ''chain'')) capAmountUsd)
             ''strategy_per_chain_cap_exceeded''
         @ push_if (isFiniteNumber (dot caps ''maxDailyLossUsd'')
               \<and> jle (cs_dailyRealizedPnlUsd state) (jneg (to_num (dot caps ''maxDailyLossUsd''))))
             ''strategy_max_daily_loss_breached''
         @ push_if (isFiniteNumber (dot caps ''maxFailedGasCost24hUsd'')
               \<and> vle (dot caps ''maxFailedGasCost24hUsd'') (JNum (cs_failedGasCost24hUsd state)))
             ''strategy_failed_gas_budget_breached'')"

definition chainSharePctOf :: "portfolio_policy \<Rightarrow> jsv \<Rightarrow> jsnum" where
  "chainSharePctOf pol intent =
     to_num (coal (index (pp_chainSharePct pol) (dot intent ''chain'')) (pp_maxDefaultChainSharePct pol))"

definition share_budget :: "portfolio_policy \<Rightarrow> jsv \<Rightarrow> jsv" where
  "share_budget pol share =
     (if is_finite share then JNum (jmul (pp_activeBudgetUsd pol) (to_num share)) else JNull)"

definition chainCapBudgetUsd :: "portfolio_policy \<Rightarrow> jsv \<Rightarrow> jsv" where
  "chainCapBudgetUsd pol intent = share_budget pol (JNum (chainSharePctOf pol intent))"

definition maxNonBtcBudgetUsd :: "portfolio_policy \<Rightarrow> jsv" where
  "maxNonBtcBudgetUsd pol =
     (if is_finite (pp_minBtcDenominatedSharePct pol)
      then JNum (jmul (pp_activeBudgetUsd pol)
        (jsub (Fin 1) (to_num (pp_minBtcDenominatedSharePct pol)))) else JNull)"

definition portfolio_cap_blockers :: "jsv \<Rightarrow> portfolio_policy option \<Rightarrow> portfolio_state \<Rightarrow> string list" where
  "portfolio_cap_blockers intent portfolioPolicy st =
     (let capAmountUsd = intentCapAmountUsd intent
      in case portfolioPolicy of
          None \<Rightarrow> []
        | Some pol \<Rightarrow>
            if isEmergencyCapIntent intent \<or> \<not> is_fin capAmountUsd then []
            else
              push_if (over_cap (chainCapBudgetUsd pol intent)
                  (vol (ps_chainVolumeUsd st) (dot intent ''chain'')) capAmountUsd)
                ''portfolio_chain_cap_exceeded''
              @ push_if (\<exists>protocol\<in>set (protocolTagsForStrategy (dot intent ''strategyId'')).
                   over_cap (share_budget pol (pp_maxProtocolSharePct pol))
                     (vol (ps_protocolVolumeUsd st) protocol) capAmountUsd)
                ''portfolio_protocol_cap_exceeded''
              @ push_if (\<not> btcDenominatedForStrategy (dot intent ''strategyId'')
                   \<and> over_cap (maxNonBtcBudgetUsd pol) (ps_nonBtcDenominatedVolumeUsd st) capAmountUsd)
                ''portfolio_btc_denomination_floor_breached'')"

definition fin_or_null :: "jsnum \<Rightarrow> jsv" where
  "fin_or_null x = (if is_fin x then JNum x else JNull)"

definition cap_metrics :: "jsv \<Rightarrow> jsv \<Rightarrow> portfolio_policy option \<Rightarrow> jsv" where
  "cap_metrics intent caps pol = JObj
     [(''amountUsd'', fin_or_null (to_num (coal (dot intent ''amountUsd'') (JNum (Fin 0))))),
      (''capAmountUsd'', fin_or_null (intentCapAmountUsd intent)),
      (''perTxUsd'', coal (dot caps ''perTxUsd'') JNull),
      (''perDayUsd'', coal (dot caps ''perDayUsd'') JNull),
      (''tinyLivePerTxUsd'', coal (dot caps ''tinyLivePerTxUsd'') JNull),
      (''perChainUsd'', chainCapOf caps intent),
      (''maxDailyLossUsd'', coal (dot caps ''maxDailyLossUsd'') JNull),
      (''maxFailedGasCost24hUsd'', coal (dot caps ''maxFailedGasCost24hUsd'') JNull),
      (''portfolioActiveBudgetUsd'', num_or_null (map_option pp_activeBudgetUsd pol)),
      (''portfolioProtocolCapUsd'',
        (case pol of Some p \<Rightarrow> share_budget p (pp_maxProtocolSharePct p) | None \<Rightarrow> JNull)),
      (''portfolioChainCapUsd'',
        (case pol of Some p \<Rightarrow> chainCapBudgetUsd p intent | None \<Rightarrow> JNull)),
      (''portfolioMaxNonBtcUsd'',
        (case pol of Some p \<Rightarrow> maxNonBtcBudgetUsd p | None \<Rightarrow> JNull))]"

definition cap_state_obj :: "cap_state \<Rightarrow> jsv" where
  "cap_state_obj st = JObj
     [(''strategyId'', cs_strategyId st), (''observedAt'', cs_observedAt st),
      (''dailyVolumeUsd'', JNum (cs_dailyVolumeUsd st)),
      (''perChainVolumeUsd'', vol_obj (cs_perChainVolumeUsd st)),
      (''dailyRealizedPnlUsd'', JNum (cs_dailyRealizedPnlUsd st)),
      (''failedGasCost24hUsd'', JNum (cs_failedGasCost24hUsd st)),
      (''attemptedCount24h'', jnat (cs_attemptedCount24h st))]"

definition portfolio_state_obj :: "portfolio_state \<Rightarrow> jsv" where
  "portfolio_state_obj st = JObj
     [(''observedAt'', ps_observedAt st),
      (''protocolVolumeUsd'', vol_obj (ps_protocolVolumeUsd st)),
      (''chainVolumeUsd'', vol_obj (ps_chainVolumeUsd st)),
      (''assetFamilyVolumeUsd'', vol_obj (ps_assetFamilyVolumeUsd st)),
      (''btcDenominatedVolumeUsd'', JNum (ps_btcDenominatedVolumeUsd st)),
      (''nonBtcDenominatedVolumeUsd'', JNum (ps_nonBtcDenominatedVolumeUsd st))]"

text \<open>Absent arguments take their defaults: the committed caps, which may throw, and null.\<close>

definition evaluateCapCheck :: "jsv \<Rightarrow> jsv \<Rightarrow> jsv list \<Rightarrow> jsv \<Rightarrow> jsv \<Rightarrow> jsv \<Rightarrow> policy_result throws" where
  "evaluateCapCheck intent strategyCapsArg auditRecords activeBudgetUsd portfolioExposurePolicy now =
     and_then (if strategyCapsArg = JUndef then assertStrategyCaps (dot intent ''strategyId'')
               else Inr strategyCapsArg) (\<lambda>strategyCaps.
     and_then (buildStrategyCapState (dot intent ''strategyId'') auditRecords now) (\<lambda>state.
     let pol = resolvePortfolioExposurePolicy activeBudgetUsd
           (if portfolioExposurePolicy = JUndef then JNull else portfolioExposurePolicy)
     in and_then (buildPortfolioExposureState auditRecords now) (\<lambda>portfolioState.
     let caps = orelse (dot strategyCaps ''caps'') (JObj [])
     in Inr (policy_answer ''cap_check'' now
          (strategy_cap_blockers intent strategyCaps state
            @ portfolio_cap_blockers intent pol portfolioState)
          [(''state'', cap_state_obj state),
           (''portfolioState'', portfolio_state_obj portfolioState),
           (''metrics'', cap_metrics intent caps pol)]))))"

interpretation cap_gate: throwing_gate
  "\<lambda>(i, s, a, b, p, now). evaluateCapCheck i s a b p now" "''cap_check''"
  by unfold_locales (auto simp: evaluateCapCheck_def Let_def and_then_Inr split: prod.splits)

section \<open>Facts\<close>

lemma jadd_fin_not_nan: "a \<noteq> NaN \<Longrightarrow> is_fin b \<Longrightarrow> jadd a b \<noteq> NaN"
  by (cases a; cases b) (auto simp: rnd_not_nan)

lemma jsum_not_nan: "list_all is_fin xs \<Longrightarrow> jsum xs \<noteq> NaN"
  by (induction xs rule: rev_induct) (auto simp: jadd_fin_not_nan)

lemma sum_finite_not_nan: "sum_finite vs \<noteq> NaN"
  unfolding sum_finite_def
  by (rule jsum_not_nan) (auto simp: list_all_iff isFiniteNumber_def is_finite_iff)

lemma vol_not_nan: "vol m k \<noteq> NaN"
  by (simp add: vol_def split: option.splits)

lemma not_over_cap:
  assumes "\<not> over_cap cap used amount" "is_fin amount" "used \<noteq> NaN" "isFiniteNumber cap"
  shows "jle (jadd used amount) (to_num cap)"
proof -
  obtain c where c: "cap = JNum (Fin c)" using assms(4) by (auto simp: isFiniteNumber_def is_finite_iff)
  have "jadd used amount \<noteq> NaN" using assms(2,3) by (simp add: jadd_fin_not_nan)
  then show ?thesis using assms(1,2) by (simp add: over_cap_def c isFiniteNumber_def jlt_iff_not_jle)
qed

text \<open>What a returned result rests on.\<close>

lemma evaluateCapCheck_Inr:
  assumes "evaluateCapCheck intent c recs budget pol now = Inr r" "c \<noteq> JUndef"
  obtains st pst where "buildStrategyCapState (dot intent ''strategyId'') recs now = Inr st"
    "buildPortfolioExposureState recs now = Inr pst"
    "pr_blockers r = strategy_cap_blockers intent c st @ portfolio_cap_blockers intent
       (resolvePortfolioExposurePolicy budget (if pol = JUndef then JNull else pol)) pst"
    "pr_decision r = decide (pr_blockers r)"
  using assms by (auto simp: evaluateCapCheck_def and_then_Inr Let_def)

definition caps_of :: "jsv \<Rightarrow> jsv" where
  "caps_of strategyCaps = orelse (dot strategyCaps ''caps'') (JObj [])"

lemma strategy_cap_clear:
  assumes "strategy_cap_blockers intent c st = []" "\<not> isEmergencyCapIntent intent"
    "is_fin (intentCapAmountUsd intent)" "cs_dailyVolumeUsd st \<noteq> NaN"
  shows "jle (intentCapAmountUsd intent) (to_num (perTxCapOf (caps_of c) intent))"
    "jle (jadd (cs_dailyVolumeUsd st) (intentCapAmountUsd intent)) (to_num (dot (caps_of c) ''perDayUsd''))"
    "jle (jadd (vol (cs_perChainVolumeUsd st) (dot intent ''chain'')) (intentCapAmountUsd intent))
       (to_num (chainCapOf (caps_of c) intent))"
    "isFiniteNumber (perTxCapOf (caps_of c) intent)" "isFiniteNumber (dot (caps_of c) ''perDayUsd'')"
    "isFiniteNumber (chainCapOf (caps_of c) intent)"
proof -
  note b = assms(1) [unfolded strategy_cap_blockers_def Let_def, folded caps_of_def]
  show fin: "isFiniteNumber (perTxCapOf (caps_of c) intent)" "isFiniteNumber (dot (caps_of c) ''perDayUsd'')"
    "isFiniteNumber (chainCapOf (caps_of c) intent)"
    using b assms(2) by simp_all
  show "jle (jadd (cs_dailyVolumeUsd st) (intentCapAmountUsd intent)) (to_num (dot (caps_of c) ''perDayUsd''))"
    "jle (jadd (vol (cs_perChainVolumeUsd st) (dot intent ''chain'')) (intentCapAmountUsd intent))
       (to_num (chainCapOf (caps_of c) intent))"
    using b assms(2,3,4) fin by (auto intro!: not_over_cap vol_not_nan)
  have "\<not> vlt (perTxCapOf (caps_of c) intent) (JNum (intentCapAmountUsd intent))"
    using b assms(2,3) fin by simp
  moreover obtain x where "perTxCapOf (caps_of c) intent = JNum (Fin x)"
    using fin(1) by (auto simp: isFiniteNumber_def is_finite_iff)
  ultimately show "jle (intentCapAmountUsd intent) (to_num (perTxCapOf (caps_of c) intent))"
    using assms(3) by (auto elim!: is_finE)
qed

section \<open>A day of a strategy\<close>

lemma jsum_mono:
  "list_all2 jle xs ys \<Longrightarrow> list_all is_fin xs \<Longrightarrow> list_all is_fin ys \<Longrightarrow> jle (jsum xs) (jsum ys)"
proof (induction xs arbitrary: ys rule: rev_induct)
  case Nil
  then show ?case by simp
next
  case (snoc x xs)
  from snoc.prems(1) obtain y zs where ys: "ys = zs @ [y]" "list_all2 jle xs zs" "jle x y"
    by (auto simp: list_all2_append1 list_all2_Cons1)
  have fin: "is_fin x" "is_fin y" using snoc.prems ys by auto
  have "jle (jsum xs) (jsum zs)" using snoc ys by simp
  then have 1: "jle (jadd (jsum xs) x) (jadd (jsum zs) x)" by (rule jadd_mono) fact
  have "jle (jadd c x) (jadd c y)" if "c \<noteq> NaN" for c
    using that fin ys(3) by (cases c; cases x; cases y) (auto intro!: rnd_mono)
  then have "jle (jadd (jsum zs) x) (jadd (jsum zs) y)"
    using jsum_not_nan [of zs] snoc.prems ys by simp
  with 1 show ?case unfolding ys by (simp, metis jle_trans)
qed

text \<open>What one record adds to the day's volume.\<close>

definition counted :: "jsv \<Rightarrow> jsnum" where
  "counted rec = (if successfulBroadcast rec \<and> is_fin (recordAmountUsd rec)
     then recordAmountUsd rec else Fin 0)"

lemma is_fin_counted [simp]: "is_fin (counted rec)"
  by (simp add: counted_def)

lemma volume_counted:
  "volume_of (List.filter successfulBroadcast recs) = jsum (List.map counted recs)"
proof (induction recs rule: rev_induct)
  case Nil
  then show ?case by (simp add: volume_of_def sum_finite_def)
next
  case (snoc r recs)
  then show ?case
    by (auto simp: volume_of_def sum_finite_def counted_def isFiniteNumber_def jadd_0_right)
qed

definition best_of :: "jsv list \<Rightarrow> (jsv \<times> jsv) list" where
  "best_of lg = foldl dedupe_step [] lg"

lemma update_fresh: "map_of g k = None \<Longrightarrow> AList.update k v g = g @ [(k, v)]"
  by (induction g) (auto split: if_splits)

lemma counted_refl: "list_all2 jle (List.map (counted \<circ> snd) g) (List.map (counted \<circ> snd) g)"
  by (auto simp: list_all2_conv_all_nth intro!: jle_refl is_fin_not_nan)

lemma update_counted:
  "map_of g k = Some old \<Longrightarrow> distinct (List.map fst g) \<Longrightarrow> jle (counted v) (counted old) \<Longrightarrow>
     list_all2 jle (List.map (counted \<circ> snd) (AList.update k v g)) (List.map (counted \<circ> snd) g)"
proof (induction g)
  case (Cons x g)
  show ?case using Cons counted_refl [of g]
    by (cases x) (auto simp: comp_def intro!: jle_refl is_fin_not_nan split: if_splits)
qed simp

lemma best_of_snoc: "best_of (lg @ [rec]) = dedupe_step (best_of lg) rec"
  by (simp add: best_of_def)

lemma best_of_distinct: "distinct (List.map fst (best_of lg))"
proof (induction lg rule: rev_induct)
  case (snoc rec lg)
  then show ?case
    by (auto simp: best_of_snoc dedupe_step_def Let_def distinct_update split: option.splits)
qed (simp add: best_of_def)

definition day_volume :: "jsv list \<Rightarrow> jsnum" where
  "day_volume lg = jsum (List.map (counted \<circ> snd) (best_of lg))"

lemma day_volume_fresh:
  "map_of (best_of lg) (capRecordKey rec) = None \<Longrightarrow>
     day_volume (lg @ [rec]) = jadd (day_volume lg) (counted rec)"
  by (simp add: day_volume_def best_of_snoc dedupe_step_def update_fresh)

lemma day_volume_replace:
  assumes "map_of (best_of lg) (capRecordKey rec) = Some old" "jle (counted rec) (counted old)"
  shows "jle (day_volume (lg @ [rec])) (day_volume lg)"
proof -
  have "list_all2 jle (List.map (counted \<circ> snd) (dedupe_step (best_of lg) rec))
      (List.map (counted \<circ> snd) (best_of lg))"
    using update_counted [OF assms(1) best_of_distinct assms(2)] counted_refl [of "best_of lg"] assms(1)
    by (simp add: dedupe_step_def Let_def)
  then show ?thesis
    unfolding day_volume_def best_of_snoc
    by (rule jsum_mono) (simp_all add: list_all_iff)
qed

section \<open>Properties\<close>

lemma discretionary_caps:
  "resolveDiscretionaryBudgetCaps = JObj [(''probe'', JNum (Fin 3)), (''refuel'', JNum (Fin 5)),
     (''bridge'', JNum (Fin 10)), (''consolidation'', JNum (Fin 5))]"
  by code_simp

lemma or_zero_fin: "is_fin (or_zero (firstFinite vs))"
  by (auto simp: or_zero_def dest: firstFinite_fin split: option.splits)

text \<open>C16: an intent that is not an emergency unwind and whose counted amount is a number is allowed
  by the cap check only if that amount is within the per-transaction cap, the day's volume plus
  the amount is within the daily cap, and the volume of its chain plus the amount is within the
  chain's cap.\<close>

theorem cap_allow_bounds:
  assumes "evaluateCapCheck intent c recs budget pol now = Inr r" "c \<noteq> JUndef"
    "pr_decision r = ALLOW" "\<not> isEmergencyCapIntent intent" "is_fin (intentCapAmountUsd intent)"
  shows "\<exists>st. buildStrategyCapState (dot intent ''strategyId'') recs now = Inr st
    \<and> jle (intentCapAmountUsd intent) (to_num (perTxCapOf (caps_of c) intent))
    \<and> jle (jadd (cs_dailyVolumeUsd st) (intentCapAmountUsd intent)) (to_num (dot (caps_of c) ''perDayUsd''))
    \<and> jle (jadd (vol (cs_perChainVolumeUsd st) (dot intent ''chain'')) (intentCapAmountUsd intent))
       (to_num (chainCapOf (caps_of c) intent))"
proof -
  obtain st pst where st: "buildStrategyCapState (dot intent ''strategyId'') recs now = Inr st"
    and b: "pr_blockers r = strategy_cap_blockers intent c st @ portfolio_cap_blockers intent
       (resolvePortfolioExposurePolicy budget (if pol = JUndef then JNull else pol)) pst"
      "pr_decision r = decide (pr_blockers r)"
    by (rule evaluateCapCheck_Inr [OF assms(1,2)])
  have "cs_dailyVolumeUsd st \<noteq> NaN"
    using st by (auto simp: buildStrategyCapState_def and_then_Inr Let_def volume_of_def sum_finite_not_nan)
  with strategy_cap_clear [of intent c st] st b assms(3-5) show ?thesis by simp
qed

definition sample_caps :: jsv where
  "sample_caps = JObj
     [(''strategyId'', JStr ''s''), (''autoExecute'', JBool True),
      (''caps'', JObj [(''perTxUsd'', JNum (Fin 50)), (''perDayUsd'', JNum (Fin 80)),
        (''maxDailyLossUsd'', JNum (Fin 10)), (''maxFailedGasCost24hUsd'', JNum (Fin 3)),
        (''perChainUsd'', JObj [(''base'', JNum (Fin 60))])])]"

definition sample_intent :: "int \<Rightarrow> jsv" where
  "sample_intent amount = JObj
     [(''strategyId'', JStr ''s''), (''intentId'', JStr ''i1''), (''chain'', JStr ''base''),
      (''amountUsd'', JNum (Fin (of_int amount)))]"

definition sample_now :: jsv where
  "sample_now = JStr ''2026-01-05T12:00:00.000Z''"

lemma sample_day: "dayKey sample_now = Inr ''2026-01-05''"
  by code_simp

lemma empty_log_state:
  "dayKey now = Inr d \<Longrightarrow> buildStrategyCapState sid [] now = Inr
     \<lparr>cs_strategyId = sid, cs_observedAt = now, cs_dailyVolumeUsd = Fin 0, cs_perChainVolumeUsd = [],
      cs_dailyRealizedPnlUsd = Fin 0, cs_failedGasCost24hUsd = Fin 0, cs_attemptedCount24h = 0\<rparr>"
  by (simp add: buildStrategyCapState_def dedupeRecords_def volume_of_def sum_finite_def chain_volumes_def)

lemma empty_log_portfolio:
  "dayKey now = Inr d \<Longrightarrow> \<exists>pst. buildPortfolioExposureState [] now = Inr pst"
  by (simp add: buildPortfolioExposureState_def)

lemma no_budget_policy: "resolvePortfolioExposurePolicy JNull p = None"
  by (simp add: resolvePortfolioExposurePolicy_def finiteBudget_def Let_def)

lemma sample_amount: "intentCapAmountUsd (sample_intent n) = Fin (of_int n)"
  by (simp add: intentCapAmountUsd_def sample_intent_def Let_def legacyCapAmountUsd_def finite_override_def)

lemma sample_not_emergency: "\<not> isEmergencyCapIntent (sample_intent n)"
  by (simp add: isEmergencyCapIntent_def sample_intent_def)

lemma sample_allowed:
  "\<exists>r. evaluateCapCheck (sample_intent 40) sample_caps [] JNull JNull sample_now = Inr r
     \<and> pr_decision r = ALLOW"
proof -
  obtain pst where "buildPortfolioExposureState [] sample_now = Inr pst"
    using empty_log_portfolio [OF sample_day] by blast
  then show ?thesis
    by (simp add: evaluateCapCheck_def empty_log_state [OF sample_day] no_budget_policy Let_def
        portfolio_cap_blockers_def strategy_cap_blockers_def sample_amount sample_not_emergency)
      (simp add: sample_caps_def sample_intent_def perTxCapOf_def chainCapOf_def index_def
        isTinyLiveCanaryCap_def isFiniteNumber_def over_cap_def vol_def rnd_numeral)
qed

theorem cap_allow_bounds_witness:
  "\<exists>st. buildStrategyCapState (JStr ''s'') [] sample_now = Inr st
     \<and> jle (jadd (cs_dailyVolumeUsd st) (intentCapAmountUsd (sample_intent 40))) (Fin 80)"
proof -
  obtain r where r: "evaluateCapCheck (sample_intent 40) sample_caps [] JNull JNull sample_now = Inr r"
    "pr_decision r = ALLOW"
    using sample_allowed by blast
  have "\<not> isEmergencyCapIntent (sample_intent 40)" "is_fin (intentCapAmountUsd (sample_intent 40))"
    "sample_caps \<noteq> JUndef"
    by (simp_all add: sample_not_emergency sample_amount sample_caps_def)
  from cap_allow_bounds [OF r(1) this(3) r(2) this(1,2)] show ?thesis
    by (auto simp: sample_intent_def sample_caps_def caps_of_def)
qed

lemma emergency_cap_blockers:
  assumes "isEmergencyCapIntent intent"
  shows "set (strategy_cap_blockers intent c st @ portfolio_cap_blockers intent pol pst)
    \<subseteq> {''strategy_max_daily_loss_breached'', ''strategy_failed_gas_budget_breached''}"
  using assms by (auto simp: strategy_cap_blockers_def portfolio_cap_blockers_def Let_def split: option.splits)

text \<open>An emergency unwind (by type or by its risk_unwind reason) is held back by the cap check
  for a breached daily loss or failed-gas budget only, never for an amount.\<close>

theorem cap_emergency_blockers:
  assumes "evaluateCapCheck intent c recs budget pol now = Inr r" "c \<noteq> JUndef"
    "isEmergencyCapIntent intent"
  shows "set (pr_blockers r) \<subseteq> {''strategy_max_daily_loss_breached'', ''strategy_failed_gas_budget_breached''}"
proof -
  obtain st pst where b: "pr_blockers r = strategy_cap_blockers intent c st @ portfolio_cap_blockers intent
       (resolvePortfolioExposurePolicy budget (if pol = JUndef then JNull else pol)) pst"
    by (rule evaluateCapCheck_Inr [OF assms(1,2)])
  show ?thesis unfolding b by (rule emergency_cap_blockers [OF assms(3)])
qed

theorem cap_emergency_blockers_witness:
  "\<exists>r. evaluateCapCheck (JObj [(''intentType'', JStr ''emergency_unwind'')]) (JObj []) [] JNull JNull sample_now = Inr r
     \<and> set (pr_blockers r) \<subseteq> {''strategy_max_daily_loss_breached'', ''strategy_failed_gas_budget_breached''}"
proof -
  let ?i = "JObj [(''intentType'', JStr ''emergency_unwind'')]"
  obtain pst where "buildPortfolioExposureState [] sample_now = Inr pst"
    using empty_log_portfolio [OF sample_day] by blast
  then obtain r where r: "evaluateCapCheck ?i (JObj []) [] JNull JNull sample_now = Inr r"
    by (simp add: evaluateCapCheck_def empty_log_state [OF sample_day] Let_def)
  moreover have "isEmergencyCapIntent ?i" "JObj [] \<noteq> JUndef"
    by (simp_all add: isEmergencyCapIntent_def)
  ultimately show ?thesis using cap_emergency_blockers [OF r] by blast
qed

text \<open>
  A share of the active budget that is a finite number, and the bound it sets. A share that is not
  leaves the comparison out.
\<close>

definition within_share :: "portfolio_policy \<Rightarrow> jsv \<Rightarrow> jsnum \<Rightarrow> jsnum \<Rightarrow> bool" where
  "within_share pol share used amount \<longleftrightarrow>
     (is_finite share \<and> is_fin (jmul (pp_activeBudgetUsd pol) (to_num share)) \<longrightarrow>
        jle (jadd used amount) (jmul (pp_activeBudgetUsd pol) (to_num share)))"

lemma within_budget_share:
  assumes "is_finite share \<Longrightarrow> \<not> over_cap (JNum (jmul (pp_activeBudgetUsd pol) (to_num share))) used amount"
    "is_fin amount" "used \<noteq> NaN"
  shows "within_share pol share used amount"
  unfolding within_share_def
proof
  assume f: "is_finite share \<and> is_fin (jmul (pp_activeBudgetUsd pol) (to_num share))"
  with not_over_cap [OF _ assms(2,3), of "JNum (jmul (pp_activeBudgetUsd pol) (to_num share))"] assms(1)
  show "jle (jadd used amount) (jmul (pp_activeBudgetUsd pol) (to_num share))" by (simp add: isFiniteNumber_def)
qed

lemma nonBtc_not_nan:
  assumes "buildPortfolioExposureState recs now = Inr pst"
  shows "ps_nonBtcDenominatedVolumeUsd pst \<noteq> NaN"
proof -
  have add: "ps_nonBtcDenominatedVolumeUsd (portfolio_add st item) \<noteq> NaN"
    if "ps_nonBtcDenominatedVolumeUsd st \<noteq> NaN" for st item
    using that by (auto simp: portfolio_add_def Let_def jadd_fin_not_nan)
  have "ps_nonBtcDenominatedVolumeUsd (foldl portfolio_add st items) \<noteq> NaN"
    if "ps_nonBtcDenominatedVolumeUsd st \<noteq> NaN" for st items
    using that by (induction items arbitrary: st) (simp_all add: add)
  then show ?thesis using assms by (auto simp: buildPortfolioExposureState_def and_then_Inr)
qed

text \<open>C17: An intent that is no emergency unwind and counts a finite amount is allowed by the cap check,
  with a usable active budget, only if the volume of its chain today plus the amount is at most the
  budget times the chain's share, the volume of each of its protocols plus the amount at most the
  budget times the protocol share, and, for a strategy that is not BTC-denominated, the volume of
  such strategies plus the amount at most the budget times what the BTC floor leaves. A share or a
  product that is no finite number sets no bound.
\<close>

theorem portfolio_allow_bounds:
  assumes "evaluateCapCheck intent c recs budget policy now = Inr r" "c \<noteq> JUndef"
    "pr_decision r = ALLOW" "\<not> isEmergencyCapIntent intent" "is_fin (intentCapAmountUsd intent)"
    "resolvePortfolioExposurePolicy budget policy = Some pol" "policy \<noteq> JUndef"
  shows "\<exists>pst. buildPortfolioExposureState recs now = Inr pst
    \<and> within_share pol (JNum (chainSharePctOf pol intent)) (vol (ps_chainVolumeUsd pst) (dot intent ''chain''))
        (intentCapAmountUsd intent)
    \<and> (\<forall>protocol\<in>set (protocolTagsForStrategy (dot intent ''strategyId'')).
         within_share pol (pp_maxProtocolSharePct pol) (vol (ps_protocolVolumeUsd pst) protocol)
           (intentCapAmountUsd intent))
    \<and> (btcDenominatedForStrategy (dot intent ''strategyId'')
       \<or> (is_finite (pp_minBtcDenominatedSharePct pol) \<longrightarrow>
            within_share pol (JNum (jsub (Fin 1) (to_num (pp_minBtcDenominatedSharePct pol))))
              (ps_nonBtcDenominatedVolumeUsd pst) (intentCapAmountUsd intent)))"
proof -
  obtain st pst where pst: "buildPortfolioExposureState recs now = Inr pst"
    and b: "pr_blockers r = strategy_cap_blockers intent c st @ portfolio_cap_blockers intent
       (resolvePortfolioExposurePolicy budget (if policy = JUndef then JNull else policy)) pst"
      "pr_decision r = decide (pr_blockers r)"
    by (rule evaluateCapCheck_Inr [OF assms(1,2)])
  have "portfolio_cap_blockers intent (Some pol) pst = []" using b assms(3,6,7) by simp
  then have clear: "\<not> over_cap (chainCapBudgetUsd pol intent) (vol (ps_chainVolumeUsd pst) (dot intent ''chain''))
        (intentCapAmountUsd intent)"
    "\<forall>protocol\<in>set (protocolTagsForStrategy (dot intent ''strategyId'')).
       \<not> over_cap (share_budget pol (pp_maxProtocolSharePct pol)) (vol (ps_protocolVolumeUsd pst) protocol)
         (intentCapAmountUsd intent)"
    "btcDenominatedForStrategy (dot intent ''strategyId'')
       \<or> \<not> over_cap (maxNonBtcBudgetUsd pol) (ps_nonBtcDenominatedVolumeUsd pst) (intentCapAmountUsd intent)"
    using assms(4,5) by (auto simp: portfolio_cap_blockers_def Let_def)
  note bound = within_budget_share [OF _ assms(5)]
  have "within_share pol (JNum (chainSharePctOf pol intent)) (vol (ps_chainVolumeUsd pst) (dot intent ''chain''))
      (intentCapAmountUsd intent)"
    using clear(1) by (intro bound vol_not_nan) (simp add: chainCapBudgetUsd_def share_budget_def)
  moreover have "within_share pol (pp_maxProtocolSharePct pol) (vol (ps_protocolVolumeUsd pst) protocol)
      (intentCapAmountUsd intent)" if "protocol \<in> set (protocolTagsForStrategy (dot intent ''strategyId''))" for protocol
    using clear(2) that by (intro bound vol_not_nan) (simp add: share_budget_def)
  moreover have "within_share pol (JNum (jsub (Fin 1) (to_num (pp_minBtcDenominatedSharePct pol))))
      (ps_nonBtcDenominatedVolumeUsd pst) (intentCapAmountUsd intent)"
    if "\<not> btcDenominatedForStrategy (dot intent ''strategyId'')" "is_finite (pp_minBtcDenominatedSharePct pol)"
    using clear(3) that by (intro bound nonBtc_not_nan [OF pst]) (simp add: maxNonBtcBudgetUsd_def)
  ultimately show ?thesis using pst by blast
qed

text \<open>A discretionary intent is admitted when it is exempt (a booked result, or a fresh intent
  of a strategy that executes automatically), and otherwise exactly when its category has a
  budget and the day's spend of that category including this intent is within it.\<close>

theorem discretionary_allow:
  "bv_allowed (evaluateDiscretionaryBudget category intent slice clock) \<longleftrightarrow>
     isStrategyRealizedPnlIntent intent \<or> isFreshAutoExecuteIntent intent clock
     \<or> (\<exists>cat b. normalizeDiscretionaryCategory category = Some cat
          \<and> map_of [(''probe'', 3), (''refuel'', 5), (''bridge'', 10), (''consolidation'', 5)] cat = Some b
          \<and> jle (jadd (sum_finite (List.map (\<lambda>entry. JNum (recordDiscretionarySpendUsd entry (Some cat)))
                  (List.filter (\<lambda>entry. discretionarySliceCategory entry = Some cat) slice)))
                (intentDiscretionarySpendUsd intent (Some cat))) (Fin b))"
proof (cases "normalizeDiscretionaryCategory category")
  case None
  then show ?thesis by (simp add: evaluateDiscretionaryBudget_def)
next
  case (Some cat)
  let ?hist = "sum_finite (List.map (\<lambda>entry. JNum (recordDiscretionarySpendUsd entry (Some cat)))
      (List.filter (\<lambda>entry. discretionarySliceCategory entry = Some cat) slice))"
  let ?cur = "intentDiscretionarySpendUsd intent (Some cat)"
  have cur: "is_fin ?cur" by (simp only: intentDiscretionarySpendUsd_def or_zero_fin)
  have nan: "jadd ?hist ?cur \<noteq> NaN" by (rule jadd_fin_not_nan [OF sum_finite_not_nan cur])
  show ?thesis
    by (simp add: evaluateDiscretionaryBudget_def Let_def Some discretionary_caps index_def
        str_or_null_def cur jlt_iff_not_jle nan)
qed

text \<open>An explicit null override counts as an amount of zero: Number(null) is 0.\<close>

lemma null_override_is_zero:
  "dots intent [''metadata'', ''capCheckAmountUsd''] = JNull \<Longrightarrow> intentCapAmountUsd intent = Fin 0"
  by (simp add: intentCapAmountUsd_def Let_def)

definition sample_policy :: jsv where
  "sample_policy = JObj
     [(''maxProtocolSharePct'', JNum (Fin 1)), (''maxDefaultChainSharePct'', JNum (Fin 1)),
      (''chainSharePct'', JObj []), (''minBtcDenominatedSharePct'', JNum (Fin 0))]"

lemma sample_unknown_strategy: "getStrategyCaps (JStr ''s'') = JNull"
  by (rule getStrategyCaps_None) code_simp

lemma sample_portfolio_state:
  "buildPortfolioExposureState [] sample_now = Inr
     \<lparr>ps_observedAt = sample_now, ps_protocolVolumeUsd = [], ps_chainVolumeUsd = [],
      ps_assetFamilyVolumeUsd = [], ps_btcDenominatedVolumeUsd = Fin 0,
      ps_nonBtcDenominatedVolumeUsd = Fin 0\<rparr>"
  by (simp add: buildPortfolioExposureState_def sample_day dedupeRecords_def)

definition sample_resolved_policy :: portfolio_policy where
  "sample_resolved_policy =
     \<lparr>pp_activeBudgetUsd = Fin 1000, pp_profileId = JNull, pp_maxProtocolSharePct = JNum (Fin 1),
      pp_maxDefaultChainSharePct = JNum (Fin 1), pp_chainSharePct = JObj [],
      pp_minBtcDenominatedSharePct = JNum (Fin 0)\<rparr>"

lemma sample_resolve:
  "resolvePortfolioExposurePolicy (JNum (Fin 1000)) sample_policy = Some sample_resolved_policy"
  by (simp add: resolvePortfolioExposurePolicy_def sample_policy_def own_or_default_def finiteBudget_def
      sample_resolved_policy_def Let_def)

lemma sample_allowed_budget:
  "\<exists>r. evaluateCapCheck (sample_intent 40) sample_caps [] (JNum (Fin 1000)) sample_policy sample_now = Inr r
     \<and> pr_decision r = ALLOW"
proof -
  have sp: "sample_policy \<noteq> JUndef" "dot (sample_intent 40) ''strategyId'' = JStr ''s''"
    by (simp_all add: sample_policy_def sample_intent_def)
  show ?thesis
    by (simp add: evaluateCapCheck_def empty_log_state [OF sample_day] sample_portfolio_state sp
        sample_resolve Let_def sample_amount sample_not_emergency portfolio_cap_blockers_def
        strategy_cap_blockers_def protocolTagsForStrategy_def sample_unknown_strategy)
      (simp add: sample_caps_def sample_intent_def perTxCapOf_def chainCapOf_def index_def
        isTinyLiveCanaryCap_def isFiniteNumber_def over_cap_def vol_def rnd_numeral
        sample_resolved_policy_def chainCapBudgetUsd_def chainSharePctOf_def share_budget_def
        maxNonBtcBudgetUsd_def jmul_def jsub_def rnd_1)
qed

theorem portfolio_allow_bounds_witness:
  "\<exists>pst. buildPortfolioExposureState [] sample_now = Inr pst
    \<and> jle (jadd (vol (ps_chainVolumeUsd pst) (JStr ''base'')) (Fin 40)) (Fin 1000)"
proof -
  obtain r where r: "evaluateCapCheck (sample_intent 40) sample_caps [] (JNum (Fin 1000)) sample_policy sample_now = Inr r"
    "pr_decision r = ALLOW"
    using sample_allowed_budget by blast
  have side: "sample_caps \<noteq> JUndef" "is_fin (intentCapAmountUsd (sample_intent 40))" "sample_policy \<noteq> JUndef"
    by (simp_all add: sample_amount sample_caps_def sample_policy_def)
  have share: "chainSharePctOf sample_resolved_policy (sample_intent 40) = Fin 1"
    "jmul (pp_activeBudgetUsd sample_resolved_policy) (Fin 1) = Fin 1000"
    "dot (sample_intent 40) ''chain'' = JStr ''base''"
    by code_simp+
  obtain pst where "buildPortfolioExposureState [] sample_now = Inr pst"
    "within_share sample_resolved_policy (JNum (Fin 1)) (vol (ps_chainVolumeUsd pst) (JStr ''base'')) (Fin 40)"
    using portfolio_allow_bounds [OF r(1) side(1) r(2) sample_not_emergency side(2) sample_resolve side(3)]
    unfolding sample_amount share of_int_numeral by blast
  then show ?thesis by (simp add: within_share_def share)
qed

end
