(* ===== verification/JsDecimal.thy ===== *)
theory JsDecimal
  imports JsValue
begin

text \<open>
  Printing and reading numbers are inverse: \<open>Number(String(x)) = x\<close> for every double. The
  printer looks for the shortest significand that rounds to the number; seventeen digits are
  always enough, because a number within a quarter of the last place of a double rounds to
  it. The lemmas on the layout of a printed number also serve the JSON texts built on them.
\<close>

section \<open>Decimal digits\<close>

lemma digits_val_snoc: "digits_val (ds @ [c]) = 10 * digits_val ds + digit_val c"
  by (simp add: digits_val_def)

lemma digits_val_append:
  "digits_val (as @ bs) = digits_val as * 10 ^ length bs + digits_val bs"
proof (induction bs rule: rev_induct)
  case Nil
  show ?case by (simp add: digits_val_def)
next
  case (snoc c bs)
  then show ?case using digits_val_snoc [of "as @ bs" c] by (simp add: digits_val_snoc)
qed

lemma digits_val_Nil [simp]: "digits_val [] = 0"
  by (simp add: digits_val_def)

lemma digits_val_single [simp]: "digits_val [c] = digit_val c"
  by (simp add: digits_val_def)

lemma digits_val_zeros [simp]: "digits_val (replicate k (CHR ''0'')) = 0"
  by (induction k) (simp_all add: digits_val_def digit_val_def)

lemma digit_char_props:
  assumes "0 \<le> d" "d < 10"
  shows "digit_val (digit_char d) = d" "is_digit (digit_char d)"
    "digit_char d = CHR ''0'' \<longleftrightarrow> d = 0"
proof -
  from assms have "d = 0 \<or> d = 1 \<or> d = 2 \<or> d = 3 \<or> d = 4 \<or> d = 5 \<or> d = 6 \<or> d = 7 \<or> d = 8 \<or> d = 9"
    by presburger
  then show "digit_val (digit_char d) = d" "is_digit (digit_char d)"
    "digit_char d = CHR ''0'' \<longleftrightarrow> d = 0"
    by (elim disjE; hypsubst; code_simp)+
qed

lemma nat_str_digits:
  "0 \<le> n \<Longrightarrow> list_all is_digit (nat_str n) \<and> nat_str n \<noteq> [] \<and> digits_val (nat_str n) = n"
proof (induction n rule: nat_str.induct)
  case (1 n)
  show ?case
  proof (cases "n < 10")
    case True
    with 1(2) show ?thesis by (subst (1 2 3) nat_str.simps) (simp add: digit_char_props)
  next
    case False
    with 1 have "0 \<le> n div 10" "0 \<le> n mod 10" "n mod 10 < 10" by simp_all
    with 1(1) [OF False] False show ?thesis
      by (subst (1 2 3) nat_str.simps) (simp add: digit_char_props digits_val_append)
  qed
qed

lemma nat_str_length:
  "0 < n \<Longrightarrow> 10 ^ (length (nat_str n) - 1) \<le> n \<and> n < 10 ^ length (nat_str n)"
proof (induction n rule: nat_str.induct)
  case (1 n)
  show ?case
  proof (cases "n < 10")
    case True
    with 1(2) show ?thesis by (subst (1 2) nat_str.simps) simp
  next
    case False
    then have "0 < n div 10" by simp
    with 1(1) [OF False] have ih: "10 ^ (length (nat_str (n div 10)) - 1) \<le> n div 10"
      "n div 10 < 10 ^ length (nat_str (n div 10))" by simp_all
    have ne: "length (nat_str (n div 10)) \<noteq> 0" using nat_str_digits [of "n div 10"] False by simp
    have "10 * 10 ^ (length (nat_str (n div 10)) - 1) \<le> n" using ih(1) by linarith
    then have lo: "10 ^ length (nat_str (n div 10)) \<le> n"
      using ne by (metis power_minus_mult mult.commute bot_nat_0.not_eq_extremum)
    have "n < 10 * 10 ^ length (nat_str (n div 10))" using ih(2) by linarith
    with lo False show ?thesis by (subst (1 2) nat_str.simps) simp
  qed
qed

lemma nat_str_hd: "0 < n \<Longrightarrow> hd (nat_str n) \<noteq> CHR ''0''"
proof (induction n rule: nat_str.induct)
  case (1 n)
  show ?case
  proof (cases "n < 10")
    case True
    with 1(2) show ?thesis by (subst nat_str.simps) (simp add: digit_char_props)
  next
    case False
    with 1(1) [OF False] nat_str_digits [of "n div 10"] show ?thesis
      by (subst nat_str.simps) simp
  qed
qed

lemma powi_10_pos [simp]: "(0::rat) < 10 powi e"
  by (simp add: power_int_def)

lemma powi_10_Suc: "(10::rat) powi (e + 1) = 10 * 10 powi e"
  by (simp add: power_int_add_1)

lemma dec_exp_small_bounds:
  "0 < x \<Longrightarrow> x < 1 \<Longrightarrow> 10 powi (- int k) \<le> 10 * x \<Longrightarrow>
     10 powi (dec_exp_small k x - 1) \<le> x \<and> x < 10 powi (dec_exp_small k x) \<and> dec_exp_small k x \<le> 0"
proof (induction k arbitrary: x)
  case 0
  then show ?case by (simp add: power_int_minus_divide)
next
  case (Suc k)
  show ?case
  proof (cases "1 / 10 \<le> x")
    case True
    with Suc.prems show ?thesis by (simp add: power_int_minus_divide)
  next
    case False
    have "(10::rat) powi (- int k) = 10 * 10 powi (- int (Suc k))"
      using powi_10_Suc [of "- int (Suc k)"] by simp
    also have "\<dots> \<le> 10 * (10 * x)" using Suc.prems(3) by simp
    finally have "10 powi (dec_exp_small k (10 * x) - 1) \<le> 10 * x"
      "10 * x < 10 powi (dec_exp_small k (10 * x))" "dec_exp_small k (10 * x) \<le> 0"
      using Suc.IH [of "10 * x"] Suc.prems False by simp_all
    moreover have "(10::rat) powi (dec_exp_small k (10 * x) - 1) = 10 * 10 powi (dec_exp_small k (10 * x) - 2)"
      using powi_10_Suc [of "dec_exp_small k (10 * x) - 2"] by simp
    moreover have "(10::rat) powi (dec_exp_small k (10 * x)) = 10 * 10 powi (dec_exp_small k (10 * x) - 1)"
      using powi_10_Suc [of "dec_exp_small k (10 * x) - 1"] by simp
    ultimately show ?thesis using False by simp
  qed
qed

lemma dec_exp_bounds:
  assumes "0 < x" "10 powi (- 330) \<le> 10 * x"
  shows "10 powi (dec_exp x - 1) \<le> x" "x < 10 powi (dec_exp x)"
proof -
  have "10 powi (dec_exp x - 1) \<le> x \<and> x < 10 powi (dec_exp x)"
  proof (cases "1 \<le> x")
    case True
    then have f: "0 < \<lfloor>x\<rfloor>" by linarith
    let ?l = "length (nat_str \<lfloor>x\<rfloor>)"
    have b: "10 ^ (?l - 1) \<le> \<lfloor>x\<rfloor>" "\<lfloor>x\<rfloor> < 10 ^ ?l" using nat_str_length [OF f] by auto
    have ne: "?l \<noteq> 0" using nat_str_digits [of "\<lfloor>x\<rfloor>"] f by simp
    have "(10::rat) powi (int ?l - 1) = of_int (10 ^ (?l - 1))"
      using ne by (simp add: power_int_def nat_diff_distrib)
    also have "\<dots> \<le> x" using b(1) by linarith
    finally have lo: "10 powi (int ?l - 1) \<le> x" .
    have "x < of_int (10 ^ ?l)" using b(2) by linarith
    then have "x < 10 powi (int ?l)" by (simp add: power_int_def)
    with lo True show ?thesis by (simp add: dec_exp_def)
  next
    case False
    with assms dec_exp_small_bounds [of x 330] show ?thesis by (simp add: dec_exp_def)
  qed
  then show "10 powi (dec_exp x - 1) \<le> x" "x < 10 powi (dec_exp x)" by auto
qed

section \<open>Rounding to a near double\<close>

lemma twice_less:
  assumes "2 * \<bar>v - w\<bar> < (b::rat)"
  shows "2 * v - 2 * w < b" "2 * w - 2 * v < b"
proof -
  have lin: "2 * a < b \<Longrightarrow> p - q \<le> a \<Longrightarrow> 2 * p - 2 * q < b" for a p q :: rat by linarith
  show "2 * v - 2 * w < b" using assms by (rule lin) (rule abs_ge_self)
  show "2 * w - 2 * v < b" using assms by (rule lin) (simp add: abs_minus_commute)
qed

lemma round_even_near:
  assumes "\<bar>z - of_int m\<bar> < 1 / 2"
  shows "round_even z = m"
proof (cases "of_int m \<le> z")
  case True
  with assms have "\<lfloor>z\<rfloor> = m" by linarith
  with assms True show ?thesis by (simp add: round_even_def)
next
  case False
  with assms have "\<lfloor>z\<rfloor> = m - 1" by linarith
  with assms False show ?thesis by (simp add: round_even_def)
qed

lemma signif_less:
  assumes "0 < x" "rnd x = Fin x"
  shows "x = of_int (signif x) * 2 powi ulp_exp x" "signif x < 2 ^ 53" "\<not> overflows x"
proof -
  show ov: "\<not> overflows x" and x: "x = of_int (signif x) * 2 powi ulp_exp x"
    using assms by (auto simp: rnd_pos pre_round_def split: if_splits)
  have "binexp x + 1 \<le> ulp_exp x + 53" using assms(1) by (simp add: ulp_exp_def)
  from powi_2_mono [OF this] binexp_bounds(2) [OF assms(1)]
  have "x < 2 powi (ulp_exp x + 53)" by linarith
  also have "\<dots> = of_int (2 ^ 53) * 2 powi ulp_exp x" by (simp add: power_int_add)
  finally have "of_int (signif x) * (2::rat) powi ulp_exp x < of_int (2 ^ 53) * 2 powi ulp_exp x"
    using x by linarith
  then have "of_int (signif x) < (of_int (2 ^ 53) :: rat)"
    by (simp only: mult_less_cancel_right_pos [OF powi_2_pos])
  then show "signif x < 2 ^ 53" by (simp only: of_int_less_iff)
qed

lemma rnd_signif_eq:
  assumes "0 < y" "signif y = m" "of_int m * 2 powi ulp_exp y = x"
    "ulp_exp y < 971 \<or> ulp_exp y = 971 \<and> m < 2 ^ 53"
  shows "rnd y = Fin x"
  using assms by (auto simp: rnd_pos overflows_def pre_round_def)

text \<open>A number within a quarter of the last place of a double rounds to that double.\<close>

lemma rnd_near:
  assumes x: "0 < x" "rnd x = Fin x" and y: "2 ^ 54 * \<bar>y - x\<bar> < x"
  shows "rnd y = Fin x"
proof -
  define e m u where "e = ulp_exp x" and "m = signif x" and "u = (2::rat) powi e"
  have u: "0 < u" by (simp add: u_def)
  have xm: "x = of_int m * u" and m: "m < 2 ^ 53" and ov: "\<not> overflows x"
    using signif_less [OF x] by (simp_all add: e_def m_def u_def)
  have e971: "e < 971 \<or> e = 971 \<and> m < 2 ^ 53" using ov by (auto simp: overflows_def e_def m_def)
  have "2 * \<bar>y - x\<bar> \<le> 2 ^ 54 * \<bar>y - x\<bar>" by (intro mult_right_mono) auto
  with y have yx: "2 * \<bar>y - x\<bar> < x" by linarith
  have y0: "0 < y" and y2: "x / 2 < y" "y < 2 * x" using twice_less [OF yx] x(1) by linarith+
  have "of_int m < (of_int (2 ^ 53) :: rat)" using m by (simp only: of_int_less_iff)
  then have "x < 2 ^ 53 * u" using u by (simp add: xm)
  with y have near: "2 * \<bar>y - of_int m * u\<bar> < u" by (simp add: xm)
  have nr: "2 * y - 2 * (of_int m * u) < u" "2 * (of_int m * u) - 2 * y < u"
    using twice_less [OF near] by simp_all
  show ?thesis
  proof (cases "ulp_exp y = e")
    case True
    have "\<bar>y / u - of_int m\<bar> = \<bar>y - of_int m * u\<bar> / u" using u by (simp add: field_simps abs_if)
    also have "\<dots> < 1 / 2" using near u by (simp add: field_simps)
    finally have "signif y = m" using round_even_near True by (simp add: signif_def u_def)
    with y0 True e971 show ?thesis by (intro rnd_signif_eq) (auto simp: xm u_def)
  next
    case False
    have bx: "binexp x = e + 52"
    proof (rule ccontr)
      assume "binexp x \<noteq> e + 52"
      then have b: "binexp x \<le> - 1023" "e = - 1074" using x(1) by (auto simp: e_def ulp_exp_def)
      have "y < 2 * 2 powi (binexp x + 1)" using y2 binexp_bounds(2) [OF x(1)] by linarith
      also have "\<dots> = 2 powi (binexp x + 1 + 1)" by (simp only: powi_2_Suc)
      finally have "(2::rat) powi binexp y < 2 powi (binexp x + 1 + 1)"
        using binexp_bounds(1) [OF y0] by linarith
      then have "binexp y < binexp x + 2" by (simp add: powi_2_less_iff)
      with b False y0 show False by (auto simp: ulp_exp_def e_def)
    qed
    have m52: "2 ^ 52 \<le> m" using signif_lower [OF x(1)] bx by (simp add: e_def m_def)
    have p: "2 powi (e + 52) = 2 ^ 52 * u" "2 powi (e + 52 + 1) = 2 ^ 53 * u"
      by (simp_all add: u_def power_int_add)
    have "of_int (m + 1) \<le> (of_int (2 ^ 53) :: rat)" using m by (simp only: of_int_le_iff)
    then have "of_int m + 1 \<le> (2 ^ 53 :: rat)" by simp
    then have "of_int m * u + u \<le> 2 ^ 53 * u" using mult_right_mono [of "of_int m + 1" "2 ^ 53" u] u by (simp add: distrib_right)
    with nr have "y < 2 powi (e + 52 + 1)" unfolding p by linarith
    then have "(2::rat) powi binexp y < 2 powi (e + 52 + 1)"
      using binexp_bounds(1) [OF y0] by linarith
    then have "binexp y \<le> e + 52" by (simp only: powi_2_less_iff)
    with False bx y0 have by1: "binexp y < e + 52" "- 1074 < e"
      by (auto simp: ulp_exp_def e_def)
    have "y < 2 powi (binexp y + 1)" by (rule binexp_bounds(2) [OF y0])
    also have "\<dots> \<le> 2 powi (e + 52)" using by1 by (intro powi_2_mono) simp
    finally have yless: "y < 2 ^ 52 * u" by (simp only: p)
    have "m = 2 ^ 52"
    proof (rule ccontr)
      assume "m \<noteq> 2 ^ 52"
      with m52 have "2 ^ 52 + 1 \<le> m" by linarith
      then have "of_int (2 ^ 52 + 1) \<le> (of_int m :: rat)" by (simp only: of_int_le_iff)
      then have "(2 ^ 52 :: rat) + 1 \<le> of_int m" by simp
      then have "2 ^ 52 * u + u \<le> of_int m * u"
        using mult_right_mono [of "2 ^ 52 + 1" "of_int m" u] u by (simp add: distrib_right)
      with nr yless show False by linarith
    qed
    then have x52: "x = 2 ^ 52 * u" by (simp add: xm)
    have "(2::rat) powi (e + 51) < 2 powi (binexp y + 1)"
    proof -
      have "(2::rat) powi (e + 51) = x / 2" by (simp add: x52 u_def power_int_add)
      with y2 binexp_bounds(2) [OF y0] show ?thesis by linarith
    qed
    then have "e + 51 < binexp y + 1" by (simp only: powi_2_less_iff)
    with by1 y0 have ue: "ulp_exp y = e - 1" by (auto simp: ulp_exp_def)
    have h: "2 powi (e - 1) = u / 2" by (simp add: u_def power_int_diff)
    have "\<bar>y / (u / 2) - of_int (2 ^ 53)\<bar> = 2 * \<bar>y - x\<bar> / u"
      using u by (simp add: x52 field_simps abs_if)
    also have "\<dots> < 1 / 2" using y u by (simp add: x52 field_simps)
    finally have "signif y = 2 ^ 53" unfolding signif_def ue h by (rule round_even_near)
    with y0 ue e971 show ?thesis by (intro rnd_signif_eq) (auto simp: x52 h)
  qed
qed

section \<open>Seventeen digits are enough\<close>

lemma double_lower:
  assumes "0 < x" "rnd x = Fin x"
  shows "10 powi (- 330) \<le> 10 * x"
proof -
  have x: "x = of_int (signif x) * 2 powi ulp_exp x" using signif_less [OF assms] by simp
  then have "signif x \<noteq> 0" using assms(1) by auto
  then have "1 \<le> signif x" using signif_nonneg [OF assms(1)] by linarith
  then have "(1::rat) * 2 powi ulp_exp x \<le> of_int (signif x) * 2 powi ulp_exp x"
    by (intro mult_right_mono) auto
  then have u: "2 powi ulp_exp x \<le> x" using x by simp
  have "(2::rat) powi (- 1074) \<le> 2 powi ulp_exp x" by (rule powi_2_mono) (simp add: ulp_exp_def)
  with u have "(2::rat) powi (- 1074) \<le> x" by (rule order_trans [rotated])
  moreover have "(10::rat) powi (- 330) \<le> 10 * 2 powi (- 1074)"
    by (simp add: power_int_def field_simps)
  ultimately show ?thesis by linarith
qed

lemma seventeen_digits:
  assumes "0 < x" "rnd x = Fin x" "10 powi (n - 1) \<le> x"
  defines "lo \<equiv> \<lfloor>x / 10 powi (n - 17)\<rfloor>"
  shows "rnd (of_int lo * 10 powi (n - 17)) = Fin x
    \<or> rnd (of_int (lo + 1) * 10 powi (n - 17)) = Fin x"
proof -
  define u where "u = (10::rat) powi (n - 17)"
  have u: "0 < u" by (simp add: u_def)
  have "(10::rat) powi (n - 1) = 10 powi (n - 17 + 16)" by simp
  also have "\<dots> = u * 10 ^ 16" unfolding u_def by (subst power_int_add) simp_all
  finally have x16: "u * 10 ^ 16 \<le> x" using assms(3) by simp
  have near: "rnd y = Fin x" if "\<bar>y - x\<bar> \<le> u / 2" for y
  proof (rule rnd_near [OF assms(1,2)])
    have "2 ^ 54 * \<bar>y - x\<bar> \<le> 2 ^ 54 * (u / 2)" using that by (intro mult_left_mono) auto
    also have "\<dots> < u * 10 ^ 16" using u by simp
    finally show "2 ^ 54 * \<bar>y - x\<bar> < x" using x16 by linarith
  qed
  define y where "y = x / u"
  have xy: "x = y * u" using u by (simp add: y_def)
  have lo: "of_int lo \<le> y" "y < of_int lo + 1"
    using floor_correct [of y] by (simp_all add: lo_def y_def u_def)
  show ?thesis
  proof (cases "y - of_int lo \<le> 1 / 2")
    case True
    have "\<bar>of_int lo * u - x\<bar> = \<bar>of_int lo - y\<bar> * \<bar>u\<bar>"
      by (simp only: xy left_diff_distrib flip: abs_mult)
    also have "\<dots> = (y - of_int lo) * u" using lo(1) u by simp
    also have "\<dots> \<le> 1 / 2 * u" by (intro mult_right_mono True) (use u in simp)
    finally show ?thesis using near [of "of_int lo * u"] by (simp add: u_def)
  next
    case False
    have "\<bar>of_int (lo + 1) * u - x\<bar> = \<bar>of_int (lo + 1) - y\<bar> * \<bar>u\<bar>"
      by (simp only: xy left_diff_distrib flip: abs_mult)
    also have "\<dots> = (of_int lo + 1 - y) * u" using lo(2) u by simp
    also have "\<dots> \<le> 1 / 2 * u" by (intro mult_right_mono) (use u False in simp_all)
    finally show ?thesis using near [of "of_int (lo + 1) * u"] by (simp add: u_def)
  qed
qed

lemma scaled_bounds:
  fixes x :: rat
  assumes "10 powi (n - 1) \<le> x" "x < 10 powi n" "1 \<le> k"
  shows "10 ^ (k - 1) \<le> \<lfloor>x / 10 powi (n - int k)\<rfloor>" "\<lfloor>x / 10 powi (n - int k)\<rfloor> < 10 ^ k"
proof -
  define u where "u = (10::rat) powi (n - int k)"
  have u: "0 < u" by (simp add: u_def)
  have "(10::rat) powi (n - 1) = 10 powi (n - int k + int (k - 1))" using assms(3) by simp
  also have "\<dots> = u * 10 ^ (k - 1)" unfolding u_def by (subst power_int_add) simp_all
  finally have "of_int (10 ^ (k - 1)) \<le> x / u" using assms(1) u by (simp add: field_simps)
  then show "10 ^ (k - 1) \<le> \<lfloor>x / 10 powi (n - int k)\<rfloor>" by (simp only: le_floor_iff u_def)
  have "(10::rat) powi n = 10 powi (n - int k + int k)" by simp
  also have "\<dots> = u * 10 ^ k" unfolding u_def by (subst power_int_add) simp_all
  finally have "x / u < of_int (10 ^ k)" using assms(2) u by (simp add: field_simps)
  then show "\<lfloor>x / 10 powi (n - int k)\<rfloor> < 10 ^ k" by (simp only: floor_less_iff u_def)
qed

lemma shortest_digits_spec:
  assumes "0 < x" "rnd x = Fin x" "10 powi (n - 1) \<le> x" "x < 10 powi n"
  shows "1 \<le> k \<Longrightarrow> fuel + k = 18 \<Longrightarrow> fuel \<noteq> 0 \<Longrightarrow> shortest_digits fuel k x n = (k', s) \<Longrightarrow>
    k \<le> k' \<and> rnd (of_int s * 10 powi (n - int k')) = Fin x \<and> 10 ^ (k' - 1) \<le> s \<and> s \<le> 10 ^ k'"
proof (induction fuel arbitrary: k)
  case 0
  then show ?case by simp
next
  case (Suc fuel)
  define lo where "lo = \<lfloor>x / 10 powi (n - int k)\<rfloor>"
  note b = scaled_bounds [OF assms(3,4) Suc.prems(1), folded lo_def]
  let ?good = "\<lambda>s. rnd (of_int s * 10 powi (n - int k)) = Fin x"
  have step: "shortest_digits (Suc fuel) k x n =
      (if ?good lo \<and> (\<not> ?good (lo + 1) \<or> x / 10 powi (n - int k) - of_int lo
            \<le> of_int (lo + 1) - x / 10 powi (n - int k)) then (k, lo)
       else if ?good (lo + 1) then (k, lo + 1) else shortest_digits fuel (Suc k) x n)"
    by (simp only: shortest_digits.simps Let_def lo_def)
  show ?case
  proof (cases "?good lo \<or> ?good (lo + 1)")
    case True
    with Suc.prems(4) b show ?thesis unfolding step by (auto split: if_splits)
  next
    case False
    have "k \<noteq> 17"
    proof
      assume "k = 17"
      with seventeen_digits [OF assms(1-3)] False show False by (simp add: lo_def)
    qed
    with False Suc.prems Suc.IH [of "Suc k"] show ?thesis unfolding step by auto
  qed
qed

text \<open>The significand and exponent that \<open>pos_num_str\<close> prints.\<close>

definition printed :: "int \<Rightarrow> nat \<Rightarrow> string \<Rightarrow> string" where
  "printed n k ds =
     (if int k \<le> n \<and> n \<le> 21 then ds @ replicate (nat (n - int k)) (CHR ''0'')
      else if 0 < n \<and> n \<le> 21 then take (nat n) ds @ ''.'' @ drop (nat n) ds
      else if - 6 < n \<and> n \<le> 0 then ''0.'' @ replicate (nat (- n)) (CHR ''0'') @ ds
      else (case ds of
          [d] \<Rightarrow> [d]
        | d # rest \<Rightarrow> d # ''.'' @ rest
        | [] \<Rightarrow> []) @ ''e'' @ (if n \<le> 0 then ''-'' else ''+'') @ nat_str \<bar>n - 1\<bar>)"

lemma pos_num_str_printed:
  assumes "0 < x" "rnd x = Fin x"
  obtains n k s where "pos_num_str x = printed n k (nat_str s)" "length (nat_str s) = k"
    "0 < s" "rnd (of_int s * 10 powi (n - int k)) = Fin x"
proof -
  define m where "m = dec_exp x"
  obtain k s0 where ks: "shortest_digits 17 1 x m = (k, s0)" by fastforce
  note d = dec_exp_bounds [OF assms(1) double_lower [OF assms], folded m_def]
  have k: "1 \<le> k" and g: "rnd (of_int s0 * 10 powi (m - int k)) = Fin x"
    and s0: "10 ^ (k - 1) \<le> s0" "s0 \<le> 10 ^ k"
    using shortest_digits_spec [OF assms d _ _ _ ks] by auto
  define c where "c \<longleftrightarrow> s0 = 10 ^ k"
  define n where "n = (if c then m + 1 else m)"
  define s where "s = (if c then s0 div 10 else s0)"
  have p: "pos_num_str x = printed n k (nat_str s)"
    unfolding pos_num_str_def m_def [symmetric] ks
    by (simp only: Let_def prod.case printed_def n_def s_def c_def)
  have kk: "(10::int) ^ k = 10 * 10 ^ (k - 1)" using k by (metis power_minus_mult mult.commute not_one_le_zero neq0_conv)
  have s: "10 ^ (k - 1) \<le> s" "s < 10 ^ k" using s0 kk by (auto simp: s_def c_def)
  then have pos: "0 < s" by (meson less_le_trans zero_less_numeral zero_less_power)
  have val: "of_int s * 10 powi (n - int k) = (of_int s0 * 10 powi (m - int k) :: rat)"
    using kk powi_10_Suc [of "m - int k"] by (simp add: s_def n_def c_def algebra_simps)
  let ?l = "length (nat_str s)"
  note l = nat_str_length [OF pos]
  have "(10::int) ^ (k - 1) < 10 ^ ?l" "(10::int) ^ (?l - 1) < 10 ^ k" using s l by linarith+
  then have "k - 1 < ?l" "?l - 1 < k" by (auto dest: power_less_imp_less_exp [rotated])
  then have "?l = k" using k by linarith
  with p pos g val show thesis by (intro that [of n k s]) simp_all
qed

section \<open>The layout of a printed number\<close>

definition num_char :: "char \<Rightarrow> bool" where
  "num_char c \<longleftrightarrow> c \<in> set ''0123456789.eE+-''"

lemma digit_cases:
  assumes "is_digit c"
  shows "c \<in> set ''0123456789''"
proof -
  define n where "n = (of_char c :: nat)"
  have c: "c = char_of n" by (simp add: n_def)
  have "n \<ge> 48 \<and> n \<le> 57" using assms by (simp add: is_digit_def n_def)
  then have "n = 48 \<or> n = 49 \<or> n = 50 \<or> n = 51 \<or> n = 52 \<or> n = 53 \<or> n = 54 \<or> n = 55 \<or> n = 56 \<or> n = 57"
    by presburger
  then show ?thesis unfolding c by (elim disjE; hypsubst; code_simp)+
qed

lemma digit_num_char: "is_digit c \<Longrightarrow> num_char c"
  using digit_cases [of c] by (auto simp: num_char_def)

lemma num_char_not: "num_char c \<Longrightarrow> \<not> is_space c \<and> lower_char c \<notin> set ''xob'' \<and> c \<noteq> CHR ''I''"
proof -
  have "list_all (\<lambda>c. \<not> is_space c \<and> lower_char c \<notin> set ''xob'' \<and> c \<noteq> CHR ''I'') ''0123456789.eE+-'' = True"
    by code_simp
  then show "num_char c \<Longrightarrow> ?thesis" unfolding num_char_def list_all_iff by blast
qed

lemma not_digits [simp]:
  "\<not> is_digit (CHR ''.'')" "\<not> is_digit (CHR ''e'')" "\<not> is_digit (CHR ''E'')"
  "\<not> is_digit (CHR ''-'')" "\<not> is_digit (CHR ''+'')" "\<not> is_digit (CHR ''I'')" "is_digit (CHR ''0'')"
  by (simp_all add: is_digit_def)

text \<open>A decimal literal in its three parts, and its value.\<close>

definition literal_parts :: "string \<Rightarrow> string \<Rightarrow> string \<Rightarrow> int \<Rightarrow> string \<Rightarrow> rat \<Rightarrow> bool" where
  "literal_parts ip fp ex e s v \<longleftrightarrow>
     s = ip @ (if fp = [] then [] else CHR ''.'' # fp) @ ex
     \<and> ip \<noteq> [] \<and> list_all is_digit ip \<and> list_all is_digit fp \<and> (hd ip = CHR ''0'' \<longrightarrow> length ip = 1)
     \<and> exponent_part ex = Some e \<and> (ex = [] \<or> hd ex = CHR ''e'') \<and> list_all num_char ex
     \<and> v = of_int (digits_val (ip @ fp)) * 10 powi (e - int (length fp))"

lemma exponent_part_e:
  assumes "list_all is_digit ds" "ds \<noteq> []"
  shows "exponent_part (''e'' @ ''-'' @ ds) = Some (- digits_val ds)"
    "exponent_part (''e'' @ ''+'' @ ds) = Some (digits_val ds)"
  using assms by (simp_all add: exponent_part_def)

lemma printed_parts:
  assumes "length (nat_str s) = k" "0 < s"
  shows "\<exists>ip fp ex e. literal_parts ip fp ex e (printed n k (nat_str s)) (of_int s * 10 powi (n - int k))"
proof -
  let ?ds = "nat_str s"
  have ds: "list_all is_digit ?ds" "?ds \<noteq> []" "digits_val ?ds = s" using nat_str_digits [of s] assms by auto
  have hd: "hd ?ds \<noteq> CHR ''0''" using assms(2) by (rule nat_str_hd)
  have zeros: "list_all is_digit (replicate j (CHR ''0''))" for j by (simp add: list_all_iff)
  have e0: "exponent_part [] = Some 0" by (simp add: exponent_part_def)
  consider (int) "int k \<le> n" "n \<le> 21" | (frac) "0 < n" "n \<le> 21" "n < int k"
    | (small) "- 6 < n" "n \<le> 0" | (exp) "n \<le> - 6 \<or> 21 < n"
    by linarith
  then show ?thesis
  proof cases
    case int
    then have "literal_parts (?ds @ replicate (nat (n - int k)) (CHR ''0'')) [] [] 0
        (printed n k ?ds) (of_int s * 10 powi (n - int k))"
      using ds hd zeros e0
      by (simp add: literal_parts_def printed_def digits_val_append power_int_def)
    then show ?thesis by blast
  next
    case frac
    then have len: "length (take (nat n) ?ds) = nat n" using assms(1) by simp
    then have ne: "take (nat n) ?ds \<noteq> []" using frac by (metis length_0_conv nat_0_iff not_le)
    have dne: "drop (nat n) ?ds \<noteq> []" using frac assms(1) by simp
    have "list_all is_digit (take (nat n) ?ds @ drop (nat n) ?ds)" using ds by simp
    then have al: "list_all is_digit (take (nat n) ?ds)" "list_all is_digit (drop (nat n) ?ds)"
      unfolding list_all_append by auto
    have "hd (take (nat n) ?ds) \<noteq> CHR ''0''" using hd ne by (simp add: hd_take)
    then have "literal_parts (take (nat n) ?ds) (drop (nat n) ?ds) [] 0
        (printed n k ?ds) (of_int s * 10 powi (n - int k))"
      using ds(3) ne dne al e0 frac assms(1) by (auto simp: literal_parts_def printed_def of_nat_diff)
    then show ?thesis by blast
  next
    case small
    have "0 < k" using ds(2) assms(1) length_greater_0_conv by blast
    with small have "\<not> int k \<le> n" by linarith
    with small have "literal_parts ''0'' (replicate (nat (- n)) (CHR ''0'') @ ?ds) [] 0
        (printed n k ?ds) (of_int s * 10 powi (n - int k))"
      using ds zeros e0 assms(1) digits_val_append [of "''0''" "replicate (nat (- n)) (CHR ''0'') @ ?ds"]
      by (simp add: literal_parts_def printed_def digits_val_append digit_val_def)
    then show ?thesis by blast
  next
    case exp
    let ?sign = "if n \<le> 0 then ''-'' else ''+''"
    let ?ex = "''e'' @ ?sign @ nat_str \<bar>n - 1\<bar>"
    have nd: "list_all is_digit (nat_str \<bar>n - 1\<bar>)" "nat_str \<bar>n - 1\<bar> \<noteq> []"
      "digits_val (nat_str \<bar>n - 1\<bar>) = \<bar>n - 1\<bar>" using nat_str_digits [of "\<bar>n - 1\<bar>"] by auto
    have ex: "exponent_part ?ex = Some (n - 1)" using exponent_part_e [OF nd(1,2)] nd(3) exp by auto
    have nc: "list_all num_char ?ex" using nd(1) by (auto simp: list_all_iff digit_num_char) (auto simp: num_char_def)
    obtain d rest where dr: "?ds = d # rest" using ds(2) by (cases ?ds) auto
    have pr: "printed n k ?ds = [d] @ (if rest = [] then [] else CHR ''.'' # rest) @ ?ex"
      using exp by (cases rest) (auto simp: printed_def dr)
    have kl: "int k = 1 + int (length rest)" using assms(1) dr by simp
    have "literal_parts [d] rest ?ex (n - 1) (printed n k ?ds) (of_int s * 10 powi (n - int k))"
      unfolding literal_parts_def pr using ds dr ex nc kl by (simp add: algebra_simps)
    then show ?thesis by blast
  qed
qed

lemma takeWhile_digits:
  "list_all is_digit ds \<Longrightarrow> r = [] \<or> \<not> is_digit (hd r) \<Longrightarrow>
     takeWhile is_digit (ds @ r) = ds \<and> dropWhile is_digit (ds @ r) = r"
  by (induction ds) (auto simp: takeWhile_eq_Nil_iff dropWhile_eq_self_iff)

lemma unsigned_decimal_parts:
  assumes "literal_parts ip fp ex e s v"
  shows "unsigned_decimal s = Some v"
proof -
  have p: "ip \<noteq> []" "list_all is_digit ip" "list_all is_digit fp" "exponent_part ex = Some e"
    "ex = [] \<or> hd ex = CHR ''e''" "v = of_int (digits_val (ip @ fp)) * 10 powi (e - int (length fp))"
    "s = ip @ (if fp = [] then [] else CHR ''.'' # fp) @ ex"
    using assms by (auto simp: literal_parts_def)
  let ?r = "(if fp = [] then [] else CHR ''.'' # fp) @ ex"
  have r: "?r = [] \<or> \<not> is_digit (hd ?r)" using p(5) by (auto split: if_splits)
  have a: "takeWhile is_digit s = ip" "dropWhile is_digit s = ?r"
    using takeWhile_digits [OF p(2) r] p(7) by auto
  have ex: "ex = [] \<or> \<not> is_digit (hd ex)" using p(5) by auto
  note b = takeWhile_digits [OF p(3) ex]
  show ?thesis
  proof (cases "fp = []")
    case True
    have "\<not> (ex \<noteq> [] \<and> hd ex = CHR ''.'')" using p(5) by auto
    with True p(1,4,6) show ?thesis by (auto simp: unsigned_decimal_def a Let_def)
  next
    case False
    with b p(1,4,6) show ?thesis by (simp add: unsigned_decimal_def a Let_def)
  qed
qed

lemma printed_chars:
  assumes "literal_parts ip fp ex e s v"
  shows "list_all num_char s" "s \<noteq> []" "is_digit (hd s)"
proof -
  have p: "ip \<noteq> []" "list_all is_digit ip" "list_all is_digit fp" "list_all num_char ex"
    and s: "s = ip @ (if fp = [] then [] else CHR ''.'' # fp) @ ex"
    using assms unfolding literal_parts_def by blast+
  have d: "list_all num_char ds" if "list_all is_digit ds" for ds
    using that digit_num_char by (simp add: list_all_iff)
  have dot: "num_char (CHR ''.'')" by (simp add: num_char_def)
  show "list_all num_char s" using d [OF p(2)] d [OF p(3)] p(4) dot by (simp add: s)
  show "s \<noteq> []" using p(1) by (simp add: s)
  show "is_digit (hd s)" using p(1,2) by (cases ip) (simp_all add: s)
qed

theorem pos_num_str_parts:
  assumes "0 < x" "rnd x = Fin x"
  obtains ip fp ex e v where "literal_parts ip fp ex e (pos_num_str x) v" "rnd v = Fin x" "0 < v"
proof -
  obtain n k s where p: "pos_num_str x = printed n k (nat_str s)" "length (nat_str s) = k" "0 < s"
    "rnd (of_int s * 10 powi (n - int k)) = Fin x"
    using pos_num_str_printed [OF assms] .
  from printed_parts [OF p(2,3), of n] obtain ip fp ex e where
    "literal_parts ip fp ex e (pos_num_str x) (of_int s * 10 powi (n - int k))" by (auto simp: p(1))
  then show thesis using p(3,4) by (intro that) auto
qed

section \<open>Reading back\<close>

lemma trim_num:
  assumes "list_all num_char s"
  shows "trim s = s"
proof -
  have d: "dropWhile is_space t = t" if "list_all num_char t" for t
    using that num_char_not by (cases t) auto
  have "list_all num_char (rev s)" using assms by (simp add: list_all_iff)
  with assms show ?thesis by (simp add: trim_def d)
qed

lemma radix_num:
  assumes "list_all num_char s"
  shows "radix_literal s = None"
proof (cases s)
  case Nil
  then show ?thesis by (simp add: radix_literal_def lowercase_def)
next
  case (Cons a t)
  show ?thesis
  proof (cases t)
    case Nil
    then show ?thesis by (simp add: radix_literal_def lowercase_def Cons)
  next
    case (Cons b r)
    with \<open>s = a # t\<close> assms have "num_char b" by simp
    from num_char_not [OF this] show ?thesis
      by (simp add: radix_literal_def lowercase_def \<open>s = a # t\<close> Cons)
  qed
qed

theorem number_reads_back:
  assumes "is_double n"
  shows "str_to_num (num_str n) = n"
proof -
  have pos: "str_to_num (pos_num_str x) = Fin x \<and> str_to_num (''-'' @ pos_num_str x) = Fin (- x)"
    if x: "0 < x" "rnd x = Fin x" for x
  proof -
    obtain ip fp ex e v where l: "literal_parts ip fp ex e (pos_num_str x) v" and v: "rnd v = Fin x"
      using pos_num_str_parts [OF x] .
    note c = printed_chars [OF l] and u = unsigned_decimal_parts [OF l]
    let ?s = "pos_num_str x"
    have c': "list_all num_char (''-'' @ ?s)" using c(1) by (simp add: num_char_def)
    have h: "hd ?s \<noteq> CHR ''-''" "hd ?s \<noteq> CHR ''+''" "?s \<noteq> ''Infinity''" using c(3) by auto
    have "rnd (- v) = Fin (- x)" using v by (simp add: rnd_minus)
    with c(2) h u v show ?thesis
      using trim_num [OF c(1)] radix_num [OF c(1)] trim_num [OF c'] radix_num [OF c']
      by (simp add: str_to_num_def Let_def)
  qed
  show ?thesis
  proof (cases n)
    case (Fin x)
    with assms have r: "rnd x = Fin x" by (simp add: is_double_def)
    consider "x = 0" | "0 < x" | "x < 0" by linarith
    then show ?thesis
    proof cases
      case 1
      have "str_to_num ''0'' = Fin 0" by code_simp
      with 1 Fin show ?thesis by simp
    next
      case 2
      with pos [OF 2 r] Fin show ?thesis by simp
    next
      case 3
      have "rnd (- x) = Fin (- x)" using r by (simp add: rnd_minus)
      with 3 pos [of "- x"] Fin show ?thesis by simp
    qed
  next
    case PosInf
    have "str_to_num ''Infinity'' = PosInf" by code_simp
    with PosInf show ?thesis by simp
  next
    case NegInf
    have "str_to_num ''-Infinity'' = NegInf" by code_simp
    with NegInf show ?thesis by simp
  next
    case NaN
    have "str_to_num ''NaN'' = NaN" by code_simp
    with NaN show ?thesis by simp
  qed
qed

end
