(* ===== verification/JsJson.thy ===== *)
theory JsJson
  imports JsDecimal JsDate Hashing
begin

text \<open>
  JSON.stringify and JSON.parse, which carry every record through the program's JSON-lines
  logs. The parser is a recursive descent with fuel; \<open>json_fuel\<close> shows that twice the length
  of the text is enough, so a refusal always means a syntax error. \<open>json_parse_stringify\<close>:
  what is written is read back, except for what JSON cannot hold (\<open>json_kept\<close>), and
  \<open>json_one_line\<close>: a text never holds a line break. Values are those of JsValue:
  strings of code units below 256, and the two zeros identified.
\<close>

section \<open>JSON.stringify\<close>

fun json_stringify :: "jsv \<Rightarrow> string option" where
  "json_stringify JUndef = None"
| "json_stringify JNull = Some ''null''"
| "json_stringify (JBool b) = Some (if b then ''true'' else ''false'')"
| "json_stringify (JNum n) = Some (json_num n)"
| "json_stringify (JStr s) = Some (json_str s)"
| "json_stringify (JArr xs) =
     Some (''['' @ join '','' (List.map (\<lambda>v.
        case json_stringify v of None \<Rightarrow> ''null'' | Some t \<Rightarrow> t) xs) @ '']'')"
| "json_stringify (JObj fs) =
     Some (''{'' @ join '','' (concat (List.map (\<lambda>(k, v).
        case json_stringify v of None \<Rightarrow> [] | Some t \<Rightarrow> [json_str k @ '':'' @ t]) fs)) @ ''}'')"

section \<open>JSON.parse\<close>

definition json_ws :: "char \<Rightarrow> bool" where
  "json_ws c \<longleftrightarrow> (of_char c :: nat) \<in> {9, 10, 13, 32}"

definition skip_ws :: "string \<Rightarrow> string" where
  "skip_ws s = dropWhile json_ws s"

definition hex4 :: "char \<Rightarrow> char \<Rightarrow> char \<Rightarrow> char \<Rightarrow> int option" where
  "hex4 a b c d = radix_digits 16 [a, b, c, d]"

definition json_escape :: "char \<Rightarrow> char option" where
  "json_escape c =
     (if c \<in> {CHR 0x22, CHR 0x5C, CHR ''/''} then Some c
      else if c = CHR ''b'' then Some (char_of (8::nat))
      else if c = CHR ''t'' then Some (char_of (9::nat))
      else if c = CHR ''n'' then Some (char_of (10::nat))
      else if c = CHR ''f'' then Some (char_of (12::nat))
      else if c = CHR ''r'' then Some (char_of (13::nat)) else None)"

text \<open>
  The characters of a string literal up to its closing quote, and the text after it. The
  model's strings hold code units below 256: an escape of a larger one is refused.
\<close>

fun json_chars :: "string \<Rightarrow> (string \<times> string) option" where
  "json_chars [] = None"
| "json_chars (c # r) =
     (if c = CHR 0x22 then Some ([], r)
      else if c = CHR 0x5C then
        (case r of
           [] \<Rightarrow> None
         | e # r1 \<Rightarrow>
             if e = CHR ''u'' then
               (case r1 of
                  a1 # a2 # a3 # a4 # r2 \<Rightarrow>
                    (case hex4 a1 a2 a3 a4 of
                       Some n \<Rightarrow> if n < 256 then map_option (apfst ((#) (char_of (nat n)))) (json_chars r2)
                                 else None
                     | None \<Rightarrow> None)
                | _ \<Rightarrow> None)
             else (case json_escape e of
                 Some d \<Rightarrow> map_option (apfst ((#) d)) (json_chars r1)
               | None \<Rightarrow> None))
      else if (of_char c :: nat) < 32 then None
      else map_option (apfst ((#) c)) (json_chars r))"

text \<open>The number grammar of JSON: no leading zeros, no bare sign or point.\<close>

definition json_number_ok :: "string \<Rightarrow> bool" where
  "json_number_ok s =
     (let u = (if s \<noteq> [] \<and> hd s = CHR ''-'' then tl s else s);
          ip = takeWhile is_digit u; r = dropWhile is_digit u;
          frac = (r \<noteq> [] \<and> hd r = CHR ''.'');
          fp = (if frac then takeWhile is_digit (tl r) else []);
          r' = (if frac then dropWhile is_digit (tl r) else r)
      in ip \<noteq> [] \<and> (hd ip = CHR ''0'' \<longrightarrow> length ip = 1) \<and> (frac \<longrightarrow> fp \<noteq> [])
         \<and> exponent_part r' \<noteq> None)"

text \<open>
  Recursive descent: a value, the elements of an array after its bracket, the members of an
  object after its brace; each gives the text it leaves. The fuel is twice the length of the
  text, which \<open>json_fuel\<close> shows to be enough.
\<close>

fun json_value :: "nat \<Rightarrow> string \<Rightarrow> (jsv \<times> string) option"
  and json_elems :: "nat \<Rightarrow> string \<Rightarrow> (jsv list \<times> string) option"
  and json_members :: "nat \<Rightarrow> string \<Rightarrow> (fields \<times> string) option" where
  "json_value 0 s = None"
| "json_value (Suc n) s =
     (case skip_ws s of
        [] \<Rightarrow> None
      | c # r \<Rightarrow>
          if c = CHR ''{'' then
            (case skip_ws r of
               [] \<Rightarrow> None
             | d # r' \<Rightarrow> if d = CHR ''}'' then Some (JObj [], r')
                        else map_option (apfst (\<lambda>ms. JObj (spread [] ms))) (json_members n r))
          else if c = CHR ''['' then
            (case skip_ws r of
               [] \<Rightarrow> None
             | d # r' \<Rightarrow> if d = CHR '']'' then Some (JArr [], r')
                        else map_option (apfst JArr) (json_elems n r))
          else if c = CHR 0x22 then map_option (apfst JStr) (json_chars r)
          else if is_prefix ''true'' (c # r) then Some (JBool True, drop 4 (c # r))
          else if is_prefix ''false'' (c # r) then Some (JBool False, drop 5 (c # r))
          else if is_prefix ''null'' (c # r) then Some (JNull, drop 4 (c # r))
          else (let lexeme = takeWhile num_char (c # r)
                in if json_number_ok lexeme
                   then Some (JNum (str_to_num lexeme), dropWhile num_char (c # r)) else None))"
| "json_elems 0 s = None"
| "json_elems (Suc n) s =
     (case json_value n s of
        None \<Rightarrow> None
      | Some (v, r) \<Rightarrow>
          (case skip_ws r of
             [] \<Rightarrow> None
           | d # r' \<Rightarrow> if d = CHR '']'' then Some ([v], r')
                      else if d = CHR '','' then map_option (apfst ((#) v)) (json_elems n r')
                      else None))"
| "json_members 0 s = None"
| "json_members (Suc n) s =
     (case skip_ws s of
        [] \<Rightarrow> None
      | q # r0 \<Rightarrow>
          if q \<noteq> CHR 0x22 then None
          else (case json_chars r0 of
              None \<Rightarrow> None
            | Some (k, r1) \<Rightarrow>
                (case skip_ws r1 of
                   [] \<Rightarrow> None
                 | colon # r2 \<Rightarrow>
                     if colon \<noteq> CHR '':'' then None
                     else (case json_value n r2 of
                         None \<Rightarrow> None
                       | Some (v, r3) \<Rightarrow>
                           (case skip_ws r3 of
                              [] \<Rightarrow> None
                            | d # r4 \<Rightarrow>
                                if d = CHR ''}'' then Some ([(k, v)], r4)
                                else if d = CHR '','' then map_option (apfst ((#) (k, v))) (json_members n r4)
                                else None)))))"

definition json_parse :: "string \<Rightarrow> jsv throws" where
  "json_parse s =
     (case json_value (2 * length s + 1) s of
        Some (v, r) \<Rightarrow> if skip_ws r = [] then Inr v else Inl SyntaxError
      | None \<Rightarrow> Inl SyntaxError)"

section \<open>Enough fuel\<close>

lemma skip_ws_le: "length (skip_ws s) \<le> length s"
  by (simp add: skip_ws_def length_dropWhile_le)

lemma json_chars_shorter: "json_chars s = Some (t, r) \<Longrightarrow> length r < length s"
proof (induction s arbitrary: t r rule: json_chars.induct)
  case (2 c r0)
  consider "c = CHR 0x22" | "c = CHR 0x5C" | "c \<noteq> CHR 0x22" "c \<noteq> CHR 0x5C" by blast
  then show ?case
  proof cases
    case 1
    with 2 show ?thesis by simp
  next
    case 2
    show ?thesis
    proof (cases r0)
      case Nil
      with 2 "2.prems" show ?thesis by simp
    next
      case (Cons e r1)
      show ?thesis
      proof (cases "e = CHR ''u''")
        case True
        with 2 Cons "2.prems" obtain a1 a2 a3 a4 r2 n t' where
          "r1 = a1 # a2 # a3 # a4 # r2" "json_chars r2 = Some (t', r)" "hex4 a1 a2 a3 a4 = Some n" "n < 256"
          by (auto split: list.splits option.splits if_splits)
        with "2.IH"(1) [of e r1] 2 Cons True show ?thesis by fastforce
      next
        case False
        with 2 Cons "2.prems" obtain d t' where "json_escape e = Some d" "json_chars r1 = Some (t', r)"
          by (auto split: option.splits)
        with "2.IH"(2) [of e r1] 2 Cons False show ?thesis by fastforce
      qed
    qed
  next
    case 3
    with 2 show ?thesis by (fastforce split: if_splits)
  qed
qed simp

lemma skip_ws_shorter: "skip_ws s = c # r \<Longrightarrow> length r < length s"
  using skip_ws_le [of s] by simp

lemma json_value_cases:
  assumes "json_value (Suc n) s = Some (v, r)"
  obtains (obj) r0 ms where "skip_ws s = CHR ''{'' # r0" "json_members n r0 = Some (ms, r)"
  | (arr) r0 xs where "skip_ws s = CHR ''['' # r0" "json_elems n r0 = Some (xs, r)"
  | (other) "length r < length s"
proof -
  obtain c r0 where s: "skip_ws s = c # r0" using assms by (cases "skip_ws s") simp_all
  have le: "length r0 < length s" by (rule skip_ws_shorter [OF s])
  consider "c = CHR ''{''" | "c = CHR ''[''" | "c = CHR 0x22"
    | "c \<notin> {CHR ''{'', CHR ''['', CHR 0x22}" by blast
  then show thesis
  proof cases
    case 1
    show thesis
    proof (cases "skip_ws r0")
      case Nil
      with 1 assms s show thesis by simp
    next
      case (Cons d r1)
      with 1 assms s le skip_ws_shorter [OF Cons] show thesis
        by (auto split: if_splits intro: obj other)
    qed
  next
    case 2
    show thesis
    proof (cases "skip_ws r0")
      case Nil
      with 2 assms s show thesis by simp
    next
      case (Cons d r1)
      with 2 assms s le skip_ws_shorter [OF Cons] show thesis
        by (auto split: if_splits intro: arr other)
    qed
  next
    case 3
    with assms s le show thesis by (auto dest!: json_chars_shorter intro!: other)
  next
    case 4
    have "length (dropWhile num_char (c # r0)) < length (c # r0)" if "json_number_ok (takeWhile num_char (c # r0))"
      using that length_dropWhile_le [of num_char r0]
      by (cases "num_char c") (auto simp: json_number_ok_def)
    with 4 assms s le show thesis
      by (auto split: if_splits simp: Let_def intro!: other)
  qed
qed

lemma json_members_step:
  assumes "json_members (Suc n) s = Some (ms, r)"
  obtains q r0 k r1 c r2 w r3 d r4 where
    "skip_ws s = q # r0" "json_chars r0 = Some (k, r1)" "skip_ws r1 = c # r2"
    "json_value n r2 = Some (w, r3)" "skip_ws r3 = d # r4"
    "r = r4 \<or> (\<exists>ms'. json_members n r4 = Some (ms', r))"
  using assms by (auto split: list.splits option.splits if_splits)

lemma json_shorter:
  "(\<forall>s v r. json_value n s = Some (v, r) \<longrightarrow> length r < length s) \<and>
   (\<forall>s xs r. json_elems n s = Some (xs, r) \<longrightarrow> length r < length s) \<and>
   (\<forall>s ms r. json_members n s = Some (ms, r) \<longrightarrow> length r < length s)"
proof (induction n)
  case 0
  show ?case by simp
next
  case (Suc n)
  have v: "length r < length s" if "json_value n s = Some (v, r)" for s v r using Suc that by blast
  have e: "length r < length s" if "json_elems n s = Some (v, r)" for s v r using Suc that by blast
  have m: "length r < length s" if "json_members n s = Some (v, r)" for s v r using Suc that by blast
  have "length r < length s" if "json_value (Suc n) s = Some (v, r)" for s v r
    using that by (cases rule: json_value_cases) (auto dest!: e m skip_ws_shorter)
  moreover have "length r < length s" if "json_elems (Suc n) s = Some (v, r)" for s v r
    using that by (auto split: option.splits list.splits if_splits dest!: v e skip_ws_shorter)
  moreover have "length r < length s" if "json_members (Suc n) s = Some (v, r)" for s v r
    using that
  proof (cases rule: json_members_step)
    case (1 q r0 k r1 c r2 w r3 d r4)
    have "length r4 < length s"
      using skip_ws_shorter [OF 1(1)] json_chars_shorter [OF 1(2)] skip_ws_shorter [OF 1(3)]
        v [OF 1(4)] skip_ws_shorter [OF 1(5)] by linarith
    with 1(6) m show ?thesis by fastforce
  qed
  ultimately show ?case by blast
qed

lemma json_fuel_step:
  "(\<forall>s m. 2 * length s + 1 \<le> n \<longrightarrow> n \<le> m \<longrightarrow> json_value m s = json_value n s) \<and>
   (\<forall>s m. 2 * length s + 2 \<le> n \<longrightarrow> n \<le> m \<longrightarrow> json_elems m s = json_elems n s) \<and>
   (\<forall>s m. 2 * length s + 2 \<le> n \<longrightarrow> n \<le> m \<longrightarrow> json_members m s = json_members n s)"
proof (induction n)
  case 0
  show ?case by simp
next
  case (Suc n)
  have v: "json_value m s = json_value n s" if "2 * length s + 1 \<le> n" "n \<le> m" for s m using Suc that by blast
  have e: "json_elems m s = json_elems n s" if "2 * length s + 2 \<le> n" "n \<le> m" for s m using Suc that by blast
  have mm: "json_members m s = json_members n s" if "2 * length s + 2 \<le> n" "n \<le> m" for s m using Suc that by blast
  have "json_value m s = json_value (Suc n) s" if le: "2 * length s + 1 \<le> Suc n" "Suc n \<le> m" for s m
  proof -
    obtain m' where m': "m = Suc m'" "n \<le> m'" using le(2) by (cases m) auto
    show ?thesis
    proof (cases "skip_ws s")
      case (Cons c r)
      with skip_ws_shorter [OF Cons] le have "2 * length r + 2 \<le> n" by linarith
      from e [OF this m'(2)] mm [OF this m'(2)] show ?thesis
        by (simp only: json_value.simps Cons list.case m'(1))
    qed (simp add: m')
  qed
  moreover have "json_elems m s = json_elems (Suc n) s" if le: "2 * length s + 2 \<le> Suc n" "Suc n \<le> m" for s m
  proof -
    obtain m' where m': "m = Suc m'" "n \<le> m'" using le(2) by (cases m) auto
    have eq: "json_value m' s = json_value n s" using le m' by (intro v) simp_all
    show ?thesis
    proof (cases "json_value n s")
      case (Some p)
      obtain w r where p: "p = (w, r)" by (cases p)
      show ?thesis
      proof (cases "skip_ws r")
        case (Cons d r')
        have "length r < length s" using json_shorter [of n] Some p by blast
        with skip_ws_shorter [OF Cons] le have "2 * length r' + 2 \<le> n" by linarith
        with e [OF this m'(2)] eq Some p Cons show ?thesis by (simp add: m')
      qed (simp add: m' eq Some p)
    qed (simp add: m' eq)
  qed
  moreover have "json_members m s = json_members (Suc n) s" if le: "2 * length s + 2 \<le> Suc n" "Suc n \<le> m" for s m
  proof -
    obtain m' where m': "m = Suc m'" "n \<le> m'" using le(2) by (cases m) auto
    show ?thesis
    proof (cases "\<exists>q r0 k r1 c r2. skip_ws s = q # r0 \<and> json_chars r0 = Some (k, r1) \<and> skip_ws r1 = c # r2")
      case False
      then show ?thesis by (auto simp: m' split: list.splits option.splits)
    next
      case True
      then obtain q r0 k r1 c r2 where c: "skip_ws s = q # r0" "json_chars r0 = Some (k, r1)" "skip_ws r1 = c # r2"
        by blast
      have l2: "2 * length r2 + 2 \<le> n"
        using skip_ws_shorter [OF c(1)] json_chars_shorter [OF c(2)] skip_ws_shorter [OF c(3)] le by linarith
      have eq: "json_value m' r2 = json_value n r2" using l2 m' by (intro v) simp_all
      show ?thesis
      proof (cases "json_value n r2")
        case (Some p)
        obtain w r where p: "p = (w, r)" by (cases p)
        show ?thesis
        proof (cases "skip_ws r")
          case (Cons d r')
          have "length r < length r2" using json_shorter [of n] Some p by blast
          with skip_ws_shorter [OF Cons] l2 have "2 * length r' + 2 \<le> n" by linarith
          with mm [OF this m'(2)] eq Some p Cons c show ?thesis by (simp add: m')
        qed (simp add: m' eq Some p c)
      qed (simp add: m' eq c)
    qed
  qed
  ultimately show ?case by blast
qed

lemma json_fuel: "2 * length s + 1 \<le> n \<Longrightarrow> json_value n s = json_value (2 * length s + 1) s"
  using json_fuel_step [of "2 * length s + 1"] by blast

section \<open>What is written is read back\<close>

lemma hex_digit_val:
  assumes "m < 16"
  shows "hex_val (hex_digit m) = Some (int m)"
proof -
  from assms have "m = 0 \<or> m = 1 \<or> m = 2 \<or> m = 3 \<or> m = 4 \<or> m = 5 \<or> m = 6 \<or> m = 7 \<or> m = 8
      \<or> m = 9 \<or> m = 10 \<or> m = 11 \<or> m = 12 \<or> m = 13 \<or> m = 14 \<or> m = 15"
    by presburger
  then show ?thesis by (elim disjE; hypsubst; code_simp)
qed

lemma hex4_byte:
  assumes "n < 256"
  shows "hex4 (CHR ''0'') (CHR ''0'') (hex_digit (n div 16)) (hex_digit (n mod 16)) = Some (int n)"
proof -
  have "hex_val (CHR ''0'') = Some 0" by code_simp
  moreover have "hex_val (hex_digit (n div 16)) = Some (int (n div 16))" by (rule hex_digit_val) (use assms in simp)
  moreover have "hex_val (hex_digit (n mod 16)) = Some (int (n mod 16))" by (rule hex_digit_val) simp
  moreover have "16 * int (n div 16) + int (n mod 16) = int n"
    by (metis mult_div_mod_eq of_nat_add of_nat_mult of_nat_numeral)
  ultimately show ?thesis using assms by (simp add: hex4_def radix_digits_def)
qed

lemma json_chars_escaped:
  "json_escape e = Some d \<Longrightarrow> e \<noteq> CHR ''u'' \<Longrightarrow>
     json_chars (CHR 0x5C # e # t) = map_option (apfst ((#) d)) (json_chars t)"
  by (subst json_chars.simps) simp

lemma json_char_special:
  assumes "(of_char c :: nat) \<in> {34, 92, 8, 9, 10, 12, 13}"
  shows "\<exists>e. json_char c = [CHR 0x5C, e] \<and> json_escape e = Some c \<and> e \<noteq> CHR ''u''"
proof -
  define n where "n = (of_char c :: nat)"
  have c: "c = char_of n" by (simp add: n_def)
  have n: "n = 34 \<or> n = 92 \<or> n = 8 \<or> n = 9 \<or> n = 10 \<or> n = 12 \<or> n = 13" using assms by (simp add: n_def)
  let ?e = "last (json_char (char_of n))"
  from n have "json_char (char_of n) = [CHR 0x5C, ?e]" "json_escape ?e = Some (char_of n)" "?e \<noteq> CHR ''u''"
    by (elim disjE; hypsubst; code_simp)+
  then show ?thesis unfolding c by blast
qed

lemma json_chars_json_char: "json_chars (json_char c @ t) = map_option (apfst ((#) c)) (json_chars t)"
proof -
  define n where "n = (of_char c :: nat)"
  have bs: "char_of (92::nat) = CHR 0x5C" by code_simp
  consider (special) "n \<in> {34, 92, 8, 9, 10, 12, 13}"
    | (ctl) "n < 32" "n \<notin> {8, 9, 10, 12, 13}" | (plain) "32 \<le> n" "n \<noteq> 34" "n \<noteq> 92" by force
  then show ?thesis
  proof cases
    case special
    then obtain e where "json_char c = [CHR 0x5C, e]" "json_escape e = Some c" "e \<noteq> CHR ''u''"
      using json_char_special [of c] by (auto simp: n_def)
    then show ?thesis by (simp add: json_chars_escaped)
  next
    case ctl
    have jc: "json_char c = CHR 0x5C # CHR ''u'' # CHR ''0'' # CHR ''0'' # hex_digit (n div 16) # [hex_digit (n mod 16)]"
      using ctl by (simp add: json_char_def n_def bs Let_def)
    have "hex4 (CHR ''0'') (CHR ''0'') (hex_digit (n div 16)) (hex_digit (n mod 16)) = Some (int n)"
      using ctl(1) by (intro hex4_byte) simp
    moreover have "char_of n = c" by (simp add: n_def)
    ultimately show ?thesis using ctl(1) by (simp add: jc)
  next
    case plain
    then have "json_char c = [c]" by (simp add: json_char_def n_def)
    moreover have "c \<noteq> CHR 0x22" "c \<noteq> CHR 0x5C" using plain by (auto simp: n_def)
    ultimately show ?thesis using plain by (simp add: n_def)
  qed
qed

lemma json_chars_json_str: "json_chars (concat (List.map json_char s) @ CHR 0x22 # rest) = Some (s, rest)"
  by (induction s) (simp_all add: json_chars_json_char)

lemma json_number_printed:
  assumes "rnd x = Fin x"
  shows "json_number_ok (num_str (Fin x))" "list_all num_char (num_str (Fin x))"
    "\<exists>c r. num_str (Fin x) = c # r \<and> (is_digit c \<or> c = CHR ''-'')"
proof -
  have pos: "json_number_ok (pos_num_str y) \<and> json_number_ok (CHR ''-'' # pos_num_str y)
      \<and> list_all num_char (pos_num_str y) \<and> pos_num_str y \<noteq> [] \<and> is_digit (hd (pos_num_str y))"
    if y: "0 < y" "rnd y = Fin y" for y
  proof -
    obtain ip fp ex e v where l: "literal_parts ip fp ex e (pos_num_str y) v"
      using pos_num_str_parts [OF y] .
    note c = printed_chars [OF l]
    have p: "ip \<noteq> []" "list_all is_digit ip" "list_all is_digit fp" "exponent_part ex = Some e"
      "ex = [] \<or> hd ex = CHR ''e''" "hd ip = CHR ''0'' \<longrightarrow> length ip = 1"
      and s: "pos_num_str y = ip @ (if fp = [] then [] else CHR ''.'' # fp) @ ex"
      using l unfolding literal_parts_def by blast+
    let ?r = "(if fp = [] then [] else CHR ''.'' # fp) @ ex"
    have r: "?r = [] \<or> \<not> is_digit (hd ?r)" using p(5) by (auto split: if_splits)
    note a = takeWhile_digits [OF p(2) r]
    have ex: "ex = [] \<or> \<not> is_digit (hd ex)" using p(5) by auto
    note b = takeWhile_digits [OF p(3) ex]
    have nd: "hd (pos_num_str y) \<noteq> CHR ''-''" using c(3) by auto
    have ok: "json_number_ok (pos_num_str y)"
    proof (cases "fp = []")
      case True
      have "\<not> (ex \<noteq> [] \<and> hd ex = CHR ''.'')" using p(5) by auto
      with True p a nd show ?thesis by (auto simp: json_number_ok_def s Let_def)
    next
      case False
      with p a b nd show ?thesis by (simp add: json_number_ok_def s Let_def)
    qed
    moreover have "json_number_ok (CHR ''-'' # pos_num_str y)"
      using ok nd by (simp add: json_number_ok_def Let_def)
    ultimately show ?thesis using c by simp
  qed
  have zero: "json_number_ok ''0'' = True" "list_all num_char ''0'' = True" by code_simp+
  have "json_number_ok (num_str (Fin x)) \<and> list_all num_char (num_str (Fin x))
      \<and> (\<exists>c r. num_str (Fin x) = c # r \<and> (is_digit c \<or> c = CHR ''-''))"
  proof -
    consider "x = 0" | "0 < x" | "x < 0" by linarith
    then show ?thesis
    proof cases
      case 1
      then show ?thesis using zero by simp
    next
      case 2
      with pos [OF 2 assms] show ?thesis by (cases "pos_num_str x") simp_all
    next
      case 3
      then have "rnd (- x) = Fin (- x)" using assms by (simp add: rnd_minus)
      with pos [of "- x"] 3 show ?thesis by (simp add: num_char_def)
    qed
  qed
  then show "json_number_ok (num_str (Fin x))" "list_all num_char (num_str (Fin x))"
    "\<exists>c r. num_str (Fin x) = c # r \<and> (is_digit c \<or> c = CHR ''-'')" by blast+
qed

text \<open>
  What a JSON text keeps of a value: undefined members are dropped, undefined elements and
  numbers that are not finite become null.
\<close>

fun json_kept :: "jsv \<Rightarrow> jsv" where
  "json_kept JUndef = JNull"
| "json_kept (JNum n) = (if is_fin n then JNum n else JNull)"
| "json_kept (JArr xs) = JArr (List.map json_kept xs)"
| "json_kept (JObj fs) =
     JObj (concat (List.map (\<lambda>(k, v). if v = JUndef then [] else [(k, json_kept v)]) fs))"
| "json_kept v = v"

text \<open>The values of a program: its numbers are doubles and an object has a key once.\<close>

fun json_plain :: "jsv \<Rightarrow> bool" where
  "json_plain (JNum n) = is_double n"
| "json_plain (JArr xs) = list_all json_plain xs"
| "json_plain (JObj fs) = (distinct (List.map fst fs) \<and> list_all (\<lambda>(k, v). json_plain v) fs)"
| "json_plain v = True"

text \<open>The characters that may follow a value inside a text.\<close>

definition json_delim :: "string \<Rightarrow> bool" where
  "json_delim rest \<longleftrightarrow> rest = [] \<or> hd rest \<in> {CHR '','', CHR '']'', CHR ''}'', CHR 0x0A}"

definition json_reads :: "string \<Rightarrow> jsv \<Rightarrow> bool" where
  "json_reads t v \<longleftrightarrow>
     (\<exists>c r. t = c # r \<and> \<not> json_ws c \<and> c \<noteq> CHR '']'' \<and> c \<noteq> CHR ''}'')
     \<and> (\<forall>n rest. 2 * length t + 1 \<le> n \<longrightarrow> json_delim rest \<longrightarrow> json_value n (t @ rest) = Some (v, rest))"

lemma json_ws_simps [simp]:
  "\<not> json_ws (CHR '','')" "\<not> json_ws (CHR '':'')" "\<not> json_ws (CHR '']'')" "\<not> json_ws (CHR ''}'')"
  "\<not> json_ws (CHR ''['')" "\<not> json_ws (CHR ''{'')" "\<not> json_ws (CHR 0x22)" "\<not> json_ws (CHR ''t'')"
  "\<not> json_ws (CHR ''f'')" "\<not> json_ws (CHR ''n'')" "\<not> json_ws (CHR ''-'')"
  by (simp_all add: json_ws_def)

lemma json_ws_digit: "is_digit c \<Longrightarrow> \<not> json_ws c"
  by (auto simp: json_ws_def is_digit_def)

lemma skip_ws_Cons [simp]: "\<not> json_ws c \<Longrightarrow> skip_ws (c # r) = c # r"
  by (simp add: skip_ws_def)

lemma json_readsD:
  "json_reads t v \<Longrightarrow> 2 * length t + 1 \<le> n \<Longrightarrow> json_delim rest \<Longrightarrow> json_value n (t @ rest) = Some (v, rest)"
  by (simp add: json_reads_def)

lemma json_readsI:
  assumes "t = c # r" "\<not> json_ws c" "c \<noteq> CHR '']''" "c \<noteq> CHR ''}''"
    and "\<And>n rest. 2 * length t \<le> n \<Longrightarrow> json_delim rest \<Longrightarrow> json_value (Suc n) (t @ rest) = Some (v, rest)"
  shows "json_reads t v"
  unfolding json_reads_def
proof (intro conjI allI impI)
  show "\<exists>c r. t = c # r \<and> \<not> json_ws c \<and> c \<noteq> CHR '']'' \<and> c \<noteq> CHR ''}''" using assms(1-4) by blast
  show "json_value n (t @ rest) = Some (v, rest)" if "2 * length t + 1 \<le> n" "json_delim rest" for n rest
    using that assms(5) [of "n - 1" rest] by (cases n) auto
qed

lemma json_elems_join:
  assumes "\<And>t v. (t, v) \<in> set tvs \<Longrightarrow> json_reads t v"
  shows "tvs \<noteq> [] \<Longrightarrow> 2 * length (join '','' (List.map fst tvs)) + 2 \<le> n \<Longrightarrow>
    json_elems n (join '','' (List.map fst tvs) @ CHR '']'' # rest) = Some (List.map snd tvs, rest)"
  using assms
proof (induction tvs arbitrary: n)
  case Nil
  then show ?case by simp
next
  case (Cons tv tvs)
  obtain t v where tv: "tv = (t, v)" by (cases tv)
  have r: "json_reads t v" using Cons.prems(3) by (simp add: tv)
  obtain n' where n: "n = Suc n'" using Cons.prems(2) by (cases n) auto
  show ?case
  proof (cases "tvs = []")
    case True
    have "json_value n' (t @ CHR '']'' # rest) = Some (v, CHR '']'' # rest)"
      using Cons.prems(2) by (intro json_readsD [OF r]) (simp_all add: n tv True json_delim_def)
    then show ?thesis by (simp add: n tv True)
  next
    case False
    let ?j = "join '','' (List.map fst tvs)"
    have j: "join '','' (List.map fst (tv # tvs)) = t @ CHR '','' # ?j"
      using False by (cases tvs) (simp_all add: tv)
    have "json_value n' (t @ CHR '','' # ?j @ CHR '']'' # rest) = Some (v, CHR '','' # ?j @ CHR '']'' # rest)"
      using Cons.prems(2) j by (intro json_readsD [OF r]) (simp_all add: n json_delim_def)
    moreover have "json_elems n' (?j @ CHR '']'' # rest) = Some (List.map snd tvs, rest)"
      using Cons.prems(2,3) j False by (intro Cons.IH) (auto simp: n)
    ultimately show ?thesis unfolding j by (simp add: n tv)
  qed
qed

definition member_text :: "string \<times> string \<times> jsv \<Rightarrow> string" where
  "member_text m = json_str (fst m) @ '':'' @ fst (snd m)"

lemma json_members_join:
  assumes "\<And>k t v. (k, t, v) \<in> set ms \<Longrightarrow> json_reads t v"
  shows "ms \<noteq> [] \<Longrightarrow> 2 * length (join '','' (List.map member_text ms)) + 2 \<le> n \<Longrightarrow>
    json_members n (join '','' (List.map member_text ms) @ CHR ''}'' # rest)
      = Some (List.map (\<lambda>(k, t, v). (k, v)) ms, rest)"
  using assms
proof (induction ms arbitrary: n)
  case Nil
  then show ?case by simp
next
  case (Cons m ms)
  obtain k t v where m: "m = (k, t, v)" by (cases m)
  have r: "json_reads t v" by (rule Cons.prems(3) [of k]) (simp add: m)
  obtain n' where n: "n = Suc n'" using Cons.prems(2) by (cases n) auto
  have mt: "member_text m @ tail = CHR 0x22 # concat (List.map json_char k) @ CHR 0x22 # CHR '':'' # t @ tail" for tail
    by (simp add: member_text_def json_str_def m)
  have len: "length t < length (member_text m)" by (simp add: member_text_def json_str_def m)
  show ?case
  proof (cases "ms = []")
    case True
    have "json_value n' (t @ CHR ''}'' # rest) = Some (v, CHR ''}'' # rest)"
      using Cons.prems(2) len by (intro json_readsD [OF r]) (simp_all add: n True json_delim_def)
    then show ?thesis by (simp add: n m [symmetric] True mt json_chars_json_str) (simp add: m)
  next
    case False
    let ?j = "join '','' (List.map member_text ms)"
    have j: "join '','' (List.map member_text (m # ms)) = member_text m @ CHR '','' # ?j"
      using False by (cases ms) simp_all
    have "json_value n' (t @ CHR '','' # ?j @ CHR ''}'' # rest) = Some (v, CHR '','' # ?j @ CHR ''}'' # rest)"
      using Cons.prems(2) j len by (intro json_readsD [OF r]) (simp_all add: n json_delim_def)
    moreover have "json_members n' (?j @ CHR ''}'' # rest) = Some (List.map (\<lambda>(k, t, v). (k, v)) ms, rest)"
      using Cons.prems(2,3) j False by (intro Cons.IH) (auto simp: n)
    ultimately show ?thesis unfolding j by (simp add: n mt json_chars_json_str) (simp add: m)
  qed
qed

lemma json_reads_literal:
  "json_reads ''null'' JNull" "json_reads ''true'' (JBool True)" "json_reads ''false'' (JBool False)"
  by (rule json_readsI, rule refl; simp)+

lemma json_reads_num:
  assumes "is_double n"
  shows "json_reads (json_num n) (json_kept (JNum n))"
proof (cases "is_fin n")
  case False
  then show ?thesis using json_reads_literal(1) by (simp add: json_num_def)
next
  case True
  then obtain x where x: "n = Fin x" by (rule is_finE)
  have r: "rnd x = Fin x" using assms by (simp add: x is_double_def)
  note p = json_number_printed [OF r]
  obtain c t where ct: "num_str (Fin x) = c # t" "is_digit c \<or> c = CHR ''-''" using p(3) by blast
  have cc: "\<not> json_ws c" "c \<noteq> CHR '']''" "c \<noteq> CHR ''}''" "c \<noteq> CHR ''{''" "c \<noteq> CHR ''[''"
    "c \<noteq> CHR 0x22" "c \<noteq> CHR ''t''" "c \<noteq> CHR ''f''" "c \<noteq> CHR ''n''"
    using ct(2) by (auto simp: json_ws_digit is_digit_def)
  have "json_value (Suc m) (num_str (Fin x) @ rest) = Some (JNum (Fin x), rest)"
    if "json_delim rest" for m rest
  proof -
    have nr: "rest = [] \<or> \<not> num_char (hd rest)" using that by (auto simp: json_delim_def num_char_def)
    then have tw: "takeWhile num_char (num_str (Fin x) @ rest) = num_str (Fin x)"
      "dropWhile num_char (num_str (Fin x) @ rest) = rest"
      using p(2) by (auto simp: list_all_iff takeWhile_append2 dropWhile_append2 takeWhile_eq_Nil_iff dropWhile_eq_self_iff)
    have rb: "str_to_num (num_str (Fin x)) = Fin x"
      using r by (intro number_reads_back) (simp add: is_double_def)
    have e: "num_str (Fin x) @ rest = c # t @ rest" using ct(1) by (simp del: num_str.simps)
    have sk: "skip_ws (c # t @ rest) = c # t @ rest" using cc(1) by simp
    show ?thesis
      using cc tw [unfolded e] p(1) rb unfolding json_value.simps e sk by (simp add: Let_def)
  qed
  then have "json_reads (num_str (Fin x)) (JNum (Fin x))" using cc(1-3) by (intro json_readsI [OF ct(1)])
  then show ?thesis by (simp add: x json_num_def)
qed

lemma json_reads_str: "json_reads (json_str s) (JStr s)"
  by (rule json_readsI [where c = "CHR 0x22"]) (simp_all add: json_str_def json_chars_json_str)

lemma json_reads_arr:
  assumes "\<And>t v. (t, v) \<in> set tvs \<Longrightarrow> json_reads t v"
  shows "json_reads (''['' @ join '','' (List.map fst tvs) @ '']'') (JArr (List.map snd tvs))"
proof (rule json_readsI [where c = "CHR ''[''"])
  fix n rest
  let ?t = "''['' @ join '','' (List.map fst tvs) @ '']''"
  assume n: "2 * length ?t \<le> n"
  show "json_value (Suc n) (?t @ rest) = Some (JArr (List.map snd tvs), rest)"
  proof (cases tvs)
    case Nil
    then show ?thesis by simp
  next
    case (Cons tv tvs')
    obtain t v where tv: "tv = (t, v)" by (cases tv)
    have "json_reads t v" using assms Cons by (simp add: tv)
    then obtain c r where t: "t = c # r" "\<not> json_ws c" "c \<noteq> CHR '']''" unfolding json_reads_def by blast
    obtain r' where j: "join '','' (List.map fst tvs) = c # r'" by (cases tvs') (simp_all add: Cons tv t(1))
    have e: "json_elems n (join '','' (List.map fst tvs) @ CHR '']'' # rest) = Some (List.map snd tvs, rest)"
      using n Cons assms by (intro json_elems_join) auto
    then show ?thesis using t(2,3) by (simp add: j)
  qed
qed simp_all

lemma spread_distinct:
  assumes "distinct (List.map fst ms)"
  shows "spread [] ms = ms"
  using assms
proof (induction ms rule: rev_induct)
  case (snoc m ms)
  obtain k v where m: "m = (k, v)" by (cases m)
  have "k \<notin> fst ` set ms" using snoc.prems by (auto simp: m)
  then have "AList.update k v ms = ms @ [(k, v)]" by (induction ms) auto
  with snoc show ?case by (simp add: spread_def m set_fld_def)
qed simp

lemma json_reads_obj:
  assumes "\<And>k t v. (k, t, v) \<in> set ms \<Longrightarrow> json_reads t v" "distinct (List.map fst ms)"
  shows "json_reads (''{'' @ join '','' (List.map member_text ms) @ ''}'') (JObj (List.map (\<lambda>(k, t, v). (k, v)) ms))"
proof (rule json_readsI [where c = "CHR ''{''"])
  fix n rest
  let ?t = "''{'' @ join '','' (List.map member_text ms) @ ''}''"
  assume n: "2 * length ?t \<le> n"
  have "List.map fst (List.map (\<lambda>(k, t, v). (k, v)) ms) = List.map fst ms" by (induction ms) auto
  then have sp: "spread [] (List.map (\<lambda>(k, t, v). (k, v)) ms) = List.map (\<lambda>(k, t, v). (k, v)) ms"
    using assms(2) by (intro spread_distinct) (simp only:)
  show "json_value (Suc n) (?t @ rest) = Some (JObj (List.map (\<lambda>(k, t, v). (k, v)) ms), rest)"
  proof (cases ms)
    case Nil
    then show ?thesis by simp
  next
    case (Cons m ms')
    obtain r' where j: "join '','' (List.map member_text ms) = CHR 0x22 # r'"
      by (cases ms') (simp_all add: Cons member_text_def json_str_def)
    have "json_members n (join '','' (List.map member_text ms) @ CHR ''}'' # rest)
        = Some (List.map (\<lambda>(k, t, v). (k, v)) ms, rest)"
      using n Cons assms(1) by (intro json_members_join) auto
    then show ?thesis using sp by (simp add: j)
  qed
qed simp_all

lemma json_stringify_None: "json_stringify v = None \<longleftrightarrow> v = JUndef"
  by (cases v) simp_all

definition element_text :: "jsv \<Rightarrow> string" where
  "element_text v = (case json_stringify v of None \<Rightarrow> ''null'' | Some t \<Rightarrow> t)"

definition members_of :: "fields \<Rightarrow> (string \<times> string \<times> jsv) list" where
  "members_of fs = concat (List.map (\<lambda>(k, v).
     case json_stringify v of None \<Rightarrow> [] | Some t \<Rightarrow> [(k, t, json_kept v)]) fs)"

lemma members_of_simps [simp]:
  "members_of [] = []"
  "members_of ((k, v) # fs) =
     (case json_stringify v of None \<Rightarrow> [] | Some t \<Rightarrow> [(k, t, json_kept v)]) @ members_of fs"
  by (simp_all add: members_of_def)

lemma members_of_text:
  "List.map member_text (members_of fs) = concat (List.map (\<lambda>(k, v).
     case json_stringify v of None \<Rightarrow> [] | Some t \<Rightarrow> [json_str k @ '':'' @ t]) fs)"
  by (induction fs) (auto simp: member_text_def split: option.splits)

lemma members_of_kept:
  "List.map (\<lambda>(k, t, v). (k, v)) (members_of fs)
     = concat (List.map (\<lambda>(k, v). if v = JUndef then [] else [(k, json_kept v)]) fs)"
  by (induction fs) (auto simp: json_stringify_None split: option.splits)

lemma members_of_in:
  assumes "(k, t, w) \<in> set (members_of fs)"
  shows "\<exists>v. (k, v) \<in> set fs \<and> json_stringify v = Some t \<and> w = json_kept v"
proof -
  from assms obtain k' v where v: "(k', v) \<in> set fs"
    "(k, t, w) \<in> set (case json_stringify v of None \<Rightarrow> [] | Some t \<Rightarrow> [(k', t, json_kept v)])"
    unfolding members_of_def by fastforce
  then show ?thesis by (auto split: option.splits)
qed

lemma members_of_keys: "set (List.map fst (members_of fs)) \<subseteq> set (List.map fst fs)"
proof
  fix k
  assume "k \<in> set (List.map fst (members_of fs))"
  then obtain t w where "(k, t, w) \<in> set (members_of fs)" by auto
  from members_of_in [OF this] show "k \<in> set (List.map fst fs)" by force
qed

lemma members_of_distinct: "distinct (List.map fst fs) \<Longrightarrow> distinct (List.map fst (members_of fs))"
proof (induction fs)
  case (Cons f fs)
  obtain k v where f: "f = (k, v)" by (cases f)
  have "k \<notin> set (List.map fst (members_of fs))" using Cons.prems members_of_keys [of fs] by (auto simp: f)
  with Cons show ?case by (auto simp: f split: option.splits)
qed simp

lemma json_text_reads:
  "json_plain v \<Longrightarrow> json_stringify v = Some t \<Longrightarrow> json_reads t (json_kept v)"
proof (induction v arbitrary: t rule: json_stringify.induct)
  case (4 n)
  then show ?case using json_reads_num [of n] by simp
next
  case (6 xs)
  let ?tvs = "List.map (\<lambda>v. (element_text v, json_kept v)) xs"
  have "json_reads u w" if uw: "(u, w) \<in> set ?tvs" for u w
  proof -
    from uw obtain v where v: "v \<in> set xs" "u = element_text v" "w = json_kept v" by auto
    show ?thesis
    proof (cases "json_stringify v")
      case None
      then show ?thesis using v json_reads_literal(1) by (simp add: element_text_def json_stringify_None)
    next
      case (Some s)
      then show ?thesis using 6 v by (auto simp: element_text_def list_all_iff)
    qed
  qed
  then have "json_reads (''['' @ join '','' (List.map fst ?tvs) @ '']'') (JArr (List.map snd ?tvs))"
    by (rule json_reads_arr)
  moreover have "t = ''['' @ join '','' (List.map fst ?tvs) @ '']''"
    using "6.prems"(2) by (simp add: element_text_def comp_def)
  moreover have "json_kept (JArr xs) = JArr (List.map snd ?tvs)" by (simp add: comp_def)
  ultimately show ?case by (simp only:)
next
  case (7 fs)
  have "json_reads u w" if "(k, u, w) \<in> set (members_of fs)" for k u w
  proof -
    from members_of_in [OF that] obtain v where
      v: "(k, v) \<in> set fs" "json_stringify v = Some u" "w = json_kept v" by blast
    moreover from this "7.prems" have "json_plain v" by (auto simp: list_all_iff)
    ultimately show ?thesis using "7.IH" [of "(k, v)"] by auto
  qed
  then have "json_reads (''{'' @ join '','' (List.map member_text (members_of fs)) @ ''}'')
      (JObj (List.map (\<lambda>(k, t, v). (k, v)) (members_of fs)))"
    using "7.prems"(1) by (intro json_reads_obj members_of_distinct) auto
  then show ?case using "7.prems"(2) by (simp add: members_of_text members_of_kept)
qed (use json_reads_literal json_reads_str in auto)

theorem json_parse_stringify:
  assumes "json_plain v" "json_stringify v = Some t"
  shows "json_parse t = Inr (json_kept v)"
proof -
  have "json_reads t (json_kept v)" by (rule json_text_reads [OF assms])
  from json_readsD [OF this, of "2 * length t + 1" "[]"] show ?thesis
    by (simp add: json_parse_def json_delim_def skip_ws_def)
qed

text \<open>A text holds no line break, so one line of a log holds one value.\<close>

definition one_line :: "string \<Rightarrow> bool" where
  "one_line t \<longleftrightarrow> CHR 0x0A \<notin> set t"

lemma one_line_simps [simp]:
  "one_line []" "one_line (c # t) \<longleftrightarrow> c \<noteq> CHR 0x0A \<and> one_line t"
  "one_line (s @ t) \<longleftrightarrow> one_line s \<and> one_line t"
  by (auto simp: one_line_def)

lemma one_line_join: "one_line sep \<Longrightarrow> (\<And>t. t \<in> set ts \<Longrightarrow> one_line t) \<Longrightarrow> one_line (join sep ts)"
  by (induction sep ts rule: join.induct) auto

lemma hex_digit_line: "n < 16 \<Longrightarrow> hex_digit n \<noteq> CHR 0x0A"
  by (auto simp: hex_digit_def dest!: arg_cong [where f = "of_char :: char \<Rightarrow> nat"])

lemma one_line_json_char: "one_line (json_char c)"
proof (cases "c = CHR 0x0A")
  case True
  have "json_char (CHR 0x0A) = [CHR 0x5C, CHR ''n'']" by code_simp
  with True show ?thesis by simp
next
  case False
  have "char_of (92::nat) = CHR 0x5C" by code_simp
  with False show ?thesis by (simp add: json_char_def Let_def hex_digit_line)
qed

lemma one_line_json_str: "one_line (json_str s)"
proof -
  have "one_line (concat (List.map json_char s))" by (induction s) (simp_all add: one_line_json_char)
  then show ?thesis by (simp add: json_str_def)
qed

lemma one_line_num: "list_all num_char s \<Longrightarrow> one_line s"
proof -
  have "num_char (CHR 0x0A) = False" by code_simp
  then show "list_all num_char s \<Longrightarrow> one_line s" by (auto simp: list_all_iff one_line_def)
qed

lemma json_one_line: "json_plain v \<Longrightarrow> json_stringify v = Some t \<Longrightarrow> one_line t"
proof (induction v arbitrary: t rule: json_stringify.induct)
  case (4 n)
  then have "t = json_num n" "is_double n" by simp_all
  then show ?case
    using json_number_printed(2) [THEN one_line_num]
    by (cases n) (auto simp: json_num_def is_double_def simp del: num_str.simps)
next
  case (6 xs)
  have "one_line (element_text v)" if "v \<in> set xs" for v
    using 6 that by (auto simp: element_text_def list_all_iff split: option.splits)
  then have "one_line (join '','' (List.map element_text xs))" by (intro one_line_join) auto
  with "6.prems"(2) show ?case by (auto simp: element_text_def [abs_def])
next
  case (7 fs)
  have "one_line (member_text m)" if m: "m \<in> set (members_of fs)" for m
  proof -
    obtain k u w where kuw: "m = (k, u, w)" by (cases m)
    from members_of_in m obtain v where v: "(k, v) \<in> set fs" "json_stringify v = Some u"
      unfolding kuw by blast
    moreover from this "7.prems" have "json_plain v" by (auto simp: list_all_iff)
    ultimately have "one_line u" using "7.IH" [of "(k, v)"] by auto
    then show ?thesis by (simp add: member_text_def kuw one_line_json_str)
  qed
  then have "one_line (join '','' (List.map member_text (members_of fs)))" by (intro one_line_join) auto
  with "7.prems"(2) show ?case by (auto simp: members_of_text)
qed (use one_line_json_str in auto)

end
