(* ===== verification/AuditLog.thy ===== *)
theory AuditLog
  imports JsJson FailureStreak
begin

text \<open>
  src/src/executor/signer/audit-log.mjs: the records the signer writes of every intent and of an
  operator's reset, the JSON-lines file they are appended to, and the reader the policies take
  their history from. The file is a state: absent, unreadable or its contents.

  \<open>append_read\<close>: one append adds exactly the record that was written, as JSON keeps it;
  \<open>audit_log_roundtrip\<close> for every sequence of appends. \<open>operator_reset_clears_streak\<close> follows
  a reset record from the builder through the file into the failure streak.
\<close>

section \<open>Records\<close>

text \<open>
  \<open>buildSignerAuditRecord\<close>: the arguments are the named ones of the source, \<open>JUndef\<close> where
  the caller leaves one out. The default of \<open>observedAt\<close> is the clock, an argument.
\<close>

definition default_to :: "jsv \<Rightarrow> jsv \<Rightarrow> jsv" where
  "default_to dflt v = (if v = JUndef then dflt else v)"

definition buildSignerAuditRecord ::
    "jsv \<Rightarrow> jsv \<Rightarrow> jsv \<Rightarrow> jsv \<Rightarrow> jsv \<Rightarrow> jsv \<Rightarrow> jsv \<Rightarrow> jsv" where
  "buildSignerAuditRecord intent policyVerdict lifecycle broadcast realized error observedAt =
     JObj
       [(''schemaVersion'', JNum (Fin 1)),
        (''timestamp'', observedAt),
        (''strategyId'', dot intent ''strategyId''),
        (''chain'', dot intent ''chain''),
        (''intentId'', dot intent ''intentId''),
        (''intentHash'', JStr (sha256_hex (stableSerialize intent))),
        (''intent'', JObj
          ([(''intentType'', dot intent ''intentType''),
            (''amountUsd'', dot intent ''amountUsd''),
            (''mode'', dot intent ''mode''),
            (''metadata'', orelse (dot intent ''metadata'') JNull)]
           @ (if truthy (dot intent ''approval'') then [(''approval'', dot intent ''approval'')] else []))),
        (''amountUsd'', dot intent ''amountUsd''),
        (''policyVerdict'', policyVerdict),
        (''lifecycle'', lifecycle),
        (''broadcast'', default_to JNull broadcast),
        (''realized'', default_to JNull realized),
        (''error'', if truthy error
           then JObj [(''name'', dot error ''name''), (''message'', dot error ''message'')] else JNull)]"

definition buildConsecutiveFailureResetAuditRecord ::
    "jsv \<Rightarrow> jsv \<Rightarrow> jsv \<Rightarrow> jsv \<Rightarrow> jsv \<Rightarrow> jsv throws" where
  "buildConsecutiveFailureResetAuditRecord strategyId chain reason actor observedAt =
     (let normalizedStrategyId = (case strategyId of JStr s \<Rightarrow> trim s | _ \<Rightarrow> []);
          normalizedReason = (case reason of JStr s \<Rightarrow> trim s | _ \<Rightarrow> []);
          actor' = default_to (JStr ''operator_cli'') actor
      in if normalizedStrategyId = [] then Inl (ErrorMsg ''strategyId is required'')
         else if normalizedReason = [] then Inl (ErrorMsg ''reason is required'')
         else
           let normalizedChain =
                 (case chain of JStr s \<Rightarrow> if trim s \<noteq> [] then Some (trim s) else None | _ \<Rightarrow> None);
               resetScope = (if normalizedChain \<noteq> None then ''strategy_chain'' else ''strategy_all_chains'')
           in Inr (buildSignerAuditRecord
                (JObj
                  [(''strategyId'', JStr normalizedStrategyId),
                   (''chain'', str_or_null normalizedChain),
                   (''intentId'', JStr (''consecutive-failure-reset:'' @ normalizedStrategyId @ '':''
                      @ (case normalizedChain of Some c \<Rightarrow> c | None \<Rightarrow> ''*'') @ '':'' @ to_str observedAt)),
                   (''intentType'', JStr CONSECUTIVE_FAILURE_RESET_INTENT_TYPE),
                   (''amountUsd'', JNum (Fin 0)),
                   (''mode'', JStr ''operator''),
                   (''metadata'', JObj
                     [(''actor'', actor'), (''reason'', JStr normalizedReason),
                      (''resetScope'', JStr resetScope)])])
                (JStr ''approved'')
                (JObj
                  [(''stage'', JStr CONSECUTIVE_FAILURE_RESET_STAGE), (''actor'', actor'),
                   (''reason'', JStr normalizedReason), (''resetScope'', JStr resetScope)])
                JUndef JUndef JUndef observedAt))"

section \<open>The log file\<close>

text \<open>What reading the file finds: no file (ENOENT), another error, or its contents.\<close>

datatype file_read = NoEntry | ReadFails js_error | Contents string

fun split_on :: "char \<Rightarrow> string \<Rightarrow> string list" where
  "split_on c [] = [[]]"
| "split_on c (x # xs) =
     (if x = c then [] # split_on c xs
      else case split_on c xs of [] \<Rightarrow> [[x]] | s # ss \<Rightarrow> (x # s) # ss)"

definition newline :: char where
  "newline = CHR 0x0A"

text \<open>
  Appending creates a missing file. A file whose reading fails is left as it is: what the
  append does to it is the file system's matter.
\<close>

definition log_line :: "jsv \<Rightarrow> string" where
  "log_line record = (case json_stringify record of Some t \<Rightarrow> t | None \<Rightarrow> ''undefined'') @ [newline]"

fun appendSignerAuditRecord :: "file_read \<Rightarrow> jsv \<Rightarrow> file_read" where
  "appendSignerAuditRecord NoEntry record = Contents (log_line record)"
| "appendSignerAuditRecord (Contents s) record = Contents (s @ log_line record)"
| "appendSignerAuditRecord (ReadFails e) record = ReadFails e"

fun readSignerAuditLog :: "file_read \<Rightarrow> jsv list throws" where
  "readSignerAuditLog NoEntry = Inr []"
| "readSignerAuditLog (ReadFails e) = Inl e"
| "readSignerAuditLog (Contents s) =
     map_throws json_parse (List.filter (\<lambda>line. line \<noteq> []) (split_on newline s))"

section \<open>What is appended is read\<close>

lemma split_on_nonempty: "split_on c s \<noteq> []"
  by (induction s) (auto split: list.splits)

lemma split_on_append:
  "c \<notin> set t \<Longrightarrow> split_on c (s @ c # t) = split_on c s @ [t]"
proof (induction s)
  case Nil
  have "split_on c t = [t]" using Nil by (induction t) auto
  then show ?case by simp
next
  case (Cons x s)
  then show ?case using split_on_nonempty [of c s] by (auto split: list.splits)
qed

lemma map_throws_snoc:
  "map_throws f (xs @ [x]) = and_then (map_throws f xs) (\<lambda>ys. and_then (f x) (\<lambda>y. Inr (ys @ [y])))"
  by (induction xs) (auto simp: and_then_def split: sum.splits)

text \<open>A file that ends in a line break, as every append leaves it.\<close>

fun whole_lines :: "file_read \<Rightarrow> bool" where
  "whole_lines (Contents s) = (s = [] \<or> last s = newline)"
| "whole_lines f = True"

definition log_record :: "jsv \<Rightarrow> bool" where
  "log_record r \<longleftrightarrow> json_plain r \<and> r \<noteq> JUndef"

lemma split_whole:
  assumes "s = [] \<or> last s = c" "c \<notin> set t"
  shows "split_on c (s @ t @ [c]) = butlast (split_on c s) @ [t, []]"
    "List.last (split_on c s) = []"
proof -
  have t: "split_on c (t @ [c]) = [t, []]" if "c \<notin> set t" for t
    using that by (induction t) auto
  show "split_on c (s @ t @ [c]) = butlast (split_on c s) @ [t, []]"
  proof (cases "s = []")
    case True
    then show ?thesis using t assms(2) by simp
  next
    case False
    then obtain s' where s: "s = s' @ [c]" using assms(1) by (metis append_butlast_last_id)
    have "split_on c (s' @ [c]) = split_on c s' @ [[]]" using split_on_append [of c "[]" s'] by simp
    moreover have "split_on c ((s' @ c # t) @ [c]) = (split_on c s' @ [t]) @ [[]]"
      using split_on_append [of c "[]" "s' @ c # t"] split_on_append [OF assms(2)] by simp
    ultimately show ?thesis by (simp add: s)
  qed
  show "List.last (split_on c s) = []"
  proof (cases "s = []")
    case False
    then obtain s' where s: "s = s' @ [c]" using assms(1) by (metis append_butlast_last_id)
    then show ?thesis using split_on_append [of c "[]" s'] by simp
  qed simp
qed

lemma append_whole: "whole_lines f \<Longrightarrow> whole_lines (appendSignerAuditRecord f r)"
  by (cases f) (simp_all add: log_line_def)

lemma append_read:
  assumes "readSignerAuditLog f = Inr rs" "whole_lines f" "log_record r"
  shows "readSignerAuditLog (appendSignerAuditRecord f r) = Inr (rs @ [json_kept r])"
proof -
  obtain t where t: "json_stringify r = Some t"
    using assms(3) json_stringify_None [of r] by (auto simp: log_record_def)
  have p: "json_plain r" using assms(3) by (simp add: log_record_def)
  have line: "newline \<notin> set t" using json_one_line [OF p t] by (simp add: one_line_def newline_def)
  have ne: "t \<noteq> []" using json_text_reads [OF p t] by (auto simp: json_reads_def)
  have parse: "json_parse t = Inr (json_kept r)" by (rule json_parse_stringify [OF p t])
  show ?thesis
  proof (cases f)
    case NoEntry
    then show ?thesis
      using assms(1) split_whole(1) [of "[]" newline t] line ne parse by (simp add: log_line_def t)
  next
    case (ReadFails e)
    with assms(1) show ?thesis by simp
  next
    case (Contents s)
    then have w: "s = [] \<or> last s = newline" using assms(2) by simp
    note sp = split_whole [OF w line]
    have "split_on newline s = butlast (split_on newline s) @ [[]]"
      using sp(2) split_on_nonempty [of newline s] by (metis append_butlast_last_id)
    then have lines: "List.filter (\<lambda>l. l \<noteq> []) (split_on newline s) = List.filter (\<lambda>l. l \<noteq> []) (butlast (split_on newline s))"
      by (metis (mono_tags, lifting) append_Nil2 filter.simps(1) filter.simps(2) filter_append)
    have "List.filter (\<lambda>l. l \<noteq> []) (split_on newline (s @ t @ [newline]))
        = List.filter (\<lambda>l. l \<noteq> []) (split_on newline s) @ [t]"
      using ne by (simp add: sp(1) lines)
    moreover have "map_throws json_parse (List.filter (\<lambda>l. l \<noteq> []) (split_on newline s)) = Inr rs"
      using assms(1) Contents by simp
    ultimately show ?thesis using parse by (simp add: Contents log_line_def t map_throws_snoc)
  qed
qed

lemma append_read_all:
  assumes "list_all log_record rs"
  shows "whole_lines (foldl appendSignerAuditRecord NoEntry rs)
    \<and> readSignerAuditLog (foldl appendSignerAuditRecord NoEntry rs) = Inr (List.map json_kept rs)"
  using assms
proof (induction rs rule: rev_induct)
  case (snoc r rs)
  then show ?case
    using append_read [of "foldl appendSignerAuditRecord NoEntry rs" "List.map json_kept rs" r]
      append_whole [of "foldl appendSignerAuditRecord NoEntry rs" r] by auto
qed simp

section \<open>A reset, from the operator to the streak\<close>

lemma dot_kept_absent: "k \<notin> set (List.map fst fs) \<Longrightarrow> dot (json_kept (JObj fs)) k = JUndef"
  by (induction fs) auto

lemma dot_json_kept:
  assumes "distinct (List.map fst fs)"
  shows "dot (json_kept (JObj fs)) k = (if fld fs k = JUndef then JUndef else json_kept (fld fs k))"
  using assms
proof (induction fs)
  case (Cons f fs)
  obtain k' v where f: "f = (k', v)" by (cases f)
  show ?case
  proof (cases "k' = k \<and> v = JUndef")
    case True
    then have "k \<notin> set (List.map fst fs)" using Cons.prems f by auto
    from dot_kept_absent [OF this] show ?thesis using True by (simp add: f)
  next
    case False
    with Cons show ?thesis by (auto simp: f)
  qed
qed simp

lemma sort_by_hd:
  assumes "x \<in> set xs"
    and "\<And>y. y \<in> set xs \<Longrightarrow> y \<noteq> x \<Longrightarrow> jlt (cmp x y) (Fin 0) \<and> \<not> jlt (cmp y x) (Fin 0)"
    and "\<not> jlt (cmp x x) (Fin 0)"
  shows "sort_by cmp xs \<noteq> [] \<and> hd (sort_by cmp xs) = x"
  using assms
proof (induction xs rule: rev_induct)
  case (snoc y ys)
  show ?case
  proof (cases "x \<in> set ys")
    case True
    with snoc obtain r where r: "sort_by cmp ys = x # r" by (cases "sort_by cmp ys") auto
    have "\<not> jlt (cmp y x) (Fin 0)" using snoc.prems by (cases "y = x") auto
    then show ?thesis by (simp add: r)
  next
    case False
    then have "y = x" using snoc.prems(1) by auto
    with False snoc.prems(2) have l: "\<And>z. z \<in> set ys \<Longrightarrow> jlt (cmp x z) (Fin 0)" by fastforce
    show ?thesis
    proof (cases "sort_by cmp ys")
      case Nil
      with \<open>y = x\<close> show ?thesis by (simp add: sort_by_def)
    next
      case (Cons z zs)
      then have "z \<in> set ys" by (metis list.set_intros(1) set_sort_by)
      with l Cons \<open>y = x\<close> show ?thesis by simp
    qed
  qed
qed simp

lemma is_double_date_of [simp]: "is_double (date_of v)"
  by (auto simp: date_of_def date_of_str_def split: jsv.splits option.splits jsnum.splits)

lemma newest_first_sign:
  assumes "jlt (recordTimestamp b) (recordTimestamp a)" "is_fin (recordTimestamp a)" "is_fin (recordTimestamp b)"
  shows "jlt (newest_first (c, a) (d, b)) (Fin 0) \<and> \<not> jlt (newest_first (d, b) (c, a)) (Fin 0)"
proof -
  obtain x y where xy: "recordTimestamp a = Fin x" "recordTimestamp b = Fin y"
    using assms(2,3) by (auto elim!: is_finE)
  have "is_double (Fin x)" "is_double (Fin y)"
    using is_double_date_of unfolding xy [symmetric] recordTimestamp_def by blast+
  with assms(1) jsub_sign [of y x] jsub_sign [of x y] show ?thesis by (simp add: newest_first_def xy)
qed

lemma newest_first_refl: "\<not> jlt (newest_first x x) (Fin 0)"
proof (cases "recordTimestamp (snd x)")
  case (Fin a)
  then show ?thesis by (simp add: newest_first_def jsub_def)
qed (simp_all add: newest_first_def jsub_def)

lemma update_self_value: "(k, v) \<in> set (AList.update k v g)"
  by (induction g) auto

text \<open>The newest classified record of the scope comes first.\<close>

lemma newest_record_first:
  assumes "matchesStrategyChain r sid chain" "classifyConsecutiveFailureRecord r = Some c"
    and "\<And>q. q \<in> set rs \<Longrightarrow> jlt (recordTimestamp q) (recordTimestamp r) \<and> is_fin (recordTimestamp q)"
    and "is_fin (recordTimestamp r)"
  shows "latestClassifiedRecords (rs @ [r]) sid chain resume = []
    \<or> fst (hd (latestClassifiedRecords (rs @ [r]) sid chain resume)) = c
      \<and> latestClassifiedRecords (rs @ [r]) sid chain resume \<noteq> []"
proof -
  let ?ms = "List.filter (\<lambda>item. matchesStrategyChain item sid chain) rs"
  let ?R = "resumeAfterTimestamp resume"
  let ?g = "foldl (group_record ?R) [] ?ms"
  have old: "q \<in> set rs" if "q \<in> kept_records ?g" for q
    using that foldl_group_members [of ?R "[]" ?ms] by (auto simp: kept_records_def)
  show ?thesis
  proof (cases "skipped_by_reset ?R r")
    case True
    have "skipped_by_reset ?R q" if "q \<in> set rs" for q
      using True assms(3) [OF that] jle_trans [of "recordTimestamp q" "recordTimestamp r"]
      by (cases "recordTimestamp q"; cases "recordTimestamp r") (auto simp: skipped_by_reset_def split: option.splits)
    then have "?g = []"
      using foldl_group_eligible [of _ ?R ?ms] old
      by (metis (no_types, lifting) eligible_def image_eqI kept_records_def list.set_intros(1) list.set_map neq_Nil_conv)
    then show ?thesis using assms(1) True by (simp add: latestClassifiedRecords_def group_record_def)
  next
    case False
    have upd: "group_record ?R ?g r = AList.update (recordKey r) (c, r) ?g"
    proof (cases "map_of ?g (recordKey r)")
      case None
      then show ?thesis using False assms(2) by (simp add: group_record_def)
    next
      case (Some p)
      then have "snd p \<in> kept_records ?g" by (force simp: kept_records_def dest: map_of_SomeD)
      then have "jlt (recordTimestamp (snd p)) (recordTimestamp r)" using assms(3) old by blast
      then have "jle (recordTimestamp (snd p)) (recordTimestamp r)"
        by (cases "recordTimestamp (snd p)"; cases "recordTimestamp r") auto
      with Some False assms(2) show ?thesis by (cases p) (simp add: group_record_def)
    qed
    let ?l = "List.map snd (AList.update (recordKey r) (c, r) ?g)"
    have l: "latestClassifiedRecords (rs @ [r]) sid chain resume = sort_by newest_first ?l"
      using assms(1) upd by (simp add: latestClassifiedRecords_def)
    have inl: "(c, r) \<in> set ?l" using update_self_value by (metis image_eqI list.set_map snd_conv)
    have other: "jlt (newest_first (c, r) y) (Fin 0) \<and> \<not> jlt (newest_first y (c, r)) (Fin 0)"
      if y: "y \<in> set ?l" "y \<noteq> (c, r)" for y
    proof -
      from update_values [OF y(1)] y(2) have "y \<in> set (List.map snd ?g)" by blast
      then have "snd y \<in> kept_records ?g" by (auto simp: kept_records_def)
      with old assms(3) have "jlt (recordTimestamp (snd y)) (recordTimestamp r) \<and> is_fin (recordTimestamp (snd y))"
        by blast
      with newest_first_sign [of "snd y" r c "fst y"] assms(4) show ?thesis by simp
    qed
    from sort_by_hd [where cmp = newest_first, OF inl other newest_first_refl] show ?thesis unfolding l by simp
  qed
qed

text \<open>What the reset builder returns, as the streak sees it.\<close>

lemma reset_record_facts:
  assumes "buildConsecutiveFailureResetAuditRecord (JStr sid) chain reason actor (JStr ts) = Inr r"
    "json_plain actor" "trim sid = sid" "ts \<noteq> []"
  shows "log_record r" "isResetRecord (json_kept r)" "dot (json_kept r) ''strategyId'' = JStr sid"
    "sid \<noteq> []" "recordTimestamp (json_kept r) = date_of (JStr ts)"
    "recordChain (json_kept r) = (case chain of JStr s \<Rightarrow> if trim s \<noteq> [] then Some (trim s) else None | _ \<Rightarrow> None)"
proof -
  define c where "c = (case chain of JStr s \<Rightarrow> if trim s \<noteq> [] then Some (trim s) else None | _ \<Rightarrow> None)"
  obtain reason' where sid: "sid \<noteq> []" and reason: "reason = JStr reason'" "trim reason' \<noteq> []"
    using assms(1,3) unfolding buildConsecutiveFailureResetAuditRecord_def
    by (cases reason) (auto simp: Let_def split: if_splits)
  define intent where "intent = JObj
      [(''strategyId'', JStr sid), (''chain'', str_or_null c),
       (''intentId'', JStr (''consecutive-failure-reset:'' @ sid @ '':''
          @ (case c of Some c \<Rightarrow> c | None \<Rightarrow> ''*'') @ '':'' @ ts)),
       (''intentType'', JStr CONSECUTIVE_FAILURE_RESET_INTENT_TYPE),
       (''amountUsd'', JNum (Fin 0)), (''mode'', JStr ''operator''),
       (''metadata'', JObj
         [(''actor'', default_to (JStr ''operator_cli'') actor), (''reason'', JStr (trim reason')),
          (''resetScope'', JStr (if c \<noteq> None then ''strategy_chain'' else ''strategy_all_chains''))])]"
  define lifecycle where "lifecycle = JObj
      [(''stage'', JStr CONSECUTIVE_FAILURE_RESET_STAGE), (''actor'', default_to (JStr ''operator_cli'') actor),
       (''reason'', JStr (trim reason')),
       (''resetScope'', JStr (if c \<noteq> None then ''strategy_chain'' else ''strategy_all_chains''))]"
  have r: "r = buildSignerAuditRecord intent (JStr ''approved'') lifecycle JUndef JUndef JUndef (JStr ts)"
    using assms(1) sid reason unfolding buildConsecutiveFailureResetAuditRecord_def intent_def lifecycle_def c_def
    by (simp add: Let_def assms(3))
  have actor: "json_plain (default_to (JStr ''operator_cli'') actor)"
    using assms(2) by (simp add: default_to_def)
  have cp: "json_plain (str_or_null c)" by (simp add: str_or_null_def split: option.splits)
  obtain fs where fs: "r = JObj fs" "distinct (List.map fst fs)" "fld fs ''strategyId'' = JStr sid"
    "fld fs ''timestamp'' = JStr ts" "fld fs ''chain'' = str_or_null c" "fld fs ''lifecycle'' = lifecycle"
    "json_plain (JObj fs)" "fld fs ''intent'' = JObj
       [(''intentType'', JStr CONSECUTIVE_FAILURE_RESET_INTENT_TYPE), (''amountUsd'', JNum (Fin 0)),
        (''mode'', JStr ''operator''), (''metadata'', dot intent ''metadata'')]"
    using actor cp unfolding r buildSignerAuditRecord_def
    by (simp add: intent_def lifecycle_def default_to_def is_double_def orelse_def)
  have dk: "dot (json_kept r) k = (if fld fs k = JUndef then JUndef else json_kept (fld fs k))" for k
    unfolding fs(1) by (rule dot_json_kept [OF fs(2)])
  have lc: "dots (json_kept r) [''lifecycle'', ''stage''] = JStr CONSECUTIVE_FAILURE_RESET_STAGE"
    by (simp add: dk fs(2-) lifecycle_def)
  have ic: "dots (json_kept r) [''intent'', ''chain''] = JUndef"
    by (simp add: dk fs(2-))
  show "log_record r" using fs(1,7) by (simp add: log_record_def)
  show "isResetRecord (json_kept r)" using lc by (simp add: isResetRecord_def)
  show "dot (json_kept r) ''strategyId'' = JStr sid" by (simp add: dk fs(2-))
  show "sid \<noteq> []" by (rule sid)
  show "recordTimestamp (json_kept r) = date_of (JStr ts)"
    using assms(4) by (simp add: recordTimestamp_def dk fs(2-))
  have ch: "dot (json_kept r) ''chain'' = str_or_null c"
    by (cases c) (simp_all add: dk fs(2-) str_or_null_def)
  have "c \<noteq> Some []" by (auto simp: c_def split: jsv.splits if_splits)
  then show "recordChain (json_kept r) = (case chain of JStr s \<Rightarrow> if trim s \<noteq> [] then Some (trim s) else None | _ \<Rightarrow> None)"
    unfolding c_def [symmetric] recordChain_def ch using ic
    by (cases c) (auto simp: str_or_null_def normalizeChain_def)
qed

section \<open>Properties\<close>

text \<open>C23: For every sequence of records appended to a log that did not exist,
  the reader returns exactly these records, in order, as JSON keeps them.
\<close>
theorem audit_log_roundtrip:
  assumes "list_all log_record rs"
  shows "readSignerAuditLog (foldl appendSignerAuditRecord NoEntry rs) = Inr (List.map json_kept rs)"
  using append_read_all [OF assms] by blast

definition sample_audit_record :: "string \<Rightarrow> jsnum \<Rightarrow> jsv" where
  "sample_audit_record ts amount = JObj
     [(''timestamp'', JStr ts), (''strategyId'', JStr ''s''), (''chain'', JStr ''base''),
      (''intentHash'', JStr ts), (''broadcast'', JUndef), (''amountUsd'', JNum amount),
      (''lifecycle'', JObj [(''stage'', JStr ''reverted''), (''blockers'', JArr [])])]"

theorem audit_log_roundtrip_witness:
  "readSignerAuditLog (foldl appendSignerAuditRecord NoEntry
     [sample_audit_record ''2026-05-01T00:00:00.000Z'' (lit 1 10), sample_audit_record ''2026-05-01T00:01:00.000Z'' NaN])
   = Inr [json_kept (sample_audit_record ''2026-05-01T00:00:00.000Z'' (lit 1 10)),
          json_kept (sample_audit_record ''2026-05-01T00:01:00.000Z'' NaN)]"
proof -
  have "list_all log_record [sample_audit_record ''2026-05-01T00:00:00.000Z'' (lit 1 10),
      sample_audit_record ''2026-05-01T00:01:00.000Z'' NaN]"
    by (simp add: log_record_def sample_audit_record_def lit_def)
  from audit_log_roundtrip [OF this] show ?thesis by simp
qed

text \<open>C22: After an operator's reset of a strategy (on all chains, or
  on the chain that is checked) is appended to a log whose records all predate it, the log is
  read without error and the failure streak that the pause check counts is zero.
\<close>
theorem operator_reset_clears_streak:
  assumes "buildConsecutiveFailureResetAuditRecord (JStr sid) chain reason actor (JStr ts) = Inr r"
    and "json_plain actor" "trim sid = sid"
    and "chain = JNull \<or> chain = checked \<and> (\<exists>s. chain = JStr s \<and> trim s = s)"
    and "readSignerAuditLog file = Inr rs" "whole_lines file"
    and "is_fin (date_of (JStr ts))"
    and "\<And>q. q \<in> set rs \<Longrightarrow> is_fin (recordTimestamp q) \<and> jlt (recordTimestamp q) (date_of (JStr ts))"
  shows "\<exists>rs'. readSignerAuditLog (appendSignerAuditRecord file r) = Inr rs'
    \<and> fs_consecutiveFailures (buildConsecutiveFailureState (JStr sid) checked rs' resume intentId w clock) = 0"
proof -
  have ts: "ts \<noteq> []" using assms(7) by (auto simp: date_of_def to_prim_def date_of_str_def read_date_def read_year_def)
  note f = reset_record_facts [OF assms(1-3) ts]
  let ?k = "json_kept r"
  have read: "readSignerAuditLog (appendSignerAuditRecord file r) = Inr (rs @ [?k])"
    by (rule append_read [OF assms(5,6) f(1)])
  have m: "matchesStrategyChain ?k (JStr sid) checked"
    using assms(4) f by (auto simp: matchesStrategyChain_def normalizeChain_def split: option.splits jsv.splits)
  have c: "classifyConsecutiveFailureRecord ?k = Some Reset"
    using f(2) by (simp add: classifyConsecutiveFailureRecord_def Let_def)
  let ?l = "\<lambda>resume. latestClassifiedRecords (rs @ [?k]) (JStr sid) checked resume"
  have "fw_count (countConsecutiveBroadcastFailures (?l resume)) = 0" for resume
  proof -
    have "?l resume = [] \<or> fst (hd (?l resume)) = Reset \<and> ?l resume \<noteq> []"
      using assms(7,8) f(5) by (intro newest_record_first [OF m c]) auto
    then show ?thesis by (cases "?l resume") (auto simp: streak_is_spec)
  qed
  then have "fs_consecutiveFailures
      (buildConsecutiveFailureState (JStr sid) checked (rs @ [?k]) resume intentId w clock) = 0"
    by (simp add: buildConsecutiveFailureState_def Let_def)
  with read show ?thesis by blast
qed

theorem operator_reset_clears_streak_witness:
  "\<exists>r rs'. buildConsecutiveFailureResetAuditRecord (JStr ''s'') (JStr ''base'') (JStr ''node fixed'') JUndef
        (JStr ''2026-05-02T00:00:00.000Z'') = Inr r
     \<and> readSignerAuditLog (appendSignerAuditRecord (foldl appendSignerAuditRecord NoEntry
          [sample_audit_record ''2026-05-01T00:00:00.000Z'' (lit 1 10)]) r) = Inr rs'
     \<and> fs_consecutiveFailures (buildConsecutiveFailureState (JStr ''s'') (JStr ''base'') rs' JNull JNull
          (Fin 0) (Fin 0)) = 0"
proof -
  let ?q = "sample_audit_record ''2026-05-01T00:00:00.000Z'' (lit 1 10)"
  let ?file = "foldl appendSignerAuditRecord NoEntry [?q]"
  obtain r where r: "buildConsecutiveFailureResetAuditRecord (JStr ''s'') (JStr ''base'') (JStr ''node fixed'') JUndef
        (JStr ''2026-05-02T00:00:00.000Z'') = Inr r"
    by (simp add: buildConsecutiveFailureResetAuditRecord_def trim_def is_space_def Let_def)
  have lr: "list_all log_record [?q]" by (simp add: log_record_def sample_audit_record_def lit_def)
  note fl = append_read_all [OF lr]
  have trims: "trim ''s'' = ''s''" "trim ''base'' = ''base''" by (simp_all add: trim_def is_space_def)
  have d: "date_of (JStr ''2026-05-02T00:00:00.000Z'') = Fin 1777680000000"
    "date_of (JStr ''2026-05-01T00:00:00.000Z'') = Fin 1777593600000" by code_simp+
  have q: "recordTimestamp (json_kept ?q) = date_of (JStr ''2026-05-01T00:00:00.000Z'')"
    by (simp add: recordTimestamp_def sample_audit_record_def)
  have "\<exists>rs'. readSignerAuditLog (appendSignerAuditRecord ?file r) = Inr rs'
     \<and> fs_consecutiveFailures (buildConsecutiveFailureState (JStr ''s'') (JStr ''base'') rs' JNull JNull
          (Fin 0) (Fin 0)) = 0"
  proof (rule operator_reset_clears_streak [OF r])
    show "readSignerAuditLog ?file = Inr (List.map json_kept [?q])" using fl by blast
    show "whole_lines ?file" using fl by blast
    show "is_fin (recordTimestamp p) \<and> jlt (recordTimestamp p) (date_of (JStr ''2026-05-02T00:00:00.000Z''))"
      if "p \<in> set (List.map json_kept [?q])" for p
      using that by (simp add: q d)
  qed (use trims d in auto)
  with r show ?thesis by blast
qed

end
