(* ===== verification/CapSession.thy ===== *)
theory CapSession
  imports CapCheck AuditLog
begin

text \<open>
  The daily cap of src/src/executor/policy/cap-check.mjs over a day of the log that the signer
  writes (src/src/executor/signer/daemon.mjs, handleIntentCommand, and audit-log.mjs): an intent is
  checked on the log of that moment, its signed record is appended, then its broadcasted record,
  and other commands append theirs in between. The records are those of
  \<open>buildSignerAuditRecord\<close>, as JSON keeps them.

  \<open>cap_session_daily_bound\<close>: as long as every broadcast of the day was serial, ordinary and paid for
  by its own check, the volume rebuilt from the log is within the daily cap. \<open>raced_checks_exceed_cap\<close>
  and \<open>reused_intent_id_counts_once\<close> show that these conditions are needed.
\<close>

section \<open>The log of a strategy's day\<close>

text \<open>The records of strategy \<open>sid\<close> on day \<open>d\<close>, and the logs whose dates can be read.\<close>

definition logged_on :: "jsv \<Rightarrow> string \<Rightarrow> jsv \<Rightarrow> bool" where
  "logged_on sid d rec \<longleftrightarrow> strict_eq (dot rec ''strategyId'') sid \<and> dayKey (dot rec ''timestamp'') = Inr d"

definition dated :: "jsv \<Rightarrow> jsv \<Rightarrow> bool" where
  "dated sid rec \<longleftrightarrow> (strict_eq (dot rec ''strategyId'') sid \<longrightarrow>
     truthy (dot rec ''timestamp'') \<and> \<not> isl (dayKey (dot rec ''timestamp'')))"

definition day_log :: "jsv \<Rightarrow> string \<Rightarrow> jsv list \<Rightarrow> jsv list" where
  "day_log sid d lg = List.filter (logged_on sid d) lg"

lemma day_log_append: "day_log sid d (lg @ rs) = day_log sid d lg @ day_log sid d rs"
  by (simp add: day_log_def)

lemma state_of_log:
  assumes "list_all (dated sid) lg" "dayKey now = Inr d"
  obtains st where "buildStrategyCapState sid lg now = Inr st" "cs_dailyVolumeUsd st = day_volume (day_log sid d lg)"
proof -
  let ?mine = "List.filter (\<lambda>item. strict_eq (dot item ''strategyId'') sid) lg"
  have "filter_throws (same_day d now) ?mine = Inr (List.filter (\<lambda>r. dayKey (dot r ''timestamp'') = Inr d) ?mine)"
  proof (rule filter_throws_total)
    fix r
    assume "r \<in> set ?mine"
    then have "truthy (dot r ''timestamp'')" "\<not> isl (dayKey (dot r ''timestamp''))"
      using assms(1) by (auto simp: list_all_iff dated_def)
    then show "same_day d now r = Inr (dayKey (dot r ''timestamp'') = Inr d)"
      by (cases "dayKey (dot r ''timestamp'')") (auto simp: same_day_def record_when_def)
  qed
  moreover have "List.filter (\<lambda>r. dayKey (dot r ''timestamp'') = Inr d) ?mine = day_log sid d lg"
    by (auto simp: day_log_def logged_on_def intro!: filter_cong)
  ultimately show ?thesis
    using assms(2) that
    by (simp add: buildStrategyCapState_def Let_def volume_counted dedupeRecords_def best_of_def day_volume_def)
qed

section \<open>What the signer writes of an intent\<close>

text \<open>An intent as a JSON line brings it: what JSON keeps of it is all of it.\<close>

definition wire_intent :: "jsv \<Rightarrow> bool" where
  "wire_intent intent \<longleftrightarrow> (case intent of
     JObj fs \<Rightarrow> json_kept (JObj fs) = JObj fs \<and> distinct (List.map fst fs) | _ \<Rightarrow> False)"

definition signed_record :: "jsv \<Rightarrow> jsv \<Rightarrow> jsv \<Rightarrow> jsv \<Rightarrow> jsv" where
  "signed_record intent txHash signer observedAt = json_kept (buildSignerAuditRecord intent (JStr ''approved'')
     (JObj [(''stage'', JStr ''signed''), (''txHash'', txHash), (''signer'', orelse signer JNull)])
     JUndef JUndef JUndef observedAt)"

definition broadcasted_record :: "jsv \<Rightarrow> jsv \<Rightarrow> jsv \<Rightarrow> jsv \<Rightarrow> jsv \<Rightarrow> jsv" where
  "broadcasted_record intent txHash signer broadcast observedAt = json_kept (buildSignerAuditRecord intent (JStr ''approved'')
     (JObj [(''stage'', JStr ''broadcasted''), (''txHash'', txHash), (''signer'', orelse signer JNull)])
     broadcast JUndef JUndef observedAt)"

section \<open>A day of the signer\<close>

text \<open>
  Whether a broadcasted record is the one its check paid for: the check saw the amount that is
  logged (the cold-start clamp may have shown it a smaller one), the intent is no emergency unwind
  and its amount is a number, its key is new today, and nothing of the strategy's day was logged
  between the check and the broadcast but its own record of the signature.
\<close>

definition paid_for :: "jsv \<Rightarrow> jsv \<Rightarrow> jsv list \<Rightarrow> jsv list \<Rightarrow> jsv \<Rightarrow> bool" where
  "paid_for intent effective before current rec \<longleftrightarrow>
     \<not> isEmergencyCapIntent intent \<and> \<not> isEmergencyCapIntent effective
     \<and> is_fin (intentCapAmountUsd intent) \<and> intentCapAmountUsd effective = intentCapAmountUsd intent
     \<and> map_of (best_of before) (capRecordKey rec) = None
     \<and> (current = before \<or> (\<exists>s. current = before @ [s] \<and> capRecordKey s = capRecordKey rec \<and> \<not> successfulBroadcast s))"

text \<open>Whether a record counts for no more than what it replaces.\<close>

definition adds_nothing :: "jsv list \<Rightarrow> jsv \<Rightarrow> bool" where
  "adds_nothing lg rec \<longleftrightarrow>
     jle (counted rec) (case map_of (best_of lg) (capRecordKey rec) of None \<Rightarrow> Fin 0 | Some old \<Rightarrow> counted old)"

text \<open>
  The log, the checks that allowed an intent so far (the intent, what the check saw of it, and the
  strategy's day then), and whether every record so far was paid for or added nothing. Several
  intents may be between their check and their broadcast; any record may be appended at any time.
\<close>

inductive signer_day :: "jsv \<Rightarrow> jsv \<Rightarrow> string \<Rightarrow> jsv list \<Rightarrow> (jsv \<times> jsv \<times> jsv list) list \<Rightarrow> bool \<Rightarrow> bool"
  for sid c d where
  start: "list_all (dated sid) lg \<Longrightarrow> day_log sid d lg = [] \<Longrightarrow> signer_day sid c d lg [] True"
| check: "signer_day sid c d lg allowed ok \<Longrightarrow> wire_intent intent \<Longrightarrow>
    dot intent ''strategyId'' = sid \<Longrightarrow> dot effective ''strategyId'' = sid \<Longrightarrow> dayKey now = Inr d \<Longrightarrow>
    evaluateCapCheck effective c lg budget pol now = Inr r \<Longrightarrow> pr_decision r = ALLOW \<Longrightarrow>
    signer_day sid c d lg ((intent, effective, day_log sid d lg) # allowed) ok"
| broadcast: "signer_day sid c d lg allowed ok \<Longrightarrow> (intent, effective, before) \<in> set allowed \<Longrightarrow>
    rec = broadcasted_record intent txHash signer answer observedAt \<Longrightarrow> dated sid rec \<Longrightarrow>
    signer_day sid c d (lg @ [rec]) allowed
      (ok \<and> (logged_on sid d rec \<longrightarrow> paid_for intent effective before (day_log sid d lg) rec))"
| other: "signer_day sid c d lg allowed ok \<Longrightarrow> dated sid rec \<Longrightarrow>
    signer_day sid c d (lg @ [rec]) allowed
      (ok \<and> (logged_on sid d rec \<longrightarrow> adds_nothing (day_log sid d lg) rec))"

lemma day_dated: "signer_day sid c d lg allowed ok \<Longrightarrow> list_all (dated sid) lg"
  by (induction rule: signer_day.induct) auto

section \<open>The record of a broadcast counts what was checked\<close>

definition kept_field :: "jsv \<Rightarrow> jsv" where
  "kept_field v = (if v = JUndef then JUndef else json_kept v)"

lemma dot_kept: "distinct (List.map fst fs) \<Longrightarrow> dot (json_kept (JObj fs)) k = kept_field (fld fs k)"
  unfolding kept_field_def by (rule dot_json_kept)

lemma wire_dot: "wire_intent intent \<Longrightarrow> kept_field (dot intent k) = dot intent k"
proof -
  assume "wire_intent intent"
  then obtain fs where fs: "intent = JObj fs" "json_kept (JObj fs) = JObj fs" "distinct (List.map fst fs)"
    by (auto simp: wire_intent_def split: jsv.splits)
  from dot_kept [OF fs(3), of k] show ?thesis unfolding fs(2) by (simp add: fs(1))
qed

lemma falsy_dot: "\<not> truthy v \<Longrightarrow> k \<noteq> ''length'' \<Longrightarrow> dot v k = JUndef"
  by (cases v) auto

text \<open>The fields of a record of the signer that the cap check reads.\<close>

lemma audit_record_fields:
  assumes "wire_intent intent"
    and rec: "rec = json_kept (buildSignerAuditRecord intent verdict lifecycle broadcast realized error observedAt)"
  shows "dot rec ''strategyId'' = dot intent ''strategyId''" "dot rec ''intentId'' = dot intent ''intentId''"
    "dot rec ''amountUsd'' = dot intent ''amountUsd''" "dots rec [''intent'', ''amountUsd''] = dot intent ''amountUsd''"
    "dots rec [''intent'', ''intentType''] = dot intent ''intentType''"
    "dots rec [''intent'', ''executionReason''] = JUndef" "dots rec [''intent'', ''strategyId''] = JUndef"
    "dots rec [''intent'', ''intentId''] = JUndef"
    "dots rec [''intent'', ''metadata'', ''capCheckAmountUsd''] = dots intent [''metadata'', ''capCheckAmountUsd'']"
    "dot rec ''policyVerdict'' = kept_field verdict" "dot rec ''lifecycle'' = kept_field lifecycle"
    "dot rec ''broadcast'' = kept_field (default_to JNull broadcast)" "dot rec ''timestamp'' = kept_field observedAt"
proof -
  define inner where "inner = [(''intentType'', dot intent ''intentType''), (''amountUsd'', dot intent ''amountUsd''),
    (''mode'', dot intent ''mode''), (''metadata'', orelse (dot intent ''metadata'') JNull)]
    @ (if truthy (dot intent ''approval'') then [(''approval'', dot intent ''approval'')] else [])"
  have di: "distinct (List.map fst inner)" by (simp add: inner_def)
  have top: "dot rec k = kept_field (fld (fields_of (buildSignerAuditRecord intent verdict lifecycle broadcast realized error observedAt)) k)" for k
    unfolding rec buildSignerAuditRecord_def by (subst dot_kept) simp_all
  note fields = top [unfolded buildSignerAuditRecord_def fields_of.simps, folded inner_def]
  show "dot rec ''strategyId'' = dot intent ''strategyId''" "dot rec ''intentId'' = dot intent ''intentId''"
    "dot rec ''amountUsd'' = dot intent ''amountUsd''"
    "dot rec ''policyVerdict'' = kept_field verdict" "dot rec ''lifecycle'' = kept_field lifecycle"
    "dot rec ''broadcast'' = kept_field (default_to JNull broadcast)" "dot rec ''timestamp'' = kept_field observedAt"
    by (simp_all add: fields wire_dot [OF assms(1)])
  have "dot rec ''intent'' = json_kept (JObj inner)" by (simp add: fields kept_field_def)
  then have inner: "dots rec (''intent'' # k # ks) = foldl dot (kept_field (fld inner k)) ks" for k ks
    unfolding dots_def by (simp only: foldl_Cons dot_kept [OF di])
  show "dots rec [''intent'', ''amountUsd''] = dot intent ''amountUsd''"
    "dots rec [''intent'', ''intentType''] = dot intent ''intentType''"
    unfolding inner by (simp_all add: inner_def wire_dot [OF assms(1)])
  show "dots rec [''intent'', ''executionReason''] = JUndef" "dots rec [''intent'', ''strategyId''] = JUndef"
    "dots rec [''intent'', ''intentId''] = JUndef"
    unfolding inner by (simp_all add: inner_def kept_field_def fld_def)
  have "kept_field (orelse (dot intent ''metadata'') JNull) = orelse (dot intent ''metadata'') JNull"
    using wire_dot [OF assms(1), of "''metadata''"] by (auto simp: orelse_def kept_field_def)
  then show "dots rec [''intent'', ''metadata'', ''capCheckAmountUsd''] = dots intent [''metadata'', ''capCheckAmountUsd'']"
    unfolding inner by (simp add: inner_def dots_def orelse_def falsy_dot)
qed

text \<open>The amounts the record counts, and whether it counts at all.\<close>

lemma legacy_cap_cong:
  assumes "reason \<noteq> JStr ''risk_unwind''" "str_of_or_empty intentId = str_of_or_empty intentId'"
    "\<forall>s. (strategyId = JStr s) = (strategyId' = JStr s)"
  shows "legacyCapAmountUsd strategyId intentId intentType JUndef amountUsd
    = legacyCapAmountUsd strategyId' intentId' intentType reason amountUsd"
  using assms by (simp add: legacyCapAmountUsd_def)

lemma recorded_amount:
  assumes "wire_intent intent" "\<not> isEmergencyCapIntent intent"
    and rec: "rec = json_kept (buildSignerAuditRecord intent verdict lifecycle broadcast realized error observedAt)"
  shows "recordAmountUsd rec = intentCapAmountUsd intent"
proof -
  note f = audit_record_fields [OF assms(1) rec]
  have inner: "dot (dot rec ''intent'') k = dots rec [''intent'', k]" for k by (simp add: dots_def)
  have deep: "dots (dot rec ''intent'') [''metadata'', ''capCheckAmountUsd'']
      = dots rec [''intent'', ''metadata'', ''capCheckAmountUsd'']" by (simp add: dots_def)
  have "dot intent ''executionReason'' \<noteq> JStr ''risk_unwind''"
    using assms(2) by (simp add: isEmergencyCapIntent_def)
  then have legacy: "legacyCapAmountUsd (coal (dot intent ''strategyId'') JUndef) (coal (dot intent ''intentId'') JUndef)
      (dot intent ''intentType'') JUndef a = legacyCapAmountUsd (dot intent ''strategyId'') (dot intent ''intentId'')
      (dot intent ''intentType'') (dot intent ''executionReason'') a" for a
    by (rule legacy_cap_cong) (cases "dot intent ''intentId''"; cases "dot intent ''strategyId''";
        simp add: coal_def str_of_or_empty_def orelse_def)+
  have coal: "coal v v = v" for v by (simp add: coal_def)
  show ?thesis
    unfolding recordAmountUsd_def intentCapAmountUsd_def Let_def deep inner f legacy coal ..
qed

lemma broadcasted_counts:
  assumes "wire_intent intent" "\<not> isEmergencyCapIntent intent" "is_fin (intentCapAmountUsd intent)"
  shows "counted (broadcasted_record intent txHash signer answer observedAt) = intentCapAmountUsd intent"
proof -
  let ?rec = "broadcasted_record intent txHash signer answer observedAt"
  note f = audit_record_fields [OF assms(1) broadcasted_record_def]
  have "dots ?rec [''lifecycle'', ''stage''] = JStr ''broadcasted''"
    unfolding dots_def foldl_Cons foldl_Nil f by (simp add: kept_field_def)
  then have "successfulBroadcast ?rec" by (simp add: successfulBroadcast_def Let_def f kept_field_def)
  then show ?thesis
    using assms(3) recorded_amount [OF assms(1,2) broadcasted_record_def] by (simp add: counted_def)
qed

lemma signed_counts_nothing:
  assumes "wire_intent intent"
  shows "\<not> successfulBroadcast (signed_record intent txHash signer observedAt)"
proof -
  let ?rec = "signed_record intent txHash signer observedAt"
  note f = audit_record_fields [OF assms signed_record_def]
  have "dots ?rec [''lifecycle'', ''stage''] = JStr ''signed''" "dot ?rec ''broadcast'' = JNull"
    unfolding dots_def foldl_Cons foldl_Nil f by (simp_all add: kept_field_def default_to_def)
  then show ?thesis by (simp add: successfulBroadcast_def Let_def)
qed

section \<open>The volume of the day\<close>

lemma day_volume_adds_nothing:
  assumes "adds_nothing lg rec"
  shows "jle (day_volume (lg @ [rec])) (day_volume lg)"
proof (cases "map_of (best_of lg) (capRecordKey rec)")
  case None
  have fin: "day_volume lg \<noteq> NaN" unfolding day_volume_def by (rule jsum_not_nan) (simp add: list_all_iff)
  have "jle (jadd (day_volume lg) (counted rec)) (jadd (day_volume lg) (Fin 0))"
    using assms None fin is_fin_counted [of rec]
    by (cases "day_volume lg"; cases "counted rec") (auto simp: adds_nothing_def simp del: is_fin_counted intro!: rnd_mono)
  moreover have "jadd (day_volume lg) (Fin 0) = day_volume lg" by (simp add: day_volume_def jadd_0_right)
  ultimately show ?thesis by (simp add: day_volume_fresh [OF None])
next
  case (Some old)
  then show ?thesis using assms day_volume_replace by (simp add: adds_nothing_def)
qed

lemma update_last:
  "map_of g k = None \<Longrightarrow> AList.update k v (g @ [(k, u)]) = g @ [(k, v)]"
  by (induction g) (auto split: if_splits)

text \<open>A broadcast after the record of its signature, the last of the log.\<close>

lemma day_volume_after_signed:
  assumes "map_of (best_of lg) (capRecordKey rec) = None" "capRecordKey s = capRecordKey rec" "\<not> successfulBroadcast s"
  shows "day_volume (lg @ [s, rec]) = jadd (day_volume lg) (counted rec) \<or> day_volume (lg @ [s, rec]) = day_volume lg"
proof -
  have b: "best_of (lg @ [s]) = best_of lg @ [(capRecordKey rec, s)]"
    using assms(1,2) by (simp add: best_of_snoc dedupe_step_def update_fresh)
  have "best_of (lg @ [s, rec]) = best_of lg @ [(capRecordKey rec, rec)]
      \<or> best_of (lg @ [s, rec]) = best_of lg @ [(capRecordKey rec, s)]"
    using best_of_snoc [of "lg @ [s]" rec] assms(1)
    by (auto simp: b dedupe_step_def Let_def update_last map_add_def)
  moreover have "counted s = Fin 0" using assms(3) by (simp add: counted_def)
  moreover have "jadd (day_volume lg) (Fin 0) = day_volume lg" by (simp add: day_volume_def jadd_0_right)
  ultimately show ?thesis by (auto simp: day_volume_def)
qed

text \<open>The checks of a session, and the volume they bound.\<close>

definition cap_usd :: "jsv \<Rightarrow> jsnum" where
  "cap_usd c = to_num (dot (caps_of c) ''perDayUsd'')"

lemma allowed_checks:
  assumes "signer_day sid c d lg allowed ok" "c \<noteq> JUndef" "(intent, effective, before) \<in> set allowed"
    "\<not> isEmergencyCapIntent effective" "is_fin (intentCapAmountUsd effective)"
  shows "wire_intent intent \<and> jle (jadd (day_volume before) (intentCapAmountUsd effective)) (cap_usd c)"
  using assms(1,3)
proof (induction rule: signer_day.induct)
  case (check lg allowed ok intent' effective' now budget pol r)
  show ?case
  proof (cases "(intent, effective, before) \<in> set allowed")
    case False
    then have i: "intent = intent'" "effective = effective'" "before = day_log sid d lg" using check.prems by auto
    obtain st pst where st: "buildStrategyCapState sid lg now = Inr st"
      and b: "pr_blockers r = strategy_cap_blockers effective c st @ portfolio_cap_blockers effective
         (resolvePortfolioExposurePolicy budget (if pol = JUndef then JNull else pol)) pst"
        "pr_decision r = decide (pr_blockers r)"
      using evaluateCapCheck_Inr [OF check(6) assms(2)] check(4) i(2) by metis
    obtain st' where "buildStrategyCapState sid lg now = Inr st'" "cs_dailyVolumeUsd st' = day_volume before"
      using state_of_log [OF day_dated [OF check(1)] check(5)] i(3) by metis
    with st have v: "cs_dailyVolumeUsd st = day_volume before" by simp
    have "day_volume before \<noteq> NaN" unfolding day_volume_def by (rule jsum_not_nan) (simp add: list_all_iff)
    moreover have "strategy_cap_blockers effective c st = []" using b check(7) by simp
    ultimately show ?thesis
      using strategy_cap_clear(2) [of effective c st] assms(4,5) v check(2) i(1) by (simp add: cap_usd_def)
  qed (use check.IH in simp)
qed simp_all

lemma day_volume_bound:
  assumes "signer_day sid c d lg allowed ok" "c \<noteq> JUndef" "jle (Fin 0) (cap_usd c)"
  shows "ok \<longrightarrow> jle (day_volume (day_log sid d lg)) (cap_usd c)"
  using assms(1)
proof (induction rule: signer_day.induct)
  case (start lg)
  then show ?case using assms(3) by (simp add: day_volume_def best_of_def)
next
  case (broadcast lg allowed ok intent effective before rec txHash signer answer observedAt)
  show ?case
  proof
    assume "ok \<and> (logged_on sid d rec \<longrightarrow> paid_for intent effective before (day_log sid d lg) rec)"
    then have ok: ok and paid: "logged_on sid d rec \<Longrightarrow> paid_for intent effective before (day_log sid d lg) rec" by simp_all
    show "jle (day_volume (day_log sid d (lg @ [rec]))) (cap_usd c)"
    proof (cases "logged_on sid d rec")
      case False
      then show ?thesis using broadcast.IH ok by (simp add: day_log_def)
    next
      case True
      note p = paid [OF True, unfolded paid_for_def]
      have checked: "wire_intent intent" "jle (jadd (day_volume before) (intentCapAmountUsd intent)) (cap_usd c)"
        using allowed_checks [OF broadcast(1) assms(2) broadcast(2)] p by auto
      have amount: "counted rec = intentCapAmountUsd intent"
        unfolding broadcast(3) using p checked(1) by (simp add: broadcasted_counts)
      have lg: "day_log sid d (lg @ [rec]) = day_log sid d lg @ [rec]" using True by (simp add: day_log_def)
      have fresh: "map_of (best_of before) (capRecordKey rec) = None" using p by simp
      consider "day_log sid d lg = before"
        | s where "day_log sid d lg = before @ [s]" "capRecordKey s = capRecordKey rec" "\<not> successfulBroadcast s"
        using p by auto
      then show ?thesis
      proof cases
        case 1
        then show ?thesis using checked(2) fresh by (simp add: lg day_volume_fresh amount)
      next
        case 2
        have "day_volume (before @ [s]) = day_volume before"
          using day_volume_fresh [of before s] fresh 2(2,3)
          by (simp add: counted_def) (simp add: day_volume_def jadd_0_right)
        then show ?thesis
          using day_volume_after_signed [OF fresh 2(2,3)] checked(2) broadcast.IH ok by (auto simp: lg 2(1) amount)
      qed
    qed
  qed
next
  case (other lg allowed ok rec)
  show ?case
  proof (cases "logged_on sid d rec")
    case True
    then have lg: "day_log sid d (lg @ [rec]) = day_log sid d lg @ [rec]" by (simp add: day_log_def)
    show ?thesis
      unfolding lg using True other.IH jle_trans [OF day_volume_adds_nothing [of "day_log sid d lg" rec]] by blast
  qed (use other.IH in \<open>simp add: day_log_def\<close>)
qed simp


section \<open>A day\<close>

definition day_intent :: "string \<Rightarrow> int \<Rightarrow> jsv" where
  "day_intent intentId amount = JObj
     [(''strategyId'', JStr ''s''), (''intentId'', JStr intentId), (''chain'', JStr ''base''),
      (''amountUsd'', JNum (Fin (of_int amount)))]"

definition day_broadcast :: "string \<Rightarrow> int \<Rightarrow> jsv" where
  "day_broadcast intentId amount =
     broadcasted_record (day_intent intentId amount) (JStr ''0xaa'') JNull (JObj []) sample_now"

lemma day_intent_facts:
  "wire_intent (day_intent i n)" "\<not> isEmergencyCapIntent (day_intent i n)"
  "intentCapAmountUsd (day_intent i n) = Fin (of_int n)" "dot (day_intent i n) ''strategyId'' = JStr ''s''"
  "dot (day_intent i n) ''intentId'' = JStr i"
  by (simp_all add: day_intent_def wire_intent_def isEmergencyCapIntent_def intentCapAmountUsd_def Let_def
      legacyCapAmountUsd_def finite_override_def)

lemma day_record_facts:
  assumes "i \<noteq> []" and rec: "rec = json_kept (buildSignerAuditRecord (day_intent i n) verdict lifecycle broadcast realized error sample_now)"
  shows "capRecordKey rec = JStr i" "logged_on (JStr ''s'') ''2026-01-05'' rec" "dated (JStr ''s'') rec"
proof -
  note f = audit_record_fields [OF day_intent_facts(1) rec]
  have t: "dot rec ''timestamp'' = sample_now" by (simp add: f kept_field_def sample_now_def)
  show "capRecordKey rec = JStr i" using assms(1) by (simp add: capRecordKey_def f day_intent_facts)
  show "logged_on (JStr ''s'') ''2026-01-05'' rec" "dated (JStr ''s'') rec"
    by (simp_all add: logged_on_def dated_def t f day_intent_facts sample_day) (simp add: sample_now_def)
qed

lemma day_allowed:
  assumes "0 \<le> n" "n \<le> 50"
  shows "\<exists>r. evaluateCapCheck (day_intent i n) sample_caps [] JNull JNull sample_now = Inr r \<and> pr_decision r = ALLOW"
proof -
  obtain pst where "buildPortfolioExposureState [] sample_now = Inr pst"
    using empty_log_portfolio [OF sample_day] by blast
  moreover have "rnd (of_int n) = Fin (of_int n)" using assms by (intro rnd_int) simp
  moreover have "(of_int n :: rat) \<le> 50" using assms(2) of_int_le_iff [of n 50, where ?'a = rat] by simp
  ultimately show ?thesis
    by (simp add: evaluateCapCheck_def empty_log_state [OF sample_day] no_budget_policy Let_def
        portfolio_cap_blockers_def strategy_cap_blockers_def day_intent_facts)
      (simp add: sample_caps_def day_intent_def perTxCapOf_def chainCapOf_def index_def
        isTinyLiveCanaryCap_def isFiniteNumber_def over_cap_def vol_def)
qed

lemma day_checked:
  assumes "signer_day (JStr ''s'') sample_caps ''2026-01-05'' [] allowed ok" "0 \<le> n" "n \<le> 50"
  shows "signer_day (JStr ''s'') sample_caps ''2026-01-05'' [] ((day_intent i n, day_intent i n, []) # allowed) ok"
proof -
  obtain r where "evaluateCapCheck (day_intent i n) sample_caps [] JNull JNull sample_now = Inr r" "pr_decision r = ALLOW"
    using day_allowed assms(2,3) by blast
  from signer_day.check [OF assms(1) day_intent_facts(1,4,4) sample_day this] show ?thesis by (simp add: day_log_def)
qed

lemma day_started: "signer_day (JStr ''s'') sample_caps ''2026-01-05'' [] [] True"
  by (rule signer_day.start) (simp_all add: day_log_def)

lemma day_counted: "0 \<le> n \<Longrightarrow> counted (day_broadcast i n) = Fin (of_int n)"
  by (simp add: day_broadcast_def broadcasted_counts day_intent_facts)

lemma day_broadcasts:
  assumes "signer_day (JStr ''s'') sample_caps ''2026-01-05'' lg allowed ok"
    "(day_intent i n, day_intent i n, before) \<in> set allowed" "i \<noteq> []"
  shows "signer_day (JStr ''s'') sample_caps ''2026-01-05'' (lg @ [day_broadcast i n]) allowed
    (ok \<and> paid_for (day_intent i n) (day_intent i n) before (day_log (JStr ''s'') ''2026-01-05'' lg) (day_broadcast i n))"
proof -
  have "dated (JStr ''s'') (day_broadcast i n)" "logged_on (JStr ''s'') ''2026-01-05'' (day_broadcast i n)"
    unfolding day_broadcast_def by (rule day_record_facts [OF assms(3) broadcasted_record_def])+
  with signer_day.broadcast [OF assms(1,2) day_broadcast_def] show ?thesis by simp
qed

text \<open>A check, the record of the signature, the broadcast.\<close>

definition day_sample :: "jsv list" where
  "day_sample = [signed_record (day_intent ''i1'' 40) (JStr ''0xaa'') JNull sample_now, day_broadcast ''i1'' 40]"

lemma day_sample_run:
  "signer_day (JStr ''s'') sample_caps ''2026-01-05'' day_sample
     [(day_intent ''i1'' 40, day_intent ''i1'' 40, [])] True"
proof -
  let ?s = "signed_record (day_intent ''i1'' 40) (JStr ''0xaa'') JNull sample_now"
  have s: "capRecordKey ?s = JStr ''i1''" "logged_on (JStr ''s'') ''2026-01-05'' ?s" "dated (JStr ''s'') ?s"
    by (rule day_record_facts [OF _ signed_record_def], simp)+
  have key: "capRecordKey (day_broadcast ''i1'' 40) = JStr ''i1''"
    unfolding day_broadcast_def by (rule day_record_facts [OF _ broadcasted_record_def]) simp
  have n: "\<not> successfulBroadcast ?s" by (rule signed_counts_nothing) (rule day_intent_facts)
  then have "adds_nothing [] ?s" by (simp add: adds_nothing_def best_of_def counted_def)
  then have 1: "signer_day (JStr ''s'') sample_caps ''2026-01-05'' [?s] [(day_intent ''i1'' 40, day_intent ''i1'' 40, [])] True"
    using signer_day.other [OF day_checked [OF day_started, of 40 "''i1''"] s(3)]
    by (simp add: day_log_def)
  have "paid_for (day_intent ''i1'' 40) (day_intent ''i1'' 40) [] [?s] (day_broadcast ''i1'' 40)"
    using n by (simp add: paid_for_def day_intent_facts s key best_of_def)
  then show ?thesis
    using day_broadcasts [OF 1, of "''i1''" 40 "[]"] s(2) by (simp add: day_sample_def day_log_def)
qed


text \<open>Two intents checked before either is logged: both pass, and the day is above its cap.\<close>

lemma raced_checks_exceed_cap:
  "\<exists>allowed ok. signer_day (JStr ''s'') sample_caps ''2026-01-05'' [day_broadcast ''i1'' 50, day_broadcast ''i2'' 50] allowed ok
     \<and> (\<exists>st. buildStrategyCapState (JStr ''s'') [day_broadcast ''i1'' 50, day_broadcast ''i2'' 50] sample_now = Inr st
          \<and> cs_dailyVolumeUsd st = Fin 100)
     \<and> to_num (dot (caps_of sample_caps) ''perDayUsd'') = Fin 80"
proof -
  let ?i = "day_intent ''i1'' 50" and ?j = "day_intent ''i2'' 50"
  note b = day_record_facts [OF _ broadcasted_record_def]
  have 0: "signer_day (JStr ''s'') sample_caps ''2026-01-05'' [] [(?j, ?j, []), (?i, ?i, [])] True"
    by (rule day_checked [OF day_checked [OF day_started]]) simp_all
  obtain ok where 1: "signer_day (JStr ''s'') sample_caps ''2026-01-05'' [day_broadcast ''i1'' 50] [(?j, ?j, []), (?i, ?i, [])] ok"
    using day_broadcasts [OF 0, of "''i1''" 50 "[]"] by auto
  obtain ok' where 2: "signer_day (JStr ''s'') sample_caps ''2026-01-05'' [day_broadcast ''i1'' 50, day_broadcast ''i2'' 50]
      [(?j, ?j, []), (?i, ?i, [])] ok'"
    using day_broadcasts [OF 1, of "''i2''" 50 "[]"] by auto
  have keys: "capRecordKey (day_broadcast ''i1'' 50) = JStr ''i1''" "capRecordKey (day_broadcast ''i2'' 50) = JStr ''i2''"
    by (simp_all add: day_broadcast_def b)
  have "day_volume [day_broadcast ''i1'' 50] = Fin 50"
    using day_volume_fresh [of "[]" "day_broadcast ''i1'' 50"]
    by (simp add: best_of_def day_counted) (simp add: day_volume_def best_of_def rnd_numeral)
  moreover have "map_of (best_of [day_broadcast ''i1'' 50]) (JStr ''i2'') = None"
    by (simp add: best_of_def dedupe_step_def keys)
  ultimately have v: "day_volume [day_broadcast ''i1'' 50, day_broadcast ''i2'' 50] = Fin 100"
    using day_volume_fresh [of "[day_broadcast ''i1'' 50]" "day_broadcast ''i2'' 50"]
    by (simp add: keys day_counted rnd_numeral)
  have "day_log (JStr ''s'') ''2026-01-05'' [day_broadcast ''i1'' 50, day_broadcast ''i2'' 50]
      = [day_broadcast ''i1'' 50, day_broadcast ''i2'' 50]"
    by (simp add: day_log_def day_broadcast_def b(2))
  with v state_of_log [OF day_dated [OF 2] sample_day] have
    "\<exists>st. buildStrategyCapState (JStr ''s'') [day_broadcast ''i1'' 50, day_broadcast ''i2'' 50] sample_now = Inr st
       \<and> cs_dailyVolumeUsd st = Fin 100" by metis
  moreover have "to_num (dot (caps_of sample_caps) ''perDayUsd'') = Fin 80" by (simp add: sample_caps_def caps_of_def)
  ultimately show ?thesis using 2 by blast
qed

text \<open>Two broadcasts under one intent id: the day counts one of them.\<close>

lemma reused_intent_id_counts_once:
  "day_volume [day_broadcast ''i1'' 50, day_broadcast ''i1'' 40] \<in> {Fin 40, Fin 50}"
proof -
  note b = day_record_facts [OF _ broadcasted_record_def]
  have keys: "capRecordKey (day_broadcast ''i1'' n) = JStr ''i1''" for n
    by (simp add: day_broadcast_def b)
  have "best_of [day_broadcast ''i1'' 50, day_broadcast ''i1'' 40] \<in>
      {[(JStr ''i1'', day_broadcast ''i1'' 40)], [(JStr ''i1'', day_broadcast ''i1'' 50)]}"
    by (simp add: best_of_def dedupe_step_def Let_def keys)
  then show ?thesis by (auto simp: day_volume_def day_counted jsum_def rnd_numeral)
qed

end
