(* ===== verification/EvCost.thy ===== *)
theory EvCost
  imports PolicyCore PolicyConfig
begin

text \<open>
  The cost side of the expected-value gate: the cost policies of src/src/config/sizing.mjs, the
  gas margin floor of src/src/risk/ev-margin-floor.mjs, and the model of observed costs that
  src/src/executor/policy/ev-gate.mjs builds from receipts and audit records.

  The clock behind Date.now() and the collation behind localeCompare, which only orders the
  model's entries, come from the environment and are fields of a parameter.
\<close>

record js_env =
  env_now :: jsnum
  env_localeCompare :: "string \<Rightarrow> string \<Rightarrow> jsnum"

section \<open>config/sizing.mjs\<close>

definition finitePositive :: "jsv \<Rightarrow> jsnum option" where
  "finitePositive value =
     (let parsed = to_num value in if is_fin parsed \<and> jlt (Fin 0) parsed then Some parsed else None)"

definition chain_key :: "jsv \<Rightarrow> string" where
  "chain_key chain = lowercase (trim (to_str (orelse chain (JStr []))))"

definition num_or :: "jsnum option \<Rightarrow> jsv \<Rightarrow> jsv" where
  "num_or n dflt = (case n of Some x \<Rightarrow> JNum x | None \<Rightarrow> dflt)"

definition resolveTinyCanaryExpectedHoldDays ::
    "jsv \<Rightarrow> jsv \<Rightarrow> jsv \<Rightarrow> jsv \<Rightarrow> jsv \<Rightarrow> jsv" where
  "resolveTinyCanaryExpectedHoldDays expectedHoldDays campaignRemainingHours campaignEndsAt now
       fallbackDays =
     (case finitePositive expectedHoldDays of
        Some d \<Rightarrow> JNum d
      | None \<Rightarrow> (case finitePositive campaignRemainingHours of
          Some h \<Rightarrow> JNum (jdiv h (Fin 24))
        | None \<Rightarrow>
            let remainingMs = jsub (date_of campaignEndsAt) (date_of now)
            in if truthy campaignEndsAt \<and> is_fin remainingMs \<and> jlt (Fin 0) remainingMs
               then JNum (jdiv remainingMs (jint 86400000))
               else if fallbackDays = JUndef then dot TINY_CANARY_COST_POLICY ''fallbackHoldDays''
               else fallbackDays))"

definition tinyCanarySameChainRoundTripCostUsd :: "jsv \<Rightarrow> jsv \<Rightarrow> jsv \<Rightarrow> jsv" where
  "tinyCanarySameChainRoundTripCostUsd chain estimatedGasCostUsd policy =
     (case finitePositive estimatedGasCostUsd of
        Some explicitCost \<Rightarrow> JNum explicitCost
      | None \<Rightarrow> num_or (finitePositive
            (dot (dot policy ''sameChainRoundTripCostUsdByChain'') (chain_key chain)))
          (dot policy ''defaultSameChainRoundTripCostUsd''))"

definition executionEvFallbackCostUsd :: "jsv \<Rightarrow> jsv \<Rightarrow> jsv" where
  "executionEvFallbackCostUsd chain policy =
     num_or (finitePositive (dot (dot policy ''p99CostUsdByChain'') (chain_key chain)))
       (dot policy ''defaultP99CostUsd'')"

definition usable :: "jsv \<Rightarrow> bool" where
  "usable v \<longleftrightarrow> is_finite v \<and> vlt (JNum (Fin 0)) v"

definition computeMinProfitablePositionUsd :: "jsv \<Rightarrow> jsv \<Rightarrow> jsv \<Rightarrow> jsv \<Rightarrow> jsnum option" where
  "computeMinProfitablePositionUsd roundTripCostUsd postedAprDecimal expectedHoldYearFraction safetyFactor =
     (if \<not> usable roundTripCostUsd \<or> \<not> usable postedAprDecimal \<or> \<not> usable expectedHoldYearFraction
         \<or> \<not> usable safetyFactor then None
      else
        let denominator = jmul (jmul (to_num postedAprDecimal) (to_num expectedHoldYearFraction))
              (to_num safetyFactor)
        in if jle denominator (Fin 0) then None
           else Some (jdiv (to_num roundTripCostUsd) denominator))"

definition computeTinyCanaryMinProfitablePositionUsd ::
    "jsv \<Rightarrow> jsv \<Rightarrow> jsv \<Rightarrow> jsv \<Rightarrow> jsv \<Rightarrow> jsv \<Rightarrow> jsnum option" where
  "computeTinyCanaryMinProfitablePositionUsd chain aprPct aprDecimal expectedHoldDays
       estimatedGasCostUsd policy =
     (let aprPctValue = finitePositive aprPct;
          postedAprDecimal = (case finitePositive aprDecimal of
              Some a \<Rightarrow> JNum a
            | None \<Rightarrow> num_or_null (map_option (\<lambda>p. jdiv p (Fin 100)) aprPctValue));
          holdDays = finitePositive expectedHoldDays
      in computeMinProfitablePositionUsd
           (tinyCanarySameChainRoundTripCostUsd chain estimatedGasCostUsd policy) postedAprDecimal
           (num_or_null (map_option (\<lambda>d. jdiv d (Fin 365)) holdDays))
           (if dot policy ''safetyFactor'' = JUndef then JNum (lit 1 2) else dot policy ''safetyFactor''))"

section \<open>risk/ev-margin-floor.mjs\<close>

definition evMarginFloorPolicy :: "jsv \<Rightarrow> jsv" where
  "evMarginFloorPolicy overrides =
     (let merged = (\<lambda>k. JObj (spread (fields_of (dot EV_MARGIN_FLOOR_POLICY k))
            (fields_of (orelse (dot overrides k) (JObj [])))))
      in JObj (spread (spread (fields_of EV_MARGIN_FLOOR_POLICY) (fields_of overrides))
        [(''minRatioByChain'', merged ''minRatioByChain''),
         (''minRatioByRoute'', merged ''minRatioByRoute'')]))"

definition floor_key :: "jsv \<Rightarrow> string option" where
  "floor_key value = (if nullish value then None else Some (lowercase (trim (to_str value))))"

definition table_entry :: "jsv \<Rightarrow> string option \<Rightarrow> jsv" where
  "table_entry table key =
     (case key of Some (c # s) \<Rightarrow> dot table (c # s) | _ \<Rightarrow> JNull)"

text \<open>\<open>finite(a) ?? finite(b) ?? finite(c) ?? default\<close>: an absent key asks \<open>finite(null)\<close>.\<close>

definition marginThreshold :: "jsv \<Rightarrow> string option \<Rightarrow> string option \<Rightarrow> jsv" where
  "marginThreshold policy routeKey chainKey =
     (case firstFinite [table_entry (dot policy ''minRatioByRoute'') routeKey,
             table_entry (dot policy ''minRatioByChain'') chainKey,
             dot policy ''defaultMinRatio''] of
        Some t \<Rightarrow> JNum t
      | None \<Rightarrow> dot EV_MARGIN_FLOOR_POLICY ''defaultMinRatio'')"

record margin_floor =
  mf_allow :: bool
  mf_ratio :: "jsnum option"
  mf_threshold :: jsv
  mf_reason :: "string option"
  mf_extra :: fields

definition evaluateEvMarginFloor :: "jsv \<Rightarrow> jsv \<Rightarrow> jsv \<Rightarrow> jsv \<Rightarrow> jsv \<Rightarrow> margin_floor" where
  "evaluateEvMarginFloor expectedNetPnlUsd gasEstimateUsd chain route policyArg =
     (let policy = (if policyArg = JUndef then EV_MARGIN_FLOOR_POLICY else policyArg)
      in if dot policy ''enabled'' = JBool False
         then \<lparr>mf_allow = True, mf_ratio = None, mf_threshold = JNull, mf_reason = None,
               mf_extra = [(''disabled'', JBool True)]\<rparr>
         else
           let chainKey = floor_key chain; routeKey = floor_key route;
               threshold = marginThreshold policy routeKey chainKey
           in case (finiteNumber expectedNetPnlUsd, finiteNumber gasEstimateUsd) of
               (Some expected, Some gas) \<Rightarrow>
                 if \<not> jlt (Fin 0) gas
                 then \<lparr>mf_allow = True, mf_ratio = None, mf_threshold = threshold, mf_reason = None,
                       mf_extra = [(''skipped'', JStr ''missing_positive_gas_estimate'')]\<rparr>
                 else
                   let ratio = jdiv expected gas;
                       allow = jlt (Fin 0) expected \<and> vlt threshold (JNum ratio)
                   in \<lparr>mf_allow = allow, mf_ratio = Some ratio, mf_threshold = threshold,
                       mf_reason = (if allow then None else Some ''ev_below_gas_margin_floor''),
                       mf_extra =
                         [(''expectedNetPnlUsd'', JNum expected),
                          (''gasEstimateUsd'', JNum gas),
                          (''chain'', str_or_null chainKey),
                          (''route'', str_or_null routeKey)]\<rparr>
             | _ \<Rightarrow> \<lparr>mf_allow = True, mf_ratio = None, mf_threshold = threshold, mf_reason = None,
                    mf_extra = [(''skipped'', JStr ''missing_positive_gas_estimate'')]\<rparr>)"

definition margin_obj :: "margin_floor \<Rightarrow> jsv" where
  "margin_obj m = JObj
     ([(''allow'', JBool (mf_allow m)), (''ratio'', num_or_null (mf_ratio m)),
       (''threshold'', mf_threshold m), (''reason'', str_or_null (mf_reason m))] @ mf_extra m)"

section \<open>The cost model of executor/policy/ev-gate.mjs\<close>

definition normalizeString :: "jsv \<Rightarrow> string option" where
  "normalizeString value =
     (case value of JStr s \<Rightarrow> (let n = trim s in if n = [] then None else Some n) | _ \<Rightarrow> None)"

definition normalizeLower :: "jsv \<Rightarrow> string option" where
  "normalizeLower value = map_option lowercase (normalizeString value)"

definition time_or_none :: "jsv \<Rightarrow> jsnum option" where
  "time_or_none value = (let t = date_of value in if is_fin t then Some t else None)"

definition observedAtForRecord :: "jsv \<Rightarrow> jsv" where
  "observedAtForRecord record = first_truthy [dot record ''observedAt'', dot record ''timestamp'', JNull]"

definition name_or_unknown :: "string option \<Rightarrow> string" where
  "name_or_unknown n = (case n of Some s \<Rightarrow> s | None \<Rightarrow> ''unknown'')"

definition evCostKey :: "jsv \<Rightarrow> jsv \<Rightarrow> jsv \<Rightarrow> string" where
  "evCostKey strategyId chain intentType =
     name_or_unknown (normalizeString strategyId) @ '':''
       @ name_or_unknown (normalizeLower chain) @ '':''
       @ name_or_unknown (normalizeString intentType)"

definition ascending :: "jsnum \<Rightarrow> jsnum \<Rightarrow> jsnum" where
  "ascending left right = jsub left right"

text \<open>\<open>sorted[i]\<close>, undefined when the index is not a position of the array.\<close>

definition at_num :: "jsnum list \<Rightarrow> jsnum \<Rightarrow> jsv" where
  "at_num xs i =
     (case i of
        Fin x \<Rightarrow> if of_int \<lfloor>x\<rfloor> = x \<and> 0 \<le> x \<and> nat \<lfloor>x\<rfloor> < length xs then JNum (xs ! nat \<lfloor>x\<rfloor>) else JUndef
      | _ \<Rightarrow> JUndef)"

definition len_num :: "'a list \<Rightarrow> jsnum" where
  "len_num xs = jint (int (length xs))"

definition quantileNearestRank :: "jsnum list \<Rightarrow> jsv \<Rightarrow> jsv" where
  "quantileNearestRank values percentileArg =
     (if values = [] then JNull
      else
        let percentile = (if percentileArg = JUndef then dot EXECUTION_EV_COST_POLICY ''costPercentile''
              else percentileArg);
            sorted = sort_by ascending values;
            rank = jmax (Fin 1) (jceil (jmul (to_num percentile) (len_num sorted)))
        in at_num sorted (jmin (jsub (len_num sorted) (Fin 1)) (jsub rank (Fin 1))))"

definition median :: "jsnum list \<Rightarrow> jsv" where
  "median values =
     (if values = [] then JNull
      else
        let sorted = sort_by ascending values; middle = length sorted div 2
        in if length sorted mod 2 = 1 then JNum (sorted ! middle)
           else JNum (jdiv (jadd (sorted ! (middle - 1)) (sorted ! middle)) (Fin 2)))"

definition txHashFromAuditRecord :: "jsv \<Rightarrow> string option" where
  "txHashFromAuditRecord record = normalizeLower (first_truthy
     [dots record [''broadcast'', ''txHash''], dots record [''realized'', ''txHash''],
      dots record [''realized'', ''receiptTxHash''], dots record [''lifecycle'', ''txHash''], JNull])"

record audit_meta =
  am_txHash :: string
  am_strategyId :: "string option"
  am_chain :: "string option"
  am_intentType :: "string option"
  am_observedAt :: jsv
  am_timestampMs :: jsnum

definition ms_or_zero :: "jsnum option \<Rightarrow> jsnum" where
  "ms_or_zero t = (case t of Some x \<Rightarrow> x | None \<Rightarrow> Fin 0)"

definition audit_candidate :: "string \<Rightarrow> jsv \<Rightarrow> audit_meta" where
  "audit_candidate txHash record =
     \<lparr>am_txHash = txHash,
      am_strategyId = normalizeString (dot record ''strategyId''),
      am_chain = normalizeLower
        (first_truthy [dot record ''chain'', dots record [''intent'', ''chain''], JNull]),
      am_intentType = normalizeString
        (first_truthy [dots record [''intent'', ''intentType''], dot record ''intentType'', JNull]),
      am_observedAt = observedAtForRecord record,
      am_timestampMs = ms_or_zero (time_or_none (observedAtForRecord record))\<rparr>"

definition buildAuditMetadataIndex :: "jsv list \<Rightarrow> (string \<times> audit_meta) list" where
  "buildAuditMetadataIndex auditRecords =
     foldl (\<lambda>idx record.
       case txHashFromAuditRecord record of
         None \<Rightarrow> idx
       | Some txHash \<Rightarrow>
           let candidate = audit_candidate txHash record
           in case map_of idx txHash of
               None \<Rightarrow> AList.update txHash candidate idx
             | Some existing \<Rightarrow>
                 if jle (am_timestampMs existing) (am_timestampMs candidate)
                 then AList.update txHash candidate idx else idx)
       [] auditRecords"

fun first_some :: "'a option list \<Rightarrow> 'a option" where
  "first_some [] = None"
| "first_some (Some x # xs) = Some x"
| "first_some (None # xs) = first_some xs"

definition pickStrategyId :: "jsv \<Rightarrow> audit_meta option \<Rightarrow> string option" where
  "pickStrategyId receiptRecord auditMetadata = first_some
     [Option.bind auditMetadata am_strategyId,
      normalizeString (dot receiptRecord ''strategyId''),
      normalizeString (dots receiptRecord [''metadata'', ''strategyId''])]"

definition pickChain :: "jsv \<Rightarrow> audit_meta option \<Rightarrow> string option" where
  "pickChain receiptRecord auditMetadata = first_some
     [Option.bind auditMetadata am_chain,
      normalizeLower (first_truthy
        [dot receiptRecord ''chain'', dots receiptRecord [''routeContext'', ''srcChain''],
         dots receiptRecord [''routeContext'', ''dstChain''], JNull])]"

record ev_sample =
  es_key :: string
  es_strategyId :: string
  es_chain :: string
  es_intentType :: string
  es_txHash :: "string option"
  es_observedAt :: jsv
  es_timestampMs :: jsnum
  es_costUsd :: jsnum
  es_estimatedNetPnlUsd :: "jsnum option"
  es_realizedNetPnlUsd :: "jsnum option"
  es_receiptKind :: "string option"

definition buildSampleFromReceipt :: "jsv \<Rightarrow> audit_meta option \<Rightarrow> ev_sample option" where
  "buildSampleFromReceipt receiptRecord auditMetadata =
     (let intentType = first_some
            [Option.bind auditMetadata am_intentType,
             normalizeString (dot receiptRecord ''intentType''),
             normalizeString (dot receiptRecord ''kind'')];
          observedAt = first_truthy [observedAtForRecord receiptRecord,
            (case auditMetadata of Some m \<Rightarrow> am_observedAt m | None \<Rightarrow> JUndef), JNull]
      in case (pickStrategyId receiptRecord auditMetadata, pickChain receiptRecord auditMetadata,
               intentType, finiteNumber (dots receiptRecord [''realized'', ''actualKnownCostUsd''])) of
          (Some strategyId, Some chain, Some intentType, Some costUsd) \<Rightarrow> Some
            \<lparr>es_key = evCostKey (JStr strategyId) (JStr chain) (JStr intentType),
             es_strategyId = strategyId,
             es_chain = chain,
             es_intentType = intentType,
             es_txHash = normalizeLower (first_truthy [dot receiptRecord ''txHash'',
               (case auditMetadata of Some m \<Rightarrow> JStr (am_txHash m) | None \<Rightarrow> JUndef), JNull]),
             es_observedAt = observedAt,
             es_timestampMs = ms_or_zero (time_or_none observedAt),
             es_costUsd = costUsd,
             es_estimatedNetPnlUsd =
               finiteNumber (dots receiptRecord [''routeContext'', ''estimatedNetPnlUsd'']),
             es_realizedNetPnlUsd =
               finiteNumber (dots receiptRecord [''realized'', ''realizedNetPnlUsd'']),
             es_receiptKind = normalizeString (dot receiptRecord ''kind'')\<rparr>
        | _ \<Rightarrow> None)"

definition withinLookback :: "jsv \<Rightarrow> jsnum \<Rightarrow> jsnum \<Rightarrow> bool" where
  "withinLookback record nowMs lookbackMs =
     (if \<not> is_fin nowMs \<or> \<not> is_fin lookbackMs then True
      else case time_or_none (observedAtForRecord record) of
          None \<Rightarrow> True
        | Some timestampMs \<Rightarrow> jle (jsub nowMs lookbackMs) timestampMs)"

text \<open>The loop over the receipts: buckets by key, and the three counters.\<close>

record cost_scan =
  sc_buckets :: "(string \<times> ev_sample list) list"
  sc_matched :: nat
  sc_considered :: nat
  sc_skipped :: nat

definition bucket_add :: "ev_sample \<Rightarrow> (string \<times> ev_sample list) list \<Rightarrow> (string \<times> ev_sample list) list" where
  "bucket_add sample buckets =
     AList.update (es_key sample)
       ((case map_of buckets (es_key sample) of Some xs \<Rightarrow> xs | None \<Rightarrow> []) @ [sample]) buckets"

definition scan_receipt ::
    "(string \<times> audit_meta) list \<Rightarrow> jsnum \<Rightarrow> jsnum \<Rightarrow> cost_scan \<Rightarrow> jsv \<Rightarrow> cost_scan" where
  "scan_receipt auditIndex nowMs lookbackMs st receiptRecord =
     (if \<not> withinLookback receiptRecord nowMs lookbackMs then st
      else
        let txHash = normalizeLower (orelse (dot receiptRecord ''txHash'') JNull);
            auditMetadata = Option.bind txHash (map_of auditIndex)
        in case buildSampleFromReceipt receiptRecord auditMetadata of
            None \<Rightarrow> st\<lparr>sc_skipped := Suc (sc_skipped st)\<rparr>
          | Some sample \<Rightarrow>
              st\<lparr>sc_considered := Suc (sc_considered st),
                 sc_matched := (if auditMetadata \<noteq> None then Suc (sc_matched st) else sc_matched st),
                 sc_buckets := bucket_add sample (sc_buckets st)\<rparr>)"

definition newest_sample :: "ev_sample \<Rightarrow> ev_sample \<Rightarrow> jsnum" where
  "newest_sample left right = jsub (es_timestampMs right) (es_timestampMs left)"

text \<open>The default order of sort: by the code units of the strings.\<close>

definition by_string :: "jsv \<Rightarrow> jsv \<Rightarrow> jsnum" where
  "by_string a b = (if str_lt (to_str a) (to_str b) then Fin (- 1)
     else if str_lt (to_str b) (to_str a) then Fin 1 else Fin 0)"

record cost_entry =
  ce_key :: string
  ce_strategyId :: string
  ce_chain :: string
  ce_intentType :: string
  ce_sampleCount :: nat
  ce_p50CostUsd :: jsv
  ce_p90CostUsd :: jsv
  ce_maxCostUsd :: jsnum
  ce_latestObservedAt :: jsv

definition cost_entry_of :: "jsv \<Rightarrow> string \<times> ev_sample list \<Rightarrow> cost_entry" where
  "cost_entry_of policy = (\<lambda>(key, samples).
     let costsUsd = List.map es_costUsd samples;
         dates = sort_by by_string (List.filter truthy (List.map es_observedAt samples));
         first = hd (sort_by newest_sample samples)
     in \<lparr>ce_key = key,
         ce_strategyId = es_strategyId first,
         ce_chain = es_chain first,
         ce_intentType = es_intentType first,
         ce_sampleCount = length samples,
         ce_p50CostUsd = median costsUsd,
         ce_p90CostUsd = quantileNearestRank costsUsd (dot policy ''costPercentile''),
         ce_maxCostUsd = foldl jmax NegInf costsUsd,
         ce_latestObservedAt = (if dates = [] then JNull else last dates)\<rparr>)"

definition by_names :: "js_env \<Rightarrow> cost_entry \<Rightarrow> cost_entry \<Rightarrow> jsnum" where
  "by_names env left right =
     (let c = env_localeCompare env;
          a = c (ce_strategyId left) (ce_strategyId right);
          b = c (ce_chain left) (ce_chain right)
      in if truthy (JNum a) then a else if truthy (JNum b) then b
         else c (ce_intentType left) (ce_intentType right))"

definition entry_obj :: "cost_entry \<Rightarrow> jsv" where
  "entry_obj e = JObj
     [(''key'', JStr (ce_key e)), (''strategyId'', JStr (ce_strategyId e)),
      (''chain'', JStr (ce_chain e)), (''intentType'', JStr (ce_intentType e)),
      (''sampleCount'', jnat (ce_sampleCount e)), (''p50CostUsd'', ce_p50CostUsd e),
      (''p90CostUsd'', ce_p90CostUsd e), (''maxCostUsd'', JNum (ce_maxCostUsd e)),
      (''latestObservedAt'', ce_latestObservedAt e)]"

text \<open>\<open>finiteNumber(policy.k) ?? EXECUTION_EV_COST_POLICY.k\<close>\<close>

definition policy_number :: "jsv \<Rightarrow> string \<Rightarrow> jsnum" where
  "policy_number policy k =
     (case finiteNumber (dot policy k) of Some x \<Rightarrow> x | None \<Rightarrow> to_num (dot EXECUTION_EV_COST_POLICY k))"

definition default_policy :: "jsv \<Rightarrow> jsv" where
  "default_policy policy = (if policy = JUndef then EXECUTION_EV_COST_POLICY else policy)"

definition buildEvCostModel :: "js_env \<Rightarrow> jsv list \<Rightarrow> jsv list \<Rightarrow> jsv \<Rightarrow> jsv \<Rightarrow> jsv" where
  "buildEvCostModel env receiptRecords auditRecords now policyArg =
     (let policy = default_policy policyArg;
          lookbackDays = policy_number policy ''lookbackDays'';
          lookbackMs = jmul (jmul (jmul (jmul lookbackDays (Fin 24)) (Fin 60)) (Fin 60)) (Fin 1000);
          nowMs = (case time_or_none now of Some t \<Rightarrow> t | None \<Rightarrow> env_now env);
          auditIndex = buildAuditMetadataIndex auditRecords;
          scan = foldl (scan_receipt auditIndex nowMs lookbackMs)
            \<lparr>sc_buckets = [], sc_matched = 0, sc_considered = 0, sc_skipped = 0\<rparr> receiptRecords;
          entries = sort_by (by_names env) (List.map (cost_entry_of policy) (sc_buckets scan))
      in JObj
        [(''schemaVersion'', JNum (Fin 1)),
         (''generatedAt'', now),
         (''lookbackDays'', JNum lookbackDays),
         (''sampleThreshold'', JNum (policy_number policy ''minSamples'')),
         (''costPercentile'', JNum (policy_number policy ''costPercentile'')),
         (''costMultiplier'', JNum (policy_number policy ''costMultiplier'')),
         (''minProfitFloorUsd'', JNum (policy_number policy ''minProfitFloorUsd'')),
         (''fallbackP99CostUsdByChain'',
           JObj (spread (fields_of (dot EXECUTION_EV_COST_POLICY ''p99CostUsdByChain''))
             (fields_of (orelse (dot policy ''p99CostUsdByChain'') (JObj []))))),
         (''summary'', JObj
           [(''receiptRecordCount'', jnat (length receiptRecords)),
            (''consideredReceiptCount'', jnat (sc_considered scan)),
            (''matchedReceiptCount'', jnat (sc_matched scan)),
            (''skippedReceiptCount'', jnat (sc_skipped scan)),
            (''keyedEntryCount'', jnat (length entries))]),
         (''entries'', JArr (List.map entry_obj entries))])"

section \<open>The scan loses nothing\<close>

definition samples_of :: "(string \<times> ev_sample list) list \<Rightarrow> nat" where
  "samples_of buckets = sum_list (List.map (\<lambda>b. length (snd b)) buckets)"

lemma samples_of_update:
  "samples_of (AList.update k xs g) + (case map_of g k of Some ys \<Rightarrow> length ys | None \<Rightarrow> 0) = samples_of g + length xs"
  by (induction g) (auto simp: samples_of_def)

lemma samples_of_bucket_add: "samples_of (bucket_add x g) = Suc (samples_of g)"
  using samples_of_update [of "es_key x" "(case map_of g (es_key x) of Some xs \<Rightarrow> xs | None \<Rightarrow> []) @ [x]" g]
  by (simp add: bucket_add_def split: option.splits)

definition keyed :: "(string \<times> ev_sample list) list \<Rightarrow> bool" where
  "keyed g \<longleftrightarrow> distinct (List.map fst g) \<and> (\<forall>(k, xs)\<in>set g. xs \<noteq> [] \<and> (\<forall>x\<in>set xs. es_key x = k))"

lemma keyed_bucket_add:
  assumes "keyed g"
  shows "keyed (bucket_add x g)"
proof -
  have d: "distinct (List.map fst (bucket_add x g))"
    using assms by (simp add: keyed_def bucket_add_def distinct_update)
  have "ys \<noteq> [] \<and> (\<forall>y\<in>set ys. es_key y = k)" if "(k, ys) \<in> set (bucket_add x g)" for k ys
  proof (cases "k = es_key x")
    case True
    have "map_of (bucket_add x g) k = Some ys" using that map_of_eq_Some_iff [OF d] by blast
    moreover have "map_of (bucket_add x g) (es_key x)
        = Some ((case map_of g (es_key x) of Some xs \<Rightarrow> xs | None \<Rightarrow> []) @ [x])"
      by (simp only: bucket_add_def update_conv fun_upd_same)
    ultimately have "ys = (case map_of g (es_key x) of Some xs \<Rightarrow> xs | None \<Rightarrow> []) @ [x]"
      using True by simp
    moreover have "zs \<noteq> [] \<and> (\<forall>z\<in>set zs. es_key z = es_key x)" if "map_of g (es_key x) = Some zs" for zs
      using assms map_of_SomeD [OF that] by (auto simp: keyed_def)
    ultimately show ?thesis using True by (cases "map_of g (es_key x)") simp_all
  next
    case False
    have "map_of (bucket_add x g) k = Some ys" using that map_of_eq_Some_iff [OF d] by blast
    with False have "map_of g k = Some ys" by (simp add: bucket_add_def update_conv)
    then show ?thesis using assms by (auto simp: keyed_def dest!: map_of_SomeD)
  qed
  then show ?thesis using d by (auto simp: keyed_def)
qed

lemma scan_receipt_keyed:
  "keyed (sc_buckets st) \<Longrightarrow> samples_of (sc_buckets st) = sc_considered st \<Longrightarrow> sc_matched st \<le> sc_considered st \<Longrightarrow>
     keyed (sc_buckets (scan_receipt ix t l st r))
     \<and> samples_of (sc_buckets (scan_receipt ix t l st r)) = sc_considered (scan_receipt ix t l st r)
     \<and> sc_matched (scan_receipt ix t l st r) \<le> sc_considered (scan_receipt ix t l st r)
     \<and> sc_considered (scan_receipt ix t l st r) + sc_skipped (scan_receipt ix t l st r)
         = sc_considered st + sc_skipped st + (if withinLookback r t l then 1 else 0)"
  by (simp add: scan_receipt_def Let_def keyed_bucket_add samples_of_bucket_add split: option.splits)

definition empty_scan :: cost_scan where
  "empty_scan = \<lparr>sc_buckets = [], sc_matched = 0, sc_considered = 0, sc_skipped = 0\<rparr>"

text \<open>The scan of the receipts sorts every receipt within the lookback into exactly one of two
  heaps: it is skipped, or it becomes one sample in the bucket of its own key; buckets have
  different keys and are never empty.\<close>

theorem cost_scan_conserves:
  fixes st :: cost_scan
  assumes "st = foldl (scan_receipt auditIndex nowMs lookbackMs) empty_scan receipts"
  shows "sc_considered st + sc_skipped st = length (List.filter (\<lambda>r. withinLookback r nowMs lookbackMs) receipts)
    \<and> sum_list (List.map (\<lambda>b. length (snd b)) (sc_buckets st)) = sc_considered st
    \<and> sc_matched st \<le> sc_considered st
    \<and> distinct (List.map fst (sc_buckets st))
    \<and> (\<forall>(k, xs)\<in>set (sc_buckets st). xs \<noteq> [] \<and> (\<forall>x\<in>set xs. es_key x = k))"
proof -
  have "keyed (sc_buckets st) \<and> samples_of (sc_buckets st) = sc_considered st \<and> sc_matched st \<le> sc_considered st
    \<and> sc_considered st + sc_skipped st = length (List.filter (\<lambda>r. withinLookback r nowMs lookbackMs) receipts)"
    unfolding assms
  proof (induction receipts rule: rev_induct)
    case Nil
    then show ?case by (simp add: empty_scan_def keyed_def samples_of_def)
  next
    case (snoc r rs)
    then show ?case using scan_receipt_keyed by simp
  qed
  then show ?thesis by (simp add: keyed_def samples_of_def)
qed

definition sample_receipt :: jsv where
  "sample_receipt = JObj [(''strategyId'', JStr ''s''), (''chain'', JStr ''base''), (''intentType'', JStr ''swap''),
     (''realized'', JObj [(''actualKnownCostUsd'', JNum (Fin 2))])]"

theorem cost_scan_conserves_witness:
  "sc_considered (foldl (scan_receipt [] (Fin 0) (Fin 1)) empty_scan [sample_receipt, JObj []])
     + sc_skipped (foldl (scan_receipt [] (Fin 0) (Fin 1)) empty_scan [sample_receipt, JObj []]) = 2"
proof -
  have "length (List.filter (\<lambda>r. withinLookback r (Fin 0) (Fin 1)) [sample_receipt, JObj []]) = 2"
    by code_simp
  with cost_scan_conserves [OF refl, of "[]" "Fin 0" "Fin 1" "[sample_receipt, JObj []]"] show ?thesis by simp
qed

end
