(* ===== verification/EvGate.thy ===== *)
theory EvGate
  imports EvCost Hashing
begin

text \<open>
  The expected-value gate of src/src/executor/policy/ev-gate.mjs and the report-only floor of
  src/src/executor/policy/ev-cost-floor.mjs. An exact approval may be admitted on the verdict of
  its parent intent, so the gate calls itself; the parent is never an approval, which is why the
  recursion ends.

  The lemmas give the decision on every branch, the numbers an approval inherits, and the
  equality of the report-only floor with the gate's.
\<close>

section \<open>Intents\<close>

definition approvalAmount :: "jsv \<Rightarrow> string option" where
  "approvalAmount value = (if nullish value then None else map_option int_str (to_bigint value))"

definition name_in :: "string list \<Rightarrow> string option \<Rightarrow> bool" where
  "name_in names n = (case n of Some s \<Rightarrow> s \<in> set names | None \<Rightarrow> False)"

definition isSafetyCriticalIntent :: "jsv \<Rightarrow> bool" where
  "isSafetyCriticalIntent intent =
     (let intentType = normalizeString (dot intent ''intentType'');
          exposureAction = normalizeString (orelse (dots intent [''metadata'', ''exposureAction''])
            (dot intent ''exposureAction''));
          shareDelta = approvalAmount (dots intent [''metadata'', ''shareDelta'']);
          pairedCanaryUnwind =
            dots intent [''metadata'', ''tinyLiveCanary''] = JBool True
            \<and> dots intent [''metadata'', ''canaryUnwind''] = JBool True
            \<and> shareDelta \<noteq> None \<and> shareDelta \<noteq> Some ''0''
            \<and> name_in [''redeem'', ''withdraw'', ''exit'', ''unwind'', ''close''] exposureAction
            \<and> name_in [''erc4626_redeem'', ''aave_withdraw'', ''compound_v2_redeem_underlying'',
                ''compound_v3_withdraw'', ''euler_evault_withdraw''] intentType
      in dot intent ''intentType'' = JStr ''emergency_unwind''
         \<or> dot intent ''executionReason'' = JStr ''risk_unwind''
         \<or> pairedCanaryUnwind
         \<or> dot intent ''intentType'' = JStr ''approve_exact''
            \<and> to_str (coal (dots intent [''approval'', ''amount'']) (JStr [])) = ''0'')"

definition TRANSPORT_PLUMBING_INTENT_TYPES :: "string list" where
  "TRANSPORT_PLUMBING_INTENT_TYPES =
     [''gateway_btc_transfer'', ''capital_rebalance'', ''capital_drain'',
      ''idle_consolidation_step'', ''gas_topup'', ''signer_health_probe'']"

definition isTransportPlumbingIntent :: "jsv \<Rightarrow> bool" where
  "isTransportPlumbingIntent intent \<longleftrightarrow>
     name_in TRANSPORT_PLUMBING_INTENT_TYPES (normalizeString (dot intent ''intentType''))
     \<or> name_in TRANSPORT_PLUMBING_INTENT_TYPES (normalizeString (dot intent ''executionReason''))
     \<or> name_in TRANSPORT_PLUMBING_INTENT_TYPES
         (normalizeString (dots intent [''metadata'', ''executionReason'']))"

definition normalizeAddress :: "jsv \<Rightarrow> string option" where
  "normalizeAddress value = (case value of JStr s \<Rightarrow> if s \<noteq> [] then Some (lowercase s) else None | _ \<Rightarrow> None)"

definition isUnlimitedApproval :: "jsv \<Rightarrow> bool" where
  "isUnlimitedApproval approval \<longleftrightarrow>
     dot approval ''isUnlimited'' = JBool True
     \<or> dot approval ''amount'' = JStr ''max'' \<or> dot approval ''mode'' = JStr ''unlimited''"

definition stableHash :: "jsv \<Rightarrow> string" where
  "stableHash value = sha256_hex (stableSerialize (if value = JUndef then JObj [] else value))"

definition hashMatches :: "jsv \<Rightarrow> jsv \<Rightarrow> bool" where
  "hashMatches claimed value =
     (case normalizeString claimed of
        None \<Rightarrow> False
      | Some normalized \<Rightarrow>
          let hash = stableHash value in normalized = hash \<or> normalized = ''sha256:'' @ hash)"

definition metadata_of :: "jsv \<Rightarrow> jsv" where
  "metadata_of intent = orelse (dot intent ''metadata'') (JObj [])"

definition parentIntentOf :: "jsv \<Rightarrow> jsv" where
  "parentIntentOf intent =
     first_truthy [dot (metadata_of intent) ''parentIntent'', dot intent ''parentIntent'', JNull]"

definition parentEvEvidenceOf :: "jsv \<Rightarrow> jsv" where
  "parentEvEvidenceOf intent =
     first_truthy [dot (metadata_of intent) ''parentEvEvidence'', dot intent ''parentEvEvidence'', JNull]"

definition parentIntentHashOf :: "jsv \<Rightarrow> jsv" where
  "parentIntentHashOf intent =
     first_truthy [dot (metadata_of intent) ''parentIntentHash'', dot intent ''parentIntentHash'',
       dot (parentIntentOf intent) ''intentHash'', JNull]"

definition parentEvEvidenceHashOf :: "jsv \<Rightarrow> jsv" where
  "parentEvEvidenceHashOf intent =
     first_truthy [dot (metadata_of intent) ''parentEvEvidenceHash'',
       dot intent ''parentEvEvidenceHash'', JNull]"

definition hasValidParentEvEvidence :: "jsv \<Rightarrow> bool" where
  "hasValidParentEvEvidence intent =
     (let parentIntent = parentIntentOf intent; parentEvEvidence = parentEvEvidenceOf intent;
          parentIntentHash = parentIntentHashOf intent;
          parentEvEvidenceHash = parentEvEvidenceHashOf intent
      in if \<not> truthy parentIntent \<or> \<not> truthy parentEvEvidence \<or> \<not> truthy parentIntentHash
            \<or> \<not> truthy parentEvEvidenceHash then False
         else if \<not> hashMatches parentIntentHash parentIntent then False
         else if \<not> hashMatches parentEvEvidenceHash parentEvEvidence then False
         else if dot parentEvEvidence ''allow'' \<noteq> JBool True then False
         else if dot parentIntent ''intentType'' = JStr ''approve_exact''
            \<or> dot parentIntent ''intentType'' = JStr ''approve_max'' then False
         else True)"

definition parentChildStrategyAndChainMatch :: "jsv \<Rightarrow> jsv \<Rightarrow> bool" where
  "parentChildStrategyAndChainMatch intent parentIntent =
     (let parentStrategyId = normalizeString (dot parentIntent ''strategyId'');
          parentChain = normalizeLower (dot parentIntent ''chain'')
      in if parentStrategyId = None \<or> parentStrategyId \<noteq> normalizeString (dot intent ''strategyId'')
         then False
         else if parentChain = None \<or> parentChain \<noteq> normalizeLower (dot intent ''chain'') then False
         else True)"

definition approvalTokensAndAmountsMatch :: "jsv \<Rightarrow> jsv \<Rightarrow> jsv \<Rightarrow> bool" where
  "approvalTokensAndAmountsMatch approval parentApproval parentIntent =
     (let token = normalizeAddress (dot approval ''token'');
          spender = normalizeAddress (dot approval ''spender'');
          parentToken = normalizeAddress (first_truthy [dot parentApproval ''token'',
            dot parentIntent ''token'', dots parentIntent [''metadata'', ''token'']]);
          parentSpender = normalizeAddress (first_truthy [dot parentApproval ''spender'',
            dot parentIntent ''spender'', dots parentIntent [''metadata'', ''spender'']])
      in if token = None \<or> spender = None \<or> token \<noteq> parentToken \<or> spender \<noteq> parentSpender then False
         else
           let amount = approvalAmount (dot approval ''amount'');
               parentAmount = approvalAmount (first_present [dot parentApproval ''amount'',
                 dot parentIntent ''amountRaw'', dots parentIntent [''metadata'', ''amountRaw'']])
           in parentAmount = None \<or> parentAmount = amount)"

section \<open>Numbers an intent declares\<close>

definition expectedNetUsdFromIntent :: "jsv \<Rightarrow> jsnum option" where
  "expectedNetUsdFromIntent intent = firstFinite
     [dot intent ''expectedNetUsd'',
      dots intent [''metadata'', ''expectedNetUsd''],
      dot intent ''expectedNetProfitUsd'',
      dots intent [''metadata'', ''expectedNetProfitUsd'']]"

definition derivedExpectedNetUsdFromIntent :: "jsv \<Rightarrow> jsnum option" where
  "derivedExpectedNetUsdFromIntent intent = firstFinite
     [dots intent [''systemEconomics'', ''effectiveSystemNetPnlUsd''],
      dots intent [''systemEconomics'', ''estimatedNetPnlUsd''],
      dots intent [''metadata'', ''systemEconomics'', ''effectiveSystemNetPnlUsd''],
      dots intent [''metadata'', ''systemEconomics'', ''estimatedNetPnlUsd''],
      dot intent ''estimatedNetPnlUsd'',
      dots intent [''metadata'', ''estimatedNetPnlUsd''],
      dots intent [''routeContext'', ''estimatedNetPnlUsd''],
      dots intent [''metadata'', ''routeContext'', ''estimatedNetPnlUsd''],
      dots intent [''quote'', ''estimatedNetPnlUsd''],
      dots intent [''quote'', ''routeContext'', ''estimatedNetPnlUsd'']]"

definition suppressDerivedExpectedNetForCapitalRebalance :: "jsv \<Rightarrow> bool" where
  "suppressDerivedExpectedNetForCapitalRebalance intent \<longleftrightarrow>
     normalizeString (orelse (dots intent [''metadata'', ''policyRevision'']) (dot intent ''policyRevision''))
       = Some ''capital_rebalance_ev_gate_v2''
     \<and> normalizeString (orelse (dot intent ''executionReason'')
         (dots intent [''metadata'', ''executionReason''])) = Some ''capital_rebalance''"

definition gasEstimateUsdFromIntent :: "jsv \<Rightarrow> jsnum option" where
  "gasEstimateUsdFromIntent intent = firstFinite
     [dot intent ''gasEstimateUsd'',
      dots intent [''metadata'', ''gasEstimateUsd''],
      dot intent ''estimatedGasUsd'',
      dots intent [''metadata'', ''estimatedGasUsd''],
      dots intent [''routeContext'', ''gasEstimateUsd''],
      dots intent [''metadata'', ''routeContext'', ''gasEstimateUsd''],
      dots intent [''quote'', ''gasEstimateUsd''],
      dots intent [''quote'', ''routeContext'', ''gasEstimateUsd'']]"

definition gateExpectedNetUsd :: "jsv \<Rightarrow> jsnum option" where
  "gateExpectedNetUsd intent =
     (case expectedNetUsdFromIntent intent of
        Some x \<Rightarrow> Some x
      | None \<Rightarrow> if suppressDerivedExpectedNetForCapitalRebalance intent then None
                else derivedExpectedNetUsdFromIntent intent)"

definition resolveEvHistoryInput :: "js_env \<Rightarrow> jsv \<Rightarrow> jsv \<Rightarrow> jsv \<Rightarrow> jsv" where
  "resolveEvHistoryInput env receiptHistory now policy =
     (if is_arr (dot receiptHistory ''entries'') then receiptHistory
      else if is_arr receiptHistory then buildEvCostModel env (elems receiptHistory) [] now policy
      else buildEvCostModel env (elems (dot receiptHistory ''receiptRecords''))
             (elems (dot receiptHistory ''auditRecords'')) now policy)"

section \<open>The gate\<close>

record ev_verdict =
  ev_allow :: bool
  ev_blockers :: "string list"
  ev_evidence :: jsv

definition who :: "jsv \<Rightarrow> fields" where
  "who intent =
     [(''strategyId'', str_or_null (normalizeString (dot intent ''strategyId''))),
      (''chain'', str_or_null (normalizeLower (dot intent ''chain''))),
      (''intentType'', str_or_null (normalizeString (dot intent ''intentType'')))]"

definition buildAllowResult :: "jsv \<Rightarrow> string \<Rightarrow> ev_verdict" where
  "buildAllowResult intent bypassReason =
     \<lparr>ev_allow = True, ev_blockers = [],
      ev_evidence = JObj (who intent @ [(''bypassReason'', JStr bypassReason)])\<rparr>"

text \<open>The cost floor: \<open>p90CostUsd * costMultiplier + effectiveMinProfitFloor\<close> and its parts.\<close>

record cost_floor =
  cf_p90CostUsd :: jsv
  cf_requiredNetUsd :: jsnum
  cf_fallbackP99CostUsd :: jsv
  cf_costSource :: string
  cf_sampleCount :: jsv
  cf_sampleThreshold :: jsnum
  cf_costMultiplier :: jsnum
  cf_minProfitFloorUsd :: jsnum
  cf_effectiveMinProfitFloor :: jsnum

definition find_entry :: "jsv \<Rightarrow> string \<Rightarrow> jsv" where
  "find_entry model key =
     (case List.find (\<lambda>item. dot item ''key'' = JStr key) (elems (dot model ''entries'')) of
        Some item \<Rightarrow> orelse item JNull | None \<Rightarrow> JNull)"

definition sufficientHistory :: "jsv \<Rightarrow> jsnum \<Rightarrow> bool" where
  "sufficientHistory entry sampleThreshold \<longleftrightarrow>
     is_finite (dot entry ''sampleCount'') \<and> vle (JNum sampleThreshold) (dot entry ''sampleCount'')"

definition isTinyLiveCanaryEv :: "jsv \<Rightarrow> bool" where
  "isTinyLiveCanaryEv intent \<longleftrightarrow>
     normalizeString (dot intent ''intentType'') = Some ''tiny_live_canary''
     \<or> dot intent ''executionReason'' = JStr ''merkl_canary_autopilot''
     \<or> dot intent ''executionReason'' = JStr ''radar_tiny_live_canary''
     \<or> dots intent [''metadata'', ''tinyLiveCanary''] = JBool True"

definition isCapitalRebalanceEv :: "jsv \<Rightarrow> bool" where
  "isCapitalRebalanceEv intent \<longleftrightarrow>
     dot intent ''executionReason'' = JStr ''capital_rebalance''
     \<or> normalizeString (dot intent ''intentType'') = Some ''capital_rebalance''
     \<or> truthy (dot intent ''metadata'') \<and> dots intent [''metadata'', ''capitalRebalance''] = JBool True"

definition gate_cost_floor :: "jsv \<Rightarrow> jsv \<Rightarrow> jsv \<Rightarrow> cost_floor" where
  "gate_cost_floor intent model policy =
     (let strategyId = str_or_null (normalizeString (dot intent ''strategyId''));
          chain = str_or_null (normalizeLower (dot intent ''chain''));
          intentType = str_or_null (normalizeString (dot intent ''intentType''));
          entry = find_entry model (evCostKey strategyId chain intentType);
          sampleThreshold = policy_number policy ''minSamples'';
          fallbackP99CostUsd = executionEvFallbackCostUsd chain policy;
          hasSufficientHistory = sufficientHistory entry sampleThreshold;
          tinyCanaryFallbackUsd =
            (if isTinyLiveCanaryEv intent
             then tinyCanarySameChainRoundTripCostUsd chain (dot intent ''estimatedGasCostUsd'')
                    TINY_CANARY_COST_POLICY
             else JNull);
          p90CostUsd = (if hasSufficientHistory then dot entry ''p90CostUsd''
            else coal tinyCanaryFallbackUsd fallbackP99CostUsd);
          costMultiplier = policy_number policy ''costMultiplier'';
          minProfitFloorUsd = policy_number policy ''minProfitFloorUsd'';
          effectiveMinProfitFloor = (if isCapitalRebalanceEv intent then lit 1 10 else minProfitFloorUsd)
      in \<lparr>cf_p90CostUsd = p90CostUsd,
          cf_requiredNetUsd = jadd (jmul (to_num p90CostUsd) costMultiplier) effectiveMinProfitFloor,
          cf_fallbackP99CostUsd = fallbackP99CostUsd,
          cf_costSource = (if hasSufficientHistory then ''history_p90''
             else if tinyCanaryFallbackUsd \<noteq> JNull then ''tiny_canary_shared_p90''
             else ''fallback_chain_p99''),
          cf_sampleCount = coal (dot entry ''sampleCount'') (JNum (Fin 0)),
          cf_sampleThreshold = sampleThreshold,
          cf_costMultiplier = costMultiplier,
          cf_minProfitFloorUsd = minProfitFloorUsd,
          cf_effectiveMinProfitFloor = effectiveMinProfitFloor\<rparr>)"

definition floor_verdict :: "jsv \<Rightarrow> jsnum \<Rightarrow> jsv \<Rightarrow> cost_floor \<Rightarrow> ev_verdict" where
  "floor_verdict intent expectedNetUsd model fl =
     (let allow = jlt (cf_requiredNetUsd fl) expectedNetUsd
      in \<lparr>ev_allow = allow,
          ev_blockers = (if allow then [] else [''expected_net_below_receipt_cost_p90_floor'']),
          ev_evidence = JObj (who intent @
            [(''expectedNetUsd'', JNum expectedNetUsd),
             (''requiredNetUsd'', JNum (cf_requiredNetUsd fl)),
             (''p90CostUsd'', cf_p90CostUsd fl),
             (''sampleCount'', cf_sampleCount fl),
             (''sampleThreshold'', JNum (cf_sampleThreshold fl)),
             (''costMultiplier'', JNum (cf_costMultiplier fl)),
             (''minProfitFloorUsd'', JNum (cf_minProfitFloorUsd fl)),
             (''effectiveMinProfitFloor'', JNum (cf_effectiveMinProfitFloor fl)),
             (''fallbackP99CostUsd'', cf_fallbackP99CostUsd fl),
             (''costSource'', JStr (cf_costSource fl)),
             (''modelGeneratedAt'', orelse (dot model ''generatedAt'') JNull),
             (''lookbackDays'', coal (dot model ''lookbackDays'') JNull)])\<rparr>)"

text \<open>The gate after the safety and approval bypasses.\<close>

definition measured_gate :: "js_env \<Rightarrow> jsv \<Rightarrow> jsv \<Rightarrow> jsv \<Rightarrow> jsv \<Rightarrow> ev_verdict" where
  "measured_gate env intent receiptHistory now policy =
     (case gateExpectedNetUsd intent of
        None \<Rightarrow>
          if isTransportPlumbingIntent intent
          then buildAllowResult intent ''transport_plumbing_zero_pnl_surface''
          else \<lparr>ev_allow = False, ev_blockers = [''expected_net_unmeasured''],
                ev_evidence = JObj (who intent @
                  [(''blockReason'', JStr ''expected_net_required_for_live_intent'')])\<rparr>
      | Some expectedNetUsd \<Rightarrow>
          let evMarginFloor = evaluateEvMarginFloor (JNum expectedNetUsd)
                (num_or_null (gasEstimateUsdFromIntent intent))
                (str_or_null (normalizeLower (dot intent ''chain'')))
                (str_or_null (normalizeString (dot intent ''intentType'')))
                (dot policy ''evMarginFloorPolicy'')
          in if \<not> mf_allow evMarginFloor
             then \<lparr>ev_allow = False, ev_blockers = [''ev_below_gas_margin_floor''],
                   ev_evidence = JObj (who intent @
                     [(''expectedNetUsd'', JNum expectedNetUsd),
                      (''evMarginFloor'', margin_obj evMarginFloor)])\<rparr>
             else
               let model = resolveEvHistoryInput env receiptHistory now policy
               in floor_verdict intent expectedNetUsd model (gate_cost_floor intent model policy))"

text \<open>
  The checks exactApprovalParentEvBypass makes before it asks for the parent's verdict: the
  parent and the two numbers claimed for it, or nothing.
\<close>

definition approvalParent :: "jsv \<Rightarrow> (jsv \<times> jsnum \<times> jsnum) option" where
  "approvalParent intent =
     (let approval = orelse (dot intent ''approval'') JNull;
          parentIntent = parentIntentOf intent;
          parentEvEvidence = parentEvEvidenceOf intent;
          parentApproval = first_truthy [dot parentIntent ''approval'',
            dots parentIntent [''metadata'', ''approval''], JObj []]
      in if dot intent ''intentType'' \<noteq> JStr ''approve_exact'' then None
         else if \<not> truthy approval \<or> isUnlimitedApproval approval then None
         else if approvalAmount (dot approval ''amount'') = None
            \<or> approvalAmount (dot approval ''amount'') = Some ''0'' then None
         else if \<not> hasValidParentEvEvidence intent then None
         else if \<not> parentChildStrategyAndChainMatch intent parentIntent then None
         else if \<not> approvalTokensAndAmountsMatch approval parentApproval parentIntent then None
         else case (finiteNumber (dot parentEvEvidence ''expectedNetUsd''),
                    finiteNumber (dot parentEvEvidence ''requiredNetUsd'')) of
             (Some expectedNetUsd, Some requiredNetUsd) \<Rightarrow>
               if jle expectedNetUsd requiredNetUsd then None
               else Some (parentIntent, expectedNetUsd, requiredNetUsd)
           | _ \<Rightarrow> None)"

definition approvalEvidence :: "jsv \<Rightarrow> jsnum \<Rightarrow> jsnum \<Rightarrow> ev_verdict \<Rightarrow> jsv option" where
  "approvalEvidence intent expectedNetUsd requiredNetUsd parentVerdict =
     (if \<not> ev_allow parentVerdict then None
      else if finiteNumber (dot (ev_evidence parentVerdict) ''expectedNetUsd'') \<noteq> Some expectedNetUsd
      then None
      else if finiteNumber (dot (ev_evidence parentVerdict) ''requiredNetUsd'') \<noteq> Some requiredNetUsd
      then None
      else Some (JObj
        [(''strategyId'', str_or_null (normalizeString (dot intent ''strategyId''))),
         (''chain'', str_or_null (normalizeLower (dot intent ''chain''))),
         (''intentType'', dot intent ''intentType''),
         (''bypassReason'', JStr ''parent_ev_approved_exact_approval''),
         (''parentIntentHash'', parentIntentHashOf intent),
         (''parentEvEvidenceHash'', parentEvEvidenceHashOf intent),
         (''parentExpectedNetUsd'', JNum expectedNetUsd),
         (''parentRequiredNetUsd'', JNum requiredNetUsd),
         (''approvalToken'', str_or_null (normalizeAddress (dots intent [''approval'', ''token'']))),
         (''approvalSpender'', str_or_null (normalizeAddress (dots intent [''approval'', ''spender''])))]))"

lemma approvalParent_types:
  assumes "approvalParent intent = Some (p, e, r)"
  shows "dot intent ''intentType'' = JStr ''approve_exact''" "dot p ''intentType'' \<noteq> JStr ''approve_exact''"
    "hasValidParentEvEvidence intent" "p = parentIntentOf intent"
  using assms
  by (auto simp: approvalParent_def Let_def hasValidParentEvEvidence_def split: if_splits option.splits)

function evGate :: "js_env \<Rightarrow> jsv \<Rightarrow> jsv \<Rightarrow> jsv \<Rightarrow> jsv \<Rightarrow> ev_verdict" where
  "evGate env intent receiptHistory now policy =
     (if isSafetyCriticalIntent intent then buildAllowResult intent ''safety_critical_intent''
      else case (case approvalParent intent of
              None \<Rightarrow> None
            | Some (parentIntent, expectedNetUsd, requiredNetUsd) \<Rightarrow>
                approvalEvidence intent expectedNetUsd requiredNetUsd
                  (evGate env parentIntent receiptHistory now policy)) of
          Some exactApprovalBypass \<Rightarrow>
            \<lparr>ev_allow = True, ev_blockers = [], ev_evidence = exactApprovalBypass\<rparr>
        | None \<Rightarrow> measured_gate env intent receiptHistory now policy)"
  by pat_completeness auto
termination
  by (relation "measure (\<lambda>(env, intent, _).
        if dot intent ''intentType'' = JStr ''approve_exact'' then 1 else 0)")
    (auto dest: approvalParent_types)

declare evGate.simps [simp del]

text \<open>Called directly, \<open>now\<close> and \<open>policy\<close> have defaults; evaluateEvGate always passes both.\<close>

definition evaluateEvGate :: "js_env \<Rightarrow> jsv \<Rightarrow> jsv \<Rightarrow> jsv \<Rightarrow> jsv \<Rightarrow> policy_result" where
  "evaluateEvGate env intent receiptHistory now policy =
     (let verdict = evGate env intent receiptHistory now (default_policy policy)
      in \<lparr>pr_policy = ''ev_gate'', pr_observedAt = now,
          pr_decision = (if ev_allow verdict then ALLOW else BLOCK),
          pr_blockers = ev_blockers verdict,
          pr_extra = [(''evidence'', ev_evidence verdict)]\<rparr>)"

section \<open>The report-only floor\<close>

definition executionEvCostFloorEvidence ::
    "jsv \<Rightarrow> jsv \<Rightarrow> jsv \<Rightarrow> bool \<Rightarrow> bool \<Rightarrow> jsv \<Rightarrow> jsv \<Rightarrow> jsv \<Rightarrow> (fields \<times> cost_floor) option" where
  "executionEvCostFloorEvidence strategyId chain intentType isCapitalRebalance isTinyLiveCanary
       estimatedGasCostUsd receiptModel policyArg =
     (let policy = default_policy policyArg
      in case (normalizeString strategyId, normalizeLower chain, normalizeString intentType) of
        (Some sid, Some ch, Some ty) \<Rightarrow>
          let entry = find_entry receiptModel (evCostKey (JStr sid) (JStr ch) (JStr ty));
              sampleThreshold = policy_number policy ''minSamples'';
              historyReady = sufficientHistory entry sampleThreshold;
              fallbackP99CostUsd = executionEvFallbackCostUsd (JStr ch) policy;
              tinyCanaryFallbackUsd =
                (if isTinyLiveCanary
                 then tinyCanarySameChainRoundTripCostUsd (JStr ch) estimatedGasCostUsd
                        TINY_CANARY_COST_POLICY
                 else JNull);
              p90CostUsd = (if historyReady then dot entry ''p90CostUsd''
                else coal tinyCanaryFallbackUsd fallbackP99CostUsd);
              costMultiplier = policy_number policy ''costMultiplier'';
              minProfitFloorUsd = policy_number policy ''minProfitFloorUsd'';
              effectiveMinProfitFloor = (if isCapitalRebalance then lit 1 10 else minProfitFloorUsd);
              fl = \<lparr>cf_p90CostUsd = p90CostUsd,
                    cf_requiredNetUsd =
                      jadd (jmul (to_num p90CostUsd) costMultiplier) effectiveMinProfitFloor,
                    cf_fallbackP99CostUsd = fallbackP99CostUsd,
                    cf_costSource = (if historyReady then ''history_p90''
                      else if tinyCanaryFallbackUsd \<noteq> JNull then ''tiny_canary_shared_p90''
                      else ''fallback_chain_p99''),
                    cf_sampleCount = coal (dot entry ''sampleCount'') (JNum (Fin 0)),
                    cf_sampleThreshold = sampleThreshold,
                    cf_costMultiplier = costMultiplier,
                    cf_minProfitFloorUsd = minProfitFloorUsd,
                    cf_effectiveMinProfitFloor = effectiveMinProfitFloor\<rparr>
          in Some ([(''strategyId'', JStr sid), (''chain'', JStr ch), (''intentType'', JStr ty),
               (''effectiveFloorUsd'', JNum (cf_requiredNetUsd fl)),
               (''modelGeneratedAt'', orelse (dot receiptModel ''generatedAt'') JNull),
               (''lookbackDays'', coal (dot receiptModel ''lookbackDays'') JNull),
               (''producer'', JStr ''src/executor/policy/ev-cost-floor.mjs#executionEvCostFloorEvidence'')],
              fl)
      | _ \<Rightarrow> None)"

section \<open>Facts\<close>

definition ev_consistent :: "ev_verdict \<Rightarrow> bool" where
  "ev_consistent v \<longleftrightarrow> (ev_allow v \<longleftrightarrow> ev_blockers v = [])"

lemma measured_gate_consistent: "ev_consistent (measured_gate env i h now p)"
  by (simp add: measured_gate_def ev_consistent_def buildAllowResult_def floor_verdict_def Let_def
      split: option.splits)

lemma evGate_consistent: "ev_consistent (evGate env i h now p)"
  unfolding evGate.simps [of env i h now p]
  using measured_gate_consistent
  by (auto simp: buildAllowResult_def ev_consistent_def split: option.splits)

interpretation ev_gate: policy_gate
  "\<lambda>(env, i, h, now, p). evaluateEvGate env i h now p" "''ev_gate''"
  using evGate_consistent
  by unfold_locales
    (auto simp: evaluateEvGate_def Let_def consistent_def ev_consistent_def split: prod.splits)

lemma approvalParent_None: "dot i ''intentType'' \<noteq> JStr ''approve_exact'' \<Longrightarrow> approvalParent i = None"
  by (simp add: approvalParent_def Let_def)

lemma evGate_measured:
  assumes "\<not> isSafetyCriticalIntent i" "dot i ''intentType'' \<noteq> JStr ''approve_exact''"
  shows "evGate env i h now p = measured_gate env i h now p"
  using assms by (simp add: evGate.simps [of env i h now p] approvalParent_None)

text \<open>An allowed verdict on an intent with a measured result passed both floors.\<close>

lemma measured_allow_iff:
  assumes "gateExpectedNetUsd i = Some e"
  shows "ev_allow (measured_gate env i h now p) \<longleftrightarrow>
    mf_allow (evaluateEvMarginFloor (JNum e) (num_or_null (gasEstimateUsdFromIntent i))
        (str_or_null (normalizeLower (dot i ''chain'')))
        (str_or_null (normalizeString (dot i ''intentType'')))
        (dot p ''evMarginFloorPolicy''))
    \<and> jlt (cf_requiredNetUsd (gate_cost_floor i (resolveEvHistoryInput env h now p) p)) e"
  by (simp add: measured_gate_def assms floor_verdict_def Let_def)

lemma trim_lowercase_nonempty: "lowercase s = [] \<longleftrightarrow> s = []"
  by (simp add: lowercase_def)

lemma default_threshold:
  assumes "routeKey = Some (c # s)" "chainKey = Some (d # t)"
  shows "marginThreshold EV_MARGIN_FLOOR_POLICY routeKey chainKey = JNum (Fin (3 / 2))"
proof -
  have "lit 15 10 = Fin (3 / 2)" by code_simp
  then show ?thesis
    by (simp add: marginThreshold_def assms table_entry_def EV_MARGIN_FLOOR_POLICY_def finiteNumber_def)
qed

lemma margin_floor_allow:
  assumes "route = JStr r" "trim r \<noteq> []" "chain = JStr ch" "trim ch \<noteq> []" "jlt (Fin 0) g" "is_fin g" "is_fin e"
  shows "mf_allow (evaluateEvMarginFloor (JNum e) (JNum g) chain route JUndef) \<longleftrightarrow>
     jlt (Fin 0) e \<and> jlt (Fin (3 / 2)) (jdiv e g)"
proof -
  obtain c s d t where k: "lowercase (trim r) = c # s" "lowercase (trim ch) = d # t"
    using assms(2,4) trim_lowercase_nonempty by (metis neq_Nil_conv)
  have en: "dot EV_MARGIN_FLOOR_POLICY ''enabled'' = JBool True"
    by (simp add: EV_MARGIN_FLOOR_POLICY_def)
  show ?thesis
    using assms default_threshold [OF refl refl, of c s d t]
    by (simp add: evaluateEvMarginFloor_def Let_def en floor_key_def finiteNumber_def k)
qed

section \<open>The quantile\<close>

lemma insert_by_sorted_on:
  assumes "\<And>b. b \<in> set ys \<Longrightarrow> jlt (cmp x b) (Fin 0) \<longleftrightarrow> key x < (key b :: rat)"
    and "sorted (List.map key ys)"
  shows "sorted (List.map key (insert_by cmp x ys))"
  using assms by (induction ys) auto

lemma sort_by_sorted_on:
  assumes "\<And>a b. a \<in> set xs \<Longrightarrow> b \<in> set xs \<Longrightarrow> jlt (cmp a b) (Fin 0) \<longleftrightarrow> key a < (key b :: rat)"
  shows "sorted (List.map key (sort_by cmp xs))"
  using assms by (induction xs rule: rev_induct) (auto intro!: insert_by_sorted_on)

lemma filter_insert_by: "length (List.filter P (insert_by cmp x ys)) = length (List.filter P (x # ys))"
  by (induction ys) auto

lemma filter_sort_by: "length (List.filter P (sort_by cmp xs)) = length (List.filter P xs)"
  by (induction xs rule: rev_induct) (auto simp: filter_insert_by)

fun rat_of :: "jsnum \<Rightarrow> rat" where
  "rat_of (Fin x) = x"
| "rat_of _ = 0"

lemma sorted_counts:
  assumes "sorted (List.map key xs)" "i < length xs"
  shows "Suc i \<le> length (List.filter (\<lambda>x. key x \<le> (key (xs ! i) :: rat)) xs)"
    "length (List.filter (\<lambda>x. key x < key (xs ! i)) xs) \<le> i"
proof -
  have mono: "key (xs ! a) \<le> key (xs ! b)" if "a \<le> b" "b < length xs" for a b
    using sorted_nth_mono [OF assms(1), of a b] that by simp
  have "{0..i} \<subseteq> {j. j < length xs \<and> key (xs ! j) \<le> key (xs ! i)}"
    using assms(2) mono by auto
  then have "card {0..i} \<le> card {j. j < length xs \<and> key (xs ! j) \<le> key (xs ! i)}"
    by (intro card_mono) auto
  then show "Suc i \<le> length (List.filter (\<lambda>x. key x \<le> key (xs ! i)) xs)"
    by (simp add: length_filter_conv_card)
  have "{j. j < length xs \<and> key (xs ! j) < key (xs ! i)} \<subseteq> {0..<i}"
    using assms(2) mono by (auto simp: not_le [symmetric])
  then have "card {j. j < length xs \<and> key (xs ! j) < key (xs ! i)} \<le> card {0..<i}"
    by (intro card_mono) auto
  then show "length (List.filter (\<lambda>x. key x < key (xs ! i)) xs) \<le> i"
    by (simp add: length_filter_conv_card)
qed

lemma ascending_sorted:
  assumes "\<And>x. x \<in> set xs \<Longrightarrow> is_fin x \<and> is_double x"
  shows "sorted (List.map rat_of (sort_by ascending xs))"
proof (rule sort_by_sorted_on)
  fix a b assume "a \<in> set xs" "b \<in> set xs"
  with assms obtain x y where "a = Fin x" "b = Fin y" "is_double (Fin x)" "is_double (Fin y)"
    by (metis is_finE)
  then show "jlt (ascending a b) (Fin 0) \<longleftrightarrow> rat_of a < rat_of b"
    using jsub_sign by (simp add: ascending_def)
qed

lemma len_num_fin: "length xs \<le> 2 ^ 53 \<Longrightarrow> len_num xs = Fin (of_nat (length xs))"
  using rnd_int [of "int (length xs)"] by (simp add: len_num_def jint_def)

lemma jmul_share:
  assumes "0 < q" "q \<le> 1" "is_double (Fin q)" "0 < n" "n \<le> 2 ^ 53"
  obtains y where "jmul (Fin q) (Fin (of_nat n)) = Fin y" "0 < y" "y \<le> of_nat n"
proof -
  have n: "rnd (of_nat n) = Fin (of_nat n)" using rnd_int [of "int n"] assms(5) by simp
  have "q * of_nat n \<le> of_nat n" using assms by simp
  then have hi: "jle (rnd (q * of_nat n)) (Fin (of_nat n))" using rnd_mono n by metis
  have "q * 1 \<le> q * of_nat n" using assms by (intro mult_left_mono) auto
  then have lo: "jle (Fin q) (rnd (q * of_nat n))"
    using rnd_mono [of q "q * of_nat n"] assms(3) by (simp add: is_double_def)
  from hi lo obtain y where "rnd (q * of_nat n) = Fin y" by (cases "rnd (q * of_nat n)") auto
  with that hi lo assms(1) show ?thesis by (simp add: jmul_def)
qed

text \<open>The rank of the nearest-rank quantile and the element it selects.\<close>

lemma quantile_selects:
  assumes "costs \<noteq> []" "length costs \<le> 2 ^ 53" "0 < q" "q \<le> 1" "is_double (Fin q)"
  obtains y where "jmul (Fin q) (len_num costs) = Fin y" "0 < y" "nat \<lceil>y\<rceil> \<le> length costs"
    "1 \<le> nat \<lceil>y\<rceil>"
    "quantileNearestRank costs (JNum (Fin q)) = JNum (sort_by ascending costs ! (nat \<lceil>y\<rceil> - 1))"
proof -
  let ?n = "length costs"
  obtain y where y: "jmul (Fin q) (Fin (of_nat ?n)) = Fin y" "0 < y" "y \<le> of_nat ?n"
    using jmul_share [of q ?n] assms by auto
  let ?k = "\<lceil>y\<rceil>"
  have k: "1 \<le> ?k" "?k \<le> int ?n" using y(2,3) by (simp_all add: ceiling_le_iff less_ceiling_iff Suc_leI)
  have one: "jsub (Fin (of_int ?k)) (Fin 1) = Fin (of_int (?k - 1))"
    "jsub (Fin (of_nat ?n)) (Fin 1) = Fin (of_nat ?n - 1)"
  proof -
    have n53: "int ?n \<le> 2 ^ 53" using assms(2) by simp
    have "\<bar>?k - 1\<bar> \<le> 2 ^ 53" "\<bar>int ?n - 1\<bar> \<le> 2 ^ 53" using k n53 by linarith+
    moreover have "y \<le> 9007199254740993"
    proof -
      have "(of_nat ?n :: rat) \<le> of_nat (2 ^ 53)" using assms(2) by (simp only: of_nat_le_iff)
      with y(3) show ?thesis by simp
    qed
    ultimately have r: "rnd (of_int (?k - 1)) = Fin (of_int (?k - 1))"
        "rnd (of_int (int ?n - 1)) = Fin (of_int (int ?n - 1))" "y \<le> 9007199254740993"
      using rnd_int by blast+
    show "jsub (Fin (of_int ?k)) (Fin 1) = Fin (of_int (?k - 1))"
      "jsub (Fin (of_nat ?n)) (Fin 1) = Fin (of_nat ?n - 1)"
      using r by (simp_all add: jsub_def)
  qed
  have "jmax (Fin 1) (Fin (of_int j)) = Fin (of_int j)" if "1 \<le> j" for j
    using that by (cases "j = 1") (auto simp: jmax_def)
  then have mx: "jmax (Fin 1) (Fin (of_int ?k)) = Fin (of_int ?k)" using k(1) .
  have mn: "jmin (Fin (of_nat ?n - 1)) (Fin (of_int (?k - 1))) = Fin (of_int (?k - 1))"
  proof -
    have "(of_int ?k :: rat) \<le> of_int (int ?n)" using k by (simp only: of_int_le_iff)
    then show ?thesis by (auto simp: jmin_def)
  qed
  have "quantileNearestRank costs (JNum (Fin q)) = at_num (sort_by ascending costs) (Fin (of_int (?k - 1)))"
    using assms(1,2) y(1) mx mn one
    by (simp add: quantileNearestRank_def Let_def len_num_fin)
  also have "\<dots> = JNum (sort_by ascending costs ! (nat ?k - 1))"
  proof -
    have "nat (?k - 1) < ?n" "nat (?k - 1) = nat ?k - 1" "(0::rat) \<le> of_int (?k - 1)" "0 \<le> ?k - 1"
      using k by linarith+
    then show ?thesis by (simp only: at_num_def jsnum.case floor_of_int length_sort_by if_True simp_thms)
  qed
  finally have sel: "quantileNearestRank costs (JNum (Fin q)) = JNum (sort_by ascending costs ! (nat ?k - 1))" .
  have "jmul (Fin q) (len_num costs) = Fin y" using y(1) assms(2) by (simp add: len_num_fin)
  moreover have "nat ?k \<le> ?n" "1 \<le> nat ?k" using k by linarith+
  ultimately show ?thesis using that [OF _ y(2) _ _ sel] by blast
qed

text \<open>A normalized name is not blank.\<close>

lemma trim_blank: "trim s = [] \<longleftrightarrow> (\<forall>c\<in>set s. is_space c)"
proof -
  have "set s = set (takeWhile is_space s) \<union> set (dropWhile is_space s)"
    by (metis set_append takeWhile_dropWhile_id)
  then show ?thesis by (auto simp: trim_def dropWhile_eq_Nil_conv dest: set_takeWhileD)
qed

lemma trim_visible:
  assumes "trim s \<noteq> []"
  shows "\<exists>c\<in>set (trim s). \<not> is_space c"
proof -
  let ?r = "dropWhile is_space (rev (dropWhile is_space s))"
  have "?r \<noteq> []" using assms by (simp add: trim_def)
  then have "hd ?r \<in> set ?r" "\<not> is_space (hd ?r)"
    using hd_dropWhile [of is_space "rev (dropWhile is_space s)"] by (auto simp del: dropWhile_eq_Nil_conv)
  moreover have "set (trim s) = set ?r" by (simp add: trim_def)
  ultimately show ?thesis by blast
qed

lemma trim_normal: "normalizeString v = Some s \<Longrightarrow> trim s \<noteq> []"
  using trim_visible
  by (auto simp: normalizeString_def Let_def trim_blank split: jsv.splits if_splits)

lemma is_space_lower: "is_space (lower_char c) \<longleftrightarrow> is_space c"
  by (auto simp: lower_char_def is_space_def Let_def of_char_of)

lemma lower_normal: "normalizeLower v = Some s \<Longrightarrow> trim s \<noteq> []"
  using trim_normal by (auto simp: normalizeLower_def trim_blank lowercase_def is_space_lower)

section \<open>Properties\<close>

text \<open>The nearest-rank quantile of a non-empty list of finite doubles is one of them; at least
  the asked share of the list is at or below it, and strictly less than that share is below
  it.\<close>

theorem quantile_nearest_rank:
  assumes "costs \<noteq> []" "length costs \<le> 2 ^ 53" "0 < q" "q \<le> 1" "is_double (Fin q)"
    "\<And>x. x \<in> set costs \<Longrightarrow> is_fin x \<and> is_double x"
  shows "\<exists>v\<in>set costs. quantileNearestRank costs (JNum (Fin q)) = JNum v
    \<and> jle (jmul (Fin q) (len_num costs)) (len_num (List.filter (\<lambda>x. jle x v) costs))
    \<and> jlt (len_num (List.filter (\<lambda>x. jlt x v) costs)) (jmul (Fin q) (len_num costs))"
proof -
  let ?s = "sort_by ascending costs"
  obtain y where y: "jmul (Fin q) (len_num costs) = Fin y" "0 < y" "nat \<lceil>y\<rceil> \<le> length costs"
      "1 \<le> nat \<lceil>y\<rceil>" "quantileNearestRank costs (JNum (Fin q)) = JNum (?s ! (nat \<lceil>y\<rceil> - 1))"
    using quantile_selects [OF assms(1-5)] by blast
  define v where "v = ?s ! (nat \<lceil>y\<rceil> - 1)"
  have i: "nat \<lceil>y\<rceil> - 1 < length ?s" using y by simp
  have vin: "v \<in> set costs" using nth_mem [OF i] by (simp add: v_def)
  note counts = sorted_counts [OF ascending_sorted [OF assms(6)] i, folded v_def]
  have rat: "jle x v \<longleftrightarrow> rat_of x \<le> rat_of v" "jlt x v \<longleftrightarrow> rat_of x < rat_of v" if "x \<in> set costs" for x
    using assms(6) [OF that] assms(6) [OF vin] by (auto elim!: is_finE)
  let ?le = "List.filter (\<lambda>x. jle x v) costs" and ?lt = "List.filter (\<lambda>x. jlt x v) costs"
  have le: "?le = List.filter (\<lambda>x. rat_of x \<le> rat_of v) costs"
    and lt: "?lt = List.filter (\<lambda>x. rat_of x < rat_of v) costs"
    using rat by (auto intro!: filter_cong)
  have c: "nat \<lceil>y\<rceil> \<le> length ?le" "length ?lt < nat \<lceil>y\<rceil>"
    using counts y(4) unfolding le lt filter_sort_by by auto
  have "length ?le \<le> 2 ^ 53" "length ?lt \<le> 2 ^ 53"
    using assms(2) length_filter_le [of _ costs] by (meson order_trans)+
  moreover have "y \<le> of_nat (length ?le)"
    using c(1) by linarith
  moreover have "of_nat (length ?lt) < y"
    using c(2) by linarith
  ultimately show ?thesis
    using vin y(1) y(5) [folded v_def] by (intro bexI [of _ v]) (simp_all add: len_num_fin)
qed

theorem quantile_nearest_rank_witness:
  "\<exists>v\<in>set [Fin 3, Fin 1, Fin 2]. quantileNearestRank [Fin 3, Fin 1, Fin 2] (JNum (Fin (1 / 2))) = JNum v
    \<and> jle (jmul (Fin (1 / 2)) (len_num [Fin 3, Fin 1, Fin 2]))
        (len_num (List.filter (\<lambda>x. jle x v) [Fin 3, Fin 1, Fin 2]))
    \<and> jlt (len_num (List.filter (\<lambda>x. jlt x v) [Fin 3, Fin 1, Fin 2]))
        (jmul (Fin (1 / 2)) (len_num [Fin 3, Fin 1, Fin 2]))"
proof (rule quantile_nearest_rank)
  have "rnd (1 / 2) = Fin (1 / 2)" by code_simp
  then show "is_double (Fin (1 / 2))" by (simp add: is_double_def)
  show "is_fin x \<and> is_double x" if "x \<in> set [Fin 3, Fin 1, Fin 2]" for x
    using that rnd_numeral by (auto simp: is_double_def rnd_1)
qed simp_all

text \<open>C14: under the committed cost policy, a live intent that is neither safety critical nor an exact
  approval, with a measured expected result, a positive gas estimate, a type and a chain, is
  allowed exactly when the result is positive, is more than one and a half times the gas, and
  exceeds the required floor (the p90 cost times the multiplier plus the profit floor).\<close>

theorem ev_gate_live_floor:
  assumes "\<not> isSafetyCriticalIntent i" "dot i ''intentType'' \<noteq> JStr ''approve_exact''"
    "gateExpectedNetUsd i = Some e" "gasEstimateUsdFromIntent i = Some g" "jlt (Fin 0) g"
    "normalizeString (dot i ''intentType'') = Some ty" "normalizeLower (dot i ''chain'') = Some ch"
  shows "pr_decision (evaluateEvGate env i h now EXECUTION_EV_COST_POLICY) = ALLOW \<longleftrightarrow>
    jlt (Fin 0) e \<and> jlt (Fin (3 / 2)) (jdiv e g)
    \<and> jlt (cf_requiredNetUsd (gate_cost_floor i
         (resolveEvHistoryInput env h now EXECUTION_EV_COST_POLICY) EXECUTION_EV_COST_POLICY)) e"
proof -
  have p: "dot EXECUTION_EV_COST_POLICY ''evMarginFloorPolicy'' = JUndef"
    "EXECUTION_EV_COST_POLICY \<noteq> JUndef"
    by (simp_all add: EXECUTION_EV_COST_POLICY_def)
  have trims: "trim ty \<noteq> []" "trim ch \<noteq> []" using assms(6,7) trim_normal lower_normal by auto
  have fin: "is_fin e" "is_fin g"
    using assms(3,4) firstFinite_fin
    by (auto simp: gateExpectedNetUsd_def expectedNetUsdFromIntent_def gasEstimateUsdFromIntent_def
        derivedExpectedNetUsdFromIntent_def simp del: firstFinite.simps split: option.splits if_splits)
  show ?thesis
    using margin_floor_allow [OF refl trims(1) refl trims(2) assms(5) fin(2,1)]
    by (simp add: evaluateEvGate_def Let_def default_policy_def p evGate_measured [OF assms(1,2)]
        measured_allow_iff [OF assms(3)] assms(4,6,7) num_or_null_def str_or_null_def)
qed

definition sample_swap :: "fields \<Rightarrow> jsv" where
  "sample_swap extra = JObj
     ([(''strategyId'', JStr ''s''), (''chain'', JStr ''Base''), (''intentType'', JStr ''swap'')] @ extra)"

definition sample_env :: js_env where
  "sample_env = \<lparr>env_now = Fin 0, env_localeCompare = \<lambda>a b. if a = b then Fin 0 else Fin 1\<rparr>"

definition sample_model :: jsv where
  "sample_model = JObj [(''entries'', JArr [])]"

lemma sample_swap_names:
  "normalizeString (dot (sample_swap x) ''strategyId'') = Some ''s''"
  "normalizeString (dot (sample_swap x) ''intentType'') = Some ''swap''"
  "normalizeLower (dot (sample_swap x) ''chain'') = Some ''base''"
proof -
  have "dot (sample_swap x) ''strategyId'' = JStr ''s''" "dot (sample_swap x) ''intentType'' = JStr ''swap''"
    "dot (sample_swap x) ''chain'' = JStr ''Base''"
    by (simp_all add: sample_swap_def)
  moreover have "normalizeString (JStr ''s'') = Some ''s''" "normalizeString (JStr ''swap'') = Some ''swap''"
    "normalizeLower (JStr ''Base'') = Some ''base''"
    by code_simp+
  ultimately show "normalizeString (dot (sample_swap x) ''strategyId'') = Some ''s''"
    "normalizeString (dot (sample_swap x) ''intentType'') = Some ''swap''"
    "normalizeLower (dot (sample_swap x) ''chain'') = Some ''base''" by simp_all
qed

theorem ev_gate_live_floor_witness:
  "pr_decision (evaluateEvGate sample_env
     (sample_swap [(''expectedNetUsd'', JNum (Fin 5)), (''gasEstimateUsd'', JNum (Fin 1))])
     sample_model (JStr ''2026-01-05'') EXECUTION_EV_COST_POLICY) = ALLOW"
proof -
  let ?i = "sample_swap [(''expectedNetUsd'', JNum (Fin 5)), (''gasEstimateUsd'', JNum (Fin 1))]"
  have side: "\<not> isSafetyCriticalIntent ?i" "dot ?i ''intentType'' \<noteq> JStr ''approve_exact''"
    "gateExpectedNetUsd ?i = Some (Fin 5)" "gasEstimateUsdFromIntent ?i = Some (Fin 1)" "jlt (Fin 0) (Fin 1)"
    by code_simp+
  have "resolveEvHistoryInput sample_env sample_model (JStr ''2026-01-05'') EXECUTION_EV_COST_POLICY = sample_model"
    by (simp add: resolveEvHistoryInput_def sample_model_def)
  moreover have "jlt (cf_requiredNetUsd (gate_cost_floor ?i sample_model EXECUTION_EV_COST_POLICY)) (Fin 5)"
    by code_simp
  moreover have "jlt (Fin (3 / 2)) (jdiv (Fin 5) (Fin 1))" by code_simp
  ultimately show ?thesis
    using ev_gate_live_floor [OF side sample_swap_names(2,3)] by simp
qed

text \<open>A live intent whose result nothing measures is blocked, unless it is transport plumbing,
  safety critical or an exact approval.\<close>

theorem ev_gate_unmeasured:
  assumes "\<not> isSafetyCriticalIntent i" "dot i ''intentType'' \<noteq> JStr ''approve_exact''"
    "gateExpectedNetUsd i = None" "\<not> isTransportPlumbingIntent i"
  shows "pr_decision (evaluateEvGate env i h now p) = BLOCK
    \<and> pr_blockers (evaluateEvGate env i h now p) = [''expected_net_unmeasured'']"
  using assms(3,4)
  by (simp add: evaluateEvGate_def Let_def evGate_measured [OF assms(1,2)] measured_gate_def)

theorem ev_gate_unmeasured_witness:
  "pr_decision (evaluateEvGate sample_env (sample_swap []) JNull JNull JUndef) = BLOCK"
proof -
  have "\<not> isSafetyCriticalIntent (sample_swap [])" "dot (sample_swap []) ''intentType'' \<noteq> JStr ''approve_exact''"
    "gateExpectedNetUsd (sample_swap []) = None" "\<not> isTransportPlumbingIntent (sample_swap [])"
    by code_simp+
  from ev_gate_unmeasured [OF this] show ?thesis by blast
qed

text \<open>The approval fields of the parent of an approval: its own, or those of its metadata.\<close>

definition parentApprovalOf :: "jsv \<Rightarrow> jsv" where
  "parentApprovalOf intent = first_truthy [dot (parentIntentOf intent) ''approval'',
     dots (parentIntentOf intent) [''metadata'', ''approval''], JObj []]"

text \<open>The token or the spender that the parent states: in its approval, itself or in its metadata.\<close>

definition parentValue :: "jsv \<Rightarrow> string \<Rightarrow> jsv" where
  "parentValue intent k = first_truthy [dot (parentApprovalOf intent) k, dot (parentIntentOf intent) k,
     dots (parentIntentOf intent) [''metadata'', k]]"

text \<open>C15: An exact approval that is no revocation and is not let through on a result of its own is let
  through only on a parent intent. The approval is limited, its amount is neither missing nor zero,
  and it is for the parent's token and spender, and for the parent's amount where the parent states
  one. The parent is no approval, has the approval's strategy and chain, and is the intent whose
  hash the approval names; the evidence it carries for the parent matches its hash too and says
  allow. The gate itself allows the parent, and the result and the requirement claimed in the
  evidence are the gate's own numbers for the parent, the first above the second.
\<close>

theorem approval_inherits_parent:
  assumes "ev_allow (evGate env i h now p)" "dot i ''intentType'' = JStr ''approve_exact''"
    "\<not> isSafetyCriticalIntent i" "\<not> ev_allow (measured_gate env i h now p)"
  shows "ev_allow (evGate env (parentIntentOf i) h now p)
    \<and> dot (parentIntentOf i) ''intentType'' \<notin> {JStr ''approve_exact'', JStr ''approve_max''}
    \<and> hashMatches (parentIntentHashOf i) (parentIntentOf i)
    \<and> hashMatches (parentEvEvidenceHashOf i) (parentEvEvidenceOf i)
    \<and> dot (parentEvEvidenceOf i) ''allow'' = JBool True
    \<and> normalizeString (dot (parentIntentOf i) ''strategyId'') = normalizeString (dot i ''strategyId'')
    \<and> normalizeString (dot i ''strategyId'') \<noteq> None
    \<and> normalizeLower (dot (parentIntentOf i) ''chain'') = normalizeLower (dot i ''chain'')
    \<and> normalizeLower (dot i ''chain'') \<noteq> None
    \<and> truthy (dot i ''approval'') \<and> \<not> isUnlimitedApproval (dot i ''approval'')
    \<and> approvalAmount (dots i [''approval'', ''amount'']) \<notin> {None, Some ''0''}
    \<and> normalizeAddress (dots i [''approval'', ''token'']) \<noteq> None
    \<and> normalizeAddress (dots i [''approval'', ''spender'']) \<noteq> None
    \<and> normalizeAddress (parentValue i ''token'') = normalizeAddress (dots i [''approval'', ''token''])
    \<and> normalizeAddress (parentValue i ''spender'') = normalizeAddress (dots i [''approval'', ''spender''])
    \<and> approvalAmount (first_present [dot (parentApprovalOf i) ''amount'', dot (parentIntentOf i) ''amountRaw'',
         dots (parentIntentOf i) [''metadata'', ''amountRaw'']]) \<in> {None, approvalAmount (dots i [''approval'', ''amount''])}
    \<and> (\<exists>e r. finiteNumber (dot (parentEvEvidenceOf i) ''expectedNetUsd'') = Some e
        \<and> finiteNumber (dot (parentEvEvidenceOf i) ''requiredNetUsd'') = Some r
        \<and> finiteNumber (dot (ev_evidence (evGate env (parentIntentOf i) h now p)) ''expectedNetUsd'') = Some e
        \<and> finiteNumber (dot (ev_evidence (evGate env (parentIntentOf i) h now p)) ''requiredNetUsd'') = Some r
        \<and> jlt r e)"
proof (cases "approvalParent i")
  case None
  then show ?thesis using assms by (simp add: evGate.simps [of env i h now p])
next
  case (Some t)
  obtain q e r where t: "t = (q, e, r)" by (cases t)
  note ap = Some [unfolded t]
  have e: "finiteNumber (dot (parentEvEvidenceOf i) ''expectedNetUsd'') = Some e"
    and r: "finiteNumber (dot (parentEvEvidenceOf i) ''requiredNetUsd'') = Some r"
    and er: "\<not> jle e r" and match: "parentChildStrategyAndChainMatch i (parentIntentOf i)"
    and valid: "hasValidParentEvEvidence i" and own: "truthy (dot i ''approval'')"
      "\<not> isUnlimitedApproval (dot i ''approval'')" "approvalAmount (dots i [''approval'', ''amount'']) \<notin> {None, Some ''0''}"
      "approvalTokensAndAmountsMatch (dot i ''approval'') (parentApprovalOf i) (parentIntentOf i)"
    using ap
    by (auto simp: approvalParent_def parentApprovalOf_def Let_def orelse_def dots_def simp del: first_truthy.simps
        split: if_splits option.splits)
  have q: "q = parentIntentOf i" using approvalParent_types(4) [OF ap] .
  have "approvalEvidence i e r (evGate env q h now p) \<noteq> None"
    using assms ap by (auto simp: evGate.simps [of env i h now p] split: option.splits)
  then have "ev_allow (evGate env q h now p)"
    "finiteNumber (dot (ev_evidence (evGate env q h now p)) ''expectedNetUsd'') = Some e"
    "finiteNumber (dot (ev_evidence (evGate env q h now p)) ''requiredNetUsd'') = Some r"
    by (auto simp: approvalEvidence_def split: if_splits)
  moreover have "jlt r e"
    using er e r by (auto simp: finiteNumber_Some jlt_iff_not_jle is_fin_not_nan)
  moreover have "hashMatches (parentIntentHashOf i) (parentIntentOf i)"
    "hashMatches (parentEvEvidenceHashOf i) (parentEvEvidenceOf i)" "dot (parentEvEvidenceOf i) ''allow'' = JBool True"
    "dot (parentIntentOf i) ''intentType'' \<notin> {JStr ''approve_exact'', JStr ''approve_max''}"
    using valid by (auto simp: hasValidParentEvEvidence_def Let_def split: if_splits)
  moreover have "normalizeString (dot (parentIntentOf i) ''strategyId'') = normalizeString (dot i ''strategyId'')"
    "normalizeLower (dot (parentIntentOf i) ''chain'') = normalizeLower (dot i ''chain'')"
    "normalizeString (dot i ''strategyId'') \<noteq> None" "normalizeLower (dot i ''chain'') \<noteq> None"
    using match unfolding parentChildStrategyAndChainMatch_def Let_def by (simp_all split: if_splits) (metis option.distinct(1))+
  moreover have "normalizeAddress (dots i [''approval'', ''token'']) \<noteq> None"
    "normalizeAddress (dots i [''approval'', ''spender'']) \<noteq> None"
    "normalizeAddress (parentValue i ''token'') = normalizeAddress (dots i [''approval'', ''token''])"
    "normalizeAddress (parentValue i ''spender'') = normalizeAddress (dots i [''approval'', ''spender''])"
    "approvalAmount (first_present [dot (parentApprovalOf i) ''amount'', dot (parentIntentOf i) ''amountRaw'',
       dots (parentIntentOf i) [''metadata'', ''amountRaw'']]) \<in> {None, approvalAmount (dots i [''approval'', ''amount''])}"
    using own(4) unfolding approvalTokensAndAmountsMatch_def Let_def parentValue_def
    by (simp_all add: dots_def del: first_truthy.simps first_present.simps split: if_splits)
      (metis option.distinct(1) option.exhaust)+
  ultimately show ?thesis using own(1-3) e r unfolding q by blast
qed

text \<open>The report-only floor quotes the live gate's numbers: for an intent with a strategy,
  a chain and a type, the floor computed for it is the one the gate computes on the same model.\<close>

theorem cost_floor_matches_gate:
  assumes "normalizeString (dot i ''strategyId'') \<noteq> None" "normalizeLower (dot i ''chain'') \<noteq> None"
    "normalizeString (dot i ''intentType'') \<noteq> None"
  shows "map_option snd (executionEvCostFloorEvidence (dot i ''strategyId'') (dot i ''chain'')
      (dot i ''intentType'') (isCapitalRebalanceEv i) (isTinyLiveCanaryEv i)
      (dot i ''estimatedGasCostUsd'') model policy)
    = Some (gate_cost_floor i model (default_policy policy))"
  using assms
  by (auto simp: executionEvCostFloorEvidence_def gate_cost_floor_def Let_def str_or_null_def)

theorem cost_floor_matches_gate_witness:
  "map_option snd (executionEvCostFloorEvidence (JStr ''s'') (JStr ''Base'') (JStr ''swap'')
      (isCapitalRebalanceEv (sample_swap [])) (isTinyLiveCanaryEv (sample_swap [])) JUndef sample_model JUndef)
    = Some (gate_cost_floor (sample_swap []) sample_model EXECUTION_EV_COST_POLICY)"
proof -
  have "dot (sample_swap []) ''strategyId'' = JStr ''s''" "dot (sample_swap []) ''intentType'' = JStr ''swap''"
    "dot (sample_swap []) ''chain'' = JStr ''Base''" "dot (sample_swap []) ''estimatedGasCostUsd'' = JUndef"
    by (simp_all add: sample_swap_def)
  with cost_floor_matches_gate [of "sample_swap []" sample_model JUndef] sample_swap_names [of "[]"]
  show ?thesis by (simp add: default_policy_def)
qed

text \<open>With no route, or no chain, the absent key is read as \<open>finite(null)\<close>, which is 0: the floor of
  one and a half times the gas becomes a floor of zero.\<close>

lemma margin_threshold_missing_route:
  "dot policy ''enabled'' \<noteq> JBool False \<Longrightarrow> nullish route \<Longrightarrow> policy \<noteq> JUndef \<Longrightarrow>
     mf_threshold (evaluateEvMarginFloor e g chain route policy) = JNum (Fin 0)"
  by (simp add: evaluateEvMarginFloor_def Let_def floor_key_def marginThreshold_def table_entry_def
      finiteNumber_def split: option.splits)

section \<open>Digests are visible strings\<close>

lemma hex_digit_visible: "n < 16 \<Longrightarrow> \<not> is_space (hex_digit n)"
  by (auto simp: hex_digit_def is_space_def of_char_of)

lemma hex32_visible: "c \<in> set (hex32 w) \<Longrightarrow> \<not> is_space c"
proof -
  have lt: "nat (x mod 16) < 16" for x :: int
    using pos_mod_bound [of 16 x] by simp
  show "c \<in> set (hex32 w) \<Longrightarrow> \<not> is_space c"
    using hex_digit_visible [OF lt] by (auto simp: hex32_def)
qed

lemma sha_round_length: "length st = 8 \<Longrightarrow> length (sha_round st kw) = 8"
  by (cases kw; cases "(st, kw)" rule: sha_round.cases) (auto simp: Let_def)

lemma sha_rounds_length: "length st = 8 \<Longrightarrow> length (foldl sha_round st kws) = 8"
  by (induction kws arbitrary: st) (auto simp: sha_round_length)

lemma sha_blocks_length: "length st = 8 \<Longrightarrow> length (sha_blocks n st ws) = 8"
  by (induction n st ws rule: sha_blocks.induct) (auto simp: sha_block_def sha_rounds_length)

lemma sha256_visible: "c \<in> set (sha256_hex s) \<Longrightarrow> \<not> is_space c" "sha256_hex s \<noteq> []"
proof -
  show "c \<in> set (sha256_hex s) \<Longrightarrow> \<not> is_space c"
    using hex32_visible by (auto simp: sha256_hex_def Let_def)
  let ?b = "sha_blocks (length (words_of (sha_pad (utf8 s))) div 16) SHA_INIT (words_of (sha_pad (utf8 s)))"
  have "length ?b = 8" by (rule sha_blocks_length) (simp add: SHA_INIT_def)
  then obtain w ws where "?b = w # ws" by (cases ?b) auto
  then show "sha256_hex s \<noteq> []" by (simp add: sha256_hex_def hex32_def)
qed

lemma dropWhile_none: "\<forall>c\<in>set xs. \<not> P c \<Longrightarrow> dropWhile P xs = xs"
  by (cases xs) auto

lemma trim_visible_id: "\<forall>c\<in>set s. \<not> is_space c \<Longrightarrow> trim s = s"
  by (simp add: trim_def dropWhile_none)

lemma own_hash_matches: "v \<noteq> JUndef \<Longrightarrow> hashMatches (JStr (stableHash v)) v"
proof -
  have "normalizeString (JStr (stableHash v)) = Some (stableHash v)"
    using sha256_visible trim_visible_id by (simp add: normalizeString_def Let_def stableHash_def)
  then show ?thesis by (simp add: hashMatches_def Let_def)
qed

definition sample_parent :: jsv where
  "sample_parent = sample_swap [(''expectedNetUsd'', JNum (Fin 5)), (''token'', JStr ''0xaa''),
     (''spender'', JStr ''0xbb'')]"

definition sample_evidence :: jsv where
  "sample_evidence = JObj [(''allow'', JBool True), (''expectedNetUsd'', JNum (Fin 5)),
     (''requiredNetUsd'', JNum (lit 85 100))]"

definition sample_approval :: jsv where
  "sample_approval = JObj
     [(''intentType'', JStr ''approve_exact''), (''strategyId'', JStr ''s''), (''chain'', JStr ''base''),
      (''approval'', JObj [(''token'', JStr ''0xAA''), (''spender'', JStr ''0xbb''), (''amount'', JStr ''7'')]),
      (''parentIntent'', sample_parent), (''parentEvEvidence'', sample_evidence),
      (''parentIntentHash'', JStr (stableHash sample_parent)),
      (''parentEvEvidenceHash'', JStr (stableHash sample_evidence))]"

lemma sample_floor: "cf_requiredNetUsd (gate_cost_floor sample_parent sample_model EXECUTION_EV_COST_POLICY) = lit 85 100"
  "jlt (lit 85 100) (Fin 5)" "is_fin (lit 85 100)"
  by code_simp+

lemma sample_parent_verdict:
  "ev_allow (evGate env sample_parent sample_model now EXECUTION_EV_COST_POLICY)"
  "dot (ev_evidence (evGate env sample_parent sample_model now EXECUTION_EV_COST_POLICY)) ''expectedNetUsd'' = JNum (Fin 5)"
  "dot (ev_evidence (evGate env sample_parent sample_model now EXECUTION_EV_COST_POLICY)) ''requiredNetUsd'' = JNum (lit 85 100)"
proof -
  have side: "\<not> isSafetyCriticalIntent sample_parent" "dot sample_parent ''intentType'' \<noteq> JStr ''approve_exact''"
    "gateExpectedNetUsd sample_parent = Some (Fin 5)" "gasEstimateUsdFromIntent sample_parent = None"
    by code_simp+
  have m: "resolveEvHistoryInput env sample_model now EXECUTION_EV_COST_POLICY = sample_model"
    by (simp add: resolveEvHistoryInput_def sample_model_def)
  have f: "mf_allow (evaluateEvMarginFloor (JNum (Fin 5)) JNull a b q)" if "q = JUndef" for a b q
    using that by (simp add: evaluateEvMarginFloor_def Let_def finiteNumber_def)
  have q: "dot EXECUTION_EV_COST_POLICY ''evMarginFloorPolicy'' = JUndef"
    by (simp add: EXECUTION_EV_COST_POLICY_def)
  have "evGate env sample_parent sample_model now EXECUTION_EV_COST_POLICY =
      floor_verdict sample_parent (Fin 5) sample_model (gate_cost_floor sample_parent sample_model EXECUTION_EV_COST_POLICY)"
    by (simp add: evGate_measured [OF side(1,2)] measured_gate_def side(3,4) num_or_null_def Let_def f [OF q] m)
  then show "ev_allow (evGate env sample_parent sample_model now EXECUTION_EV_COST_POLICY)"
    "dot (ev_evidence (evGate env sample_parent sample_model now EXECUTION_EV_COST_POLICY)) ''expectedNetUsd'' = JNum (Fin 5)"
    "dot (ev_evidence (evGate env sample_parent sample_model now EXECUTION_EV_COST_POLICY)) ''requiredNetUsd'' = JNum (lit 85 100)"
    by (simp_all add: floor_verdict_def Let_def sample_floor who_def)
qed

lemma sample_approval_fields:
  "dot sample_approval ''intentType'' = JStr ''approve_exact''"
  "parentIntentOf sample_approval = sample_parent" "parentEvEvidenceOf sample_approval = sample_evidence"
  "parentIntentHashOf sample_approval = JStr (stableHash sample_parent)"
  "parentEvEvidenceHashOf sample_approval = JStr (stableHash sample_evidence)"
  "dot sample_approval ''approval'' = JObj [(''token'', JStr ''0xAA''), (''spender'', JStr ''0xbb''), (''amount'', JStr ''7'')]"
proof -
  have "stableHash v \<noteq> []" for v by (simp add: stableHash_def sha256_visible)
  then show "dot sample_approval ''intentType'' = JStr ''approve_exact''"
    "parentIntentOf sample_approval = sample_parent" "parentEvEvidenceOf sample_approval = sample_evidence"
    "parentIntentHashOf sample_approval = JStr (stableHash sample_parent)"
    "parentEvEvidenceHashOf sample_approval = JStr (stableHash sample_evidence)"
    "dot sample_approval ''approval'' = JObj [(''token'', JStr ''0xAA''), (''spender'', JStr ''0xbb''), (''amount'', JStr ''7'')]"
    by (simp_all add: sample_approval_def sample_parent_def sample_evidence_def sample_swap_def
        parentIntentOf_def parentEvEvidenceOf_def parentIntentHashOf_def parentEvEvidenceHashOf_def metadata_of_def)
qed

lemma sample_approval_parent:
  "approvalParent sample_approval = Some (sample_parent, Fin 5, lit 85 100)"
proof -
  let ?a = "JObj [(''token'', JStr ''0xAA''), (''spender'', JStr ''0xbb''), (''amount'', JStr ''7'')]"
  have v: "hasValidParentEvEvidence sample_approval"
  proof -
    have "truthy sample_parent" "truthy sample_evidence" "stableHash v \<noteq> []" "sample_parent \<noteq> JUndef"
      "sample_evidence \<noteq> JUndef" "dot sample_evidence ''allow'' = JBool True"
      "dot sample_parent ''intentType'' = JStr ''swap''" for v
      by (simp_all add: sample_parent_def sample_evidence_def sample_swap_def stableHash_def sha256_visible)
    then show ?thesis
      by (simp add: hasValidParentEvEvidence_def Let_def sample_approval_fields own_hash_matches)
  qed
  have match: "parentChildStrategyAndChainMatch sample_approval sample_parent"
  proof -
    have "dot sample_approval ''strategyId'' = JStr ''s''" "dot sample_approval ''chain'' = JStr ''base''"
      by (simp_all add: sample_approval_def)
    moreover have "normalizeString (JStr ''s'') = Some ''s''" "normalizeLower (JStr ''base'') = Some ''base''"
      by code_simp+
    ultimately show ?thesis
      using sample_swap_names by (simp add: parentChildStrategyAndChainMatch_def Let_def sample_parent_def)
  qed
  have tok: "approvalTokensAndAmountsMatch ?a (JObj []) sample_parent"
    "\<not> isUnlimitedApproval ?a" "approvalAmount (dot ?a ''amount'') = Some ''7''"
    by code_simp+
  have ev: "finiteNumber (dot sample_evidence ''expectedNetUsd'') = Some (Fin 5)"
    "finiteNumber (dot sample_evidence ''requiredNetUsd'') = Some (lit 85 100)"
    using sample_floor(3) by (simp_all add: sample_evidence_def finiteNumber_def)
  have pa: "first_truthy [dot sample_parent ''approval'', dot (dot sample_parent ''metadata'') ''approval'', JObj []] = JObj []"
    by (simp add: sample_parent_def sample_swap_def)
  have le: "\<not> jle (Fin 5) (lit 85 100)" by code_simp
  show ?thesis
    using tok(3)
    by (simp add: approvalParent_def Let_def sample_approval_fields v match pa ev le tok del: first_truthy.simps)
qed

theorem approval_inherits_parent_witness:
  "ev_allow (evGate sample_env sample_parent sample_model JNull EXECUTION_EV_COST_POLICY)
    \<and> (\<exists>e r. finiteNumber (dot sample_evidence ''expectedNetUsd'') = Some e
        \<and> finiteNumber (dot (ev_evidence (evGate sample_env sample_parent sample_model JNull
            EXECUTION_EV_COST_POLICY)) ''expectedNetUsd'') = Some e \<and> jlt r e)"
proof -
  have safe: "\<not> isSafetyCriticalIntent sample_approval"
    by (simp add: isSafetyCriticalIntent_def Let_def sample_approval_def)
  have "gateExpectedNetUsd sample_approval = None" "\<not> isTransportPlumbingIntent sample_approval"
    by (simp_all add: gateExpectedNetUsd_def expectedNetUsdFromIntent_def derivedExpectedNetUsdFromIntent_def
        sample_approval_def finiteNumber_def isTransportPlumbingIntent_def normalizeString_def name_in_def
        TRANSPORT_PLUMBING_INTENT_TYPES_def Let_def trim_def is_space_def)
  then have own: "\<not> ev_allow (measured_gate sample_env sample_approval sample_model JNull EXECUTION_EV_COST_POLICY)"
    by (simp add: measured_gate_def)
  have "ev_allow (evGate sample_env sample_approval sample_model JNull EXECUTION_EV_COST_POLICY)"
    by (simp add: evGate.simps [of _ sample_approval] safe sample_approval_parent approvalEvidence_def
        sample_parent_verdict finiteNumber_def sample_floor)
  from approval_inherits_parent [OF this sample_approval_fields(1) safe own]
  show ?thesis unfolding sample_approval_fields by blast
qed

end
