(* ===== verification/GasBudget.thy ===== *)
theory GasBudget
  imports PolicyCore PolicyConfig
begin

text \<open>
  Gas: src/src/risk/gas-budget-controller.mjs, the controller that bounds what a route and a day
  may burn, and src/src/executor/policy/gas-price-ceiling.mjs, the ceiling on the gas price. The
  ceiling reads a history file; its parsed entries (or their absence) are a parameter.

  The lemmas: what an allowed intent satisfies, the run of reverts against its specification,
  and the ceiling against the rank it is meant to be.
\<close>

section \<open>The controller\<close>

definition finiteConfigNumber :: "jsv \<Rightarrow> jsnum option" where
  "finiteConfigNumber value =
     (if nullish value \<or> value = JStr [] then None
      else let parsed = to_num value in if is_fin parsed then Some parsed else None)"

definition hoursAgoMs :: "jsv \<Rightarrow> jsv \<Rightarrow> jsnum" where
  "hoursAgoMs now timestamp = jsub (date_of now) (date_of timestamp)"

definition name_or :: "jsv \<Rightarrow> string" where
  "name_or v = to_str (orelse v (JStr ''unknown''))"

definition routeKey :: "jsv \<Rightarrow> string" where
  "routeKey intent =
     name_or (dot intent ''strategyId'') @ '':'' @ name_or (dot intent ''chain'') @ '':''
       @ name_or (dot intent ''intentType'')"

definition lifecycleStage :: "jsv \<Rightarrow> jsv" where
  "lifecycleStage value = first_truthy
     [dot value ''lifecycleStage'', dots value [''lifecycle'', ''stage''],
      dots value [''intent'', ''lifecycleStage''], dots value [''metadata'', ''lifecycleStage''], JNull]"

definition actualGasUsd :: "jsv \<Rightarrow> jsnum" where
  "actualGasUsd record =
     (let parsed = to_num (first_present
            [dots record [''realized'', ''actualKnownCostUsd''],
             dots record [''execution'', ''actualKnownCostUsd''], dot record ''gasUsd'', JNum (Fin 0)])
      in if is_fin parsed then parsed else Fin 0)"

definition failedBroadcast :: "jsv \<Rightarrow> bool" where
  "failedBroadcast record \<longleftrightarrow> one_of [''reverted'', ''error''] (dots record [''lifecycle'', ''stage''])"

datatype broadcast_outcome = Failure | Success

definition broadcastResult :: "jsv \<Rightarrow> broadcast_outcome option" where
  "broadcastResult record =
     (let stage = dots record [''lifecycle'', ''stage'']
      in if one_of [''reverted'', ''error''] stage then Some Failure
         else if one_of [''confirmed'', ''broadcasted''] stage then Some Success else None)"

text \<open>The argument object; \<open>gas_budget_call\<close> fills in the defaults of the parameters.\<close>

record gas_budget_input =
  gb_intent :: jsv
  gb_auditRecords :: "jsv list"
  gb_positionState :: jsv
  gb_gasBaselines :: jsv
  gb_maxFailedGasCost24hUsd :: jsv
  gb_minProfitableTopUpUsd :: jsv
  gb_idlePositionExitDays :: jsv
  gb_staleQuoteThresholdMs :: jsv
  gb_maxConsecutiveRevertsPerRoute :: jsv
  gb_dailyGasBudget :: jsv
  gb_operatingCapitalUsd :: jsv
  gb_estimatedGasUsd :: jsv
  gb_now :: jsv

definition gas_budget_call :: "jsv \<Rightarrow> jsv list \<Rightarrow> jsv \<Rightarrow> gas_budget_input" where
  "gas_budget_call intent auditRecords now =
     \<lparr>gb_intent = intent, gb_auditRecords = auditRecords, gb_positionState = JNull,
      gb_gasBaselines = JObj [], gb_maxFailedGasCost24hUsd = JNum (Fin 3),
      gb_minProfitableTopUpUsd = JNum (Fin 5), gb_idlePositionExitDays = JNum (Fin 7),
      gb_staleQuoteThresholdMs = JNum (jint 30000), gb_maxConsecutiveRevertsPerRoute = JNum (Fin 3),
      gb_dailyGasBudget = BROADCAST_BUDGET_POLICY, gb_operatingCapitalUsd = JNull,
      gb_estimatedGasUsd = JNull, gb_now = now\<rparr>"

definition record_at :: "jsv \<Rightarrow> jsv \<Rightarrow> jsv" where
  "record_at now r = first_truthy [dot r ''timestamp'', dot r ''observedAt'', now]"

definition recentRecords :: "gas_budget_input \<Rightarrow> jsv list" where
  "recentRecords g = List.filter
     (\<lambda>r. jle (hoursAgoMs (gb_now g) (record_at (gb_now g) r)) (jint (24 * 60 * 60 * 1000)))
     (gb_auditRecords g)"

definition onRoute :: "gas_budget_input \<Rightarrow> jsv \<Rightarrow> bool" where
  "onRoute g r \<longleftrightarrow> routeKey (orelse (dot r ''intent'') r) = routeKey (gb_intent g)"

definition routeFailedGas :: "gas_budget_input \<Rightarrow> jsnum" where
  "routeFailedGas g = jsum (List.filter is_fin
     (List.map (\<lambda>r. to_num (first_present [dots r [''realized'', ''actualKnownCostUsd''],
          dots r [''execution'', ''actualKnownCostUsd''], JNum (Fin 0)]))
       (List.filter (\<lambda>r. failedBroadcast r \<and> onRoute g r) (recentRecords g))))"

text \<open>
  \<open>hoursAgoMs(a, now) - hoursAgoMs(b, now)\<close> with the arguments in this order is the time of \<open>a\<close>
  less the time of \<open>b\<close>, so the list is oldest first; the loop runs from its end.
\<close>

definition oldest_first :: "jsv \<Rightarrow> jsv \<Rightarrow> jsv \<Rightarrow> jsnum" where
  "oldest_first now a b = jsub (hoursAgoMs (record_at now a) now) (hoursAgoMs (record_at now b) now)"

fun count_reverts :: "jsv list \<Rightarrow> nat \<Rightarrow> nat" where
  "count_reverts [] n = n"
| "count_reverts (r # rest) n =
     (case broadcastResult r of
        Some Failure \<Rightarrow> count_reverts rest (Suc n)
      | Some Success \<Rightarrow> n
      | None \<Rightarrow> count_reverts rest n)"

definition consecutiveReverts :: "gas_budget_input \<Rightarrow> nat" where
  "consecutiveReverts g =
     count_reverts (rev (sort_by (oldest_first (gb_now g)) (List.filter (onRoute g) (recentRecords g)))) 0"

definition has_value :: "jsv list \<Rightarrow> jsv \<Rightarrow> bool" where
  "has_value xs v \<longleftrightarrow> (\<exists>x\<in>set xs. strict_eq x v \<or> x = JNum NaN \<and> v = JNum NaN)"

definition daily_budget :: "gas_budget_input \<Rightarrow> jsv" where
  "daily_budget g = orelse (gb_dailyGasBudget g) (JObj [])"

definition scopedStages :: "gas_budget_input \<Rightarrow> jsv list" where
  "scopedStages g = elems (orelse (dot (daily_budget g) ''scopedLifecycleStages'')
     (dot BROADCAST_BUDGET_POLICY ''scopedLifecycleStages''))"

definition maxDailyGasBudgetUsd :: "gas_budget_input \<Rightarrow> jsnum option" where
  "maxDailyGasBudgetUsd g =
     (let absoluteDailyGasUsd = finiteConfigNumber (dot (daily_budget g) ''maxDailyGasUsd'');
          fractionDailyGasUsd =
            (case (finiteConfigNumber (dot (daily_budget g) ''dailyGasBurnFractionCap''),
                   finiteConfigNumber (gb_operatingCapitalUsd g)) of
               (Some fractionCap, Some operatingCapital) \<Rightarrow>
                 if jle (Fin 0) fractionCap \<and> jle (Fin 0) operatingCapital
                 then Some (jmul operatingCapital fractionCap) else None
             | _ \<Rightarrow> None);
          present = List.filter (jle (Fin 0))
            (List.map the (List.filter (\<lambda>v. v \<noteq> None) [absoluteDailyGasUsd, fractionDailyGasUsd]))
      in case sort_by (\<lambda>left right. jsub left right) present of [] \<Rightarrow> None | x # _ \<Rightarrow> Some x)"

definition dailyGasBudgetApplies :: "gas_budget_input \<Rightarrow> bool" where
  "dailyGasBudgetApplies g \<longleftrightarrow>
     dot (daily_budget g) ''enabled'' \<noteq> JBool False
     \<and> has_value (scopedStages g) (lifecycleStage (gb_intent g))
     \<and> maxDailyGasBudgetUsd g \<noteq> None"

definition scopedDailyGasUsd :: "gas_budget_input \<Rightarrow> jsnum" where
  "scopedDailyGasUsd g =
     (if dailyGasBudgetApplies g
      then jsum (List.map actualGasUsd
        (List.filter (\<lambda>r. has_value (scopedStages g) (lifecycleStage r)) (recentRecords g)))
      else Fin 0)"

definition projectedDailyGasUsd :: "gas_budget_input \<Rightarrow> jsnum" where
  "projectedDailyGasUsd g =
     (let estimatedGas = to_num (first_present [gb_estimatedGasUsd g, dot (gb_intent g) ''gasEstimateUsd'',
            dots (gb_intent g) [''metadata'', ''gasEstimateUsd''], JNum (Fin 0)])
      in jadd (scopedDailyGasUsd g) (if is_fin estimatedGas then estimatedGas else Fin 0))"

definition gasQuoteObservedAt :: "gas_budget_input \<Rightarrow> jsv" where
  "gasQuoteObservedAt g = first_truthy [dots (gb_intent g) [''quote'', ''observedAt''],
     dot (gb_intent g) ''observedAt'', JNull]"

definition effectiveStaleQuoteThresholdMs :: "gas_budget_input \<Rightarrow> jsv" where
  "effectiveStaleQuoteThresholdMs g =
     (case finiteConfigNumber (first_present [dots (gb_intent g) [''quote'', ''maxAgeMs''],
             dots (gb_intent g) [''metadata'', ''quoteMaxAgeMs''],
             dots (gb_intent g) [''strategyConfig'', ''intentTtlMs'']]) of
        Some x \<Rightarrow> JNum x | None \<Rightarrow> gb_staleQuoteThresholdMs g)"

definition staleGasQuote :: "gas_budget_input \<Rightarrow> bool" where
  "staleGasQuote g \<longleftrightarrow>
     truthy (gasQuoteObservedAt g)
     \<and> is_fin (hoursAgoMs (gb_now g) (gasQuoteObservedAt g))
     \<and> vlt (effectiveStaleQuoteThresholdMs g) (JNum (hoursAgoMs (gb_now g) (gasQuoteObservedAt g)))"

definition fin_or_zero :: "jsv \<Rightarrow> jsnum" where
  "fin_or_zero v = (if is_finite v then to_num v else Fin 0)"

definition position_blockers :: "gas_budget_input \<Rightarrow> string list" where
  "position_blockers g =
     (let p = gb_positionState g;
          positionGas = fin_or_zero (dot p ''cumulativeGasUsd'');
          positionReward = fin_or_zero (dot p ''realizedRewardUsd'')
      in if \<not> truthy p then []
         else
           push_if (jlt (Fin 0) positionReward \<and> jle (lit 25 100) (jdiv positionGas positionReward))
             ''gas_burn_exit_ratio_exceeded''
           @ push_if (is_finite (dot p ''daysIdle'') \<and> vle (gb_idlePositionExitDays g) (dot p ''daysIdle'')
               \<and> is_finite (dot p ''positionUsd'')
               \<and> vlt (dot p ''positionUsd'') (gb_minProfitableTopUpUsd g))
             ''idle_position_below_min_profitable_exit'')"

definition gasPriceAboveBaseline :: "gas_budget_input \<Rightarrow> bool" where
  "gasPriceAboveBaseline g \<longleftrightarrow>
     (let baseline = index (gb_gasBaselines g) (orelse (dot (gb_intent g) ''chain'') (JStr ''unknown''));
          currentGasPrice = first_present [dot (gb_intent g) ''gasPriceGwei'',
            dots (gb_intent g) [''metadata'', ''gasPriceGwei''], JNull]
      in \<not> nullish (dot baseline ''p90_30d'') \<and> is_finite currentGasPrice
         \<and> vlt (dot baseline ''p90_30d'') currentGasPrice
         \<and> dot (gb_intent g) ''intentType'' \<noteq> JStr ''emergency_unwind'')"

definition gas_budget_blockers :: "gas_budget_input \<Rightarrow> string list" where
  "gas_budget_blockers g =
     push_if (staleGasQuote g) ''stale_quote_exceeded_30s''
     @ push_if (is_finite (gb_maxFailedGasCost24hUsd g)
         \<and> vle (gb_maxFailedGasCost24hUsd g) (JNum (routeFailedGas g))) ''route_failed_gas_budget_24h_exceeded''
     @ push_if (vle (gb_maxConsecutiveRevertsPerRoute g) (jnat (consecutiveReverts g)))
         ''route_consecutive_reverts_auto_pause''
     @ push_if (dailyGasBudgetApplies g
         \<and> jlt (the (maxDailyGasBudgetUsd g)) (projectedDailyGasUsd g)) ''daily_gas_budget_exceeded''
     @ position_blockers g
     @ push_if (gasPriceAboveBaseline g) ''gas_price_above_p90_30d''"

record gas_budget_verdict =
  gv_allowed :: bool
  gv_reason :: jsv
  gv_blockers :: "string list"
  gv_metrics :: fields

definition evaluateGasBudgetController :: "gas_budget_input \<Rightarrow> gas_budget_verdict" where
  "evaluateGasBudgetController g =
     (let blockers = gas_budget_blockers g
      in \<lparr>gv_allowed = (blockers = []),
          gv_reason = (if blockers \<noteq> [] then JStr (join '';'' blockers) else JNull),
          gv_blockers = blockers,
          gv_metrics =
            [(''routeKey'', JStr (routeKey (gb_intent g))),
             (''routeFailedGasUsd24h'', JNum (routeFailedGas g)),
             (''consecutiveRevertsOnRoute'', jnat (consecutiveReverts g)),
             (''scopedDailyGasUsd'', JNum (scopedDailyGasUsd g)),
             (''projectedDailyGasUsd'', JNum (projectedDailyGasUsd g)),
             (''maxDailyGasBudgetUsd'', num_or_null (maxDailyGasBudgetUsd g)),
             (''dailyGasBudgetApplies'', JBool (dailyGasBudgetApplies g)),
             (''quoteAgeMs'', (if truthy (gasQuoteObservedAt g)
                then JNum (hoursAgoMs (gb_now g) (gasQuoteObservedAt g)) else JNull)),
             (''staleQuoteThresholdMs'', effectiveStaleQuoteThresholdMs g)]\<rparr>)"

section \<open>The gas price ceiling\<close>

definition computeP90 :: "jsnum list \<Rightarrow> jsnum option" where
  "computeP90 gasPrices =
     (if gasPrices = [] then None
      else
        let sorted = sort_by (\<lambda>a b. jsub a b) gasPrices;
            n = jint (int (length sorted));
            idx = jsub (jceil (jmul n (lit 9 10))) (Fin 1);
            clampedIndex = jmax (Fin 0) (jmin idx (jsub n (Fin 1)))
        in case clampedIndex of Fin x \<Rightarrow> Some (sorted ! nat \<lfloor>x\<rfloor>) | _ \<Rightarrow> None)"

text \<open>The entries of the file that readGasHistory keeps: a finite price and a date.\<close>

definition usableGasEntries :: "jsv list \<Rightarrow> jsv list" where
  "usableGasEntries parsedLines = List.filter
     (\<lambda>p. is_finite (dot p ''gasPriceGwei'') \<and> truthy (dot p ''observedAt'')) parsedLines"

definition filterLast7Days :: "jsv list \<Rightarrow> jsv \<Rightarrow> jsv list" where
  "filterLast7Days entries now =
     (let cutoffMs = jsub (date_of now) (jint (7 * 24 * 60 * 60 * 1000))
      in List.filter (\<lambda>e. jle cutoffMs (date_of (dot e ''observedAt''))) entries)"

definition gasCeilingEnabled :: "jsv \<Rightarrow> bool" where
  "gasCeilingEnabled profile \<longleftrightarrow> dot profile ''gasPriceCeiling'' \<noteq> JBool False"

definition evaluateGasPriceCeiling :: "jsv \<Rightarrow> jsv \<Rightarrow> jsv \<Rightarrow> jsv list option \<Rightarrow> policy_result" where
  "evaluateGasPriceCeiling intent now profile history =
     (let chain = orelse (dot intent ''chain'') (JStr ''unknown'');
          currentGasPriceGwei = first_present [dot intent ''gasPriceGwei'',
            dots intent [''metadata'', ''gasPriceGwei''], JNull]
      in if \<not> gasCeilingEnabled profile
         then policy_allow ''gas_price_ceiling'' now
           [(''metrics'', JObj [(''chain'', chain), (''currentGasPriceGwei'', currentGasPriceGwei),
              (''p90GasPriceGwei'', JNull), (''historyEntriesCount'', jnat 0), (''enabled'', JBool False)])]
         else
           let recentEntries = (case history of
                 Some entries \<Rightarrow> filterLast7Days (usableGasEntries entries) now | None \<Rightarrow> []);
               p90GasPriceGwei = computeP90 (List.map (\<lambda>e. to_num (dot e ''gasPriceGwei'')) recentEntries);
               blockers = push_if (history \<noteq> None \<and> is_finite currentGasPriceGwei
                 \<and> (case p90GasPriceGwei of
                      Some p \<Rightarrow> is_fin p \<and> jlt p (to_num currentGasPriceGwei) | None \<Rightarrow> False))
                 ''gas_price_above_ceiling''
           in policy_answer ''gas_price_ceiling'' now blockers
             [(''metrics'', JObj [(''chain'', chain), (''currentGasPriceGwei'', currentGasPriceGwei),
                (''p90GasPriceGwei'', num_or_null p90GasPriceGwei),
                (''historyEntriesCount'', jnat (length recentEntries)), (''enabled'', JBool True)])])"

interpretation gas_ceiling_gate: policy_gate
  "\<lambda>(i, now, p, h). evaluateGasPriceCeiling i now p h" "''gas_price_ceiling''"
  by unfold_locales (auto simp: evaluateGasPriceCeiling_def Let_def split: prod.splits)

section \<open>Facts\<close>

lemma count_reverts_acc: "count_reverts rs n = n + count_reverts rs 0"
proof (induction rs arbitrary: n)
  case (Cons r rs)
  have "count_reverts rs (Suc n) = Suc n + count_reverts rs 0" "count_reverts rs (Suc 0) = Suc 0 + count_reverts rs 0"
    "count_reverts rs n = n + count_reverts rs 0"
    by (rule Cons)+
  then show ?case by (simp split: option.splits broadcast_outcome.splits)
qed simp

text \<open>The run: the failures among the newest records up to the first success.\<close>

lemma count_reverts_spec:
  "count_reverts rs 0 = length (List.filter (\<lambda>r. broadcastResult r = Some Failure)
     (takeWhile (\<lambda>r. broadcastResult r \<noteq> Some Success) rs))"
proof (induction rs)
  case (Cons r rs)
  then show ?case using count_reverts_acc [of rs "Suc 0"]
    by (simp split: option.splits broadcast_outcome.splits)
qed simp

lemma actualGasUsd_fin: "is_fin (actualGasUsd r)"
  by (simp add: actualGasUsd_def Let_def)

lemma jsum_fin_not_nan: "list_all is_fin xs \<Longrightarrow> jsum xs \<noteq> NaN"
proof (induction xs rule: rev_induct)
  case (snoc x xs)
  then have "jsum xs \<noteq> NaN" "is_fin x" by simp_all
  then show ?case by (cases "jsum xs"; cases x) (auto simp: rnd_not_nan)
qed simp

lemma routeFailedGas_not_nan: "routeFailedGas g \<noteq> NaN"
  unfolding routeFailedGas_def by (rule jsum_fin_not_nan) (auto simp: list_all_iff)

section \<open>Properties\<close>

text \<open>An intent the controller allows has no stale quote, less failed gas on its route in the last
  day than the limit, fewer reverts in a row on its route than the limit, and, when the daily
  budget applies to its stage, a projected burn that is not above that budget.\<close>

theorem gas_budget_allow:
  assumes "gv_allowed (evaluateGasBudgetController g)"
    "gb_maxFailedGasCost24hUsd g = JNum (Fin m)" "gb_maxConsecutiveRevertsPerRoute g = JNum (Fin k)"
  shows "\<not> staleGasQuote g \<and> jlt (routeFailedGas g) (Fin m) \<and> vlt (jnat (consecutiveReverts g)) (JNum (Fin k))
    \<and> (dailyGasBudgetApplies g \<longrightarrow> \<not> jlt (the (maxDailyGasBudgetUsd g)) (projectedDailyGasUsd g))"
proof -
  have "gas_budget_blockers g = []"
    using assms(1) by (simp add: evaluateGasBudgetController_def Let_def)
  then have "\<not> staleGasQuote g" "\<not> jle (Fin m) (routeFailedGas g)"
    "\<not> vle (JNum (Fin k)) (jnat (consecutiveReverts g))"
    "dailyGasBudgetApplies g \<longrightarrow> \<not> jlt (the (maxDailyGasBudgetUsd g)) (projectedDailyGasUsd g)"
    by (auto simp: gas_budget_blockers_def assms(2,3))
  then show ?thesis
    using routeFailedGas_not_nan
    by (simp add: jlt_iff_not_jle jnat_def rnd_not_nan)
qed

definition sample_gas_call :: gas_budget_input where
  "sample_gas_call = gas_budget_call
     (JObj [(''strategyId'', JStr ''s''), (''chain'', JStr ''base''), (''intentType'', JStr ''swap'')]) []
     (JStr ''2026-01-05T12:00:00Z'')"

theorem gas_budget_allow_witness:
  "jlt (routeFailedGas sample_gas_call) (Fin 3) \<and> vlt (jnat (consecutiveReverts sample_gas_call)) (JNum (Fin 3))"
proof -
  have d: "recentRecords sample_gas_call = []" "gasQuoteObservedAt sample_gas_call = JNull"
    "gb_positionState sample_gas_call = JNull" "gb_gasBaselines sample_gas_call = JObj []"
    "maxDailyGasBudgetUsd sample_gas_call = None"
    "gb_maxFailedGasCost24hUsd sample_gas_call = JNum (Fin 3)"
    "gb_maxConsecutiveRevertsPerRoute sample_gas_call = JNum (Fin 3)"
    by (simp_all add: sample_gas_call_def gas_budget_call_def recentRecords_def gasQuoteObservedAt_def
        maxDailyGasBudgetUsd_def daily_budget_def BROADCAST_BUDGET_POLICY_def finiteConfigNumber_def)
  have "gv_allowed (evaluateGasBudgetController sample_gas_call)"
    by (simp add: evaluateGasBudgetController_def Let_def gas_budget_blockers_def staleGasQuote_def d
        routeFailedGas_def consecutiveReverts_def dailyGasBudgetApplies_def position_blockers_def
        gasPriceAboveBaseline_def index_def jnat_def)
  from gas_budget_allow [OF this d(6,7)] show ?thesis by blast
qed

text \<open>The reverts in a row of a route are the failed broadcasts among its newest records of
  the last day, up to the first successful one.\<close>

theorem consecutive_reverts_run:
  "consecutiveReverts g = length (List.filter (\<lambda>r. broadcastResult r = Some Failure)
     (takeWhile (\<lambda>r. broadcastResult r \<noteq> Some Success)
       (rev (sort_by (oldest_first (gb_now g)) (List.filter (onRoute g) (recentRecords g))))))"
  unfolding consecutiveReverts_def by (rule count_reverts_spec)

text \<open>The gas price ceiling blocks exactly when it is enabled, a history file exists, the
  price is a number and exceeds the 90th percentile of the last week.\<close>

theorem gas_ceiling_block_iff:
  "pr_decision (evaluateGasPriceCeiling i now profile history) = BLOCK \<longleftrightarrow>
     dot profile ''gasPriceCeiling'' \<noteq> JBool False
     \<and> (\<exists>entries p price. history = Some entries
          \<and> first_present [dot i ''gasPriceGwei'', dots i [''metadata'', ''gasPriceGwei''], JNull] = JNum (Fin price)
          \<and> computeP90 (List.map (\<lambda>e. to_num (dot e ''gasPriceGwei''))
               (filterLast7Days (usableGasEntries entries) now)) = Some (Fin p)
          \<and> p < price)"
  by (auto simp: evaluateGasPriceCeiling_def Let_def gasCeilingEnabled_def is_finite_iff
      simp del: first_present.simps elim!: is_finE split: option.splits)

end
