(* ===== verification/RiskDaemons.thy ===== *)
theory RiskDaemons
  imports PolicyCore PolicyConfig
begin

text \<open>
  The risk daemons of src/src/executor/risk (liquidity watch, peg monitor, protocol health,
  concentration guard, circuit breaker) and the diversification policy of
  src/src/config/diversification.mjs they rest on. The severities are an enumeration ordered by
  the rank the circuit breaker gives them.

  The lemmas: the breaker trips exactly on a failed verdict at or above the trip level and
  reports the worst severity it saw; an allocation is accepted only within every share limit and
  the concentration index.
\<close>

section \<open>types.mjs\<close>

datatype severity = INFO | WARN | HALT_STRATEGY | HALT_PROTOCOL | UNWIND_ALL | KILL_SWITCH

fun SEVERITY_RANK :: "severity \<Rightarrow> nat" where
  "SEVERITY_RANK INFO = 0"
| "SEVERITY_RANK WARN = 1"
| "SEVERITY_RANK HALT_STRATEGY = 2"
| "SEVERITY_RANK HALT_PROTOCOL = 3"
| "SEVERITY_RANK UNWIND_ALL = 4"
| "SEVERITY_RANK KILL_SWITCH = 5"

lemma SEVERITY_RANK_inj: "SEVERITY_RANK a = SEVERITY_RANK b \<Longrightarrow> a = b"
  by (cases a; cases b) simp_all

instantiation severity :: linorder
begin

definition less_eq_severity :: "severity \<Rightarrow> severity \<Rightarrow> bool" where
  "less_eq_severity a b \<longleftrightarrow> SEVERITY_RANK a \<le> SEVERITY_RANK b"

definition less_severity :: "severity \<Rightarrow> severity \<Rightarrow> bool" where
  "less_severity a b \<longleftrightarrow> SEVERITY_RANK a < SEVERITY_RANK b"

instance
  by standard (auto simp: less_eq_severity_def less_severity_def intro: SEVERITY_RANK_inj)

end

record risk_verdict =
  rv_moduleId :: string
  rv_ok :: bool
  rv_severity :: severity
  rv_action :: string
  rv_violations :: "jsv list"
  rv_details :: fields

definition vkind :: "string \<Rightarrow> fields \<Rightarrow> jsv" where
  "vkind k extra = JObj ((''kind'', JStr k) # extra)"

definition some_kind :: "string \<Rightarrow> jsv list \<Rightarrow> bool" where
  "some_kind k vs \<longleftrightarrow> (\<exists>v\<in>set vs. dot v ''kind'' = JStr k)"

definition default_arg :: "jsv \<Rightarrow> jsv \<Rightarrow> jsv" where
  "default_arg v d = (if v = JUndef then d else v)"

section \<open>liquidity-watch.mjs\<close>

definition LIQUIDITY_WATCH_THRESHOLDS :: jsv where
  "LIQUIDITY_WATCH_THRESHOLDS = JObj
     [(''utilizationMaxPct'', JNum (lit 95 100)),
      (''utilizationSustainedMinutes'', JNum (jint 60)),
      (''withdrawalQueueMaxBlocks'', JNum (jint 500))]"

definition liquidity_violations :: "jsv \<Rightarrow> jsv \<Rightarrow> jsv list" where
  "liquidity_violations snapshot thresholds =
     (if is_finite (dot snapshot ''utilizationPct'')
         \<and> vle (dot thresholds ''utilizationMaxPct'') (dot snapshot ''utilizationPct'')
         \<and> vle (dot thresholds ''utilizationSustainedMinutes'')
             (coal (dot snapshot ''utilizationSustainedMinutes'') (JNum (Fin 0)))
      then [vkind ''utilization_sustained_over_threshold''
        [(''utilization'', dot snapshot ''utilizationPct''),
         (''sustainedMinutes'', dot snapshot ''utilizationSustainedMinutes'')]] else [])
     @ (if is_finite (dot snapshot ''withdrawalQueueBlocks'')
           \<and> vle (dot thresholds ''withdrawalQueueMaxBlocks'') (dot snapshot ''withdrawalQueueBlocks'')
        then [vkind ''withdrawal_queue_too_deep''
          [(''blocks'', dot snapshot ''withdrawalQueueBlocks''),
           (''max'', dot thresholds ''withdrawalQueueMaxBlocks'')]] else [])"

definition evaluateLiquidityWatch :: "jsv \<Rightarrow> jsv \<Rightarrow> risk_verdict" where
  "evaluateLiquidityWatch snapshot thresholdsArg =
     (let thresholds = default_arg thresholdsArg LIQUIDITY_WATCH_THRESHOLDS;
          violations = liquidity_violations snapshot thresholds;
          ok = (violations = [])
      in \<lparr>rv_moduleId = ''liquidity-watch:'' @ to_str (orelse (dot snapshot ''poolId'') (JStr ''unknown'')),
          rv_ok = ok,
          rv_severity = (if ok then INFO else HALT_STRATEGY),
          rv_action = (if ok then ''none''
             else if some_kind ''withdrawal_queue_too_deep'' violations then ''queue_unwind''
             else if some_kind ''utilization_sustained_over_threshold'' violations
             then ''pause_new_entries'' else ''block_new_entries_queue_unwind''),
          rv_violations = violations,
          rv_details = (if is_finite (dot snapshot ''utilizationPct'')
             then [(''utilizationPct'', dot snapshot ''utilizationPct''),
                   (''utilizationSustainedMinutes'',
                     coal (dot snapshot ''utilizationSustainedMinutes'') (JNum (Fin 0)))]
             else [])\<rparr>)"

section \<open>peg-monitor.mjs\<close>

definition PEG_MONITOR_THRESHOLDS :: jsv where
  "PEG_MONITOR_THRESHOLDS = JObj
     [(''depegPctMax'', JNum (lit 5 1000)), (''depegSustainedMinutes'', JNum (jint 30))]"

definition evaluatePegMonitor :: "jsv \<Rightarrow> jsv \<Rightarrow> risk_verdict" where
  "evaluatePegMonitor snapshot thresholdsArg =
     (let thresholds = default_arg thresholdsArg PEG_MONITOR_THRESHOLDS;
          deviation = dot snapshot ''pegDeviationPct'';
          sustained = coal (dot snapshot ''pegSustainedMinutes'') (JNum (Fin 0));
          violations =
            (if is_finite deviation
                \<and> vle (dot thresholds ''depegPctMax'') (JNum (jabs (to_num deviation)))
                \<and> vle (dot thresholds ''depegSustainedMinutes'') sustained
             then [vkind ''sustained_depeg''
               [(''deviation'', deviation),
                (''sustainedMinutes'', dot snapshot ''pegSustainedMinutes'')]] else []);
          ok = (violations = [])
      in \<lparr>rv_moduleId = ''peg-monitor:'' @ to_str (orelse (dot snapshot ''assetId'') (JStr ''unknown'')),
          rv_ok = ok,
          rv_severity = (if ok then INFO else UNWIND_ALL),
          rv_action = (if ok then ''none'' else ''unwind_all_exposure_for_asset''),
          rv_violations = violations,
          rv_details = (if is_finite deviation
             then [(''pegDeviationPct'', deviation), (''pegSustainedMinutes'', sustained)] else [])\<rparr>)"

section \<open>protocol-health.mjs\<close>

definition PROTOCOL_HEALTH_THRESHOLDS :: jsv where
  "PROTOCOL_HEALTH_THRESHOLDS = JObj
     [(''tvlDrop24hMaxPct'', JNum (lit 30 100)), (''oracleDeviationMaxPct'', JNum (lit 3 100)),
      (''windowMinutesMin'', JNum (jint 60))]"

definition protocol_violations :: "jsv \<Rightarrow> jsv \<Rightarrow> jsv list" where
  "protocol_violations snapshot thresholds =
     (let tvl = dot snapshot ''tvlDrop24hPct''; oracle = dot snapshot ''oracleDeviationPct''
      in (if is_finite tvl \<and> vle (dot thresholds ''tvlDrop24hMaxPct'') tvl
          then [vkind ''tvl_drop_24h_exceeded''
            [(''observed'', tvl), (''max'', dot thresholds ''tvlDrop24hMaxPct'')]] else [])
         @ (if is_finite oracle
               \<and> vle (dot thresholds ''oracleDeviationMaxPct'') (JNum (jabs (to_num oracle)))
            then [vkind ''oracle_deviation_exceeded''
              [(''observed'', oracle), (''max'', dot thresholds ''oracleDeviationMaxPct'')]] else [])
         @ (if dot snapshot ''adminKeyChangedRecently'' = JBool True
            then [vkind ''admin_key_change_detected'' []] else [])
         @ (if dot snapshot ''exploitAdvisoryActive'' = JBool True
            then [vkind ''exploit_advisory_active''
              [(''sourceId'', orelse (dot snapshot ''exploitAdvisorySourceId'') JNull)]] else []))"

definition evaluateProtocolHealth :: "jsv \<Rightarrow> jsv \<Rightarrow> risk_verdict" where
  "evaluateProtocolHealth snapshot thresholdsArg =
     (let thresholds = default_arg thresholdsArg PROTOCOL_HEALTH_THRESHOLDS;
          violations = protocol_violations snapshot thresholds;
          ok = (violations = [])
      in \<lparr>rv_moduleId = ''protocol-health:''
            @ to_str (orelse (dot snapshot ''protocolId'') (JStr ''unknown'')),
          rv_ok = ok,
          rv_severity = (if ok then INFO else HALT_PROTOCOL),
          rv_action = (if ok then ''none'' else ''halt_protocol_and_unwind''),
          rv_violations = violations,
          rv_details =
            (if is_finite (dot snapshot ''tvlDrop24hPct'')
             then [(''tvlDrop24hPct'', dot snapshot ''tvlDrop24hPct'')] else [])
            @ (if is_finite (dot snapshot ''oracleDeviationPct'')
               then [(''oracleDeviationPct'', dot snapshot ''oracleDeviationPct'')] else [])\<rparr>)"

section \<open>diversification.mjs\<close>

text \<open>\<open>(table[id] ?? 0) + share\<close>, where \<open>+\<close> concatenates when the entry is a string.\<close>

definition plus_share :: "jsv \<Rightarrow> jsnum \<Rightarrow> jsv" where
  "plus_share old share =
     (case to_prim (coal old (JNum (Fin 0))) of
        JStr s \<Rightarrow> JStr (s @ num_str share)
      | v \<Rightarrow> JNum (jadd (to_num v) share))"

definition add_to :: "jsv \<Rightarrow> jsnum \<Rightarrow> fields \<Rightarrow> fields" where
  "add_to key share table =
     set_fld (to_str key) (plus_share (fld table (to_str key)) share) table"

definition perChainMaxShareFor :: "string \<Rightarrow> jsv \<Rightarrow> jsv" where
  "perChainMaxShareFor chain policy =
     (let src = orelse policy DIVERSIFICATION_POLICY
      in coal (dot (dot src ''perChainMaxShareByChain'') chain) (dot src ''perChainMaxShare''))"

definition valid_share :: "jsv \<Rightarrow> bool" where
  "valid_share v \<longleftrightarrow> is_finite v \<and> vle (JNum (Fin 0)) v"

definition sumShares :: "fields \<Rightarrow> jsnum throws" where
  "sumShares shares =
     (if list_all (\<lambda>(_, v). valid_share v) shares
      then Inr (jsum (List.map (\<lambda>(_, v). to_num v) shares)) else Inl TypeError)"

definition computeHhi :: "fields \<Rightarrow> bool \<Rightarrow> jsnum throws" where
  "computeHhi shares normalized =
     and_then (sumShares shares) (\<lambda>total.
       if total = Fin 0 then Inr (Fin 0)
       else Inr (jsum (List.map (\<lambda>(_, v).
              let p = (if normalized then jdiv (to_num v) total else to_num v) in jmul p p) shares)))"

record diversification_verdict =
  dv_ok :: bool
  dv_hhi :: jsnum
  dv_activeStrategies :: nat
  dv_violations :: "jsv list"

record allocations =
  al_perStrategy :: fields
  al_perChain :: fields
  al_perProtocol :: fields
  al_bobL2DirectShare :: jsnum

definition share_violation :: "string \<Rightarrow> jsv \<Rightarrow> string \<times> jsv \<Rightarrow> jsv list" where
  "share_violation k maxShare = (\<lambda>(i, share).
     if vlt maxShare share
     then [vkind k [(''id'', JStr i), (''share'', share), (''max'', maxShare)]] else [])"

definition evaluateDiversification :: "allocations \<Rightarrow> jsv \<Rightarrow> diversification_verdict throws" where
  "evaluateDiversification al policy =
     (let active = length (List.filter (\<lambda>(_, v). vlt (JNum (Fin 0)) v) (al_perStrategy al));
          shares =
            concat (List.map (share_violation ''per_strategy_share_exceeded'' (dot policy ''perStrategyMaxShare''))
              (al_perStrategy al))
            @ concat (List.map (\<lambda>(i, share).
                (if i \<notin> set OFFICIAL_GATEWAY_DESTINATION_CHAINS
                 then [vkind ''chain_not_gateway_official'' [(''id'', JStr i)]] else [])
                @ share_violation ''per_chain_share_exceeded'' (perChainMaxShareFor i policy) (i, share))
              (al_perChain al))
            @ concat (List.map (share_violation ''per_protocol_share_exceeded'' (dot policy ''perProtocolMaxShare''))
              (al_perProtocol al))
            @ (if vlt (dot policy ''bobL2DirectMaxShare'') (JNum (al_bobL2DirectShare al))
               then [vkind ''bob_l2_direct_share_exceeded''
                 [(''share'', JNum (al_bobL2DirectShare al)), (''max'', dot policy ''bobL2DirectMaxShare'')]]
               else [])
      in and_then (computeHhi (al_perStrategy al) False) (\<lambda>hhi.
           let violations = shares
                 @ (if vle (dot policy ''minSharesForHhi'') (jnat active) \<and> vlt (dot policy ''hhiMax'') (JNum hhi)
                    then [vkind ''hhi_exceeded'' [(''hhi'', JNum hhi), (''max'', dot policy ''hhiMax'')]]
                    else [])
           in Inr \<lparr>dv_ok = (violations = []), dv_hhi = hhi, dv_activeStrategies = active,
                   dv_violations = violations\<rparr>))"

definition mergeAllocation :: "jsv \<Rightarrow> jsv \<Rightarrow> allocations throws" where
  "mergeAllocation current candidate =
     (let addShare = to_num (coal (dot candidate ''addShare'') (JNum (Fin 0)));
          isIn = (\<lambda>k. truthy (dot candidate k))
      in if \<not> is_fin addShare \<or> jlt addShare (Fin 0) then Inl TypeError
         else Inr
           \<lparr>al_perStrategy =
              (if isIn ''strategyId'' then add_to (dot candidate ''strategyId'') addShare else id)
                (spread [] (fields_of (coal (dot current ''perStrategy'') (JObj [])))),
            al_perChain =
              (if isIn ''chainId'' then add_to (dot candidate ''chainId'') addShare else id)
                (spread [] (fields_of (coal (dot current ''perChain'') (JObj [])))),
            al_perProtocol =
              foldl (\<lambda>table p. add_to p addShare table)
                (spread [] (fields_of (coal (dot current ''perProtocol'') (JObj []))))
                (elems (dot candidate ''protocolIds'')),
            al_bobL2DirectShare =
              (let base = to_num (coal (dot current ''bobL2DirectShare'') (JNum (Fin 0)))
               in if dot candidate ''chainId'' = JStr ''bob'' \<and> dot candidate ''directHolding'' = JBool True
                  then jadd base addShare else base)\<rparr>)"

definition canAcceptNewAllocation :: "jsv \<Rightarrow> jsv \<Rightarrow> jsv \<Rightarrow> (diversification_verdict \<times> allocations) throws" where
  "canAcceptNewAllocation currentAllocations candidate policy =
     and_then (mergeAllocation currentAllocations candidate) (\<lambda>merged.
     and_then (evaluateDiversification merged policy) (\<lambda>verdict. Inr (verdict, merged)))"

section \<open>concentration-guard.mjs\<close>

definition allocations_obj :: "allocations \<Rightarrow> jsv" where
  "allocations_obj al = JObj
     [(''perStrategy'', JObj (al_perStrategy al)), (''perChain'', JObj (al_perChain al)),
      (''perProtocol'', JObj (al_perProtocol al)), (''bobL2DirectShare'', JNum (al_bobL2DirectShare al))]"

definition evaluateConcentrationGuard :: "jsv \<Rightarrow> jsv \<Rightarrow> jsv \<Rightarrow> risk_verdict throws" where
  "evaluateConcentrationGuard currentAllocations candidate policy =
     (if \<not> truthy candidate
      then Inr \<lparr>rv_moduleId = ''concentration-guard'', rv_ok = False, rv_severity = HALT_STRATEGY,
                rv_action = ''reject_intent_missing_candidate'',
                rv_violations = [vkind ''missing_candidate'' []], rv_details = []\<rparr>
      else and_then (canAcceptNewAllocation (orelse currentAllocations (JObj [])) candidate
                      (default_arg policy DIVERSIFICATION_POLICY)) (\<lambda>(verdict, merged).
        Inr \<lparr>rv_moduleId = ''concentration-guard:''
               @ to_str (orelse (dot candidate ''strategyId'') (JStr ''unknown'')),
             rv_ok = dv_ok verdict,
             rv_severity = (if dv_ok verdict then INFO else HALT_STRATEGY),
             rv_action = (if dv_ok verdict then ''allow'' else ''reject_intent''),
             rv_violations = dv_violations verdict,
             rv_details =
               [(''hhi'', JNum (dv_hhi verdict)),
                (''activeStrategies'', jnat (dv_activeStrategies verdict)),
                (''projectedAllocations'', allocations_obj merged)]\<rparr>))"

section \<open>circuit-breaker.mjs\<close>

definition CIRCUIT_BREAKER_TRIP_AT :: severity where
  "CIRCUIT_BREAKER_TRIP_AT = HALT_PROTOCOL"

fun severity_str :: "severity \<Rightarrow> string" where
  "severity_str INFO = ''info''"
| "severity_str WARN = ''warn''"
| "severity_str HALT_STRATEGY = ''halt_strategy''"
| "severity_str HALT_PROTOCOL = ''halt_protocol''"
| "severity_str UNWIND_ALL = ''unwind_all''"
| "severity_str KILL_SWITCH = ''kill_switch''"

text \<open>One turn of the loop; an absent verdict is skipped.\<close>

definition breaker_step ::
    "severity \<Rightarrow> severity \<times> jsv list \<Rightarrow> risk_verdict option \<Rightarrow> severity \<times> jsv list" where
  "breaker_step tripAt = (\<lambda>(worst, tripping) v.
     case v of
       None \<Rightarrow> (worst, tripping)
     | Some v \<Rightarrow>
         (if worst < rv_severity v then rv_severity v else worst,
          if tripAt \<le> rv_severity v \<and> \<not> rv_ok v
          then tripping @ [JObj [(''moduleId'', JStr (rv_moduleId v)),
                 (''severity'', JStr (severity_str (rv_severity v))), (''action'', JStr (rv_action v))]]
          else tripping))"

definition evaluateCircuitBreaker :: "risk_verdict option list \<Rightarrow> severity \<Rightarrow> risk_verdict" where
  "evaluateCircuitBreaker verdicts tripAt =
     (let (worst, tripping) = foldl (breaker_step tripAt) (INFO, []) verdicts;
          shouldTrip = (tripping \<noteq> [])
      in \<lparr>rv_moduleId = ''circuit-breaker'',
          rv_ok = (\<not> shouldTrip),
          rv_severity = worst,
          rv_action = (if shouldTrip then ''touch_kill_switch_and_alert'' else ''none''),
          rv_violations = tripping,
          rv_details =
            [(''evaluatedCount'', jnat (length verdicts)),
             (''trippingCount'', jnat (length tripping)),
             (''worstSeverity'', JStr (severity_str worst)),
             (''tripAt'', JStr (severity_str tripAt))]\<rparr>)"

section \<open>Facts\<close>

lemma INFO_least: "INFO \<le> s"
  by (simp add: less_eq_severity_def)

definition seen :: "risk_verdict option list \<Rightarrow> severity set" where
  "seen verdicts = insert INFO {rv_severity v | v. Some v \<in> set verdicts}"

lemma finite_seen [simp]: "finite (seen vs)"
proof -
  have "seen vs \<subseteq> insert INFO ((\<lambda>v. rv_severity (the v)) ` set vs)"
    by (force simp: seen_def)
  then show ?thesis by (rule finite_subset) simp
qed

lemma seen_snoc: "seen (vs @ [x]) = (case x of None \<Rightarrow> seen vs | Some v \<Rightarrow> insert (rv_severity v) (seen vs))"
  by (auto simp: seen_def split: option.splits)

lemma seen_nonempty [simp]: "seen vs \<noteq> {}"
  by (simp add: seen_def)

lemma breaker_step_None [simp]: "breaker_step t st None = st"
  by (cases st) (simp add: breaker_step_def)

lemma breaker_step_fst [simp]: "fst (breaker_step t st (Some v)) = max (fst st) (rv_severity v)"
  by (cases st) (auto simp: breaker_step_def max_def)

lemma breaker_step_snd [simp]:
  "snd (breaker_step t st (Some v)) = [] \<longleftrightarrow> snd st = [] \<and> \<not> (t \<le> rv_severity v \<and> \<not> rv_ok v)"
  by (cases st) (auto simp: breaker_step_def)

lemma breaker_worst: "fst (foldl (breaker_step t) (INFO, []) vs) = Max (seen vs)"
proof (induction vs rule: rev_induct)
  case Nil
  then show ?case by (simp add: seen_def)
next
  case (snoc x vs)
  then show ?case by (cases x) (simp_all add: seen_snoc max.commute)
qed

lemma breaker_tripping:
  "snd (foldl (breaker_step t) (INFO, []) vs) \<noteq> [] \<longleftrightarrow>
     (\<exists>v. Some v \<in> set vs \<and> t \<le> rv_severity v \<and> \<not> rv_ok v)"
proof (induction vs rule: rev_induct)
  case (snoc x vs)
  then show ?case by (cases x) auto
qed simp

lemma share_violation_none:
  "concat (List.map (share_violation k m) xs) = [] \<longleftrightarrow> (\<forall>(i, s)\<in>set xs. \<not> vlt m s)"
  by (auto simp: share_violation_def split: if_splits)

lemma diversification_ok:
  assumes "evaluateDiversification al policy = Inr v" "dv_ok v"
  shows "\<forall>(i, s)\<in>set (al_perStrategy al). \<not> vlt (dot policy ''perStrategyMaxShare'') s"
    "\<forall>(i, s)\<in>set (al_perChain al). i \<in> set OFFICIAL_GATEWAY_DESTINATION_CHAINS
       \<and> \<not> vlt (perChainMaxShareFor i policy) s"
    "\<forall>(i, s)\<in>set (al_perProtocol al). \<not> vlt (dot policy ''perProtocolMaxShare'') s"
    "vle (dot policy ''minSharesForHhi'') (jnat (dv_activeStrategies v)) \<longrightarrow> \<not> vlt (dot policy ''hhiMax'') (JNum (dv_hhi v))"
proof -
  have parts: "concat (List.map (share_violation ''per_strategy_share_exceeded'' (dot policy ''perStrategyMaxShare''))
        (al_perStrategy al)) = []"
    "concat (List.map (\<lambda>(i, share).
        (if i \<notin> set OFFICIAL_GATEWAY_DESTINATION_CHAINS
         then [vkind ''chain_not_gateway_official'' [(''id'', JStr i)]] else [])
        @ share_violation ''per_chain_share_exceeded'' (perChainMaxShareFor i policy) (i, share))
      (al_perChain al)) = []"
    "concat (List.map (share_violation ''per_protocol_share_exceeded'' (dot policy ''perProtocolMaxShare''))
        (al_perProtocol al)) = []"
    "\<not> (vle (dot policy ''minSharesForHhi'') (jnat (dv_activeStrategies v)) \<and> vlt (dot policy ''hhiMax'') (JNum (dv_hhi v)))"
    using assms
    by (auto simp: evaluateDiversification_def Let_def and_then_Inr simp del: concat_eq_Nil_conv concat.simps
        split: if_splits)
  show "\<forall>(i, s)\<in>set (al_perStrategy al). \<not> vlt (dot policy ''perStrategyMaxShare'') s"
    "\<forall>(i, s)\<in>set (al_perProtocol al). \<not> vlt (dot policy ''perProtocolMaxShare'') s"
    using parts(1,3) by (simp_all only: share_violation_none)
  show "\<forall>(i, s)\<in>set (al_perChain al). i \<in> set OFFICIAL_GATEWAY_DESTINATION_CHAINS
       \<and> \<not> vlt (perChainMaxShareFor i policy) s"
    using parts(2) by (auto simp: share_violation_def split: if_splits)
  show "vle (dot policy ''minSharesForHhi'') (jnat (dv_activeStrategies v)) \<longrightarrow> \<not> vlt (dot policy ''hhiMax'') (JNum (dv_hhi v))"
    using parts(4) by blast
qed

section \<open>Properties\<close>

text \<open>C39: the circuit breaker trips exactly when some verdict failed at or above the trip level, and
  it reports the worst severity it was given, info at the least.\<close>

theorem breaker_trips_iff:
  "(rv_action (evaluateCircuitBreaker verdicts tripAt) = ''touch_kill_switch_and_alert'' \<longleftrightarrow>
     (\<exists>v. Some v \<in> set verdicts \<and> tripAt \<le> rv_severity v \<and> \<not> rv_ok v))
   \<and> rv_severity (evaluateCircuitBreaker verdicts tripAt) = Max (seen verdicts)"
  using breaker_worst [of tripAt verdicts] breaker_tripping [of tripAt verdicts]
  by (cases "foldl (breaker_step tripAt) (INFO, []) verdicts")
    (auto simp: evaluateCircuitBreaker_def Let_def)

text \<open>At the committed trip level, an unhealthy protocol or a sustained depeg among the
  verdicts makes the breaker ask for the kill switch, while a liquidity breach alone does not.\<close>

theorem depeg_or_unhealthy_trips:
  "(rv_ok (evaluateProtocolHealth p t) \<longrightarrow> rv_ok (evaluateCircuitBreaker [Some (evaluateProtocolHealth p t)] CIRCUIT_BREAKER_TRIP_AT))
   \<and> (\<not> rv_ok (evaluateProtocolHealth p t) \<longrightarrow> Some (evaluateProtocolHealth p t) \<in> set vs \<longrightarrow>
        rv_action (evaluateCircuitBreaker vs CIRCUIT_BREAKER_TRIP_AT) = ''touch_kill_switch_and_alert'')
   \<and> (\<not> rv_ok (evaluatePegMonitor q t) \<longrightarrow> Some (evaluatePegMonitor q t) \<in> set vs \<longrightarrow>
        rv_action (evaluateCircuitBreaker vs CIRCUIT_BREAKER_TRIP_AT) = ''touch_kill_switch_and_alert'')
   \<and> rv_action (evaluateCircuitBreaker [Some (evaluateLiquidityWatch l t)] CIRCUIT_BREAKER_TRIP_AT) = ''none''"
proof -
  have sev: "\<not> rv_ok (evaluateProtocolHealth p t) \<Longrightarrow> rv_severity (evaluateProtocolHealth p t) = HALT_PROTOCOL"
    "\<not> rv_ok (evaluatePegMonitor q t) \<Longrightarrow> rv_severity (evaluatePegMonitor q t) = UNWIND_ALL"
    "rv_severity (evaluateLiquidityWatch l t) \<le> HALT_STRATEGY"
    by (simp_all add: evaluateProtocolHealth_def evaluatePegMonitor_def evaluateLiquidityWatch_def Let_def
        less_eq_severity_def)
  have act: "rv_action (evaluateCircuitBreaker vs CIRCUIT_BREAKER_TRIP_AT) = ''touch_kill_switch_and_alert''"
    if "Some v \<in> set vs" "\<not> rv_ok v" "HALT_PROTOCOL \<le> rv_severity v" for v
    using that breaker_tripping [of HALT_PROTOCOL vs]
    by (auto simp: evaluateCircuitBreaker_def Let_def CIRCUIT_BREAKER_TRIP_AT_def split: prod.splits)
  show ?thesis
    using sev act
    by (auto simp: evaluateCircuitBreaker_def Let_def CIRCUIT_BREAKER_TRIP_AT_def breaker_step_def
        less_eq_severity_def)
qed

theorem depeg_or_unhealthy_trips_witness:
  "rv_action (evaluateCircuitBreaker
     [Some (evaluatePegMonitor (JObj [(''pegDeviationPct'', JNum (Fin (- 1))), (''pegSustainedMinutes'', JNum (Fin 60))]) JUndef)]
     CIRCUIT_BREAKER_TRIP_AT) = ''touch_kill_switch_and_alert''"
proof -
  let ?q = "JObj [(''pegDeviationPct'', JNum (Fin (- 1))), (''pegSustainedMinutes'', JNum (Fin 60))]"
  have "\<not> rv_ok (evaluatePegMonitor ?q JUndef)" by code_simp
  with depeg_or_unhealthy_trips [of "JObj []" JUndef "[Some (evaluatePegMonitor ?q JUndef)]" ?q "JObj []"]
  show ?thesis by simp
qed

text \<open>The concentration guard lets an intent through only when, with its share added, every
  strategy and protocol is within its maximal share, every chain is an official gateway
  destination within its own maximum, and with enough active strategies the concentration index
  is within bounds.\<close>

theorem concentration_accepts:
  assumes "evaluateConcentrationGuard cur cand policy = Inr v" "rv_ok v" "policy \<noteq> JUndef"
  shows "\<exists>al dv. mergeAllocation (orelse cur (JObj [])) cand = Inr al \<and> evaluateDiversification al policy = Inr dv
    \<and> (\<forall>(i, s)\<in>set (al_perStrategy al). \<not> vlt (dot policy ''perStrategyMaxShare'') s)
    \<and> (\<forall>(i, s)\<in>set (al_perChain al). i \<in> set OFFICIAL_GATEWAY_DESTINATION_CHAINS
         \<and> \<not> vlt (perChainMaxShareFor i policy) s)
    \<and> (\<forall>(i, s)\<in>set (al_perProtocol al). \<not> vlt (dot policy ''perProtocolMaxShare'') s)
    \<and> (vle (dot policy ''minSharesForHhi'') (jnat (dv_activeStrategies dv)) \<longrightarrow>
         \<not> vlt (dot policy ''hhiMax'') (JNum (dv_hhi dv)))"
proof -
  obtain al dv where "mergeAllocation (orelse cur (JObj [])) cand = Inr al"
      "evaluateDiversification al policy = Inr dv" "dv_ok dv"
    using assms
    by (auto simp: evaluateConcentrationGuard_def canAcceptNewAllocation_def and_then_Inr default_arg_def
        split: if_splits)
  then show ?thesis using diversification_ok [of al policy dv] by blast
qed

definition sample_shares_policy :: jsv where
  "sample_shares_policy = JObj
     [(''perStrategyMaxShare'', JNum (Fin 1)), (''perChainMaxShare'', JNum (Fin 1)),
      (''perProtocolMaxShare'', JNum (Fin 1)), (''hhiMax'', JNum (Fin 1)),
      (''bobL2DirectMaxShare'', JNum (Fin 1)), (''minSharesForHhi'', JNum (Fin 2))]"

definition sample_candidate :: jsv where
  "sample_candidate = JObj [(''strategyId'', JStr ''s''), (''chainId'', JStr ''base''), (''addShare'', JNum (Fin 1))]"

theorem concentration_accepts_witness:
  "\<exists>al. mergeAllocation (JObj []) sample_candidate = Inr al
     \<and> (\<forall>(i, s)\<in>set (al_perStrategy al). \<not> vlt (dot sample_shares_policy ''perStrategyMaxShare'') s)"
proof -
  let ?al = "\<lparr>al_perStrategy = [(''s'', JNum (Fin 1))], al_perChain = [(''base'', JNum (Fin 1))],
     al_perProtocol = [], al_bobL2DirectShare = Fin 0\<rparr>"
  have merge: "mergeAllocation (JObj []) sample_candidate = Inr ?al"
    by (simp add: mergeAllocation_def sample_candidate_def Let_def add_to_def plus_share_def to_prim_def
        set_fld_def rnd_1)
  have cap: "perChainMaxShareFor ''base'' sample_shares_policy = JNum (Fin 1)"
    by (simp add: perChainMaxShareFor_def sample_shares_policy_def)
  have "computeHhi [(''s'', JNum (Fin 1))] False = Inr (Fin 1)"
    by (simp add: computeHhi_def sumShares_def valid_share_def jsum_def jmul_def rnd_1)
  moreover have "''base'' \<in> set OFFICIAL_GATEWAY_DESTINATION_CHAINS"
    by (simp add: OFFICIAL_GATEWAY_DESTINATION_CHAINS_def)
  ultimately have "\<exists>dv. evaluateDiversification ?al sample_shares_policy = Inr dv \<and> dv_ok dv"
    by (simp add: evaluateDiversification_def Let_def share_violation_def cap jnat_def rnd_1)
      (simp add: sample_shares_policy_def rnd_1)
  moreover have arg: "sample_shares_policy \<noteq> JUndef" "truthy sample_candidate"
    by (simp_all add: sample_candidate_def sample_shares_policy_def)
  ultimately obtain v where v: "evaluateConcentrationGuard JNull sample_candidate sample_shares_policy = Inr v" "rv_ok v"
    using arg by (auto simp: evaluateConcentrationGuard_def canAcceptNewAllocation_def merge default_arg_def)
  from concentration_accepts [OF v arg(1)] show ?thesis by auto
qed

end
