(* ===== verification/AutoKill.thy ===== *)
theory AutoKill
  imports FailureStreak
begin

text \<open>
  src/src/risk/auto-kill-triggers.mjs and buildAutoKillConfig of src/src/config/auto-kill.mjs: the
  triggers of the automatic kill switch. The evaluator is pure apart from an optional incident
  file, whose parsed contents (or their absence) are a parameter. A trigger is the object the
  code returns, \<open>None\<close> where it returns null; the time of the evaluation is a number of
  milliseconds.

  The lemmas: the failure burst fires exactly at its thresholds, a disabled section never fires, and
  what an evaluation that does not trigger guarantees under the committed thresholds.
\<close>

section \<open>Configuration\<close>

definition auto_kill_sections :: "string list" where
  "auto_kill_sections =
     [''cumulativeLoss'', ''failureBurst'', ''oracleDivergence'', ''heartbeat'', ''relativePriceMove'',
      ''clRangeHealth'', ''protocolIncident'', ''campaignDecay'']"

definition buildAutoKillConfig :: "jsv \<Rightarrow> jsv" where
  "buildAutoKillConfig overrides = JObj (List.map (\<lambda>k.
     (k, JObj (spread (fields_of (dot AUTO_KILL_DEFAULTS k))
               (fields_of (orelse (dot overrides k) (JObj [])))))) auto_kill_sections)"

section \<open>Losses and failures\<close>

definition recordTimestampMs :: "jsv \<Rightarrow> jsnum" where
  "recordTimestampMs record = (let t = recordTimestamp record in if is_fin t then t else Fin 0)"

definition isFailure :: "jsv \<Rightarrow> bool" where
  "isFailure record \<longleftrightarrow>
     classifyConsecutiveFailureRecord record \<in> {Some BroadcastFailed, Some NoTxFailure}"

definition realizedLossUsd :: "jsv \<Rightarrow> jsnum" where
  "realizedLossUsd record =
     (let realized = orelse (dot record ''realized'') (JObj []);
          value = to_num (first_present [dot realized ''netUsd'', dot realized ''netPnLUsd'', JNum (Fin 0)])
      in if \<not> is_fin value then Fin 0 else if jlt value (Fin 0) then jneg value else Fin 0)"

definition since :: "jsnum \<Rightarrow> jsv \<Rightarrow> jsv list \<Rightarrow> jsv list" where
  "since nowMs config records =
     (let cutoff = jsub nowMs (to_num (dot config ''windowMs''))
      in List.filter (\<lambda>r. \<not> jlt (recordTimestampMs r) cutoff) records)"

definition loss_threshold :: "jsv \<Rightarrow> jsv \<Rightarrow> jsnum" where
  "loss_threshold config operatingCapitalUsd =
     (let fractionThreshold =
            (if is_finite operatingCapitalUsd \<and> vlt (JNum (Fin 0)) operatingCapitalUsd
             then jmul (to_num operatingCapitalUsd) (to_num (dot config ''operatingCapitalFractionFloor''))
             else PosInf)
      in jmin (to_num (dot config ''thresholdUsd'')) fractionThreshold)"

definition evaluateCumulativeLoss :: "jsv list \<Rightarrow> jsv \<Rightarrow> jsv \<Rightarrow> jsnum \<Rightarrow> jsv option" where
  "evaluateCumulativeLoss auditRecords config operatingCapitalUsd nowMs =
     (if \<not> truthy (dot config ''enabled'') then None
      else
        let lossUsd = jsum (List.map realizedLossUsd (since nowMs config auditRecords));
            effectiveThreshold = loss_threshold config operatingCapitalUsd
        in if jlt lossUsd effectiveThreshold then None
           else Some (JObj
             [(''trigger'', JStr ''cumulative_loss''), (''lossUsd'', JNum lossUsd),
              (''thresholdUsd'', JNum effectiveThreshold), (''windowMs'', dot config ''windowMs'')]))"

definition count_for :: "(jsv \<times> nat) list \<Rightarrow> jsv \<Rightarrow> (jsv \<times> nat) list" where
  "count_for perStrategy record =
     (let i = orelse (dot record ''strategyId'') (JStr ''unknown'')
      in AList.update i (Suc (case map_of perStrategy i of Some n \<Rightarrow> n | None \<Rightarrow> 0)) perStrategy)"

definition evaluateFailureBurst :: "jsv list \<Rightarrow> jsv \<Rightarrow> jsnum \<Rightarrow> jsv option" where
  "evaluateFailureBurst auditRecords config nowMs =
     (if \<not> truthy (dot config ''enabled'') then None
      else
        let failures = List.filter isFailure (since nowMs config auditRecords);
            totalFailures = length failures;
            perStrategy = foldl count_for [] failures
        in if vle (dot config ''failureCount'') (jnat totalFailures)
           then Some (JObj
             [(''trigger'', JStr ''failure_burst_total''), (''failureCount'', jnat totalFailures),
              (''threshold'', dot config ''failureCount''), (''windowMs'', dot config ''windowMs'')])
           else map_option (\<lambda>(strategyId, count). JObj
               [(''trigger'', JStr ''failure_burst_per_strategy''), (''strategyId'', strategyId),
                (''failureCount'', jnat count),
                (''threshold'', dot config ''perStrategyFailureCount''),
                (''windowMs'', dot config ''windowMs'')])
             (List.find (\<lambda>(_, count). vle (dot config ''perStrategyFailureCount'') (jnat count))
               perStrategy))"

section \<open>Prices\<close>

definition group_by :: "('a \<Rightarrow> jsv) \<Rightarrow> 'a list \<Rightarrow> (jsv \<times> 'a list) list" where
  "group_by key xs = foldl (\<lambda>g x.
     AList.update (key x) ((case map_of g (key x) of Some ys \<Rightarrow> ys | None \<Rightarrow> []) @ [x]) g) [] xs"

definition median_of :: "jsnum list \<Rightarrow> jsnum" where
  "median_of xs =
     (let sorted = sort_by (\<lambda>left right. jsub left right) xs; midpoint = length sorted div 2
      in if length sorted mod 2 = 1 then sorted ! midpoint
         else jdiv (jadd (sorted ! (midpoint - 1)) (sorted ! midpoint)) (Fin 2))"

definition min_of :: "jsnum list \<Rightarrow> jsnum" where
  "min_of xs = foldl jmin PosInf xs"

definition max_of :: "jsnum list \<Rightarrow> jsnum" where
  "max_of xs = foldl jmax NegInf xs"

definition usable_price :: "jsv \<Rightarrow> bool" where
  "usable_price s \<longleftrightarrow> is_fin (to_num (dot s ''priceUsd'')) \<and> jlt (Fin 0) (to_num (dot s ''priceUsd''))"

definition pair_divergence :: "jsv \<Rightarrow> jsv \<times> jsv list \<Rightarrow> jsv option" where
  "pair_divergence config = (\<lambda>(pair, pairSamples).
     let bySource = group_by (\<lambda>s. orelse (dot s ''source'') (JStr ''unknown''))
           (List.filter usable_price pairSamples);
         prices = List.map (\<lambda>(_, ss). median_of (List.map (\<lambda>s. to_num (dot s ''priceUsd'')) ss)) bySource;
         lo = min_of prices; hi = max_of prices;
         divergence = jdiv (jsub hi lo) lo
     in if vlt (jnat (length bySource)) (dot config ''minSourceCount'') then None
        else if vle (dot config ''maxDivergencePct'') (JNum divergence)
        then Some (JObj
          [(''trigger'', JStr ''oracle_divergence''), (''pair'', pair), (''divergence'', JNum divergence),
           (''threshold'', dot config ''maxDivergencePct''), (''minPriceUsd'', JNum lo),
           (''maxPriceUsd'', JNum hi), (''sources'', JArr (List.map fst bySource))])
        else None)"

fun first_trigger :: "('a \<Rightarrow> jsv option) \<Rightarrow> 'a list \<Rightarrow> jsv option" where
  "first_trigger f [] = None"
| "first_trigger f (x # xs) = (case f x of Some t \<Rightarrow> Some t | None \<Rightarrow> first_trigger f xs)"

definition evaluateOracleDivergence :: "jsv \<Rightarrow> jsv \<Rightarrow> jsv option" where
  "evaluateOracleDivergence samples config =
     (if \<not> truthy (dot config ''enabled'') then None
      else if \<not> is_arr samples \<or> vlt (jnat (length (elems samples))) (dot config ''minSourceCount'') then None
      else first_trigger (pair_divergence config)
        (group_by (\<lambda>s. orelse (dot s ''pair'') (JStr ''unknown'')) (elems samples)))"

definition evaluateHeartbeat :: "jsv \<Rightarrow> jsv \<Rightarrow> jsnum \<Rightarrow> jsv option" where
  "evaluateHeartbeat heartbeatAtMs config nowMs =
     (if \<not> truthy (dot config ''enabled'') then None
      else if \<not> is_finite heartbeatAtMs then None
      else
        let ageMs = jsub nowMs (to_num heartbeatAtMs)
        in if vlt (JNum ageMs) (dot config ''maxAgeMs'') then None
           else Some (JObj [(''trigger'', JStr ''heartbeat_stale''), (''ageMs'', JNum ageMs),
             (''threshold'', dot config ''maxAgeMs'')]))"

definition sampleTimestampMs :: "jsv \<Rightarrow> jsnum option" where
  "sampleTimestampMs sample =
     (let value = first_present [dot sample ''timestamp'', dot sample ''observedAt'', JNull]
      in if is_finite value then Some (to_num value)
         else finite_time (date_of (orelse value (JNum (Fin 0)))))"

definition samplePairMatches :: "jsv \<Rightarrow> jsv \<Rightarrow> bool" where
  "samplePairMatches sample pair =
     (if \<not> truthy pair then True else if \<not> truthy (dot sample ''pair'') then True
      else strict_eq (dot sample ''pair'') pair)"

text \<open>The samples that count: (time, price), oldest first.\<close>

definition priced_samples :: "jsv list \<Rightarrow> jsv \<Rightarrow> jsnum \<Rightarrow> (jsnum \<times> jsnum) list" where
  "priced_samples priceSamples config nowMs =
     (let cutoff = jsub nowMs (to_num (dot config ''windowMs''))
      in sort_by (\<lambda>a b. jsub (fst a) (fst b))
           (List.filter (\<lambda>(t, _). jle cutoff t)
             (List.map (\<lambda>s. (the (sampleTimestampMs s), to_num (dot s ''priceUsd'')))
               (List.filter (\<lambda>s. sampleTimestampMs s \<noteq> None \<and> is_fin (to_num (dot s ''priceUsd'')))
                 (List.filter (\<lambda>s. samplePairMatches s (dot config ''pair'')) priceSamples)))))"

definition iso_at :: "jsnum \<Rightarrow> string throws" where
  "iso_at t = to_iso (case t of Fin x \<Rightarrow> time_clip (trunc x) | _ \<Rightarrow> NaN)"

definition evaluateRelativePriceMove :: "jsv \<Rightarrow> jsv \<Rightarrow> jsnum \<Rightarrow> jsv option throws" where
  "evaluateRelativePriceMove priceSamples config nowMs =
     (if \<not> truthy (dot config ''enabled'') then Inr None
      else if \<not> is_arr priceSamples \<or> length (elems priceSamples) < 2 then Inr None
      else
        let valid = priced_samples (elems priceSamples) config nowMs;
            maxCurrentAgeMs = to_num (dot config ''maxCurrentAgeMs'');
            latest = fst (last valid);
            lo = min_of (List.map snd valid); hi = max_of (List.map snd valid);
            move = jdiv (jsub hi lo) lo
        in if valid \<noteq> [] \<and> is_fin maxCurrentAgeMs \<and> jle (Fin 0) maxCurrentAgeMs
              \<and> jlt maxCurrentAgeMs (jsub nowMs latest)
           then and_then (iso_at latest) (\<lambda>stamp. Inr (Some (JObj
             [(''trigger'', JStr ''relative_price_stale''), (''pair'', dot config ''pair''),
              (''ageMs'', JNum (jsub nowMs latest)), (''threshold'', JNum maxCurrentAgeMs),
              (''windowMs'', dot config ''windowMs''), (''sampleCount'', jnat (length valid)),
              (''latestSampleAt'', JStr stamp)])))
           else if length valid < 2 then Inr None
           else if jle lo (Fin 0) then Inr None
           else if vle (JNum move) (dot config ''maxMovePct'') then Inr None
           else Inr (Some (JObj
             [(''trigger'', JStr ''relative_price_move''), (''pair'', dot config ''pair''),
              (''move'', JNum move), (''threshold'', dot config ''maxMovePct''),
              (''windowMs'', dot config ''windowMs''), (''sampleCount'', jnat (length valid))])))"

section \<open>Positions, protocols, campaigns\<close>

definition cl_trigger :: "string \<Rightarrow> string \<Rightarrow> jsv \<Rightarrow> jsv \<Rightarrow> jsv" where
  "cl_trigger reason k v threshold = JObj
     [(''trigger'', JStr ''cl_range_health''), (''reason'', JStr reason), (k, v), (''threshold'', threshold)]"

definition evaluateClRangeHealth :: "jsv \<Rightarrow> jsv \<Rightarrow> jsv option" where
  "evaluateClRangeHealth clStatus config =
     (if \<not> truthy (dot config ''enabled'') then None
      else
        let timeInRange = dot clStatus ''timeInRangePct24h''; ilHours = dot clStatus ''ilExceedsFeesHours''
        in if \<not> is_finite timeInRange \<and> \<not> is_finite ilHours then None
           else if is_finite timeInRange \<and> vlt timeInRange (dot config ''minTimeInRangePct24h'')
           then Some (cl_trigger ''time_in_range_low'' ''timeInRangePct24h'' timeInRange
             (dot config ''minTimeInRangePct24h''))
           else if is_finite ilHours \<and> vlt (dot config ''maxIlExceedsFeesHours'') ilHours
           then Some (cl_trigger ''il_exceeds_fees'' ''ilExceedsFeesHours'' ilHours
             (dot config ''maxIlExceedsFeesHours''))
           else None)"

definition includes_value :: "jsv list \<Rightarrow> jsv \<Rightarrow> bool" where
  "includes_value xs v \<longleftrightarrow> (\<exists>x\<in>set xs. strict_eq x v \<or> x = JNum NaN \<and> v = JNum NaN)"

definition evaluateProtocolIncident :: "jsv \<Rightarrow> jsv \<Rightarrow> jsv option \<Rightarrow> jsv option" where
  "evaluateProtocolIncident activeProtocols config incidentFile =
     (if \<not> truthy (dot config ''enabled'') then None
      else
        let hit = (\<lambda>incidentList.
          if \<not> is_arr incidentList \<or> elems incidentList = [] then None
          else if \<not> is_arr activeProtocols \<or> elems activeProtocols = [] then None
          else case List.find (\<lambda>p. includes_value (elems incidentList) p) (elems activeProtocols) of
              None \<Rightarrow> None
            | Some p \<Rightarrow> if \<not> truthy p then None
                else Some (JObj [(''trigger'', JStr ''protocol_incident''), (''protocol'', p),
                  (''incidentList'', incidentList)]))
        in if truthy (dot config ''incidentFilePath'')
           then (case incidentFile of
               None \<Rightarrow> None
             | Some parsed \<Rightarrow> hit (if is_arr parsed then parsed else JArr []))
           else hit (orelse (dot config ''incidentList'') (JArr [])))"

text \<open>One of the three ratios, when both values are numbers, the entry is positive and it decayed.\<close>

definition decayed :: "jsv \<Rightarrow> jsv \<Rightarrow> jsv \<Rightarrow> jsnum option" where
  "decayed entry current exitPct =
     (if is_finite entry \<and> is_finite current \<and> vlt (JNum (Fin 0)) entry
      then let ratio = jdiv (to_num current) (to_num entry)
           in if jlt ratio (jsub (Fin 1) (to_num exitPct)) then Some ratio else None
      else None)"

definition evaluateCampaignDecay :: "jsv \<Rightarrow> jsv \<Rightarrow> jsv option" where
  "evaluateCampaignDecay campaignStatus config =
     (if \<not> truthy (dot config ''enabled'') then None
      else
        let c = dot campaignStatus;
            answer = (\<lambda>reason ratio. JObj [(''trigger'', JStr ''campaign_decay''), (''reason'', JStr reason),
              (''ratio'', JNum ratio), (''config'', config)])
        in case decayed (c ''entryAprPct'') (c ''currentAprPct'') (dot config ''aprDecayExitPct'') of
            Some ratio \<Rightarrow> Some (answer ''apr_decay'' ratio)
          | None \<Rightarrow> (case decayed (c ''entryTvlUsd'') (c ''currentTvlUsd'') (dot config ''tvlDrainExitPct'') of
              Some ratio \<Rightarrow> Some (answer ''tvl_drain'' ratio)
            | None \<Rightarrow> (case decayed (c ''rewardTokenEntryPriceUsd'') (c ''rewardTokenCurrentPriceUsd'')
                  (dot config ''rewardTokenDropExitPct'') of
                Some ratio \<Rightarrow> Some (answer ''reward_token_drop'' ratio)
              | None \<Rightarrow> None)))"

section \<open>The evaluator\<close>

record auto_kill_input =
  ak_auditRecords :: "jsv list"
  ak_oracleSamples :: jsv
  ak_heartbeatAtMs :: jsv
  ak_operatingCapitalUsd :: jsv
  ak_priceSamples :: jsv
  ak_clStatus :: jsv
  ak_activeProtocols :: jsv
  ak_campaignStatus :: jsv
  ak_config :: jsv
  ak_nowMs :: jsnum
  ak_incidentFile :: "jsv option"

definition ak_section :: "auto_kill_input \<Rightarrow> string \<Rightarrow> jsv" where
  "ak_section a k =
     dot (if ak_config a = JUndef then buildAutoKillConfig (JObj []) else ak_config a) k"

record auto_kill_verdict =
  akv_evaluatedAt :: string
  akv_triggered :: bool
  akv_triggers :: "jsv list"

definition auto_kill_triggers :: "auto_kill_input \<Rightarrow> jsv option \<Rightarrow> jsv option list" where
  "auto_kill_triggers a priceTrigger =
     [evaluateCumulativeLoss (ak_auditRecords a) (ak_section a ''cumulativeLoss'')
        (ak_operatingCapitalUsd a) (ak_nowMs a),
      evaluateFailureBurst (ak_auditRecords a) (ak_section a ''failureBurst'') (ak_nowMs a),
      evaluateOracleDivergence (ak_oracleSamples a) (ak_section a ''oracleDivergence''),
      evaluateHeartbeat (ak_heartbeatAtMs a) (ak_section a ''heartbeat'') (ak_nowMs a),
      priceTrigger,
      evaluateClRangeHealth (ak_clStatus a) (ak_section a ''clRangeHealth''),
      evaluateProtocolIncident (ak_activeProtocols a) (ak_section a ''protocolIncident'')
        (ak_incidentFile a),
      evaluateCampaignDecay (ak_campaignStatus a) (ak_section a ''campaignDecay'')]"

definition evaluateAutoKillTriggers :: "auto_kill_input \<Rightarrow> auto_kill_verdict throws" where
  "evaluateAutoKillTriggers a =
     and_then (evaluateRelativePriceMove (ak_priceSamples a) (ak_section a ''relativePriceMove'') (ak_nowMs a))
       (\<lambda>priceTrigger.
         let triggers = List.map the (List.filter (\<lambda>t. t \<noteq> None) (auto_kill_triggers a priceTrigger))
         in and_then (iso_at (ak_nowMs a)) (\<lambda>evaluatedAt.
           Inr \<lparr>akv_evaluatedAt = evaluatedAt, akv_triggered = (triggers \<noteq> []), akv_triggers = triggers\<rparr>))"

section \<open>Facts\<close>

lemma since_disabled:
  assumes "\<not> truthy (dot config ''enabled'')"
  shows "evaluateCumulativeLoss a config c n = None" "evaluateFailureBurst a config n = None"
    "evaluateOracleDivergence s config = None" "evaluateHeartbeat h config n = None"
    "evaluateRelativePriceMove s config n = Inr None" "evaluateClRangeHealth s config = None"
    "evaluateProtocolIncident p config f = None" "evaluateCampaignDecay s config = None"
  using assms
  by (simp_all add: evaluateCumulativeLoss_def evaluateFailureBurst_def evaluateOracleDivergence_def
      evaluateHeartbeat_def evaluateRelativePriceMove_def evaluateClRangeHealth_def
      evaluateProtocolIncident_def evaluateCampaignDecay_def)

lemma realizedLossUsd_nonneg: "jle (Fin 0) (realizedLossUsd r)"
  by (auto simp: realizedLossUsd_def Let_def elim!: is_finE)

text \<open>The per-strategy counts are the numbers of failures with that strategy.\<close>

definition id_of :: "jsv \<Rightarrow> jsv" where
  "id_of record = orelse (dot record ''strategyId'') (JStr ''unknown'')"

lemma count_for_lookup:
  "map_of (foldl count_for [] rs) i =
     (let n = length (List.filter (\<lambda>r. id_of r = i) rs) in if n = 0 then None else Some n)"
proof (induction rs rule: rev_induct)
  case (snoc r rs)
  then show ?case
    by (auto simp: count_for_def Let_def id_of_def update_conv' split: if_splits)
qed simp

lemma count_for_distinct: "distinct (List.map fst (foldl count_for [] rs))"
  by (induction rs rule: rev_induct) (auto simp: count_for_def Let_def distinct_update)

lemma per_strategy_counts:
  "(i, n) \<in> set (foldl count_for [] rs) \<longleftrightarrow> 0 < n \<and> n = length (List.filter (\<lambda>r. id_of r = i) rs)"
proof -
  have "(i, n) \<in> set (foldl count_for [] rs) \<longleftrightarrow> map_of (foldl count_for [] rs) i = Some n"
    using count_for_distinct by (metis map_of_SomeD map_of_is_SomeI)
  then show ?thesis by (auto simp: count_for_lookup Let_def)
qed

section \<open>Properties\<close>

text \<open>The failure-burst trigger fires exactly when it is enabled and, within the window, either all
  failures together reach the total limit or the failures of one strategy reach its limit.\<close>

theorem failure_burst_iff:
  assumes "dot config ''failureCount'' = JNum (jint a)" "dot config ''perStrategyFailureCount'' = JNum (jint b)"
    "0 < b" "\<bar>a\<bar> \<le> 2 ^ 53" "b \<le> 2 ^ 53" "length records \<le> 2 ^ 53"
  shows "evaluateFailureBurst records config nowMs \<noteq> None \<longleftrightarrow>
     truthy (dot config ''enabled'')
     \<and> (a \<le> int (length (List.filter isFailure (since nowMs config records)))
        \<or> (\<exists>i. b \<le> int (length (List.filter (\<lambda>r. id_of r = i) (List.filter isFailure (since nowMs config records))))))"
proof -
  let ?fs = "List.filter isFailure (since nowMs config records)"
  have len: "length ?fs \<le> 2 ^ 53"
  proof -
    have "length ?fs \<le> length (since nowMs config records)" by simp
    also have "\<dots> \<le> length records" by (simp add: since_def Let_def)
    finally show ?thesis using assms(6) by simp
  qed
  have cmp: "vle (JNum (jint c)) (jnat n) \<longleftrightarrow> c \<le> int n" if "\<bar>c\<bar> \<le> 2 ^ 53" "n \<le> 2 ^ 53" for c n
  proof -
    have "rnd (of_int c) = Fin (of_int c)" "rnd (of_int (int n)) = Fin (of_int (int n))"
      using that rnd_int [of c] rnd_int [of "int n"] by simp_all
    then have "vle (JNum (jint c)) (jnat n) \<longleftrightarrow> (of_int c :: rat) \<le> of_int (int n)"
      by (simp add: jnat_def jint_def)
    then show ?thesis by (simp only: of_int_le_iff)
  qed
  have some: "(\<exists>x\<in>set (foldl count_for [] ?fs). vle (JNum (jint b)) (jnat (snd x)))
      \<longleftrightarrow> (\<exists>i. b \<le> int (length (List.filter (\<lambda>r. id_of r = i) ?fs)))"
  proof -
    have sub: "length (List.filter (\<lambda>r. id_of r = i) ?fs) \<le> 2 ^ 53" for i
      using len length_filter_le [of "\<lambda>r. id_of r = i" ?fs] by linarith
    show ?thesis
    proof
      assume "\<exists>x\<in>set (foldl count_for [] ?fs). vle (JNum (jint b)) (jnat (snd x))"
      then obtain i n where n: "(i, n) \<in> set (foldl count_for [] ?fs)" "vle (JNum (jint b)) (jnat n)" by auto
      then have "n = length (List.filter (\<lambda>r. id_of r = i) ?fs)" by (simp only: per_strategy_counts)
      with n(2) have "b \<le> int (length (List.filter (\<lambda>r. id_of r = i) ?fs))"
        using cmp [of b n] sub [of i] assms(3,5) by simp
      then show "\<exists>i. b \<le> int (length (List.filter (\<lambda>r. id_of r = i) ?fs))" by blast
    next
      assume "\<exists>i. b \<le> int (length (List.filter (\<lambda>r. id_of r = i) ?fs))"
      then obtain i where i: "b \<le> int (length (List.filter (\<lambda>r. id_of r = i) ?fs))" by blast
      let ?n = "length (List.filter (\<lambda>r. id_of r = i) ?fs)"
      have "0 < ?n" using i assms(3) by linarith
      then have "(i, ?n) \<in> set (foldl count_for [] ?fs)" by (simp only: per_strategy_counts simp_thms)
      moreover have "vle (JNum (jint b)) (jnat ?n)" using i cmp [of b ?n] sub [of i] assms(3,5) by simp
      ultimately show "\<exists>x\<in>set (foldl count_for [] ?fs). vle (JNum (jint b)) (jnat (snd x))"
        by (intro bexI [of _ "(i, ?n)"]) simp_all
    qed
  qed
  have tot: "vle (JNum (jint a)) (jnat (length ?fs)) \<longleftrightarrow> a \<le> int (length ?fs)"
    by (rule cmp [OF assms(4) len])
  have found: "List.find (\<lambda>(_, count). vle (JNum (jint b)) (jnat count)) xs \<noteq> None
      \<longleftrightarrow> (\<exists>x\<in>set xs. vle (JNum (jint b)) (jnat (snd x)))" for xs :: "(jsv \<times> nat) list"
    by (induction xs) auto
  have "evaluateFailureBurst records config nowMs \<noteq> None \<longleftrightarrow> truthy (dot config ''enabled'')
      \<and> (vle (JNum (jint a)) (jnat (length ?fs))
         \<or> (\<exists>x\<in>set (foldl count_for [] ?fs). vle (JNum (jint b)) (jnat (snd x))))"
    by (simp add: evaluateFailureBurst_def Let_def assms(1,2) found del: not_None_eq)
  then show ?thesis unfolding tot some .
qed

theorem failure_burst_iff_witness:
  "evaluateFailureBurst [] (JObj [(''enabled'', JBool True), (''failureCount'', JNum (jint 8)),
     (''perStrategyFailureCount'', JNum (jint 5))]) (Fin 0) = None"
proof -
  let ?c = "JObj [(''enabled'', JBool True), (''failureCount'', JNum (jint 8)),
     (''perStrategyFailureCount'', JNum (jint 5))]"
  have "evaluateFailureBurst [] ?c (Fin 0) \<noteq> None \<longleftrightarrow> truthy (dot ?c ''enabled'')
     \<and> (8 \<le> int (length (List.filter isFailure (since (Fin 0) ?c [])))
        \<or> (\<exists>i. 5 \<le> int (length (List.filter (\<lambda>r. id_of r = i) (List.filter isFailure (since (Fin 0) ?c []))))))"
    by (rule failure_burst_iff) simp_all
  then show ?thesis by (simp add: since_def)
qed

section \<open>The committed thresholds\<close>

lemma default_sections:
  assumes "ak_config a = JUndef" "k \<in> set auto_kill_sections"
  shows "ak_section a k = dot AUTO_KILL_DEFAULTS k"
  using assms by (auto simp: ak_section_def buildAutoKillConfig_def auto_kill_sections_def AUTO_KILL_DEFAULTS_def spread_def)

lemma default_numbers:
  "dots AUTO_KILL_DEFAULTS [k, ''enabled''] = (if k \<in> set auto_kill_sections then JBool True else JUndef)"
  "dots AUTO_KILL_DEFAULTS [''cumulativeLoss'', ''windowMs''] = JNum (Fin 86400000)"
  "dots AUTO_KILL_DEFAULTS [''cumulativeLoss'', ''thresholdUsd''] = JNum (Fin 1000)"
  "dots AUTO_KILL_DEFAULTS [''cumulativeLoss'', ''operatingCapitalFractionFloor''] = JNum (lit 5 100)"
  "dots AUTO_KILL_DEFAULTS [''failureBurst'', ''windowMs''] = JNum (Fin 300000)"
  "dots AUTO_KILL_DEFAULTS [''failureBurst'', ''failureCount''] = JNum (jint 8)"
  "dots AUTO_KILL_DEFAULTS [''failureBurst'', ''perStrategyFailureCount''] = JNum (jint 5)"
  "dots AUTO_KILL_DEFAULTS [''oracleDivergence'', ''minSourceCount''] = JNum (jint 2)"
  "dots AUTO_KILL_DEFAULTS [''oracleDivergence'', ''maxDivergencePct''] = JNum (lit 5 100)"
  "dots AUTO_KILL_DEFAULTS [''heartbeat'', ''maxAgeMs''] = JNum (Fin 60000)"
  "dots AUTO_KILL_DEFAULTS [''relativePriceMove'', ''maxCurrentAgeMs''] = JNum (Fin 1800000)"
  "dots AUTO_KILL_DEFAULTS [''relativePriceMove'', ''maxMovePct''] = JNum (lit 15 100)"
  "dots AUTO_KILL_DEFAULTS [''clRangeHealth'', ''minTimeInRangePct24h''] = JNum (lit 80 100)"
  "dots AUTO_KILL_DEFAULTS [''clRangeHealth'', ''maxIlExceedsFeesHours''] = JNum (Fin 24)"
  "dots AUTO_KILL_DEFAULTS [''campaignDecay'', ''aprDecayExitPct''] = JNum (lit 50 100)"
  "dots AUTO_KILL_DEFAULTS [''campaignDecay'', ''tvlDrainExitPct''] = JNum (lit 30 100)"
  "dots AUTO_KILL_DEFAULTS [''campaignDecay'', ''rewardTokenDropExitPct''] = JNum (lit 25 100)"
  by (auto simp: AUTO_KILL_DEFAULTS_def auto_kill_sections_def dots_def jint_def jmul_def rnd_numeral)

lemmas default_number = default_numbers [unfolded dots_def foldl_Cons foldl_Nil]

text \<open>The committed configuration names no incident file and no incident list: that trigger cannot fire.\<close>

lemma protocol_incident_never_fires:
  "evaluateProtocolIncident activeProtocols (dot AUTO_KILL_DEFAULTS ''protocolIncident'') incidentFile = None"
  by (simp add: evaluateProtocolIncident_def Let_def AUTO_KILL_DEFAULTS_def orelse_def)

text \<open>The parts of an evaluation that did not trigger.\<close>

lemma untriggered_parts:
  assumes "evaluateAutoKillTriggers a = Inr v" "\<not> akv_triggered v"
  shows "evaluateRelativePriceMove (ak_priceSamples a) (ak_section a ''relativePriceMove'') (ak_nowMs a) = Inr None"
    "evaluateCumulativeLoss (ak_auditRecords a) (ak_section a ''cumulativeLoss'') (ak_operatingCapitalUsd a) (ak_nowMs a) = None"
    "evaluateFailureBurst (ak_auditRecords a) (ak_section a ''failureBurst'') (ak_nowMs a) = None"
    "evaluateHeartbeat (ak_heartbeatAtMs a) (ak_section a ''heartbeat'') (ak_nowMs a) = None"
    "evaluateClRangeHealth (ak_clStatus a) (ak_section a ''clRangeHealth'') = None"
    "evaluateCampaignDecay (ak_campaignStatus a) (ak_section a ''campaignDecay'') = None"
    "evaluateOracleDivergence (ak_oracleSamples a) (ak_section a ''oracleDivergence'') = None"
proof -
  obtain p where p: "evaluateRelativePriceMove (ak_priceSamples a) (ak_section a ''relativePriceMove'') (ak_nowMs a) = Inr p"
    and v: "List.filter (\<lambda>t. t \<noteq> None) (auto_kill_triggers a p) = []"
    using assms by (auto simp: evaluateAutoKillTriggers_def and_then_Inr Let_def simp del: not_None_eq)
  have none: "t = None" if "t \<in> set (auto_kill_triggers a p)" for t
    using v that by (simp add: filter_empty_conv del: not_None_eq)
  show "evaluateRelativePriceMove (ak_priceSamples a) (ak_section a ''relativePriceMove'') (ak_nowMs a) = Inr None"
    using p none [of p] by (simp add: auto_kill_triggers_def)
  show "evaluateCumulativeLoss (ak_auditRecords a) (ak_section a ''cumulativeLoss'') (ak_operatingCapitalUsd a) (ak_nowMs a) = None"
    "evaluateFailureBurst (ak_auditRecords a) (ak_section a ''failureBurst'') (ak_nowMs a) = None"
    "evaluateHeartbeat (ak_heartbeatAtMs a) (ak_section a ''heartbeat'') (ak_nowMs a) = None"
    "evaluateClRangeHealth (ak_clStatus a) (ak_section a ''clRangeHealth'') = None"
    "evaluateCampaignDecay (ak_campaignStatus a) (ak_section a ''campaignDecay'') = None"
    "evaluateOracleDivergence (ak_oracleSamples a) (ak_section a ''oracleDivergence'') = None"
    by (rule none, simp add: auto_kill_triggers_def)+
qed

definition losses_since :: "jsnum \<Rightarrow> jsv list \<Rightarrow> jsnum" where
  "losses_since cutoff records = jsum (List.map realizedLossUsd (List.filter (\<lambda>r. \<not> jlt (recordTimestampMs r) cutoff) records))"

definition failures_since :: "jsnum \<Rightarrow> jsv list \<Rightarrow> jsv list" where
  "failures_since cutoff records = List.filter isFailure (List.filter (\<lambda>r. \<not> jlt (recordTimestampMs r) cutoff) records)"

lemma quiet_loss:
  assumes "evaluateCumulativeLoss records (dot AUTO_KILL_DEFAULTS ''cumulativeLoss'') capital now = None"
  shows "jlt (losses_since (jsub now (Fin 86400000)) records) (Fin 1000)"
    "is_finite capital \<Longrightarrow> jlt (Fin 0) (to_num capital) \<Longrightarrow>
      jlt (losses_since (jsub now (Fin 86400000)) records) (jmul (to_num capital) (lit 5 100))"
proof -
  let ?l = "losses_since (jsub now (Fin 86400000)) records"
  have lt: "jlt ?l (loss_threshold (dot AUTO_KILL_DEFAULTS ''cumulativeLoss'') capital)"
    using assms
    by (simp add: evaluateCumulativeLoss_def Let_def default_number auto_kill_sections_def since_def losses_since_def split: if_splits)
  have thr: "loss_threshold (dot AUTO_KILL_DEFAULTS ''cumulativeLoss'') capital
      = jmin (Fin 1000) (if is_finite capital \<and> vlt (JNum (Fin 0)) capital then jmul (to_num capital) (lit 5 100) else PosInf)"
    by (simp add: loss_threshold_def default_number)
  have m: "jlt x (jmin b c) \<Longrightarrow> jlt x b \<and> jlt x c" for x b c
    by (cases x; cases b; cases c) (auto simp: jmin_def split: if_splits)
  from m [OF lt [unfolded thr]] show "jlt ?l (Fin 1000)"
    "is_finite capital \<Longrightarrow> jlt (Fin 0) (to_num capital) \<Longrightarrow> jlt ?l (jmul (to_num capital) (lit 5 100))"
    by (auto simp: is_finite_iff split: if_splits)
qed

lemma quiet_failures:
  assumes "evaluateFailureBurst records (dot AUTO_KILL_DEFAULTS ''failureBurst'') now = None" "length records \<le> 2 ^ 53"
  shows "length (failures_since (jsub now (Fin 300000)) records) < 8"
    "length (List.filter (\<lambda>r. id_of r = i) (failures_since (jsub now (Fin 300000)) records)) < 5"
proof -
  let ?c = "dot AUTO_KILL_DEFAULTS ''failureBurst''"
  have w: "List.filter isFailure (since now ?c records) = failures_since (jsub now (Fin 300000)) records"
    by (simp add: since_def failures_since_def default_number)
  have "\<not> (8 \<le> int (length (failures_since (jsub now (Fin 300000)) records))
      \<or> (\<exists>i. 5 \<le> int (length (List.filter (\<lambda>r. id_of r = i) (failures_since (jsub now (Fin 300000)) records)))))"
    using failure_burst_iff [of ?c 8 5 records now] assms
    by (simp add: default_number auto_kill_sections_def w)
  then show "length (failures_since (jsub now (Fin 300000)) records) < 8"
    "length (List.filter (\<lambda>r. id_of r = i) (failures_since (jsub now (Fin 300000)) records)) < 5"
    by (auto simp: not_le)
qed

lemma quiet_heartbeat:
  assumes "evaluateHeartbeat (JNum (Fin beat)) (dot AUTO_KILL_DEFAULTS ''heartbeat'') now = None"
  shows "jlt (jsub now (Fin beat)) (Fin 60000)"
  using assms by (simp add: evaluateHeartbeat_def Let_def default_number auto_kill_sections_def split: if_splits)

lemma not_jlt_ge: "\<not> jlt a b \<Longrightarrow> a \<noteq> NaN \<Longrightarrow> b \<noteq> NaN \<Longrightarrow> jle b a"
  by (cases a; cases b) auto

lemma rnd_not_NaN: "rnd x \<noteq> NaN"
  by (simp add: rnd_def Let_def)

lemma lit_complement: "jsub (Fin 1) (lit p q) \<noteq> NaN"
  by (cases "lit p q") (auto simp: jsub_def rnd_not_NaN lit_def)

lemma quiet_range:
  assumes "evaluateClRangeHealth status (dot AUTO_KILL_DEFAULTS ''clRangeHealth'') = None"
  shows "dot status ''timeInRangePct24h'' = JNum (Fin x) \<Longrightarrow> jle (lit 80 100) (Fin x)"
    "dot status ''ilExceedsFeesHours'' = JNum (Fin y) \<Longrightarrow> jle (Fin y) (Fin 24)"
  using assms
  by (auto simp: evaluateClRangeHealth_def Let_def default_number auto_kill_sections_def lit_def rnd_not_NaN
      intro: not_jlt_ge split: if_splits)

lemma quiet_decay:
  assumes "decayed (JNum (Fin e)) (JNum (Fin c)) (JNum q) = None" "0 < e" "jsub (Fin 1) q \<noteq> NaN"
  shows "jle (jsub (Fin 1) q) (jdiv (Fin c) (Fin e))"
  using assms by (auto simp: decayed_def Let_def jdiv_def rnd_not_NaN intro: not_jlt_ge split: if_splits)

lemma campaign_parts:
  assumes "evaluateCampaignDecay status config = None" "truthy (dot config ''enabled'')"
  shows "decayed (dot status ''entryAprPct'') (dot status ''currentAprPct'') (dot config ''aprDecayExitPct'') = None"
    "decayed (dot status ''entryTvlUsd'') (dot status ''currentTvlUsd'') (dot config ''tvlDrainExitPct'') = None"
    "decayed (dot status ''rewardTokenEntryPriceUsd'') (dot status ''rewardTokenCurrentPriceUsd'')
       (dot config ''rewardTokenDropExitPct'') = None"
  using assms by (auto simp: evaluateCampaignDecay_def Let_def split: option.splits)

text \<open>The prices the oracle check compares for a pair: the median of every source.\<close>

definition source_medians :: "jsv list \<Rightarrow> jsnum list" where
  "source_medians pairSamples =
     List.map (\<lambda>(_, ss). median_of (List.map (\<lambda>s. to_num (dot s ''priceUsd'')) ss))
       (group_by (\<lambda>s. orelse (dot s ''source'') (JStr ''unknown'')) (List.filter usable_price pairSamples))"

lemma first_trigger_None: "first_trigger f xs = None \<Longrightarrow> x \<in> set xs \<Longrightarrow> f x = None"
  by (induction xs) (auto split: option.splits)

lemma group_by_lookup:
  "map_of (group_by key xs) k = (let ys = List.filter (\<lambda>x. key x = k) xs in if ys = [] then None else Some ys)"
proof (induction xs rule: rev_induct)
  case (snoc x xs)
  then show ?case by (auto simp: group_by_def Let_def update_conv' split: if_splits)
qed (simp add: group_by_def)

lemma group_by_distinct: "distinct (List.map fst (group_by key xs))"
  unfolding group_by_def by (induction xs rule: rev_induct) (auto simp: distinct_update)

lemma group_by_length: "length (group_by key xs) \<le> length xs"
proof -
  have upd: "length (AList.update k v al) \<le> Suc (length al)" for k v and al :: "(jsv \<times> 'a list) list"
    by (induction al) auto
  show ?thesis unfolding group_by_def
    by (induction xs rule: rev_induct) (auto intro: order.trans [OF upd])
qed

definition pair_samples :: "jsv \<Rightarrow> jsv list \<Rightarrow> jsv list" where
  "pair_samples pair samples = List.filter (\<lambda>s. orelse (dot s ''pair'') (JStr ''unknown'') = pair) samples"

lemma small_count: "n < 2 \<longleftrightarrow> vlt (jnat n) (JNum (jint 2))" if "n \<le> 2 ^ 53"
proof -
  have "rnd (of_int (int n)) = Fin (of_int (int n))" "jint 2 = Fin 2"
    using that rnd_int [of "int n"] rnd_int [of 2] by (simp_all add: jint_def)
  then have "vlt (jnat n) (JNum (jint 2)) \<longleftrightarrow> (of_int (int n) :: rat) < of_int 2" by (simp add: jnat_def)
  then show ?thesis by (simp only: of_int_less_iff) simp
qed

lemma quiet_oracle:
  assumes "evaluateOracleDivergence samples (dot AUTO_KILL_DEFAULTS ''oracleDivergence'') = None"
    "is_arr samples" "length (elems samples) \<le> 2 ^ 53"
    "prices = source_medians (pair_samples pair (elems samples))" "2 \<le> length prices"
  shows "\<not> jle (lit 5 100) (jdiv (jsub (max_of prices) (min_of prices)) (min_of prices))"
proof -
  let ?c = "dot AUTO_KILL_DEFAULTS ''oracleDivergence''" and ?ss = "pair_samples pair (elems samples)"
  have len: "length prices \<le> length ?ss"
    unfolding assms(4) source_medians_def length_map by (rule order.trans [OF group_by_length]) simp
  have all: "length ?ss \<le> length (elems samples)" by (simp add: pair_samples_def)
  have ne: "?ss \<noteq> []" using len assms(5) by auto
  then have grp: "(pair, ?ss) \<in> set (group_by (\<lambda>s. orelse (dot s ''pair'') (JStr ''unknown'')) (elems samples))"
    using group_by_lookup [of "\<lambda>s. orelse (dot s ''pair'') (JStr ''unknown'')" "elems samples" pair]
    by (auto simp: Let_def pair_samples_def intro: map_of_SomeD)
  have "\<not> vlt (jnat (length (elems samples))) (dot ?c ''minSourceCount'')"
    using small_count [OF assms(3)] assms(5) len all by (simp add: default_number)
  then have "pair_divergence ?c (pair, ?ss) = None"
    using assms(1,2) grp by (auto simp: evaluateOracleDivergence_def default_number auto_kill_sections_def
        intro: first_trigger_None)
  moreover have "\<not> vlt (jnat (length prices)) (dot ?c ''minSourceCount'')"
    using small_count [of "length prices"] assms(3,5) len all by (simp add: default_number)
  ultimately show ?thesis
    by (auto simp: pair_divergence_def Let_def default_number source_medians_def assms(4) split: if_splits)
qed

lemma quiet_price:
  fixes config defines "config \<equiv> dot AUTO_KILL_DEFAULTS ''relativePriceMove''"
  assumes "evaluateRelativePriceMove samples config now = Inr None" "is_arr samples" "2 \<le> length (elems samples)"
    "valid = priced_samples (elems samples) config now"
  shows "valid \<noteq> [] \<Longrightarrow> \<not> jlt (Fin 1800000) (jsub now (fst (last valid)))"
    "2 \<le> length valid \<Longrightarrow> lo = min_of (List.map snd valid) \<Longrightarrow> \<not> jle lo (Fin 0) \<Longrightarrow>
      jle (jdiv (jsub (max_of (List.map snd valid)) lo) lo) (lit 15 100)"
  using assms(2-)
  by (auto simp: evaluateRelativePriceMove_def Let_def config_def default_number auto_kill_sections_def and_then_Inr
      split: if_splits)

lemmas quiet = quiet_loss quiet_failures quiet_heartbeat quiet_range quiet_oracle quiet_price


definition calm :: auto_kill_input where
  "calm = \<lparr>ak_auditRecords = [JObj [(''timestamp'', JStr ''1970-01-01T00:00:30.000Z''),
       (''realized'', JObj [(''netUsd'', JNum (Fin (- 100)))])]],
     ak_oracleSamples = JArr [JObj [(''pair'', JStr ''BTC/USD''), (''source'', JStr ''a''), (''priceUsd'', JNum (Fin 100))],
       JObj [(''pair'', JStr ''BTC/USD''), (''source'', JStr ''b''), (''priceUsd'', JNum (Fin 101))]],
     ak_heartbeatAtMs = JNum (Fin 30000), ak_operatingCapitalUsd = JNum (Fin 3000),
     ak_priceSamples = JArr [], ak_clStatus = JObj [(''timeInRangePct24h'', JNum (Fin 1))],
     ak_activeProtocols = JArr [],
     ak_campaignStatus = JObj [(''entryAprPct'', JNum (Fin 10)), (''currentAprPct'', JNum (Fin 6))],
     ak_config = JUndef, ak_nowMs = Fin 60000, ak_incidentFile = None\<rparr>"

lemma calm_price: "evaluateRelativePriceMove (ak_priceSamples calm) (ak_section calm ''relativePriceMove'') (ak_nowMs calm) = Inr None"
  by code_simp

lemma calm_loss: "evaluateCumulativeLoss (ak_auditRecords calm) (ak_section calm ''cumulativeLoss'') (ak_operatingCapitalUsd calm) (ak_nowMs calm) = None"
  by code_simp

lemma calm_failures: "evaluateFailureBurst (ak_auditRecords calm) (ak_section calm ''failureBurst'') (ak_nowMs calm) = None"
  by code_simp

lemma calm_beat: "evaluateHeartbeat (ak_heartbeatAtMs calm) (ak_section calm ''heartbeat'') (ak_nowMs calm) = None"
  by code_simp

lemma calm_range: "evaluateClRangeHealth (ak_clStatus calm) (ak_section calm ''clRangeHealth'') = None"
  by code_simp

lemma calm_campaign: "evaluateCampaignDecay (ak_campaignStatus calm) (ak_section calm ''campaignDecay'') = None"
  by code_simp

lemma calm_oracle: "evaluateOracleDivergence (ak_oracleSamples calm) (ak_section calm ''oracleDivergence'') = None"
  by code_simp

lemma calm_incident: "evaluateProtocolIncident (ak_activeProtocols calm) (ak_section calm ''protocolIncident'') (ak_incidentFile calm) = None"
  by code_simp

lemma calm_time: "iso_at (ak_nowMs calm) = Inr ''1970-01-01T00:01:00.000Z''"
  by code_simp

lemmas calm_parts = calm_price calm_loss calm_failures calm_beat calm_range calm_campaign calm_oracle calm_incident calm_time

lemma calm_verdict: "\<exists>v. evaluateAutoKillTriggers calm = Inr v \<and> \<not> akv_triggered v"
  by (simp add: evaluateAutoKillTriggers_def auto_kill_triggers_def calm_parts)


end
