(* ===== verification/GatewayPolicy.thy ===== *)
theory GatewayPolicy
  imports PolicyCore PolicyConfig
begin

text \<open>
  The availability of the BOB Gateway: src/src/config/gateway.mjs and
  src/src/executor/policy/gateway-availability.mjs. Whether the runtime state file exists is a
  parameter; looking for it may fail for another reason than absence, and then the check throws
  instead of answering. Resolved paths are not modelled: the file has the path of the policy.

  The lemmas: an intent that is a Gateway intent is blocked while either disable mechanism is on,
  an intent that is not is never blocked here, and an intent for a route that the current list of
  routes does not offer is blocked.
\<close>

section \<open>config/gateway.mjs\<close>

record availability_view =
  av_available :: jsv
  av_reason :: jsv
  av_stateFile :: jsv
  av_observedAt :: jsv
  av_routes :: jsv

definition view_of :: "jsv \<Rightarrow> availability_view" where
  "view_of v = \<lparr>av_available = dot v ''available'', av_reason = dot v ''reason'',
     av_stateFile = dot v ''stateFile'', av_observedAt = dot v ''observedAt'',
     av_routes = dot v ''routes''\<rparr>"

definition resolveGatewayAvailability :: "jsv \<Rightarrow> bool throws \<Rightarrow> jsv \<Rightarrow> availability_view throws" where
  "resolveGatewayAvailability policy stateFileExists now =
     (if \<not> truthy (dot policy ''enabled'')
      then Inr \<lparr>av_available = JBool False, av_reason = JStr ''gateway_committed_policy_disabled'',
             av_stateFile = JUndef, av_observedAt = now, av_routes = JUndef\<rparr>
      else and_then (if truthy (dot policy ''stateFile'') then stateFileExists else Inr False)
        (\<lambda>runtimeDisabled.
          if runtimeDisabled
          then Inr \<lparr>av_available = JBool False,
                 av_reason = JStr ''gateway_runtime_disabled_state_file_present'',
                 av_stateFile = dot policy ''stateFile'', av_observedAt = now, av_routes = JUndef\<rparr>
          else Inr \<lparr>av_available = JBool True, av_reason = JNull, av_stateFile = JUndef,
                 av_observedAt = now, av_routes = JUndef\<rparr>))"

definition isGatewayMethod :: "jsv \<Rightarrow> bool" where
  "isGatewayMethod m =
     (let normalized = lowercase (to_str (orelse m (JStr [])))
      in normalized = ''cross_chain_bridge_or_swap''
         \<or> normalized = ''cross_chain_swap_via_btc_intermediate''
         \<or> is_prefix ''gateway_'' normalized)"

section \<open>Routes\<close>

definition normalizeGatewayToken :: "jsv \<Rightarrow> string option" where
  "normalizeGatewayToken value =
     (let normalized = lowercase (trim (to_str (orelse value (JStr []))))
      in if normalized = [] then None else Some normalized)"

definition normalizeGatewayChain :: "jsv \<Rightarrow> string option" where
  "normalizeGatewayChain value =
     (case normalizeGatewayToken value of
        None \<Rightarrow> None
      | Some n \<Rightarrow> Some
          (if n = ''bnb'' \<or> n = ''bnb chain'' then ''bsc''
           else if n = ''berachain'' \<or> n = ''bera chain'' then ''bera''
           else if n = ''bob l2'' \<or> n = ''bob chain'' then ''bob''
           else n))"

definition routeOf :: "jsv \<Rightarrow> jsv" where
  "routeOf intent = first_truthy
     [dot intent ''gatewayRoute'', dot intent ''route'', dot intent ''routeContext'',
      dots intent [''metadata'', ''gatewayRoute''], dots intent [''metadata'', ''route''],
      dots intent [''metadata'', ''routeContext''], dots intent [''quote'', ''route''],
      dots intent [''quote'', ''routeContext''], JObj []]"

definition both :: "string option \<Rightarrow> string option \<Rightarrow> (string \<times> string) option" where
  "both a b = (case (a, b) of (Some x, Some y) \<Rightarrow> Some (x, y) | _ \<Rightarrow> None)"

definition either :: "string option \<Rightarrow> string option \<Rightarrow> (string option \<times> string option) option" where
  "either a b = (if a = None \<and> b = None then None else Some (a, b))"

definition routeChainsFromIntent :: "jsv \<Rightarrow> (string \<times> string) option" where
  "routeChainsFromIntent intent =
     (let route = routeOf intent
      in both
        (normalizeGatewayChain (first_truthy
          [dot route ''srcChain'', dot route ''fromChain'', dot route ''sourceChain'',
           dot intent ''srcChain'', dot intent ''fromChain'',
           dots intent [''metadata'', ''srcChain''], dots intent [''metadata'', ''fromChain''], JNull]))
        (normalizeGatewayChain (first_truthy
          [dot route ''dstChain'', dot route ''toChain'', dot route ''destinationChain'',
           dot intent ''dstChain'', dot intent ''toChain'',
           dots intent [''metadata'', ''dstChain''], dots intent [''metadata'', ''toChain''], JNull])))"

definition routeTokensFromIntent :: "jsv \<Rightarrow> (string option \<times> string option) option" where
  "routeTokensFromIntent intent =
     (let route = routeOf intent
      in either
        (normalizeGatewayToken (first_truthy
          [dot route ''srcToken'', dot route ''fromToken'', dot route ''sourceToken'',
           dot intent ''srcToken'', dots intent [''metadata'', ''srcToken''], JNull]))
        (normalizeGatewayToken (first_truthy
          [dot route ''dstToken'', dot route ''toToken'', dot route ''destinationToken'',
           dot intent ''dstToken'', dots intent [''metadata'', ''dstToken''], JNull])))"

definition routeChainsFromApiRoute :: "jsv \<Rightarrow> (string \<times> string) option" where
  "routeChainsFromApiRoute route = both
     (normalizeGatewayChain (first_truthy
       [dot route ''srcChain'', dot route ''fromChain'', dot route ''sourceChain'', JNull]))
     (normalizeGatewayChain (first_truthy
       [dot route ''dstChain'', dot route ''toChain'', dot route ''destinationChain'', JNull]))"

definition routeTokensFromApiRoute :: "jsv \<Rightarrow> (string option \<times> string option) option" where
  "routeTokensFromApiRoute route = either
     (normalizeGatewayToken (first_truthy
       [dot route ''srcToken'', dot route ''fromToken'', dot route ''sourceToken'', JNull]))
     (normalizeGatewayToken (first_truthy
       [dot route ''dstToken'', dot route ''toToken'', dot route ''destinationToken'', JNull]))"

text \<open>A requested token, when there is one, must be the offered one.\<close>

definition token_ok :: "string option \<Rightarrow> string option \<Rightarrow> bool" where
  "token_ok requested offered \<longleftrightarrow> requested = None \<or> offered = requested"

definition route_offers ::
    "string \<times> string \<Rightarrow> (string option \<times> string option) option \<Rightarrow> jsv \<Rightarrow> bool" where
  "route_offers requested requestedTokens route =
     (if routeChainsFromApiRoute route \<noteq> Some requested then False
      else case requestedTokens of
          None \<Rightarrow> True
        | Some (src, dst) \<Rightarrow>
            (let offered = (case routeTokensFromApiRoute route of Some t \<Rightarrow> t | None \<Rightarrow> (None, None))
             in token_ok src (fst offered) \<and> token_ok dst (snd offered)))"

definition currentRouteAvailable :: "jsv \<Rightarrow> availability_view \<Rightarrow> bool option" where
  "currentRouteAvailable intent availability =
     (if \<not> is_arr (av_routes availability) then None
      else case routeChainsFromIntent intent of
          None \<Rightarrow> None
        | Some requested \<Rightarrow> Some (list_ex (route_offers requested (routeTokensFromIntent intent))
            (elems (av_routes availability))))"

section \<open>The check\<close>

definition isGatewayIntent :: "jsv \<Rightarrow> bool" where
  "isGatewayIntent intent \<longleftrightarrow>
     isGatewayMethod (first_truthy [dot intent ''method'', dot intent ''fundingMethod'',
       dot intent ''executor'', JNull])
     \<or> str_includes ''gateway''
         (lowercase (to_str (first_truthy [dot intent ''type'', dot intent ''intentType'', JStr []])))
     \<or> truthy (dot intent ''gatewayOrderId'')
     \<or> truthy (dot intent ''gatewayQuoteId'')"

definition gateway_result :: "jsv \<Rightarrow> availability_view \<Rightarrow> policy_result" where
  "gateway_result intent resolved =
     (let name = ''gateway_availability''; t = av_observedAt resolved;
          reason = orelse (av_reason resolved) (JStr ''gateway_operator_paused'')
      in if \<not> isGatewayIntent intent
         then policy_allow name t
           [(''gatewayAvailable'', av_available resolved), (''reason'', orelse (av_reason resolved) JNull)]
         else if truthy (av_available resolved)
         then (case currentRouteAvailable intent resolved of
             Some False \<Rightarrow> policy_block name t [''gateway_route_currently_unavailable'']
               [(''gatewayAvailable'', JBool True), (''routeAvailable'', JBool False),
                (''reason'', JStr ''gateway_route_currently_unavailable'')]
           | r \<Rightarrow> policy_allow name t
               [(''gatewayAvailable'', JBool True),
                (''routeAvailable'', (case r of Some b \<Rightarrow> JBool b | None \<Rightarrow> JNull)),
                (''reason'', JNull)])
         else policy_block name t [to_str reason]
           [(''gatewayAvailable'', JBool False), (''reason'', reason),
            (''stateFile'', orelse (av_stateFile resolved) JNull)])"

definition checkGatewayAvailability ::
    "jsv \<Rightarrow> jsv \<Rightarrow> jsv \<Rightarrow> bool throws \<Rightarrow> jsv \<Rightarrow> policy_result throws" where
  "checkGatewayAvailability intent policy availability stateFileExists now =
     and_then (if truthy availability then Inr (view_of availability)
               else resolveGatewayAvailability policy stateFileExists now)
       (\<lambda>resolved. Inr (gateway_result intent resolved))"

lemma gateway_result_gate: "pr_policy (gateway_result i v) = ''gateway_availability'' \<and> consistent (gateway_result i v)"
  by (simp add: gateway_result_def Let_def split: option.splits bool.splits)

lemma checkGateway_Inr:
  "checkGatewayAvailability i p a f now = Inr r \<Longrightarrow> \<exists>v. r = gateway_result i v"
  unfolding checkGatewayAvailability_def and_then_Inr by blast

interpretation gateway_gate: throwing_gate
  "\<lambda>(i, p, a, f, now). checkGatewayAvailability i p a f now" "''gateway_availability''"
  using checkGateway_Inr gateway_result_gate by unfold_locales (fastforce split: prod.splits)+

section \<open>Properties\<close>

text \<open>While the committed flag is off or the runtime state file is there, every Gateway intent
  is blocked and every other intent is let through by this check.\<close>

theorem gateway_paused_blocks:
  assumes "\<not> truthy (dot policy ''enabled'') \<or> truthy (dot policy ''stateFile'') \<and> stateFile = Inr True"
  shows "\<exists>r. checkGatewayAvailability intent policy JNull stateFile now = Inr r
    \<and> (pr_decision r = BLOCK \<longleftrightarrow> isGatewayIntent intent)"
  using assms
  by (auto simp: checkGatewayAvailability_def resolveGatewayAvailability_def gateway_result_def Let_def)

theorem gateway_paused_blocks_witness:
  "\<exists>r. checkGatewayAvailability (JObj [(''method'', JStr ''Gateway_Offramp'')]) GATEWAY_POLICY JNull
       (Inr True) JNull = Inr r \<and> pr_decision r = BLOCK"
proof -
  have p: "truthy (dot GATEWAY_POLICY ''stateFile'')"
    by (simp add: GATEWAY_POLICY_def)
  have g: "isGatewayIntent (JObj [(''method'', JStr ''Gateway_Offramp'')])" by code_simp
  from gateway_paused_blocks [of GATEWAY_POLICY "Inr True" "JObj [(''method'', JStr ''Gateway_Offramp'')]" JNull] p g
  show ?thesis by auto
qed

text \<open>When Gateway is available with a current list of routes and the intent names its source and
  destination chains, a Gateway intent is allowed exactly when some listed route has those
  chains and every token the intent asks for.\<close>

theorem gateway_route_listed:
  assumes "isGatewayIntent intent" "truthy availability" "truthy (dot availability ''available'')"
    "dot availability ''routes'' = JArr routes" "routeChainsFromIntent intent = Some (src, dst)"
  shows "\<exists>r. checkGatewayAvailability intent policy availability f now = Inr r
    \<and> (pr_decision r = ALLOW \<longleftrightarrow>
        (\<exists>route\<in>set routes. routeChainsFromApiRoute route = Some (src, dst)
           \<and> (\<forall>ts td. routeTokensFromIntent intent = Some (ts, td) \<longrightarrow>
               (ts \<noteq> None \<longrightarrow> Option.bind (routeTokensFromApiRoute route) fst = ts)
               \<and> (td \<noteq> None \<longrightarrow> Option.bind (routeTokensFromApiRoute route) snd = td))))"
proof -
  let ?r = "gateway_result intent (view_of availability)"
  have "pr_decision ?r = ALLOW \<longleftrightarrow> list_ex (route_offers (src, dst) (routeTokensFromIntent intent)) routes"
    using assms
    by (auto simp: gateway_result_def Let_def view_of_def currentRouteAvailable_def split: bool.splits)
  moreover have "route_offers (src, dst) (routeTokensFromIntent intent) route \<longleftrightarrow>
      routeChainsFromApiRoute route = Some (src, dst)
      \<and> (\<forall>ts td. routeTokensFromIntent intent = Some (ts, td) \<longrightarrow>
          (ts \<noteq> None \<longrightarrow> Option.bind (routeTokensFromApiRoute route) fst = ts)
          \<and> (td \<noteq> None \<longrightarrow> Option.bind (routeTokensFromApiRoute route) snd = td))" for route
    by (cases "routeTokensFromApiRoute route"; cases "routeTokensFromIntent intent")
      (auto simp: route_offers_def token_ok_def Let_def)
  ultimately show ?thesis
    using assms(2) by (auto simp: checkGatewayAvailability_def list_ex_iff)
qed

definition sample_gateway_intent :: jsv where
  "sample_gateway_intent = JObj [(''method'', JStr ''gateway_swap''), (''srcChain'', JStr ''BNB''), (''dstChain'', JStr ''bob'')]"

definition sample_routes :: jsv where
  "sample_routes = JObj [(''available'', JBool True),
     (''routes'', JArr [JObj [(''srcChain'', JStr ''bsc''), (''dstChain'', JStr ''BOB L2'')]])]"

theorem gateway_route_listed_witness:
  "\<exists>r. checkGatewayAvailability sample_gateway_intent GATEWAY_POLICY sample_routes (Inr False) JNull = Inr r
     \<and> pr_decision r = ALLOW"
proof -
  have side: "isGatewayIntent sample_gateway_intent" "truthy sample_routes"
    "truthy (dot sample_routes ''available'')"
    "dot sample_routes ''routes'' = JArr [JObj [(''srcChain'', JStr ''bsc''), (''dstChain'', JStr ''BOB L2'')]]"
    "routeChainsFromIntent sample_gateway_intent = Some (''bsc'', ''bob'')"
    by code_simp+
  have "routeChainsFromApiRoute (JObj [(''srcChain'', JStr ''bsc''), (''dstChain'', JStr ''BOB L2'')])
      = Some (''bsc'', ''bob'')" "routeTokensFromIntent sample_gateway_intent = None"
    by code_simp+
  with gateway_route_listed [OF side, of GATEWAY_POLICY "Inr False" JNull] show ?thesis by simp
qed

end
