(* ===== verification/SleeveGates.thy ===== *)
theory SleeveGates
  imports PolicyCore PolicyConfig
begin

text \<open>
  Three narrow checks of src/src/executor/policy: kill-switch.mjs (checkKillSwitch),
  pre-broadcast-simulator.mjs and aggressive-velocity-policy.mjs, with the profile lookup of
  src/src/config/aggression-profile.mjs. Whether the kill-switch file exists, and what a call on
  the RPC provider does, come from outside and are parameters; audit lines the simulator appends
  are not modelled. A throwing file access makes the check throw.
\<close>

section \<open>kill-switch.mjs\<close>

definition checkKillSwitch :: "jsv \<Rightarrow> bool throws \<Rightarrow> jsv \<Rightarrow> policy_result throws" where
  "checkKillSwitch killSwitchPath fileExists now =
     and_then (if truthy killSwitchPath then fileExists else Inr False) (\<lambda>present.
       Inr (policy_answer ''kill_switch'' now (push_if present ''kill_switch_present'')
         [(''killSwitchPath'', killSwitchPath)]))"

interpretation kill_switch_gate: throwing_gate
  "\<lambda>(p, f, now). checkKillSwitch p f now" "''kill_switch''"
  by unfold_locales (auto simp: checkKillSwitch_def and_then_Inr split: prod.splits)

section \<open>aggression-profile.mjs\<close>

definition AGGRESSION_PROFILES :: jsv where
  "AGGRESSION_PROFILES = JObj
     [(''safety_first'', JObj
        [(''id'', JStr ''safety_first''), (''canaryPctOfCapital'', JNum (lit 15 1000)),
         (''minCanaryUsd'', JNum (jint 3)), (''maxCanaryUsd'', JNum (jint 15)),
         (''reserveFloorPct'', JNum (lit 35 100)), (''maxK'', JNum (jint 2)),
         (''approvalMaxIdleHours'', JNum (jint 24)), (''firstMoverEnabled'', JBool False),
         (''briberySourceEnabled'', JBool False),
         (''diversity'', JObj [(''maxSameChain'', JNum (jint 1)), (''maxSameProtocol'', JNum (jint 1)),
           (''maxSameFamily'', JNum (jint 1))])]),
      (''aggressive_calibrated'', JObj
        [(''id'', JStr ''aggressive_calibrated''), (''canaryPctOfCapital'', JNum (lit 4 100)),
         (''minCanaryUsd'', JNum (jint 5)), (''maxCanaryUsd'', JNum (jint 30)),
         (''reserveFloorPct'', JNum (lit 22 100)), (''maxK'', JNum (jint 6)),
         (''approvalMaxIdleHours'', JNum (jint 24)), (''firstMoverEnabled'', JBool True),
         (''briberySourceEnabled'', JBool True),
         (''diversity'', JObj [(''maxSameChain'', JNum (jint 1)), (''maxSameProtocol'', JNum (jint 1)),
           (''maxSameFamily'', JNum (jint 2))])])]"

definition DEFAULT_AGGRESSION_PROFILE_ID :: string where
  "DEFAULT_AGGRESSION_PROFILE_ID = ''aggressive_calibrated''"

definition resolveAggressionProfile :: "jsv \<Rightarrow> jsv" where
  "resolveAggressionProfile profileArg =
     (let profile = (if profileArg = JUndef then JStr DEFAULT_AGGRESSION_PROFILE_ID else profileArg);
          committed = (\<lambda>k. fields_of (index AGGRESSION_PROFILES k));
          dflt = committed (JStr DEFAULT_AGGRESSION_PROFILE_ID)
      in if is_string profile
         then JObj (if truthy (index AGGRESSION_PROFILES profile) then committed profile else dflt)
         else if truthy (dot profile ''id'')
         then JObj (spread (committed (dot profile ''id'')) (fields_of profile))
         else JObj dflt)"

section \<open>pre-broadcast-simulator.mjs\<close>

definition simulationEnabled :: "jsv \<Rightarrow> bool" where
  "simulationEnabled profile \<longleftrightarrow> dot profile ''preBroadcastSimulationEnabled'' = JBool True"

text \<open>What the provider does with the call: there is none, it returns, or it throws.\<close>

datatype sim_outcome = NoProvider | CallReturned | CallThrew jsv

definition simulationCall :: "jsv \<Rightarrow> fields" where
  "simulationCall intent =
     (let tx = orelse (dot intent ''tx'') (JObj [])
      in [(''to'', coal (dot tx ''to'') (dot intent ''to'')),
          (''data'', first_present [dot tx ''data'', dot intent ''data'', JStr ''0x'']),
          (''value'', first_present [dot tx ''value'', dot intent ''value'', JNum (Fin 0)]),
          (''from'', coal (dot tx ''from'') (dot intent ''from''))])"

definition evaluatePreBroadcastSimulation ::
    "jsv \<Rightarrow> jsv \<Rightarrow> (fields \<Rightarrow> sim_outcome) \<Rightarrow> jsv \<Rightarrow> policy_result" where
  "evaluatePreBroadcastSimulation intent profile provider now =
     (let name = ''pre_broadcast_simulation'';
          resolvedProfile = (if is_string profile then resolveAggressionProfile profile else profile)
      in if \<not> simulationEnabled resolvedProfile
         then policy_allow name now
           [(''metrics'', JObj [(''simulated'', JBool False), (''enabled'', JBool False)])]
         else (case provider (simulationCall intent) of
             NoProvider \<Rightarrow> policy_block name now [''pre_broadcast_simulation_unavailable'']
               [(''metrics'', JObj [(''simulated'', JBool False), (''providerAvailable'', JBool False)])]
           | CallReturned \<Rightarrow> policy_allow name now
               [(''metrics'', JObj [(''simulated'', JBool True), (''reverted'', JBool False)])]
           | CallThrew error \<Rightarrow> policy_block name now [''pre_broadcast_simulation_revert'']
               [(''metrics'', JObj [(''simulated'', JBool True), (''reverted'', JBool True),
                  (''errorCode'', orelse (dot error ''code'') JNull)])]))"

interpretation simulation_gate: policy_gate
  "\<lambda>(i, p, prov, now). evaluatePreBroadcastSimulation i p prov now" "''pre_broadcast_simulation''"
  by unfold_locales
    (auto simp: evaluatePreBroadcastSimulation_def Let_def split: prod.splits sim_outcome.splits)

section \<open>aggressive-velocity-policy.mjs\<close>

definition AGGRESSIVE_VELOCITY_SLEEVE_ID :: string where
  "AGGRESSIVE_VELOCITY_SLEEVE_ID = ''aggressive-velocity-v1''"

definition getAggressiveVelocityMinNetBtc :: jsv where
  "getAggressiveVelocityMinNetBtc = JNum (lit 5 100000)"

definition isAggressiveSleeve :: "jsv \<Rightarrow> bool" where
  "isAggressiveSleeve input \<longleftrightarrow>
     dot input ''kind'' = JStr ''aggressive-velocity-manifest-v1''
     \<or> dot input ''sleeve'' = JStr AGGRESSIVE_VELOCITY_SLEEVE_ID
     \<or> dots input [''metadata'', ''sleeve''] = JStr AGGRESSIVE_VELOCITY_SLEEVE_ID
     \<or> dots input [''verdict'', ''sleeve''] = JStr AGGRESSIVE_VELOCITY_SLEEVE_ID"

definition truthy_num :: "jsnum \<Rightarrow> jsnum" where
  "truthy_num n = (if n = NaN then Fin 0 else n)"

definition sleeveTotalNet :: "jsv \<Rightarrow> jsv \<Rightarrow> jsnum" where
  "sleeveTotalNet verdict artifacts =
     (let declared = to_num (orelse (dot verdict ''totalExpectedNetBtcProfit'') (JNum (Fin 0)))
      in if declared = Fin 0 \<and> elems artifacts \<noteq> []
         then jsum (List.map (\<lambda>a. truthy_num (to_num (dot a ''expectedNetBtcProfit''))) (elems artifacts))
         else declared)"

text \<open>
  The re-projection of the first artifact decides nothing; reading it throws when the artifact
  is null or undefined, as reading one in the sum does.
\<close>

definition evaluateAggressiveVelocityPolicy :: "jsv \<Rightarrow> jsv \<Rightarrow> jsv \<Rightarrow> jsv \<Rightarrow> policy_result throws" where
  "evaluateAggressiveVelocityPolicy manifest intent now minExpectedNetBtc =
     (let name = ''aggressive_velocity_sleeve'';
          payload = first_truthy [manifest, intent, JObj []];
          verdict = first_truthy [dot payload ''verdict'', dots payload [''metadata'', ''verdict''], JObj []];
          artifacts = orelse (dot payload ''artifacts'') (JArr []);
          declared = to_num (orelse (dot verdict ''totalExpectedNetBtcProfit'') (JNum (Fin 0)));
          totalNet = sleeveTotalNet verdict artifacts;
          blockers =
            push_if (dot verdict ''readyForPolicyReview'' \<noteq> JBool True) ''sleeve_manifest_not_ready_for_policy''
            @ push_if (dot verdict ''exitAutomationEnforced'' \<noteq> JBool True) ''sleeve_exit_automation_not_enforced''
            @ push_if (dot verdict ''capitalConcentrationOk'' = JBool False) ''sleeve_concentration_breach''
            @ push_if (vlt (JNum totalNet) minExpectedNetBtc) ''sleeve_expected_net_btc_below_floor''
      in if \<not> isAggressiveSleeve payload
         then Inr (policy_allow name now
           [(''sleeve'', JNull), (''note'', JStr ''not an aggressive velocity sleeve input'')])
         else if elems artifacts \<noteq> [] \<and> (nullish (hd (elems artifacts))
              \<or> declared = Fin 0 \<and> list_ex nullish (elems artifacts))
         then Inl TypeError
         else Inr (policy_answer name now blockers
           [(''sleeve'', JStr AGGRESSIVE_VELOCITY_SLEEVE_ID),
            (''verdictSummary'', JObj
              [(''totalExpectedNetBtcProfit'', JNum totalNet),
               (''readyForPolicyReview'', dot verdict ''readyForPolicyReview''),
               (''exitAutomationEnforced'', dot verdict ''exitAutomationEnforced''),
               (''capitalConcentrationOk'', dot verdict ''capitalConcentrationOk'')]),
            (''artifactCount'', dot artifacts ''length''),
            (''minExpectedNetBtcFloor'', minExpectedNetBtc),
            (''configSource'', JStr ''src/config/aggressive-velocity/config.mjs'')]))"

lemma aggressive_Inr:
  assumes "evaluateAggressiveVelocityPolicy m i now f = Inr r"
  shows "pr_policy r = ''aggressive_velocity_sleeve'' \<and> consistent r"
proof -
  have "\<exists>b x. r = policy_answer ''aggressive_velocity_sleeve'' now b x
      \<or> r = policy_allow ''aggressive_velocity_sleeve'' now x"
    using assms unfolding evaluateAggressiveVelocityPolicy_def Let_def by (simp split: if_splits) metis+
  then show ?thesis by auto
qed

interpretation aggressive_gate: throwing_gate
  "\<lambda>(m, i, now, f). evaluateAggressiveVelocityPolicy m i now f" "''aggressive_velocity_sleeve''"
  using aggressive_Inr by unfold_locales (auto split: prod.splits)

section \<open>Properties\<close>

text \<open>An input of the aggressive velocity sleeve is allowed only when its verdict says it is
  ready for review and its exits are automated, it does not report a concentration breach, and
  its expected net result is not below the floor.\<close>

theorem sleeve_manifest_gate:
  assumes "evaluateAggressiveVelocityPolicy manifest JNull now minNet = Inr r" "truthy manifest"
    "isAggressiveSleeve manifest" "truthy (dot manifest ''verdict'')" "pr_decision r = ALLOW"
  shows "dots manifest [''verdict'', ''readyForPolicyReview''] = JBool True
    \<and> dots manifest [''verdict'', ''exitAutomationEnforced''] = JBool True
    \<and> dots manifest [''verdict'', ''capitalConcentrationOk''] \<noteq> JBool False
    \<and> \<not> vlt (JNum (sleeveTotalNet (dot manifest ''verdict'') (orelse (dot manifest ''artifacts'') (JArr [])))) minNet"
  using assms
  by (auto simp: evaluateAggressiveVelocityPolicy_def Let_def split: if_splits)

definition sample_manifest :: jsv where
  "sample_manifest = JObj
     [(''kind'', JStr ''aggressive-velocity-manifest-v1''),
      (''verdict'', JObj [(''readyForPolicyReview'', JBool True), (''exitAutomationEnforced'', JBool True),
        (''totalExpectedNetBtcProfit'', JNum (Fin 1))])]"

theorem sleeve_manifest_gate_witness:
  "dots sample_manifest [''verdict'', ''exitAutomationEnforced''] = JBool True
   \<and> \<not> vlt (JNum (sleeveTotalNet (dot sample_manifest ''verdict'') (JArr []))) (JNum (Fin 1))"
proof -
  have side: "truthy sample_manifest" "isAggressiveSleeve sample_manifest"
    "truthy (dot sample_manifest ''verdict'')" "dot sample_manifest ''artifacts'' = JUndef"
    by (simp_all add: sample_manifest_def isAggressiveSleeve_def)
  have net: "sleeveTotalNet (dot sample_manifest ''verdict'') (JArr []) = Fin 1"
    by (simp add: sleeveTotalNet_def sample_manifest_def orelse_def)
  have "\<exists>r. evaluateAggressiveVelocityPolicy sample_manifest JNull JNull (JNum (Fin 1)) = Inr r \<and> pr_decision r = ALLOW"
    using side net by (simp add: evaluateAggressiveVelocityPolicy_def Let_def) (simp add: sample_manifest_def)
  then obtain r where "evaluateAggressiveVelocityPolicy sample_manifest JNull JNull (JNum (Fin 1)) = Inr r"
    "pr_decision r = ALLOW" by blast
  from sleeve_manifest_gate [OF this(1) side(1-3) this(2)] side(4) show ?thesis by simp
qed

text \<open>With simulation enabled by the profile, a transaction is let through by the
  pre-broadcast check only when the provider executed the call without an error.\<close>

theorem simulation_fail_closed:
  assumes "dot profile ''preBroadcastSimulationEnabled'' = JBool True"
  shows "pr_decision (evaluatePreBroadcastSimulation intent profile provider now) = ALLOW \<longleftrightarrow>
     provider (simulationCall intent) = CallReturned"
proof -
  have "\<not> is_string profile" using assms by (cases profile) (auto split: if_splits)
  then show ?thesis
    using assms
    by (simp add: evaluatePreBroadcastSimulation_def Let_def simulationEnabled_def split: sim_outcome.splits)
qed

theorem simulation_fail_closed_witness:
  "pr_decision (evaluatePreBroadcastSimulation (JObj []) (JObj [(''preBroadcastSimulationEnabled'', JBool True)])
     (\<lambda>_. NoProvider) JNull) = BLOCK"
  using simulation_fail_closed [of "JObj [(''preBroadcastSimulationEnabled'', JBool True)]" "JObj []" "\<lambda>_. NoProvider" JNull]
  by (cases "pr_decision (evaluatePreBroadcastSimulation (JObj []) (JObj [(''preBroadcastSimulationEnabled'', JBool True)])
     (\<lambda>_. NoProvider) JNull)") auto

text \<open>A declared net result that is not a number passes the floor: no number is less than NaN.\<close>

lemma sleeve_nan_net_passes:
  "sleeveTotalNet (JObj [(''totalExpectedNetBtcProfit'', JStr ''n/a'')]) artifacts = NaN"
proof -
  have "str_to_num ''n/a'' = NaN" by code_simp
  then show ?thesis by (simp add: sleeveTotalNet_def)
qed

end
