(* ===== verification/PolicyEngine.thy ===== *)
theory PolicyEngine
  imports CapCheck EvGate FailureStreak GasBudget GatewayPolicy SleeveGates AutoKill RiskDaemons
    HealthFactor ApprovalHygiene AssetCoverage CanaryGates
begin

text \<open>
  src/src/executor/policy/index.mjs: the policy engine, which puts every intent before the signer
  through the checks of the other theories and decides. Without valid caps nothing else is asked.
  Otherwise the cold-start clamp makes the effective intent, all checks run on it in order, and
  the answer is BLOCK exactly when some check names a blocker. A check that throws makes the
  engine throw, and the caller gets no decision.

  What the checks read outside the process (clock, kill-switch and gateway files, gas history,
  RPC provider, incident file) is one record. The lemmas compose the contract of the single
  checks, which their interpretations discharged, into the guarantees of an allowed intent.
\<close>

section \<open>The world the checks read\<close>

record policy_world =
  w_env :: js_env
  w_killSwitchPath :: jsv
  w_killSwitchFile :: "bool throws"
  w_gatewayStateFile :: "bool throws"
  w_gasHistory :: "jsv list option"
  w_simulate :: "fields \<Rightarrow> sim_outcome"
  w_incidentFile :: "jsv option"

record policy_request =
  q_intent :: jsv
  q_auditRecords :: "jsv list"
  q_receiptRecords :: "jsv list"
  q_activeBudgetUsd :: jsv
  q_now :: jsv
  q_killSwitchPath :: jsv
  q_riskContext :: jsv
  q_evCostModel :: jsv
  q_capitalAuditState :: jsv

record policy_outcome =
  o_observedAt :: jsv
  o_strategyId :: jsv
  o_decision :: decision
  o_blockers :: "string list"
  o_results :: "policy_result list"
  o_strategyCaps :: jsv
  o_effectiveIntent :: jsv
  o_amountClamp :: "clamp_result option"
  o_requiresUnwind :: bool
  o_emergencyUnwindPath :: jsv

section \<open>Adapters\<close>

definition buildConcentrationCandidate :: "jsv \<Rightarrow> jsv \<Rightarrow> jsv" where
  "buildConcentrationCandidate intent totalOperatingCapitalUsd =
     (if \<not> isFiniteNumber totalOperatingCapitalUsd
         \<or> vle totalOperatingCapitalUsd (JNum (Fin 0)) then JNull
      else if \<not> isFiniteNumber (dot intent ''amountUsd'') then JNull
      else
        let addShare = jdiv (to_num (dot intent ''amountUsd'')) (to_num totalOperatingCapitalUsd);
            protocolIds = dots intent [''metadata'', ''protocolIds''];
            protocol = dots intent [''metadata'', ''protocol'']
        in if \<not> is_fin addShare then JNull
           else JObj
             [(''strategyId'', dot intent ''strategyId''),
              (''chainId'', dot intent ''chain''),
              (''addShare'', JNum addShare),
              (''protocolIds'', if is_arr protocolIds then protocolIds
                 else if truthy protocol then JArr [JStr (to_str protocol)] else JArr [])])"

definition mapLiquidityBlockers :: "risk_verdict \<Rightarrow> string list" where
  "mapLiquidityBlockers verdict =
     (if rv_ok verdict then []
      else
        let blockers =
              push_if (some_kind ''withdrawal_queue_too_deep'' (rv_violations verdict)) ''liquidity_queue_unwind''
              @ push_if (some_kind ''utilization_sustained_over_threshold'' (rv_violations verdict))
                  ''liquidity_pause_new_entries''
        in if blockers = [] then [''liquidity_watch_breach''] else blockers)"

definition mapConcentrationBlockers :: "risk_verdict \<Rightarrow> string list" where
  "mapConcentrationBlockers verdict =
     (if rv_ok verdict then [] else [''concentration_guard_reject_intent''])"

definition daemon_result :: "string \<Rightarrow> jsv \<Rightarrow> risk_verdict \<Rightarrow> string list \<Rightarrow> policy_result" where
  "daemon_result name now verdict blockers =
     \<lparr>pr_policy = name, pr_observedAt = now, pr_decision = (if rv_ok verdict then ALLOW else BLOCK),
      pr_blockers = blockers,
      pr_extra = [(''verdict'', JObj
        [(''moduleId'', JStr (rv_moduleId verdict)), (''ok'', JBool (rv_ok verdict)),
         (''severity'', JStr (severity_str (rv_severity verdict))),
         (''action'', JStr (rv_action verdict)), (''violations'', JArr (rv_violations verdict)),
         (''details'', JObj (rv_details verdict))])]\<rparr>"

definition or_arr :: "jsv \<Rightarrow> jsv" where
  "or_arr v = orelse v (JArr [])"

definition or_obj :: "jsv \<Rightarrow> jsv" where
  "or_obj v = orelse v (JObj [])"

definition verdict_obj :: "auto_kill_verdict \<Rightarrow> jsv" where
  "verdict_obj v = JObj [(''evaluatedAt'', JStr (akv_evaluatedAt v)),
     (''triggered'', JBool (akv_triggered v)), (''triggers'', JArr (akv_triggers v))]"

definition auto_kill_call :: "policy_world \<Rightarrow> jsv \<Rightarrow> jsv \<Rightarrow> jsv list \<Rightarrow> jsv \<Rightarrow> jsv \<Rightarrow> auto_kill_input" where
  "auto_kill_call w riskContext inputs auditRecords activeBudgetUsd now =
     \<lparr>ak_auditRecords =
        (if truthy (dot inputs ''auditRecords'') then elems (dot inputs ''auditRecords'') else auditRecords),
      ak_oracleSamples = or_arr (dot inputs ''oracleSamples''),
      ak_heartbeatAtMs = coal (dot inputs ''heartbeatAtMs'') JNull,
      ak_operatingCapitalUsd = first_present [dot inputs ''operatingCapitalUsd'',
        dot riskContext ''operatingCapitalUsd'', activeBudgetUsd],
      ak_priceSamples = or_arr (dot inputs ''priceSamples''),
      ak_clStatus = or_obj (dot inputs ''clStatus''),
      ak_activeProtocols = or_arr (dot inputs ''activeProtocols''),
      ak_campaignStatus = or_obj (dot inputs ''campaignStatus''),
      ak_config = dot inputs ''config'',
      ak_nowMs = date_of now,
      ak_incidentFile = w_incidentFile w\<rparr>"

definition auto_kill_result :: "jsv \<Rightarrow> jsv \<Rightarrow> policy_result" where
  "auto_kill_result now verdict =
     (let triggered = dot verdict ''triggered'' = JBool True
            \<or> dot verdict ''killSwitchActive'' = JBool True \<or> dot verdict ''alreadyArmed'' = JBool True
      in policy_answer ''auto_kill_triggers'' now (push_if triggered ''auto_kill_triggered'')
        [(''triggers'', if is_arr (dot verdict ''triggers'') then dot verdict ''triggers'' else JArr []),
         (''verdict'', verdict)])"

definition evaluateAutoKillPolicy ::
    "policy_world \<Rightarrow> jsv \<Rightarrow> jsv list \<Rightarrow> jsv \<Rightarrow> jsv \<Rightarrow> policy_result option throws" where
  "evaluateAutoKillPolicy w riskContext auditRecords activeBudgetUsd now =
     (let direct = first_truthy [dot riskContext ''autoKill'', dot riskContext ''autoKillVerdict'',
            dot riskContext ''autoKillResult'', JNull];
          inputs = orelse (dot riskContext ''autoKillInputs'') JNull
      in if \<not> truthy direct \<and> \<not> truthy inputs then Inr None
         else if truthy direct then Inr (Some (auto_kill_result now direct))
         else and_then (evaluateAutoKillTriggers
                (auto_kill_call w riskContext inputs auditRecords activeBudgetUsd now))
              (\<lambda>v. Inr (Some (auto_kill_result now (verdict_obj v)))))"

section \<open>The checks on the effective intent\<close>

text \<open>The concentration guard runs before the list of checks is built, so it throws first.\<close>

definition meta :: "jsv \<Rightarrow> string \<Rightarrow> jsv" where
  "meta intent k = dots intent [''metadata'', k]"

definition gas_budget_request :: "policy_request \<Rightarrow> jsv \<Rightarrow> gas_budget_input" where
  "gas_budget_request q intent =
     (let rc = q_riskContext q
      in (gas_budget_call intent (q_auditRecords q) (q_now q))
         \<lparr>gb_positionState := first_truthy [dot rc ''positionState'', dot intent ''positionState'', JNull],
          gb_gasBaselines := or_obj (dot rc ''gasBaselines''),
          gb_dailyGasBudget := default_arg
            (first_truthy [dot rc ''broadcastBudgetPolicy'', meta intent ''broadcastBudgetPolicy'', JUndef])
            BROADCAST_BUDGET_POLICY,
          gb_operatingCapitalUsd := first_present
            [dot rc ''totalOperatingCapitalUsd'', q_activeBudgetUsd q, JNull],
          gb_estimatedGasUsd := first_present
            [dot intent ''gasEstimateUsd'', meta intent ''gasEstimateUsd'', JNull]\<rparr>)"

definition gas_budget_result :: "policy_request \<Rightarrow> jsv \<Rightarrow> policy_result" where
  "gas_budget_result q intent =
     (let gasResult = evaluateGasBudgetController (gas_budget_request q intent)
      in \<lparr>pr_policy = ''gas_budget'', pr_observedAt = q_now q,
          pr_decision = (if gv_allowed gasResult then ALLOW else BLOCK),
          pr_blockers = gv_blockers gasResult,
          pr_extra = [(''metrics'', JObj (gv_metrics gasResult))]\<rparr>)"

definition liquidity_result :: "policy_request \<Rightarrow> jsv \<Rightarrow> policy_result option" where
  "liquidity_result q intent =
     (let snapshot = first_truthy [dot (q_riskContext q) ''liquiditySnapshot'',
            meta intent ''liquiditySnapshot'', JNull];
          verdict = evaluateLiquidityWatch snapshot
            (coal (dot (q_riskContext q) ''liquidityThresholds'') JUndef)
      in if truthy snapshot
         then Some (daemon_result ''liquidity_watch'' (q_now q) verdict (mapLiquidityBlockers verdict))
         else None)"

definition concentration_result :: "policy_request \<Rightarrow> jsv \<Rightarrow> policy_result option throws" where
  "concentration_result q intent =
     (let rc = q_riskContext q;
          candidate = buildConcentrationCandidate intent
            (coal (dot rc ''totalOperatingCapitalUsd'') (q_activeBudgetUsd q))
      in if truthy candidate
         then and_then (evaluateConcentrationGuard
                (first_truthy [dot rc ''currentAllocations'', meta intent ''currentAllocations'', JObj []])
                candidate (coal (dot rc ''diversificationPolicy'') JUndef))
              (\<lambda>verdict. Inr (Some (daemon_result ''concentration_guard'' (q_now q) verdict
                (mapConcentrationBlockers verdict))))
         else Inr None)"

definition strategy_for_policy :: "policy_request \<Rightarrow> jsv \<Rightarrow> jsv" where
  "strategy_for_policy q strategyCaps =
     JObj (spread (spread [] (fields_of strategyCaps))
       (fields_of (or_obj (dots (q_riskContext q) [''strategy'']))))"

definition always :: "policy_result \<Rightarrow> policy_result option throws" where
  "always r = Inr (Some r)"

definition just :: "policy_result throws \<Rightarrow> policy_result option throws" where
  "just m = and_then m (\<lambda>r. Inr (Some r))"

definition amountClampOf :: "policy_request \<Rightarrow> jsv \<Rightarrow> clamp_result" where
  "amountClampOf q strategyCaps =
     evaluateColdStartClamp (strategy_for_policy q strategyCaps) (q_auditRecords q) (q_now q)"

definition effectiveIntentOf :: "policy_request \<Rightarrow> jsv \<Rightarrow> jsv" where
  "effectiveIntentOf q strategyCaps =
     applyColdStartClampToIntent (q_intent q) (amountClampOf q strategyCaps)"

definition policy_checks ::
    "policy_world \<Rightarrow> policy_request \<Rightarrow> jsv \<Rightarrow> policy_result option \<Rightarrow> policy_result option throws list" where
  "policy_checks w q strategyCaps concentration =
     (let rc = q_riskContext q; now = q_now q; audit = q_auditRecords q;
          intent = effectiveIntentOf q strategyCaps;
          killPath = (if q_killSwitchPath q = JUndef then w_killSwitchPath w else q_killSwitchPath q);
          profile = or_obj (dot rc ''aggressionProfile'')
      in [always (evaluateStrategyCapsPresence (q_intent q) strategyCaps now),
          always (evaluateCapitalAuditGate intent (q_capitalAuditState q) now),
          always (buildColdStartClampPolicyResult (amountClampOf q strategyCaps) (q_intent q) intent now),
          just (checkKillSwitch killPath (w_killSwitchFile w) now),
          evaluateAutoKillPolicy w rc audit (q_activeBudgetUsd q) now,
          just (checkGatewayAvailability intent GATEWAY_POLICY
            (first_truthy [dot rc ''gatewayAvailability'', meta intent ''gatewayAvailability'', JNull])
            (w_gatewayStateFile w) now),
          always (evaluateEvGate (w_env w) intent
            (orelse (q_evCostModel q) (JObj [(''receiptRecords'', JArr (q_receiptRecords q)),
               (''auditRecords'', JArr audit)])) now (orelse (dot rc ''evCostPolicy'') JUndef)),
          always (gas_budget_result q intent),
          always (evaluateConsecutiveFailures intent audit
            (coal (dot strategyCaps ''maxConsecutiveFailures'') JUndef)
            (orelse (dot strategyCaps ''resumeAfterFailureAt'') JNull) (env_now (w_env w)) now),
          just (evaluateCapCheck intent strategyCaps audit (q_activeBudgetUsd q) JNull now),
          always (evaluateHealthFactorCheck intent strategyCaps now),
          always (evaluateLeverageCollateralRule (strategy_for_policy q strategyCaps) intent now),
          always (evaluateStaleQuote intent (coal (dot strategyCaps ''intentTtlMs'') JUndef) now),
          always (evaluateGasPriceCeiling intent now profile (w_gasHistory w)),
          always (evaluateApprovalHygiene intent DEFAULT_MAX_APPROVAL_TTL_MS now),
          always (evaluatePreBroadcastSimulation intent profile (w_simulate w) now),
          always (evaluateAssetCoverageGuard intent rc now),
          always (evaluateTinyLiveCanaryPolicy intent strategyCaps
            (first_truthy [dot rc ''microCanaryStatus'', meta intent ''microCanaryStatus'', JNull]) audit now),
          just (evaluateAggressiveVelocityPolicy
            (orelse (meta intent ''aggressiveVelocityManifest'') JNull) intent now
            getAggressiveVelocityMinNetBtc),
          Inr (liquidity_result q intent),
          Inr concentration])"

section \<open>The engine\<close>

definition hf_result_of :: "policy_result list \<Rightarrow> policy_result option" where
  "hf_result_of results = List.find (\<lambda>r. pr_policy r = ''hf_check'') results"

definition evaluateIntentPolicies :: "policy_world \<Rightarrow> policy_request \<Rightarrow> policy_outcome throws" where
  "evaluateIntentPolicies w q =
     (let sid = dot (q_intent q) ''strategyId'';
          strategyCaps = (if truthy sid then getStrategyCaps sid else JNull);
          capsResult = evaluateStrategyCapsPresence (q_intent q) strategyCaps (q_now q)
      in if pr_decision capsResult = BLOCK
         then Inr \<lparr>o_observedAt = q_now q, o_strategyId = orelse sid JNull, o_decision = BLOCK,
                o_blockers = pr_blockers capsResult, o_results = [capsResult],
                o_strategyCaps = orelse strategyCaps JNull, o_effectiveIntent = JUndef,
                o_amountClamp = None, o_requiresUnwind = False, o_emergencyUnwindPath = JNull\<rparr>
         else and_then (concentration_result q (effectiveIntentOf q strategyCaps)) (\<lambda>concentration.
           and_then (map_throws id (policy_checks w q strategyCaps concentration)) (\<lambda>answers.
           let results = List.map the (List.filter (\<lambda>r. r \<noteq> None) answers);
               blockers = concat (List.map pr_blockers results);
               hf = hf_result_of results
           in Inr \<lparr>o_observedAt = q_now q,
                  o_strategyId = dot (effectiveIntentOf q strategyCaps) ''strategyId'',
                  o_decision = decide blockers,
                  o_blockers = unique_list blockers,
                  o_results = results,
                  o_strategyCaps = strategyCaps,
                  o_effectiveIntent = effectiveIntentOf q strategyCaps,
                  o_amountClamp = Some (amountClampOf q strategyCaps),
                  o_requiresUnwind =
                    (case hf of Some r \<Rightarrow> fld (pr_extra r) ''requiresUnwind'' = JBool True | None \<Rightarrow> False),
                  o_emergencyUnwindPath =
                    (case hf of Some r \<Rightarrow> orelse (fld (pr_extra r) ''emergencyUnwindPath'') JNull
                     | None \<Rightarrow> JNull)\<rparr>)))"

section \<open>Facts\<close>

definition sound :: "policy_result option throws \<Rightarrow> bool" where
  "sound m \<longleftrightarrow> (\<forall>r. m = Inr (Some r) \<longrightarrow> consistent r)"

lemma sound_always: "consistent r \<Longrightarrow> sound (always r)"
  by (simp add: sound_def always_def)

lemma sound_just: "(\<And>r. m = Inr r \<Longrightarrow> consistent r) \<Longrightarrow> sound (just m)"
  by (auto simp: sound_def just_def and_then_Inr)

lemma auto_kill_sound: "sound (evaluateAutoKillPolicy w rc a b now)"
  by (auto simp: sound_def evaluateAutoKillPolicy_def auto_kill_result_def Let_def and_then_Inr
      simp del: first_truthy.simps split: if_splits)

lemma gas_budget_sound: "consistent (gas_budget_result q i)"
  by (simp add: consistent_def gas_budget_result_def evaluateGasBudgetController_def Let_def)

lemma liquidity_sound: "sound (Inr (liquidity_result q i))"
  by (auto simp: sound_def liquidity_result_def daemon_result_def consistent_def mapLiquidityBlockers_def Let_def
      simp del: first_truthy.simps split: if_splits)

lemma concentration_sound: "concentration_result q i = Inr c \<Longrightarrow> sound (Inr c)"
  by (auto simp: sound_def concentration_result_def daemon_result_def consistent_def mapConcentrationBlockers_def
      Let_def and_then_Inr simp del: first_truthy.simps split: if_splits)

lemma gate_results_consistent:
  "consistent (evaluateStrategyCapsPresence i c now)" "consistent (evaluateCapitalAuditGate i st now)"
  "consistent (buildColdStartClampPolicyResult cl i e now)" "consistent (evaluateEvGate env i h now p)"
  "consistent (evaluateConsecutiveFailures i a m ra clock now)" "consistent (evaluateHealthFactorCheck i c now)"
  "consistent (evaluateLeverageCollateralRule s i now)" "consistent (evaluateStaleQuote i ttl now)"
  "consistent (evaluateGasPriceCeiling i now pf hist)" "consistent (evaluateApprovalHygiene i ms now)"
  "consistent (evaluatePreBroadcastSimulation i pf prov now)" "consistent (evaluateAssetCoverageGuard i rc now)"
  "consistent (evaluateTinyLiveCanaryPolicy i c mc a now)"
  using strategy_caps_gate.gate_consistent [of "(i, c, now)"] capital_audit_gate.gate_consistent [of "(i, st, now)"]
    cold_start_gate.gate_consistent [of "(cl, i, e, now)"] ev_gate.gate_consistent [of "(env, i, h, now, p)"]
    failure_gate.gate_consistent [of "(i, a, m, ra, clock, now)"] hf_gate.gate_consistent [of "(i, c, now)"]
    collateral_gate.gate_consistent [of "(s, i, now)"] stale_quote_gate.gate_consistent [of "(i, ttl, now)"]
    gas_ceiling_gate.gate_consistent [of "(i, now, pf, hist)"] approval_gate.gate_consistent [of "(i, ms, now)"]
    simulation_gate.gate_consistent [of "(i, pf, prov, now)"] asset_coverage_gate.gate_consistent [of "(i, rc, now)"]
    tiny_canary_gate.gate_consistent [of "(i, c, mc, a, now)"]
  by simp_all

lemma throwing_results_consistent:
  "checkKillSwitch p f now = Inr r \<Longrightarrow> consistent r"
  "checkGatewayAvailability i pol av f now = Inr r \<Longrightarrow> consistent r"
  "evaluateCapCheck i c a b pe now = Inr r \<Longrightarrow> consistent r"
  "evaluateAggressiveVelocityPolicy m i now fl = Inr r \<Longrightarrow> consistent r"
  using kill_switch_gate.tgate_consistent [of "(p, f, now)" r] gateway_gate.tgate_consistent [of "(i, pol, av, f, now)" r]
    cap_gate.tgate_consistent [of "(i, c, a, b, pe, now)" r] aggressive_gate.tgate_consistent [of "(m, i, now, fl)" r]
  by simp_all

lemmas gates_consistent = gate_results_consistent throwing_results_consistent gas_budget_sound

lemma policy_checks_sound:
  assumes "concentration_result q i = Inr c"
  shows "list_all sound (policy_checks w q caps c)"
  unfolding policy_checks_def Let_def list.pred_inject
  by (intro conjI; (rule auto_kill_sound liquidity_sound concentration_sound [OF assms]
       | (rule sound_always, rule gate_results_consistent gas_budget_sound)
       | (rule sound_just, erule throwing_results_consistent) | simp))

text \<open>What a returned outcome was computed from.\<close>

lemma map_throws_set: "map_throws id ms = Inr as \<Longrightarrow> a \<in> set as \<longleftrightarrow> Inr a \<in> set ms"
proof (induction ms arbitrary: as)
  case (Cons m ms)
  obtain b bs where "as = b # bs" "m = Inr b" "map_throws id ms = Inr bs"
    using Cons.prems by (auto simp: and_then_Inr id_def)
  then show ?case using Cons.IH [of bs] by (auto simp: id_def)
qed simp

definition capsOf :: "policy_request \<Rightarrow> jsv" where
  "capsOf q = (let sid = dot (q_intent q) ''strategyId'' in if truthy sid then getStrategyCaps sid else JNull)"

lemma engine_cases:
  assumes "evaluateIntentPolicies w q = Inr out"
  obtains (no_caps) "pr_decision (evaluateStrategyCapsPresence (q_intent q) (capsOf q) (q_now q)) = BLOCK"
      "o_decision out = BLOCK" "o_results out = [evaluateStrategyCapsPresence (q_intent q) (capsOf q) (q_now q)]"
      "\<not> o_requiresUnwind out" "o_blockers out = pr_blockers (evaluateStrategyCapsPresence (q_intent q) (capsOf q) (q_now q))"
  | (checked) c as where
      "pr_decision (evaluateStrategyCapsPresence (q_intent q) (capsOf q) (q_now q)) = ALLOW"
      "concentration_result q (effectiveIntentOf q (capsOf q)) = Inr c"
      "map_throws id (policy_checks w q (capsOf q) c) = Inr as"
      "o_results out = List.map the (List.filter (\<lambda>r. r \<noteq> None) as)"
      "o_decision out = decide (concat (List.map pr_blockers (o_results out)))"
      "o_blockers out = unique_list (concat (List.map pr_blockers (o_results out)))"
      "o_effectiveIntent out = effectiveIntentOf q (capsOf q)"
      "o_requiresUnwind out = (case hf_result_of (o_results out) of
         Some r \<Rightarrow> fld (pr_extra r) ''requiresUnwind'' = JBool True | None \<Rightarrow> False)"
proof (cases "pr_decision (evaluateStrategyCapsPresence (q_intent q) (capsOf q) (q_now q)) = BLOCK")
  case True
  with assms show ?thesis
    by (intro no_caps) (auto simp: evaluateIntentPolicies_def Let_def capsOf_def)
next
  case False
  then have al: "pr_decision (evaluateStrategyCapsPresence (q_intent q) (capsOf q) (q_now q)) = ALLOW"
    by (cases "pr_decision (evaluateStrategyCapsPresence (q_intent q) (capsOf q) (q_now q))") auto
  obtain c as where "concentration_result q (effectiveIntentOf q (capsOf q)) = Inr c"
      "map_throws id (policy_checks w q (capsOf q) c) = Inr as"
    using assms al unfolding evaluateIntentPolicies_def Let_def capsOf_def [unfolded Let_def, symmetric]
    by (auto simp: and_then_Inr)
  then show ?thesis
    using assms al unfolding evaluateIntentPolicies_def Let_def capsOf_def [unfolded Let_def, symmetric]
    by (intro checked [of c as]) auto
qed

text \<open>Every result of a checked outcome is the answer of one of the checks, and conversely.\<close>

lemma checked_results:
  assumes "map_throws id ms = Inr as" "results = List.map the (List.filter (\<lambda>r. r \<noteq> None) as)"
  shows "r \<in> set results \<longleftrightarrow> Inr (Some r) \<in> set ms"
proof -
  have "r \<in> set results \<longleftrightarrow> Some r \<in> set as" by (force simp: assms(2))
  then show ?thesis using map_throws_set [OF assms(1)] by simp
qed

lemma outcome_results_consistent:
  assumes "evaluateIntentPolicies w q = Inr out" "r \<in> set (o_results out)"
  shows "consistent r"
  using assms(1)
proof (cases rule: engine_cases)
  case no_caps
  then show ?thesis using assms(2) gate_results_consistent(1) by simp
next
  case (checked c as)
  then have "Inr (Some r) \<in> set (policy_checks w q (capsOf q) c)"
    using checked_results [OF checked(3,4)] assms(2) by simp
  then have "sound (Inr (Some r))"
    using policy_checks_sound [OF checked(2), of w "capsOf q"] by (auto simp: list_all_iff)
  then show ?thesis by (simp add: sound_def)
qed

text \<open>An allowed outcome: every check that answered allowed.\<close>

lemma allowed_check:
  assumes "evaluateIntentPolicies w q = Inr out" "o_decision out = ALLOW"
    and "\<And>c. concentration_result q (effectiveIntentOf q (capsOf q)) = Inr c \<Longrightarrow>
        m \<in> set (policy_checks w q (capsOf q) c)"
  shows "m = Inr None \<or> (\<exists>r. m = Inr (Some r) \<and> r \<in> set (o_results out) \<and> pr_decision r = ALLOW)"
  using assms(1)
proof (cases rule: engine_cases)
  case no_caps
  then show ?thesis using assms(2) by simp
next
  case (checked c as)
  have "m \<in> set (policy_checks w q (capsOf q) c)" by (rule assms(3) [OF checked(2)])
  moreover have "\<forall>m\<in>set ms. \<exists>a. m = Inr a" if "map_throws id ms = Inr bs" for ms :: "policy_result option throws list" and bs
    using that by (induction ms arbitrary: bs) (auto simp: and_then_Inr)
  ultimately obtain a where m: "m = Inr a" using checked(3) by blast
  show ?thesis
  proof (cases a)
    case (Some r)
    then have r: "r \<in> set (o_results out)"
      using checked_results [OF checked(3,4)] m \<open>m \<in> _\<close> by simp
    then have "pr_blockers r = []" using checked(5) assms(2) by auto
    with outcome_results_consistent [OF assms(1) r] have "pr_decision r \<noteq> BLOCK"
      by (simp add: consistent_def)
    then have "pr_decision r = ALLOW" by (cases "pr_decision r") auto
    with m Some r show ?thesis by blast
  qed (simp add: m)
qed

text \<open>A check that answered without a blocker, or abstained.\<close>

definition check_clear :: "policy_result option throws \<Rightarrow> bool" where
  "check_clear m \<longleftrightarrow> m = Inr None \<or> (\<exists>r. m = Inr (Some r) \<and> pr_blockers r = [])"

lemma clear_always: "pr_blockers r = [] \<Longrightarrow> check_clear (always r)"
  by (simp add: check_clear_def always_def)
lemma clear_just: "m = Inr r \<Longrightarrow> pr_blockers r = [] \<Longrightarrow> check_clear (just m)"
  by (simp add: check_clear_def just_def and_then_Inr)


lemma all_answered:
  "list_all check_clear ms \<Longrightarrow> \<exists>as. map_throws id ms = Inr as
     \<and> list_all (\<lambda>a. a = None \<or> pr_blockers (the a) = []) as"
proof (induction ms)
  case (Cons m ms)
  have "list_all check_clear ms" using Cons.prems by simp
  from Cons.IH [OF this] obtain as where "map_throws id ms = Inr as"
    "list_all (\<lambda>a. a = None \<or> pr_blockers (the a) = []) as" by blast
  then show ?case using Cons.prems unfolding id_def
    by (cases rule: list.exhaust [of ms]) (fastforce simp: check_clear_def and_then_Inr)+
qed simp

lemma engine_allows:
  assumes "pr_decision (evaluateStrategyCapsPresence (q_intent q) (capsOf q) (q_now q)) = ALLOW"
    "concentration_result q (effectiveIntentOf q (capsOf q)) = Inr c"
    "list_all check_clear (policy_checks w q (capsOf q) c)"
  shows "\<exists>out. evaluateIntentPolicies w q = Inr out \<and> o_decision out = ALLOW"
proof -
  obtain as where as: "map_throws id (policy_checks w q (capsOf q) c) = Inr as"
    "list_all (\<lambda>a. a = None \<or> pr_blockers (the a) = []) as"
    using all_answered [OF assms(3)] by blast
  have "decide (concat (List.map pr_blockers (List.map the (List.filter (\<lambda>r. r \<noteq> None) as)))) = ALLOW"
    using as(2) by (auto simp: decide_def list_all_iff)
  then show ?thesis
    using assms(1,2) as(1) unfolding evaluateIntentPolicies_def Let_def capsOf_def [unfolded Let_def, symmetric]
    by (simp del: not_None_eq map_map)
qed

text \<open>What a single check being breached, or failing to answer, does to the outcome.\<close>

lemma check_in_policy:
  "just (checkKillSwitch (if q_killSwitchPath q = JUndef then w_killSwitchPath w else q_killSwitchPath q)
     (w_killSwitchFile w) (q_now q)) \<in> set (policy_checks w q caps c)"
  "just (evaluateCapCheck (effectiveIntentOf q caps) caps (q_auditRecords q) (q_activeBudgetUsd q) JNull (q_now q))
     \<in> set (policy_checks w q caps c)"
  "always (evaluateHealthFactorCheck (effectiveIntentOf q caps) caps (q_now q)) \<in> set (policy_checks w q caps c)"
  "always (evaluateStaleQuote (effectiveIntentOf q caps) (coal (dot caps ''intentTtlMs'') JUndef) (q_now q))
     \<in> set (policy_checks w q caps c)"
  "always (evaluateApprovalHygiene (effectiveIntentOf q caps) DEFAULT_MAX_APPROVAL_TTL_MS (q_now q))
     \<in> set (policy_checks w q caps c)"
  by (simp_all add: policy_checks_def Let_def)

lemma allowed_always:
  assumes "evaluateIntentPolicies w q = Inr out" "o_decision out = ALLOW"
    and "\<And>c. always r \<in> set (policy_checks w q (capsOf q) c)"
  shows "pr_decision r = ALLOW"
  using allowed_check [OF assms(1,2), of "always r"] assms(3) by (auto simp: always_def)

lemma allowed_just:
  assumes "evaluateIntentPolicies w q = Inr out" "o_decision out = ALLOW"
    and "\<And>c. just m \<in> set (policy_checks w q (capsOf q) c)"
  shows "\<exists>r. m = Inr r \<and> pr_decision r = ALLOW"
  using allowed_check [OF assms(1,2), of "just m"] assms(3) by (auto simp: just_def and_then_Inr)

lemma answered:
  assumes "map_throws id ms = Inr as" "m \<in> set ms"
  shows "\<exists>a. m = Inr a"
  using assms
proof (induction ms arbitrary: as)
  case (Cons m' ms)
  then obtain b bs where "m' = Inr b" "map_throws id ms = Inr bs"
    unfolding id_def by (auto simp: and_then_Inr)
  then show ?case using Cons.IH Cons.prems(2) by (metis set_ConsD)
qed simp

lemma stale_quote_allowed:
  assumes "pr_decision (evaluateStaleQuote intent m now) = ALLOW"
  shows "truthy (quoteObservedAt intent)" "jle (Fin 0) (age_ms now (quoteObservedAt intent))"
    "\<not> vlt (resolveQuoteMaxAgeMs intent m) (JNum (age_ms now (quoteObservedAt intent)))"
proof -
  have "pr_blockers (evaluateStaleQuote intent m now) = []"
    using assms gate_results_consistent(8) [of intent m now] by (metis consistent_def decision.distinct(1))
  then show "truthy (quoteObservedAt intent)" "jle (Fin 0) (age_ms now (quoteObservedAt intent))"
    "\<not> vlt (resolveQuoteMaxAgeMs intent m) (JNum (age_ms now (quoteObservedAt intent)))"
    unfolding stale_quote_blockers by (auto simp: jlt_iff_not_jle elim!: is_finE split: if_splits)
qed

lemma cap_allowed_per_tx:
  assumes "evaluateCapCheck intent c recs budget pol now = Inr r" "pr_decision r = ALLOW"
    "\<not> isEmergencyCapIntent intent" "is_fin (intentCapAmountUsd intent)" "c \<noteq> JUndef"
  shows "jle (intentCapAmountUsd intent) (to_num (perTxCapOf (caps_of c) intent))"
proof -
  obtain st pst where st: "buildStrategyCapState (dot intent ''strategyId'') recs now = Inr st"
    and b: "pr_blockers r = strategy_cap_blockers intent c st @ portfolio_cap_blockers intent
       (resolvePortfolioExposurePolicy budget (if pol = JUndef then JNull else pol)) pst"
    and d: "pr_decision r = decide (pr_blockers r)"
    by (rule evaluateCapCheck_Inr [OF assms(1,5)])
  have "strategy_cap_blockers intent c st = []" using assms(2) b d by (simp add: decide_def split: if_splits)
  moreover have "cs_dailyVolumeUsd st \<noteq> NaN"
    using st by (auto simp: buildStrategyCapState_def and_then_Inr volume_of_def sum_finite_not_nan Let_def)
  ultimately show ?thesis using strategy_cap_clear(1) assms(3,4) by blast
qed

end
