(* ===== verification/EngineProperties.thy ===== *)
theory EngineProperties
  imports PolicyEngine
begin

text \<open>
  The properties of the policy engine. A worked request (an entry of the committed Moonwell loop
  strategy on Base, at a healthy and at an unhealthy position) shows each of them at a concrete
  intent: the first part of this theory evaluates the checks on it, one lemma per check.
\<close>

section \<open>A worked request\<close>

definition sample_world :: policy_world where
  "sample_world = \<lparr>w_env = sample_env, w_killSwitchPath = JStr ''KILL_SWITCH'', w_killSwitchFile = Inr False,
     w_gatewayStateFile = Inr False, w_gasHistory = None, w_simulate = (\<lambda>_. CallReturned), w_incidentFile = None\<rparr>"

definition sample_loop_intent :: "int \<Rightarrow> jsv" where
  "sample_loop_intent hf = JObj
     [(''strategyId'', JStr ''wrapped-btc-loop-base-moonwell''), (''chain'', JStr ''base''),
      (''intentId'', JStr ''loop:entry:mint-initial-collateral''),
      (''intentType'', JStr ''swap''), (''observedAt'', sample_now), (''amountUsd'', JNum (Fin 20)),
      (''expectedNetUsd'', JNum (Fin 5)), (''gasEstimateUsd'', JNum (Fin 1)),
      (''healthFactor'', JObj [(''current'', JNum (Fin (of_int hf)))])]"

definition sample_request :: "jsv \<Rightarrow> policy_request" where
  "sample_request intent = \<lparr>q_intent = intent,
     q_auditRecords = [], q_receiptRecords = [], q_activeBudgetUsd = JNull, q_now = sample_now,
     q_killSwitchPath = JUndef, q_riskContext = JObj [], q_evCostModel = sample_model,
     q_capitalAuditState = JNull\<rparr>"

lemma sample_loop_caps: "getStrategyCaps (JStr ''wrapped-btc-loop-base-moonwell'') = caps_wrapped_btc_loop_base_moonwell"
proof -
  have "map_of STRATEGY_CAPS ''wrapped-btc-loop-base-moonwell'' = Some caps_wrapped_btc_loop_base_moonwell"
    by (simp add: STRATEGY_CAPS_def)
  then show ?thesis
    by (simp add: getStrategyCaps_Some applyTransportInfraSmallCapitalClamp_def Let_def)
       (simp add: caps_wrapped_btc_loop_base_moonwell_def TRANSPORT_INFRA_STRATEGY_IDS_def one_of_def)
qed

abbreviation loop_caps where "loop_caps \<equiv> caps_wrapped_btc_loop_base_moonwell"

lemma sample_effective: "effectiveIntentOf (sample_request (sample_loop_intent 2)) loop_caps = sample_loop_intent 2"
  by code_simp

lemma sample_concentration: "concentration_result (sample_request (sample_loop_intent 2)) (sample_loop_intent 2) = Inr None"
  by (simp add: concentration_result_def buildConcentrationCandidate_def sample_request_def Let_def isFiniteNumber_def)

lemma sample_capital: "pr_blockers (evaluateCapitalAuditGate (sample_loop_intent 2) JNull sample_now) = []"
  by code_simp
lemma sample_hf: "pr_blockers (evaluateHealthFactorCheck (sample_loop_intent 2) loop_caps sample_now) = []"
  by code_simp
lemma sample_failures: "pr_blockers (evaluateConsecutiveFailures (sample_loop_intent 2) [] JUndef (JStr ''2026-04-30T22:50:28.000Z'') (Fin 0) sample_now) = []"
  by code_simp
lemma sample_quote: "pr_blockers (evaluateStaleQuote (sample_loop_intent 2) (JNum (jint 60000)) sample_now) = []"
  by code_simp
lemma sample_gas: "pr_blockers (gas_budget_result (sample_request (sample_loop_intent 2)) (sample_loop_intent 2)) = []"
  by code_simp
lemma sample_ceiling: "pr_blockers (evaluateGasPriceCeiling (sample_loop_intent 2) sample_now (JObj []) None) = []"
  by code_simp
lemma sample_approvals: "pr_blockers (evaluateApprovalHygiene (sample_loop_intent 2) DEFAULT_MAX_APPROVAL_TTL_MS sample_now) = []"
  by code_simp
lemma sample_simulation: "pr_blockers (evaluatePreBroadcastSimulation (sample_loop_intent 2) (JObj []) (\<lambda>_. CallReturned) sample_now) = []"
  by code_simp
lemma sample_coverage: "pr_blockers (evaluateAssetCoverageGuard (sample_loop_intent 2) (JObj []) sample_now) = []"
  by code_simp
lemma sample_tiny: "pr_blockers (evaluateTinyLiveCanaryPolicy (sample_loop_intent 2) loop_caps JNull [] sample_now) = []"
  by code_simp
lemma sample_auto_kill: "evaluateAutoKillPolicy sample_world (JObj []) [] JNull sample_now = Inr None"
  by (simp add: evaluateAutoKillPolicy_def)
lemma sample_collateral: "pr_blockers (evaluateLeverageCollateralRule (strategy_for_policy (sample_request (sample_loop_intent 2)) loop_caps) (sample_loop_intent 2) sample_now) = []"
  by code_simp
lemma sample_liquidity: "liquidity_result (sample_request (sample_loop_intent 2)) (sample_loop_intent 2) = None"
  by code_simp
lemma sample_not_gateway: "isGatewayIntent (sample_loop_intent 2) = False"
  by code_simp
lemma sample_clamp: "pr_blockers (buildColdStartClampPolicyResult (amountClampOf (sample_request (sample_loop_intent 2)) loop_caps) (sample_loop_intent 2) (sample_loop_intent 2) sample_now) = []"
  by code_simp

lemma sample_caps_presence:
  "pr_decision (evaluateStrategyCapsPresence (sample_loop_intent hf) loop_caps sample_now) = ALLOW"
proof -
  have "map_of STRATEGY_CAPS ''wrapped-btc-loop-base-moonwell'' = Some loop_caps"
    by (simp add: STRATEGY_CAPS_def)
  from committed_entry(2) [OF this] show ?thesis
    by (simp add: caps_presence_allow_iff caps_wrapped_btc_loop_base_moonwell_def)
qed

lemma sample_caps_of: "capsOf (sample_request (sample_loop_intent hf)) = loop_caps"
  by (simp add: capsOf_def sample_request_def sample_loop_intent_def sample_loop_caps)

lemma sample_ev_gate:
  "pr_decision (evaluateEvGate sample_env (sample_loop_intent 2) sample_model sample_now JUndef) = ALLOW"
proof -
  let ?i = "sample_loop_intent 2"
  have side: "isSafetyCriticalIntent ?i = False" "gateExpectedNetUsd ?i = Some (Fin 5)"
    "gasEstimateUsdFromIntent ?i = Some (Fin 1)" "normalizeString (dot ?i ''intentType'') = Some ''swap''"
    "normalizeLower (dot ?i ''chain'') = Some ''base''"
    by code_simp+
  have ty: "dot ?i ''intentType'' \<noteq> JStr ''approve_exact''"
    by (simp add: sample_loop_intent_def)
  have hist: "resolveEvHistoryInput sample_env sample_model sample_now EXECUTION_EV_COST_POLICY = sample_model"
    by (simp add: resolveEvHistoryInput_def sample_model_def)
  have cost: "jlt (cf_requiredNetUsd (gate_cost_floor ?i sample_model EXECUTION_EV_COST_POLICY)) (Fin 5)"
    "jlt (Fin (3 / 2)) (jdiv (Fin 5) (Fin 1))"
    by code_simp+
  have "mf_allow (evaluateEvMarginFloor (JNum (Fin 5)) (JNum (Fin 1)) (JStr ''base'') (JStr ''swap'') JUndef)"
  proof -
    have t: "trim ''swap'' \<noteq> []" "trim ''base'' \<noteq> []" by code_simp+
    have "jlt (Fin 0) (Fin 1)" "is_fin (Fin 1)" "is_fin (Fin 5)" "jlt (Fin 0) (Fin 5)" by simp_all
    with margin_floor_allow [OF refl t(1) refl t(2) this(1-3)] cost(2) show ?thesis by blast
  qed
  moreover have "dot EXECUTION_EV_COST_POLICY ''evMarginFloorPolicy'' = JUndef"
    by (simp add: EXECUTION_EV_COST_POLICY_def)
  ultimately show ?thesis
    using side(1) cost(1)
    by (simp add: evaluateEvGate_def Let_def default_policy_def evGate_measured [OF _ ty]
        measured_allow_iff [OF side(2)] side hist num_or_null_def str_or_null_def)
qed

lemma sample_cap_check:
  "\<exists>r. evaluateCapCheck (sample_loop_intent 2) loop_caps [] JNull JNull sample_now = Inr r \<and> pr_blockers r = []"
proof -
  obtain pst where "buildPortfolioExposureState [] sample_now = Inr pst"
    using empty_log_portfolio [OF sample_day] by blast
  moreover have "intentCapAmountUsd (sample_loop_intent 2) = Fin 20" "isEmergencyCapIntent (sample_loop_intent 2) = False"
    by code_simp+
  ultimately show ?thesis
    by (simp add: evaluateCapCheck_def empty_log_state [OF sample_day] no_budget_policy Let_def
        portfolio_cap_blockers_def strategy_cap_blockers_def)
      (simp add: caps_wrapped_btc_loop_base_moonwell_def sample_loop_intent_def perTxCapOf_def chainCapOf_def
        index_def isTinyLiveCanaryCap_def isFiniteNumber_def over_cap_def vol_def rnd_numeral
        jint_def DEFAULT_FAILED_GAS_COST_24H_USD_def)
qed

lemma sample_kill: "checkKillSwitch (JStr ''KILL_SWITCH'') (Inr False) sample_now
     = Inr (policy_answer ''kill_switch'' sample_now [] [(''killSwitchPath'', JStr ''KILL_SWITCH'')])"
  by (simp add: checkKillSwitch_def push_if_def)

lemma sample_gateway: "\<exists>r. checkGatewayAvailability (sample_loop_intent 2) GATEWAY_POLICY JNull (Inr False) sample_now = Inr r
     \<and> pr_blockers r = []"
  using sample_not_gateway by (auto simp: checkGatewayAvailability_def resolveGatewayAvailability_def gateway_result_def Let_def and_then_Inr)

lemma sample_sleeve: "\<exists>r. evaluateAggressiveVelocityPolicy JNull (sample_loop_intent 2) sample_now m = Inr r \<and> pr_blockers r = []"
  by (simp add: evaluateAggressiveVelocityPolicy_def Let_def sample_loop_intent_def isAggressiveSleeve_def)

lemma allow_clear: "pr_decision r = ALLOW \<Longrightarrow> consistent r \<Longrightarrow> pr_blockers r = []"
  by (metis consistent_def decision.distinct(1))

lemmas sample_blockers = sample_capital sample_hf sample_failures sample_quote sample_gas sample_ceiling
  sample_approvals sample_simulation sample_coverage sample_tiny sample_collateral sample_clamp

lemma sample_checks_clear:
  "list_all check_clear (policy_checks sample_world (sample_request (sample_loop_intent 2)) loop_caps None)"
proof -
  let ?q = "sample_request (sample_loop_intent 2)"
  have fields: "q_intent ?q = sample_loop_intent 2" "q_auditRecords ?q = []" "q_activeBudgetUsd ?q = JNull"
    "q_now ?q = sample_now" "q_killSwitchPath ?q = JUndef" "q_riskContext ?q = JObj []"
    "q_evCostModel ?q = sample_model" "q_capitalAuditState ?q = JNull"
    by (simp_all add: sample_request_def)
  have world: "w_env sample_world = sample_env" "w_killSwitchPath sample_world = JStr ''KILL_SWITCH''"
    "w_killSwitchFile sample_world = Inr False" "w_gatewayStateFile sample_world = Inr False"
    "w_gasHistory sample_world = None" "w_simulate sample_world = (\<lambda>_. CallReturned)"
    by (simp_all add: sample_world_def)
  have model: "orelse sample_model m = sample_model" for m by (simp add: sample_model_def)
  have ttl: "dot loop_caps ''intentTtlMs'' = JNum (jint 60000)" "dot loop_caps ''maxConsecutiveFailures'' = JUndef"
    "dot loop_caps ''resumeAfterFailureAt'' = JStr ''2026-04-30T22:50:28.000Z''"
    by (simp_all add: caps_wrapped_btc_loop_base_moonwell_def)
  have meta: "meta (sample_loop_intent 2) k = JUndef" for k
    by (simp add: meta_def sample_loop_intent_def)
  have env: "env_now sample_env = Fin 0" by (simp add: sample_env_def)
  have gates: "check_clear (always (evaluateStrategyCapsPresence (sample_loop_intent 2) loop_caps sample_now))"
    "check_clear (always (evaluateEvGate sample_env (sample_loop_intent 2) sample_model sample_now JUndef))"
    by (rule clear_always, rule allow_clear, rule sample_caps_presence sample_ev_gate, rule gates_consistent)+
  have answers: "check_clear (just (evaluateCapCheck (sample_loop_intent 2) loop_caps [] JNull JNull sample_now))"
    "check_clear (just (checkGatewayAvailability (sample_loop_intent 2) GATEWAY_POLICY JNull (Inr False) sample_now))"
    "check_clear (just (evaluateAggressiveVelocityPolicy JNull (sample_loop_intent 2) sample_now m))" for m
    using sample_cap_check sample_gateway sample_sleeve [of m] clear_just by blast+
  have kill: "check_clear (just (checkKillSwitch (JStr ''KILL_SWITCH'') (Inr False) sample_now))"
    by (rule clear_just [OF sample_kill]) (simp add: policy_answer_def)
  note clear = gates answers kill sample_blockers [THEN clear_always]
  show ?thesis
    unfolding policy_checks_def Let_def list.pred_inject fields world sample_effective
    by (simp add: model ttl meta env or_obj_def sample_liquidity sample_auto_kill clear
        check_clear_def [of "Inr None"])
qed

lemma sample_engine_allows:
  "\<exists>out. evaluateIntentPolicies sample_world (sample_request (sample_loop_intent 2)) = Inr out \<and> o_decision out = ALLOW"
proof (rule engine_allows [where c = None])
  have q: "q_intent (sample_request i) = i" "q_now (sample_request i) = sample_now" for i
    by (simp_all add: sample_request_def)
  show "pr_decision (evaluateStrategyCapsPresence (q_intent (sample_request (sample_loop_intent 2)))
      (capsOf (sample_request (sample_loop_intent 2))) (q_now (sample_request (sample_loop_intent 2)))) = ALLOW"
    unfolding q sample_caps_of by (rule sample_caps_presence)
qed (simp_all add: sample_caps_of sample_effective sample_concentration sample_checks_clear)

section \<open>Properties\<close>

text \<open>C3: a decision of the engine is BLOCK exactly when some check it asked answered BLOCK, and the
  blockers it reports are exactly those its checks named.\<close>

theorem engine_blocks_iff:
  assumes "evaluateIntentPolicies w q = Inr out"
  shows "(o_decision out = BLOCK \<longleftrightarrow> (\<exists>r\<in>set (o_results out). pr_decision r = BLOCK))
    \<and> set (o_blockers out) = (\<Union>r\<in>set (o_results out). set (pr_blockers r))"
  using assms
proof (cases rule: engine_cases)
  case no_caps
  then show ?thesis by simp
next
  case (checked c as)
  have "pr_decision r = BLOCK \<longleftrightarrow> pr_blockers r \<noteq> []" if "r \<in> set (o_results out)" for r
    using outcome_results_consistent [OF assms that] by (simp add: consistent_def)
  then have "o_decision out = BLOCK \<longleftrightarrow> (\<exists>r\<in>set (o_results out). pr_decision r = BLOCK)"
    unfolding checked(5) decide_def by auto
  then show ?thesis unfolding checked(6) by (simp add: set_unique_list)
qed

theorem engine_blocks_iff_witness:
  "\<exists>out. evaluateIntentPolicies sample_world (sample_request (sample_loop_intent 2)) = Inr out
     \<and> (\<forall>r\<in>set (o_results out). pr_decision r \<noteq> BLOCK)"
proof -
  obtain out where out: "evaluateIntentPolicies sample_world (sample_request (sample_loop_intent 2)) = Inr out"
    "o_decision out = ALLOW"
    using sample_engine_allows by blast
  with engine_blocks_iff [OF out(1)] show ?thesis by auto
qed

text \<open>C1: an allowed intent has committed valid caps, no kill-switch file where a path for it is
  configured, and a quote that is dated in the past and not older than its limit. Unless it is an
  emergency one (by type or by its risk_unwind reason), an amount that is a finite number is within
  the committed per-transaction cap. Unless it is an emergency unwind, a leveraged intent has a health
  factor and a liquidation buffer that are, before and after the trade, not below the committed minima.\<close>

theorem engine_allow_guarantees:
  assumes "evaluateIntentPolicies w q = Inr out" "o_decision out = ALLOW"
    "intent = effectiveIntentOf q caps" "caps = capsOf q"
  shows "val_ok (validateStrategyCapsConfig caps)
    \<and> (truthy (if q_killSwitchPath q = JUndef then w_killSwitchPath w else q_killSwitchPath q) \<longrightarrow>
         w_killSwitchFile w = Inr False)
    \<and> truthy (quoteObservedAt intent) \<and> jle (Fin 0) (age_ms (q_now q) (quoteObservedAt intent))
    \<and> \<not> vlt (resolveQuoteMaxAgeMs intent (coal (dot caps ''intentTtlMs'') JUndef))
         (JNum (age_ms (q_now q) (quoteObservedAt intent)))
    \<and> (\<not> isEmergencyCapIntent intent \<and> is_fin (intentCapAmountUsd intent) \<longrightarrow>
         jle (intentCapAmountUsd intent) (to_num (perTxCapOf (caps_of caps) intent)))
    \<and> (dot intent ''intentType'' \<noteq> JStr ''emergency_unwind'' \<and> lv_isLeverage (leverage_view_of intent caps) \<longrightarrow>
         hf_triggers (leverage_view_of intent caps) = [])"
proof -
  note allowed = allowed_always [OF assms(1,2)] allowed_just [OF assms(1,2)]
  have caps: "pr_decision (evaluateStrategyCapsPresence (q_intent q) caps (q_now q)) = ALLOW"
    using assms(2) by (cases rule: engine_cases [OF assms(1)]) (simp_all add: assms(4))
  then have v: "truthy caps" "val_ok (validateStrategyCapsConfig caps)" by (simp_all add: caps_presence_allow_iff)
  have quote: "pr_decision (evaluateStaleQuote intent (coal (dot caps ''intentTtlMs'') JUndef) (q_now q)) = ALLOW"
    unfolding assms(3,4) by (rule allowed(1)) (rule check_in_policy)
  have hf: "pr_decision (evaluateHealthFactorCheck intent caps (q_now q)) = ALLOW"
    unfolding assms(3,4) by (rule allowed(1)) (rule check_in_policy)
  obtain k where kill: "checkKillSwitch (if q_killSwitchPath q = JUndef then w_killSwitchPath w else q_killSwitchPath q)
      (w_killSwitchFile w) (q_now q) = Inr k" "pr_decision k = ALLOW"
    using allowed(2) [OF check_in_policy(1)] by blast
  obtain r where cap: "evaluateCapCheck intent caps (q_auditRecords q) (q_activeBudgetUsd q) JNull (q_now q) = Inr r"
    "pr_decision r = ALLOW"
    using allowed(2) [OF check_in_policy(2)] unfolding assms(3,4) by blast
  have present: "w_killSwitchFile w = Inr False"
    if "truthy (if q_killSwitchPath q = JUndef then w_killSwitchPath w else q_killSwitchPath q)"
    using kill that by (auto simp: checkKillSwitch_def and_then_Inr push_if_def policy_answer_def decide_def split: if_splits)
  have amount: "\<not> isEmergencyCapIntent intent \<and> is_fin (intentCapAmountUsd intent) \<longrightarrow>
      jle (intentCapAmountUsd intent) (to_num (perTxCapOf (caps_of caps) intent))"
    using cap_allowed_per_tx [OF cap] v(1) by (cases caps) auto
  have floors: "hf_triggers (leverage_view_of intent caps) = []"
    if leverage: "dot intent ''intentType'' \<noteq> JStr ''emergency_unwind'' \<and> lv_isLeverage (leverage_view_of intent caps)"
  proof -
    have "hf_blockers (leverage_view_of intent caps) = []"
      using hf leverage unfolding hf_decision(1) [OF conjunct2 [OF leverage]] decide_def by (simp split: if_splits)
    moreover have "\<not> lv_emergency (leverage_view_of intent caps)"
      using leverage by (simp add: leverage_view_of_def)
    ultimately show ?thesis using hf_trigger_blocks by blast
  qed
  show ?thesis
    by (intro conjI amount v(2) stale_quote_allowed [OF quote]; intro impI present floors)
qed

theorem engine_allow_guarantees_witness:
  "jle (intentCapAmountUsd (sample_loop_intent 2)) (Fin 500)
     \<and> hf_triggers (leverage_view_of (sample_loop_intent 2) loop_caps) = []"
proof -
  obtain out where out: "evaluateIntentPolicies sample_world (sample_request (sample_loop_intent 2)) = Inr out"
    "o_decision out = ALLOW"
    using sample_engine_allows by blast
  have side: "isEmergencyCapIntent (sample_loop_intent 2) = False" "is_fin (intentCapAmountUsd (sample_loop_intent 2)) = True"
    "lv_isLeverage (leverage_view_of (sample_loop_intent 2) loop_caps) = True"
    "to_num (perTxCapOf (caps_of loop_caps) (sample_loop_intent 2)) = jint 500"
    by code_simp+
  have "dot (sample_loop_intent 2) ''intentType'' \<noteq> JStr ''emergency_unwind''"
    by (simp add: sample_loop_intent_def)
  with engine_allow_guarantees [OF out sample_effective [symmetric] sample_caps_of [symmetric]] side
  show ?thesis by (simp add: jint_def)
qed

text \<open>C21: an intent of a strategy that has no committed caps is blocked with that one result, and
  nothing outside the process is consulted: the outcome is the same in every world.\<close>

theorem engine_without_caps:
  assumes "dot (q_intent q) ''strategyId'' = JStr k" "map_of STRATEGY_CAPS k = None"
  shows "\<exists>out. (\<forall>w. evaluateIntentPolicies w q = Inr out) \<and> o_decision out = BLOCK
    \<and> o_blockers out = [''strategy_caps_missing''] \<and> length (o_results out) = 1 \<and> \<not> o_requiresUnwind out"
proof -
  have "(if truthy (JStr k) then getStrategyCaps (JStr k) else JNull) = JNull"
    by (simp add: getStrategyCaps_None [OF assms(2)])
  then show ?thesis
    by (simp add: evaluateIntentPolicies_def Let_def assms(1) evaluateStrategyCapsPresence_def policy_block_def)
qed

theorem engine_without_caps_witness:
  "\<exists>out. (\<forall>w. evaluateIntentPolicies w (sample_request (JObj [(''strategyId'', JStr ''nobody'')])) = Inr out)
     \<and> o_decision out = BLOCK"
proof -
  have "dot (q_intent (sample_request (JObj [(''strategyId'', JStr ''nobody'')]))) ''strategyId'' = JStr ''nobody''"
    by (simp add: sample_request_def)
  moreover have "map_of STRATEGY_CAPS ''nobody'' = None" by (simp add: STRATEGY_CAPS_def)
  ultimately show ?thesis using engine_without_caps by blast
qed

text \<open>C2: while the kill-switch file exists, or whether it does cannot be found out, the engine never
  answers ALLOW; when the file access throws and the caps are valid, it answers nothing.\<close>

theorem engine_kill_switch:
  assumes "truthy (if q_killSwitchPath q = JUndef then w_killSwitchPath w else q_killSwitchPath q)"
    "w_killSwitchFile w \<noteq> Inr False"
  shows "case evaluateIntentPolicies w q of
      Inr out \<Rightarrow> o_decision out = BLOCK
        \<and> (w_killSwitchFile w = Inr True \<or> o_results out = [evaluateStrategyCapsPresence (q_intent q) (capsOf q) (q_now q)])
    | Inl e \<Rightarrow> True"
proof (cases "evaluateIntentPolicies w q")
  case (Inr out)
  let ?path = "if q_killSwitchPath q = JUndef then w_killSwitchPath w else q_killSwitchPath q"
  have "o_decision out \<noteq> ALLOW"
    using allowed_just [OF Inr _ check_in_policy(1)] assms
    by (cases "w_killSwitchFile w") (auto simp: checkKillSwitch_def push_if_def)
  then have blk: "o_decision out = BLOCK" by (cases "o_decision out") auto
  have "w_killSwitchFile w = Inr True" if "o_results out \<noteq> [evaluateStrategyCapsPresence (q_intent q) (capsOf q) (q_now q)]"
    using Inr
  proof (cases rule: engine_cases)
    case no_caps
    then show ?thesis using that by simp
  next
    case (checked c as)
    obtain a where "just (checkKillSwitch ?path (w_killSwitchFile w) (q_now q)) = Inr a"
      using answered [OF checked(3) check_in_policy(1)] by blast
    then show ?thesis using assms
      by (cases "w_killSwitchFile w") (auto simp: just_def checkKillSwitch_def and_then_Inr)
  qed
  with Inr blk show ?thesis by auto
qed simp

theorem engine_kill_switch_witness:
  "case evaluateIntentPolicies (sample_world\<lparr>w_killSwitchFile := Inr True\<rparr>) (sample_request (sample_loop_intent 2)) of
     Inr out \<Rightarrow> o_decision out = BLOCK | Inl e \<Rightarrow> True"
proof -
  have "truthy (if q_killSwitchPath (sample_request (sample_loop_intent 2)) = JUndef
      then w_killSwitchPath (sample_world\<lparr>w_killSwitchFile := Inr True\<rparr>)
      else q_killSwitchPath (sample_request (sample_loop_intent 2)))"
    "w_killSwitchFile (sample_world\<lparr>w_killSwitchFile := Inr True\<rparr>) \<noteq> Inr False"
    by (simp_all add: sample_request_def sample_world_def)
  from engine_kill_switch [OF this] show ?thesis by (auto split: sum.splits)
qed

section \<open>Unwinding and the cold start\<close>

text \<open>Every check signs its results with its own name, so the health-factor result is recognised by it.\<close>

lemma check_policy_names:
  "pr_policy (evaluateStrategyCapsPresence i c now) = ''strategy_caps''" "pr_policy (evaluateCapitalAuditGate i st now) = ''capital_audit''"
  "pr_policy (buildColdStartClampPolicyResult cl i e now) = ''cold_start_clamp''" "pr_policy (evaluateEvGate env i h now p) = ''ev_gate''"
  "pr_policy (evaluateConsecutiveFailures i a m ra clock now) = ''consecutive_failures''" "pr_policy (evaluateHealthFactorCheck i c now) = ''hf_check''"
  "pr_policy (evaluateLeverageCollateralRule s i now) = ''leverage_collateral''" "pr_policy (evaluateStaleQuote i ttl now) = ''stale_quote''"
  "pr_policy (evaluateGasPriceCeiling i now pf hist) = ''gas_price_ceiling''" "pr_policy (evaluateApprovalHygiene i ms now) = ''approval_hygiene''"
  "pr_policy (evaluatePreBroadcastSimulation i pf prov now) = ''pre_broadcast_simulation''" "pr_policy (evaluateAssetCoverageGuard i rc now) = ''asset_coverage_guard''"
  "pr_policy (evaluateTinyLiveCanaryPolicy i c mc a now) = ''tiny_live_canary''"
  using strategy_caps_gate.gate_named [of "(i, c, now)"] capital_audit_gate.gate_named [of "(i, st, now)"]
    cold_start_gate.gate_named [of "(cl, i, e, now)"] ev_gate.gate_named [of "(env, i, h, now, p)"]
    failure_gate.gate_named [of "(i, a, m, ra, clock, now)"] hf_gate.gate_named [of "(i, c, now)"]
    collateral_gate.gate_named [of "(s, i, now)"] stale_quote_gate.gate_named [of "(i, ttl, now)"]
    gas_ceiling_gate.gate_named [of "(i, now, pf, hist)"] approval_gate.gate_named [of "(i, ms, now)"]
    simulation_gate.gate_named [of "(i, pf, prov, now)"] asset_coverage_gate.gate_named [of "(i, rc, now)"]
    tiny_canary_gate.gate_named [of "(i, c, mc, a, now)"]
  by simp_all

lemma answer_policy_names:
  "checkKillSwitch p f now = Inr r \<Longrightarrow> pr_policy r = ''kill_switch''"
  "checkGatewayAvailability i pol av f now = Inr r \<Longrightarrow> pr_policy r = ''gateway_availability''"
  "evaluateCapCheck i c a b pe now = Inr r \<Longrightarrow> pr_policy r = ''cap_check''"
  "evaluateAggressiveVelocityPolicy m i now fl = Inr r \<Longrightarrow> pr_policy r = ''aggressive_velocity_sleeve''"
  using kill_switch_gate.tgate_named [of "(p, f, now)" r] gateway_gate.tgate_named [of "(i, pol, av, f, now)" r]
    cap_gate.tgate_named [of "(i, c, a, b, pe, now)" r] aggressive_gate.tgate_named [of "(m, i, now, fl)" r]
  by simp_all

lemma gas_budget_name: "pr_policy (gas_budget_result q i) = ''gas_budget''"
  by (simp add: gas_budget_result_def Let_def)

definition other_name :: "policy_result option throws \<Rightarrow> bool" where
  "other_name m \<longleftrightarrow> (\<forall>r. m = Inr (Some r) \<longrightarrow> pr_policy r \<noteq> ''hf_check'')"

lemma other_always: "pr_policy r = n \<Longrightarrow> n \<noteq> ''hf_check'' \<Longrightarrow> other_name (always r)"
  by (simp add: other_name_def always_def)

lemma other_just: "(\<And>r. m = Inr r \<Longrightarrow> pr_policy r = n) \<Longrightarrow> n \<noteq> ''hf_check'' \<Longrightarrow> other_name (just m)"
  by (auto simp: other_name_def just_def and_then_Inr)

lemma other_daemons:
  "other_name (Inr (liquidity_result q i))" "concentration_result q i = Inr c \<Longrightarrow> other_name (Inr c)"
  "other_name (evaluateAutoKillPolicy w rc a b now)"
  by (auto simp: other_name_def liquidity_result_def concentration_result_def evaluateAutoKillPolicy_def daemon_result_def
      auto_kill_result_def Let_def and_then_Inr simp del: first_truthy.simps split: if_splits)

lemma hf_check_unique:
  assumes "m \<in> set (policy_checks w q caps c)" "concentration_result q (effectiveIntentOf q caps) = Inr c"
    "m = Inr (Some r)" "pr_policy r = ''hf_check''"
  shows "r = evaluateHealthFactorCheck (effectiveIntentOf q caps) caps (q_now q)"
proof -
  let ?hf = "always (evaluateHealthFactorCheck (effectiveIntentOf q caps) caps (q_now q))"
  have "list_all (\<lambda>m. m = ?hf \<or> other_name m) (policy_checks w q caps c)"
    unfolding policy_checks_def Let_def list.pred_inject
    by (intro conjI; ((rule disjI1, rule refl)
        | (rule disjI2, rule other_daemons(1,3) other_daemons(2) [OF assms(2)])
        | (rule disjI2, rule other_always, rule check_policy_names, simp)
        | (rule disjI2, rule other_always, rule gas_budget_name, simp)
        | (rule disjI2, rule other_just, erule answer_policy_names, simp) | simp))
  then have "m = ?hf \<or> other_name m" using assms(1) by (simp add: list_all_iff)
  then show ?thesis using assms(3,4) by (auto simp: other_name_def always_def)
qed

text \<open>C18: an outcome that asks for an unwind never lets an ordinary intent through: unless the intent
  is itself an emergency unwind, the decision is BLOCK.\<close>

theorem engine_unwind_blocks:
  assumes "evaluateIntentPolicies w q = Inr out" "o_requiresUnwind out"
    "dot (effectiveIntentOf q (capsOf q)) ''intentType'' \<noteq> JStr ''emergency_unwind''"
  shows "o_decision out = BLOCK \<and> lv_isLeverage (leverage_view_of (effectiveIntentOf q (capsOf q)) (capsOf q))"
  using assms(1)
proof (cases rule: engine_cases)
  case no_caps
  then show ?thesis using assms(2) by simp
next
  case (checked c as)
  let ?v = "leverage_view_of (effectiveIntentOf q (capsOf q)) (capsOf q)"
  obtain r where r: "hf_result_of (o_results out) = Some r" "fld (pr_extra r) ''requiresUnwind'' = JBool True"
    using assms(2) checked(8) by (auto split: option.splits)
  then have "r \<in> set (o_results out)" "pr_policy r = ''hf_check''"
    by (auto simp: hf_result_of_def find_Some_iff)
  then have hf: "r = evaluateHealthFactorCheck (effectiveIntentOf q (capsOf q)) (capsOf q) (q_now q)"
    using checked_results [OF checked(3,4)] hf_check_unique [OF _ checked(2) refl] by blast
  have lev: "lv_isLeverage ?v" using r(2) hf_not_leverage(2) unfolding hf by (cases "lv_isLeverage ?v") auto
  have "\<not> lv_emergency ?v" using assms(3) by (simp add: leverage_view_of_def)
  then have "hf_blockers ?v \<noteq> []"
    using r(2) hf_trigger_blocks unfolding hf hf_decision(3) [OF lev] by simp
  then have "pr_blockers r \<noteq> []" unfolding hf hf_decision(2) [OF lev] by simp
  with \<open>r \<in> _\<close> checked(5) lev show ?thesis by auto
qed

lemma sample_unhealthy_effective:
  "effectiveIntentOf (sample_request (sample_loop_intent 1)) loop_caps = sample_loop_intent 1"
  by code_simp

definition answers :: "policy_result option throws \<Rightarrow> bool" where
  "answers m \<longleftrightarrow> (\<exists>a. m = Inr a)"

lemma answers_intros:
  "answers (always r)" "answers (Inr a)" "m = Inr r \<Longrightarrow> answers (just m)"
  by (simp_all add: answers_def always_def just_def and_then_Inr)

lemma all_answers: "list_all answers ms \<Longrightarrow> \<exists>as. map_throws id ms = Inr as"
proof (induction ms)
  case (Cons m ms)
  then obtain a as where "m = Inr a" "map_throws id ms = Inr as" by (auto simp: answers_def id_def)
  then show ?case unfolding id_def by simp
qed simp

lemma hf_result_in: "hf_result_of rs = Some r \<Longrightarrow> r \<in> set rs \<and> pr_policy r = ''hf_check''"
  by (auto simp: hf_result_of_def find_Some_iff)

lemma engine_returns:
  assumes "pr_decision (evaluateStrategyCapsPresence (q_intent q) (capsOf q) (q_now q)) = ALLOW"
    "concentration_result q (effectiveIntentOf q (capsOf q)) = Inr c"
    "list_all answers (policy_checks w q (capsOf q) c)"
    "lv_isLeverage (leverage_view_of (effectiveIntentOf q (capsOf q)) (capsOf q))"
  shows "\<exists>out. evaluateIntentPolicies w q = Inr out
    \<and> o_requiresUnwind out = (lv_emergency (leverage_view_of (effectiveIntentOf q (capsOf q)) (capsOf q))
         \<or> hf_triggers (leverage_view_of (effectiveIntentOf q (capsOf q)) (capsOf q)) \<noteq> [])"
proof -
  obtain as where as: "map_throws id (policy_checks w q (capsOf q) c) = Inr as"
    using all_answers [OF assms(3)] by blast
  let ?results = "List.map the (List.filter (\<lambda>r. r \<noteq> None) as)"
  let ?hf = "evaluateHealthFactorCheck (effectiveIntentOf q (capsOf q)) (capsOf q) (q_now q)"
  have "?hf \<in> set ?results"
    using checked_results [OF as refl] check_in_policy(3) [of q "capsOf q" w c] by (simp add: always_def)
  then have "hf_result_of ?results \<noteq> None"
    using check_policy_names(6) [of "effectiveIntentOf q (capsOf q)" "capsOf q" "q_now q"]
    unfolding hf_result_of_def find_None_iff by blast
  then obtain r where r: "hf_result_of ?results = Some r" by blast
  then have "r \<in> set ?results" "pr_policy r = ''hf_check''" using hf_result_in by blast+
  then have "r = ?hf" using checked_results [OF as refl] hf_check_unique [OF _ assms(2) refl] by blast
  then show ?thesis
    using assms(1,2) as r hf_decision(3) [OF assms(4)]
    unfolding evaluateIntentPolicies_def Let_def capsOf_def [unfolded Let_def, symmetric]
    by (simp del: not_None_eq)
qed

lemma sample_unhealthy_answers:
  "list_all answers (policy_checks sample_world (sample_request (sample_loop_intent 1)) loop_caps None)"
proof -
  let ?q = "sample_request (sample_loop_intent 1)"
  have world: "w_killSwitchPath sample_world = JStr ''KILL_SWITCH''"
    "w_killSwitchFile sample_world = Inr False" "w_gatewayStateFile sample_world = Inr False"
    by (simp_all add: sample_world_def)
  have fields: "q_auditRecords ?q = []" "q_activeBudgetUsd ?q = JNull" "q_now ?q = sample_now"
    "q_killSwitchPath ?q = JUndef" "q_riskContext ?q = JObj []"
    by (simp_all add: sample_request_def)
  obtain pst where "buildPortfolioExposureState [] sample_now = Inr pst"
    using empty_log_portfolio [OF sample_day] by blast
  moreover have "loop_caps \<noteq> JUndef" by (simp add: caps_wrapped_btc_loop_base_moonwell_def)
  ultimately have cap: "\<exists>r. evaluateCapCheck (sample_loop_intent 1) loop_caps [] JNull JNull sample_now = Inr r"
    by (simp add: evaluateCapCheck_def empty_log_state [OF sample_day] no_budget_policy Let_def)
  have "isGatewayIntent (sample_loop_intent 1) = False" by code_simp
  then have gw: "\<exists>r. checkGatewayAvailability (sample_loop_intent 1) GATEWAY_POLICY v (Inr False) sample_now = Inr r" for v
    by (auto simp: checkGatewayAvailability_def resolveGatewayAvailability_def gateway_result_def Let_def and_then_Inr)
  have sleeve: "\<exists>r. evaluateAggressiveVelocityPolicy JNull (sample_loop_intent 1) sample_now m = Inr r" for m
    by (simp add: evaluateAggressiveVelocityPolicy_def Let_def sample_loop_intent_def isAggressiveSleeve_def)
  have meta: "orelse (meta (sample_loop_intent 1) k) JNull = JNull" for k
    by (simp add: meta_def sample_loop_intent_def)
  have kill: "\<exists>r. checkKillSwitch (JStr ''KILL_SWITCH'') (Inr False) sample_now = Inr r"
    by (simp add: sample_kill)
  have just: "\<exists>r. m = Inr r \<Longrightarrow> answers (just m)" for m using answers_intros(3) by blast
  show ?thesis
    unfolding policy_checks_def Let_def list.pred_inject fields world sample_unhealthy_effective if_P [OF refl] meta
    by (intro conjI; (rule answers_intros(1,2) | rule just, rule cap gw sleeve kill | simp add: sample_auto_kill answers_intros))
qed

theorem engine_unwind_blocks_witness:
  "\<exists>out. evaluateIntentPolicies sample_world (sample_request (sample_loop_intent 1)) = Inr out
     \<and> o_requiresUnwind out \<and> o_decision out = BLOCK"
proof -
  let ?q = "sample_request (sample_loop_intent 1)"
  have eff: "effectiveIntentOf ?q (capsOf ?q) = sample_loop_intent 1"
    by (simp add: sample_caps_of sample_unhealthy_effective)
  have lev: "lv_isLeverage (leverage_view_of (sample_loop_intent 1) loop_caps) = True"
    "hf_triggers (leverage_view_of (sample_loop_intent 1) loop_caps) = [''health_factor_below_min'']"
    by code_simp+
  have q: "q_intent ?q = sample_loop_intent 1" "q_now ?q = sample_now" by (simp_all add: sample_request_def)
  have conc: "concentration_result ?q (effectiveIntentOf ?q (capsOf ?q)) = Inr None"
    unfolding eff
    by (simp add: concentration_result_def buildConcentrationCandidate_def sample_request_def Let_def isFiniteNumber_def)
  have "pr_decision (evaluateStrategyCapsPresence (q_intent ?q) (capsOf ?q) (q_now ?q)) = ALLOW"
    unfolding q sample_caps_of by (rule sample_caps_presence)
  with engine_returns [OF _ conc, of sample_world]
  obtain out where out: "evaluateIntentPolicies sample_world ?q = Inr out" "o_requiresUnwind out"
    by (auto simp: sample_caps_of sample_unhealthy_answers sample_unhealthy_effective lev)
  have "dot (effectiveIntentOf ?q (capsOf ?q)) ''intentType'' \<noteq> JStr ''emergency_unwind''"
    unfolding eff by (simp add: sample_loop_intent_def)
  from engine_unwind_blocks [OF out this] out show ?thesis by blast
qed

text \<open>In the first day of automatic execution of a strategy every check sees a quarter of the
  amount of the intent, and before and after that day the intent as it is.\<close>

theorem cold_start_quarter:
  assumes "dot (strategy_for_policy q caps) ''firstAutoExecuteAt'' = t" "truthy t"
    "age = jsub (date_of (q_now q)) (date_of t)" "finiteNumber (dot (q_intent q) ''amountUsd'') = Some (Fin x)"
  shows "if is_fin age \<and> jle (Fin 0) age \<and> jlt age (Fin 86400000)
    then dot (effectiveIntentOf q caps) ''amountUsd'' = JNum (rnd (x / 4))
    else effectiveIntentOf q caps = q_intent q"
proof -
  have "COLD_START_MS = Fin 86400000" by (simp add: COLD_START_MS_def jint_def)
  moreover have "coal t JNull = t" using assms(2) by (cases t) auto
  ultimately show ?thesis
    using assms clamped_amount [OF _ assms(4), of "amountClampOf q caps"] unclamped_intent [of "amountClampOf q caps" "q_intent q"]
    by (auto simp: effectiveIntentOf_def amountClampOf_def evaluateColdStartClamp_def Let_def lit_quarter jint_def)
qed

theorem cold_start_quarter_witness:
  "dot (effectiveIntentOf (sample_request (sample_loop_intent 2))
      (JObj [(''firstAutoExecuteAt'', JStr ''2026-01-05T00:00:00.000Z'')])) ''amountUsd'' = JNum (Fin 5)"
proof -
  let ?q = "sample_request (sample_loop_intent 2)" and ?t = "JStr ''2026-01-05T00:00:00.000Z''"
  let ?caps = "JObj [(''firstAutoExecuteAt'', ?t)]"
  have side: "dot (strategy_for_policy ?q ?caps) ''firstAutoExecuteAt'' = ?t" "truthy ?t"
    "finiteNumber (dot (q_intent ?q) ''amountUsd'') = Some (Fin 20)"
    by (simp_all add: strategy_for_policy_def sample_request_def sample_loop_intent_def finiteNumber_def or_obj_def fld_spread)
  have age: "jsub (date_of (q_now ?q)) (date_of ?t) = Fin 43200000" by code_simp
  have "rnd (20 / 4) = Fin 5" using rnd_numeral [of "num.Bit1 (num.Bit0 num.One)"] by simp
  with cold_start_quarter [OF side(1,2) refl side(3)] show ?thesis by (simp add: age)
qed

end
