(* ===== verification/PaybackLedger.thy ===== *)
theory PaybackLedger
  imports AuditLog
begin

text \<open>
  src/src/executor/payback/accumulator.mjs: the ledger of what the program earned and what it
  paid back to Bitcoin, computed from the audit records and receipts. Readers of loosely typed
  records, prices of Bitcoin at the time of a record, the amounts of profit, payback and cost a
  record states, the inventory of the treasury, the delivered periods with the expansion gate,
  and the snapshot that the scheduler and the dashboard read.

  Numbers that may be null are options of finite numbers. The collation behind localeCompare,
  which only orders the chains of the inventory, is an argument. Dotted paths select own
  properties. Where the source iterates a configured or recorded list (spread, Set), a value
  that cannot be iterated throws, as in the source.
\<close>

section \<open>Readers\<close>

text \<open>Arguments that are numbers or null are options of finite numbers.\<close>

definition payFiniteNumber :: "jsv \<Rightarrow> jsnum option" where
  "payFiniteNumber value =
     (case value of
        JNum n \<Rightarrow> if is_fin n then Some n else None
      | JStr s \<Rightarrow> if trim s \<noteq> [] then (let parsed = str_to_num s in if is_fin parsed then Some parsed else None)
                  else None
      | _ \<Rightarrow> None)"

definition finiteNonNegative :: "jsv \<Rightarrow> jsnum option" where
  "finiteNonNegative value =
     (case payFiniteNumber value of Some n \<Rightarrow> if jle (Fin 0) n then Some n else None | None \<Rightarrow> None)"

definition normalizeTimestamp :: "jsv \<Rightarrow> jsnum option" where
  "normalizeTimestamp value =
     (if nullish value \<or> value = JStr [] then None
      else let ms = date_of value in if is_fin ms then Some ms else None)"

text \<open>\<open>Math.round\<close>: to the nearest integer, halves upwards.\<close>

fun jround :: "jsnum \<Rightarrow> jsnum" where
  "jround (Fin x) = Fin (of_int \<lfloor>x + 1 / 2\<rfloor>)"
| "jround a = a"

definition roundSats :: "jsnum \<Rightarrow> jsnum" where
  "roundSats value = (if is_fin value then jround value else Fin 0)"

text \<open>\<open>a ?? b\<close> on numbers or null\<close>

fun opt_coal :: "'a option \<Rightarrow> 'a option \<Rightarrow> 'a option" where
  "opt_coal (Some a) b = Some a"
| "opt_coal None b = b"

definition readPath :: "jsv \<Rightarrow> string \<Rightarrow> jsv" where
  "readPath target path =
     (if \<not> truthy target \<or> \<not> typeof_object target \<or> path = [] then JUndef
      else dots target (split_on (CHR ''.'') path))"

fun firstFinitePathValue :: "jsv \<Rightarrow> string list \<Rightarrow> jsnum option" where
  "firstFinitePathValue target [] = None"
| "firstFinitePathValue target (path # paths) =
     (case payFiniteNumber (readPath target path) of
        Some value \<Rightarrow> Some value
      | None \<Rightarrow> firstFinitePathValue target paths)"

fun firstPresentPathValue :: "jsv \<Rightarrow> string list \<Rightarrow> jsv" where
  "firstPresentPathValue target [] = JNull"
| "firstPresentPathValue target (path # paths) =
     (let value = readPath target path
      in if \<not> nullish value \<and> value \<noteq> JStr [] then value else firstPresentPathValue target paths)"

text \<open>
  \<open>config?.paths || DEFAULT\<close>: the configured list of paths, when there is one. The program
  configures these only with arrays of strings.
\<close>

definition configured_paths :: "jsv \<Rightarrow> string \<Rightarrow> string list \<Rightarrow> string list" where
  "configured_paths config key dflt =
     (let v = dot config key in if truthy v then List.map to_str (elems v) else dflt)"

definition normalizeRecord :: "jsv \<Rightarrow> jsv" where
  "normalizeRecord item =
     (if \<not> truthy item then JNull
      else case item of
          JStr s \<Rightarrow> (case json_parse s of
              Inr parsed \<Rightarrow> if truthy parsed \<and> typeof_object parsed then parsed else JNull
            | Inl e \<Rightarrow> JNull)
        | _ \<Rightarrow> if typeof_object item then item else JNull)"

definition normalizeRecordList :: "jsv \<Rightarrow> jsv list" where
  "normalizeRecordList items =
     (if is_arr items then List.filter truthy (List.map normalizeRecord (elems items)) else [])"

definition observed_field :: "jsv \<Rightarrow> jsv" where
  "observed_field item = first_truthy
     [dot item ''observedAt'', dot item ''timestamp'', dot item ''settledAt'', dot item ''signedAt'',
      dot item ''generatedAt'']"

definition latestTimestampMs :: "jsv list \<Rightarrow> jsnum" where
  "latestTimestampMs records =
     foldl (\<lambda>latest item.
       case normalizeTimestamp (observed_field item) of
         Some next \<Rightarrow> if jlt latest next then next else latest
       | None \<Rightarrow> latest) (Fin 0) records"

definition isWithinWindow :: "jsnum \<Rightarrow> jsnum option \<Rightarrow> jsnum option \<Rightarrow> bool" where
  "isWithinWindow timestampMs startMs endMs =
     (is_fin timestampMs
      \<and> (case startMs of Some s \<Rightarrow> \<not> (is_fin s \<and> jlt timestampMs s) | None \<Rightarrow> True)
      \<and> (case endMs of Some e \<Rightarrow> \<not> (is_fin e \<and> jlt e timestampMs) | None \<Rightarrow> True))"

section \<open>Prices\<close>

definition btcUsdFromSnapshot :: "jsv \<Rightarrow> jsnum option" where
  "btcUsdFromSnapshot snapshot =
     (if \<not> truthy snapshot \<or> \<not> typeof_object snapshot then None
      else if is_finite (dot snapshot ''btcUsd'') then Some (to_num (dot snapshot ''btcUsd''))
      else None)"

definition configuredBtcUsd :: "jsv \<Rightarrow> jsnum option" where
  "configuredBtcUsd config =
     opt_coal (payFiniteNumber (dot config ''btcUsd''))
       (opt_coal (payFiniteNumber (dots config [''prices'', ''btc'']))
         (opt_coal (payFiniteNumber (dots config [''priceSnapshot'', ''btcUsd'']))
           (btcUsdFromSnapshot (dot config ''priceSnapshot''))))"

text \<open>\<open>[...v]\<close> and \<open>new Set(v)\<close>: arrays and strings can be iterated, nothing else.\<close>

fun iterate :: "jsv \<Rightarrow> jsv list throws" where
  "iterate (JArr xs) = Inr xs"
| "iterate (JStr s) = Inr (List.map (\<lambda>c. JStr [c]) s)"
| "iterate v = Inl TypeError"

definition array_or_empty :: "jsv \<Rightarrow> jsv list" where
  "array_or_empty v = (if is_arr v then elems v else [])"

definition latestBtcUsd :: "jsv \<Rightarrow> jsv \<Rightarrow> jsnum option" where
  "latestBtcUsd receiptStore config =
     (case configuredBtcUsd config of
        Some btcUsd \<Rightarrow> Some btcUsd
      | None \<Rightarrow>
          let snapshots = normalizeRecordList (JArr (array_or_empty (dot receiptStore ''marketPriceSnapshots'')
                @ array_or_empty (dot receiptStore ''priceSnapshots'')));
              latest = foldl (\<lambda>winner item.
                if \<not> truthy winner then item
                else if jlt (latestTimestampMs [winner]) (latestTimestampMs [item]) then item else winner)
                JNull snapshots
          in btcUsdFromSnapshot latest)"

definition btcUsdFromRecord :: "jsv \<Rightarrow> jsnum option" where
  "btcUsdFromRecord record = firstFinitePathValue record
     [''pricing.btcUsd'', ''priceSnapshot.btcUsd'', ''marketPriceSnapshot.btcUsd'', ''btcUsd'']"

record price_entry =
  pe_ms :: jsnum
  pe_btcUsd :: jsnum

record price_index =
  pi_entries :: "price_entry list"
  pi_fallback :: "jsnum option"

definition price_entries :: "jsv list \<Rightarrow> price_entry list" where
  "price_entries snapshots = concat (List.map (\<lambda>snapshot.
     let ms = latestTimestampMs [snapshot]
     in case btcUsdFromSnapshot snapshot of
          Some btcUsd \<Rightarrow> if is_fin ms then [\<lparr>pe_ms = ms, pe_btcUsd = btcUsd\<rparr>] else []
        | None \<Rightarrow> []) snapshots)"

definition buildPriceIndex :: "jsv list \<Rightarrow> price_index" where
  "buildPriceIndex snapshots =
     (let entries = price_entries snapshots;
          latest = foldl (\<lambda>(latestMs, latestBtcUsd) entry.
            if jlt latestMs (pe_ms entry) then (pe_ms entry, Some (pe_btcUsd entry))
            else (latestMs, latestBtcUsd)) (NegInf, None) entries
      in \<lparr>pi_entries = entries, pi_fallback = snd latest\<rparr>)"

definition nearestBtcUsdFromEntries :: "price_entry list \<Rightarrow> jsnum \<Rightarrow> jsnum option" where
  "nearestBtcUsdFromEntries entries observedAtMs =
     (let step = (\<lambda>(winner, winnerDistance, winnerTs) entry.
            let distance = (if is_fin observedAtMs then jabs (jsub (pe_ms entry) observedAtMs) else Fin 0)
            in if jlt distance winnerDistance
                  \<or> jeq distance winnerDistance \<and> jlt (pe_ms entry) winnerTs
               then (Some (pe_btcUsd entry), distance, pe_ms entry)
               else (winner, winnerDistance, winnerTs))
      in fst (foldl step (None, PosInf, PosInf) entries))"

definition pickBtcUsdFromIndex :: "jsnum \<Rightarrow> price_index \<Rightarrow> jsnum option" where
  "pickBtcUsdFromIndex observedAtMs priceIndex =
     (if pi_entries priceIndex = [] then None
      else opt_coal (nearestBtcUsdFromEntries (pi_entries priceIndex) observedAtMs) (pi_fallback priceIndex))"

definition nearestBtcUsdFromSnapshots :: "jsv list \<Rightarrow> jsnum \<Rightarrow> jsnum option" where
  "nearestBtcUsdFromSnapshots marketPriceSnapshots observedAtMs =
     nearestBtcUsdFromEntries (price_entries marketPriceSnapshots) observedAtMs"

text \<open>The configuration a valuation reads, with the price index the snapshot adds to it.\<close>

record valuation =
  vc_config :: jsv
  vc_priceIndex :: "price_index option"

definition btcUsdForRecord :: "jsv \<Rightarrow> jsv list \<Rightarrow> valuation \<Rightarrow> jsnum option" where
  "btcUsdForRecord record marketPriceSnapshots config =
     (case btcUsdFromRecord record of
        Some price \<Rightarrow> Some price
      | None \<Rightarrow> (case configuredBtcUsd (vc_config config) of
          Some price \<Rightarrow> Some price
        | None \<Rightarrow>
            let observedAtMs = latestTimestampMs [record]
            in case vc_priceIndex config of
                 Some priceIndex \<Rightarrow> pickBtcUsdFromIndex observedAtMs priceIndex
               | None \<Rightarrow> opt_coal (nearestBtcUsdFromSnapshots marketPriceSnapshots observedAtMs)
                   (latestBtcUsd (JObj [(''marketPriceSnapshots'', JArr marketPriceSnapshots)]) (vc_config config))))"

definition BTC_SATS :: jsnum where
  "BTC_SATS = jint 100000000"

definition usdToSats :: "jsnum option \<Rightarrow> jsnum option \<Rightarrow> jsnum option" where
  "usdToSats usdValue btcUsd =
     (case (usdValue, btcUsd) of
        (Some usd, Some btc) \<Rightarrow>
          if jle btc (Fin 0) then None else Some (roundSats (jmul (jdiv usd btc) BTC_SATS))
      | _ \<Rightarrow> None)"

section \<open>Profit, ingress and payback records\<close>

definition DEFAULT_PROFIT_SATS_PATHS :: "string list" where
  "DEFAULT_PROFIT_SATS_PATHS =
     [''pnl.paybackEligibleRealizedPnlSats'', ''realized.grossProfitSats'',
      ''realized.realizedGrossProfitSats'', ''realized.realizedNetProfitSats'',
      ''realized.realizedNetPnlSats'', ''realized.realizedBtcProfitSats'',
      ''realized.realizedNetCarrySats'', ''realized.netProfitSats'', ''realized.pnlSats'',
      ''grossProfitSats'', ''realizedGrossProfitSats'', ''realizedNetProfitSats'',
      ''realizedNetPnlSats'', ''realizedBtcProfitSats'', ''realizedNetCarrySats'',
      ''netProfitSats'', ''pnlSats'']"

definition DEFAULT_PROFIT_USD_PATHS :: "string list" where
  "DEFAULT_PROFIT_USD_PATHS =
     [''realized.realizedNetPnlUsd'', ''realized.realizedNetCarryUsd'', ''realizedNetPnlUsd'',
      ''realizedNetCarryUsd'']"

definition DEFAULT_PAID_BACK_SATS_PATHS :: "string list" where
  "DEFAULT_PAID_BACK_SATS_PATHS =
     [''payback.paidBackSats'', ''payback.settledSats'', ''realized.paidBackSats'',
      ''realized.settledPaybackSats'', ''paidBackSats'', ''settledPaybackSats'']"

definition DEFAULT_PAID_BACK_USD_PATHS :: "string list" where
  "DEFAULT_PAID_BACK_USD_PATHS =
     [''payback.paidBackUsd'', ''payback.settledUsd'', ''realized.paidBackUsd'', ''paidBackUsd'']"

definition DEFAULT_PENDING_SNAPSHOT_PATHS :: "string list" where
  "DEFAULT_PENDING_SNAPSHOT_PATHS =
     [''payback.pendingDeferredSats'', ''payback.accumulatorPendingSats'', ''pendingDeferredSats'',
      ''accumulatorPendingSats'']"

definition DEFAULT_OFFRAMP_COST_SATS_PATHS :: "string list" where
  "DEFAULT_OFFRAMP_COST_SATS_PATHS =
     [''payback.offrampCostSats'', ''realized.offrampCostSats'', ''offrampCostSats'']"

definition DEFAULT_OFFRAMP_COST_USD_PATHS :: "string list" where
  "DEFAULT_OFFRAMP_COST_USD_PATHS =
     [''payback.offrampCostUsd'', ''realized.offrampCostUsd'', ''offrampCostUsd'']"

definition DEFAULT_GROSS_PROFIT_SATS_PATHS :: "string list" where
  "DEFAULT_GROSS_PROFIT_SATS_PATHS =
     [''payback.grossProfitSats'', ''realized.grossProfitSats'', ''metadata.grossProfitSats'',
      ''decisionLog.inputs.grossProfitSatsPeriod'', ''grossProfitSats'']"

definition DEFAULT_REALIZED_ROUND_TRIP_COST_SATS_PATHS :: "string list" where
  "DEFAULT_REALIZED_ROUND_TRIP_COST_SATS_PATHS =
     [''payback.realizedRoundTripCostSats'', ''realized.realizedRoundTripCostSats'',
      ''metadata.realizedRoundTripCostSats'', ''realizedRoundTripCostSats'']"

datatype profit_source = DirectSats | UsdProjected

record profit_details =
  pd_sats :: "jsnum option"
  pd_source :: "profit_source option"
  pd_projectedUsd :: "jsnum option"
  pd_btcUsd :: "jsnum option"

definition profitSatsDetailsFromRecord :: "jsv \<Rightarrow> jsv list \<Rightarrow> valuation \<Rightarrow> profit_details" where
  "profitSatsDetailsFromRecord record marketPriceSnapshots config =
     (case firstFinitePathValue record
         (configured_paths (vc_config config) ''profitSatsPaths'' DEFAULT_PROFIT_SATS_PATHS) of
        Some direct \<Rightarrow>
          \<lparr>pd_sats = Some (roundSats direct), pd_source = Some DirectSats, pd_projectedUsd = None,
           pd_btcUsd = None\<rparr>
      | None \<Rightarrow>
          let projectedUsd = firstFinitePathValue record
                (configured_paths (vc_config config) ''profitUsdPaths'' DEFAULT_PROFIT_USD_PATHS);
              btcUsd = btcUsdForRecord record marketPriceSnapshots config;
              sats = usdToSats projectedUsd btcUsd
          in \<lparr>pd_sats = sats, pd_source = (if sats = None then None else Some UsdProjected),
              pd_projectedUsd = projectedUsd, pd_btcUsd = btcUsd\<rparr>)"

text \<open>The two sets of markers; membership is \<open>Set.prototype.has\<close>.\<close>

record payback_markers =
  pm_strategyIds :: "jsv list"
  pm_intentTypes :: "jsv list"

definition paybackMarkers :: "jsv \<Rightarrow> payback_markers throws" where
  "paybackMarkers config =
     and_then (iterate (orelse (dot config ''paybackStrategyIds'') (JArr []))) (\<lambda>strategyIds.
     and_then (iterate (orelse (dot config ''paybackIntentTypes'') (JArr []))) (\<lambda>intentTypes.
       Inr \<lparr>pm_strategyIds = strategyIds, pm_intentTypes = intentTypes\<rparr>))"

definition set_has :: "jsv list \<Rightarrow> jsv \<Rightarrow> bool" where
  "set_has xs v \<longleftrightarrow> list_ex (\<lambda>x. strict_eq x v \<or> x = JNum NaN \<and> v = JNum NaN) xs"

definition isOperatingCapitalIngressRecord :: "jsv \<Rightarrow> bool" where
  "isOperatingCapitalIngressRecord record =
     (let capitalSource = first_present [dot record ''capitalSource'',
            dots record [''metadata'', ''capitalSource''],
            dots record [''classification'', ''capitalSource''],
            dots record [''job'', ''capitalSource''], JNull];
          capitalFlow = first_present [dot record ''capitalFlow'',
            dots record [''metadata'', ''capitalFlow''],
            dots record [''classification'', ''capitalFlow''], JNull];
          paybackExclusion = first_present [dot record ''paybackExclusion'',
            dots record [''metadata'', ''paybackExclusion''],
            dots record [''classification'', ''paybackExclusion''], JBool False];
          eventType = first_present [dot record ''event'', dot record ''eventType'', JNull]
      in paybackExclusion = JBool True
         \<or> capitalSource = JStr ''operating_capital''
         \<or> capitalFlow = JStr ''operating_capital_ingress''
         \<or> eventType = JStr ''inbound_deposit_detected''
         \<or> dot record ''type'' = JStr ''inbound_route'')"

text \<open>
  \<open>steps?.find?.(item => item?.intent?.intentType)?.intent?.intentType\<close>: an array is searched; of
  another value, a field named find is called when there is one, which throws since no recorded
  value is a function.
\<close>

definition step_intent_type :: "jsv \<Rightarrow> jsv throws" where
  "step_intent_type steps =
     (case steps of
        JObj fs \<Rightarrow> if nullish (fld fs ''find'') then Inr JUndef else Inl TypeError
      | _ \<Rightarrow> Inr (dots (case List.find (\<lambda>item. truthy (dots item [''intent'', ''intentType''])) (elems steps) of
            Some item \<Rightarrow> item | None \<Rightarrow> JUndef) [''intent'', ''intentType'']))"

definition isPaybackRecord :: "jsv \<Rightarrow> payback_markers \<Rightarrow> bool throws" where
  "isPaybackRecord record markers =
     (if pm_strategyIds markers = [] \<and> pm_intentTypes markers = [] then Inr False
      else
        let strategyId = first_present [dot record ''strategyId'',
              dots record [''plan'', ''strategyId''], dots record [''intent'', ''strategyId''],
              dots record [''signerResult'', ''signed'', ''strategyId''], JNull];
            direct = dots record [''intent'', ''intentType''];
            planned = dots record [''plan'', ''intent'', ''intentType'']
        in and_then (if nullish direct \<and> nullish planned then step_intent_type (dots record [''plan'', ''steps''])
             else Inr JUndef) (\<lambda>fromStep.
           Inr (set_has (pm_strategyIds markers) strategyId
             \<or> set_has (pm_intentTypes markers) (first_present [direct, planned, fromStep, JNull]))))"

definition settlementSatsFromPaybackRecord :: "jsv \<Rightarrow> jsnum option" where
  "settlementSatsFromPaybackRecord record = firstFinitePathValue record
     [''destinationProof.observedDelta'', ''payback.settledBalanceDeltaSats'',
      ''realized.settledBalanceDeltaSats'', ''settledBalanceDeltaSats'']"

record three_way_receipt =
  tw_sourceTxHash :: jsv
  tw_gatewayOrderId :: jsv
  tw_bitcoinTxid :: jsv

definition paybackThreeWayReceipt :: "jsv \<Rightarrow> three_way_receipt" where
  "paybackThreeWayReceipt record =
     \<lparr>tw_sourceTxHash = firstPresentPathValue record
        [''signerResult.broadcast.txHash'', ''broadcast.txHash'', ''receipt.hash'', ''txHash''],
      tw_gatewayOrderId = firstPresentPathValue record
        [''metadata.gatewayOrderId'', ''plan.intent.metadata.gatewayOrderId'', ''plan.order.orderId'',
         ''order.orderId'', ''gatewayOrderId''],
      tw_bitcoinTxid = firstPresentPathValue record
        [''destinationProof.txid'', ''destinationProof.bitcoinTxid'', ''metadata.bitcoinTxid'',
         ''payback.bitcoinTxid'', ''bitcoinTxid'']\<rparr>"

definition hasDeliveredPaybackReceipt :: "jsv \<Rightarrow> bool" where
  "hasDeliveredPaybackReceipt record =
     (let receipt = paybackThreeWayReceipt record;
          hasThreeWayReceipt = (truthy (tw_sourceTxHash receipt) \<and> truthy (tw_gatewayOrderId receipt)
            \<and> truthy (tw_bitcoinTxid receipt))
      in if \<not> hasThreeWayReceipt then False
         else dot record ''settlementStatus'' = JStr ''delivered''
              \<or> dots record [''destinationProof'', ''status''] = JStr ''delivered'')"

text \<open>
  A direct amount in sats, else an amount in dollars converted at the price: the shape the four
  readers of payback records share.
\<close>

definition sats_or_projected :: "jsv \<Rightarrow> string list \<Rightarrow> string list \<Rightarrow> jsnum option \<Rightarrow> jsnum option option" where
  "sats_or_projected record satsPaths usdPaths btcUsd =
     (case firstFinitePathValue record satsPaths of
        Some direct \<Rightarrow> Some (Some (roundSats direct))
      | None \<Rightarrow> (case firstFinitePathValue record usdPaths of
          Some projectedUsd \<Rightarrow> Some (usdToSats (Some projectedUsd) btcUsd)
        | None \<Rightarrow> None))"

definition grossProfitSatsFromPaybackRecord :: "jsv \<Rightarrow> jsnum option \<Rightarrow> jsv \<Rightarrow> jsnum option" where
  "grossProfitSatsFromPaybackRecord record btcUsd config =
     (case sats_or_projected record
         (configured_paths config ''grossProfitSatsPaths'' DEFAULT_GROSS_PROFIT_SATS_PATHS)
         [''payback.grossProfitUsd'', ''realized.grossProfitUsd'', ''metadata.grossProfitUsd''] btcUsd of
        Some sats \<Rightarrow> sats | None \<Rightarrow> None)"

definition realizedRoundTripCostSatsFromPaybackRecord :: "jsv \<Rightarrow> jsnum option \<Rightarrow> jsv \<Rightarrow> jsnum option" where
  "realizedRoundTripCostSatsFromPaybackRecord record btcUsd config =
     (case sats_or_projected record
         (configured_paths config ''realizedRoundTripCostSatsPaths'' DEFAULT_REALIZED_ROUND_TRIP_COST_SATS_PATHS)
         [''payback.realizedRoundTripCostUsd'', ''realized.realizedRoundTripCostUsd'',
          ''metadata.realizedRoundTripCostUsd''] btcUsd of
        Some sats \<Rightarrow> sats | None \<Rightarrow> None)"

definition paybackChainFromRecord :: "jsv \<Rightarrow> jsv" where
  "paybackChainFromRecord record = firstPresentPathValue record
     [''chain'', ''payback.reserveChain'', ''plan.reserveChain'', ''plan.route.reserveChain'',
      ''metadata.reserveChain'', ''reserveState.chain'']"

definition paybackPeriodIdFromRecord :: "jsv \<Rightarrow> jsv" where
  "paybackPeriodIdFromRecord record = firstPresentPathValue record
     [''periodId'', ''payback.periodId'', ''metadata.periodId'', ''plan.periodId'',
      ''plan.intent.metadata.periodId'', ''decisionLog.periodId'']"

definition paidBackSatsFromRecord ::
    "jsv \<Rightarrow> jsnum option \<Rightarrow> jsv \<Rightarrow> payback_markers \<Rightarrow> jsnum option throws" where
  "paidBackSatsFromRecord record btcUsd config markers =
     (case sats_or_projected record
         (configured_paths config ''paidBackSatsPaths'' DEFAULT_PAID_BACK_SATS_PATHS)
         (configured_paths config ''paidBackUsdPaths'' DEFAULT_PAID_BACK_USD_PATHS) btcUsd of
        Some sats \<Rightarrow> Inr sats
      | None \<Rightarrow> and_then (isPaybackRecord record markers) (\<lambda>payback. Inr
          (if \<not> payback then None
           else if \<not> hasDeliveredPaybackReceipt record then None
           else map_option roundSats (settlementSatsFromPaybackRecord record))))"

definition offrampCostSatsFromRecord ::
    "jsv \<Rightarrow> jsnum option \<Rightarrow> jsv \<Rightarrow> payback_markers \<Rightarrow> jsnum option throws" where
  "offrampCostSatsFromRecord record btcUsd config markers =
     (case sats_or_projected record
         (configured_paths config ''offrampCostSatsPaths'' DEFAULT_OFFRAMP_COST_SATS_PATHS)
         (configured_paths config ''offrampCostUsdPaths'' DEFAULT_OFFRAMP_COST_USD_PATHS) btcUsd of
        Some sats \<Rightarrow> Inr sats
      | None \<Rightarrow> and_then (isPaybackRecord record markers) (\<lambda>payback. Inr
          (if \<not> payback then None
           else map_option roundSats (firstFinitePathValue record
             [''plan.quote.fees.amount'', ''quote.fees.amount'', ''fees.amount'']))))"

definition pendingSnapshotValue :: "jsv list \<Rightarrow> jsv \<Rightarrow> jsnum option" where
  "pendingSnapshotValue records config =
     (let paths = configured_paths config ''pendingSnapshotPaths'' DEFAULT_PENDING_SNAPSHOT_PATHS;
          step = (\<lambda>(latest, latestMs) record.
            case firstFinitePathValue record paths of
              None \<Rightarrow> (latest, latestMs)
            | Some pending \<Rightarrow>
                (let observedAtMs = latestTimestampMs [record]
                 in if jle latestMs observedAtMs then (Some (roundSats pending), observedAtMs)
                    else (latest, latestMs)))
      in fst (foldl step (None, Fin (- 1)) records))"

section \<open>Inventory\<close>

text \<open>
  Upper case inside the code units of the model; the two letters whose upper case lies outside
  (and the sharp s, whose upper case is two letters) stay, which no test for BTC can see.
\<close>

definition upper_char :: "char \<Rightarrow> char" where
  "upper_char c =
     (let n = of_char c :: nat
      in if 97 \<le> n \<and> n \<le> 122 \<or> 224 \<le> n \<and> n \<le> 254 \<and> n \<noteq> 247 then char_of (n - 32) else c)"

definition uppercase :: "string \<Rightarrow> string" where
  "uppercase s = List.map upper_char s"

definition isBtcLikeEntry :: "jsv \<Rightarrow> bool" where
  "isBtcLikeEntry entry =
     (let ticker = uppercase (to_str (first_truthy [dot entry ''ticker'', dot entry ''asset'',
            dot entry ''symbol'', JStr []]));
          priceKey = lowercase (to_str (orelse (dot entry ''priceKey'') (JStr [])))
      in str_includes ''BTC'' ticker \<or> priceKey = ''btc'')"

definition inventoryEntrySats :: "jsv \<Rightarrow> jsnum option \<Rightarrow> jsnum" where
  "inventoryEntrySats entry btcUsd =
     (if \<not> truthy entry \<or> \<not> typeof_object entry then Fin 0
      else
        let explicitSats = opt_coal (finiteNonNegative (dot entry ''operatingFloatSats''))
              (opt_coal (finiteNonNegative (dot entry ''balanceSats''))
                (finiteNonNegative (dot entry ''actualSats'')));
            actualDecimal = payFiniteNumber (dot entry ''actualDecimal'');
            btcLike = (if \<not> isBtcLikeEntry entry then None
              else opt_coal (map_option (\<lambda>d. roundSats (jmul d BTC_SATS)) actualDecimal)
                     (map_option roundSats (finiteNonNegative (dot entry ''actual''))));
            sats = (\<lambda>usd. case usdToSats (Some usd) btcUsd of Some s \<Rightarrow> s | None \<Rightarrow> Fin 0)
        in case opt_coal (map_option roundSats explicitSats) btcLike of
             Some s \<Rightarrow> s
           | None \<Rightarrow> (case payFiniteNumber (dot entry ''estimatedUsd'') of
               Some estimatedUsd \<Rightarrow> sats estimatedUsd
             | None \<Rightarrow> (case (actualDecimal, payFiniteNumber (dot entry ''priceUsd'')) of
                 (Some d, Some p) \<Rightarrow>
                   (let usd = jmul d p
                    in case usdToSats (if is_fin usd then Some usd else None) btcUsd of
                         Some s \<Rightarrow> s | None \<Rightarrow> Fin 0)
               | _ \<Rightarrow> Fin 0)))"

record receipt_store =
  rc_allRecords :: "jsv list"
  rc_marketPriceSnapshots :: "jsv list"
  rc_treasuryInventory :: "jsv list"

definition normalizeReceiptStore :: "jsv \<Rightarrow> receipt_store" where
  "normalizeReceiptStore receiptStore =
     (case receiptStore of
        JArr xs \<Rightarrow> \<lparr>rc_allRecords = normalizeRecordList receiptStore, rc_marketPriceSnapshots = [],
                    rc_treasuryInventory = []\<rparr>
      | JObj fs \<Rightarrow>
          \<lparr>rc_allRecords = concat (List.map normalizeRecordList (List.filter is_arr (List.map snd fs))),
           rc_marketPriceSnapshots = normalizeRecordList (JArr
             (array_or_empty (dot receiptStore ''marketPriceSnapshots'')
              @ array_or_empty (dot receiptStore ''priceSnapshots''))),
           rc_treasuryInventory = normalizeRecordList (JArr
             (array_or_empty (dot receiptStore ''treasuryInventory'')
              @ array_or_empty (dot receiptStore ''inventorySnapshots'')
              @ (if truthy (dot receiptStore ''native'') \<or> truthy (dot receiptStore ''tokens'')
                 then [receiptStore] else [])))\<rparr>
      | _ \<Rightarrow> \<lparr>rc_allRecords = [], rc_marketPriceSnapshots = [], rc_treasuryInventory = []\<rparr>)"

definition latestInventorySnapshot :: "jsv list \<Rightarrow> jsv" where
  "latestInventorySnapshot inventorySnapshots =
     fst (foldl (\<lambda>(latest, latestMs) snapshot.
       let observedAtMs = latestTimestampMs [snapshot]
       in if jle latestMs observedAtMs then (snapshot, observedAtMs) else (latest, latestMs))
       (JNull, Fin (- 1)) inventorySnapshots)"

definition earliestInventorySnapshot :: "jsv list \<Rightarrow> jsv" where
  "earliestInventorySnapshot inventorySnapshots =
     fst (foldl (\<lambda>(earliest, earliestMs) snapshot.
       let observedAtMs = latestTimestampMs [snapshot]
       in if jle (Fin 0) observedAtMs \<and> jle observedAtMs earliestMs then (snapshot, observedAtMs)
          else (earliest, earliestMs))
       (JNull, PosInf) inventorySnapshots)"

text \<open>
  The sums per chain, in the order of \<open>localeCompare\<close>, which is an argument. \<open>|| 0\<close> also
  replaces a sum that is NaN.
\<close>

definition number_or_zero :: "jsnum option \<Rightarrow> jsnum" where
  "number_or_zero n = (case n of Some x \<Rightarrow> if x = NaN then Fin 0 else x | None \<Rightarrow> Fin 0)"

definition add_chain_float :: "jsnum option \<Rightarrow> (string \<times> jsnum) list \<Rightarrow> jsv \<Rightarrow> (string \<times> jsnum) list" where
  "add_chain_float btcUsd totals entry =
     (let chain = dot entry ''chain''
      in if \<not> truthy chain then totals
         else AList.update (to_str chain)
           (jadd (number_or_zero (map_of totals (to_str chain))) (inventoryEntrySats entry btcUsd)) totals)"

definition operatingFloatByChain ::
    "(string \<Rightarrow> string \<Rightarrow> jsnum) \<Rightarrow> jsv \<Rightarrow> jsnum option \<Rightarrow> (string \<times> jsnum) list throws" where
  "operatingFloatByChain localeCompare snapshot btcUsd =
     (if \<not> truthy snapshot then Inr []
      else
        and_then (iterate (orelse (dot snapshot ''native'') (JArr []))) (\<lambda>native.
        and_then (iterate (orelse (dot snapshot ''tokens'') (JArr []))) (\<lambda>tokens.
          Inr (sort_by (\<lambda>left right. localeCompare (fst left) (fst right))
            (foldl (add_chain_float btcUsd) [] (native @ tokens))))))"

definition totalFloatSats ::
    "(string \<Rightarrow> string \<Rightarrow> jsnum) \<Rightarrow> jsv \<Rightarrow> jsnum option \<Rightarrow> jsnum throws" where
  "totalFloatSats localeCompare snapshot btcUsd =
     and_then (operatingFloatByChain localeCompare snapshot btcUsd) (\<lambda>byChain. Inr (jsum (List.map snd byChain)))"

section \<open>The snapshot\<close>

record pay_period =
  pp_periodId :: jsv
  pp_startMs :: "jsnum option"
  pp_endMs :: "jsnum option"

definition periodBounds :: "jsv \<Rightarrow> pay_period" where
  "periodBounds config =
     (let startMs = normalizeTimestamp (dot config ''periodStartAt'');
          endMs = normalizeTimestamp (dot config ''periodEndAt'')
      in \<lparr>pp_periodId = orelse (dot config ''periodId'')
            (JStr (if startMs \<noteq> None \<or> endMs \<noteq> None then ''configured_period'' else ''all_time'')),
          pp_startMs = startMs, pp_endMs = endMs\<rparr>)"

definition DAY_MS :: jsnum where
  "DAY_MS = jint (24 * 60 * 60 * 1000)"

definition DEFAULT_ROLLING_WINDOW_DAYS :: jsnum where
  "DEFAULT_ROLLING_WINDOW_DAYS = jint 365"

definition opt_default :: "'a option \<Rightarrow> 'a \<Rightarrow> 'a" where
  "opt_default v d = (case v of Some x \<Rightarrow> x | None \<Rightarrow> d)"

text \<open>A window that starts some days before the newest record: unbounded without records.\<close>

definition window_start :: "jsnum \<Rightarrow> jsnum \<Rightarrow> jsnum option" where
  "window_start nowMs days =
     (if jlt (Fin 0) nowMs then Some (jsub nowMs (jmul days DAY_MS)) else None)"

definition rollingBounds :: "jsnum \<Rightarrow> jsv \<Rightarrow> jsnum option" where
  "rollingBounds nowMs config =
     window_start nowMs (opt_default (finiteNonNegative (dot config ''rollingWindowDays'')) DEFAULT_ROLLING_WINDOW_DAYS)"

definition safeRatio :: "jsnum \<Rightarrow> jsnum \<Rightarrow> jsnum" where
  "safeRatio numerator denominator =
     (if \<not> is_fin numerator \<or> \<not> is_fin denominator \<or> denominator = Fin 0 then Fin 0
      else jdiv numerator denominator)"

record profit_record =
  pf_record :: jsv
  pf_sats :: jsnum
  pf_source :: "profit_source option"
  pf_observedAtMs :: jsnum

text \<open>The filter asks of every record whether it is a payback, whatever its profit.\<close>

definition profit_of_record :: "jsv list \<Rightarrow> valuation \<Rightarrow> payback_markers \<Rightarrow> jsv \<Rightarrow> profit_record list throws" where
  "profit_of_record marketPriceSnapshots config markers record =
     (let profit = profitSatsDetailsFromRecord record marketPriceSnapshots config
      in and_then (isPaybackRecord record markers) (\<lambda>payback. Inr (case pd_sats profit of
            Some sats \<Rightarrow>
              if \<not> payback \<and> \<not> isOperatingCapitalIngressRecord record \<and> is_fin sats \<and> jlt (Fin 0) sats
              then [\<lparr>pf_record = record, pf_sats = sats, pf_source = pd_source profit,
                     pf_observedAtMs = latestTimestampMs [record]\<rparr>]
              else []
          | None \<Rightarrow> [])))"

definition profitRecords ::
    "jsv list \<Rightarrow> jsv list \<Rightarrow> valuation \<Rightarrow> payback_markers \<Rightarrow> profit_record list throws" where
  "profitRecords allRecords marketPriceSnapshots config markers =
     and_then (map_throws (profit_of_record marketPriceSnapshots config markers) allRecords) (\<lambda>items.
       Inr (concat items))"

record payback_record =
  pr_record :: jsv
  pr_settledSats :: "jsnum option"
  pr_offrampCostSats :: "jsnum option"
  pr_grossProfitSats :: "jsnum option"
  pr_realizedRoundTripCostSats :: "jsnum option"
  pr_delivered :: bool
  pr_chain :: jsv
  pr_periodId :: jsv
  pr_receipt :: three_way_receipt
  pr_observedAtMs :: jsnum

definition payback_record_of ::
    "jsnum option \<Rightarrow> jsv \<Rightarrow> payback_markers \<Rightarrow> jsv \<Rightarrow> payback_record throws" where
  "payback_record_of btcUsd config markers record =
     and_then (paidBackSatsFromRecord record btcUsd config markers) (\<lambda>settledSats.
     and_then (offrampCostSatsFromRecord record btcUsd config markers) (\<lambda>offrampCostSats. Inr
     \<lparr>pr_record = record,
      pr_settledSats = settledSats,
      pr_offrampCostSats = offrampCostSats,
      pr_grossProfitSats = grossProfitSatsFromPaybackRecord record btcUsd config,
      pr_realizedRoundTripCostSats = realizedRoundTripCostSatsFromPaybackRecord record btcUsd config,
      pr_delivered = hasDeliveredPaybackReceipt record,
      pr_chain = paybackChainFromRecord record,
      pr_periodId = paybackPeriodIdFromRecord record,
      pr_receipt = paybackThreeWayReceipt record,
      pr_observedAtMs = latestTimestampMs [record]\<rparr>))"

definition paybackRecords ::
    "jsv list \<Rightarrow> jsnum option \<Rightarrow> jsv \<Rightarrow> payback_markers \<Rightarrow> payback_record list throws" where
  "paybackRecords allRecords btcUsd config markers =
     and_then (map_throws (payback_record_of btcUsd config markers) allRecords) (\<lambda>items.
       Inr (List.filter (\<lambda>item. pr_settledSats item \<noteq> None \<or> pr_offrampCostSats item \<noteq> None) items))"

definition sum_profit :: "profit_record list \<Rightarrow> jsnum" where
  "sum_profit items = jsum (List.map pf_sats items)"

definition sum_settled :: "payback_record list \<Rightarrow> jsnum" where
  "sum_settled items = jsum (List.map (\<lambda>item. number_or_zero (pr_settledSats item)) items)"

definition sum_offramp :: "payback_record list \<Rightarrow> jsnum" where
  "sum_offramp items = jsum (List.map (\<lambda>item. number_or_zero (pr_offrampCostSats item)) items)"

record provenance =
  pv_directSats :: "jsnum option"
  pv_projectedSats :: "jsnum option"
  pv_totalSats :: jsnum

definition sumProfitProvenance :: "profit_record list \<Rightarrow> provenance" where
  "sumProfitProvenance selected =
     (let directSats = sum_profit (List.filter (\<lambda>item. pf_source item = Some DirectSats) selected);
          projectedSats = sum_profit (List.filter (\<lambda>item. pf_source item = Some UsdProjected) selected)
      in \<lparr>pv_directSats = Some directSats, pv_projectedSats = Some projectedSats,
          pv_totalSats = jadd directSats projectedSats\<rparr>)"

datatype pending_source = SnapshotTotalOnly | ComputedFromProfitSources

definition pendingProvenanceFromLifetime ::
    "provenance \<Rightarrow> jsnum \<Rightarrow> jsnum option \<Rightarrow> provenance \<times> pending_source" where
  "pendingProvenanceFromLifetime lifetime pendingDeferredSats pendingSnapshot =
     (let total = jmax (Fin 0) (roundSats pendingDeferredSats);
          lifetimeTotal = pv_totalSats lifetime;
          lifetimeDirect = opt_default (pv_directSats lifetime) NaN
      in if pendingSnapshot \<noteq> None
         then (\<lparr>pv_directSats = None, pv_projectedSats = None, pv_totalSats = total\<rparr>, SnapshotTotalOnly)
         else if \<not> jlt (Fin 0) lifetimeTotal \<or> total = Fin 0
         then (\<lparr>pv_directSats = Some (Fin 0), pv_projectedSats = Some (Fin 0), pv_totalSats = total\<rparr>,
               ComputedFromProfitSources)
         else if jle lifetimeTotal total
         then (\<lparr>pv_directSats = pv_directSats lifetime, pv_projectedSats = pv_projectedSats lifetime,
                pv_totalSats = total\<rparr>, ComputedFromProfitSources)
         else let directSats = roundSats (jmul (jdiv lifetimeDirect lifetimeTotal) total)
              in (\<lparr>pv_directSats = Some directSats, pv_projectedSats = Some (jmax (Fin 0) (jsub total directSats)),
                   pv_totalSats = total\<rparr>, ComputedFromProfitSources))"

section \<open>Delivered periods and the expansion gate\<close>

record period_efficiency =
  ef_index :: nat
  ef_periodId :: jsv
  ef_observedAt :: jsv
  ef_chain :: jsv
  ef_matchesExpansionChain :: bool
  ef_grossProfitSats :: "jsnum option"
  ef_realizedRoundTripCostSats :: "jsnum option"
  ef_settledSats :: "jsnum option"
  ef_efficiency :: "jsnum option"
  ef_meetsTarget :: bool
  ef_receipt :: three_way_receipt

definition by_time :: "payback_record \<Rightarrow> payback_record \<Rightarrow> jsnum" where
  "by_time left right = jsub (pr_observedAtMs left) (pr_observedAtMs right)"

definition finite_some :: "jsnum option \<Rightarrow> jsnum option" where
  "finite_some n = (case n of Some x \<Rightarrow> if is_fin x then Some x else None | None \<Rightarrow> None)"

definition iso_or_null :: "jsnum \<Rightarrow> jsv throws" where
  "iso_or_null ms =
     (if is_fin ms \<and> jlt (Fin 0) ms then and_then (to_iso ms) (\<lambda>s. Inr (JStr s)) else Inr JNull)"

definition period_efficiency_of :: "string \<Rightarrow> jsnum \<Rightarrow> nat \<Rightarrow> payback_record \<Rightarrow> period_efficiency throws" where
  "period_efficiency_of expansionReserveChainLower targetEfficiency i item =
     (let gross = finite_some (pr_grossProfitSats item);
          realizedCost = opt_coal (finite_some (pr_realizedRoundTripCostSats item)) (finite_some (pr_offrampCostSats item));
          chainLower = lowercase (to_str (orelse (pr_chain item) (JStr [])));
          efficiency = (case (gross, realizedCost) of
              (Some g, Some c) \<Rightarrow> if jlt (Fin 0) g then Some (jdiv (jsub g c) g) else None
            | _ \<Rightarrow> None)
      in and_then (iso_or_null (pr_observedAtMs item)) (\<lambda>observedAt. Inr
           \<lparr>ef_index = i,
            ef_periodId = orelse (pr_periodId item) JNull,
            ef_observedAt = observedAt,
            ef_chain = orelse (pr_chain item) JNull,
            ef_matchesExpansionChain = (chainLower = expansionReserveChainLower),
            ef_grossProfitSats = gross,
            ef_realizedRoundTripCostSats = realizedCost,
            ef_settledSats = finite_some (pr_settledSats item),
            ef_efficiency = efficiency,
            ef_meetsTarget = (case finite_some efficiency of Some e \<Rightarrow> jle targetEfficiency e | None \<Rightarrow> False),
            ef_receipt = pr_receipt item\<rparr>))"

definition paybackPeriodEfficiencies ::
    "payback_record list \<Rightarrow> string \<Rightarrow> jsnum \<Rightarrow> period_efficiency list throws" where
  "paybackPeriodEfficiencies items expansionReserveChainLower targetEfficiency =
     map_throws (\<lambda>(i, item). period_efficiency_of expansionReserveChainLower targetEfficiency i item)
       (enumerate 0 (sort_by by_time (List.filter pr_delivered items)))"

text \<open>The loop from the newest period down to the first that misses the target.\<close>

fun count_meeting :: "period_efficiency list \<Rightarrow> nat \<Rightarrow> nat" where
  "count_meeting [] consecutiveCount = consecutiveCount"
| "count_meeting (entry # rest) consecutiveCount =
     (if \<not> ef_meetsTarget entry then consecutiveCount else count_meeting rest (consecutiveCount + 1))"

record expansion_gate =
  eg_reserveChain :: jsv
  eg_targetEfficiency :: jsnum
  eg_requiredConsecutivePeriods :: jsnum
  eg_consecutivePeriodsMeetingTarget :: nat
  eg_periodsRemaining :: jsnum
  eg_deliveredPeriodCountOnReserveChain :: nat
  eg_deliveredPeriodCountAllChains :: nat
  eg_eligible :: bool
  eg_mostRecent :: "period_efficiency option"

definition nat_num :: "nat \<Rightarrow> jsnum" where
  "nat_num n = jint (int n)"

definition expansionGate :: "period_efficiency list \<Rightarrow> jsv \<Rightarrow> jsnum \<Rightarrow> jsnum \<Rightarrow> expansion_gate" where
  "expansionGate efficiencies reserveChain targetEfficiency required =
     (let expansionChainPeriods = List.filter ef_matchesExpansionChain efficiencies;
          consecutiveCount = count_meeting (rev expansionChainPeriods) 0
      in \<lparr>eg_reserveChain = reserveChain,
          eg_targetEfficiency = targetEfficiency,
          eg_requiredConsecutivePeriods = required,
          eg_consecutivePeriodsMeetingTarget = consecutiveCount,
          eg_periodsRemaining = jmax (Fin 0) (jsub required (nat_num consecutiveCount)),
          eg_deliveredPeriodCountOnReserveChain = length expansionChainPeriods,
          eg_deliveredPeriodCountAllChains = length efficiencies,
          eg_eligible = jle required (nat_num consecutiveCount),
          eg_mostRecent = (if expansionChainPeriods = [] then None else Some (List.last expansionChainPeriods))\<rparr>)"

definition expansionReserveChain :: "jsv \<Rightarrow> jsv" where
  "expansionReserveChain config = orelse (firstPresentPathValue config [''expansionReserveChain'']) (JStr ''base'')"

definition expansionTargetEfficiency :: "jsv \<Rightarrow> jsnum" where
  "expansionTargetEfficiency config =
     opt_default (payFiniteNumber (dot config ''expansionTargetEfficiency'')) (lit 9 10)"

definition expansionConsecutiveRequired :: "jsv \<Rightarrow> jsnum" where
  "expansionConsecutiveRequired config =
     jmax (Fin 1) (jfloor (opt_default (finiteNonNegative (dot config ''expansionConsecutivePeriodsRequired'')) (jint 8)))"

section \<open>The result\<close>

record payback_kpi =
  kp_byr :: jsnum
  kp_cg :: jsnum
  kp_tbr :: jsnum
  kp_roundTripEfficiency :: jsnum
  kp_daysToBreakeven :: jsnum

record payback_snapshot =
  ps_periodId :: jsv
  ps_grossProfitSats_period :: jsnum
  ps_paidBackSats_lifetime :: jsnum
  ps_pendingDeferredSats :: jsnum
  ps_periodProvenance :: provenance
  ps_lifetimeProvenance :: provenance
  ps_rolling12mProvenance :: provenance
  ps_pendingProvenance :: "provenance \<times> pending_source"
  ps_operatingFloatSats_byChain :: "(string \<times> jsnum) list"
  ps_kpi :: payback_kpi
  ps_paybackPeriodEfficiencies :: "period_efficiency list"
  ps_expansionGate :: expansion_gate

definition active_days :: "payback_record list \<Rightarrow> nat throws" where
  "active_days items =
     and_then (map_throws (\<lambda>item. and_then (to_iso (pr_observedAtMs item)) (\<lambda>s. Inr (take 10 s))) items)
       (\<lambda>days. Inr (length (unique_list days)))"

definition payback_kpis ::
    "jsnum \<Rightarrow> jsnum \<Rightarrow> jsnum \<Rightarrow> jsnum \<Rightarrow> jsnum \<Rightarrow> jsnum \<Rightarrow> payback_kpi" where
  "payback_kpis paidRolling startFloat endFloat grossPeriod offrampPeriod daysToBreakeven =
     (let base = (if jlt (Fin 0) startFloat then Fin 1 else Fin 0)
      in \<lparr>kp_byr = safeRatio paidRolling startFloat,
          kp_cg = jsub (safeRatio endFloat startFloat) base,
          kp_tbr = jsub (safeRatio (jadd paidRolling endFloat) startFloat) base,
          kp_roundTripEfficiency = (if jlt (Fin 0) grossPeriod
            then safeRatio (jsub grossPeriod offrampPeriod) grossPeriod else Fin 0),
          kp_daysToBreakeven = daysToBreakeven\<rparr>)"

definition days_to_breakeven :: "jsv \<Rightarrow> payback_record list \<Rightarrow> jsnum \<Rightarrow> jsnum throws" where
  "days_to_breakeven config recentSettled paidBackSatsLifetime =
     and_then (active_days recentSettled) (\<lambda>activePaybackDays.
       let average = (if 0 < activePaybackDays then jdiv (sum_settled recentSettled) (nat_num activePaybackDays)
             else Fin 0);
           remaining = (case finiteNonNegative (dot config ''initialRoundTripEntrySats'') of
               Some entry \<Rightarrow> jmax (Fin 0) (jsub entry paidBackSatsLifetime) | None \<Rightarrow> Fin 0)
       in Inr (if jlt (Fin 0) average \<and> jlt (Fin 0) remaining then jdiv remaining average else Fin 0))"

text \<open>What the snapshot works on: the normalized records, the price and the windows.\<close>

record payback_inputs =
  pn_allRecords :: "jsv list"
  pn_market :: "jsv list"
  pn_inventory :: "jsv list"
  pn_btcUsd :: "jsnum option"
  pn_latestMs :: jsnum

definition payback_inputs_of :: "jsv \<Rightarrow> jsv \<Rightarrow> jsv \<Rightarrow> payback_inputs" where
  "payback_inputs_of auditLogLines receiptStore config =
     (let store = normalizeReceiptStore receiptStore;
          allRecords = normalizeRecordList auditLogLines @ rc_allRecords store;
          market = rc_marketPriceSnapshots store
      in \<lparr>pn_allRecords = allRecords, pn_market = market, pn_inventory = rc_treasuryInventory store,
          pn_btcUsd = latestBtcUsd
            (JObj (set_fld ''marketPriceSnapshots'' (JArr market) (fields_of receiptStore))) config,
          pn_latestMs = jmax (jmax (latestTimestampMs allRecords) (latestTimestampMs market))
            (latestTimestampMs (rc_treasuryInventory store))\<rparr>)"

definition valuation_of :: "payback_inputs \<Rightarrow> jsv \<Rightarrow> valuation" where
  "valuation_of inputs config =
     \<lparr>vc_config = (case pn_btcUsd inputs of
         Some b \<Rightarrow> JObj (set_fld ''btcUsd'' (JNum b) (fields_of config)) | None \<Rightarrow> config),
      vc_priceIndex = Some (buildPriceIndex (pn_market inputs))\<rparr>"

definition profits_of :: "payback_inputs \<Rightarrow> jsv \<Rightarrow> payback_markers \<Rightarrow> profit_record list throws" where
  "profits_of inputs config markers =
     profitRecords (pn_allRecords inputs) (pn_market inputs) (valuation_of inputs config) markers"

definition paybacks_of :: "payback_inputs \<Rightarrow> jsv \<Rightarrow> payback_markers \<Rightarrow> payback_record list throws" where
  "paybacks_of inputs config markers =
     paybackRecords (pn_allRecords inputs) (pn_btcUsd inputs) config markers"

definition pending_of :: "jsnum option \<Rightarrow> jsnum \<Rightarrow> jsnum \<Rightarrow> jsnum" where
  "pending_of pendingSnapshot gross paid =
     (case pendingSnapshot of Some p \<Rightarrow> p | None \<Rightarrow> jmax (Fin 0) (jsub gross paid))"

definition snapshot ::
    "(string \<Rightarrow> string \<Rightarrow> jsnum) \<Rightarrow> jsv \<Rightarrow> jsv \<Rightarrow> jsv \<Rightarrow> payback_snapshot throws" where
  "snapshot localeCompare auditLogLines receiptStore config =
     and_then (paybackMarkers config) (\<lambda>markers.
     and_then (profits_of (payback_inputs_of auditLogLines receiptStore config) config markers) (\<lambda>profits.
     and_then (paybacks_of (payback_inputs_of auditLogLines receiptStore config) config markers) (\<lambda>paybacks.
     (let inputs = payback_inputs_of auditLogLines receiptStore config;
          btcUsd = pn_btcUsd inputs;
          inventory = pn_inventory inputs;
          nowMs = pn_latestMs inputs;
          period = periodBounds config;
          rollingStart = rollingBounds nowMs config;
          inPeriod = (\<lambda>ms. isWithinWindow ms (pp_startMs period) (pp_endMs period));
          inRolling = (\<lambda>ms. isWithinWindow ms rollingStart (Some nowMs));
          periodProfits = List.filter (\<lambda>item. inPeriod (pf_observedAtMs item)) profits;
          rollingProfits = List.filter (\<lambda>item. inRolling (pf_observedAtMs item)) profits;
          grossProfitSatsPeriod = sum_profit periodProfits;
          lifetimeProvenance = sumProfitProvenance profits;
          paidBackSatsLifetime = sum_settled paybacks;
          paidBackSatsRolling12m = sum_settled (List.filter (\<lambda>item. inRolling (pr_observedAtMs item)) paybacks);
          offrampCostSatsPeriod = sum_offramp (List.filter (\<lambda>item. inPeriod (pr_observedAtMs item)) paybacks);
          pendingSnapshot = pendingSnapshotValue (pn_allRecords inputs) config;
          pendingDeferredSats = pending_of pendingSnapshot (sum_profit profits) paidBackSatsLifetime;
          latestInventory = latestInventorySnapshot inventory;
          rollingSnapshots = List.filter (\<lambda>s. inRolling (latestTimestampMs [s])) inventory;
          rollingStartSnapshot = first_truthy [earliestInventorySnapshot rollingSnapshots,
            earliestInventorySnapshot inventory, JNull];
          recentDays = opt_default (opt_coal (finiteNonNegative (dot config ''recentPaybackWindowDays''))
            (finiteNonNegative (dot config ''rollingWindowDays''))) DEFAULT_ROLLING_WINDOW_DAYS;
          recentSettled = List.filter (\<lambda>item. pr_settledSats item \<noteq> None
            \<and> isWithinWindow (pr_observedAtMs item) (window_start nowMs recentDays) (Some nowMs)) paybacks;
          reserveChain = expansionReserveChain config;
          targetEfficiency = expansionTargetEfficiency config
      in and_then (operatingFloatByChain localeCompare latestInventory btcUsd) (\<lambda>byChain.
         and_then (totalFloatSats localeCompare rollingStartSnapshot btcUsd) (\<lambda>startFloat.
         and_then (totalFloatSats localeCompare latestInventory btcUsd) (\<lambda>endFloat.
         and_then (days_to_breakeven config recentSettled paidBackSatsLifetime) (\<lambda>daysToBreakeven.
         and_then (paybackPeriodEfficiencies paybacks (lowercase (to_str (orelse reserveChain (JStr [])))) targetEfficiency)
           (\<lambda>efficiencies. Inr
           \<lparr>ps_periodId = pp_periodId period,
            ps_grossProfitSats_period = grossProfitSatsPeriod,
            ps_paidBackSats_lifetime = paidBackSatsLifetime,
            ps_pendingDeferredSats = pendingDeferredSats,
            ps_periodProvenance = sumProfitProvenance periodProfits,
            ps_lifetimeProvenance = lifetimeProvenance,
            ps_rolling12mProvenance = sumProfitProvenance rollingProfits,
            ps_pendingProvenance = pendingProvenanceFromLifetime lifetimeProvenance pendingDeferredSats pendingSnapshot,
            ps_operatingFloatSats_byChain = byChain,
            ps_kpi = payback_kpis paidBackSatsRolling12m startFloat endFloat grossProfitSatsPeriod
              offrampCostSatsPeriod daysToBreakeven,
            ps_paybackPeriodEfficiencies = efficiencies,
            ps_expansionGate = expansionGate efficiencies reserveChain targetEfficiency
              (expansionConsecutiveRequired config)\<rparr>)))))))))"

end
