(* ===== verification/PaybackReport.thy ===== *)
theory PaybackReport
  imports PaybackLedger
begin

text \<open>
  What the payback snapshot guarantees: which records make it throw; profit excludes paybacks and
  incoming capital, and a window never holds more than the whole log; the split of the pending
  amount stays within it; the periods it reports were delivered with all receipts; and the
  expansion gate counts the newest periods that met the target.
\<close>

section \<open>Facts\<close>

lemma normalizeTimestamp_fin: "normalizeTimestamp v = Some t \<Longrightarrow> is_fin t"
  by (auto simp: normalizeTimestamp_def Let_def split: if_splits)

lemma latestTimestampMs_fin: "is_fin (latestTimestampMs rs)"
proof (induction rs rule: rev_induct)
  case (snoc r rs)
  then show ?case by (auto simp: latestTimestampMs_def dest: normalizeTimestamp_fin split: option.splits)
qed (simp add: latestTimestampMs_def)

lemma map_throws_elem:
  "map_throws f xs = Inr ys \<Longrightarrow> y \<in> set ys \<Longrightarrow> \<exists>x\<in>set xs. f x = Inr y"
  by (induction xs arbitrary: ys) (auto simp: and_then_Inr)

lemma map_throws_back:
  "map_throws f xs = Inr ys \<Longrightarrow> x \<in> set xs \<Longrightarrow> \<exists>y. f x = Inr y"
  by (induction xs arbitrary: ys) (auto simp: and_then_Inr)

lemma profitRecords_sound:
  assumes "profitRecords rs ms config markers = Inr items" "item \<in> set items"
  shows "pf_record item \<in> set rs" "isPaybackRecord (pf_record item) markers = Inr False"
    "\<not> isOperatingCapitalIngressRecord (pf_record item)" "is_fin (pf_sats item)" "jlt (Fin 0) (pf_sats item)"
    "pf_source item \<noteq> None"
proof -
  from assms(1) obtain parts where parts: "map_throws (profit_of_record ms config markers) rs = Inr parts"
    "items = concat parts"
    by (auto simp: profitRecords_def and_then_Inr)
  with assms(2) obtain part where part: "part \<in> set parts" "item \<in> set part" by auto
  obtain r where r: "r \<in> set rs" "profit_of_record ms config markers r = Inr part"
    using map_throws_elem [OF parts(1) part(1)] by blast
  have src: "pd_source (profitSatsDetailsFromRecord r ms config) \<noteq> None"
    if "pd_sats (profitSatsDetailsFromRecord r ms config) \<noteq> None"
    using that by (auto simp: profitSatsDetailsFromRecord_def Let_def split: option.splits)
  from r(2) part(2) obtain sats where sats: "pd_sats (profitSatsDetailsFromRecord r ms config) = Some sats"
    "isPaybackRecord r markers = Inr False" "\<not> isOperatingCapitalIngressRecord r" "is_fin sats" "jlt (Fin 0) sats"
    and item: "item = \<lparr>pf_record = r, pf_sats = sats,
        pf_source = pd_source (profitSatsDetailsFromRecord r ms config), pf_observedAtMs = latestTimestampMs [r]\<rparr>"
    by (cases "pd_sats (profitSatsDetailsFromRecord r ms config)")
      (auto simp: profit_of_record_def Let_def and_then_Inr split: if_splits)
  from sats src r show "pf_record item \<in> set rs" "isPaybackRecord (pf_record item) markers = Inr False"
    "\<not> isOperatingCapitalIngressRecord (pf_record item)" "is_fin (pf_sats item)" "jlt (Fin 0) (pf_sats item)"
    "pf_source item \<noteq> None"
    by (simp_all add: item)
qed

text \<open>A sum over some of the items, all non-negative, is at most the sum over all of them.\<close>

lemma jlt_jle: "jlt a b \<Longrightarrow> jle a b"
  by (cases a; cases b) auto

lemma jadd_grows:
  assumes "is_double a" "jle (Fin 0) a" "is_fin c" "jle (Fin 0) c"
  shows "jle a (jadd a c)"
proof (cases "is_fin a")
  case True
  then show ?thesis using assms by (intro jadd_increasing)
next
  case False
  with assms show ?thesis by (cases a; cases c) auto
qed

lemma jsum_filter_le:
  assumes "list_all (\<lambda>x. is_fin (f x) \<and> jle (Fin 0) (f x)) xs"
  shows "jle (jsum (List.map f (List.filter P xs))) (jsum (List.map f xs))"
  using assms
proof (induction xs rule: rev_induct)
  case (snoc x xs)
  then have ih: "jle (jsum (List.map f (List.filter P xs))) (jsum (List.map f xs))" by simp
  have x: "is_fin (f x)" "jle (Fin 0) (f x)" using snoc.prems by simp_all
  have nn: "jle (Fin 0) (jsum (List.map f xs))"
    using snoc.prems by (intro jsum_nonneg) (auto simp: list_all_iff)
  show ?case
  proof (cases "P x")
    case True
    then show ?thesis using ih x by (simp add: jadd_mono)
  next
    case False
    have "jle (jsum (List.map f xs)) (jadd (jsum (List.map f xs)) (f x))"
      by (rule jadd_grows [OF is_double_jsum nn x])
    with False ih show ?thesis by (simp add: jle_trans)
  qed
qed simp

lemma count_meeting_takeWhile: "count_meeting xs n = n + length (takeWhile ef_meetsTarget xs)"
  by (induction xs arbitrary: n) auto

text \<open>The parts of a snapshot that the properties speak of.\<close>

lemma snapshot_parts:
  assumes "snapshot lc audit receipts config = Inr out"
  obtains markers profits paybacks where
    "paybackMarkers config = Inr markers"
    "profits_of (payback_inputs_of audit receipts config) config markers = Inr profits"
    "paybacks_of (payback_inputs_of audit receipts config) config markers = Inr paybacks"
    "ps_grossProfitSats_period out = sum_profit (List.filter
       (\<lambda>item. isWithinWindow (pf_observedAtMs item) (pp_startMs (periodBounds config)) (pp_endMs (periodBounds config)))
       profits)"
    "ps_lifetimeProvenance out = sumProfitProvenance profits"
    "ps_pendingDeferredSats out = pending_of
       (pendingSnapshotValue (pn_allRecords (payback_inputs_of audit receipts config)) config)
       (sum_profit profits) (sum_settled paybacks)"
    "ps_pendingProvenance out = pendingProvenanceFromLifetime (ps_lifetimeProvenance out) (ps_pendingDeferredSats out)
       (pendingSnapshotValue (pn_allRecords (payback_inputs_of audit receipts config)) config)"
    "paybackPeriodEfficiencies paybacks
       (lowercase (to_str (orelse (expansionReserveChain config) (JStr [])))) (expansionTargetEfficiency config)
       = Inr (ps_paybackPeriodEfficiencies out)"
    "ps_expansionGate out = expansionGate (ps_paybackPeriodEfficiencies out) (expansionReserveChain config)
       (expansionTargetEfficiency config) (expansionConsecutiveRequired config)"
  using assms unfolding snapshot_def Let_def and_then_Inr by (elim exE conjE) (auto intro!: that)

lemma rnd_between:
  assumes "rnd a = Fin a" "rnd b = Fin b" "a \<le> x" "x \<le> b"
  shows "\<exists>y. rnd x = Fin y \<and> a \<le> y \<and> y \<le> b"
  using rnd_mono [OF assms(3)] rnd_mono [OF assms(4)] assms(1,2) by (cases "rnd x") auto

text \<open>A share of an integer total, rounded to an integer, lies between zero and the total.\<close>

lemma rounded_share:
  assumes "0 \<le> x" "x \<le> l" "0 < l" "0 \<le> n" "n \<le> 2 ^ 53"
  shows "\<exists>m. roundSats (jmul (jdiv (Fin x) (Fin l)) (Fin (of_int n))) = Fin (of_int m) \<and> 0 \<le> m \<and> m \<le> n"
proof -
  have "x / l \<le> 1" "0 \<le> x / l" using assms(1-3) by simp_all
  then obtain q where q: "rnd (x / l) = Fin q" "0 \<le> q" "q \<le> 1" using rnd_between [of 0 1] by auto
  have n: "rnd (of_int n) = Fin (of_int n)" using assms(4,5) by (intro rnd_int) simp
  have "q * of_int n \<le> 1 * of_int n" using q(3) assms(4) by (intro mult_right_mono) simp_all
  moreover have "0 \<le> q * of_int n" using q(2) assms(4) by simp
  ultimately obtain y where y: "rnd (q * of_int n) = Fin y" "0 \<le> y" "y \<le> of_int n"
    using rnd_between [of 0 "of_int n"] n by auto
  have "0 \<le> \<lfloor>y + 1 / 2\<rfloor>" using y(2) by (simp add: le_floor_iff)
  moreover have "\<lfloor>y + 1 / 2\<rfloor> \<le> n" using y(3) by linarith
  moreover have "roundSats (jmul (jdiv (Fin x) (Fin l)) (Fin (of_int n))) = Fin (of_int \<lfloor>y + 1 / 2\<rfloor>)"
    using assms(3) q(1) y(1) by (simp add: jdiv_def jmul_def roundSats_def)
  ultimately show ?thesis by blast
qed

lemma sum_profit_nonneg:
  "(\<And>item. item \<in> set items \<Longrightarrow> jlt (Fin 0) (pf_sats item)) \<Longrightarrow> jle (Fin 0) (sum_profit items)"
  unfolding sum_profit_def by (rule jsum_nonneg) (auto intro: jlt_jle)

lemma roundSats_int: "\<exists>n. roundSats v = Fin (of_int n)"
  by (cases v) (auto simp: roundSats_def intro: exI [of _ 0])

lemma jsub_int:
  assumes "\<bar>n\<bar> \<le> 2 ^ 53" "\<bar>m\<bar> \<le> 2 ^ 53" "\<bar>n - m\<bar> \<le> 2 ^ 53"
  shows "jsub (Fin (of_int n)) (Fin (of_int m)) = Fin (of_int (n - m))"
  using rnd_int [OF assms(3)] by (simp add: jsub_def)

lemma pending_split_bounds:
  assumes pos: "\<And>item. item \<in> set items \<Longrightarrow> jlt (Fin 0) (pf_sats item)"
    and res: "pendingProvenanceFromLifetime (sumProfitProvenance items) pending None = (p, src)"
    and small: "jle (pv_totalSats p) (jint (2 ^ 53))"
  shows "\<exists>d j. pv_directSats p = Some d \<and> pv_projectedSats p = Some j
    \<and> jle (Fin 0) d \<and> jle (Fin 0) j \<and> jle (jadd d j) (pv_totalSats p)"
proof -
  define D P L where "D = sum_profit (List.filter (\<lambda>i. pf_source i = Some DirectSats) items)"
    and "P = sum_profit (List.filter (\<lambda>i. pf_source i = Some UsdProjected) items)"
    and "L = jadd D P"
  have life: "sumProfitProvenance items = \<lparr>pv_directSats = Some D, pv_projectedSats = Some P, pv_totalSats = L\<rparr>"
    by (simp add: sumProfitProvenance_def D_def P_def L_def Let_def)
  have D: "jle (Fin 0) D" and P: "jle (Fin 0) P"
    unfolding D_def P_def by (auto intro!: sum_profit_nonneg pos)
  obtain m where m: "roundSats pending = Fin (of_int m)" using roundSats_int by blast
  define n where "n = max 0 m"
  have t: "jmax (Fin 0) (roundSats pending) = Fin (of_int n)" by (auto simp: m jmax_def n_def max_def)
  have pt: "pv_totalSats p = Fin (of_int n)"
    using res t by (auto simp: pendingProvenanceFromLifetime_def Let_def split: if_splits)
  then have "(of_int n :: rat) \<le> of_int (2 ^ 53)" using small by (simp add: jint_def rnd_int del: of_int_power)
  then have n: "0 \<le> n" "n \<le> 2 ^ 53" by (simp_all only: of_int_le_iff) (simp add: n_def)
  show ?thesis
  proof (cases "\<not> jlt (Fin 0) L \<or> n = 0")
    case True
    then have "p = \<lparr>pv_directSats = Some (Fin 0), pv_projectedSats = Some (Fin 0), pv_totalSats = Fin (of_int n)\<rparr>"
      using res t by (auto simp: pendingProvenanceFromLifetime_def Let_def life)
    then show ?thesis using n by simp
  next
    case False
    show ?thesis
    proof (cases "jle L (Fin (of_int n))")
      case True
      then have "p = \<lparr>pv_directSats = Some D, pv_projectedSats = Some P, pv_totalSats = Fin (of_int n)\<rparr>"
        using res t False by (simp add: pendingProvenanceFromLifetime_def Let_def life)
      then show ?thesis using D P True by (simp add: L_def)
    next
      case above: False
      define d where "d = roundSats (jmul (jdiv D L) (Fin (of_int n)))"
      have p: "p = \<lparr>pv_directSats = Some d, pv_projectedSats = Some (jmax (Fin 0) (jsub (Fin (of_int n)) d)),
          pv_totalSats = Fin (of_int n)\<rparr>"
        using res t False above by (simp add: pendingProvenanceFromLifetime_def Let_def life opt_default_def d_def)
      have "\<exists>k. d = Fin (of_int k) \<and> 0 \<le> k \<and> k \<le> n"
      proof (cases "is_fin L")
        case True
        then obtain l where l: "L = Fin l" by (rule is_finE)
        have "is_fin D" "is_fin P" using l D P unfolding L_def by (cases D; cases P; simp)+
        then obtain x where x: "D = Fin x" by (auto elim: is_finE)
        have "is_double D" by (simp add: D_def sum_profit_def)
        from jadd_increasing [OF this \<open>is_fin D\<close> P] have "x \<le> l" using l x by (simp add: L_def)
        moreover have "0 < l" using False l by simp
        moreover have "0 \<le> x" using D x by simp
        ultimately show ?thesis using rounded_share [of x l n] n by (simp add: d_def x l)
      next
        case inf: False
        then have "jdiv D L = Fin 0 \<or> jdiv D L = NaN"
          using D False by (cases D; cases L) (auto simp: jdiv_def)
        moreover have "\<lfloor>1 / 2 :: rat\<rfloor> = 0" by (rule floor_unique) simp_all
        ultimately have "d = Fin 0" by (auto simp: d_def jmul_def roundSats_def)
        then show ?thesis using n by (intro exI [of _ 0]) simp
      qed
      then obtain k where k: "d = Fin (of_int k)" "0 \<le> k" "k \<le> n" by blast
      have "jsub (Fin (of_int n)) d = Fin (of_int (n - k))"
        unfolding k(1) using n k by (intro jsub_int) simp_all
      then have "jmax (Fin 0) (jsub (Fin (of_int n)) d) = Fin (of_int (n - k))" using k by (simp add: jmax_def)
      moreover have "rnd (of_int n) = Fin (of_int n)" using n by (intro rnd_int) simp
      ultimately show ?thesis using p k n by simp
    qed
  qed
qed

lemma drop_takeWhile_rev:
  "n \<le> length (takeWhile P (rev xs)) \<longleftrightarrow> n \<le> length xs \<and> list_all P (drop (length xs - n) xs)"
proof (induction xs arbitrary: n rule: rev_induct)
  case (snoc x xs)
  then show ?case by (cases n) auto
qed simp

lemma nat_num_le:
  assumes "k \<le> 2 ^ 53"
  shows "jle (Fin (of_nat n)) (nat_num k) \<longleftrightarrow> n \<le> k"
proof -
  have "rnd (of_int (int k)) = Fin (of_int (int k))" using assms by (intro rnd_int) (simp flip: of_nat_power_eq_of_nat_cancel_iff)
  then show ?thesis by (simp add: nat_num_def jint_def)
qed

lemma expansion_gate_eligible:
  assumes "required = Fin (of_nat n)" "length efficiencies \<le> 2 ^ 53"
  shows "eg_eligible (expansionGate efficiencies chain target required)
    \<longleftrightarrow> n \<le> length (List.filter ef_matchesExpansionChain efficiencies)
        \<and> list_all ef_meetsTarget (drop (length (List.filter ef_matchesExpansionChain efficiencies) - n)
            (List.filter ef_matchesExpansionChain efficiencies))"
proof -
  let ?ps = "List.filter ef_matchesExpansionChain efficiencies"
  have "length (takeWhile ef_meetsTarget (rev ?ps)) \<le> length ?ps" using length_takeWhile_le [of _ "rev ?ps"] by simp
  also have "\<dots> \<le> 2 ^ 53" using assms(2) length_filter_le order_trans by blast
  finally have "jle required (nat_num (length (takeWhile ef_meetsTarget (rev ?ps))))
      \<longleftrightarrow> n \<le> length (takeWhile ef_meetsTarget (rev ?ps))"
    unfolding assms(1) by (rule nat_num_le)
  then show ?thesis by (simp add: expansionGate_def Let_def count_meeting_takeWhile drop_takeWhile_rev)
qed

lemma map_throws_length: "map_throws f xs = Inr ys \<Longrightarrow> length ys = length xs"
  by (induction xs arbitrary: ys) (auto simp: and_then_Inr)

lemma efficiencies_length:
  "paybackPeriodEfficiencies items chain target = Inr es \<Longrightarrow> length es = length (List.filter pr_delivered items)"
  by (auto simp: paybackPeriodEfficiencies_def dest: map_throws_length)

text \<open>The payback records are made from the records of the log, each with a finite time.\<close>

lemma payback_record_of_Inr:
  "payback_record_of btcUsd config markers r = Inr item \<Longrightarrow> pr_delivered item = hasDeliveredPaybackReceipt r
     \<and> pr_receipt item = paybackThreeWayReceipt r \<and> pr_observedAtMs item = latestTimestampMs [r]"
  by (auto simp: payback_record_of_def and_then_Inr)

lemma paybackRecords_from:
  assumes "paybackRecords rs btcUsd config markers = Inr items" "item \<in> set items"
  shows "\<exists>r\<in>set rs. payback_record_of btcUsd config markers r = Inr item"
  using assms by (auto simp: paybackRecords_def and_then_Inr dest: map_throws_elem)

lemma payback_time_fin:
  "paybackRecords rs btcUsd config markers = Inr items \<Longrightarrow> item \<in> set items \<Longrightarrow> is_fin (pr_observedAtMs item)"
  using paybackRecords_from payback_record_of_Inr latestTimestampMs_fin by metis

lemma efficiencies_le:
  assumes "paybackRecords rs btcUsd config markers = Inr items" "paybackPeriodEfficiencies items chain target = Inr es"
  shows "length es \<le> length rs"
proof -
  from assms(1) obtain all where all: "map_throws (payback_record_of btcUsd config markers) rs = Inr all"
    "items = List.filter (\<lambda>item. pr_settledSats item \<noteq> None \<or> pr_offrampCostSats item \<noteq> None) all"
    by (auto simp: paybackRecords_def and_then_Inr)
  have "length es \<le> length items" using efficiencies_length [OF assms(2)] length_filter_le by simp
  also have "\<dots> \<le> length rs"
    using length_filter_le [of "\<lambda>item. pr_settledSats item \<noteq> None \<or> pr_offrampCostSats item \<noteq> None" all]
      map_throws_length [OF all(1)] by (simp add: all(2))
  finally show ?thesis .
qed

lemma delivered_receipt:
  "hasDeliveredPaybackReceipt r \<Longrightarrow> truthy (tw_sourceTxHash (paybackThreeWayReceipt r))
     \<and> truthy (tw_gatewayOrderId (paybackThreeWayReceipt r)) \<and> truthy (tw_bitcoinTxid (paybackThreeWayReceipt r))
     \<and> (dot r ''settlementStatus'' = JStr ''delivered'' \<or> dots r [''destinationProof'', ''status''] = JStr ''delivered'')"
  by (auto simp: hasDeliveredPaybackReceipt_def Let_def split: if_splits)

lemma period_of_delivered:
  assumes "paybackRecords rs btcUsd config markers = Inr items"
    "paybackPeriodEfficiencies items chain target = Inr es" "e \<in> set es"
  shows "\<exists>r item i. r \<in> set rs \<and> hasDeliveredPaybackReceipt r \<and> payback_record_of btcUsd config markers r = Inr item
    \<and> period_efficiency_of chain target i item = Inr e"
proof -
  from map_throws_elem [OF assms(2) [unfolded paybackPeriodEfficiencies_def] assms(3)]
  obtain i item where i: "(i, item) \<in> set (enumerate 0 (sort_by by_time (List.filter pr_delivered items)))"
    and e: "period_efficiency_of chain target i item = Inr e"
    by auto
  from i have "item \<in> set (sort_by by_time (List.filter pr_delivered items))"
    unfolding enumerate_eq_zip by (rule set_zip_rightD)
  then have d: "item \<in> set items" "pr_delivered item" by simp_all
  obtain r where r: "r \<in> set rs" "payback_record_of btcUsd config markers r = Inr item"
    using paybackRecords_from [OF assms(1) d(1)] by blast
  with payback_record_of_Inr [OF r(2)] d(2) e show ?thesis by blast
qed

lemma finite_some_Some: "finite_some x = Some y \<Longrightarrow> x = Some y"
  by (auto simp: finite_some_def split: option.splits if_splits)

lemma period_efficiency_meets:
  assumes "period_efficiency_of chain target i item = Inr e"
  shows "ef_receipt e = pr_receipt item" "ef_meetsTarget e \<Longrightarrow>
    \<exists>g c. ef_grossProfitSats e = Some g \<and> jlt (Fin 0) g \<and> ef_realizedRoundTripCostSats e = Some c
      \<and> jle target (jdiv (jsub g c) g)"
proof -
  let ?g = "finite_some (pr_grossProfitSats item)"
  let ?c = "opt_coal (finite_some (pr_realizedRoundTripCostSats item)) (finite_some (pr_offrampCostSats item))"
  let ?e = "case (?g, ?c) of
      (Some g, Some c) \<Rightarrow> if jlt (Fin 0) g then Some (jdiv (jsub g c) g) else None | _ \<Rightarrow> None"
  have e: "ef_receipt e = pr_receipt item" "ef_grossProfitSats e = ?g" "ef_realizedRoundTripCostSats e = ?c"
    "ef_meetsTarget e = (case finite_some ?e of Some x \<Rightarrow> jle target x | None \<Rightarrow> False)"
    using assms unfolding period_efficiency_of_def Let_def and_then_Inr by auto
  show "ef_receipt e = pr_receipt item" by (rule e)
  assume "ef_meetsTarget e"
  then obtain x where x: "finite_some ?e = Some x" "jle target x" unfolding e by (auto split: option.splits)
  from finite_some_Some [OF x(1)] obtain g c where gc: "?g = Some g" "?c = Some c" "jlt (Fin 0) g" "x = jdiv (jsub g c) g"
    by (cases ?g; cases ?c) (auto split: if_splits)
  with x(2) show "\<exists>g c. ef_grossProfitSats e = Some g \<and> jlt (Fin 0) g \<and> ef_realizedRoundTripCostSats e = Some c
      \<and> jle target (jdiv (jsub g c) g)" unfolding e by blast
qed

lemma fold_pick:
  assumes "\<And>acc x. fst (f acc x) = fst acc \<or> fst (f acc x) = x"
  shows "fst (foldl f (a, b) xs) = a \<or> fst (foldl f (a, b) xs) \<in> set xs"
proof (induction xs rule: rev_induct)
  case (snoc x xs)
  then show ?case using assms [of "foldl f (a, b) xs" x] by auto
qed simp

lemma latest_inventory_in: "latestInventorySnapshot xs = JNull \<or> latestInventorySnapshot xs \<in> set xs"
  unfolding latestInventorySnapshot_def by (rule fold_pick) (auto simp: Let_def split: prod.splits)

lemma earliest_inventory_in: "earliestInventorySnapshot xs = JNull \<or> earliestInventorySnapshot xs \<in> set xs"
  unfolding earliestInventorySnapshot_def by (rule fold_pick) (auto simp: Let_def split: prod.splits)

text \<open>The inventories whose lists of assets can be iterated.\<close>

definition iterable :: "jsv \<Rightarrow> bool" where
  "iterable v \<longleftrightarrow> is_arr v \<or> is_string v"

definition readable_inventory :: "jsv \<Rightarrow> bool" where
  "readable_inventory s \<longleftrightarrow> iterable (orelse (dot s ''native'') (JArr [])) \<and> iterable (orelse (dot s ''tokens'') (JArr []))"

lemma iterate_iterable: "iterable v \<Longrightarrow> \<exists>xs. iterate v = Inr xs"
  by (cases v) (auto simp: iterable_def)

lemma operatingFloat_returns:
  "s = JNull \<or> readable_inventory s \<Longrightarrow> \<exists>xs. operatingFloatByChain lc s btcUsd = Inr xs"
  by (auto simp: operatingFloatByChain_def readable_inventory_def dest!: iterate_iterable)

lemma totalFloat_returns:
  assumes "s = JNull \<or> readable_inventory s"
  shows "\<exists>v. totalFloatSats lc s btcUsd = Inr v"
proof -
  obtain xs where "operatingFloatByChain lc s btcUsd = Inr xs" using operatingFloat_returns [OF assms] by blast
  then show ?thesis by (simp add: totalFloatSats_def)
qed

lemma and_then_returns:
  "\<exists>v. m = Inr v \<Longrightarrow> (\<And>v. \<exists>w. k v = Inr w) \<Longrightarrow> \<exists>w. and_then m k = Inr w"
  by (auto simp: and_then_def)

lemma map_throws_returns: "(\<And>x. x \<in> set xs \<Longrightarrow> \<exists>y. f x = Inr y) \<Longrightarrow> \<exists>ys. map_throws f xs = Inr ys"
proof (induction xs)
  case (Cons x xs)
  then obtain y ys where "f x = Inr y" "map_throws f xs = Inr ys" by fastforce
  then show ?case by simp
qed simp

lemma to_iso_returns: "is_fin t \<Longrightarrow> \<exists>s. to_iso t = Inr s"
  by (auto simp: to_iso_def elim: is_finE)

lemma days_to_breakeven_returns:
  assumes "paybackRecords rs btcUsd config markers = Inr paybacks" "set items \<subseteq> set paybacks"
  shows "\<exists>d. days_to_breakeven config' items paid = Inr d"
proof -
  have "\<exists>s. and_then (to_iso (pr_observedAtMs item)) (\<lambda>s. Inr (take 10 s)) = Inr s" if "item \<in> set items" for item
    using to_iso_returns [OF payback_time_fin [OF assms(1)]] assms(2) that by fastforce
  then obtain ds where "map_throws (\<lambda>item. and_then (to_iso (pr_observedAtMs item)) (\<lambda>s. Inr (take 10 s))) items = Inr ds"
    using map_throws_returns by (metis (mono_tags, lifting))
  then show ?thesis by (simp add: days_to_breakeven_def active_days_def Let_def)
qed

lemma efficiencies_return:
  assumes "paybackRecords rs btcUsd config markers = Inr paybacks"
  shows "\<exists>es. paybackPeriodEfficiencies paybacks chain target = Inr es"
proof -
  let ?items = "sort_by by_time (List.filter pr_delivered paybacks)"
  have "\<exists>e. (case p of (i, item) \<Rightarrow> period_efficiency_of chain target i item) = Inr e"
    if p: "p \<in> set (enumerate 0 ?items)" for p
  proof -
    obtain i item where pi: "p = (i, item)" by (cases p)
    have "item \<in> set ?items" using p unfolding pi enumerate_eq_zip by (rule set_zip_rightD)
    then have "is_fin (pr_observedAtMs item)" using payback_time_fin [OF assms] by auto
    from to_iso_returns [OF this] show ?thesis
      by (auto simp: pi period_efficiency_of_def Let_def iso_or_null_def)
  qed
  then show ?thesis unfolding paybackPeriodEfficiencies_def by (rule map_throws_returns)
qed

text \<open>Whether a record is a payback can be told unless its steps are an object with a field named find.\<close>

definition tells_payback :: "payback_markers \<Rightarrow> jsv \<Rightarrow> bool" where
  "tells_payback markers r \<longleftrightarrow> pm_strategyIds markers = [] \<and> pm_intentTypes markers = []
     \<or> \<not> nullish (dots r [''intent'', ''intentType'']) \<or> \<not> nullish (dots r [''plan'', ''intent'', ''intentType''])
     \<or> is_arr (dots r [''plan'', ''steps'']) \<or> nullish (dots r [''plan'', ''steps'', ''find''])"

lemma dots_snoc: "dots v (ks @ [k]) = dot (dots v ks) k"
  by (simp add: dots_def)

lemma step_intent_returns:
  "(\<exists>t. step_intent_type steps = Inr t) \<longleftrightarrow> is_arr steps \<or> nullish (dot steps ''find'')"
  by (cases steps) (auto simp: step_intent_type_def)

lemma isPaybackRecord_returns: "(\<exists>b. isPaybackRecord r markers = Inr b) \<longleftrightarrow> tells_payback markers r"
proof -
  let ?steps = "dots r [''plan'', ''steps'']"
  have find: "dots r [''plan'', ''steps'', ''find''] = dot ?steps ''find''"
    using dots_snoc [of r "[''plan'', ''steps'']"] by simp
  have inr: "(\<exists>b. and_then m (\<lambda>t. Inr (h t) :: bool throws) = Inr b) \<longleftrightarrow> (\<exists>t. m = Inr t)" for m :: "jsv throws" and h
    by (cases m) (simp_all add: and_then_def)
  show ?thesis
    unfolding isPaybackRecord_def tells_payback_def Let_def find step_intent_returns [of ?steps, symmetric]
    by (simp only: if_split [of "\<lambda>m. (\<exists>b. m = Inr b)"] inr if_split [of "\<lambda>m. (\<exists>t. m = Inr t)"]) (simp, blast)
qed

lemma tells_paybackE:
  assumes "list_all (tells_payback markers) rs" "r \<in> set rs"
  obtains b where "isPaybackRecord r markers = Inr b"
proof -
  from assms have "tells_payback markers r" by (auto simp: list_all_iff)
  then show thesis using that unfolding isPaybackRecord_returns [symmetric] by blast
qed

lemma profits_return:
  "(\<exists>items. profitRecords rs ms config markers = Inr items) \<longleftrightarrow> list_all (tells_payback markers) rs"
proof
  assume "\<exists>items. profitRecords rs ms config markers = Inr items"
  then obtain parts where "map_throws (profit_of_record ms config markers) rs = Inr parts"
    by (auto simp: profitRecords_def and_then_Inr)
  from map_throws_back [OF this] show "list_all (tells_payback markers) rs"
    by (auto simp: list_all_iff profit_of_record_def Let_def and_then_Inr simp flip: isPaybackRecord_returns)
next
  assume tells: "list_all (tells_payback markers) rs"
  have "\<exists>part. profit_of_record ms config markers r = Inr part" if "r \<in> set rs" for r
  proof -
    obtain b where "isPaybackRecord r markers = Inr b" using tells \<open>r \<in> set rs\<close> by (rule tells_paybackE)
    then show ?thesis by (simp add: profit_of_record_def Let_def)
  qed
  then have "\<exists>parts. map_throws (profit_of_record ms config markers) rs = Inr parts" by (rule map_throws_returns)
  then show "\<exists>items. profitRecords rs ms config markers = Inr items"
    by (auto simp: profitRecords_def)
qed

lemma paybacks_return:
  assumes "list_all (tells_payback markers) rs"
  shows "\<exists>items. paybackRecords rs btcUsd config markers = Inr items"
proof -
  have "\<exists>item. payback_record_of btcUsd config markers r = Inr item" if "r \<in> set rs" for r
  proof -
    obtain b where b: "isPaybackRecord r markers = Inr b" using assms \<open>r \<in> set rs\<close> by (rule tells_paybackE)
    have "\<exists>v. paidBackSatsFromRecord r btcUsd config markers = Inr v" "\<exists>v. offrampCostSatsFromRecord r btcUsd config markers = Inr v"
      by (simp_all add: paidBackSatsFromRecord_def offrampCostSatsFromRecord_def b split: option.splits)
    then show ?thesis by (auto simp: payback_record_of_def)
  qed
  then have "\<exists>all. map_throws (payback_record_of btcUsd config markers) rs = Inr all" by (rule map_throws_returns)
  then show ?thesis by (auto simp: paybackRecords_def)
qed

lemma snapshot_returns:
  assumes "paybackMarkers config = Inr markers"
    and "list_all readable_inventory (pn_inventory (payback_inputs_of audit receipts config))"
    and "list_all (tells_payback markers) (pn_allRecords (payback_inputs_of audit receipts config))"
  shows "\<exists>out. snapshot lc audit receipts config = Inr out"
proof -
  let ?inv = "pn_inventory (payback_inputs_of audit receipts config)"
  let ?btc = "pn_btcUsd (payback_inputs_of audit receipts config)"
  obtain profits where profits: "profits_of (payback_inputs_of audit receipts config) config markers = Inr profits"
    using assms(3) profits_return unfolding profits_of_def by blast
  obtain paybacks where paybacks: "paybacks_of (payback_inputs_of audit receipts config) config markers = Inr paybacks"
    using paybacks_return [OF assms(3)] unfolding paybacks_of_def by blast
  have ok: "s = JNull \<or> readable_inventory s" if "s = JNull \<or> s \<in> set ?inv" for s
    using that assms(2) by (auto simp: list_all_iff)
  obtain c where c: "operatingFloatByChain lc (latestInventorySnapshot ?inv) ?btc = Inr c"
    using operatingFloat_returns [OF ok [OF latest_inventory_in]] by blast
  have e: "totalFloatSats lc (latestInventorySnapshot ?inv) ?btc = Inr (jsum (List.map snd c))"
    by (simp add: totalFloatSats_def c)
  have start: "\<exists>v. totalFloatSats lc (first_truthy [earliestInventorySnapshot (List.filter P ?inv),
      earliestInventorySnapshot ?inv, JNull]) ?btc = Inr v" for P
  proof -
    have "first_truthy [earliestInventorySnapshot (List.filter P ?inv), earliestInventorySnapshot ?inv, JNull] = JNull
      \<or> first_truthy [earliestInventorySnapshot (List.filter P ?inv), earliestInventorySnapshot ?inv, JNull] \<in> set ?inv"
      using earliest_inventory_in [of "List.filter P ?inv"] earliest_inventory_in [of ?inv] by auto
    from totalFloat_returns [OF ok [OF this]] show ?thesis .
  qed
  have days: "\<exists>d. days_to_breakeven config (List.filter Q paybacks) paid = Inr d" for Q paid
    by (rule days_to_breakeven_returns [OF paybacks [unfolded paybacks_of_def]]) auto
  have eff: "\<exists>es. paybackPeriodEfficiencies paybacks chain target = Inr es" for chain target
    by (rule efficiencies_return [OF paybacks [unfolded paybacks_of_def]])
  show ?thesis
    unfolding snapshot_def Let_def assms(1) profits paybacks c e and_then_simps
    by (intro and_then_returns start days eff) simp
qed

section \<open>Properties\<close>

text \<open>
  Values none of whose objects has a field of its own named toString. The conversions of the model
  to a string or a date, which never throw, are the source's on these.
\<close>

fun plain_value :: "jsv \<Rightarrow> bool" where
  "plain_value (JArr xs) = list_all plain_value xs"
| "plain_value (JObj fs) = list_all (\<lambda>f. fst f \<noteq> ''toString'' \<and> plain_value (snd f)) fs"
| "plain_value v = True"


definition sample_payback_config :: jsv where
  "sample_payback_config = JObj
     [(''paybackStrategyIds'', JArr [JStr ''gateway-btc-offramp'']),
      (''paybackIntentTypes'', JArr [JStr ''gateway_btc_offramp'']),
      (''expansionConsecutivePeriodsRequired'', JNum (Fin 1))]"

definition sample_profit_record :: jsv where
  "sample_profit_record = JObj
     [(''observedAt'', JStr ''2026-05-01T00:00:00.000Z''), (''strategyId'', JStr ''loop''),
      (''realized'', JObj [(''realizedNetProfitSats'', JNum (Fin 1000))])]"

definition sample_delivered_record :: jsv where
  "sample_delivered_record = JObj
     [(''observedAt'', JStr ''2026-05-02T00:00:00.000Z''), (''strategyId'', JStr ''gateway-btc-offramp''),
      (''chain'', JStr ''base''), (''settlementStatus'', JStr ''delivered''), (''txHash'', JStr ''0xaa''),
      (''gatewayOrderId'', JStr ''order-1''),
      (''destinationProof'', JObj [(''txid'', JStr ''bb''), (''observedDelta'', JNum (Fin 600))]),
      (''payback'', JObj [(''grossProfitSats'', JNum (Fin 1000)), (''realizedRoundTripCostSats'', JNum (Fin 50))])]"

definition sample_log :: jsv where
  "sample_log = JArr [sample_profit_record, sample_delivered_record, JStr ''not json'', JNum NaN]"

lemma sample_markers: "paybackMarkers sample_payback_config
    = Inr \<lparr>pm_strategyIds = [JStr ''gateway-btc-offramp''], pm_intentTypes = [JStr ''gateway_btc_offramp'']\<rparr>"
  by (simp add: sample_payback_config_def paybackMarkers_def)

lemma sample_inputs:
  "payback_inputs_of sample_log (JObj []) sample_payback_config = \<lparr>pn_allRecords = [sample_profit_record, sample_delivered_record],
     pn_market = [], pn_inventory = [], pn_btcUsd = None, pn_latestMs = Fin 1777680000000\<rparr>"
  by code_simp

lemma sample_profits: "profits_of (payback_inputs_of sample_log (JObj []) sample_payback_config) sample_payback_config
    \<lparr>pm_strategyIds = [JStr ''gateway-btc-offramp''], pm_intentTypes = [JStr ''gateway_btc_offramp'']\<rparr>
   = Inr [\<lparr>pf_record = sample_profit_record, pf_sats = Fin 1000, pf_source = Some DirectSats, pf_observedAtMs = Fin 1777593600000\<rparr>]"
  by code_simp

lemma sample_paybacks: "\<exists>paybacks. paybacks_of (payback_inputs_of sample_log (JObj []) sample_payback_config) sample_payback_config
    \<lparr>pm_strategyIds = [JStr ''gateway-btc-offramp''], pm_intentTypes = [JStr ''gateway_btc_offramp'']\<rparr> = Inr paybacks
   \<and> List.map pr_settledSats paybacks = [Some (Fin 600)] \<and> length (List.filter pr_delivered paybacks) = 1"
proof -
  have "(case paybacks_of (payback_inputs_of sample_log (JObj []) sample_payback_config) sample_payback_config
      \<lparr>pm_strategyIds = [JStr ''gateway-btc-offramp''], pm_intentTypes = [JStr ''gateway_btc_offramp'']\<rparr> of
      Inl e \<Rightarrow> False | Inr paybacks \<Rightarrow> List.map pr_settledSats paybacks = [Some (Fin 600)]
        \<and> length (List.filter pr_delivered paybacks) = 1) = True"
    by code_simp
  then show ?thesis by (simp split: sum.splits)
qed

definition sample_markers_of :: payback_markers where
  "sample_markers_of = \<lparr>pm_strategyIds = [JStr ''gateway-btc-offramp''], pm_intentTypes = [JStr ''gateway_btc_offramp'']\<rparr>"

lemma sample_plain: "list_all plain_value [sample_payback_config, JObj [], sample_profit_record, sample_delivered_record]"
  by code_simp

lemma sample_tells: "list_all (tells_payback sample_markers_of) [sample_profit_record, sample_delivered_record]"
  by code_simp

lemma sample_log_returns: "\<exists>out. snapshot lc sample_log (JObj []) sample_payback_config = Inr out"
  using snapshot_returns [OF sample_markers [folded sample_markers_of_def], of sample_log "JObj []" lc] sample_tells
  by (simp add: sample_inputs)

text \<open>The sample log is summarized; with one more line, it is not.\<close>

definition sample_bad_record :: jsv where
  "sample_bad_record = JObj [(''plan'', JObj [(''steps'', JObj [(''find'', JNum (Fin 1))])])]"

lemma sample_bad_inputs:
  "pn_allRecords (payback_inputs_of (JArr [sample_profit_record, sample_bad_record]) (JObj []) sample_payback_config)
     = [sample_profit_record, sample_bad_record]"
  "pn_inventory (payback_inputs_of (JArr [sample_profit_record, sample_bad_record]) (JObj []) sample_payback_config) = []"
  by code_simp+


text \<open>C24: Profit is never counted from a payback or from operating capital that came in: every
  counted record is neither and carries a positive amount, and the gross profit of the configured
  period lies between zero and that of the whole log.\<close>

theorem payback_profit_scope:
  assumes "snapshot lc audit receipts config = Inr out" "paybackMarkers config = Inr markers"
    and "profits_of (payback_inputs_of audit receipts config) config markers = Inr profits"
  shows "(\<forall>item\<in>set profits. pf_record item \<in> set (pn_allRecords (payback_inputs_of audit receipts config))
      \<and> isPaybackRecord (pf_record item) markers = Inr False \<and> \<not> isOperatingCapitalIngressRecord (pf_record item)
      \<and> jlt (Fin 0) (pf_sats item))
    \<and> jle (Fin 0) (ps_grossProfitSats_period out) \<and> jle (ps_grossProfitSats_period out) (sum_profit profits)"
proof (intro conjI ballI)
  have m: "markers = m" if "paybackMarkers config = Inr m" for m using that assms(2) by simp
  obtain P where gross: "ps_grossProfitSats_period out = sum_profit (List.filter P profits)"
    using assms(1,3) m by (auto elim!: snapshot_parts)
  have pos: "is_fin (pf_sats item)" "jlt (Fin 0) (pf_sats item)" if "item \<in> set profits" for item
    using profitRecords_sound(4,5) [OF assms(3) [unfolded profits_of_def] that] by blast+
  show "jle (Fin 0) (ps_grossProfitSats_period out)"
    unfolding gross by (rule sum_profit_nonneg) (auto intro: pos)
  show "jle (ps_grossProfitSats_period out) (sum_profit profits)"
    unfolding gross sum_profit_def by (rule jsum_filter_le) (auto simp: list_all_iff intro: pos jlt_jle)
  fix item
  assume i: "item \<in> set profits"
  show "pf_record item \<in> set (pn_allRecords (payback_inputs_of audit receipts config))"
    "isPaybackRecord (pf_record item) markers = Inr False" "\<not> isOperatingCapitalIngressRecord (pf_record item)"
    "jlt (Fin 0) (pf_sats item)"
    using profitRecords_sound [OF assms(3) [unfolded profits_of_def] i] by blast+
qed

theorem payback_profit_scope_witness:
  "\<exists>out. snapshot (\<lambda>a b. Fin 0) sample_log (JObj []) sample_payback_config = Inr out
     \<and> jle (ps_grossProfitSats_period out) (Fin 1000)"
proof -
  obtain out where out: "snapshot (\<lambda>a b. Fin 0) sample_log (JObj []) sample_payback_config = Inr out"
    using sample_log_returns by blast
  from payback_profit_scope [OF out sample_markers sample_profits] show ?thesis
    using out by (auto simp: sum_profit_def jsum_def)
qed

text \<open>When the pending amount is computed from the records, its direct and its projected
  share are not negative and never add up to more than the pending amount itself.\<close>

theorem payback_pending_split:
  assumes "snapshot lc audit receipts config = Inr out"
    and "pendingSnapshotValue (pn_allRecords (payback_inputs_of audit receipts config)) config = None"
    and "p = fst (ps_pendingProvenance out)" "jle (pv_totalSats p) (jint (2 ^ 53))"
  shows "\<exists>d j. pv_directSats p = Some d \<and> pv_projectedSats p = Some j
    \<and> jle (Fin 0) d \<and> jle (Fin 0) j \<and> jle (jadd d j) (pv_totalSats p)"
proof -
  obtain markers profits where profits: "profits_of (payback_inputs_of audit receipts config) config markers = Inr profits"
    and life: "ps_lifetimeProvenance out = sumProfitProvenance profits"
    and split: "ps_pendingProvenance out
      = pendingProvenanceFromLifetime (ps_lifetimeProvenance out) (ps_pendingDeferredSats out) None"
    using assms(1,2) by (auto elim!: snapshot_parts)
  have "pendingProvenanceFromLifetime (sumProfitProvenance profits) (ps_pendingDeferredSats out) None
      = (p, snd (ps_pendingProvenance out))"
    using split life assms(3) by simp
  from pending_split_bounds [OF _ this assms(4)] show ?thesis
    using profitRecords_sound(5) [OF profits [unfolded profits_of_def]] by blast
qed

theorem payback_pending_split_witness:
  "\<exists>out d j. snapshot (\<lambda>a b. Fin 0) sample_log (JObj []) sample_payback_config = Inr out
     \<and> pv_directSats (fst (ps_pendingProvenance out)) = Some d
     \<and> pv_projectedSats (fst (ps_pendingProvenance out)) = Some j \<and> jle (jadd d j) (Fin 400)"
proof -
  obtain out where out: "snapshot (\<lambda>a b. Fin 0) sample_log (JObj []) sample_payback_config = Inr out"
    using sample_log_returns by blast
  have none: "pendingSnapshotValue (pn_allRecords (payback_inputs_of sample_log (JObj []) sample_payback_config))
      sample_payback_config = None"
    by code_simp
  from out obtain markers profits paybacks where m: "paybackMarkers sample_payback_config = Inr markers"
    and pf: "profits_of (payback_inputs_of sample_log (JObj []) sample_payback_config) sample_payback_config markers = Inr profits"
    and pb: "paybacks_of (payback_inputs_of sample_log (JObj []) sample_payback_config) sample_payback_config markers = Inr paybacks"
    and l: "ps_lifetimeProvenance out = sumProfitProvenance profits"
    and p: "ps_pendingDeferredSats out = pending_of
       (pendingSnapshotValue (pn_allRecords (payback_inputs_of sample_log (JObj []) sample_payback_config)) sample_payback_config)
       (sum_profit profits) (sum_settled paybacks)"
    and v: "ps_pendingProvenance out = pendingProvenanceFromLifetime (ps_lifetimeProvenance out) (ps_pendingDeferredSats out)
       (pendingSnapshotValue (pn_allRecords (payback_inputs_of sample_log (JObj []) sample_payback_config)) sample_payback_config)"
    by (rule snapshot_parts)
  have mm: "markers = \<lparr>pm_strategyIds = [JStr ''gateway-btc-offramp''], pm_intentTypes = [JStr ''gateway_btc_offramp'']\<rparr>"
    using m sample_markers by simp
  have profits: "profits = [\<lparr>pf_record = sample_profit_record, pf_sats = Fin 1000, pf_source = Some DirectSats,
      pf_observedAtMs = Fin 1777593600000\<rparr>]" and paybacks: "List.map pr_settledSats paybacks = [Some (Fin 600)]"
    using pf pb sample_profits sample_paybacks unfolding mm by auto
  have "ps_pendingDeferredSats out = Fin 400"
    using paybacks unfolding p none profits
    by (auto simp: pending_of_def sum_profit_def sum_settled_def jsum_def number_or_zero_def jsub_def jmax_def)
  moreover have "roundSats (Fin 400) = Fin 400" by code_simp
  ultimately have t: "pv_totalSats (fst (ps_pendingProvenance out)) = Fin 400"
    unfolding v none l profits
    by (simp add: pendingProvenanceFromLifetime_def sumProfitProvenance_def sum_profit_def jsum_def jmax_def Let_def)
  then have "jle (pv_totalSats (fst (ps_pendingProvenance out))) (jint (2 ^ 53))" by (simp add: jint_def)
  from payback_pending_split [OF out none refl this] show ?thesis using out t by fastforce
qed

text \<open>The expansion gate opens exactly when the newest delivered periods on the reserve
  chain, as many as are required, all met the target efficiency.\<close>

theorem expansion_gate_iff:
  assumes "snapshot lc audit receipts config = Inr out"
    and "expansionConsecutiveRequired config = Fin (of_nat n)"
    and "periods = List.filter ef_matchesExpansionChain (ps_paybackPeriodEfficiencies out)"
    and "length (pn_allRecords (payback_inputs_of audit receipts config)) \<le> 2 ^ 53"
  shows "eg_eligible (ps_expansionGate out)
    \<longleftrightarrow> n \<le> length periods \<and> list_all ef_meetsTarget (drop (length periods - n) periods)"
proof -
  have "ps_expansionGate out = expansionGate (ps_paybackPeriodEfficiencies out) (expansionReserveChain config)
      (expansionTargetEfficiency config) (expansionConsecutiveRequired config)"
    using assms(1) by (auto elim: snapshot_parts)
  moreover have "length (ps_paybackPeriodEfficiencies out) \<le> 2 ^ 53"
  proof -
    obtain markers paybacks where "paybacks_of (payback_inputs_of audit receipts config) config markers = Inr paybacks"
      "paybackPeriodEfficiencies paybacks (lowercase (to_str (orelse (expansionReserveChain config) (JStr []))))
         (expansionTargetEfficiency config) = Inr (ps_paybackPeriodEfficiencies out)"
      using assms(1) by (rule snapshot_parts)
    from efficiencies_le [OF this(1) [unfolded paybacks_of_def] this(2)] assms(4) show ?thesis by simp
  qed
  ultimately show ?thesis
    using expansion_gate_eligible [OF assms(2)] by (simp add: assms(3))
qed

theorem expansion_gate_iff_witness:
  "\<exists>out. snapshot (\<lambda>a b. Fin 0) sample_log (JObj []) sample_payback_config = Inr out
     \<and> (let periods = List.filter ef_matchesExpansionChain (ps_paybackPeriodEfficiencies out)
        in eg_eligible (ps_expansionGate out)
           \<longleftrightarrow> 1 \<le> length periods \<and> list_all ef_meetsTarget (drop (length periods - 1) periods))"
proof -
  obtain out where out: "snapshot (\<lambda>a b. Fin 0) sample_log (JObj []) sample_payback_config = Inr out"
    using sample_log_returns by blast
  have n: "expansionConsecutiveRequired sample_payback_config = Fin (of_nat 1)" by code_simp
  from expansion_gate_iff [OF out n refl] show ?thesis
    using out unfolding Let_def by (auto simp: sample_inputs)
qed

text \<open>Every period of the report comes from a record with all three receipts (source
  transaction, gateway order, Bitcoin transaction) that is marked delivered; one that meets the
  target has a positive gross profit, a known cost and at least the target efficiency.\<close>

theorem delivered_periods_sound:
  assumes "snapshot lc audit receipts config = Inr out" "e \<in> set (ps_paybackPeriodEfficiencies out)"
  shows "truthy (tw_sourceTxHash (ef_receipt e)) \<and> truthy (tw_gatewayOrderId (ef_receipt e))
    \<and> truthy (tw_bitcoinTxid (ef_receipt e))
    \<and> (\<exists>r\<in>set (pn_allRecords (payback_inputs_of audit receipts config)). hasDeliveredPaybackReceipt r)
    \<and> (ef_meetsTarget e \<longrightarrow> (\<exists>g c. ef_grossProfitSats e = Some g \<and> jlt (Fin 0) g
         \<and> ef_realizedRoundTripCostSats e = Some c
         \<and> jle (expansionTargetEfficiency config) (jdiv (jsub g c) g)))"
proof -
  obtain markers paybacks where "paybacks_of (payback_inputs_of audit receipts config) config markers = Inr paybacks"
    "paybackPeriodEfficiencies paybacks (lowercase (to_str (orelse (expansionReserveChain config) (JStr []))))
       (expansionTargetEfficiency config) = Inr (ps_paybackPeriodEfficiencies out)"
    using assms(1) by (rule snapshot_parts)
  from period_of_delivered [OF this(1) [unfolded paybacks_of_def] this(2) assms(2)]
  obtain r item i where r: "r \<in> set (pn_allRecords (payback_inputs_of audit receipts config))" "hasDeliveredPaybackReceipt r"
    and item: "payback_record_of (pn_btcUsd (payback_inputs_of audit receipts config)) config markers r = Inr item"
    and e: "period_efficiency_of (lowercase (to_str (orelse (expansionReserveChain config) (JStr []))))
      (expansionTargetEfficiency config) i item = Inr e"
    by blast
  have "ef_receipt e = paybackThreeWayReceipt r"
    using period_efficiency_meets(1) [OF e] payback_record_of_Inr [OF item] by simp
  with delivered_receipt [OF r(2)] r period_efficiency_meets(2) [OF e] show ?thesis by auto
qed

theorem delivered_periods_sound_witness:
  "\<exists>out e. snapshot (\<lambda>a b. Fin 0) sample_log (JObj []) sample_payback_config = Inr out
     \<and> e \<in> set (ps_paybackPeriodEfficiencies out) \<and> truthy (tw_bitcoinTxid (ef_receipt e))"
proof -
  obtain out where out: "snapshot (\<lambda>a b. Fin 0) sample_log (JObj []) sample_payback_config = Inr out"
    using sample_log_returns by blast
  then obtain markers paybacks where m: "paybackMarkers sample_payback_config = Inr markers"
    and pb: "paybacks_of (payback_inputs_of sample_log (JObj []) sample_payback_config) sample_payback_config markers = Inr paybacks"
    and es: "paybackPeriodEfficiencies paybacks
       (lowercase (to_str (orelse (expansionReserveChain sample_payback_config) (JStr []))))
       (expansionTargetEfficiency sample_payback_config) = Inr (ps_paybackPeriodEfficiencies out)"
    by (rule snapshot_parts)
  have "markers = \<lparr>pm_strategyIds = [JStr ''gateway-btc-offramp''], pm_intentTypes = [JStr ''gateway_btc_offramp'']\<rparr>"
    using m sample_markers by simp
  then have "length (List.filter pr_delivered paybacks) = 1"
    using pb sample_paybacks by auto
  then have "ps_paybackPeriodEfficiencies out \<noteq> []" using efficiencies_length [OF es] by auto
  then obtain e where e: "e \<in> set (ps_paybackPeriodEfficiencies out)" by (meson hd_in_set)
  from delivered_periods_sound [OF out e] show ?thesis using out e by blast
qed

end
