(* ===== verification/JsCalendar.thy ===== *)
theory JsCalendar
  imports JsDate
begin

text \<open>
  The calendar of theory JsDate is right: the day number can be recovered from the year, the
  month and the day computed for it, so that different days have different dates.

  Years are counted from March within eras of 400 years. The year of a day is a division of a
  monotone function of the day, so it is enough to check the function at the first and last day
  of each of the 400 years, which is done by evaluation.
\<close>

definition year_start :: "int \<Rightarrow> int" where
  "year_start y = 365 * y + y div 4 - y div 100"

definition leapless :: "int \<Rightarrow> int" where
  "leapless d = d - d div 1460 + d div 36524 - d div 146096"

lemma div_succ:
  fixes d n :: int
  assumes "0 < n"
  shows "(d + 1) div n = (if (d + 1) mod n = 0 then d div n + 1 else d div n)"
proof -
  have r: "0 \<le> d mod n" "d mod n < n" "d = n * (d div n) + d mod n" using assms by simp_all
  show ?thesis
  proof (cases "d mod n + 1 = n")
    case True
    have "d + 1 = n * (d div n) + (d mod n + 1)" using r(3) by linarith
    then have e: "d + 1 = n * (d div n + 1) + 0" unfolding True by (simp add: algebra_simps)
    then have "(d + 1) div n = d div n + 1" using assms by (intro int_div_pos_eq) auto
    moreover have "(d + 1) mod n = 0" by (subst e) simp
    ultimately show ?thesis by simp
  next
    case False
    with r have e: "d + 1 = n * (d div n) + (d mod n + 1)" "d mod n + 1 < n" by linarith+
    then have "(d + 1) div n = d div n" "(d + 1) mod n = d mod n + 1"
      using r(1) int_div_pos_eq [OF e(1)] int_mod_pos_eq [OF e(1)] by simp_all
    with r(1) show ?thesis by simp
  qed
qed

lemma leapless_step: "leapless d \<le> leapless (d + 1)"
proof -
  have "(36524 :: int) dvd d + 1" if "(146096 :: int) dvd d + 1"
    using that by (rule dvd_trans [rotated]) simp
  then have "(d + 1) mod 36524 = 0" if "(d + 1) mod 146096 = 0"
    using that by (simp add: mod_eq_0_iff_dvd)
  then show ?thesis
    using div_succ [of 1460 d] div_succ [of 36524 d] div_succ [of 146096 d]
    by (auto simp: leapless_def split: if_splits)
qed

lemma leapless_mono:
  assumes "0 \<le> a" "a \<le> b"
  shows "leapless a \<le> leapless b"
  using assms(2) assms(1)
proof (induction b rule: int_ge_induct)
  case (step b)
  then show ?case using leapless_step [of b] by linarith
qed simp

lemma year_ends:
  "list_all (\<lambda>y. y \<le> leapless (year_start y) div 365 \<and> leapless (year_start (y + 1) - 1) div 365 \<le> y
     \<and> year_start (y + 1) - year_start y \<le> 366 \<and> year_start y < year_start (y + 1)) [0..399]"
  by code_simp

lemma leapless_range: "0 \<le> d \<Longrightarrow> d < 146097 \<Longrightarrow> 0 \<le> leapless d \<and> leapless d < 146000"
proof -
  assume d: "0 \<le> d" "d < 146097"
  have "leapless 0 = 0" "leapless 146096 = 145999" by (simp_all add: leapless_def)
  with leapless_mono [of 0 d] leapless_mono [of d 146096] d show ?thesis by simp
qed

lemma day_of_year:
  assumes "0 \<le> d" "d < 146097" "y = leapless d div 365"
  shows "0 \<le> y" "y \<le> 399" "0 \<le> d - year_start y" "d - year_start y \<le> 365"
proof -
  from leapless_range [OF assms(1,2)] assms(3) show y: "0 \<le> y" "y \<le> 399" by auto
  have ends: "z \<le> leapless (year_start z) div 365" "leapless (year_start (z + 1) - 1) div 365 \<le> z"
    "year_start (z + 1) - year_start z \<le> 366" "year_start z < year_start (z + 1)" if "0 \<le> z" "z \<le> 399" for z
    using year_ends that by (auto simp: list_all_iff)
  show "0 \<le> d - year_start y"
  proof (rule ccontr)
    assume "\<not> 0 \<le> d - year_start y"
    then have l: "leapless d \<le> leapless (year_start y - 1)" using assms(1) by (intro leapless_mono) auto
    have "y \<noteq> 0" using \<open>\<not> _\<close> assms(1) by (auto simp: year_start_def)
    then have "leapless (year_start y - 1) div 365 \<le> y - 1" using ends(2) [of "y - 1"] y by simp
    with zdiv_mono1 [OF l, of 365] assms(3) show False by simp
  qed
  show "d - year_start y \<le> 365"
  proof (rule ccontr)
    assume c: "\<not> d - year_start y \<le> 365"
    show False
    proof (cases "y = 399")
      case True
      then show False using c assms(2) by (simp add: year_start_def)
    next
      case False
      have "year_start (y + 1) \<le> d" using c ends(3) [of y] y by simp
      moreover have "0 \<le> year_start (y + 1)" using y by (simp add: year_start_def)
      ultimately have l: "leapless (year_start (y + 1)) \<le> leapless d" by (intro leapless_mono)
      have "y + 1 \<le> leapless (year_start (y + 1)) div 365" using ends(1) [of "y + 1"] y False by simp
      with zdiv_mono1 [OF l, of 365] assms(3) show False by simp
    qed
  qed
qed

theorem days_from_civil_from_days:
  assumes "civil_from_days z = (y, m, d)"
  shows "days_from_civil y m d = z"
proof -
  define e where "e = (z + 719468) div 146097"
  define r where "r = (z + 719468) mod 146097"
  define q where "q = leapless r div 365"
  define t where "t = r - year_start q"
  define p where "p = (5 * t + 2) div 153"
  have r: "0 \<le> r" "r < 146097" by (simp_all add: r_def)
  note b = day_of_year [OF r q_def, folded t_def]
  have p: "0 \<le> p" "p \<le> 11" using b unfolding p_def by auto
  have "civil_from_days z = (let m = (if p < 10 then p + 3 else p - 9)
      in (q + e * 400 + (if m \<le> 2 then 1 else 0), m, t - (153 * p + 2) div 5 + 1))"
    unfolding civil_from_days_def Let_def p_def t_def q_def leapless_def year_start_def r_def e_def ..
  with assms have civil: "m = (if p < 10 then p + 3 else p - 9)" "d = t - (153 * p + 2) div 5 + 1"
    "y = q + e * 400 + (if m \<le> 2 then 1 else 0)"
    by (auto simp: Let_def)
  have m: "(m + 9) mod 12 = p" using p by (auto simp: civil(1))
  have y: "(if m \<le> 2 then y - 1 else y) = q + e * 400" by (auto simp: civil(3))
  have "(q + e * 400) div 400 = e" "(q + e * 400) mod 400 = q" using b by auto
  then have "days_from_civil y m d = e * 146097 + (q * 365 + q div 4 - q div 100 + t) - 719468"
    unfolding days_from_civil_def Let_def y m by (simp add: civil(2))
  also have "\<dots> = e * 146097 + r - 719468" by (simp add: t_def year_start_def)
  also have "\<dots> = z" using div_mult_mod_eq [of "z + 719468" 146097] by (simp add: e_def r_def)
  finally show ?thesis .
qed

lemma civil_from_days_inject: "civil_from_days a = civil_from_days b \<Longrightarrow> a = b"
  by (metis days_from_civil_from_days prod_cases3)

end
