(* ===== verification/PaybackConfig.thy ===== *)
theory PaybackConfig
  imports PaybackReport
begin

text \<open>
  The payback policy: src/src/config/payback.mjs (the committed configuration and the minimum
  that grows with the operating capital) and the part of
  src/src/executor/payback/scheduler.mjs that reads it: loadPaybackPolicyConfig and the
  multipliers, the recipient, the reserve, the swap venue and the emergency pause.

  A number that may be null is an option of a number. A configuration is a record: its plain
  fields and, when the code supplies one, its function effectiveMinPaybackSats.
\<close>

section \<open>config/payback.mjs\<close>

definition MIN_PAYBACK_PCT_OF_CAPITAL :: jsnum where
  "MIN_PAYBACK_PCT_OF_CAPITAL = lit 5 1000"

definition ABSOLUTE_FLOOR_SATS :: jsnum where
  "ABSOLUTE_FLOOR_SATS = jint 5000"

definition ABSOLUTE_CEILING_SATS :: jsnum where
  "ABSOLUTE_CEILING_SATS = jint 50000"

definition configFiniteNonNegative :: "jsv \<Rightarrow> jsnum option" where
  "configFiniteNonNegative value =
     (if nullish value \<or> value = JStr [] then None
      else let numeric = to_num value
           in if is_fin numeric \<and> jle (Fin 0) numeric then Some numeric else None)"

definition pay_clamp :: "jsnum \<Rightarrow> jsnum \<Rightarrow> jsnum \<Rightarrow> jsnum" where
  "pay_clamp value lo hi = jmax lo (jmin hi value)"

definition effectiveMinPaybackSats :: "jsv \<Rightarrow> jsnum" where
  "effectiveMinPaybackSats operatingCapitalSats =
     (case configFiniteNonNegative operatingCapitalSats of
        None \<Rightarrow> ABSOLUTE_CEILING_SATS
      | Some capitalSats \<Rightarrow>
          let pctFloor = jfloor (jmul capitalSats MIN_PAYBACK_PCT_OF_CAPITAL)
          in pay_clamp pctFloor ABSOLUTE_FLOOR_SATS ABSOLUTE_CEILING_SATS)"

record payback_config =
  pc_fields :: jsv
  pc_effectiveMin :: "(jsnum option \<Rightarrow> jsv) option"

definition PAYBACK_CONFIG :: payback_config where
  "PAYBACK_CONFIG =
     \<lparr>pc_fields = JObj
        [(''baseRatio'', JNum (lit 20 100)),
         (''minPaybackSats'', JNum ABSOLUTE_CEILING_SATS),
         (''minPaybackPctOfCapital'', JNum MIN_PAYBACK_PCT_OF_CAPITAL),
         (''absoluteFloorSats'', JNum ABSOLUTE_FLOOR_SATS),
         (''absoluteCeilingSats'', JNum ABSOLUTE_CEILING_SATS),
         (''maxOfframpCostPctOfPayback'', JNum (lit 10 100)),
         (''perPeriodMaxSats'', JNum (jint 500000)),
         (''annualMaxPaybackSats'', JNum (jint 26000000)),
         (''regimeMultipliers'', JObj
            [(''bear'', JNum (lit 12 10)), (''neutral'', JNum (jint 1)), (''bullPeak'', JNum (lit 7 10))]),
         (''volMultiplier'', JObj [(''cap'', JNum (jint 1)), (''thresholdAnnualized'', JNum (lit 5 10))]),
         (''emergencyPause'', JObj
            [(''offrampSlippageBpsMax'', JNum (jint 200)), (''operatingDrawdownPctMax'', JNum (jint 30)),
             (''protocolExploitList'', JArr [])]),
         (''cronExpression'', JStr ''0 0 * * 1''),
         (''destinationPath'', JObj
            [(''profitReserveChain'', JStr ''base''),
             (''swapVenueOrdered'', JArr [JStr ''cowswap'', JStr ''uniswap_v3'']),
             (''composerRoute'', JStr ''layerzero''),
             (''gatewayOfframpStage'', JStr ''BOB_L2''),
             (''bitcoinDestAddressEnv'', JStr ''PAYBACK_BTC_DEST_ADDR'')])],
      pc_effectiveMin = Some (\<lambda>capital. JNum (effectiveMinPaybackSats (num_or_null capital)))\<rparr>"

section \<open>loadPaybackPolicyConfig\<close>

record payback_policy =
  pl_baseRatio :: "jsnum option"
  pl_minPaybackSats :: jsnum
  pl_staticMinPaybackSats :: jsnum
  pl_minPaybackPctOfCapital :: jsnum
  pl_absoluteFloorSats :: jsnum
  pl_absoluteCeilingSats :: jsnum
  pl_operatingCapitalSats :: "jsnum option"
  pl_maxOfframpCostPctOfPayback :: "jsnum option"
  pl_perPeriodMaxSats :: "jsnum option"
  pl_annualMaxPaybackSats :: "jsnum option"
  pl_bear :: jsnum
  pl_neutral :: jsnum
  pl_bullPeak :: jsnum
  pl_volCap :: jsnum
  pl_volThreshold :: jsnum
  pl_offrampSlippageBpsMax :: "jsnum option"
  pl_operatingDrawdownPctMax :: "jsnum option"
  pl_protocolExploitList :: "jsv list"
  pl_cronExpression :: string
  pl_profitReserveChain :: jsv
  pl_swapVenueOrdered :: "jsv list"
  pl_composerRoute :: jsv
  pl_gatewayOfframpStage :: jsv
  pl_bitcoinDestAddressEnv :: jsv

definition loadPaybackPolicyConfig :: "payback_config \<Rightarrow> jsnum option \<Rightarrow> payback_policy" where
  "loadPaybackPolicyConfig paybackConfig operatingCapitalSats =
     (let c = pc_fields paybackConfig;
          nonNegative = (\<lambda>k. finiteNonNegative (dot c k));
          staticMinPaybackSats = opt_default (nonNegative ''minPaybackSats'') ABSOLUTE_CEILING_SATS;
          effectiveMin = (case pc_effectiveMin paybackConfig of
              Some f \<Rightarrow> f operatingCapitalSats | None \<Rightarrow> JNum staticMinPaybackSats);
          multiplier = (\<lambda>k d. opt_default (payFiniteNumber (dots c [''regimeMultipliers'', k])) d);
          vol = (\<lambda>k d. opt_default (payFiniteNumber (dots c [''volMultiplier'', k])) d);
          path = (\<lambda>k d. orelse (dots c [''destinationPath'', k]) d)
      in \<lparr>pl_baseRatio = payFiniteNumber (dot c ''baseRatio''),
          pl_minPaybackSats = opt_default (finiteNonNegative effectiveMin) staticMinPaybackSats,
          pl_staticMinPaybackSats = staticMinPaybackSats,
          pl_minPaybackPctOfCapital =
            opt_default (payFiniteNumber (dot c ''minPaybackPctOfCapital'')) MIN_PAYBACK_PCT_OF_CAPITAL,
          pl_absoluteFloorSats = opt_default (nonNegative ''absoluteFloorSats'') ABSOLUTE_FLOOR_SATS,
          pl_absoluteCeilingSats = opt_default (nonNegative ''absoluteCeilingSats'') ABSOLUTE_CEILING_SATS,
          pl_operatingCapitalSats = finiteNonNegative (num_or_null operatingCapitalSats),
          pl_maxOfframpCostPctOfPayback = payFiniteNumber (dot c ''maxOfframpCostPctOfPayback''),
          pl_perPeriodMaxSats = nonNegative ''perPeriodMaxSats'',
          pl_annualMaxPaybackSats = nonNegative ''annualMaxPaybackSats'',
          pl_bear = multiplier ''bear'' (lit 12 10),
          pl_neutral = multiplier ''neutral'' (jint 1),
          pl_bullPeak = multiplier ''bullPeak'' (lit 7 10),
          pl_volCap = vol ''cap'' (jint 1),
          pl_volThreshold = vol ''thresholdAnnualized'' (lit 5 10),
          pl_offrampSlippageBpsMax = finiteNonNegative (dots c [''emergencyPause'', ''offrampSlippageBpsMax'']),
          pl_operatingDrawdownPctMax = finiteNonNegative (dots c [''emergencyPause'', ''operatingDrawdownPctMax'']),
          pl_protocolExploitList = elems (dots c [''emergencyPause'', ''protocolExploitList'']),
          pl_cronExpression = to_str (dot c ''cronExpression''),
          pl_profitReserveChain = path ''profitReserveChain'' (JStr ''base''),
          pl_swapVenueOrdered = elems (dots c [''destinationPath'', ''swapVenueOrdered'']),
          pl_composerRoute = path ''composerRoute'' (JStr ''layerzero''),
          pl_gatewayOfframpStage = path ''gatewayOfframpStage'' (JStr ''BOB_L2''),
          pl_bitcoinDestAddressEnv = path ''bitcoinDestAddressEnv'' JNull\<rparr>)"

section \<open>Capital, regime and volatility\<close>

definition resolveOperatingCapitalSats :: "fields \<Rightarrow> fields \<Rightarrow> (string \<times> jsnum) list \<Rightarrow> jsnum option" where
  "resolveOperatingCapitalSats marketState riskState byChain =
     (let explicitSats = opt_coal (finiteNonNegative (fld marketState ''operatingCapitalSats''))
            (finiteNonNegative (fld riskState ''operatingCapitalSats''));
          explicitBtc = opt_coal (finiteNonNegative (fld marketState ''operatingCapitalBtc''))
            (finiteNonNegative (fld riskState ''operatingCapitalBtc''));
          total = jsum (List.map_filter (\<lambda>(chain, sats). finiteNonNegative (JNum sats)) byChain)
      in case explicitSats of
           Some sats \<Rightarrow> Some (jfloor sats)
         | None \<Rightarrow> (case explicitBtc of
             Some btc \<Rightarrow> Some (jfloor (jmul btc BTC_SATS))
           | None \<Rightarrow> if jlt (Fin 0) total then Some (jfloor total) else None))"

datatype regime = Bear | Neutral | BullPeak

definition normalizeRegime :: "jsv \<Rightarrow> regime throws" where
  "normalizeRegime regime =
     (if \<not> truthy regime then Inr Neutral
      else let normalized = trim (to_str regime)
           in if normalized = ''bear'' then Inr Bear
              else if normalized = ''neutral'' then Inr Neutral
              else if normalized = ''bullPeak'' then Inr BullPeak
              else Inl (ErrorMsg (''Unsupported payback regime: '' @ to_str regime)))"

fun regime_name :: "regime \<Rightarrow> string" where
  "regime_name Bear = ''bear''"
| "regime_name Neutral = ''neutral''"
| "regime_name BullPeak = ''bullPeak''"

definition resolveRegimeMultiplier :: "payback_policy \<Rightarrow> jsv \<Rightarrow> (regime \<times> jsnum) throws" where
  "resolveRegimeMultiplier policy regime =
     and_then (normalizeRegime regime) (\<lambda>normalizedRegime. Inr (normalizedRegime,
       (case normalizedRegime of
          Bear \<Rightarrow> pl_bear policy | Neutral \<Rightarrow> pl_neutral policy | BullPeak \<Rightarrow> pl_bullPeak policy)))"

text \<open>The annualized volatility it was given, and the multiplier.\<close>

definition resolveVolMultiplier :: "payback_policy \<Rightarrow> jsnum option \<Rightarrow> jsnum option \<times> jsnum" where
  "resolveVolMultiplier policy realizedVolAnnualized =
     (let threshold = pl_volThreshold policy; cap = pl_volCap policy
      in case realizedVolAnnualized of
           None \<Rightarrow> (None, cap)
         | Some v \<Rightarrow> if \<not> is_fin v \<or> jle v (Fin 0) then (Some v, cap)
                     else (Some v, jmin cap (jdiv threshold v)))"

section \<open>Recipient\<close>

record payback_recipient =
  re_ok :: bool
  re_reason :: jsv
  re_recipient :: jsv
  re_envName :: jsv

definition resolvePaybackRecipient :: "payback_policy \<Rightarrow> (jsv \<Rightarrow> jsv) \<Rightarrow> jsv \<Rightarrow> payback_recipient" where
  "resolvePaybackRecipient policy getEnvImpl recipientOverride =
     (let envName = pl_bitcoinDestAddressEnv policy
      in if \<not> truthy envName
         then \<lparr>re_ok = False, re_reason = JStr ''payback_btc_destination_env_missing'', re_recipient = JNull, re_envName = JNull\<rparr>
         else if is_string recipientOverride \<and> trim (to_str recipientOverride) \<noteq> []
         then \<lparr>re_ok = True, re_reason = JNull, re_recipient = JStr (trim (to_str recipientOverride)), re_envName = envName\<rparr>
         else let recipient = getEnvImpl envName
              in if \<not> truthy recipient
                 then \<lparr>re_ok = False, re_reason = JStr ''payback_btc_destination_missing'', re_recipient = JNull, re_envName = envName\<rparr>
                 else \<lparr>re_ok = True, re_reason = JNull, re_recipient = recipient, re_envName = envName\<rparr>)"

section \<open>Reserve\<close>

definition WBTC_OFT_TOKEN :: string where
  "WBTC_OFT_TOKEN = ''0x0555E30da8f98308EdB960aa94C0Db47230d2B9c''"

definition positiveIntegerString :: "jsv \<Rightarrow> string \<Rightarrow> string throws" where
  "positiveIntegerString value label =
     (let bad = Inl (ErrorMsg (label @ '' must be a positive integer''))
      in case value of
           JStr s \<Rightarrow>
             (let normalized = trim s
              in if normalized = [] \<or> \<not> list_all is_digit normalized \<or> normalized = ''0'' then bad
                 else Inr normalized)
         | JNum (Fin x) \<Rightarrow> if of_int \<lfloor>x\<rfloor> = x \<and> 0 < x then Inr (num_str (Fin x)) else bad
         | _ \<Rightarrow> bad)"

definition payLatestRecord :: "jsv list \<Rightarrow> jsv" where
  "payLatestRecord items = fst (foldl (\<lambda>(winner, winnerMs) item.
       case normalizeTimestamp (first_truthy [dot item ''observedAt'', dot item ''timestamp'',
           dot item ''settledAt'', dot item ''generatedAt'']) of
         Some observedAtMs \<Rightarrow> if jle winnerMs observedAtMs then (item, observedAtMs) else (winner, winnerMs)
       | None \<Rightarrow> (winner, winnerMs)) (JNull, Fin (- 1)) items)"

text \<open>\<open>(tokens || []).filter\<close>: a value that is not an array has no \<open>filter\<close>.\<close>

definition array_or_type_error :: "jsv \<Rightarrow> jsv list throws" where
  "array_or_type_error v =
     (if \<not> truthy v then Inr [] else if is_arr v then Inr (elems v) else Inl TypeError)"

definition inferReserveStateFromReceiptStore :: "jsv \<Rightarrow> payback_policy \<Rightarrow> jsv throws" where
  "inferReserveStateFromReceiptStore receiptStore policy =
     (let inventorySnapshots = normalizeRecordList (JArr (array_or_empty (dot receiptStore ''treasuryInventory'')
            @ array_or_empty (dot receiptStore ''inventorySnapshots'')));
          latestInventory = payLatestRecord inventorySnapshots
      in if \<not> truthy latestInventory then Inr JNull
         else and_then (array_or_type_error (dot latestInventory ''tokens'')) (\<lambda>tokens.
           let candidates = List.filter (\<lambda>item.
                 strict_eq (dot item ''chain'') (pl_profitReserveChain policy)
                 \<and> lowercase (to_str (orelse (dot item ''token'') (JStr []))) = lowercase WBTC_OFT_TOKEN
                 \<and> (case finiteNonNegative (dot item ''actual'') of Some n \<Rightarrow> jlt (Fin 0) n | None \<Rightarrow> False)) tokens
           in Inr (case candidates of
                [c] \<Rightarrow> JObj [(''chain'', dot c ''chain''), (''inputToken'', dot c ''token''),
                   (''amount'', dot c ''actual''), (''routeSideToken'', dot c ''token''),
                   (''source'', JStr ''latest_treasury_inventory_unique_wbtc_oft'')]
              | _ \<Rightarrow> JNull)))"

text \<open>The normalized reserve, or \<open>None\<close> for \<open>reserve_asset_missing\<close>.\<close>

definition normalizeReserveState :: "jsv \<Rightarrow> payback_policy \<Rightarrow> jsv \<Rightarrow> jsv option throws" where
  "normalizeReserveState reserveState policy receiptStore =
     and_then (if truthy reserveState then Inr reserveState
               else inferReserveStateFromReceiptStore receiptStore policy) (\<lambda>inferred.
       if \<not> truthy inferred then Inr None
       else and_then (positiveIntegerString (dot inferred ''amount'') ''reserve amount'') (\<lambda>amount.
         Inr (Some (JObj
           [(''chain'', orelse (dot inferred ''chain'') (pl_profitReserveChain policy)),
            (''inputToken'', first_truthy [dot inferred ''inputToken'', dot inferred ''token'', JNull]),
            (''amount'', JStr amount),
            (''routeSideToken'', orelse (dot inferred ''routeSideToken'') (JStr WBTC_OFT_TOKEN)),
            (''source'', orelse (dot inferred ''source'') (JStr ''explicit''))]))))"

definition supportedSwapVenue :: "payback_policy \<Rightarrow> jsv" where
  "supportedSwapVenue policy =
     (case List.find (\<lambda>item. lowercase (trim (to_str item)) \<in> {''cowswap'', ''uniswap_v3''})
         (pl_swapVenueOrdered policy) of
        Some item \<Rightarrow> orelse item JNull | None \<Rightarrow> JNull)"

section \<open>Emergency pause\<close>

record emergency_pause =
  em_paused :: bool
  em_reasons :: "string list"
  em_offrampSlippageBps :: "jsnum option"
  em_operatingDrawdownPct :: "jsnum option"
  em_blockedProtocols :: "string list"

definition protocol_names :: "jsv list \<Rightarrow> string list" where
  "protocol_names items =
     List.filter (\<lambda>s. s \<noteq> []) (List.map (\<lambda>item. lowercase (trim (to_str item))) items)"

text \<open>A limit that is set and exceeded.\<close>

definition exceeds :: "jsnum option \<Rightarrow> jsnum option \<Rightarrow> bool" where
  "exceeds value limit = (case (limit, value) of (Some m, Some v) \<Rightarrow> jlt m v | _ \<Rightarrow> False)"

definition buildEmergencyPauseEvaluation :: "payback_policy \<Rightarrow> fields \<Rightarrow> emergency_pause" where
  "buildEmergencyPauseEvaluation policy context =
     (let explicitProtocols = (if is_arr (fld context ''activeProtocolAlerts'')
            then elems (fld context ''activeProtocolAlerts'') else elems (fld context ''protocolAlerts''));
          activeProtocols = protocol_names explicitProtocols;
          blockedProtocols = List.filter (\<lambda>item. item \<in> set activeProtocols)
            (protocol_names (pl_protocolExploitList policy));
          offrampSlippageBps = finiteNonNegative (fld context ''offrampSlippageBps'');
          operatingDrawdownPct = finiteNonNegative (fld context ''operatingDrawdownPct'');
          reasons =
            (if exceeds offrampSlippageBps (pl_offrampSlippageBpsMax policy)
             then [''offramp_slippage_bps_limit_exceeded''] else [])
            @ (if exceeds operatingDrawdownPct (pl_operatingDrawdownPctMax policy)
               then [''operating_drawdown_limit_exceeded''] else [])
            @ (if blockedProtocols \<noteq> [] then [''protocol_exploit_pause''] else [])
      in \<lparr>em_paused = (reasons \<noteq> []), em_reasons = reasons,
          em_offrampSlippageBps = offrampSlippageBps, em_operatingDrawdownPct = operatingDrawdownPct,
          em_blockedProtocols = blockedProtocols\<rparr>)"

section \<open>Facts\<close>

lemma jmul_nonneg_mono:
  assumes "is_fin a" "is_fin b" "jle (Fin 0) a" "jle a b" "is_fin c" "jle (Fin 0) c"
  shows "jle (jmul a c) (jmul b c)" "jle (Fin 0) (jmul a c)"
proof -
  from assms obtain x y z where xyz: "a = Fin x" "b = Fin y" "c = Fin z" "0 \<le> x" "x \<le> y" "0 \<le> z"
    by (metis is_finE jle.simps(1))
  then have "x * z \<le> y * z" "0 \<le> x * z" by (auto intro: mult_right_mono)
  then show "jle (jmul a c) (jmul b c)" "jle (Fin 0) (jmul a c)"
    using rnd_mono [of "x * z" "y * z"] rnd_mono [of 0 "x * z"] xyz by (auto simp: jmul_def)
qed

lemma jfloor_mono: "jle a b \<Longrightarrow> jle (jfloor a) (jfloor b)"
  by (cases a; cases b) (auto intro: floor_mono)

lemma pay_clamp_mono: "jle a b \<Longrightarrow> jle lo hi \<Longrightarrow> jle (pay_clamp a lo hi) (pay_clamp b lo hi)"
  by (cases a; cases b; cases lo; cases hi) (auto simp: pay_clamp_def jmax_def jmin_def)

lemma lit_half_percent: "MIN_PAYBACK_PCT_OF_CAPITAL = Fin (5764607523034235 / 1152921504606846976)"
  unfolding MIN_PAYBACK_PCT_OF_CAPITAL_def by code_simp

lemma sats_bounds: "ABSOLUTE_FLOOR_SATS = Fin 5000" "ABSOLUTE_CEILING_SATS = Fin 50000"
  by (simp_all add: ABSOLUTE_FLOOR_SATS_def ABSOLUTE_CEILING_SATS_def jint_def)

lemma pay_clamp_int:
  "pay_clamp (Fin (of_int m)) (Fin 5000) (Fin 50000) = Fin (of_int (max 5000 (min 50000 m)))"
proof -
  have "(of_int m :: rat) < 50000 \<longleftrightarrow> m < 50000" "(5000 :: rat) < of_int m \<longleftrightarrow> 5000 < m"
    using of_int_less_iff [of m 50000, where ?'a = rat] of_int_less_iff [of 5000 m, where ?'a = rat] by simp_all
  then show ?thesis by (auto simp: pay_clamp_def jmax_def jmin_def max_def min_def)
qed

lemma effective_minimum_num:
  assumes "configFiniteNonNegative v = Some (Fin x)"
  shows "effectiveMinPaybackSats v =
    pay_clamp (jfloor (rnd (x * (5764607523034235 / 1152921504606846976)))) (Fin 5000) (Fin 50000)"
  by (simp add: assms effectiveMinPaybackSats_def lit_half_percent sats_bounds jmul_def)

lemma effective_minimum_range:
  "\<exists>n::int. effectiveMinPaybackSats capital = Fin (of_int n) \<and> 5000 \<le> n \<and> n \<le> 50000"
proof (cases "configFiniteNonNegative capital")
  case None
  then show ?thesis by (auto simp: effectiveMinPaybackSats_def sats_bounds intro: exI [of _ 50000])
next
  case (Some c)
  then obtain x where x: "c = Fin x" "0 \<le> x"
    by (auto simp: configFiniteNonNegative_def Let_def split: if_splits elim!: is_finE)
  let ?r = "rnd (x * (5764607523034235 / 1152921504606846976))"
  have "jle (Fin 0) ?r" using rnd_mono [of 0 "x * (5764607523034235 / 1152921504606846976)"] x by simp
  then consider y where "?r = Fin y" | "?r = PosInf"
    by (cases ?r) auto
  then show ?thesis
  proof cases
    case 1
    show ?thesis
      using effective_minimum_num [OF Some [unfolded x(1)]] unfolding 1 jfloor.simps pay_clamp_int
      by (intro exI [of _ "max 5000 (min 50000 \<lfloor>y\<rfloor>)"]) simp
  next
    case 2
    show ?thesis
      using effective_minimum_num [OF Some [unfolded x(1)]] unfolding 2
      by (intro exI [of _ 50000]) (simp add: pay_clamp_def jmax_def jmin_def)
  qed
qed

text \<open>The product with the binary fraction nearest to half a percent has the floor of the exact quotient.\<close>

lemma floor_half_percent:
  fixes k :: int
  assumes "0 \<le> k" "k < 10000000"
  shows "\<exists>y. rnd (of_int k * (5764607523034235 / 1152921504606846976)) = Fin y \<and> \<lfloor>y\<rfloor> = k div 200"
proof -
  let ?c = "5764607523034235 / 1152921504606846976 :: rat"
  let ?n = "k div 200"
  have n: "0 \<le> ?n" "?n < 50000" "200 * ?n \<le> k" "k \<le> 200 * ?n + 199" using assms by auto
  have lo: "of_int ?n \<le> of_int k * ?c"
  proof -
    have "(of_int (200 * ?n) :: rat) \<le> of_int k" using n(3) of_int_le_iff by blast
    moreover have "(0 :: rat) \<le> of_int k" using assms(1) by simp
    ultimately show ?thesis by (simp add: field_simps)
  qed
  have hi: "of_int k * ?c \<le> of_int (256 * ?n + 255) * 2 powi (- 8)"
  proof -
    have "(of_int k :: rat) \<le> of_int (200 * ?n + 199)" "(of_int ?n :: rat) \<le> of_int 50000"
      using n of_int_le_iff by (blast, auto)
    then show ?thesis by (simp add: power_int_minus field_simps)
  qed
  have "rnd (of_int ?n) = Fin (of_int ?n)"
    using n by (intro rnd_int) auto
  moreover have "rnd (of_int (256 * ?n + 255) * 2 powi (- 8)) = Fin (of_int (256 * ?n + 255) * 2 powi (- 8))"
    using n by (intro rnd_dyadic) auto
  ultimately have "jle (Fin (of_int ?n)) (rnd (of_int k * ?c))"
    "jle (rnd (of_int k * ?c)) (Fin (of_int (256 * ?n + 255) * 2 powi (- 8)))"
    using rnd_mono [OF lo] rnd_mono [OF hi] by simp_all
  then obtain y where y: "rnd (of_int k * ?c) = Fin y" "of_int ?n \<le> y" "y \<le> of_int (256 * ?n + 255) * 2 powi (- 8)"
    by (cases "rnd (of_int k * ?c)") auto
  have "y < of_int ?n + 1"
    using y(3) by (simp add: power_int_minus field_simps)
  with y show ?thesis by (auto intro!: floor_unique)
qed

text \<open>C11: The smallest payback is half a percent of the operating capital, rounded down, never
  less than 5,000 and never more than 50,000 sats: the floating-point computation agrees with
  integer arithmetic for every whole number of sats.
\<close>

theorem effective_minimum_exact:
  assumes "0 \<le> k" "k \<le> 2 ^ 53"
  shows "effectiveMinPaybackSats (JNum (Fin (of_int k))) = Fin (of_int (max 5000 (min 50000 (k div 200))))"
proof -
  have c: "configFiniteNonNegative (JNum (Fin (of_int k))) = Some (Fin (of_int k))"
    using assms by (simp add: configFiniteNonNegative_def Let_def)
  show ?thesis
  proof (cases "k < 10000000")
    case True
    with assms obtain y where
      "rnd (of_int k * (5764607523034235 / 1152921504606846976)) = Fin y" "\<lfloor>y\<rfloor> = k div 200"
      using floor_half_percent by blast
    then show ?thesis
      using effective_minimum_num [OF c] by (simp only: jfloor.simps pay_clamp_int)
  next
    case False
    then have "(of_int 10000000 :: rat) \<le> of_int k" using of_int_le_iff by (metis not_less)
    then have "50000 \<le> of_int k * (5764607523034235 / 1152921504606846976 :: rat)" by (simp add: field_simps)
    then have "jle (Fin 50000) (rnd (of_int k * (5764607523034235 / 1152921504606846976)))"
      using rnd_mono [of 50000] by simp
    then have "pay_clamp (jfloor (rnd (of_int k * (5764607523034235 / 1152921504606846976)))) (Fin 5000) (Fin 50000) = Fin 50000"
      by (cases "rnd (of_int k * (5764607523034235 / 1152921504606846976))")
        (auto simp: pay_clamp_def jmax_def jmin_def le_floor_iff)
    then show ?thesis
      using effective_minimum_num [OF c] False by simp
  qed
qed

lemma effective_minimum_exact_witness:
  "effectiveMinPaybackSats (JNum (Fin 2000399)) = Fin 10001"
  using effective_minimum_exact [of 2000399] by simp

end
