(* ===== verification/PaybackDecision.thy ===== *)
theory PaybackDecision
  imports PaybackConfig
begin

text \<open>
  buildPaybackDecision of src/src/executor/payback/scheduler.mjs: from the ledger of the last
  period to one of five outcomes (blocked, paused, carried over, deferred, or a payback to plan).

  The accumulator and the environment are arguments, as in the source, which takes both as
  options; the market and risk states are objects. A decision keeps the policy and the snapshotshot
  it was made on and the log that is written with it.
\<close>

section \<open>The decision\<close>

datatype pay_status = StBlocked | StPaused | StCarry | StDefer | StPlan

fun pay_status_name :: "pay_status \<Rightarrow> string" where
  "pay_status_name StBlocked = ''blocked''"
| "pay_status_name StPaused = ''paused''"
| "pay_status_name StCarry = ''carry''"
| "pay_status_name StDefer = ''defer''"
| "pay_status_name StPlan = ''plan''"

record payback_decision =
  py_observedAt :: jsv
  py_policy :: payback_policy
  py_snapshot :: payback_snapshot
  py_recipient :: jsv
  py_reserveState :: jsv
  py_status :: pay_status
  py_reason :: string
  py_decisionLog :: fields

record payback_request =
  rq_auditLogLines :: jsv
  rq_receiptStore :: jsv
  rq_reserveState :: jsv
  rq_paybackConfig :: payback_config
  rq_now :: jsv
  rq_marketState :: fields
  rq_riskState :: fields
  rq_accumulatorSnapshot :: "jsv \<Rightarrow> jsv \<Rightarrow> jsv \<Rightarrow> payback_snapshot throws"
  rq_getEnv :: "jsv \<Rightarrow> jsv"
  rq_recipientOverride :: jsv

definition GATEWAY_BTC_OFFRAMP_STRATEGY_ID :: string where
  "GATEWAY_BTC_OFFRAMP_STRATEGY_ID = ''gateway-btc-offramp''"

text \<open>\<open>marketState.k || riskState.k || d\<close>\<close>

definition state_or :: "payback_request \<Rightarrow> string \<Rightarrow> jsv \<Rightarrow> jsv" where
  "state_or rq k d = first_truthy [fld (rq_marketState rq) k, fld (rq_riskState rq) k, d]"

definition buildAccumulatorConfig :: "payback_request \<Rightarrow> fields" where
  "buildAccumulatorConfig rq =
     [(''periodId'', orelse (state_or rq ''periodId'' JNull) (JStr ''scheduler_period'')),
      (''periodStartAt'', orelse (state_or rq ''periodStartAt'' JNull) JNull),
      (''periodEndAt'', orelse (state_or rq ''periodEndAt'' (rq_now rq)) (rq_now rq)),
      (''paybackStrategyIds'', JArr [JStr GATEWAY_BTC_OFFRAMP_STRATEGY_ID]),
      (''paybackIntentTypes'', JArr [JStr ''gateway_btc_offramp'']),
      (''btcUsd'', num_or_null (payFiniteNumber (state_or rq ''btcUsd'' JNull)))]"

text \<open>The amounts a decision rests on.\<close>

record payback_terms =
  tm_grossProfitSatsPeriod :: jsnum
  tm_regime :: regime
  tm_regimeMultiplier :: jsnum
  tm_volAnnualized :: "jsnum option"
  tm_volMultiplier :: jsnum
  tm_target :: jsnum
  tm_rollingPaidBackSats :: jsnum
  tm_rollingExplicit :: bool

text \<open>A number that may be null, in arithmetic and comparisons: null counts as zero.\<close>

definition num0 :: "jsnum option \<Rightarrow> jsnum" where
  "num0 n = opt_default n (Fin 0)"

definition payback_terms_of ::
    "payback_policy \<Rightarrow> payback_snapshot \<Rightarrow> fields \<Rightarrow> fields \<Rightarrow> payback_terms throws" where
  "payback_terms_of policy snap marketState riskState =
     and_then (resolveRegimeMultiplier policy
         (first_truthy [fld marketState ''regime'', fld riskState ''regime'', JStr ''neutral''])) (\<lambda>(regime, regimeMultiplier).
       let (volAnnualized, volMultiplier) = resolveVolMultiplier policy
             (opt_coal (payFiniteNumber (fld marketState ''realizedVolAnnualized''))
               (payFiniteNumber (fld riskState ''realizedVolAnnualized'')));
           grossProfitSatsPeriod = num0 (finiteNonNegative (JNum (ps_grossProfitSats_period snap)));
           explicit = opt_coal (finiteNonNegative (fld marketState ''paidBackSatsRolling12m''))
             (finiteNonNegative (fld riskState ''paidBackSatsRolling12m''))
       in Inr \<lparr>tm_grossProfitSatsPeriod = grossProfitSatsPeriod,
               tm_regime = regime,
               tm_regimeMultiplier = regimeMultiplier,
               tm_volAnnualized = volAnnualized,
               tm_volMultiplier = volMultiplier,
               tm_target = roundSats (jmul (jmul (jmul grossProfitSatsPeriod (num0 (pl_baseRatio policy)))
                 regimeMultiplier) volMultiplier),
               tm_rollingPaidBackSats = num0 (opt_coal explicit
                 (finiteNonNegative (JNum (ps_paidBackSats_lifetime snap)))),
               tm_rollingExplicit = (explicit \<noteq> None)\<rparr>)"

section \<open>The logs\<close>

definition pause_obj :: "emergency_pause \<Rightarrow> jsv" where
  "pause_obj e = JObj
     [(''paused'', JBool (em_paused e)), (''reasons'', strs (em_reasons e)),
      (''inputs'', JObj
        [(''offrampSlippageBps'', num_or_null (em_offrampSlippageBps e)),
         (''operatingDrawdownPct'', num_or_null (em_operatingDrawdownPct e)),
         (''blockedProtocols'', strs (em_blockedProtocols e))])]"

definition applied_terms :: "payback_policy \<Rightarrow> payback_terms \<Rightarrow> fields" where
  "applied_terms policy t =
     [(''baseRatio'', num_or_null (pl_baseRatio policy)),
      (''regime'', JStr (regime_name (tm_regime t))),
      (''regimeMultiplier'', JNum (tm_regimeMultiplier t)),
      (''volAnnualized'', num_or_null (tm_volAnnualized t)),
      (''volMultiplier'', JNum (tm_volMultiplier t)),
      (''grossTargetBeforeCostsSats'', JNum (tm_target t))]"

definition minimum_terms :: "payback_policy \<Rightarrow> fields" where
  "minimum_terms policy =
     [(''minPaybackSats'', JNum (pl_minPaybackSats policy)),
      (''staticMinPaybackSats'', JNum (pl_staticMinPaybackSats policy)),
      (''minPaybackPctOfCapital'', JNum (pl_minPaybackPctOfCapital policy)),
      (''absoluteFloorSats'', JNum (pl_absoluteFloorSats policy)),
      (''absoluteCeilingSats'', JNum (pl_absoluteCeilingSats policy))]"

definition reason_log :: "jsv \<Rightarrow> string \<Rightarrow> fields \<Rightarrow> fields" where
  "reason_log now reason inputs =
     [(''observedAt'', now), (''reason'', JStr reason), (''inputs'', JObj inputs)]"

definition plan_log :: "jsv \<Rightarrow> jsv \<Rightarrow> payback_policy \<Rightarrow> payback_snapshot \<Rightarrow> payback_terms \<Rightarrow> jsnum option \<Rightarrow> fields" where
  "plan_log now config policy snap t operatingCapitalSats =
     [(''observedAt'', now),
      (''periodId'', orelse (dot config ''periodId'') JNull),
      (''inputs'', JObj
        [(''periodId'', orelse (dot config ''periodId'') JNull),
         (''periodStartAt'', orelse (dot config ''periodStartAt'') JNull),
         (''periodEndAt'', orelse (dot config ''periodEndAt'') JNull),
         (''grossProfitSatsPeriod'', JNum (tm_grossProfitSatsPeriod t)),
         (''paidBackSatsRolling12m'', JNum (tm_rollingPaidBackSats t)),
         (''pendingDeferredSats'', JNum (ps_pendingDeferredSats snap)),
         (''operatingCapitalSats'', num_or_null operatingCapitalSats)]),
      (''applied'', JObj (applied_terms policy t @ minimum_terms policy)),
      (''result'', JObj [(''status'', JStr ''plan'')])]"

section \<open>buildPaybackDecision\<close>

text \<open>
  What follows the recipient, the reserve and the emergency pause: the checks in their order, as
  the status, the reason and the log of the first that decides.
\<close>

definition decide_payback ::
    "jsv \<Rightarrow> jsv \<Rightarrow> payback_policy \<Rightarrow> payback_snapshot \<Rightarrow> jsv option \<Rightarrow> jsnum option \<Rightarrow> payback_terms
      \<Rightarrow> pay_status \<times> string \<times> fields" where
  "decide_payback now config policy snap reserve operatingCapitalSats t =
     (let target = tm_target t;
          stop = (\<lambda>status reason inputs. (status, reason, reason_log now reason inputs))
      in if jle target (Fin 0)
         then stop StCarry ''non_positive_payback_target''
           ((''grossProfitSatsPeriod'', JNum (tm_grossProfitSatsPeriod t)) # applied_terms policy t)
         else if jlt target (pl_minPaybackSats policy)
         then stop StCarry ''planned_payback_below_minimum''
           ((''grossProfitSatsPeriod'', JNum (tm_grossProfitSatsPeriod t)) # applied_terms policy t
             @ minimum_terms policy
             @ [(''operatingCapitalSats'', num_or_null operatingCapitalSats),
                (''pendingDeferredSats'', JNum (ps_pendingDeferredSats snap))])
         else if reserve = None
         then stop StDefer ''reserve_asset_missing'' [(''profitReserveChain'', pl_profitReserveChain policy)]
         else if jlt (num0 (pl_perPeriodMaxSats policy)) target
         then stop StDefer ''per_period_cap_exceeded''
           [(''grossTargetBeforeCostsSats'', JNum target),
            (''perPeriodMaxSats'', num_or_null (pl_perPeriodMaxSats policy))]
         else if jlt (num0 (pl_annualMaxPaybackSats policy)) (jadd (tm_rollingPaidBackSats t) target)
         then stop StDefer ''annual_payback_cap_exceeded''
           [(''rollingPaidBackSats'', JNum (tm_rollingPaidBackSats t)),
            (''annualMaxPaybackSats'', num_or_null (pl_annualMaxPaybackSats policy)),
            (''grossTargetBeforeCostsSats'', JNum target),
            (''rollingPaidBackSource'',
             JStr (if tm_rollingExplicit t then ''explicit_rolling_12m'' else ''lifetime_fallback''))]
         else (StPlan, ''planning_required'', plan_log now config policy snap t operatingCapitalSats))"

definition buildPaybackDecision :: "payback_request \<Rightarrow> payback_decision throws" where
  "buildPaybackDecision rq =
     (let now = rq_now rq; marketState = rq_marketState rq; riskState = rq_riskState rq;
          config = JObj (buildAccumulatorConfig rq)
      in and_then (rq_accumulatorSnapshot rq (rq_auditLogLines rq) (rq_receiptStore rq) config) (\<lambda>snap.
      let operatingCapitalSats =
            resolveOperatingCapitalSats marketState riskState (ps_operatingFloatSats_byChain snap);
          policy = loadPaybackPolicyConfig (rq_paybackConfig rq) operatingCapitalSats;
          recipient = resolvePaybackRecipient policy (rq_getEnv rq) (rq_recipientOverride rq);
          decided = (\<lambda>to reserveState status reason log.
            \<lparr>py_observedAt = now, py_policy = policy, py_snapshot = snap, py_recipient = to,
             py_reserveState = reserveState, py_status = status, py_reason = reason, py_decisionLog = log\<rparr>)
      in if \<not> re_ok recipient
         then Inr (decided JUndef JUndef StBlocked ''missing_destination_config''
           (reason_log now ''missing_destination_config''
             [(''bitcoinDestAddressEnv'', re_envName recipient), (''underlyingReason'', re_reason recipient)]))
         else and_then (normalizeReserveState (rq_reserveState rq) policy (rq_receiptStore rq)) (\<lambda>reserve.
           let reserveState = opt_default reserve JNull;
               emergencyPause = buildEmergencyPauseEvaluation policy (spread marketState riskState)
           in if em_paused emergencyPause
              then Inr (decided JUndef reserveState StPaused (join '','' (em_reasons emergencyPause))
                [(''observedAt'', now), (''reason'', JStr ''emergency_pause''),
                 (''emergencyPause'', pause_obj emergencyPause)])
              else and_then (payback_terms_of policy snap marketState riskState) (\<lambda>t.
                let (status, reason, log) = decide_payback now config policy snap reserve operatingCapitalSats t
                in Inr (decided (if status = StPlan then re_recipient recipient else JUndef)
                     (if reason = ''reserve_asset_missing'' then JUndef else reserveState) status reason log)))))"

section \<open>Facts\<close>

lemma decide_payback_plan:
  assumes "decide_payback now config policy snap reserve capital t = (StPlan, reason, dlog)"
  shows "\<not> jle (tm_target t) (Fin 0)" "\<not> jlt (tm_target t) (pl_minPaybackSats policy)" "reserve \<noteq> None"
    "\<not> jlt (num0 (pl_perPeriodMaxSats policy)) (tm_target t)"
    "\<not> jlt (num0 (pl_annualMaxPaybackSats policy)) (jadd (tm_rollingPaidBackSats t) (tm_target t))"
    "dlog = plan_log now config policy snap t capital" "reason = ''planning_required''"
  using assms by (auto simp: decide_payback_def Let_def split: if_splits)

text \<open>The pieces of a decision to plan.\<close>

lemma buildPaybackDecision_plan:
  assumes "buildPaybackDecision rq = Inr d" "py_status d = StPlan"
  obtains capital reserve t config snap where
    "rq_accumulatorSnapshot rq (rq_auditLogLines rq) (rq_receiptStore rq) (JObj (buildAccumulatorConfig rq)) = Inr snap"
    "py_snapshot d = snap"
    "py_policy d = loadPaybackPolicyConfig (rq_paybackConfig rq) capital"
    "re_ok (resolvePaybackRecipient (py_policy d) (rq_getEnv rq) (rq_recipientOverride rq))"
    "py_recipient d = re_recipient (resolvePaybackRecipient (py_policy d) (rq_getEnv rq) (rq_recipientOverride rq))"
    "normalizeReserveState (rq_reserveState rq) (py_policy d) (rq_receiptStore rq) = Inr (Some (py_reserveState d))"
    "\<not> em_paused (buildEmergencyPauseEvaluation (py_policy d) (spread (rq_marketState rq) (rq_riskState rq)))"
    "payback_terms_of (py_policy d) snap (rq_marketState rq) (rq_riskState rq) = Inr t"
    "decide_payback (rq_now rq) config (py_policy d) snap (Some (py_reserveState d)) capital t
       = (StPlan, py_reason d, py_decisionLog d)"
proof -
  let ?config = "JObj (buildAccumulatorConfig rq)"
  from assms(1) obtain snap where snap: "rq_accumulatorSnapshot rq (rq_auditLogLines rq) (rq_receiptStore rq) ?config = Inr snap"
    by (auto simp: buildPaybackDecision_def Let_def and_then_Inr)
  define capital where "capital = resolveOperatingCapitalSats (rq_marketState rq) (rq_riskState rq)
    (ps_operatingFloatSats_byChain snap)"
  define policy where "policy = loadPaybackPolicyConfig (rq_paybackConfig rq) capital"
  define recipient where "recipient = resolvePaybackRecipient policy (rq_getEnv rq) (rq_recipientOverride rq)"
  note d = assms(1) [unfolded buildPaybackDecision_def Let_def snap and_then_simps,
      folded capital_def policy_def recipient_def]
  have ok: "re_ok recipient"
    using d assms(2) by (auto split: if_splits)
  from d ok obtain reserve where reserve: "normalizeReserveState (rq_reserveState rq) policy (rq_receiptStore rq) = Inr reserve"
    by (auto simp: and_then_Inr)
  note d = d [unfolded reserve and_then_simps]
  have calm: "\<not> em_paused (buildEmergencyPauseEvaluation policy (spread (rq_marketState rq) (rq_riskState rq)))"
    using d ok assms(2) by (auto split: if_splits)
  from d ok calm obtain t where t: "payback_terms_of policy snap (rq_marketState rq) (rq_riskState rq) = Inr t"
    by (auto simp: and_then_Inr)
  note d = d [unfolded t and_then_simps]
  obtain status reason dlog where
    dec: "decide_payback (rq_now rq) ?config policy snap reserve capital t = (status, reason, dlog)"
    by (metis prod_cases3)
  have status: "status = StPlan" "py_policy d = policy" "py_snapshot d = snap" "py_recipient d = re_recipient recipient"
    "py_reason d = reason" "py_decisionLog d = dlog"
    using d ok calm assms(2) by (auto simp: dec)
  have "reason = ''planning_required''" "reserve \<noteq> None"
    using decide_payback_plan [OF dec [unfolded status(1)]] by auto
  then have "reserve = Some (py_reserveState d)"
    using d ok calm by (auto simp: dec opt_default_def)
  with status dec show thesis
    using that [of snap capital t ?config] snap policy_def recipient_def ok reserve calm t by simp
qed

lemma roundSats_whole: "\<exists>n::int. roundSats v = Fin (of_int n)"
  by (cases v) (auto simp: roundSats_def intro: exI [of _ 0])

lemma payback_terms_target:
  assumes "payback_terms_of policy snap market risk = Inr t"
  shows "\<exists>n::int. tm_target t = Fin (of_int n)"
proof -
  from assms obtain r m where "resolveRegimeMultiplier policy
      (first_truthy [fld market ''regime'', fld risk ''regime'', JStr ''neutral'']) = Inr (r, m)"
    by (auto simp: payback_terms_of_def and_then_Inr simp del: first_truthy.simps)
  then have "\<exists>v. tm_target t = roundSats v"
    using assms by (auto simp: payback_terms_of_def split_def Let_def simp del: first_truthy.simps)
  then show ?thesis using roundSats_whole by metis
qed

lemma loaded_policy:
  "pl_minPaybackSats (loadPaybackPolicyConfig c capital) =
     opt_default (finiteNonNegative (case pc_effectiveMin c of Some f \<Rightarrow> f capital
       | None \<Rightarrow> JNum (pl_staticMinPaybackSats (loadPaybackPolicyConfig c capital))))
       (pl_staticMinPaybackSats (loadPaybackPolicyConfig c capital))"
  "pl_perPeriodMaxSats (loadPaybackPolicyConfig c capital) = finiteNonNegative (dot (pc_fields c) ''perPeriodMaxSats'')"
  "pl_annualMaxPaybackSats (loadPaybackPolicyConfig c capital) =
     finiteNonNegative (dot (pc_fields c) ''annualMaxPaybackSats'')"
  "pl_offrampSlippageBpsMax (loadPaybackPolicyConfig c capital) =
     finiteNonNegative (dots (pc_fields c) [''emergencyPause'', ''offrampSlippageBpsMax''])"
  "pl_operatingDrawdownPctMax (loadPaybackPolicyConfig c capital) =
     finiteNonNegative (dots (pc_fields c) [''emergencyPause'', ''operatingDrawdownPctMax''])"
  "pl_cronExpression (loadPaybackPolicyConfig c capital) = to_str (dot (pc_fields c) ''cronExpression'')"
  by (simp_all only: loadPaybackPolicyConfig_def Let_def payback_policy.select_convs)

lemma committed_fields:
  "finiteNonNegative (dot (pc_fields PAYBACK_CONFIG) ''perPeriodMaxSats'') = Some (Fin 500000)"
  "finiteNonNegative (dot (pc_fields PAYBACK_CONFIG) ''annualMaxPaybackSats'') = Some (Fin 26000000)"
  "finiteNonNegative (dots (pc_fields PAYBACK_CONFIG) [''emergencyPause'', ''offrampSlippageBpsMax'']) = Some (Fin 200)"
  "finiteNonNegative (dots (pc_fields PAYBACK_CONFIG) [''emergencyPause'', ''operatingDrawdownPctMax'']) = Some (Fin 30)"
  "to_str (dot (pc_fields PAYBACK_CONFIG) ''cronExpression'') = ''0 0 * * 1''"
  by (simp_all add: PAYBACK_CONFIG_def fld_def dots_def finiteNonNegative_def payFiniteNumber_def jint_def)

lemma committed_minimum:
  "pl_minPaybackSats (loadPaybackPolicyConfig PAYBACK_CONFIG capital) = effectiveMinPaybackSats (num_or_null capital)"
proof -
  have "pc_effectiveMin PAYBACK_CONFIG = Some (\<lambda>capital. JNum (effectiveMinPaybackSats (num_or_null capital)))"
    by (simp only: PAYBACK_CONFIG_def payback_config.select_convs)
  moreover obtain n :: int where "effectiveMinPaybackSats (num_or_null capital) = Fin (of_int n)" "5000 \<le> n"
    using effective_minimum_range by blast
  ultimately show ?thesis
    by (simp add: loaded_policy(1) opt_default_def finiteNonNegative_def payFiniteNumber_def)
qed

lemmas committed_policy = committed_minimum loaded_policy(2-) [of PAYBACK_CONFIG, unfolded committed_fields]

lemma plan_log_target: "dots (JObj (plan_log now config policy snap t capital)) [''applied'', ''grossTargetBeforeCostsSats''] = JNum (tm_target t)"
  by (simp add: plan_log_def applied_terms_def dots_def fld_def)

lemma plan_log_rolling: "dots (JObj (plan_log now config policy snap t capital)) [''inputs'', ''paidBackSatsRolling12m''] = JNum (tm_rollingPaidBackSats t)"
  by (simp add: plan_log_def applied_terms_def dots_def fld_def)

lemma resolvePaybackRecipient_ok:
  "re_ok (resolvePaybackRecipient policy env override) \<Longrightarrow> truthy (re_recipient (resolvePaybackRecipient policy env override))"
  by (auto simp: resolvePaybackRecipient_def Let_def split: if_splits)

text \<open>C7: With the committed configuration, a decision to pay back names a recipient and an amount
  that is a whole number of sats between 5,000 and 500,000, at least the minimum for the operating
  capital; with what was already paid back it stays within 26,000,000 sats.
\<close>

theorem payback_plan_within_limits:
  assumes "buildPaybackDecision rq = Inr d" "py_status d = StPlan" "rq_paybackConfig rq = PAYBACK_CONFIG"
  shows "\<exists>n rolling. dots (JObj (py_decisionLog d)) [''applied'', ''grossTargetBeforeCostsSats''] = JNum (Fin (of_int n))
    \<and> dots (JObj (py_decisionLog d)) [''inputs'', ''paidBackSatsRolling12m''] = JNum rolling
    \<and> (5000 :: int) \<le> n \<and> n \<le> 500000
    \<and> jle (pl_minPaybackSats (py_policy d)) (Fin (of_int n))
    \<and> \<not> jlt (Fin 26000000) (jadd rolling (Fin (of_int n))) \<and> truthy (py_recipient d)"
proof -
  obtain capital t config snap where
    policy: "py_policy d = loadPaybackPolicyConfig (rq_paybackConfig rq) capital" and
    recipient: "truthy (py_recipient d)" and
    t: "payback_terms_of (py_policy d) snap (rq_marketState rq) (rq_riskState rq) = Inr t" and
    dec: "decide_payback (rq_now rq) config (py_policy d) snap (Some (py_reserveState d)) capital t
       = (StPlan, py_reason d, py_decisionLog d)"
    by (rule buildPaybackDecision_plan [OF assms(1,2)]) (simp add: resolvePaybackRecipient_ok)
  note p = decide_payback_plan [OF dec]
  obtain n where n: "tm_target t = Fin (of_int n)"
    using payback_terms_target [OF t] by blast
  obtain m where m: "pl_minPaybackSats (py_policy d) = Fin (of_int m)" "5000 \<le> m"
    using effective_minimum_range policy assms(3) committed_policy(1) by metis
  have caps: "pl_perPeriodMaxSats (py_policy d) = Some (Fin 500000)"
    "pl_annualMaxPaybackSats (py_policy d) = Some (Fin 26000000)"
    using policy assms(3) committed_policy by simp_all
  have "m \<le> n" using p(2) by (simp add: n m)
  moreover have "n \<le> 500000"
    using p(4) of_int_le_iff [of n 500000, where ?'a = rat] by (simp add: n caps num0_def opt_default_def not_less)
  moreover have "\<not> jlt (Fin 26000000) (jadd (tm_rollingPaidBackSats t) (Fin (of_int n)))"
    using p(5) by (simp add: n caps num0_def opt_default_def)
  ultimately show ?thesis
    using m(2) recipient plan_log_target plan_log_rolling p(6) n m(1)
    by (intro exI [of _ n] exI [of _ "tm_rollingPaidBackSats t"]) simp
qed

definition sample_snapshot :: payback_snapshot where
  "sample_snapshot =
     \<lparr>ps_periodId = JStr ''2026-W17'', ps_grossProfitSats_period = Fin 1000000, ps_paidBackSats_lifetime = Fin 40000,
      ps_pendingDeferredSats = Fin 960000,
      ps_periodProvenance = \<lparr>pv_directSats = None, pv_projectedSats = None, pv_totalSats = Fin 0\<rparr>,
      ps_lifetimeProvenance = \<lparr>pv_directSats = None, pv_projectedSats = None, pv_totalSats = Fin 0\<rparr>,
      ps_rolling12mProvenance = \<lparr>pv_directSats = None, pv_projectedSats = None, pv_totalSats = Fin 0\<rparr>,
      ps_pendingProvenance = (\<lparr>pv_directSats = None, pv_projectedSats = None, pv_totalSats = Fin 0\<rparr>, SnapshotTotalOnly),
      ps_operatingFloatSats_byChain = [(''base'', Fin 4000000)],
      ps_kpi = payback_kpis (Fin 0) (Fin 0) (Fin 0) (Fin 0) (Fin 0) (Fin 0),
      ps_paybackPeriodEfficiencies = [],
      ps_expansionGate = expansionGate [] (JStr ''base'') (lit 9 10) (Fin 8)\<rparr>"

definition sample_payback_request :: payback_request where
  "sample_payback_request =
     \<lparr>rq_auditLogLines = JArr [], rq_receiptStore = JObj [],
      rq_reserveState = JObj [(''inputToken'', JStr WBTC_OFT_TOKEN), (''amount'', JNum (Fin 200000))],
      rq_paybackConfig = PAYBACK_CONFIG, rq_now = JStr ''2026-04-27T00:00:00.000Z'',
      rq_marketState = [(''regime'', JStr ''neutral'')], rq_riskState = [(''operatingDrawdownPct'', JNum (Fin 4))],
      rq_accumulatorSnapshot = (\<lambda>_ _ _. Inr sample_snapshot), rq_getEnv = (\<lambda>_. JStr ''bc1qexample''),
      rq_recipientOverride = JNull\<rparr>"

definition sample_payback_policy :: payback_policy where
  "sample_payback_policy = loadPaybackPolicyConfig PAYBACK_CONFIG (Some (Fin 4000000))"

definition sample_terms :: payback_terms where
  "sample_terms =
     \<lparr>tm_grossProfitSatsPeriod = Fin 1000000, tm_regime = Neutral, tm_regimeMultiplier = Fin 1,
      tm_volAnnualized = None, tm_volMultiplier = Fin 1, tm_target = Fin 200000,
      tm_rollingPaidBackSats = Fin 40000, tm_rollingExplicit = False\<rparr>"

definition sample_reserve :: jsv where
  "sample_reserve = JObj
     [(''chain'', JStr ''base''), (''inputToken'', JStr WBTC_OFT_TOKEN), (''amount'', JStr ''200000''),
      (''routeSideToken'', JStr WBTC_OFT_TOKEN), (''source'', JStr ''explicit'')]"

definition sample_decision :: payback_decision where
  "sample_decision =
     \<lparr>py_observedAt = JStr ''2026-04-27T00:00:00.000Z'', py_policy = sample_payback_policy,
      py_snapshot = sample_snapshot, py_recipient = JStr ''bc1qexample'', py_reserveState = sample_reserve,
      py_status = StPlan, py_reason = ''planning_required'',
      py_decisionLog = plan_log (JStr ''2026-04-27T00:00:00.000Z'')
        (JObj (buildAccumulatorConfig sample_payback_request)) sample_payback_policy sample_snapshot sample_terms
        (Some (Fin 4000000))\<rparr>"

lemma sample_payback_steps:
  "resolveOperatingCapitalSats [(''regime'', JStr ''neutral'')] [(''operatingDrawdownPct'', JNum (Fin 4))]
     (ps_operatingFloatSats_byChain sample_snapshot) = Some (Fin 4000000)"
  "(resolvePaybackRecipient sample_payback_policy (\<lambda>_. JStr ''bc1qexample'') JNull)
     = \<lparr>re_ok = True, re_reason = JNull, re_recipient = JStr ''bc1qexample'', re_envName = JStr ''PAYBACK_BTC_DEST_ADDR''\<rparr>"
  "normalizeReserveState (rq_reserveState sample_payback_request) sample_payback_policy (JObj []) = Inr (Some sample_reserve)"
  "em_paused (buildEmergencyPauseEvaluation sample_payback_policy
     (spread [(''regime'', JStr ''neutral'')] [(''operatingDrawdownPct'', JNum (Fin 4))])) = False"
  "payback_terms_of sample_payback_policy sample_snapshot [(''regime'', JStr ''neutral'')]
     [(''operatingDrawdownPct'', JNum (Fin 4))] = Inr sample_terms"
  by code_simp+

lemma sample_decides:
  "decide_payback now config sample_payback_policy sample_snapshot (Some sample_reserve) capital sample_terms
     = (StPlan, ''planning_required'', plan_log now config sample_payback_policy sample_snapshot sample_terms capital)"
proof -
  have "effectiveMinPaybackSats (JNum (Fin 4000000)) = Fin 20000"
    using floor_half_percent [of 4000000] effective_minimum_num [of "JNum (Fin 4000000)" 4000000] pay_clamp_int [of 20000]
    by (auto simp: configFiniteNonNegative_def Let_def)
  then show ?thesis
    unfolding decide_payback_def Let_def sample_payback_policy_def committed_policy
    by (simp add: sample_terms_def num_or_null_def num0_def opt_default_def)
qed

lemma sample_request_parts:
  "rq_auditLogLines sample_payback_request = JArr []" "rq_receiptStore sample_payback_request = JObj []"
  "rq_paybackConfig sample_payback_request = PAYBACK_CONFIG"
  "rq_now sample_payback_request = JStr ''2026-04-27T00:00:00.000Z''"
  "rq_marketState sample_payback_request = [(''regime'', JStr ''neutral'')]"
  "rq_riskState sample_payback_request = [(''operatingDrawdownPct'', JNum (Fin 4))]"
  "rq_accumulatorSnapshot sample_payback_request = (\<lambda>_ _ _. Inr sample_snapshot)"
  "rq_getEnv sample_payback_request = (\<lambda>_. JStr ''bc1qexample'')"
  "rq_recipientOverride sample_payback_request = JNull"
  by (simp_all add: sample_payback_request_def)

lemma sample_decided: "buildPaybackDecision sample_payback_request = Inr sample_decision"
proof -
  note s = sample_payback_steps [unfolded sample_request_parts]
  show ?thesis
    unfolding buildPaybackDecision_def Let_def sample_request_parts and_then_simps s(1)
      sample_payback_policy_def [symmetric] s(2) s(3) s(4) s(5) sample_decides opt_default_def option.case prod.case
    by (simp add: sample_decision_def)
qed

lemma payback_plan_within_limits_witness:
  "\<exists>n rolling. dots (JObj (py_decisionLog sample_decision)) [''applied'', ''grossTargetBeforeCostsSats''] = JNum (Fin (of_int n))
    \<and> dots (JObj (py_decisionLog sample_decision)) [''inputs'', ''paidBackSatsRolling12m''] = JNum rolling
    \<and> (5000 :: int) \<le> n \<and> n \<le> 500000
    \<and> jle (pl_minPaybackSats (py_policy sample_decision)) (Fin (of_int n))
    \<and> \<not> jlt (Fin 26000000) (jadd rolling (Fin (of_int n))) \<and> truthy (py_recipient sample_decision)"
  by (rule payback_plan_within_limits [OF sample_decided]) (simp_all add: sample_decision_def sample_request_parts)

text \<open>C10: With the committed configuration, a reported off-ramp slippage above 200 basis points or
  an operating drawdown above 30 percent stops every payback: the outcome is blocked or paused,
  whatever the profit and the other inputs are.
\<close>

theorem payback_emergency_pause:
  assumes "buildPaybackDecision rq = Inr d" "rq_paybackConfig rq = PAYBACK_CONFIG"
    "context = spread (rq_marketState rq) (rq_riskState rq)"
    "exceeds (finiteNonNegative (fld context ''offrampSlippageBps'')) (Some (Fin 200))
      \<or> exceeds (finiteNonNegative (fld context ''operatingDrawdownPct'')) (Some (Fin 30))"
  shows "py_status d = StBlocked \<or> py_status d = StPaused"
proof -
  from assms(1) obtain snap where snap: "rq_accumulatorSnapshot rq (rq_auditLogLines rq) (rq_receiptStore rq)
      (JObj (buildAccumulatorConfig rq)) = Inr snap"
    by (auto simp: buildPaybackDecision_def Let_def and_then_Inr)
  let ?policy = "loadPaybackPolicyConfig PAYBACK_CONFIG (resolveOperatingCapitalSats (rq_marketState rq)
    (rq_riskState rq) (ps_operatingFloatSats_byChain snap))"
  have "em_paused (buildEmergencyPauseEvaluation ?policy (spread (rq_marketState rq) (rq_riskState rq)))"
    using assms(3,4) by (auto simp: buildEmergencyPauseEvaluation_def Let_def committed_policy)
  then show ?thesis
    using assms(1,2) by (auto simp: buildPaybackDecision_def Let_def snap and_then_Inr split: if_splits)
qed

definition sample_drawdown_request :: payback_request where
  "sample_drawdown_request =
     sample_payback_request\<lparr>rq_riskState := [(''operatingDrawdownPct'', JNum (Fin 35))]\<rparr>"

lemma sample_drawdown_decided: "\<exists>d. buildPaybackDecision sample_drawdown_request = Inr d"
proof -
  have "resolveOperatingCapitalSats [(''regime'', JStr ''neutral'')] [(''operatingDrawdownPct'', JNum (Fin 35))]
     (ps_operatingFloatSats_byChain sample_snapshot) = Some (Fin 4000000)"
    and "em_paused (buildEmergencyPauseEvaluation sample_payback_policy
     (spread [(''regime'', JStr ''neutral'')] [(''operatingDrawdownPct'', JNum (Fin 35))])) = True"
    by code_simp+
  then show ?thesis
    using sample_payback_steps(3) unfolding buildPaybackDecision_def Let_def sample_drawdown_request_def
    by (simp add: sample_request_parts sample_payback_policy_def)
qed

lemma payback_emergency_pause_witness:
  "\<exists>d. buildPaybackDecision sample_drawdown_request = Inr d \<and> (py_status d = StBlocked \<or> py_status d = StPaused)"
proof -
  obtain d where d: "buildPaybackDecision sample_drawdown_request = Inr d" using sample_drawdown_decided by blast
  have e: "exceeds (finiteNonNegative (fld (spread [(''regime'', JStr ''neutral'')]
      [(''operatingDrawdownPct'', JNum (Fin 35))]) ''operatingDrawdownPct'')) (Some (Fin 30)) = True"
    by code_simp
  show ?thesis
    using payback_emergency_pause [OF d _ refl] d e by (simp add: sample_drawdown_request_def sample_request_parts)
qed

end
