(* ===== verification/PaybackCron.thy ===== *)
theory PaybackCron
  imports JsCalendar PaybackReport
begin

text \<open>
  The clock of the payback scheduler (src/src/executor/payback/scheduler.mjs): five-field cron
  expressions in UTC and the comparison of two instants to the minute.

  A date is its time value; the fields of an invalid date are NaN, here \<open>None\<close>, which only the
  field \<open>*\<close> matches.
\<close>

section \<open>Fields\<close>

type_synonym cron_aliases = "(string \<times> int) list"

text \<open>\<open>s.split(c)\<close> at the first two pieces: \<open>const [left, right] = s.split(c)\<close>\<close>

definition split_pair :: "char \<Rightarrow> string \<Rightarrow> string \<times> string option" where
  "split_pair c s = (case split_on c s of
     a # b # _ \<Rightarrow> (a, Some b) | [a] \<Rightarrow> (a, None) | [] \<Rightarrow> ([], None))"

text \<open>\<open>Number.isInteger\<close>, with the integer\<close>

definition whole :: "jsnum \<Rightarrow> int option" where
  "whole n = (case n of Fin x \<Rightarrow> if of_int \<lfloor>x\<rfloor> = x then Some \<lfloor>x\<rfloor> else None | _ \<Rightarrow> None)"

definition cronValue :: "string \<Rightarrow> cron_aliases \<Rightarrow> int \<Rightarrow> int \<Rightarrow> int throws" where
  "cronValue token aliases lo hi =
     (let normalized = lowercase (trim token)
      in case (case map_of aliases normalized of Some v \<Rightarrow> Some v | None \<Rightarrow> whole (str_to_num normalized)) of
           None \<Rightarrow> Inl (ErrorMsg (''Invalid cron value: '' @ token))
         | Some v \<Rightarrow> if v < lo \<or> hi < v then Inl (ErrorMsg (''Cron value out of range: '' @ token)) else Inr v)"

text \<open>\<open>for (let value = start; value <= end; value += step)\<close>, for a positive step\<close>

function cron_range :: "int \<Rightarrow> int \<Rightarrow> int \<Rightarrow> int list" where
  "cron_range v until step =
     (if until < v \<or> step \<le> 0 then [] else v # cron_range (v + step) until step)"
  by pat_completeness auto
termination by (relation "measure (\<lambda>(v, until, step). nat (until + 1 - v))") auto

declare cron_range.simps [simp del]

datatype cron_field = AnyValue | Values "int list"

definition cron_part :: "string \<Rightarrow> int \<Rightarrow> int \<Rightarrow> cron_aliases \<Rightarrow> int list throws" where
  "cron_part part lo hi aliases =
     (let (rangePart, stepPart) = split_pair (CHR ''/'') part;
          step = (case stepPart of Some s \<Rightarrow> if s \<noteq> [] then whole (str_to_num s) else Some 1 | None \<Rightarrow> Some 1)
      in case step of
           None \<Rightarrow> Inl (ErrorMsg (''Invalid cron step: '' @ part))
         | Some k \<Rightarrow>
             if k \<le> 0 then Inl (ErrorMsg (''Invalid cron step: '' @ part))
             else if rangePart \<noteq> [] \<and> rangePart \<noteq> ''*''
             then let (left, right) = split_pair (CHR ''-'') rangePart
                  in and_then (cronValue left aliases lo hi) (\<lambda>start.
                     and_then (case right of
                         Some r \<Rightarrow> if r \<noteq> [] then cronValue r aliases lo hi else Inr start
                       | None \<Rightarrow> Inr start) (\<lambda>end.
                       Inr (cron_range (min start end) (max start end) k)))
             else Inr (cron_range lo hi k))"

definition normalizeCronField :: "string \<Rightarrow> int \<Rightarrow> int \<Rightarrow> cron_aliases \<Rightarrow> cron_field throws" where
  "normalizeCronField field lo hi aliases =
     (let normalized = lowercase (trim field)
      in if normalized = [] then Inl (ErrorMsg ''Cron field is required'')
         else if normalized = ''*'' then Inr AnyValue
         else and_then (map_throws (\<lambda>part. cron_part part lo hi aliases) (split_on (CHR '','') normalized))
           (\<lambda>parts. Inr (Values (concat parts))))"

text \<open>\<open>matches(value)\<close>\<close>

fun cron_matches :: "cron_field \<Rightarrow> int option \<Rightarrow> bool" where
  "cron_matches AnyValue v = True"
| "cron_matches (Values vs) None = False"
| "cron_matches (Values vs) (Some v) = (v \<in> set vs)"

section \<open>The parts of a date in UTC\<close>

record utc_parts =
  ut_year :: int
  ut_month :: int
  ut_date :: int
  ut_day :: int
  ut_hours :: int
  ut_minutes :: int

definition utc_of :: "jsnum \<Rightarrow> utc_parts option" where
  "utc_of ms = (case ms of
     Fin x \<Rightarrow>
       (let t = \<lfloor>x\<rfloor>; days = t div ms_per_day; (y, m, d) = civil_from_days days
        in Some \<lparr>ut_year = y, ut_month = m, ut_date = d, ut_day = (days + 4) mod 7,
                 ut_hours = t div 3600000 mod 24, ut_minutes = t div 60000 mod 60\<rparr>)
   | _ \<Rightarrow> None)"

section \<open>Matching\<close>

text \<open>\<open>s.split(/\s+/)\<close>\<close>

function split_spaces :: "string \<Rightarrow> string list" where
  "split_spaces s =
     (let rest = dropWhile (\<lambda>c. \<not> is_space c) s
      in takeWhile (\<lambda>c. \<not> is_space c) s
         # (if rest = [] then [] else split_spaces (dropWhile is_space rest)))"
  by pat_completeness auto
termination
proof (relation "measure length", goal_cases)
  case (2 s rest)
  from 2(2) obtain c cs where rest: "rest = c # cs" using list.exhaust by metis
  have "is_space c" using hd_dropWhile [of "\<lambda>c. \<not> is_space c" s] 2 rest by (metis list.sel(1))
  then have "length (dropWhile is_space rest) < length rest"
    by (simp add: rest le_imp_less_Suc length_dropWhile_le)
  with 2 show ?case using length_dropWhile_le [of "\<lambda>c. \<not> is_space c" s] by simp
qed simp

declare split_spaces.simps [simp del]

definition weekdayAliases :: cron_aliases where
  "weekdayAliases =
     [(''sun'', 0), (''mon'', 1), (''tue'', 2), (''wed'', 3), (''thu'', 4), (''fri'', 5), (''sat'', 6), (''7'', 0)]"

text \<open>One conjunct of the result: the field is only read when the ones before it match.\<close>

definition and_field ::
    "string \<Rightarrow> int \<Rightarrow> int \<Rightarrow> cron_aliases \<Rightarrow> int option \<Rightarrow> bool throws \<Rightarrow> bool throws" where
  "and_field field lo hi aliases value rest =
     and_then (normalizeCronField field lo hi aliases) (\<lambda>f. if cron_matches f value then rest else Inr False)"

definition matchesCronExpression :: "string \<Rightarrow> jsnum \<Rightarrow> bool throws" where
  "matchesCronExpression cronExpression ms =
     (let now = utc_of ms
      in case split_spaces (trim cronExpression) of
           [minute, hour, dayOfMonth, month, dayOfWeek] \<Rightarrow>
             and_field minute 0 59 [] (map_option ut_minutes now)
             (and_field hour 0 23 [] (map_option ut_hours now)
             (and_field dayOfMonth 1 31 [] (map_option ut_date now)
             (and_field month 1 12 [] (map_option ut_month now)
             (and_field dayOfWeek 0 6 weekdayAliases (map_option ut_day now) (Inr True)))))
         | _ \<Rightarrow> Inl (ErrorMsg (''Unsupported cron expression: '' @ cronExpression)))"

text \<open>The same year, month, day, hour and minute; an invalid date is the same as nothing.\<close>

definition sameCronMinute :: "jsv \<Rightarrow> jsv \<Rightarrow> bool" where
  "sameCronMinute left right =
     (case (utc_of (date_of (orelse left (JNum (Fin 0)))), utc_of (date_of (orelse right (JNum (Fin 0))))) of
        (Some l, Some r) \<Rightarrow>
          ut_year l = ut_year r \<and> ut_month l = ut_month r \<and> ut_date l = ut_date r
          \<and> ut_hours l = ut_hours r \<and> ut_minutes l = ut_minutes r
      | _ \<Rightarrow> False)"

section \<open>Facts\<close>

lemma cron_range_set:
  assumes "0 < step"
  shows "set (cron_range v until step) = {w. v \<le> w \<and> w \<le> until \<and> (w - v) mod step = 0}"
  using assms
proof (induction v until step rule: cron_range.induct)
  case (1 v until step)
  show ?case
  proof (cases "until < v")
    case True
    then show ?thesis by (subst cron_range.simps) auto
  next
    case False
    have "(w - (v + step)) mod step = (w - v) mod step" for w
      by (metis diff_diff_eq minus_mod_self2)
    moreover have "w = v \<or> v + step \<le> w" if "v \<le> w" "(w - v) mod step = 0" for w
      using that 1(2) zmod_trivial_iff [of "w - v" step] by (cases "w - v < step") auto
    ultimately show ?thesis
      using 1 False by (subst cron_range.simps) force
  qed
qed

lemma cronValue_bounds: "cronValue token aliases lo hi = Inr v \<Longrightarrow> lo \<le> v \<and> v \<le> hi"
  by (auto simp: cronValue_def Let_def split: option.splits if_splits)

lemma cron_part_bounds:
  assumes "cron_part part lo hi aliases = Inr vs" "w \<in> set vs"
  shows "lo \<le> w \<and> w \<le> hi"
proof -
  from assms(1) obtain a b k where "vs = cron_range a b k" "0 < k" "lo \<le> a" "b \<le> hi"
    by (auto simp: cron_part_def Let_def and_then_Inr split: option.splits if_splits prod.splits
        dest!: cronValue_bounds)
  with assms(2) show ?thesis using cron_range_set by auto
qed

lemma normalizeCronField_bounds:
  assumes "normalizeCronField field lo hi aliases = Inr (Values vs)" "v \<in> set vs"
  shows "lo \<le> v \<and> v \<le> hi"
proof -
  from assms(1) obtain parts where parts:
    "map_throws (\<lambda>part. cron_part part lo hi aliases) (split_on (CHR '','') (lowercase (trim field))) = Inr parts"
    "vs = concat parts"
    by (auto simp: normalizeCronField_def Let_def and_then_Inr split: if_splits)
  with assms(2) obtain part where "part \<in> set parts" "v \<in> set part" by auto
  with map_throws_elem [OF parts(1)] cron_part_bounds show ?thesis by blast
qed

lemma weekly_fields:
  "split_spaces (trim ''0 0 * * 1'') = [''0'', ''0'', ''*'', ''*'', ''1'']"
  "normalizeCronField ''0'' 0 59 [] = Inr (Values [0])"
  "normalizeCronField ''0'' 0 23 [] = Inr (Values [0])"
  "normalizeCronField ''*'' lo hi [] = Inr AnyValue"
  "normalizeCronField ''1'' 0 6 weekdayAliases = Inr (Values [1])"
  by code_simp+

lemma thursday: "(q + 4) mod 7 = 1 \<longleftrightarrow> q mod 7 = 4" for q :: int
  by presburger

lemma weekly_minute:
  fixes m :: int
  shows "m mod 60 = 0 \<and> m div 60 mod 24 = 0 \<and> (m div 60 div 24 + 4) mod 7 = 1 \<longleftrightarrow> m mod 10080 = 5760"
proof -
  have a: "m mod 1440 = 60 * (m div 60 mod 24) + m mod 60"
    using zmod_zmult2_eq [of 24 m 60] by simp
  have b: "m mod 10080 = 1440 * (m div 60 div 24 mod 7) + m mod 1440"
    using zmod_zmult2_eq [of 7 m 1440] zdiv_zmult2_eq [of 24 m 60] by simp
  have digits: "r = 0 \<and> p = 0 \<and> q = 4 \<longleftrightarrow> 1440 * q + (60 * p + r) = 5760"
    if "0 \<le> r" "r < 60" "0 \<le> p" "p < 24" for p q r :: int
  proof
    assume e: "1440 * q + (60 * p + r) = 5760"
    have "\<not> q \<le> 3" "\<not> 5 \<le> q" using e that by linarith+
    then have "q = 4" by linarith
    moreover from this e that have "p = 0" by linarith
    ultimately show "r = 0 \<and> p = 0 \<and> q = 4" using e by simp
  qed simp
  show ?thesis
    unfolding thursday b a by (rule digits) simp_all
qed

lemma utc_of_minute:
  assumes "m = \<lfloor>x\<rfloor> div 60000" "civil_from_days (m div 60 div 24) = (y, mo, d)"
  shows "utc_of (Fin x) = Some \<lparr>ut_year = y, ut_month = mo, ut_date = d, ut_day = (m div 60 div 24 + 4) mod 7,
    ut_hours = m div 60 mod 24, ut_minutes = m mod 60\<rparr>"
proof -
  have "\<lfloor>x\<rfloor> div 3600000 = m div 60" "\<lfloor>x\<rfloor> div ms_per_day = m div 60 div 24"
    using zdiv_zmult2_eq [of 60 "\<lfloor>x\<rfloor>" 60000] zdiv_zmult2_eq [of 24 "\<lfloor>x\<rfloor>" 3600000]
    by (simp_all add: ms_per_day_def assms(1))
  then show ?thesis
    using assms(2) by (simp only: utc_of_def Let_def jsnum.case prod.case assms(1) [symmetric])
qed

text \<open>
  The committed schedule fires at every instant of the minute that begins a Monday in UTC,
  and at no other: minute 5,760 of the 10,080 minutes of the week that began on a Thursday with
  the epoch.
\<close>

lemma weekly_schedule:
  "matchesCronExpression ''0 0 * * 1'' (Fin x) = Inr (\<lfloor>x\<rfloor> div 60000 mod 10080 = 5760)"
proof -
  define m where "m = \<lfloor>x\<rfloor> div 60000"
  obtain y mo d where c: "civil_from_days (m div 60 div 24) = (y, mo, d)" by (metis prod_cases3)
  have "matchesCronExpression ''0 0 * * 1'' (Fin x)
      = Inr (m mod 60 = 0 \<and> m div 60 mod 24 = 0 \<and> (m div 60 div 24 + 4) mod 7 = 1)"
    unfolding matchesCronExpression_def Let_def weekly_fields(1) list.case utc_of_minute [OF m_def c] option.map
      utc_parts.select_convs and_field_def weekly_fields and_then_simps
    by (simp only: cron_matches.simps list.set insert_iff empty_iff simp_thms if_True split: if_splits) simp
  then show ?thesis by (simp only: weekly_minute m_def)
qed

lemma sameCronMinute_iff:
  assumes "date_of (orelse left (JNum (Fin 0))) = Fin x" "date_of (orelse right (JNum (Fin 0))) = Fin y"
  shows "sameCronMinute left right \<longleftrightarrow> \<lfloor>x\<rfloor> div 60000 = \<lfloor>y\<rfloor> div 60000"
proof -
  define m n where mn: "m = \<lfloor>x\<rfloor> div 60000" "n = \<lfloor>y\<rfloor> div 60000"
  obtain a b c where l: "civil_from_days (m div 60 div 24) = (a, b, c)" by (metis prod_cases3)
  obtain a' b' c' where r: "civil_from_days (n div 60 div 24) = (a', b', c')" by (metis prod_cases3)
  have same: "sameCronMinute left right \<longleftrightarrow> (a, b, c) = (a', b', c')
      \<and> m div 60 mod 24 = n div 60 mod 24 \<and> m mod 60 = n mod 60"
    unfolding sameCronMinute_def assms utc_of_minute [OF mn(1) l] utc_of_minute [OF mn(2) r] by auto
  have day: "(a, b, c) = (a', b', c') \<longleftrightarrow> m div 60 div 24 = n div 60 div 24"
    using civil_from_days_inject [of "m div 60 div 24" "n div 60 div 24"] l r by metis
  have "m = n" if "m div 60 div 24 = n div 60 div 24" "m div 60 mod 24 = n div 60 mod 24" "m mod 60 = n mod 60"
    using that by (metis div_mult_mod_eq)
  then show ?thesis unfolding same day mn(1) [symmetric] mn(2) [symmetric] by blast
qed

end
