(* ===== verification/PaybackComposite.thy ===== *)
theory PaybackComposite
  imports PaybackDecision
begin

text \<open>
  From a decision to the steps that carry it out (src/src/executor/payback/scheduler.mjs):
  buildCompositePaybackPlan (swap, bridge, off-ramp, the cost and the net amount),
  buildPreMinimumPaybackCostPreview and the dry-run formula.

  What the source takes as injected functions (the signer's health, the builders of the three
  plans, the environment) is a record of arguments; each may throw. A plan is an object. The
  health reader may fail with a message.
\<close>

section \<open>Services\<close>

record plan_services =
  sv_signerHealth :: "string + jsv"
  sv_getEnv :: "jsv \<Rightarrow> jsv"
  sv_tokenDexPlan :: "fields \<Rightarrow> fields throws"
  sv_consolidationPlan :: "fields \<Rightarrow> fields throws"
  sv_offrampPlan :: "fields \<Rightarrow> fields throws"
  sv_offrampQuote :: "fields \<Rightarrow> fields throws"

section \<open>Cost\<close>

definition estimateCompositeCostSats :: "fields option \<Rightarrow> fields option \<Rightarrow> fields \<Rightarrow> jsnum option \<Rightarrow> jsnum" where
  "estimateCompositeCostSats swapPlan bridgePlan offrampPlan btcUsd =
     (let swapCost = (case swapPlan of
            Some plan \<Rightarrow>
              if truthy (fld plan ''quote'')
              then let inputUsd = payFiniteNumber (dots (JObj plan) [''quote'', ''inputValueUsd'']);
                       outputUsd = payFiniteNumber (dots (JObj plan) [''quote'', ''outputValueUsd'']);
                       swapCostUsd = (case (inputUsd, outputUsd) of
                           (Some i, Some u) \<Rightarrow> jmax (Fin 0) (jsub i u) | _ \<Rightarrow> Fin 0)
                   in num0 (usdToSats (if is_fin swapCostUsd then Some swapCostUsd else None) btcUsd)
              else Fin 0
          | None \<Rightarrow> Fin 0);
          bridge = (case bridgePlan of Some plan \<Rightarrow> JObj plan | None \<Rightarrow> JNull);
          bridgeFees = jsum (List.map_filter finiteNonNegative
            [dots bridge [''quote'', ''fees'', ''amount''], dots bridge [''quote'', ''executionFees'', ''amount'']]);
          offrampFees = num0 (finiteNonNegative (dots (JObj offrampPlan) [''quote'', ''fees'', ''amount'']))
      in jadd (jadd (jadd (Fin 0) swapCost) bridgeFees) offrampFees)"

section \<open>The stages of a composite plan\<close>

text \<open>A stage either stops with a status and a reason, or goes on with a value.\<close>

datatype 'a stage = Halt string string | Go 'a

definition next_stage :: "'a stage throws \<Rightarrow> ('a \<Rightarrow> 'b stage throws) \<Rightarrow> 'b stage throws" where
  "next_stage m k = and_then m (\<lambda>s. case s of Halt status reason \<Rightarrow> Inr (Halt status reason) | Go v \<Rightarrow> k v)"

definition same_token :: "jsv \<Rightarrow> jsv \<Rightarrow> bool" where
  "same_token a b \<longleftrightarrow> lowercase (to_str a) = lowercase (to_str b)"

definition or_unknown :: "jsv \<Rightarrow> string" where
  "or_unknown v = to_str (orelse v (JStr ''unknown''))"

text \<open>The wrapped-Bitcoin token of the route: the reserve's, or the default.\<close>

definition route_token :: "jsv \<Rightarrow> jsv" where
  "route_token reserve = orelse (dot reserve ''routeSideToken'') (JStr WBTC_OFT_TOKEN)"

text \<open>The swap into the route's token, when the reserve holds another: the plan, and the amount to bridge.\<close>

definition swap_stage ::
    "plan_services \<Rightarrow> payback_policy \<Rightarrow> jsv \<Rightarrow> jsv \<Rightarrow> jsv \<Rightarrow> (fields option \<times> jsv) stage throws" where
  "swap_stage sv policy reserve senderAddress now =
     (let reserveToken = dot reserve ''inputToken''; routeSideToken = route_token reserve
      in if same_token (orelse reserveToken (JStr [])) routeSideToken
         then Inr (Go (None, dot reserve ''amount''))
         else if \<not> truthy (supportedSwapVenue policy)
         then Inr (Halt ''defer'' (''swap_venue_not_supported:''
           @ to_str (orelse (JStr (to_str (JArr (pl_swapVenueOrdered policy)))) (JStr ''none''))))
         else and_then (sv_tokenDexPlan sv
             [(''chain'', dot reserve ''chain''), (''amount'', dot reserve ''amount''), (''senderAddress'', senderAddress),
              (''inputToken'', reserveToken), (''outputToken'', routeSideToken), (''now'', now)]) (\<lambda>plan.
           if fld plan ''planStatus'' \<noteq> JStr ''ready''
           then Inr (Halt ''defer'' (''swap_plan_blocked:'' @ or_unknown (fld plan ''blockedReason'')))
           else and_then (positiveIntegerString (first_truthy [fld plan ''minimumOutputAmount'',
               dots (JObj plan) [''quote'', ''outputAmount''], dot reserve ''amount'']) ''bridgeInputAmount'') (\<lambda>amount.
             Inr (Go (Some plan, JStr amount)))))"

text \<open>The bridge to the BOB chain, unless the reserve is there already: the plan, and the amount to off-ramp.\<close>

definition bridge_args :: "jsv \<Rightarrow> jsv \<Rightarrow> jsv \<Rightarrow> fields" where
  "bridge_args reserve amount senderAddress =
     [(''srcChain'', dot reserve ''chain''), (''dstChain'', JStr ''bob''), (''srcToken'', route_token reserve),
      (''dstToken'', JStr WBTC_OFT_TOKEN), (''amount'', amount), (''senderAddress'', senderAddress),
      (''recipient'', senderAddress)]"

definition on_bob :: "jsv \<Rightarrow> bool" where
  "on_bob reserve \<longleftrightarrow> dot reserve ''chain'' = JStr ''bob'' \<and> same_token (route_token reserve) (JStr WBTC_OFT_TOKEN)"

definition bridged_amount :: "fields \<Rightarrow> jsv \<Rightarrow> jsv" where
  "bridged_amount plan amount = orelse (dots (JObj plan) [''quote'', ''outputAmount'', ''amount'']) amount"

definition bridge_stage ::
    "plan_services \<Rightarrow> jsv \<Rightarrow> jsv \<Rightarrow> jsv \<Rightarrow> jsv \<Rightarrow> (fields option \<times> jsv) stage throws" where
  "bridge_stage sv reserve bridgeInputAmount senderAddress now =
     (if on_bob reserve then Inr (Go (None, bridgeInputAmount))
      else and_then (sv_consolidationPlan sv (bridge_args reserve bridgeInputAmount senderAddress @ [(''now'', now)]))
        (\<lambda>plan.
          if fld plan ''planStatus'' \<noteq> JStr ''ready'' \<or> \<not> truthy (fld plan ''intent'')
          then Inr (Halt ''defer'' (''composer_bridge_blocked:'' @ or_unknown (fld plan ''blockedReason'')))
          else and_then (positiveIntegerString (bridged_amount plan bridgeInputAmount) ''offrampInputAmount'')
            (\<lambda>amount. Inr (Go (Some plan, JStr amount)))))"

definition offramp_args :: "jsv \<Rightarrow> jsv \<Rightarrow> jsv \<Rightarrow> jsv \<Rightarrow> jsv \<Rightarrow> fields" where
  "offramp_args reserve amount senderAddress recipient now =
     [(''srcChain'', if on_bob reserve then dot reserve ''chain'' else JStr ''bob''),
      (''srcToken'', JStr WBTC_OFT_TOKEN), (''amount'', amount), (''senderAddress'', senderAddress),
      (''recipient'', recipient), (''now'', now)]"

definition offramp_stage ::
    "plan_services \<Rightarrow> jsv \<Rightarrow> jsv \<Rightarrow> jsv \<Rightarrow> jsv \<Rightarrow> jsv \<Rightarrow> fields stage throws" where
  "offramp_stage sv reserve amount senderAddress recipient now =
     and_then (sv_offrampPlan sv (offramp_args reserve amount senderAddress recipient now)) (\<lambda>plan.
       if fld plan ''planStatus'' \<noteq> JStr ''ready'' \<or> \<not> truthy (fld plan ''intent'')
       then Inr (Halt ''defer'' (''gateway_offramp_blocked:'' @ or_unknown (fld plan ''blockedReason'')))
       else Inr (Go plan))"

section \<open>buildCompositePaybackPlan\<close>

record plan_step =
  sp_id :: string
  sp_kind :: string
  sp_plan :: fields

record composite_plan =
  cp_observedAt :: jsv
  cp_recipient :: jsv
  cp_senderAddress :: jsv
  cp_plannedPaybackSats :: jsnum
  cp_estimatedOfframpCostSats :: jsnum
  cp_reserveState :: jsv
  cp_decisionLog :: fields
  cp_route :: fields
  cp_steps :: "plan_step list"

record composite_result =
  cr_status :: string
  cr_reason :: string
  cr_decision :: payback_decision
  cr_compositePlan :: "composite_plan option"

definition with_result :: "payback_decision \<Rightarrow> fields \<Rightarrow> payback_decision" where
  "with_result decision result =
     decision\<lparr>py_decisionLog := set_fld ''result'' (JObj result) (py_decisionLog decision)\<rparr>"

definition composite_route :: "payback_policy \<Rightarrow> jsv \<Rightarrow> fields" where
  "composite_route policy reserve =
     [(''reserveChain'', dot reserve ''chain''), (''reserveToken'', dot reserve ''inputToken''),
      (''routeSideToken'', route_token reserve), (''composerRoute'', pl_composerRoute policy),
      (''offrampStage'', pl_gatewayOfframpStage policy),
      (''bitcoinDestAddressEnv'', pl_bitcoinDestAddressEnv policy)]"

definition composite_steps :: "fields option \<Rightarrow> fields option \<Rightarrow> fields \<Rightarrow> plan_step list" where
  "composite_steps swapPlan bridgePlan offrampPlan =
     (case swapPlan of None \<Rightarrow> []
      | Some p \<Rightarrow> [\<lparr>sp_id = ''destination_reserve_to_wrapped_btc_swap'', sp_kind = ''token_dex_swap'', sp_plan = p\<rparr>])
     @ (case bridgePlan of None \<Rightarrow> []
        | Some p \<Rightarrow> [\<lparr>sp_id = ''layerzero_composer_to_bob'', sp_kind = ''gateway_btc_consolidation'', sp_plan = p\<rparr>])
     @ [\<lparr>sp_id = ''gateway_offramp_to_bitcoin'', sp_kind = ''gateway_btc_offramp'', sp_plan = offrampPlan\<rparr>]"

text \<open>
  The price in the decision: the log's inputs; the snapshot, its indicators and the policy, which
  the source also reads, have no such field.
\<close>

definition decision_btcUsd :: "payback_decision \<Rightarrow> jsnum option" where
  "decision_btcUsd decision = payFiniteNumber (dots (JObj (py_decisionLog decision)) [''inputs'', ''btcUsd''])"

text \<open>Once the three plans are there: the net amount, its checks and the composite plan.\<close>

definition price_composite ::
    "payback_decision \<Rightarrow> jsv \<Rightarrow> jsv \<Rightarrow> fields option \<Rightarrow> fields option \<Rightarrow> fields \<Rightarrow> jsv \<Rightarrow> composite_result" where
  "price_composite decision senderAddress recipient swapPlan bridgePlan offrampPlan now =
     (let policy = py_policy decision; reserve = py_reserveState decision;
          estimatedOfframpCostSats =
            estimateCompositeCostSats swapPlan bridgePlan offrampPlan (decision_btcUsd decision);
          grossTargetBeforeCostsSats = num0 (finiteNonNegative
            (dots (JObj (py_decisionLog decision)) [''applied'', ''grossTargetBeforeCostsSats'']));
          plannedPaybackSats = jmax (Fin 0) (jsub grossTargetBeforeCostsSats estimatedOfframpCostSats)
      in if jlt plannedPaybackSats (pl_minPaybackSats policy)
         then \<lparr>cr_status = ''carry'', cr_reason = ''net_payback_below_minimum'',
               cr_decision = with_result decision
                 [(''status'', JStr ''carry''), (''reason'', JStr ''net_payback_below_minimum''),
                  (''estimatedOfframpCostSats'', JNum estimatedOfframpCostSats),
                  (''plannedPaybackSats'', JNum plannedPaybackSats)],
               cr_compositePlan = None\<rparr>
         else if jlt (jmul plannedPaybackSats (num0 (pl_maxOfframpCostPctOfPayback policy))) estimatedOfframpCostSats
         then \<lparr>cr_status = ''defer'', cr_reason = ''estimated_offramp_cost_too_high'',
               cr_decision = with_result decision
                 [(''status'', JStr ''defer''), (''reason'', JStr ''estimated_offramp_cost_too_high''),
                  (''estimatedOfframpCostSats'', JNum estimatedOfframpCostSats)],
               cr_compositePlan = None\<rparr>
         else let decided = with_result decision
                    [(''status'', JStr ''emit_intents''), (''plannedPaybackSats'', JNum plannedPaybackSats),
                     (''estimatedOfframpCostSats'', JNum estimatedOfframpCostSats),
                     (''grossTargetBeforeCostsSats'', JNum grossTargetBeforeCostsSats)]
              in \<lparr>cr_status = ''ready'', cr_reason = ''emit_intents'', cr_decision = decided,
                  cr_compositePlan = Some
                    \<lparr>cp_observedAt = now, cp_recipient = recipient, cp_senderAddress = senderAddress,
                     cp_plannedPaybackSats = plannedPaybackSats,
                     cp_estimatedOfframpCostSats = estimatedOfframpCostSats,
                     cp_reserveState = reserve, cp_decisionLog = py_decisionLog decided,
                     cp_route = composite_route policy reserve,
                     cp_steps = composite_steps swapPlan bridgePlan offrampPlan\<rparr>\<rparr>)"

definition composite_recipient :: "plan_services \<Rightarrow> payback_decision \<Rightarrow> jsv" where
  "composite_recipient sv decision = orelse (py_recipient decision)
     (sv_getEnv sv (pl_bitcoinDestAddressEnv (py_policy decision)))"

definition buildCompositePaybackPlan :: "plan_services \<Rightarrow> payback_decision \<Rightarrow> jsv \<Rightarrow> composite_result throws" where
  "buildCompositePaybackPlan sv decision now =
     (let halted = (\<lambda>status reason. Inr \<lparr>cr_status = status, cr_reason = reason, cr_decision = decision,
            cr_compositePlan = None\<rparr>);
          policy = py_policy decision; reserve = py_reserveState decision
      in if py_status decision \<noteq> StPlan
         then halted (pay_status_name (py_status decision))
           (to_str (orelse (JStr (py_reason decision)) (JStr ''decision_not_plannable'')))
         else case sv_signerHealth sv of
           Inl message \<Rightarrow> Inl (ErrorMsg message)
         | Inr health \<Rightarrow>
           (let senderAddress = first_truthy [dot reserve ''senderAddress'', dots health [''addresses'', ''base''], JNull];
                recipient = composite_recipient sv decision
            in if \<not> truthy senderAddress then halted ''blocked'' ''signer_base_address_missing''
               else if \<not> truthy recipient then halted ''blocked'' ''payback_btc_destination_missing''
               else if nullish reserve then Inl TypeError
               else and_then
                 (next_stage (swap_stage sv policy reserve senderAddress now) (\<lambda>(swapPlan, bridgeInputAmount).
                  next_stage (bridge_stage sv reserve bridgeInputAmount senderAddress now)
                    (\<lambda>(bridgePlan, offrampInputAmount).
                  next_stage (offramp_stage sv reserve offrampInputAmount senderAddress recipient now) (\<lambda>offrampPlan.
                    Inr (Go (price_composite decision senderAddress recipient swapPlan bridgePlan offrampPlan now))))))
                 (\<lambda>s. case s of Halt status reason \<Rightarrow> halted status reason | Go r \<Rightarrow> Inr r)))"

end
