(* ===== verification/PaybackPreview.thy ===== *)
theory PaybackPreview
  imports PaybackComposite
begin

text \<open>
  What the payback scheduler shows without executing (src/src/executor/payback/scheduler.mjs):
  buildPreMinimumPaybackCostPreview, the cost of a payback that is still below the minimum,
  and the dry-run formula that says how much profit is missing.

  The answers are objects. Every answer of the preview carries executionEligible and
  intentEligible set to false and no composite plan.
\<close>

section \<open>buildPreMinimumPaybackCostPreview\<close>

definition preview_blocked :: "jsv \<Rightarrow> string \<Rightarrow> fields \<Rightarrow> fields" where
  "preview_blocked now reason extra = spread
     [(''schemaVersion'', JNum (Fin 1)), (''observedAt'', now), (''status'', JStr ''blocked''),
      (''reason'', JStr reason), (''executionEligible'', JBool False), (''intentEligible'', JBool False),
      (''compositePlan'', JNull), (''steps'', JArr [])] extra"

definition preview_step :: "string \<Rightarrow> string \<Rightarrow> jsv" where
  "preview_step stepId kind = JObj
     [(''id'', JStr stepId), (''kind'', JStr kind), (''status'', JStr ''preview''), (''intentEligible'', JBool False)]"

text \<open>A quote of the swap: the plan, the amount to bridge and the step.\<close>

definition swap_preview ::
    "plan_services \<Rightarrow> jsv \<Rightarrow> jsv \<Rightarrow> jsv \<Rightarrow> jsv \<Rightarrow> (fields option \<times> jsv \<times> jsv list) stage throws" where
  "swap_preview sv reserve previewInput senderAddress now =
     (let reserveToken = dot reserve ''inputToken''; routeSideToken = route_token reserve
      in if same_token reserveToken routeSideToken then Inr (Go (None, previewInput, []))
         else and_then (sv_tokenDexPlan sv
             [(''chain'', dot reserve ''chain''), (''amount'', dot reserve ''amount''), (''senderAddress'', senderAddress),
              (''inputToken'', reserveToken), (''outputToken'', routeSideToken), (''quoteOnly'', JBool True),
              (''now'', now)]) (\<lambda>plan.
           if fld plan ''planStatus'' \<noteq> JStr ''ready''
           then Inr (Halt [] (''swap_quote_blocked:'' @ or_unknown (fld plan ''blockedReason'')))
           else and_then (positiveIntegerString (first_truthy [fld plan ''minimumOutputAmount'',
               dots (JObj plan) [''quote'', ''outputAmount''], dot reserve ''amount'']) ''bridgeInputAmount'') (\<lambda>amount.
             Inr (Go (Some plan, JStr amount,
               [preview_step ''destination_reserve_to_wrapped_btc_swap'' ''token_dex_swap_quote''])))))"

definition bridge_preview ::
    "plan_services \<Rightarrow> jsv \<Rightarrow> jsv \<Rightarrow> jsv \<Rightarrow> jsv \<Rightarrow> (fields option \<times> jsv \<times> jsv list) stage throws" where
  "bridge_preview sv reserve bridgeInputAmount senderAddress now =
     (if on_bob reserve then Inr (Go (None, bridgeInputAmount, []))
      else and_then (sv_consolidationPlan sv (bridge_args reserve bridgeInputAmount senderAddress
          @ [(''skipPreflight'', JBool True), (''now'', now)])) (\<lambda>plan.
          if fld plan ''planStatus'' \<noteq> JStr ''ready'' \<or> truthy (fld plan ''intent'')
          then Inr (Halt [] (''composer_bridge_quote_blocked:'' @ or_unknown (fld plan ''blockedReason'')))
          else and_then (positiveIntegerString (bridged_amount plan bridgeInputAmount) ''offrampInputAmount'')
            (\<lambda>amount. Inr (Go (Some plan, JStr amount,
              [preview_step ''layerzero_composer_to_bob'' ''gateway_btc_consolidation_quote''])))))"

definition preview_result ::
    "payback_policy \<Rightarrow> jsv \<Rightarrow> jsnum \<Rightarrow> jsnum \<Rightarrow> jsnum \<Rightarrow> jsv list \<Rightarrow> jsv \<Rightarrow> fields" where
  "preview_result policy reserve gross previewInputSats estimatedOfframpCostSats steps now =
     (let requiredGrossBeforeCostsSats = jadd (pl_minPaybackSats policy) estimatedOfframpCostSats
      in [(''schemaVersion'', JNum (Fin 1)), (''observedAt'', now), (''status'', JStr ''preview''),
          (''reason'', JStr ''cost_only_pre_minimum''), (''executionEligible'', JBool False),
          (''intentEligible'', JBool False), (''compositePlan'', JNull),
          (''grossTargetBeforeCostsSats'', JNum gross), (''previewInputSats'', JNum previewInputSats),
          (''minPaybackSats'', JNum (pl_minPaybackSats policy)),
          (''requiredGrossBeforeCostsSats'', JNum requiredGrossBeforeCostsSats),
          (''estimatedOfframpCostSats'', JNum estimatedOfframpCostSats),
          (''estimatedNetPaybackSats'', JNum (jmax (Fin 0) (jsub gross estimatedOfframpCostSats))),
          (''satsToMinimumAfterCosts'', JNum (jmax (Fin 0) (jsub requiredGrossBeforeCostsSats gross))),
          (''route'', JObj (composite_route policy reserve)), (''steps'', JArr steps)])"

definition buildPreMinimumPaybackCostPreview :: "plan_services \<Rightarrow> payback_decision \<Rightarrow> jsv \<Rightarrow> fields throws" where
  "buildPreMinimumPaybackCostPreview sv decision now =
     (let blocked = (\<lambda>reason extra. Inr (preview_blocked now reason extra));
          policy = py_policy decision; reserve = py_reserveState decision
      in if py_status decision \<noteq> StCarry \<or> py_reason decision \<noteq> ''planned_payback_below_minimum''
         then blocked (to_str (orelse (JStr (py_reason decision)) (JStr ''decision_not_pre_minimum'')))
           [(''decisionStatus'', JStr (pay_status_name (py_status decision)))]
         else if \<not> truthy (dot reserve ''chain'') \<or> \<not> truthy (dot reserve ''inputToken'')
         then blocked ''reserve_asset_missing'' []
         else case sv_signerHealth sv of
           Inl message \<Rightarrow> blocked ''signer_health_unavailable'' [(''error'', JStr message)]
         | Inr health \<Rightarrow>
           (let senderAddress = first_truthy [dot reserve ''senderAddress'',
                  index (dot health ''addresses'') (dot reserve ''chain''), dots health [''addresses'', ''base''], JNull];
                recipient = composite_recipient sv decision;
                seen = (\<lambda>k. finiteNonNegative (dots (JObj (py_decisionLog decision)) [k, ''grossTargetBeforeCostsSats'']));
                gross = num0 (opt_coal (seen ''inputs'') (seen ''applied''));
                previewInputSats = jmax (pl_minPaybackSats policy) gross;
                quotes = (\<lambda>steps. [(''grossTargetBeforeCostsSats'', JNum gross),
                  (''previewInputSats'', JNum previewInputSats),
                  (''minPaybackSats'', JNum (pl_minPaybackSats policy)), (''steps'', JArr steps)])
            in if \<not> truthy senderAddress then blocked ''signer_base_address_missing'' []
               else if \<not> truthy recipient then blocked ''payback_btc_destination_missing'' []
               else and_then (swap_preview sv reserve (JStr (num_str previewInputSats)) senderAddress now) (\<lambda>s. case s of
                 Halt status reason \<Rightarrow> blocked reason (quotes [])
               | Go (swapPlan, bridgeInputAmount, steps) \<Rightarrow>
               and_then (bridge_preview sv reserve bridgeInputAmount senderAddress now) (\<lambda>s. case s of
                 Halt status reason \<Rightarrow> blocked reason (quotes steps)
               | Go (bridgePlan, offrampInputAmount, bridgeSteps) \<Rightarrow>
               and_then (sv_offrampQuote sv (offramp_args reserve offrampInputAmount senderAddress recipient now))
                 (\<lambda>plan.
                   if fld plan ''planStatus'' \<noteq> JStr ''ready'' \<or> truthy (fld plan ''intent'') \<or> truthy (fld plan ''order'')
                   then blocked (''gateway_offramp_quote_blocked:'' @ or_unknown (fld plan ''blockedReason''))
                     (quotes (steps @ bridgeSteps))
                   else Inr (preview_result policy reserve gross previewInputSats
                     (estimateCompositeCostSats swapPlan bridgePlan plan None)
                     (steps @ bridgeSteps @ [preview_step ''gateway_offramp_to_bitcoin'' ''gateway_btc_offramp_quote'']) now))))))"

section \<open>The dry run\<close>

definition buildPaybackDryRunFormula :: "payback_decision \<Rightarrow> composite_plan option \<Rightarrow> fields option \<Rightarrow> fields" where
  "buildPaybackDryRunFormula decision compositePlan preMinimumPreview =
     (let policy = py_policy decision; snap = py_snapshot decision;
          inputs = orelse (fld (py_decisionLog decision) ''inputs'') (JObj []);
          applied = orelse (fld (py_decisionLog decision) ''applied'') inputs;
          num = (\<lambda>v d. opt_default v d);
          gross = num (opt_coal (finiteNonNegative (dot inputs ''grossProfitSatsPeriod''))
            (finiteNonNegative (JNum (ps_grossProfitSats_period snap)))) (Fin 0);
          pendingSats = num (finiteNonNegative (JNum (ps_pendingDeferredSats snap))) gross;
          baseRatio = num (opt_coal (payFiniteNumber (dot applied ''baseRatio'')) (pl_baseRatio policy)) (Fin 0);
          regimeMultiplier = num (payFiniteNumber (dot applied ''regimeMultiplier'')) (Fin 1);
          volMultiplier = num (payFiniteNumber (dot applied ''volMultiplier'')) (Fin 1);
          effectiveMultiplier = jmul (jmul baseRatio regimeMultiplier) volMultiplier;
          minPaybackSats = finiteNonNegative (JNum (pl_minPaybackSats policy));
          cost = num0 (opt_coal (case compositePlan of
              Some plan \<Rightarrow> finiteNonNegative (JNum (cp_estimatedOfframpCostSats plan)) | None \<Rightarrow> None)
            (case preMinimumPreview of
              Some preview \<Rightarrow> finiteNonNegative (fld preview ''estimatedOfframpCostSats'') | None \<Rightarrow> None));
          requiredBefore = map_option (\<lambda>m. jadd m cost) minPaybackSats;
          requiredProfit = (case finite_some requiredBefore of
              Some r \<Rightarrow> if jlt (Fin 0) effectiveMultiplier then Some (jceil (jdiv r effectiveMultiplier)) else None
            | None \<Rightarrow> None);
          target = num (opt_coal (finiteNonNegative (dot applied ''grossTargetBeforeCostsSats''))
            (finiteNonNegative (dot inputs ''grossTargetBeforeCostsSats''))) (jround (jmul gross effectiveMultiplier));
          planned = num (case compositePlan of
              Some plan \<Rightarrow> finiteNonNegative (JNum (cp_plannedPaybackSats plan)) | None \<Rightarrow> None)
            (jmax (Fin 0) (jsub target cost))
      in [(''mode'', JStr ''dry_run''), (''deliveryCandidate'', JBool (compositePlan \<noteq> None)),
          (''executionEligible'', JBool False), (''intentEligible'', JBool False),
          (''effectiveMinPaybackSats'', num_or_null minPaybackSats),
          (''pendingSats'', JNum pendingSats),
          (''pendingProgressRatio'', case minPaybackSats of
             Some m \<Rightarrow> if jlt (Fin 0) m then JNum (jdiv pendingSats m) else JNull | None \<Rightarrow> JNull),
          (''grossProfitSatsPeriod'', JNum gross),
          (''grossTargetBeforeCostsSats'', JNum target),
          (''plannedPaybackSats'', JNum planned),
          (''estimatedOfframpCostSats'', JNum cost),
          (''minPaybackPctOfCapital'', num_or_null (payFiniteNumber (JNum (pl_minPaybackPctOfCapital policy)))),
          (''absoluteFloorSats'', num_or_null (finiteNonNegative (JNum (pl_absoluteFloorSats policy)))),
          (''operatingCapitalSats'', num_or_null (pl_operatingCapitalSats policy)),
          (''candidateFormula'', JObj
            [(''expression'', JStr ''grossProfitSatsPeriod * baseRatio * regimeMultiplier * volMultiplier - estimatedOfframpCostSats >= effectiveMinPaybackSats''),
             (''baseRatio'', JNum baseRatio),
             (''regime'', orelse (dot applied ''regime'') JNull),
             (''regimeMultiplier'', JNum regimeMultiplier),
             (''volMultiplier'', JNum volMultiplier),
             (''effectiveMultiplier'', JNum effectiveMultiplier),
             (''requiredGrossBeforeCostsSats'', num_or_null requiredBefore),
             (''requiredGrossProfitSatsPeriod'', num_or_null requiredProfit),
             (''additionalGrossProfitSatsNeeded'', case finite_some requiredProfit of
                Some r \<Rightarrow> JNum (jmax (Fin 0) (jsub r gross)) | None \<Rightarrow> JNull)])])"

definition buildPaybackDryRunPreview :: "plan_services \<Rightarrow> payback_decision \<Rightarrow> jsv \<Rightarrow> fields throws" where
  "buildPaybackDryRunPreview sv decision now =
     and_then (if py_status decision = StCarry \<and> py_reason decision = ''planned_payback_below_minimum''
         then and_then (buildPreMinimumPaybackCostPreview sv decision now) (\<lambda>p. Inr (Some p))
         else Inr None) (\<lambda>preMinimumPreview.
       Inr (buildPaybackDryRunFormula decision None preMinimumPreview
         @ [(''preMinimumCompositePreview'', case preMinimumPreview of Some p \<Rightarrow> JObj p | None \<Rightarrow> JNull)]))"

end
