(* ===== verification/ProofManifest.thy ===== *)
theory ProofManifest
  imports JsJson PaybackLedger
begin

text \<open>
  src/src/proof/manifest.mjs: the public manifest of a proof. It is refused when any key, at any
  depth, looks like secret material, and carries the SHA-256 digest of its canonical text.

  Object keys are listed in insertion order, so keys are taken not to be array indices.
\<close>

section \<open>Canonical text\<close>

fun sortedObject :: "jsv \<Rightarrow> jsv" where
  "sortedObject (JArr xs) = JArr (List.map sortedObject xs)"
| "sortedObject (JObj fs) = JObj (sort_key fst (List.map (\<lambda>(k, v). (k, sortedObject v)) fs))"
| "sortedObject v = v"

definition canonicalJson :: "jsv \<Rightarrow> string option" where
  "canonicalJson value = json_stringify (sortedObject value)"

section \<open>Forbidden keys\<close>

definition forbidden_key :: "string \<Rightarrow> bool" where
  "forbidden_key key = list_ex (\<lambda>word. str_includes word (lowercase key))
     [''privatekey'', ''mnemonic'', ''signedtx'', ''rawtransaction'', ''secret'', ''apikey'', ''password'']"

text \<open>\<open>`${path}.${key}`.replace(/^\./u, "")\<close>\<close>

definition child_path :: "string \<Rightarrow> string \<Rightarrow> string" where
  "child_path path key = (case path @ ''.'' @ key of c # rest \<Rightarrow> if c = CHR ''.'' then rest else c # rest | [] \<Rightarrow> [])"

text \<open>The path of the first forbidden key, which the error names.\<close>

fun first_of :: "'a option list \<Rightarrow> 'a option" where
  "first_of [] = None"
| "first_of (Some x # xs) = Some x"
| "first_of (None # xs) = first_of xs"

lemma first_of_None: "first_of xs = None \<longleftrightarrow> set xs \<subseteq> {None}"
  by (induction xs rule: first_of.induct) auto

function forbidden_path :: "jsv \<Rightarrow> string \<Rightarrow> string option" where
  "forbidden_path (JArr xs) path =
     first_of (List.map (\<lambda>(i, item). forbidden_path item (child_path path (nat_str (int i)))) (zip [0..<length xs] xs))"
| "forbidden_path (JObj fs) path =
     first_of (List.map (\<lambda>(key, child).
       if forbidden_key key then Some (child_path path key) else forbidden_path child (child_path path key)) fs)"
| "forbidden_path JUndef path = None"
| "forbidden_path JNull path = None"
| "forbidden_path (JBool b) path = None"
| "forbidden_path (JNum n) path = None"
| "forbidden_path (JStr s) path = None"
  by pat_completeness auto
termination
proof (relation "measure (\<lambda>(v, path). size v)", goal_cases)
  case (2 xs path z i item)
  then have "item \<in> set xs" by (auto dest: set_zip_rightD)
  then show ?case by (auto simp: less_Suc_eq_le intro: size_list_estimation')
next
  case (3 fs path z key child)
  then have "(key, child) \<in> set fs" by simp
  then have "size child < Suc (size_list (size_prod (\<lambda>x. 0) size) fs)"
    by (induction fs) auto
  then show ?case by simp
qed simp

definition assertNoForbiddenKeys :: "jsv \<Rightarrow> unit throws" where
  "assertNoForbiddenKeys value =
     (case forbidden_path value [] of
        Some p \<Rightarrow> Inl (ErrorMsg (''proof_manifest_forbidden_field: '' @ p)) | None \<Rightarrow> Inr ())"

section \<open>buildProofManifest\<close>

definition given :: "fields \<Rightarrow> string \<Rightarrow> jsv \<Rightarrow> jsv" where
  "given args k dflt = (if fld args k = JUndef then dflt else fld args k)"

definition manifest_payload :: "jsv \<Rightarrow> fields \<Rightarrow> fields" where
  "manifest_payload clock args =
     [(''schemaVersion'', JNum (Fin 1)), (''kind'', fld args ''kind''),
      (''observedAt'', given args ''observedAt'' clock),
      (''sourcePointers'', given args ''sourcePointers'' (JArr [])),
      (''artifacts'', given args ''artifacts'' (JArr [])),
      (''redactions'', given args ''redactions'' (JArr [])),
      (''verdict'', given args ''verdict'' (JObj [])),
      (''rawArtifactPublished'', JBool False)]"

definition buildProofManifest :: "jsv \<Rightarrow> fields \<Rightarrow> fields throws" where
  "buildProofManifest clock args =
     (if \<not> truthy (fld args ''kind'') then Inl (ErrorMsg ''proof_manifest_kind_required'')
      else let payload = manifest_payload clock args
           in and_then (assertNoForbiddenKeys (JObj payload)) (\<lambda>_.
             Inr (payload @ [(''manifestHash'',
               JStr (''sha256:'' @ sha256_hex (opt_default (canonicalJson (JObj payload)) [])))])))"

section \<open>What a manifest never holds\<close>

text \<open>Every key of a value, at any depth.\<close>

fun keys_deep :: "jsv \<Rightarrow> string set" where
  "keys_deep (JArr xs) = (\<Union>x\<in>set xs. keys_deep x)"
| "keys_deep (JObj fs) = (\<Union>(k, v)\<in>set fs. insert k (keys_deep v))"
| "keys_deep v = {}"

lemma forbidden_path_None:
  "forbidden_path v path = None \<Longrightarrow> k \<in> keys_deep v \<Longrightarrow> \<not> forbidden_key k"
proof (induction v path rule: forbidden_path.induct)
  case (1 xs path)
  from 1(3) obtain x where x: "x \<in> set xs" "k \<in> keys_deep x" by auto
  then obtain i where i: "(i, x) \<in> set (zip [0..<length xs] xs)"
    by (metis in_set_impl_in_set_zip2 length_upt minus_nat.diff_0)
  with 1(2) have "forbidden_path x (child_path path (nat_str (int i))) = None"
    by (force simp: first_of_None)
  with 1(1) [OF i] x(2) show ?case by auto
next
  case (2 fs path)
  from 2(3) obtain key child where x: "(key, child) \<in> set fs" "k = key \<or> k \<in> keys_deep child" by auto
  with 2(2) have none: "(if forbidden_key key then Some (child_path path key)
      else forbidden_path child (child_path path key)) = None"
    by (force simp: first_of_None)
  then have "\<not> forbidden_key key" "forbidden_path child (child_path path key) = None" by (auto split: if_splits)
  with 2(1) [OF x(1)] x(2) show ?case by auto
qed auto

text \<open>C12: A proof manifest that is built holds no key, at any depth of what was given for it, that
  contains privateKey, mnemonic, signedTx, rawTransaction, secret, apiKey or password in any case;
  it is stamped with the digest of its own canonical text.
\<close>

theorem proof_manifest_sound:
  assumes "buildProofManifest clock args = Inr m"
  shows "(\<forall>k\<in>keys_deep (JObj m). \<not> forbidden_key k)
    \<and> (\<exists>payload text. m = payload @ [(''manifestHash'', JStr (''sha256:'' @ sha256_hex text))]
      \<and> canonicalJson (JObj payload) = Some text)"
proof -
  let ?payload = "manifest_payload clock args"
  let ?hash = "(''manifestHash'', JStr (''sha256:'' @ sha256_hex (opt_default (canonicalJson (JObj ?payload)) [])))"
  from assms(1) have m: "m = ?payload @ [?hash]" and ok: "forbidden_path (JObj ?payload) [] = None"
    by (auto simp: buildProofManifest_def Let_def and_then_Inr assertNoForbiddenKeys_def split: if_splits option.splits)
  have "k \<in> keys_deep (JObj ?payload) \<or> k = ''manifestHash''" if "k \<in> keys_deep (JObj m)" for k
    using that unfolding m by auto
  moreover have "forbidden_key ''manifestHash'' = False" by code_simp
  ultimately have "\<forall>k\<in>keys_deep (JObj m). \<not> forbidden_key k" using forbidden_path_None [OF ok] by blast
  moreover have "\<exists>payload text. m = payload @ [(''manifestHash'', JStr (''sha256:'' @ sha256_hex text))]
      \<and> canonicalJson (JObj payload) = Some text"
    using m by (intro exI [of _ ?payload]) (simp add: canonicalJson_def opt_default_def)
  ultimately show ?thesis by blast
qed

definition sample_manifest_args :: fields where
  "sample_manifest_args =
     [(''kind'', JStr ''payback_disbursement''), (''observedAt'', JStr ''2026-04-27T00:00:00.000Z''),
      (''sourcePointers'', JArr [JObj [(''kind'', JStr ''bitcoin_tx''), (''id'', JStr ''ab'')]]),
      (''verdict'', JObj [(''settlementStatus'', JStr ''delivered'')])]"

lemma proof_manifest_sound_witness:
  "\<exists>m. buildProofManifest JNull sample_manifest_args = Inr m \<and> ((\<forall>k\<in>keys_deep (JObj m). \<not> forbidden_key k)
    \<and> (\<exists>payload text. m = payload @ [(''manifestHash'', JStr (''sha256:'' @ sha256_hex text))]
      \<and> canonicalJson (JObj payload) = Some text))"
proof -
  have "forbidden_path (JObj (manifest_payload JNull sample_manifest_args)) [] = None" by code_simp
  moreover have "truthy (fld sample_manifest_args ''kind'')" by (simp add: sample_manifest_args_def fld_def)
  ultimately obtain m where m: "buildProofManifest JNull sample_manifest_args = Inr m"
    by (simp add: buildProofManifest_def Let_def assertNoForbiddenKeys_def)
  with proof_manifest_sound [OF m] show ?thesis by blast
qed

end
