(* ===== verification/PaybackScheduler.thy ===== *)
theory PaybackScheduler
  imports PaybackPreview PaybackCron ProofManifest
begin

text \<open>
  Carrying out a payback (src/src/executor/payback/scheduler.mjs): submitCompositePaybackPlan,
  the record of the disbursement, one tick of the scheduler, and its loop.

  The executors of the three kinds of step are arguments and may throw; since an executor that was
  called may have moved funds, whether it then returned or threw, a submission keeps the steps whose
  executor was called beside its answer. The loop is followed over any finite number of polls.
\<close>

section \<open>buildPaybackDisbursementRecord\<close>

record step_result =
  sr_id :: string
  sr_kind :: string
  sr_execution :: jsv

definition firstPresent :: "jsv \<Rightarrow> string list \<Rightarrow> jsv" where
  "firstPresent target paths =
     (case List.find (\<lambda>v. \<not> nullish v \<and> v \<noteq> JStr [])
         (List.map (\<lambda>path. dots target (split_on (CHR ''.'') path)) paths) of
        Some v \<Rightarrow> v | None \<Rightarrow> JNull)"

definition sumBigIntishSats :: "jsv list \<Rightarrow> jsnum" where
  "sumBigIntishSats vs = jsum (List.map_filter finiteNonNegative vs)"

definition step_of_kind :: "step_result list \<Rightarrow> string \<Rightarrow> jsv" where
  "step_of_kind stepResults kind =
     (case List.find (\<lambda>s. sr_kind s = kind) stepResults of
        Some s \<Rightarrow> JObj [(''id'', JStr (sr_id s)), (''kind'', JStr (sr_kind s)), (''execution'', sr_execution s)]
      | None \<Rightarrow> JNull)"

text \<open>\<open>steps.2.plan.order.orderId\<close> of the composite plan: the third step, when there is one\<close>

definition third_step_order :: "composite_plan \<Rightarrow> jsv" where
  "third_step_order cp =
     (if 2 < length (cp_steps cp)
      then let v = dots (JObj (sp_plan (cp_steps cp ! 2))) [''order'', ''orderId'']
           in if \<not> nullish v \<and> v \<noteq> JStr [] then v else JNull
      else JNull)"

text \<open>What the execution of the off-ramp shows.\<close>

record delivery =
  dl_settledBalanceDeltaSats :: "jsnum option"
  dl_bitcoinTxid :: jsv
  dl_gatewayOrderId :: jsv
  dl_sourceTxHash :: jsv
  dl_settlementStatus :: jsv
  dl_realizedRoundTripCostSats :: jsnum

definition delivery_of :: "composite_plan \<Rightarrow> step_result list \<Rightarrow> delivery" where
  "delivery_of cp stepResults =
     (let offrampExecution = orelse (dot (step_of_kind stepResults ''gateway_btc_offramp'') ''execution'') JNull;
          consolidationStep = step_of_kind stepResults ''gateway_btc_consolidation'';
          swapStep = step_of_kind stepResults ''token_dex_swap''
      in \<lparr>dl_settledBalanceDeltaSats = payFiniteNumber (firstPresent offrampExecution
            [''destinationProof.observedDelta'', ''destinationProof.deltaSats'', ''destinationProof.balanceDelta'']),
          dl_bitcoinTxid = firstPresent offrampExecution [''destinationProof.txid'', ''destinationProof.bitcoinTxid''],
          dl_gatewayOrderId = orelse (firstPresent offrampExecution
            [''plan.order.orderId'', ''plan.intent.metadata.gatewayOrderId'']) (third_step_order cp),
          dl_sourceTxHash = firstPresent offrampExecution [''signerResult.broadcast.txHash''],
          dl_settlementStatus = orelse (firstPresent offrampExecution [''settlementStatus''])
            (JStr ''source_confirmed_only''),
          dl_realizedRoundTripCostSats = sumBigIntishSats
            [firstPresent swapStep [''execution.realized.realizedNetCostSats''],
             firstPresent swapStep [''execution.realized.realizedGasCostSats''],
             firstPresent consolidationStep [''execution.realized.realizedNetCostSats''],
             firstPresent consolidationStep [''execution.realized.realizedGasCostSats''],
             firstPresent offrampExecution [''realized.realizedNetCostSats''],
             firstPresent offrampExecution [''realized.realizedGasCostSats''],
             firstPresent offrampExecution [''plan.quote.fees.amount'']]\<rparr>)"

definition receipt_complete :: "delivery \<Rightarrow> bool" where
  "receipt_complete dl \<longleftrightarrow> truthy (dl_sourceTxHash dl) \<and> truthy (dl_gatewayOrderId dl) \<and> truthy (dl_bitcoinTxid dl)
     \<and> dl_settlementStatus dl = JStr ''delivered'' \<and> dl_settledBalanceDeltaSats dl \<noteq> None"

definition disbursement_manifest_args :: "composite_plan \<Rightarrow> delivery \<Rightarrow> jsv \<Rightarrow> fields" where
  "disbursement_manifest_args cp dl now =
     [(''kind'', JStr ''payback_disbursement''), (''observedAt'', now),
      (''sourcePointers'', JArr
        [JObj [(''kind'', JStr ''source_tx''), (''id'', dl_sourceTxHash dl),
               (''chain'', orelse (fld (cp_route cp) ''reserveChain'') JNull)],
         JObj [(''kind'', JStr ''gateway_order''), (''id'', dl_gatewayOrderId dl)],
         JObj [(''kind'', JStr ''bitcoin_tx''), (''id'', dl_bitcoinTxid dl)]]),
      (''artifacts'', JArr [JObj [(''kind'', JStr ''destination_proof''), (''sha256'', JNull), (''path'', JNull)]]),
      (''redactions'', JArr [JStr ''raw_wallet_inventory'', JStr ''raw_signed_transactions'']),
      (''verdict'', JObj
        [(''settlementStatus'', dl_settlementStatus dl), (''receiptComplete'', JBool (receipt_complete dl)),
         (''settledBalanceDeltaSats'', num_or_null (dl_settledBalanceDeltaSats dl))])]"

definition disbursement_period :: "composite_plan \<Rightarrow> delivery \<Rightarrow> jsv" where
  "disbursement_period cp dl = first_truthy
     [fld (cp_decisionLog cp) ''periodId'', dots (JObj (cp_decisionLog cp)) [''inputs'', ''periodId''],
      dot (cp_reserveState cp) ''periodId'',
      JStr (''payback:'' @ to_str (first_truthy
        [dl_sourceTxHash dl, dl_bitcoinTxid dl, dl_gatewayOrderId dl, JStr ''unknown'']))]"

definition disbursement_fields ::
    "composite_plan \<Rightarrow> delivery \<Rightarrow> jsv \<Rightarrow> fields \<Rightarrow> jsv \<Rightarrow> fields" where
  "disbursement_fields cp dl destinationProof manifest now =
     (let section = (\<lambda>k. orelse (fld (cp_decisionLog cp) k) (JObj []));
          applied = section ''applied''; inputs = section ''inputs'';
          num = (\<lambda>v. num_or_null (payFiniteNumber v)); nonNegative = (\<lambda>v. num_or_null (finiteNonNegative v));
          planned = (\<lambda>direct k. num_or_null (opt_coal (finiteNonNegative (JNum direct))
            (finiteNonNegative (dots (JObj (cp_decisionLog cp)) [''result'', k]))))
      in [(''schemaVersion'', JNum (Fin 1)), (''observedAt'', now), (''kind'', JStr ''payback_disbursement''),
          (''strategyId'', JStr GATEWAY_BTC_OFFRAMP_STRATEGY_ID),
          (''periodId'', disbursement_period cp dl),
          (''chain'', first_truthy [fld (cp_route cp) ''reserveChain'', dot (cp_reserveState cp) ''chain'', JNull]),
          (''harvestWindow'', JObj
            [(''startAt'', orelse (dot inputs ''periodStartAt'') JNull), (''endAt'', orelse (dot inputs ''periodEndAt'') JNull)]),
          (''grossProfitSats'', nonNegative (dot inputs ''grossProfitSatsPeriod'')),
          (''grossTargetBeforeCostsSats'', nonNegative (dot applied ''grossTargetBeforeCostsSats'')),
          (''appliedRatios'', JObj
            [(''baseRatio'', num (dot applied ''baseRatio'')), (''regime'', orelse (dot applied ''regime'') JNull),
             (''regimeMultiplier'', num (dot applied ''regimeMultiplier'')),
             (''volAnnualized'', num (dot applied ''volAnnualized'')),
             (''volMultiplier'', num (dot applied ''volMultiplier''))]),
          (''plannedPaybackSats'', planned (cp_plannedPaybackSats cp) ''plannedPaybackSats''),
          (''estimatedRoundTripCostSats'', planned (cp_estimatedOfframpCostSats cp) ''estimatedOfframpCostSats''),
          (''realizedRoundTripCostSats'', JNum (dl_realizedRoundTripCostSats dl)),
          (''gatewayOrderId'', dl_gatewayOrderId dl), (''bitcoinTxid'', dl_bitcoinTxid dl),
          (''sourceTxHash'', dl_sourceTxHash dl),
          (''proofManifestHash'', fld manifest ''manifestHash''),
          (''proofManifestKind'', fld manifest ''kind''),
          (''proofManifestVerdict'', fld manifest ''verdict''),
          (''settlementStatus'', dl_settlementStatus dl),
          (''settledBalanceDeltaSats'', num_or_null (dl_settledBalanceDeltaSats dl)),
          (''destinationProof'', orelse destinationProof JNull),
          (''receipt'', JObj [(''sourceTxHash'', dl_sourceTxHash dl), (''gatewayOrderId'', dl_gatewayOrderId dl),
             (''bitcoinTxid'', dl_bitcoinTxid dl)]),
          (''recipient'', orelse (cp_recipient cp) JNull), (''senderAddress'', orelse (cp_senderAddress cp) JNull)])"

definition buildPaybackDisbursementRecord ::
    "(fields \<Rightarrow> fields throws) \<Rightarrow> composite_plan option \<Rightarrow> step_result list \<Rightarrow> jsv \<Rightarrow> fields throws" where
  "buildPaybackDisbursementRecord manifestBuilder compositePlan stepResults now =
     (case compositePlan of
        None \<Rightarrow> Inl (ErrorMsg ''Payback disbursement record requires a composite plan'')
      | Some cp \<Rightarrow>
          let dl = delivery_of cp stepResults
          in and_then (manifestBuilder (disbursement_manifest_args cp dl now)) (\<lambda>manifest.
             Inr (disbursement_fields cp dl
               (dots (step_of_kind stepResults ''gateway_btc_offramp'') [''execution'', ''destinationProof'']) manifest now)))"

section \<open>submitCompositePaybackPlan\<close>

record step_executors =
  ex_tokenDex :: "fields \<Rightarrow> jsv throws"
  ex_consolidation :: "fields \<Rightarrow> jsv throws"
  ex_offramp :: "fields \<Rightarrow> jsv throws"

text \<open>The options of the off-ramp fall back to the ones for any destination.\<close>

definition offramp_options :: "fields \<Rightarrow> fields" where
  "offramp_options options = spread options
     [(''awaitBitcoinSettlement'', coal (fld options ''awaitBitcoinSettlement'') (fld options ''awaitDestinationSettlement'')),
      (''bitcoinSettlementTimeoutMs'',
       coal (fld options ''bitcoinSettlementTimeoutMs'') (fld options ''destinationSettlementTimeoutMs'')),
      (''bitcoinPollIntervalMs'',
       coal (fld options ''bitcoinPollIntervalMs'') (fld options ''destinationPollIntervalMs''))]"

definition execute_step :: "step_executors \<Rightarrow> fields \<Rightarrow> plan_step \<Rightarrow> jsv throws" where
  "execute_step ex options st =
     (let args = (\<lambda>opts. spread [(''plan'', JObj (sp_plan st))] opts)
      in if sp_kind st = ''token_dex_swap'' then ex_tokenDex ex (args options)
         else if sp_kind st = ''gateway_btc_consolidation'' then ex_consolidation ex (args options)
         else if sp_kind st = ''gateway_btc_offramp'' then ex_offramp ex (args (offramp_options options))
         else Inl (ErrorMsg (''Unsupported payback composite step: '' @ sp_kind st)))"

text \<open>The call of an executor for a step; an unsupported step calls none.\<close>

definition executor_call :: "plan_step \<Rightarrow> plan_step list" where
  "executor_call st =
     (if sp_kind st \<in> {''token_dex_swap'', ''gateway_btc_consolidation'', ''gateway_btc_offramp''} then [st] else [])"

text \<open>
  The loop over the steps: the steps whose executor was called, the one that threw included, and
  the results, or the error that stopped it.
\<close>

fun execute_steps ::
    "step_executors \<Rightarrow> fields \<Rightarrow> plan_step list \<Rightarrow> step_result list \<Rightarrow> plan_step list \<times> step_result list throws" where
  "execute_steps ex options [] stepResults = ([], Inr stepResults)"
| "execute_steps ex options (st # rest) stepResults =
     (case execute_step ex options st of
        Inl e \<Rightarrow> (executor_call st, Inl e)
      | Inr execution \<Rightarrow>
          let (called, results) = execute_steps ex options rest
                (stepResults @ [\<lparr>sr_id = sp_id st, sr_kind = sp_kind st, sr_execution = execution\<rparr>])
          in (executor_call st @ called, results))"

record submission =
  sb_observedAt :: jsv
  sb_status :: string
  sb_compositePlan :: composite_plan
  sb_stepResults :: "step_result list"
  sb_disbursementRecord :: jsv

definition submitCompositePaybackPlan ::
    "step_executors \<Rightarrow> (composite_plan option \<Rightarrow> step_result list \<Rightarrow> jsv \<Rightarrow> fields throws) option \<Rightarrow> fields
      \<Rightarrow> composite_plan \<Rightarrow> jsv \<Rightarrow> plan_step list \<times> submission throws" where
  "submitCompositePaybackPlan ex recordBuilder options cp now =
     (if cp_steps cp = [] then ([], Inl (ErrorMsg ''Composite payback plan has no executable steps''))
      else let (called, results) = execute_steps ex options (cp_steps cp) []
           in (called, and_then results (\<lambda>stepResults.
                and_then (case recordBuilder of
                    Some build \<Rightarrow> and_then (build (Some cp) stepResults now) (\<lambda>r. Inr (JObj r))
                  | None \<Rightarrow> Inr JNull) (\<lambda>disbursementRecord.
                  Inr \<lparr>sb_observedAt = now, sb_status = ''submitted'', sb_compositePlan = cp,
                       sb_stepResults = stepResults, sb_disbursementRecord = disbursementRecord\<rparr>))))"

section \<open>runPaybackSchedulerTick\<close>

record tick_result =
  tk_status :: string
  tk_reason :: string
  tk_killSwitch :: "policy_result option"
  tk_decision :: "payback_decision option"
  tk_compositePlan :: "composite_plan option"
  tk_execution :: "submission option"
  tk_dryRun :: "fields option"

record tick_services =
  ts_killSwitch :: "policy_result throws"
  ts_plan :: plan_services
  ts_executors :: step_executors
  ts_clock :: jsv

text \<open>
  The steps whose executor was called, and the answer. The submission stamps the clock rather than the tick's own time: it
  is called without one.
\<close>

definition tick_answer :: "string \<Rightarrow> string \<Rightarrow> payback_decision \<Rightarrow> tick_result" where
  "tick_answer status reason decision =
     \<lparr>tk_status = status, tk_reason = reason, tk_killSwitch = None, tk_decision = Some decision,
      tk_compositePlan = None, tk_execution = None, tk_dryRun = None\<rparr>"

definition tick_halted :: "policy_result \<Rightarrow> tick_result" where
  "tick_halted killSwitch =
     \<lparr>tk_status = ''halted'', tk_reason = ''kill_switch_present'', tk_killSwitch = Some killSwitch,
      tk_decision = None, tk_compositePlan = None, tk_execution = None, tk_dryRun = None\<rparr>"

text \<open>The end of the tick, for a ready composite plan.\<close>

definition tick_ready ::
    "tick_services \<Rightarrow> composite_result \<Rightarrow> composite_plan \<Rightarrow> bool \<Rightarrow> bool \<Rightarrow> fields \<Rightarrow> plan_step list \<times> tick_result throws" where
  "tick_ready ts planning cp execute dryRun executionOptions =
     (let formula = (if dryRun then Some (buildPaybackDryRunFormula (cr_decision planning) (Some cp) None) else None);
          answer = (\<lambda>status reason execution. (tick_answer status reason (cr_decision planning))
            \<lparr>tk_compositePlan := Some cp, tk_execution := execution, tk_dryRun := formula\<rparr>)
      in if execute
         then let (called, submitted) = submitCompositePaybackPlan (ts_executors ts)
                (Some (buildPaybackDisbursementRecord (buildProofManifest (ts_clock ts))))
                executionOptions cp (ts_clock ts)
              in (called, and_then submitted (\<lambda>s. Inr (answer (sb_status s) ''submitted'' (Some s))))
         else ([], Inr (answer ''ready'' ''emit_intents'' None)))"

definition tick_decision :: "tick_services \<Rightarrow> payback_request \<Rightarrow> payback_decision throws" where
  "tick_decision ts rq =
     buildPaybackDecision (rq\<lparr>rq_getEnv := sv_getEnv (ts_plan ts), rq_recipientOverride := JNull\<rparr>)"

definition runPaybackSchedulerTick ::
    "tick_services \<Rightarrow> payback_request \<Rightarrow> bool \<Rightarrow> bool \<Rightarrow> fields \<Rightarrow> plan_step list \<times> tick_result throws" where
  "runPaybackSchedulerTick ts rq execute dryRun executionOptions =
     (case ts_killSwitch ts of
        Inl e \<Rightarrow> ([], Inl e)
      | Inr killSwitch \<Rightarrow>
        if pr_decision killSwitch = BLOCK then ([], Inr (tick_halted killSwitch))
        else case tick_decision ts rq of
          Inl e \<Rightarrow> ([], Inl e)
        | Inr decision \<Rightarrow>
          if py_status decision \<noteq> StPlan
          then ([], and_then (if dryRun
                 then and_then (buildPaybackDryRunPreview (ts_plan ts) decision (rq_now rq)) (\<lambda>p. Inr (Some p))
                 else Inr None) (\<lambda>preview.
               Inr ((tick_answer (pay_status_name (py_status decision)) (py_reason decision) decision)
                 \<lparr>tk_dryRun := preview\<rparr>)))
          else case buildCompositePaybackPlan (ts_plan ts) decision (rq_now rq) of
            Inl e \<Rightarrow> ([], Inl e)
          | Inr planning \<Rightarrow>
            (case cr_compositePlan planning of
               None \<Rightarrow> ([], Inr (tick_answer (cr_status planning) (cr_reason planning) (cr_decision planning)))
             | Some cp \<Rightarrow>
               if cr_status planning \<noteq> ''ready''
               then ([], Inr (tick_answer (cr_status planning) (cr_reason planning) (cr_decision planning)))
               else tick_ready ts planning cp execute dryRun executionOptions))"

section \<open>runPaybackSchedulerLoop\<close>

definition loop_market :: "fields \<Rightarrow> jsv \<Rightarrow> jsv \<Rightarrow> fields" where
  "loop_market marketState lastTriggeredAt now = spread marketState
     [(''periodStartAt'', first_truthy [fld marketState ''periodStartAt'', lastTriggeredAt, JNull]),
      (''periodEndAt'', now)]"

text \<open>
  The iterations over a list of polls: for each, the result of the tick it triggered, or \<open>None\<close>
  when it was idle; and the time of the last trigger.
\<close>

primrec scheduler_loop ::
    "string \<Rightarrow> (fields \<Rightarrow> jsv \<Rightarrow> 'r throws) \<Rightarrow> fields \<Rightarrow> jsv \<Rightarrow> jsv list \<Rightarrow> ('r option list \<times> jsv) throws" where
  "scheduler_loop cron tickImpl marketState lastTriggeredAt [] = Inr ([], lastTriggeredAt)"
| "scheduler_loop cron tickImpl marketState lastTriggeredAt (now # polls) =
     and_then (matchesCronExpression cron (date_of now)) (\<lambda>cronMatched.
       if cronMatched \<and> \<not> sameCronMinute lastTriggeredAt now
       then and_then (tickImpl (loop_market marketState lastTriggeredAt now) now) (\<lambda>result.
            and_then (scheduler_loop cron tickImpl marketState now polls) (\<lambda>(results, at_end).
              Inr (Some result # results, at_end)))
       else and_then (scheduler_loop cron tickImpl marketState lastTriggeredAt polls) (\<lambda>(results, at_end).
              Inr (None # results, at_end)))"

definition runPaybackSchedulerLoop ::
    "payback_config \<Rightarrow> (fields \<Rightarrow> jsv \<Rightarrow> 'r throws) \<Rightarrow> fields \<Rightarrow> jsv list \<Rightarrow> 'r option list throws" where
  "runPaybackSchedulerLoop paybackConfig tickImpl marketState polls =
     and_then (scheduler_loop (pl_cronExpression (loadPaybackPolicyConfig paybackConfig None)) tickImpl marketState JNull polls)
       (\<lambda>(results, lastTriggeredAt). Inr results)"

section \<open>When the loop fires\<close>

text \<open>The minute of a poll, and the polls that triggered a tick.\<close>

definition poll_minute :: "jsv \<Rightarrow> int" where
  "poll_minute now = (case date_of now of Fin x \<Rightarrow> \<lfloor>x\<rfloor> div 60000 | _ \<Rightarrow> 0)"

definition fired :: "jsv list \<Rightarrow> 'r option list \<Rightarrow> jsv list" where
  "fired polls results = List.map fst (List.filter (\<lambda>(now, result). result \<noteq> None) (zip polls results))"

lemma orelse_epoch: "date_of now = Fin x \<Longrightarrow> date_of (orelse now (JNum (Fin 0))) = Fin x"
  by (cases now) (auto simp: orelse_def date_of_def to_prim_def date_of_str_def read_date_def read_year_def
      take_digits_def time_clip_def trunc_def split: if_splits)

lemma sameCronMinute_polls:
  assumes "date_of (orelse earlier (JNum (Fin 0))) = Fin x" "is_fin (date_of now)"
  shows "sameCronMinute earlier now \<longleftrightarrow> \<lfloor>x\<rfloor> div 60000 = poll_minute now"
proof -
  from assms(2) obtain y where y: "date_of now = Fin y" by (rule is_finE)
  from sameCronMinute_iff [OF assms(1) orelse_epoch [OF y]] show ?thesis by (simp add: poll_minute_def y)
qed

text \<open>
  A schedule that only looks at the minute. The loop over it runs a tick at the due minutes of the
  polls, each once however often it is polled.
\<close>

locale minute_schedule =
  fixes cron :: string
    and due :: "int \<Rightarrow> bool"
  assumes matches_minute: "matchesCronExpression cron (Fin x) = Inr (due (\<lfloor>x\<rfloor> div 60000))"
    and epoch_not_due: "\<not> due 0"
begin

text \<open>The minutes that triggered, after the minute \<open>\<lfloor>x\<rfloor> div 60000\<close> of the last trigger.\<close>

lemma loop_after:
  assumes "\<forall>market now. \<exists>r. tickImpl market now = Inr r" "list_all (\<lambda>now. is_fin (date_of now)) polls"
    "date_of (orelse earlier (JNum (Fin 0))) = Fin x"
  shows "\<exists>results at_end. scheduler_loop cron tickImpl market earlier polls = Inr (results, at_end)
    \<and> length results = length polls
    \<and> \<lfloor>x\<rfloor> div 60000 # List.map poll_minute (fired polls results)
      = remdups_adj (\<lfloor>x\<rfloor> div 60000 # List.filter due (List.map poll_minute polls))"
  using assms(2,3)
proof (induction polls arbitrary: earlier x)
  case Nil
  then show ?case by (simp add: fired_def)
next
  case (Cons now polls)
  from Cons.prems(1) obtain y where y: "date_of now = Fin y" by (auto elim: is_finE)
  have m: "poll_minute now = \<lfloor>y\<rfloor> div 60000" by (simp add: poll_minute_def y)
  have same: "sameCronMinute earlier now \<longleftrightarrow> \<lfloor>x\<rfloor> div 60000 = poll_minute now"
    by (rule sameCronMinute_polls [OF Cons.prems(2)]) (simp add: y)
  have matched: "matchesCronExpression cron (date_of now) = Inr (due (poll_minute now))"
    by (simp only: y matches_minute m)
  show ?case
  proof (cases "due (poll_minute now) \<and> poll_minute now \<noteq> \<lfloor>x\<rfloor> div 60000")
    case True
    obtain r where r: "tickImpl (loop_market market earlier now) now = Inr r" using assms(1) by blast
    from Cons.IH [OF _ orelse_epoch [OF y]] Cons.prems(1) obtain results at_end where
      "scheduler_loop cron tickImpl market now polls = Inr (results, at_end)" "length results = length polls"
      "poll_minute now # List.map poll_minute (fired polls results)
        = remdups_adj (poll_minute now # List.filter due (List.map poll_minute polls))"
      unfolding m by auto
    with True show ?thesis
      by (intro exI [of _ "Some r # results"] exI [of _ at_end]) (simp add: matched same r fired_def)
  next
    case False
    from Cons.IH [OF _ Cons.prems(2)] Cons.prems(1) obtain results at_end where
      "scheduler_loop cron tickImpl market earlier polls = Inr (results, at_end)" "length results = length polls"
      "\<lfloor>x\<rfloor> div 60000 # List.map poll_minute (fired polls results)
        = remdups_adj (\<lfloor>x\<rfloor> div 60000 # List.filter due (List.map poll_minute polls))"
      by auto
    with False show ?thesis
      by (intro exI [of _ "None # results"] exI [of _ at_end]) (auto simp: matched same fired_def)
  qed
qed

lemma loop_fires:
  assumes "\<forall>market now. \<exists>r. tickImpl market now = Inr r" "list_all (\<lambda>now. is_fin (date_of now)) polls"
  shows "\<exists>results at_end. scheduler_loop cron tickImpl market JNull polls = Inr (results, at_end)
    \<and> length results = length polls
    \<and> List.map poll_minute (fired polls results) = remdups_adj (List.filter due (List.map poll_minute polls))"
proof -
  have epoch: "date_of (orelse JNull (JNum (Fin 0))) = Fin 0"
    by (simp add: orelse_def date_of_def to_prim_def time_clip_def trunc_def)
  obtain results at_end where r: "scheduler_loop cron tickImpl market JNull polls = Inr (results, at_end)"
    "length results = length polls"
    "0 # List.map poll_minute (fired polls results)
      = remdups_adj (0 # List.filter due (List.map poll_minute polls))"
    using loop_after [OF assms epoch, where market = market] by auto
  let ?ms = "List.filter due (List.map poll_minute polls)"
  have "remdups_adj (0 # ms) = 0 # remdups_adj ms" if "\<forall>m\<in>set ms. m \<noteq> 0" for ms :: "int list"
    using that by (cases ms) auto
  moreover have "\<forall>m\<in>set ?ms. m \<noteq> 0" using epoch_not_due by auto
  ultimately have "List.map poll_minute (fired polls results) = remdups_adj ?ms" using r(3) by (metis list.inject)
  with r(1,2) show ?thesis by blast
qed

end

interpretation weekly: minute_schedule "''0 0 * * 1''" "\<lambda>m. m mod 10080 = 5760"
  by unfold_locales (simp_all add: weekly_schedule)

text \<open>C5: Run with the committed schedule over any polls at valid instants, with ticks that return,
  the scheduler's loop returns, and the minutes at which it runs a tick are exactly the minutes that
  begin a Monday in UTC among the polls, in their order, each once however often it is polled:
  minute 5,760 of the 10,080 of the week that the epoch began on a Thursday.
\<close>

theorem scheduler_fires_weekly:
  assumes "\<forall>market now. \<exists>r. tickImpl market now = Inr r" "list_all (\<lambda>now. is_fin (date_of now)) polls"
  shows "\<exists>results. runPaybackSchedulerLoop PAYBACK_CONFIG tickImpl market polls = Inr results
    \<and> length results = length polls
    \<and> List.map poll_minute (fired polls results)
      = remdups_adj (List.filter (\<lambda>m. m mod 10080 = 5760) (List.map poll_minute polls))"
  using weekly.loop_fires [OF assms, where market = market]
  by (auto simp: runPaybackSchedulerLoop_def committed_policy)

lemma scheduler_fires_weekly_witness:
  "\<exists>results. runPaybackSchedulerLoop PAYBACK_CONFIG (\<lambda>_ _. Inr ()) [] 
      [JNum (Fin 345599999), JNum (Fin 345600000), JNum (Fin 345659000), JNum (Fin 950400000)] = Inr results
    \<and> List.map poll_minute (fired [JNum (Fin 345599999), JNum (Fin 345600000), JNum (Fin 345659000),
        JNum (Fin 950400000)] results) = [5760, 15840]"
proof -
  let ?polls = "[JNum (Fin 345599999), JNum (Fin 345600000), JNum (Fin 345659000), JNum (Fin 950400000)]"
  have "List.map poll_minute ?polls = [5759, 5760, 5760, 15840]" "list_all (\<lambda>now. is_fin (date_of now)) ?polls = True"
    by code_simp+
  moreover have "\<forall>market now. \<exists>r. (\<lambda>_ _. Inr () :: unit throws) market now = Inr r" by simp
  note scheduler_fires_weekly [OF this, of ?polls "[]"]
  ultimately have "\<exists>results. runPaybackSchedulerLoop PAYBACK_CONFIG (\<lambda>_ _. Inr ()) [] ?polls = Inr results
      \<and> length results = length ?polls
      \<and> List.map poll_minute (fired ?polls results) = remdups_adj (List.filter (\<lambda>m. m mod 10080 = 5760) [5759, 5760, 5760, 15840])"
    by metis
  then show ?thesis by (elim exE conjE, intro exI conjI) simp_all
qed

end
