(* ===== verification/PaybackSafety.thy ===== *)
theory PaybackSafety
  imports PaybackScheduler
begin

text \<open>
  What limits a payback, from the decision through the composite plan to the steps a tick runs,
  under the committed configuration; and what becomes of the record of a disbursement when the
  accumulator reads it back.
\<close>

section \<open>The composite plan\<close>

lemma next_stage_Go: "next_stage m k = Inr (Go w) \<longleftrightarrow> (\<exists>v. m = Inr (Go v) \<and> k v = Inr (Go w))"
  by (cases m) (auto simp: next_stage_def split: stage.splits)

text \<open>The pieces of a ready composite plan.\<close>

lemma buildCompositePaybackPlan_ready:
  assumes "buildCompositePaybackPlan sv d now = Inr r" "cr_compositePlan r = Some cp"
  obtains sender recipient swapPlan bridgePlan offrampPlan a b where
    "py_status d = StPlan" "truthy sender" "truthy recipient" "\<not> nullish (py_reserveState d)"
    "swap_stage sv (py_policy d) (py_reserveState d) sender now = Inr (Go (swapPlan, a))"
    "bridge_stage sv (py_reserveState d) a sender now = Inr (Go (bridgePlan, b))"
    "offramp_stage sv (py_reserveState d) b sender recipient now = Inr (Go offrampPlan)"
    "r = price_composite d sender recipient swapPlan bridgePlan offrampPlan now"
proof -
  from assms have plan: "py_status d = StPlan"
    by (auto simp: buildCompositePaybackPlan_def Let_def split: if_splits)
  from assms plan obtain health where health: "sv_signerHealth sv = Inr health"
    by (auto simp: buildCompositePaybackPlan_def Let_def split: sum.splits)
  define sender where "sender = first_truthy
    [dot (py_reserveState d) ''senderAddress'', dots health [''addresses'', ''base''], JNull]"
  define recipient where "recipient = composite_recipient sv d"
  note r = assms(1) [unfolded buildCompositePaybackPlan_def Let_def health sum.case, folded sender_def recipient_def]
  have ok: "truthy sender" "truthy recipient" "\<not> nullish (py_reserveState d)"
    using r assms(2) plan by (auto split: if_splits)
  let ?stages = "next_stage (swap_stage sv (py_policy d) (py_reserveState d) sender now) (\<lambda>(swapPlan, bridgeInputAmount).
       next_stage (bridge_stage sv (py_reserveState d) bridgeInputAmount sender now) (\<lambda>(bridgePlan, offrampInputAmount).
       next_stage (offramp_stage sv (py_reserveState d) offrampInputAmount sender recipient now) (\<lambda>offrampPlan.
         Inr (Go (price_composite d sender recipient swapPlan bridgePlan offrampPlan now)))))"
  from r plan ok obtain s where s: "?stages = Inr s" and
    r': "(case s of Halt status reason \<Rightarrow> Inr \<lparr>cr_status = status, cr_reason = reason, cr_decision = d,
       cr_compositePlan = None\<rparr> | Go r \<Rightarrow> Inr r) = (Inr r :: composite_result throws)"
    by (cases ?stages) auto
  with assms(2) have "?stages = Inr (Go r)" by (cases s) auto
  then show thesis
    using that plan ok by (auto simp: next_stage_Go split: prod.splits)
qed

lemma price_composite_ready:
  assumes "cr_compositePlan (price_composite d sender recipient swapPlan bridgePlan offrampPlan now) = Some cp"
  defines "cost \<equiv> estimateCompositeCostSats swapPlan bridgePlan offrampPlan (decision_btcUsd d)"
    and "gross \<equiv> num0 (finiteNonNegative (dots (JObj (py_decisionLog d)) [''applied'', ''grossTargetBeforeCostsSats'']))"
  shows "cr_status (price_composite d sender recipient swapPlan bridgePlan offrampPlan now) = ''ready''"
    "cp_estimatedOfframpCostSats cp = cost" "cp_plannedPaybackSats cp = jmax (Fin 0) (jsub gross cost)"
    "\<not> jlt (cp_plannedPaybackSats cp) (pl_minPaybackSats (py_policy d))"
    "\<not> jlt (jmul (cp_plannedPaybackSats cp) (num0 (pl_maxOfframpCostPctOfPayback (py_policy d)))) cost"
    "cp_steps cp = composite_steps swapPlan bridgePlan offrampPlan"
    "cp_recipient cp = recipient" "cp_senderAddress cp = sender"
proof -
  let ?planned = "jmax (Fin 0) (jsub gross cost)"
  note d = assms(1) [unfolded price_composite_def Let_def, folded cost_def gross_def]
  have ok: "\<not> jlt ?planned (pl_minPaybackSats (py_policy d))"
    "\<not> jlt (jmul ?planned (num0 (pl_maxOfframpCostPctOfPayback (py_policy d)))) cost"
    using d by (auto split: if_splits)
  note d = d [unfolded if_not_P [OF ok(1)] if_not_P [OF ok(2)]]
  show "cp_estimatedOfframpCostSats cp = cost" "cp_plannedPaybackSats cp = ?planned"
    "cp_steps cp = composite_steps swapPlan bridgePlan offrampPlan" "cp_recipient cp = recipient"
    "cp_senderAddress cp = sender"
    using d by auto
  with ok show "\<not> jlt (cp_plannedPaybackSats cp) (pl_minPaybackSats (py_policy d))"
    "\<not> jlt (jmul (cp_plannedPaybackSats cp) (num0 (pl_maxOfframpCostPctOfPayback (py_policy d)))) cost" by simp_all
  show "cr_status (price_composite d sender recipient swapPlan bridgePlan offrampPlan now) = ''ready''"
    unfolding price_composite_def Let_def cost_def [symmetric] gross_def [symmetric] if_not_P [OF ok(1)] if_not_P [OF ok(2)]
    by simp
qed

lemma finiteNonNegative_facts: "finiteNonNegative v = Some n \<Longrightarrow> is_fin n \<and> jle (Fin 0) n"
  by (auto simp: finiteNonNegative_def payFiniteNumber_def Let_def split: option.splits jsv.splits if_splits)

lemma num0_nonNegative: "is_fin (num0 (finiteNonNegative v)) \<and> jle (Fin 0) (num0 (finiteNonNegative v))"
  using finiteNonNegative_facts by (cases "finiteNonNegative v") (auto simp: num0_def opt_default_def)

lemma jadd_jle_0: "jle (Fin 0) a \<Longrightarrow> jle (Fin 0) b \<Longrightarrow> jle (Fin 0) (jadd a b)"
  by (rule jadd_nonneg)

lemma estimate_nonneg: "jle (Fin 0) (estimateCompositeCostSats swapPlan bridgePlan offrampPlan btcUsd)"
proof -
  have fees: "jle (Fin 0) (jsum (List.map_filter finiteNonNegative vs))" for vs
    by (rule jsum_nonneg) (auto simp: map_filter_def dest: finiteNonNegative_facts)
  have sats: "jle (Fin 0) (num0 (usdToSats (if is_fin c then Some c else None) btcUsd))" if "jle (Fin 0) c" for c
  proof (cases "is_fin c")
    case False
    then show ?thesis by (simp add: usdToSats_def num0_def opt_default_def)
  next
    case True
    show ?thesis
    proof (cases btcUsd)
      case None
      then show ?thesis by (simp add: usdToSats_def num0_def opt_default_def)
    next
      case (Some p)
      have "jle (Fin 0) (roundSats (jmul (jdiv c p) BTC_SATS))" if p: "\<not> jle p (Fin 0)"
      proof -
        obtain x where x: "c = Fin x" "0 \<le> x" using True \<open>jle (Fin 0) c\<close> by (auto elim: is_finE)
        have q: "jdiv c p = NaN \<or> jle (Fin 0) (jdiv c p)"
          using p x rnd_mono [of 0 "x / y" for y] by (cases p) (auto simp: jdiv_def inf_signed_def)
        have b: "BTC_SATS = Fin 100000000" by (simp add: BTC_SATS_def jint_def)
        have m: "jmul (jdiv c p) BTC_SATS = NaN \<or> jle (Fin 0) (jmul (jdiv c p) BTC_SATS)"
          using q rnd_mono [of 0 "z * 100000000" for z] by (cases "jdiv c p") (auto simp: jmul_def b inf_signed_def)
        then show ?thesis by (cases "jmul (jdiv c p) BTC_SATS") (auto simp: roundSats_def)
      qed
      then show ?thesis using Some True by (simp add: usdToSats_def num0_def opt_default_def)
    qed
  qed
  have swap: "jle (Fin 0) (jmax (Fin 0) (jsub i u))" if "payFiniteNumber v = Some i" "payFiniteNumber w = Some u" for v w i u
  proof -
    from that have "is_fin i" "is_fin u"
      by (auto simp: payFiniteNumber_def Let_def split: jsv.splits if_splits)
    then have "jsub i u \<noteq> NaN" by (auto simp: jsub_def elim!: is_finE)
    then show ?thesis by (cases "jsub i u") (auto simp: jmax_def)
  qed
  have none: "num0 (usdToSats None btcUsd) = Fin 0"
    by (simp add: usdToSats_def num0_def opt_default_def)
  have some: "jle (Fin 0) (num0 (usdToSats (Some c) btcUsd))" if "jle (Fin 0) c" "is_fin c" for c
    using sats [OF that(1)] that(2) by simp
  show ?thesis
    unfolding estimateCompositeCostSats_def Let_def
    by (intro jadd_jle_0 fees) (auto intro!: some swap num0_nonNegative [THEN conjunct2]
        simp: none split: option.splits prod.splits)
qed

lemma committed_max_cost: "payFiniteNumber (dot (pc_fields PAYBACK_CONFIG) ''maxOfframpCostPctOfPayback'') = Some (lit 10 100)"
  by (simp add: PAYBACK_CONFIG_def fld_def payFiniteNumber_def)

lemma committed_max_share:
  "pl_maxOfframpCostPctOfPayback (loadPaybackPolicyConfig PAYBACK_CONFIG capital) = Some (lit 10 100)"
  unfolding loadPaybackPolicyConfig_def Let_def payback_policy.select_convs by (rule committed_max_cost)

lemma composite_steps_kinds:
  "sp_kind (last (composite_steps swapPlan bridgePlan offrampPlan)) = ''gateway_btc_offramp''"
  "composite_steps swapPlan bridgePlan offrampPlan \<noteq> []"
  by (simp_all add: composite_steps_def)

lemma planned_bounds:
  assumes "gross = Fin (of_int n)" "0 \<le> n" "n \<le> 500000" "jle (Fin 0) cost"
  shows "is_fin (jmax (Fin 0) (jsub gross cost))" "jle (jmax (Fin 0) (jsub gross cost)) gross"
proof -
  have "is_fin (jmax (Fin 0) (jsub gross cost)) \<and> jle (jmax (Fin 0) (jsub gross cost)) gross"
  proof (cases cost)
    case (Fin c)
    then have c: "0 \<le> c" using assms(4) by simp
    have n: "rnd (of_int n) = Fin (of_int n)" using assms(2,3) by (intro rnd_int) auto
    have "jle (rnd (of_int n - c)) (Fin (of_int n))" using rnd_mono [of "of_int n - c" "of_int n"] c n by simp
    then show ?thesis
      using assms(1,2) Fin by (cases "rnd (of_int n - c)") (auto simp: jsub_def jmax_def)
  qed (use assms in \<open>auto simp: jsub_def jmax_def\<close>)
  then show "is_fin (jmax (Fin 0) (jsub gross cost))" "jle (jmax (Fin 0) (jsub gross cost)) gross" by simp_all
qed

text \<open>The limits of a composite plan made from a decision under the committed configuration.\<close>

lemma composite_within_limits:
  assumes "buildPaybackDecision rq = Inr d" "py_status d = StPlan" "rq_paybackConfig rq = PAYBACK_CONFIG"
    "buildCompositePaybackPlan sv d now = Inr r" "cr_compositePlan r = Some cp"
  shows "jle (Fin 5000) (cp_plannedPaybackSats cp)" "jle (cp_plannedPaybackSats cp) (Fin 500000)"
    "jle (cp_estimatedOfframpCostSats cp) (jmul (cp_plannedPaybackSats cp) (lit 10 100))"
    "truthy (cp_recipient cp)" "cr_status r = ''ready''"
    "sp_kind (last (cp_steps cp)) = ''gateway_btc_offramp''" "cp_steps cp \<noteq> []"
    "\<exists>swapPlan bridgePlan offrampPlan. cp_steps cp = composite_steps swapPlan bridgePlan offrampPlan
      \<and> cp_estimatedOfframpCostSats cp = estimateCompositeCostSats None bridgePlan offrampPlan None"
proof -
  obtain capital t config snap where
    policy: "py_policy d = loadPaybackPolicyConfig (rq_paybackConfig rq) capital" and
    t: "payback_terms_of (py_policy d) snap (rq_marketState rq) (rq_riskState rq) = Inr t" and
    dec: "decide_payback (rq_now rq) config (py_policy d) snap (Some (py_reserveState d)) capital t
       = (StPlan, py_reason d, py_decisionLog d)"
    by (rule buildPaybackDecision_plan [OF assms(1,2)])
  note p = decide_payback_plan [OF dec]
  obtain n where n: "tm_target t = Fin (of_int n)" using payback_terms_target [OF t] by blast
  obtain m where m: "pl_minPaybackSats (py_policy d) = Fin (of_int m)" "5000 \<le> m"
    using effective_minimum_range policy assms(3) committed_policy(1) by metis
  have "\<not> jlt (Fin 500000) (Fin (of_int n))"
    using p(4) policy assms(3) by (simp add: n committed_policy num0_def opt_default_def)
  then have n': "m \<le> n" "n \<le> 500000"
    using p(2) of_int_le_iff [of n 500000, where ?'a = rat] by (simp_all add: n m not_less)
  obtain sender recipient swapPlan bridgePlan offrampPlan where
    r: "r = price_composite d sender recipient swapPlan bridgePlan offrampPlan now" and "truthy recipient"
    by (rule buildCompositePaybackPlan_ready [OF assms(4,5)])
  note c = price_composite_ready [OF assms(5) [unfolded r]]
  let ?cost = "estimateCompositeCostSats swapPlan bridgePlan offrampPlan (decision_btcUsd d)"
  have gross: "num0 (finiteNonNegative (dots (JObj (py_decisionLog d)) [''applied'', ''grossTargetBeforeCostsSats''])) = Fin (of_int n)"
    using n n' m unfolding p(6) plan_log_target
    by (simp add: finiteNonNegative_def payFiniteNumber_def num0_def opt_default_def)
  have cost: "jle (Fin 0) ?cost" by (rule estimate_nonneg)
  have fin: "is_fin (cp_plannedPaybackSats cp)" "jle (cp_plannedPaybackSats cp) (Fin (of_int n))"
    using planned_bounds [OF refl _ n'(2) cost] n' m unfolding c(3) gross by auto
  then obtain x where x: "cp_plannedPaybackSats cp = Fin x" by (auto elim: is_finE)
  have "(5000 :: rat) \<le> of_int m" "(of_int n :: rat) \<le> 500000"
    using m(2) n'(2) of_int_le_iff [of 5000 m, where ?'a = rat] of_int_le_iff [of n 500000, where ?'a = rat] by simp_all
  with c(4) fin(2) m(1) x show "jle (Fin 5000) (cp_plannedPaybackSats cp)" "jle (cp_plannedPaybackSats cp) (Fin 500000)"
    by auto
  have "num0 (pl_maxOfframpCostPctOfPayback (py_policy d)) = lit 10 100"
    unfolding policy assms(3) committed_max_share num0_def opt_default_def by simp
  moreover obtain z where "lit 10 100 = Fin z" by (rule is_finE [of "lit 10 100"]) simp
  ultimately show "jle (cp_estimatedOfframpCostSats cp) (jmul (cp_plannedPaybackSats cp) (lit 10 100))"
    using c(5) cost unfolding c(2) x
    by (cases ?cost; cases "rnd (x * z)") (auto simp: jmul_def)
  show "truthy (cp_recipient cp)" "cr_status r = ''ready''"
    "sp_kind (last (cp_steps cp)) = ''gateway_btc_offramp''" "cp_steps cp \<noteq> []"
    using c(1,6,7) \<open>truthy recipient\<close> composite_steps_kinds unfolding r by simp_all
  have "decision_btcUsd d = None"
    unfolding decision_btcUsd_def p(6) by (simp add: plan_log_def dots_def fld_def payFiniteNumber_def)
  then have "?cost = estimateCompositeCostSats None bridgePlan offrampPlan None"
    by (auto simp: estimateCompositeCostSats_def Let_def usdToSats_def num0_def opt_default_def split: option.splits)
  with c(2,6) show "\<exists>swapPlan bridgePlan offrampPlan. cp_steps cp = composite_steps swapPlan bridgePlan offrampPlan
      \<and> cp_estimatedOfframpCostSats cp = estimateCompositeCostSats None bridgePlan offrampPlan None"
    by auto
qed

section \<open>Execution\<close>

text \<open>The steps whose executor is called are the first of the plan, in its order.\<close>

lemma executor_call_supported:
  "sp_kind st \<in> {''token_dex_swap'', ''gateway_btc_consolidation'', ''gateway_btc_offramp''} \<Longrightarrow> executor_call st = [st]"
  by (simp add: executor_call_def)

lemma composite_steps_supported:
  "st \<in> set (composite_steps swapPlan bridgePlan offrampPlan) \<Longrightarrow> executor_call st = [st]"
  by (auto simp: composite_steps_def executor_call_def split: option.splits)

lemma execute_steps_called:
  assumes "\<forall>st\<in>set steps. executor_call st = [st]"
  shows "\<exists>k. fst (execute_steps ex options steps acc) = take k steps"
  using assms
proof (induction steps arbitrary: acc)
  case (Cons st steps)
  show ?case
  proof (cases "execute_step ex options st")
    case (Inl e)
    with Cons.prems show ?thesis by (intro exI [of _ 1]) simp
  next
    case (Inr execution)
    from Cons.IH Cons.prems obtain k where "fst (execute_steps ex options steps
        (acc @ [\<lparr>sr_id = sp_id st, sr_kind = sp_kind st, sr_execution = execution\<rparr>])) = take k steps"
      by fastforce
    with Inr Cons.prems show ?thesis by (intro exI [of _ "Suc k"]) (simp add: split_def)
  qed
qed simp

lemma submit_called:
  assumes "\<forall>st\<in>set (cp_steps cp). executor_call st = [st]"
  shows "\<exists>k. fst (submitCompositePaybackPlan ex builder options cp now) = take k (cp_steps cp)"
  using execute_steps_called [OF assms]
  by (auto simp: submitCompositePaybackPlan_def Let_def split_def)

text \<open>What a tick that called an executor went through.\<close>

lemma tick_called:
  assumes "runPaybackSchedulerTick ts rq execute dryRun options = (called, answer)" "called \<noteq> []"
  obtains killSwitch d planning cp k where "execute" "ts_killSwitch ts = Inr killSwitch"
    "pr_decision killSwitch = ALLOW" "tick_decision ts rq = Inr d" "py_status d = StPlan"
    "buildCompositePaybackPlan (ts_plan ts) d (rq_now rq) = Inr planning" "cr_compositePlan planning = Some cp"
    "called = take k (cp_steps cp)"
proof -
  note r = assms(1) [unfolded runPaybackSchedulerTick_def]
  from r assms(2) obtain killSwitch where ks: "ts_killSwitch ts = Inr killSwitch"
    by (cases "ts_killSwitch ts") auto
  have allow: "pr_decision killSwitch = ALLOW"
    using r assms(2) by (cases "pr_decision killSwitch") (auto simp: ks)
  from r assms(2) allow obtain d where d: "tick_decision ts rq = Inr d"
    by (cases "tick_decision ts rq") (auto simp: ks)
  have plan: "py_status d = StPlan"
    using r assms(2) allow by (auto simp: ks d split: if_splits)
  from r assms(2) allow plan obtain planning where p: "buildCompositePaybackPlan (ts_plan ts) d (rq_now rq) = Inr planning"
    by (cases "buildCompositePaybackPlan (ts_plan ts) d (rq_now rq)") (auto simp: ks d)
  from r assms(2) allow plan obtain cp where cp: "cr_compositePlan planning = Some cp"
    by (cases "cr_compositePlan planning") (auto simp: ks d p)
  have ready: "tick_ready ts planning cp execute dryRun options = (called, answer)"
    using r assms(2) allow plan by (auto simp: ks d p cp split: if_splits)
  then have "execute" using assms(2) by (auto simp: tick_ready_def Let_def split: if_splits)
  moreover have "\<exists>k. called = take k (cp_steps cp)"
  proof -
    obtain sender recipient swapPlan bridgePlan offrampPlan where
      r: "planning = price_composite d sender recipient swapPlan bridgePlan offrampPlan (rq_now rq)"
      by (rule buildCompositePaybackPlan_ready [OF p cp])
    have "\<forall>st\<in>set (cp_steps cp). executor_call st = [st]"
      using price_composite_ready(6) [OF cp [unfolded r]] composite_steps_supported by simp
    from submit_called [OF this] ready \<open>execute\<close> show ?thesis
      by (auto simp: tick_ready_def Let_def split: prod.splits) (metis fst_conv)
  qed
  ultimately show thesis using that ks allow d plan p cp by blast
qed

text \<open>
  The amounts: a reserve that needs no swap passes its whole amount to the bridge, and one that
  needs no bridge passes that to the off-ramp. The payback planned for the decision appears in
  none of the requests.
\<close>

lemma swap_stage_amount: "swap_stage sv policy reserve sender now = Inr (Go (None, a)) \<Longrightarrow> a = dot reserve ''amount''"
  by (auto simp: swap_stage_def Let_def and_then_Inr split: if_splits)

lemma bridge_stage_amount: "bridge_stage sv reserve a sender now = Inr (Go (None, b)) \<Longrightarrow> b = a"
  by (auto simp: bridge_stage_def Let_def and_then_Inr split: if_splits)

lemma offramp_stage_plan:
  "offramp_stage sv reserve b sender recipient now = Inr (Go plan)
    \<Longrightarrow> sv_offrampPlan sv (offramp_args reserve b sender recipient now) = Inr plan"
  by (auto simp: offramp_stage_def and_then_Inr split: if_splits)

lemma offramp_takes_reserve:
  assumes "buildCompositePaybackPlan sv d now = Inr r" "cr_compositePlan r = Some cp"
    "on_bob (py_reserveState d)"
    "same_token (orelse (dot (py_reserveState d) ''inputToken'') (JStr [])) (route_token (py_reserveState d))"
  shows "\<exists>sender offrampPlan. cp_steps cp = composite_steps None None offrampPlan
    \<and> sv_offrampPlan sv (offramp_args (py_reserveState d) (dot (py_reserveState d) ''amount'') sender
        (cp_recipient cp) now) = Inr offrampPlan"
proof -
  obtain sender recipient swapPlan bridgePlan offrampPlan a b where
    s: "swap_stage sv (py_policy d) (py_reserveState d) sender now = Inr (Go (swapPlan, a))"
      "bridge_stage sv (py_reserveState d) a sender now = Inr (Go (bridgePlan, b))"
      "offramp_stage sv (py_reserveState d) b sender recipient now = Inr (Go offrampPlan)"
    and r: "r = price_composite d sender recipient swapPlan bridgePlan offrampPlan now"
    by (rule buildCompositePaybackPlan_ready [OF assms(1,2)])
  from s(1,2) have "swapPlan = None" "a = dot (py_reserveState d) ''amount''" "bridgePlan = None" "b = a"
    using assms(3,4) by (simp_all add: swap_stage_def bridge_stage_def Let_def)
  with offramp_stage_plan [OF s(3)] price_composite_ready(6,7) [OF assms(2) [unfolded r]] show ?thesis by auto
qed

text \<open>C4: When a tick of the scheduler calls the executor of a step, whether it then returns or
  throws, execution was asked for, the kill switch is off and the decision is to pay. The composite
  plan's figures are within the limits: it plans between 5,000 and 500,000 sats after costs, at an
  estimated cost of at most a tenth of that, for a named recipient. The steps called are the first
  of the plan, in its order, and the plan is what the builders returned for the reserve, ending with
  the off-ramp to the recipient. The limits bind the planned figures only: the amounts the builders
  are asked for start from the reserve's, which is passed on whole where no swap or bridge is needed.
\<close>

theorem payback_tick_guarded:
  assumes "runPaybackSchedulerTick ts rq execute dryRun options = (called, answer)" "called \<noteq> []"
    "rq_paybackConfig rq = PAYBACK_CONFIG"
  shows "execute \<and> (\<exists>killSwitch. ts_killSwitch ts = Inr killSwitch \<and> pr_decision killSwitch = ALLOW)
    \<and> (\<exists>d planning cp k. tick_decision ts rq = Inr d \<and> py_status d = StPlan
        \<and> buildCompositePaybackPlan (ts_plan ts) d (rq_now rq) = Inr planning
        \<and> cr_compositePlan planning = Some cp
        \<and> jle (Fin 5000) (cp_plannedPaybackSats cp) \<and> jle (cp_plannedPaybackSats cp) (Fin 500000)
        \<and> jle (cp_estimatedOfframpCostSats cp) (jmul (cp_plannedPaybackSats cp) (lit 10 100))
        \<and> truthy (cp_recipient cp) \<and> called = take k (cp_steps cp)
        \<and> (\<exists>sender swapPlan bridgePlan offrampPlan a b.
            cp_steps cp = composite_steps swapPlan bridgePlan offrampPlan
            \<and> swap_stage (ts_plan ts) (py_policy d) (py_reserveState d) sender (rq_now rq) = Inr (Go (swapPlan, a))
            \<and> (swapPlan = None \<longrightarrow> a = dot (py_reserveState d) ''amount'')
            \<and> bridge_stage (ts_plan ts) (py_reserveState d) a sender (rq_now rq) = Inr (Go (bridgePlan, b))
            \<and> (bridgePlan = None \<longrightarrow> b = a)
            \<and> sv_offrampPlan (ts_plan ts) (offramp_args (py_reserveState d) b sender (cp_recipient cp) (rq_now rq))
                = Inr offrampPlan))"
proof -
  obtain killSwitch d planning cp k where c: "execute" "ts_killSwitch ts = Inr killSwitch"
    "pr_decision killSwitch = ALLOW" "tick_decision ts rq = Inr d" "py_status d = StPlan"
    "buildCompositePaybackPlan (ts_plan ts) d (rq_now rq) = Inr planning" "cr_compositePlan planning = Some cp"
    "called = take k (cp_steps cp)"
    by (rule tick_called [OF assms(1,2)])
  have "rq_paybackConfig (rq\<lparr>rq_getEnv := sv_getEnv (ts_plan ts), rq_recipientOverride := JNull\<rparr>) = PAYBACK_CONFIG"
    using assms(3) by simp
  note limits = composite_within_limits [OF c(4) [unfolded tick_decision_def] c(5) this c(6,7)]
  obtain sender recipient swapPlan bridgePlan offrampPlan a b where
    s: "swap_stage (ts_plan ts) (py_policy d) (py_reserveState d) sender (rq_now rq) = Inr (Go (swapPlan, a))"
      "bridge_stage (ts_plan ts) (py_reserveState d) a sender (rq_now rq) = Inr (Go (bridgePlan, b))"
      "offramp_stage (ts_plan ts) (py_reserveState d) b sender recipient (rq_now rq) = Inr (Go offrampPlan)"
    and r: "planning = price_composite d sender recipient swapPlan bridgePlan offrampPlan (rq_now rq)"
    by (rule buildCompositePaybackPlan_ready [OF c(6,7)])
  have steps: "cp_steps cp = composite_steps swapPlan bridgePlan offrampPlan" "cp_recipient cp = recipient"
    using price_composite_ready(6,7) [OF c(7) [unfolded r]] by simp_all
  have "swapPlan = None \<longrightarrow> a = dot (py_reserveState d) ''amount''" "bridgePlan = None \<longrightarrow> b = a"
    using s(1,2) swap_stage_amount bridge_stage_amount by blast+
  with s(1,2) offramp_stage_plan [OF s(3)] steps c limits(1-4) show ?thesis by blast
qed

definition disbursement_names :: "string list" where
  "disbursement_names =
     [''schemaVersion'', ''observedAt'', ''kind'', ''strategyId'', ''periodId'', ''chain'', ''harvestWindow'',
      ''grossProfitSats'', ''grossTargetBeforeCostsSats'', ''appliedRatios'', ''plannedPaybackSats'',
      ''estimatedRoundTripCostSats'', ''realizedRoundTripCostSats'', ''gatewayOrderId'', ''bitcoinTxid'',
      ''sourceTxHash'', ''proofManifestHash'', ''proofManifestKind'', ''proofManifestVerdict'', ''settlementStatus'',
      ''settledBalanceDeltaSats'', ''destinationProof'', ''receipt'', ''recipient'', ''senderAddress'']"

lemma disbursement_keys: "List.map fst (disbursement_fields cp dl pf manifest now) = disbursement_names"
  unfolding disbursement_fields_def Let_def disbursement_names_def list.map fst_conv ..

lemma disbursement_lacks:
  "list_all (\<lambda>k. k \<notin> set disbursement_names) [''payback'', ''realized'', ''paidBackSats'', ''settledPaybackSats'',
     ''paidBackUsd'', ''signerResult'', ''broadcast'', ''txHash'', ''plan'']"
  by code_simp

text \<open>The paths under which the accumulator looks for an amount or a source transaction, but for one.\<close>

definition absent_paths :: "string list" where
  "absent_paths =
     [''payback.paidBackSats'', ''payback.settledSats'', ''realized.paidBackSats'', ''realized.settledPaybackSats'',
      ''paidBackSats'', ''settledPaybackSats'', ''payback.paidBackUsd'', ''payback.settledUsd'', ''realized.paidBackUsd'',
      ''paidBackUsd'', ''signerResult.broadcast.txHash'', ''broadcast.txHash'', ''txHash'']"

lemma absent_path_heads:
  "list_all (\<lambda>p. p \<noteq> [] \<and> split_on (CHR ''.'') p \<noteq> [] \<and> hd (split_on (CHR ''.'') p) \<in> {''payback'', ''realized'',
     ''paidBackSats'', ''settledPaybackSats'', ''paidBackUsd'', ''signerResult'', ''broadcast'', ''txHash''}) absent_paths"
  by code_simp

text \<open>C6: The record of a disbursement that the scheduler appends to the audit log is never counted
  as paid back by the accumulator that reads the log: whatever the execution returned, the reader of
  paid-back amounts finds none in it, because it looks for the source transaction under other names.
\<close>

theorem disbursement_not_credited:
  assumes "buildPaybackDisbursementRecord manifestBuilder (Some cp) stepResults now = Inr r"
    "dot config ''paidBackSatsPaths'' = JUndef" "dot config ''paidBackUsdPaths'' = JUndef"
  shows "paidBackSatsFromRecord (JObj r) btcUsd config markers = Inr None"
proof -
  from assms(1) obtain manifest pf where r: "r = disbursement_fields cp (delivery_of cp stepResults) pf manifest now"
    by (auto simp: buildPaybackDisbursementRecord_def Let_def and_then_Inr)
  have absent: "fld r k = JUndef" if "k \<in> {''payback'', ''realized'', ''paidBackSats'', ''settledPaybackSats'', ''paidBackUsd'',
      ''signerResult'', ''broadcast'', ''txHash'', ''plan''}" for k
  proof -
    have "k \<notin> set (List.map fst r)"
      unfolding r disbursement_keys using that disbursement_lacks by (auto simp: list_all_iff)
    then have "map_of r k = None" by (simp add: map_of_eq_None_iff)
    then show ?thesis by (simp add: fld_def)
  qed
  have receipt: "dot (fld r ''receipt'') ''hash'' = JUndef"
    unfolding r disbursement_fields_def Let_def by (simp add: fld_def)
  have path: "readPath (JObj r) p = dots (JObj r) (split_on (CHR ''.'') p)" if "p \<noteq> []" for p
    using that by (simp add: readPath_def)
  have dots: "dots (JObj r) (k # ks) = foldl dot (fld r k) ks" for k ks by (simp add: dots_def)
  have under: "foldl dot JUndef ks = JUndef" for ks by (induction ks) auto
  have gone: "readPath (JObj r) p = JUndef" if "p \<in> set absent_paths" for p
  proof -
    have "split_on (CHR ''.'') p \<noteq> []" "hd (split_on (CHR ''.'') p) \<in> {''payback'', ''realized'', ''paidBackSats'',
        ''settledPaybackSats'', ''paidBackUsd'', ''signerResult'', ''broadcast'', ''txHash''}" "p \<noteq> []"
      using absent_path_heads that by (auto simp: list_all_iff)
    then obtain k ks where k: "split_on (CHR ''.'') p = k # ks" "fld r k = JUndef" "p \<noteq> []"
      using absent by (cases "split_on (CHR ''.'') p") auto
    show ?thesis unfolding path [OF k(3)] k(1) dots k(2) by (rule under)
  qed
  have paid: "firstFinitePathValue (JObj r) DEFAULT_PAID_BACK_SATS_PATHS = None"
    "firstFinitePathValue (JObj r) DEFAULT_PAID_BACK_USD_PATHS = None"
    by (simp_all add: DEFAULT_PAID_BACK_SATS_PATHS_def DEFAULT_PAID_BACK_USD_PATHS_def gone absent_paths_def
        payFiniteNumber_def)
  have "split_on (CHR ''.'') ''receipt.hash'' = [''receipt'', ''hash'']" by code_simp
  then have "readPath (JObj r) ''receipt.hash'' = JUndef" using receipt by (simp add: path dots)
  then have "tw_sourceTxHash (paybackThreeWayReceipt (JObj r)) = JNull"
    by (simp add: paybackThreeWayReceipt_def gone absent_paths_def)
  then have "\<not> hasDeliveredPaybackReceipt (JObj r)" by (simp add: hasDeliveredPaybackReceipt_def Let_def)
  moreover have "dots (JObj r) [''plan'', ''steps'', ''find''] = JUndef" unfolding dots by (simp add: absent)
  then have "tells_payback markers (JObj r)" unfolding tells_payback_def by simp
  then obtain b where "isPaybackRecord (JObj r) markers = Inr b" unfolding isPaybackRecord_returns [symmetric] by blast
  ultimately show ?thesis
    using assms(2,3) paid by (simp add: paidBackSatsFromRecord_def sats_or_projected_def configured_paths_def Let_def)
qed

section \<open>A run\<close>

definition sample_plan :: "fields \<Rightarrow> fields" where
  "sample_plan quote = [(''planStatus'', JStr ''ready''), (''intent'', JObj [(''intentType'', JStr ''sample'')]),
     (''quote'', JObj quote)]"

definition sample_bridge_plan :: fields where
  "sample_bridge_plan = sample_plan [(''outputAmount'', JObj [(''amount'', JStr ''199700'')]),
     (''fees'', JObj [(''amount'', JStr ''300'')])]"

definition sample_offramp_plan :: fields where
  "sample_offramp_plan = sample_plan [(''fees'', JObj [(''amount'', JStr ''700'')])]"

definition sample_services :: plan_services where
  "sample_services =
     \<lparr>sv_signerHealth = Inr (JObj [(''addresses'', JObj [(''base'', JStr ''0x01'')])]),
      sv_getEnv = (\<lambda>_. JStr ''bc1qexample''), sv_tokenDexPlan = (\<lambda>_. Inl TypeError),
      sv_consolidationPlan = (\<lambda>_. Inr sample_bridge_plan), sv_offrampPlan = (\<lambda>_. Inr sample_offramp_plan),
      sv_offrampQuote = (\<lambda>_. Inl TypeError)\<rparr>"

definition sample_execution :: jsv where
  "sample_execution = JObj
     [(''signerResult'', JObj [(''broadcast'', JObj [(''txHash'', JStr ''0xaa'')])]),
      (''plan'', JObj [(''order'', JObj [(''orderId'', JStr ''order-1'')])]),
      (''settlementStatus'', JStr ''delivered''),
      (''destinationProof'', JObj [(''txid'', JStr ''btc-1''), (''observedDelta'', JNum (Fin 198500)),
         (''status'', JStr ''delivered'')])]"

definition sample_executors :: step_executors where
  "sample_executors = \<lparr>ex_tokenDex = (\<lambda>_. Inl TypeError), ex_consolidation = (\<lambda>_. Inr (JObj [])),
     ex_offramp = (\<lambda>_. Inr sample_execution)\<rparr>"

definition sample_tick :: tick_services where
  "sample_tick = \<lparr>ts_killSwitch = Inr (policy_allow ''kill_switch'' JNull []), ts_plan = sample_services,
     ts_executors = sample_executors, ts_clock = JStr ''2026-04-27T00:00:05.000Z''\<rparr>"

definition sample_composite :: composite_result where
  "sample_composite = price_composite sample_decision (JStr ''0x01'') (JStr ''bc1qexample'') None
     (Some sample_bridge_plan) sample_offramp_plan (JStr ''2026-04-27T00:00:00.000Z'')"

lemma sample_stages:
  "swap_stage sample_services sample_payback_policy sample_reserve (JStr ''0x01'') now = Inr (Go (None, JStr ''200000''))"
  "bridge_stage sample_services sample_reserve (JStr ''200000'') (JStr ''0x01'') now
     = Inr (Go (Some sample_bridge_plan, JStr ''199700''))"
  "offramp_stage sample_services sample_reserve (JStr ''199700'') (JStr ''0x01'') (JStr ''bc1qexample'') now
     = Inr (Go sample_offramp_plan)"
proof -
  have "same_token (orelse (dot sample_reserve ''inputToken'') (JStr [])) (route_token sample_reserve) = True"
    "dot sample_reserve ''amount'' = JStr ''200000''" "on_bob sample_reserve = False"
    "positiveIntegerString (bridged_amount sample_bridge_plan (JStr ''200000'')) ''offrampInputAmount'' = Inr ''199700''"
    "fld sample_bridge_plan ''planStatus'' = JStr ''ready''" "truthy (fld sample_bridge_plan ''intent'') = True"
    "fld sample_offramp_plan ''planStatus'' = JStr ''ready''" "truthy (fld sample_offramp_plan ''intent'') = True"
    by code_simp+
  then show
    "swap_stage sample_services sample_payback_policy sample_reserve (JStr ''0x01'') now = Inr (Go (None, JStr ''200000''))"
    "bridge_stage sample_services sample_reserve (JStr ''200000'') (JStr ''0x01'') now
       = Inr (Go (Some sample_bridge_plan, JStr ''199700''))"
    "offramp_stage sample_services sample_reserve (JStr ''199700'') (JStr ''0x01'') (JStr ''bc1qexample'') now
       = Inr (Go sample_offramp_plan)"
    by (simp_all add: swap_stage_def bridge_stage_def offramp_stage_def Let_def sample_services_def)
qed

lemma sample_composite_built:
  "buildCompositePaybackPlan sample_services sample_decision (JStr ''2026-04-27T00:00:00.000Z'') = Inr sample_composite"
proof -
  have d: "py_status sample_decision = StPlan" "py_policy sample_decision = sample_payback_policy"
    "py_reserveState sample_decision = sample_reserve" "py_recipient sample_decision = JStr ''bc1qexample''"
    by (simp_all add: sample_decision_def)
  have s: "sv_signerHealth sample_services = Inr (JObj [(''addresses'', JObj [(''base'', JStr ''0x01'')])])"
    by (simp add: sample_services_def)
  have "first_truthy [dot sample_reserve ''senderAddress'',
      dots (JObj [(''addresses'', JObj [(''base'', JStr ''0x01'')])]) [''addresses'', ''base''], JNull] = JStr ''0x01''"
    "nullish sample_reserve = False"
    by code_simp+
  moreover have "composite_recipient sample_services sample_decision = JStr ''bc1qexample''"
    by (simp add: composite_recipient_def d orelse_def)
  ultimately show ?thesis
    unfolding buildCompositePaybackPlan_def Let_def d s sum.case
    by (simp add: sample_stages next_stage_def sample_composite_def del: first_truthy.simps)
qed

lemma sample_minimum: "pl_minPaybackSats sample_payback_policy = Fin 20000"
proof -
  have "effectiveMinPaybackSats (JNum (Fin 4000000)) = Fin 20000"
    using floor_half_percent [of 4000000] effective_minimum_num [of "JNum (Fin 4000000)" 4000000] pay_clamp_int [of 20000]
    by (auto simp: configFiniteNonNegative_def Let_def)
  then show ?thesis by (simp add: sample_payback_policy_def committed_policy num_or_null_def)
qed

lemma sample_composite_ready:
  "\<exists>cp. cr_compositePlan sample_composite = Some cp
     \<and> List.map sp_kind (cp_steps cp) = [''gateway_btc_consolidation'', ''gateway_btc_offramp'']"
proof -
  have log: "py_decisionLog sample_decision = plan_log (JStr ''2026-04-27T00:00:00.000Z'')
      (JObj (buildAccumulatorConfig sample_payback_request)) sample_payback_policy sample_snapshot sample_terms
      (Some (Fin 4000000))"
    by (simp add: sample_decision_def)
  have price: "decision_btcUsd sample_decision = None"
    unfolding decision_btcUsd_def log by (simp add: plan_log_def dots_def fld_def payFiniteNumber_def)
  have cost: "estimateCompositeCostSats None (Some sample_bridge_plan) sample_offramp_plan None = Fin 1000"
    by code_simp
  have gross: "num0 (finiteNonNegative (dots (JObj (py_decisionLog sample_decision))
      [''applied'', ''grossTargetBeforeCostsSats''])) = Fin 200000"
    unfolding log plan_log_target by (simp add: sample_terms_def finiteNonNegative_def payFiniteNumber_def num0_def opt_default_def)
  have share: "num0 (pl_maxOfframpCostPctOfPayback sample_payback_policy) = lit 10 100"
    unfolding sample_payback_policy_def committed_max_share by (simp add: num0_def opt_default_def)
  have net: "jmax (Fin 0) (jsub (Fin 200000) (Fin 1000)) = Fin 199000"
    "jlt (jmul (Fin 199000) (lit 10 100)) (Fin 1000) = False" "jlt (Fin 199000) (Fin 20000) = False"
    by code_simp+
  have p: "py_policy sample_decision = sample_payback_policy" by (simp add: sample_decision_def)
  show ?thesis
    unfolding sample_composite_def price_composite_def Let_def price cost gross p share sample_minimum net
    by (simp add: composite_steps_def)
qed

lemma sample_tick_decision: "tick_decision sample_tick sample_payback_request = Inr sample_decision"
proof -
  have "sample_payback_request\<lparr>rq_getEnv := sv_getEnv (ts_plan sample_tick), rq_recipientOverride := JNull\<rparr>
      = sample_payback_request"
    by (simp add: sample_payback_request_def sample_tick_def sample_services_def)
  then show ?thesis by (simp add: tick_decision_def sample_decided)
qed

lemma sample_tick_called:
  "\<exists>called answer. runPaybackSchedulerTick sample_tick sample_payback_request True False [] = (called, answer)
     \<and> called \<noteq> []"
proof -
  obtain cp where cp: "cr_compositePlan sample_composite = Some cp"
    "List.map sp_kind (cp_steps cp) = [''gateway_btc_consolidation'', ''gateway_btc_offramp'']"
    using sample_composite_ready by (elim exE conjE)
  obtain a b where steps: "cp_steps cp = [a, b]" "sp_kind a = ''gateway_btc_consolidation''" "sp_kind b = ''gateway_btc_offramp''"
    using cp(2) by (auto simp: map_eq_Cons_conv)
  have ready: "cr_status sample_composite = ''ready''"
    using cp(1) price_composite_ready(1) unfolding sample_composite_def by blast
  have ok: "pr_decision (policy_allow ''kill_switch'' JNull []) \<noteq> BLOCK" by (simp add: policy_allow_def)
  have "fst (execute_steps (ts_executors sample_tick) [] (cp_steps cp) []) \<noteq> []"
    by (simp add: steps execute_step_def executor_call_def Let_def split_def sample_tick_def sample_executors_def)
  then have "fst (submitCompositePaybackPlan (ts_executors sample_tick) builder [] cp clock) \<noteq> []" for builder clock
    by (simp add: submitCompositePaybackPlan_def Let_def steps split_def)
  then have "fst (tick_ready sample_tick sample_composite cp True False []) \<noteq> []"
    by (simp add: tick_ready_def Let_def split_def)
  moreover have "runPaybackSchedulerTick sample_tick sample_payback_request True False []
      = tick_ready sample_tick sample_composite cp True False []"
  proof -
    have t: "ts_killSwitch sample_tick = Inr (policy_allow ''kill_switch'' JNull [])" "ts_plan sample_tick = sample_services"
      by (simp_all add: sample_tick_def)
    have d: "py_status sample_decision = StPlan" by (simp add: sample_decision_def)
    show ?thesis
      unfolding runPaybackSchedulerTick_def t sum.case sample_tick_decision sample_request_parts sample_composite_built
      using ok d cp(1) ready by simp
  qed
  ultimately show ?thesis by (metis prod.collapse)
qed

lemma payback_tick_guarded_witness:
  "\<exists>called answer. runPaybackSchedulerTick sample_tick sample_payback_request True False [] = (called, answer)
    \<and> (\<exists>d planning cp k. tick_decision sample_tick sample_payback_request = Inr d \<and> py_status d = StPlan
        \<and> buildCompositePaybackPlan (ts_plan sample_tick) d (rq_now sample_payback_request) = Inr planning
        \<and> cr_compositePlan planning = Some cp
        \<and> jle (Fin 5000) (cp_plannedPaybackSats cp) \<and> jle (cp_plannedPaybackSats cp) (Fin 500000)
        \<and> jle (cp_estimatedOfframpCostSats cp) (jmul (cp_plannedPaybackSats cp) (lit 10 100))
        \<and> truthy (cp_recipient cp) \<and> called = take k (cp_steps cp))"
proof -
  obtain called answer where e: "runPaybackSchedulerTick sample_tick sample_payback_request True False [] = (called, answer)"
    "called \<noteq> []"
    using sample_tick_called by blast
  from payback_tick_guarded [OF e sample_request_parts(3)] e(1) show ?thesis by blast
qed

lemma disbursement_not_credited_witness:
  "\<exists>cp r. receipt_complete (delivery_of cp [\<lparr>sr_id = ''gateway_offramp_to_bitcoin'', sr_kind = ''gateway_btc_offramp'',
       sr_execution = sample_execution\<rparr>])
     \<and> buildPaybackDisbursementRecord (\<lambda>_. Inr []) (Some cp) [\<lparr>sr_id = ''gateway_offramp_to_bitcoin'',
       sr_kind = ''gateway_btc_offramp'', sr_execution = sample_execution\<rparr>] JNull = Inr r
     \<and> paidBackSatsFromRecord (JObj r) None (JObj (buildAccumulatorConfig sample_payback_request))
         \<lparr>pm_strategyIds = [JStr GATEWAY_BTC_OFFRAMP_STRATEGY_ID], pm_intentTypes = [JStr ''gateway_btc_offramp'']\<rparr> = Inr None"
proof -
  let ?results = "[\<lparr>sr_id = ''gateway_offramp_to_bitcoin'', sr_kind = ''gateway_btc_offramp'', sr_execution = sample_execution\<rparr>]"
  obtain cp where "cr_compositePlan sample_composite = Some cp" using sample_composite_ready by (elim exE conjE)
  have complete: "receipt_complete (delivery_of cp ?results)"
  proof -
    have p: "split_on (CHR ''.'') ''destinationProof.observedDelta'' = [''destinationProof'', ''observedDelta'']"
      "split_on (CHR ''.'') ''destinationProof.txid'' = [''destinationProof'', ''txid'']"
      "split_on (CHR ''.'') ''plan.order.orderId'' = [''plan'', ''order'', ''orderId'']"
      "split_on (CHR ''.'') ''signerResult.broadcast.txHash'' = [''signerResult'', ''broadcast'', ''txHash'']"
      "split_on (CHR ''.'') ''settlementStatus'' = [''settlementStatus'']"
      by code_simp+
    show ?thesis
      by (simp add: receipt_complete_def delivery_of_def Let_def step_of_kind_def firstPresent_def p sample_execution_def
          dots_def fld_def orelse_def payFiniteNumber_def)
  qed
  obtain r where r: "buildPaybackDisbursementRecord (\<lambda>_. Inr []) (Some cp) ?results JNull = Inr r"
    by (simp add: buildPaybackDisbursementRecord_def Let_def)
  have c: "dot (JObj (buildAccumulatorConfig sample_payback_request)) ''paidBackSatsPaths'' = JUndef"
    "dot (JObj (buildAccumulatorConfig sample_payback_request)) ''paidBackUsdPaths'' = JUndef"
    by (simp_all add: buildAccumulatorConfig_def fld_def)
  show ?thesis
    using complete r disbursement_not_credited [OF r c] by blast
qed

end
