(* ===== verification/JsText.thy ===== *)
theory JsText
  imports AuditLog
begin

text \<open>
  Lemmas on the string functions the file formats share: trimming at the end, splitting at a
  character and joining again, and searching text that a separator divides.
\<close>

section \<open>Searching and trimming\<close>

lemma is_prefix_append: "is_prefix p s \<Longrightarrow> is_prefix p (s @ t)"
  by (induction p s rule: is_prefix.induct) auto

lemma str_includes_append: "str_includes p s \<Longrightarrow> str_includes p (s @ t)"
proof (induction s)
  case Nil
  then show ?case by (cases t) simp_all
next
  case (Cons c s)
  then show ?case using is_prefix_append [of p "c # s" t] by auto
qed

lemma is_prefix_barrier: "c \<notin> set p \<Longrightarrow> is_prefix p (s @ c # t) \<longleftrightarrow> is_prefix p s"
  by (induction p s rule: is_prefix.induct) auto

lemma str_includes_barrier:
  "c \<notin> set p \<Longrightarrow> p \<noteq> [] \<Longrightarrow> str_includes p (s @ c # t) \<longleftrightarrow> str_includes p s \<or> str_includes p t"
proof (induction s)
  case Nil
  then have "\<not> is_prefix p (c # t)" by (cases p) auto
  with Nil show ?case by simp
next
  case (Cons d s)
  then show ?case using is_prefix_barrier [of c p "d # s" t] by simp
qed

lemma str_includes_join:
  "c \<notin> set p \<Longrightarrow> p \<noteq> [] \<Longrightarrow> str_includes p (join [c] xs) \<longleftrightarrow> (\<exists>x\<in>set xs. str_includes p x)"
  by (induction "[c]" xs rule: join.induct) (auto simp: str_includes_barrier)

definition rtrim :: "string \<Rightarrow> string" where
  "rtrim s = rev (dropWhile is_space (rev s))"

lemma trim_first: "\<not> is_space c \<Longrightarrow> trim (c # s) = rtrim (c # s)"
  by (simp add: trim_def rtrim_def)

lemma rtrim_prefix: "\<exists>t. s = rtrim s @ t"
proof -
  have "s = rtrim s @ rev (takeWhile is_space (rev s))"
    unfolding rtrim_def rev_append [symmetric] by simp
  then show ?thesis by blast
qed

lemma rtrim_includes: "str_includes p (rtrim s) \<Longrightarrow> str_includes p s"
  using rtrim_prefix [of s] str_includes_append by metis

lemma rtrim_append: "\<not> is_space c \<Longrightarrow> rtrim (s @ c # t) = s @ c # rtrim t"
proof -
  assume c: "\<not> is_space c"
  then have "dropWhile is_space (xs @ c # rev s) = dropWhile is_space xs @ c # rev s" for xs
    by (induction xs) auto
  then show ?thesis by (simp add: rtrim_def)
qed

lemma rtrim_nonempty: "trim s \<noteq> [] \<Longrightarrow> rtrim s \<noteq> []"
  by (auto simp: trim_def rtrim_def dropWhile_eq_Nil_conv dest: set_dropWhileD)

lemma set_rtrim: "set (rtrim s) \<subseteq> set s"
  using rtrim_prefix [of s] by (metis Un_upper1 set_append)

lemma join_split: "join [c] (split_on c s) = s"
proof (induction s)
  case (Cons x s)
  obtain a l where l: "split_on c s = a # l" using split_on_nonempty by (metis neq_Nil_conv)
  show ?case
  proof (cases "x = c")
    case True
    with Cons show ?thesis by (simp add: l)
  next
    case False
    with Cons show ?thesis by (cases l) (simp_all add: l)
  qed
qed simp

lemma split_on_line: "c \<notin> set s \<Longrightarrow> split_on c (s @ c # t) = s # split_on c t"
  by (induction s) auto

lemma split_on_none: "c \<notin> set s \<Longrightarrow> split_on c s = [s]"
  by (induction s) auto

lemma not_space [simp]:
  "\<not> is_space (CHR ''h'')" "\<not> is_space (CHR ''r'')" "\<not> is_space (CHR ''a'')" "\<not> is_space (CHR ''='')"
  "\<not> is_space (CHR ''{'')" "\<not> is_space (CHR ''}'')"
  by (simp_all add: is_space_def)

lemma is_space_newline [simp]: "is_space newline"
  by (simp add: is_space_def newline_def)

lemma rtrim_newline: "rtrim (s @ [newline]) = rtrim s"
  by (simp add: rtrim_def)

lemma rtrim_twice: "rtrim (rtrim s) = rtrim s"
proof -
  have "dropWhile P (dropWhile P xs) = dropWhile P xs" for P and xs :: string
    by (induction xs) auto
  then show ?thesis by (simp add: rtrim_def)
qed

section \<open>Splitting\<close>

lemma split_on_app:
  "split_on c (a @ b) = butlast (split_on c a) @ (List.last (split_on c a) @ hd (split_on c b)) # tl (split_on c b)"
proof (induction a)
  case Nil
  show ?case using split_on_nonempty [of c b] by simp
next
  case (Cons x a)
  show ?case
  proof (cases "x = c")
    case True
    with Cons split_on_nonempty [of c a] show ?thesis by simp
  next
    case False
    obtain s ss where s: "split_on c a = s # ss" using split_on_nonempty by (metis neq_Nil_conv)
    show ?thesis
    proof (cases ss)
      case Nil
      with Cons False s show ?thesis by simp
    next
      case (Cons t ts)
      with Cons.IH False s show ?thesis by simp
    qed
  qed
qed

lemma split_on_chars: "x \<in> set l \<Longrightarrow> l \<in> set (split_on c s) \<Longrightarrow> x \<in> set s"
proof (induction s arbitrary: l)
  case (Cons a s)
  obtain h t where e: "split_on c s = h # t" using split_on_nonempty by (metis neq_Nil_conv)
  have "x \<in> set h \<Longrightarrow> x \<in> set s" "l \<in> set t \<Longrightarrow> x \<in> set s"
    using Cons.IH [of h] Cons.IH [of l] Cons.prems(1) by (simp_all add: e)
  with Cons.prems e show ?case by (auto split: if_splits)
qed simp

lemma split_on_set: "l \<in> set (split_on c s) \<Longrightarrow> set l \<subseteq> set s"
  using split_on_chars [of _ l c s] by blast

end
