(* ===== verification/JsPretty.thy ===== *)
theory JsPretty
  imports JsJson
begin

text \<open>
  JSON.stringify(value, null, 2), the indented text in which the program writes its state
  files, and the round trip through JSON.parse: \<open>json_parse_pretty\<close>, for the text alone and
  with white space around it, as the writers add a line break.
\<close>

section \<open>The indented text\<close>

definition indent :: "nat \<Rightarrow> string" where
  "indent n = CHR 0x0A # replicate n (CHR '' '')"

definition bracket :: "nat \<Rightarrow> char \<Rightarrow> char \<Rightarrow> string list \<Rightarrow> string" where
  "bracket n lb rb parts =
     (if parts = [] then [lb, rb]
      else lb # indent (n + 2) @ join (CHR '','' # indent (n + 2)) parts @ indent n @ [rb])"

fun json_pretty :: "nat \<Rightarrow> jsv \<Rightarrow> string option" where
  "json_pretty n JUndef = None"
| "json_pretty n JNull = Some ''null''"
| "json_pretty n (JBool b) = Some (if b then ''true'' else ''false'')"
| "json_pretty n (JNum x) = Some (json_num x)"
| "json_pretty n (JStr s) = Some (json_str s)"
| "json_pretty n (JArr xs) =
     Some (bracket n (CHR ''['') (CHR '']'') (List.map (\<lambda>v.
       case json_pretty (n + 2) v of None \<Rightarrow> ''null'' | Some t \<Rightarrow> t) xs))"
| "json_pretty n (JObj fs) =
     Some (bracket n (CHR ''{'') (CHR ''}'') (concat (List.map (\<lambda>(k, v).
       case json_pretty (n + 2) v of None \<Rightarrow> [] | Some t \<Rightarrow> [json_str k @ '': '' @ t]) fs)))"

section \<open>White space between tokens\<close>

lemma json_ws_space [simp]: "json_ws (CHR '' '')" "json_ws (CHR 0x0A)"
  by (simp_all add: json_ws_def)

lemma skip_ws_app [simp]: "list_all json_ws w \<Longrightarrow> skip_ws (w @ s) = skip_ws s"
  by (induction w) (simp_all add: skip_ws_def)

lemma skip_ws_step: "json_ws c \<Longrightarrow> skip_ws (c # s) = skip_ws s"
  by (simp add: skip_ws_def)

lemma json_value_ws: "list_all json_ws w \<Longrightarrow> json_value n (w @ s) = json_value n s"
  by (cases n) simp_all

lemma json_elems_ws: "list_all json_ws w \<Longrightarrow> json_elems n (w @ s) = json_elems n s"
  by (cases n) (simp_all add: json_value_ws)

lemma json_members_ws: "list_all json_ws w \<Longrightarrow> json_members n (w @ s) = json_members n s"
  by (cases n) simp_all

lemma indent_ws [simp]: "list_all json_ws (indent n)"
  by (simp add: indent_def list_all_iff)

lemma json_delim_indent [simp]: "json_delim (indent n @ s)" "json_delim (CHR '','' # s)"
  by (simp_all add: json_delim_def indent_def)

lemma length_join_Cons: "length (join sep xs) \<le> length (join sep (x # xs))"
  by (cases xs) simp_all

text \<open>Elements and members separated by a comma and white space, closed after white space.\<close>

lemma json_elems_spaced:
  assumes "\<And>t v. (t, v) \<in> set tvs \<Longrightarrow> json_reads t v" "list_all json_ws w"
  shows "tvs \<noteq> [] \<Longrightarrow> 2 * length (join (CHR '','' # w) (List.map fst tvs)) + 2 \<le> n \<Longrightarrow>
    json_elems n (join (CHR '','' # w) (List.map fst tvs) @ indent k @ CHR '']'' # rest)
      = Some (List.map snd tvs, rest)"
  using assms(1)
proof (induction tvs arbitrary: n)
  case Nil
  then show ?case by simp
next
  case (Cons tv tvs)
  obtain t v where tv: "tv = (t, v)" by (cases tv)
  have r: "json_reads t v" using Cons.prems(3) by (simp add: tv)
  obtain n' where n: "n = Suc n'" using Cons.prems(2) by (cases n) auto
  show ?case
  proof (cases "tvs = []")
    case True
    have "json_value n' (t @ indent k @ CHR '']'' # rest) = Some (v, indent k @ CHR '']'' # rest)"
      using Cons.prems(2) by (intro json_readsD [OF r]) (simp_all add: n tv True)
    then show ?thesis by (simp add: n tv True)
  next
    case False
    let ?j = "join (CHR '','' # w) (List.map fst tvs)"
    let ?tail = "indent k @ CHR '']'' # rest"
    have j: "join (CHR '','' # w) (List.map fst (tv # tvs)) = t @ CHR '','' # w @ ?j"
      using False by (cases tvs) (simp_all add: tv)
    have "json_value n' (t @ CHR '','' # w @ ?j @ ?tail) = Some (v, CHR '','' # w @ ?j @ ?tail)"
      using Cons.prems(2) j by (intro json_readsD [OF r]) (simp_all add: n)
    moreover have "json_elems n' (?j @ ?tail) = Some (List.map snd tvs, rest)"
      using Cons.prems(2,3) j False by (intro Cons.IH) (auto simp: n)
    ultimately show ?thesis unfolding j by (simp add: n tv json_elems_ws [OF assms(2)])
  qed
qed

definition spaced_member :: "string \<times> string \<times> jsv \<Rightarrow> string" where
  "spaced_member m = json_str (fst m) @ '': '' @ fst (snd m)"

lemma json_members_spaced:
  assumes "\<And>k t v. (k, t, v) \<in> set ms \<Longrightarrow> json_reads t v" "list_all json_ws w"
  shows "ms \<noteq> [] \<Longrightarrow> 2 * length (join (CHR '','' # w) (List.map spaced_member ms)) + 2 \<le> n \<Longrightarrow>
    json_members n (join (CHR '','' # w) (List.map spaced_member ms) @ indent i @ CHR ''}'' # rest)
      = Some (List.map (\<lambda>(k, t, v). (k, v)) ms, rest)"
  using assms(1)
proof (induction ms arbitrary: n)
  case Nil
  then show ?case by simp
next
  case (Cons m ms)
  obtain k t v where m: "m = (k, t, v)" by (cases m)
  have r: "json_reads t v" by (rule Cons.prems(3) [of k]) (simp add: m)
  obtain n' where n: "n = Suc n'" using Cons.prems(2) by (cases n) auto
  have mt: "spaced_member m @ tail
      = CHR 0x22 # concat (List.map json_char k) @ CHR 0x22 # CHR '':'' # CHR '' '' # t @ tail" for tail
    by (simp add: spaced_member_def json_str_def m)
  have len: "length t < length (spaced_member m)" by (simp add: spaced_member_def json_str_def m)
  have sp: "json_value n' (CHR '' '' # s) = json_value n' s" for s
    using json_value_ws [of "'' ''" n' s] by simp
  show ?case
  proof (cases "ms = []")
    case True
    have "json_value n' (t @ indent i @ CHR ''}'' # rest) = Some (v, indent i @ CHR ''}'' # rest)"
      using Cons.prems(2) len by (intro json_readsD [OF r]) (simp_all add: n True)
    then show ?thesis by (simp add: n m [symmetric] True mt json_chars_json_str sp) (simp add: m)
  next
    case False
    let ?j = "join (CHR '','' # w) (List.map spaced_member ms)"
    let ?tail = "indent i @ CHR ''}'' # rest"
    have j: "join (CHR '','' # w) (List.map spaced_member (m # ms)) = spaced_member m @ CHR '','' # w @ ?j"
      using False by (cases ms) simp_all
    have "json_value n' (t @ CHR '','' # w @ ?j @ ?tail) = Some (v, CHR '','' # w @ ?j @ ?tail)"
      using Cons.prems(2) j len by (intro json_readsD [OF r]) (simp_all add: n)
    moreover have "json_members n' (?j @ ?tail) = Some (List.map (\<lambda>(k, t, v). (k, v)) ms, rest)"
      using Cons.prems(2,3) j False by (intro Cons.IH) (auto simp: n)
    ultimately show ?thesis
      unfolding j by (simp add: n mt json_chars_json_str sp json_members_ws [OF assms(2)]) (simp add: m)
  qed
qed

lemma indent_first: "skip_ws (indent n @ s) = skip_ws s"
  by simp

lemma bracket_Nil: "bracket n lb rb [] = [lb, rb]"
  by (simp add: bracket_def)

lemma json_reads_bracket_arr:
  assumes "\<And>t v. (t, v) \<in> set tvs \<Longrightarrow> json_reads t v"
  shows "json_reads (bracket n (CHR ''['') (CHR '']'') (List.map fst tvs)) (JArr (List.map snd tvs))"
proof (cases tvs)
  case Nil
  then show ?thesis using json_reads_arr [of "[]"] by (simp add: bracket_Nil)
next
  case (Cons tv tvs')
  obtain t v where tv: "tv = (t, v)" by (cases tv)
  have "json_reads t v" using assms Cons by (simp add: tv)
  then obtain c r where t: "t = c # r" "\<not> json_ws c" "c \<noteq> CHR '']''" unfolding json_reads_def by blast
  let ?w = "indent (n + 2)"
  let ?j = "join (CHR '','' # ?w) (List.map fst tvs)"
  obtain r' where j: "?j = c # r'" by (cases tvs') (simp_all add: Cons tv t(1))
  let ?t = "bracket n (CHR ''['') (CHR '']'') (List.map fst tvs)"
  have b: "?t = CHR ''['' # ?w @ ?j @ indent n @ '']''" using Cons by (simp add: bracket_def)
  show ?thesis
  proof (rule json_readsI [OF b])
    fix m rest
    assume "2 * length ?t \<le> m"
    then have len: "2 * length ?j + 2 \<le> m" unfolding b by simp
    have "json_elems m (?j @ indent n @ CHR '']'' # rest) = Some (List.map snd tvs, rest)"
      using len Cons assms by (intro json_elems_spaced) auto
    then have "json_elems m (?w @ ?j @ indent n @ CHR '']'' # rest) = Some (List.map snd tvs, rest)"
      by (simp only: json_elems_ws [OF indent_ws])
    moreover have "skip_ws (?w @ ?j @ indent n @ CHR '']'' # rest) = c # r' @ indent n @ CHR '']'' # rest"
      unfolding skip_ws_app [OF indent_ws] j append_Cons by (rule skip_ws_Cons [OF t(2)])
    ultimately show "json_value (Suc m) (?t @ rest) = Some (JArr (List.map snd tvs), rest)"
      using t(3) by (simp add: b del: skip_ws_app)
  qed simp_all
qed

lemma json_reads_bracket_obj:
  assumes "\<And>k t v. (k, t, v) \<in> set ms \<Longrightarrow> json_reads t v" "distinct (List.map fst ms)"
  shows "json_reads (bracket n (CHR ''{'') (CHR ''}'') (List.map spaced_member ms))
    (JObj (List.map (\<lambda>(k, t, v). (k, v)) ms))"
proof (cases ms)
  case Nil
  then show ?thesis using json_reads_obj [of "[]"] by (simp add: bracket_Nil)
next
  case (Cons m ms')
  let ?w = "indent (n + 2)"
  let ?j = "join (CHR '','' # ?w) (List.map spaced_member ms)"
  obtain r' where j: "?j = CHR 0x22 # r'"
    by (cases ms') (simp_all add: Cons spaced_member_def json_str_def)
  let ?t = "bracket n (CHR ''{'') (CHR ''}'') (List.map spaced_member ms)"
  have b: "?t = CHR ''{'' # ?w @ ?j @ indent n @ ''}''" using Cons by (simp add: bracket_def)
  have "List.map fst (List.map (\<lambda>(k, t, v). (k, v)) ms) = List.map fst ms" by (induction ms) auto
  then have sp: "spread [] (List.map (\<lambda>(k, t, v). (k, v)) ms) = List.map (\<lambda>(k, t, v). (k, v)) ms"
    using assms(2) by (intro spread_distinct) (simp only:)
  show ?thesis
  proof (rule json_readsI [OF b])
    fix m rest
    assume "2 * length ?t \<le> m"
    then have len: "2 * length ?j + 2 \<le> m" unfolding b by simp
    have "json_members m (?j @ indent n @ CHR ''}'' # rest) = Some (List.map (\<lambda>(k, t, v). (k, v)) ms, rest)"
      using len Cons assms(1) by (intro json_members_spaced) auto
    then have "json_members m (?w @ ?j @ indent n @ CHR ''}'' # rest)
        = Some (List.map (\<lambda>(k, t, v). (k, v)) ms, rest)"
      by (simp only: json_members_ws [OF indent_ws])
    moreover have "skip_ws (?w @ ?j @ indent n @ CHR ''}'' # rest) = CHR 0x22 # r' @ indent n @ CHR ''}'' # rest"
      unfolding skip_ws_app [OF indent_ws] j append_Cons by (rule skip_ws_Cons) simp
    ultimately show "json_value (Suc m) (?t @ rest) = Some (JObj (List.map (\<lambda>(k, t, v). (k, v)) ms), rest)"
      using sp by (simp add: b del: skip_ws_app)
  qed simp_all
qed

section \<open>The round trip\<close>

lemma json_pretty_None: "json_pretty n v = None \<longleftrightarrow> v = JUndef"
  by (cases v) simp_all

definition pretty_element :: "nat \<Rightarrow> jsv \<Rightarrow> string" where
  "pretty_element n v = (case json_pretty n v of None \<Rightarrow> ''null'' | Some t \<Rightarrow> t)"

definition pretty_members :: "nat \<Rightarrow> fields \<Rightarrow> (string \<times> string \<times> jsv) list" where
  "pretty_members n fs = concat (List.map (\<lambda>(k, v).
     case json_pretty n v of None \<Rightarrow> [] | Some t \<Rightarrow> [(k, t, json_kept v)]) fs)"

lemma pretty_members_simps [simp]:
  "pretty_members n [] = []"
  "pretty_members n ((k, v) # fs) =
     (case json_pretty n v of None \<Rightarrow> [] | Some t \<Rightarrow> [(k, t, json_kept v)]) @ pretty_members n fs"
  by (simp_all add: pretty_members_def)

lemma pretty_members_text:
  "List.map spaced_member (pretty_members n fs) = concat (List.map (\<lambda>(k, v).
     case json_pretty n v of None \<Rightarrow> [] | Some t \<Rightarrow> [json_str k @ '': '' @ t]) fs)"
  by (induction fs) (auto simp: spaced_member_def split: option.splits)

lemma pretty_members_kept:
  "List.map (\<lambda>(k, t, v). (k, v)) (pretty_members n fs)
     = concat (List.map (\<lambda>(k, v). if v = JUndef then [] else [(k, json_kept v)]) fs)"
  by (induction fs) (auto simp: json_pretty_None split: option.splits)

lemma pretty_members_in:
  assumes "(k, t, w) \<in> set (pretty_members n fs)"
  shows "\<exists>v. (k, v) \<in> set fs \<and> json_pretty n v = Some t \<and> w = json_kept v"
proof -
  from assms obtain k' v where v: "(k', v) \<in> set fs"
    "(k, t, w) \<in> set (case json_pretty n v of None \<Rightarrow> [] | Some t \<Rightarrow> [(k', t, json_kept v)])"
    unfolding pretty_members_def by fastforce
  then show ?thesis by (auto split: option.splits)
qed

lemma pretty_members_keys: "set (List.map fst (pretty_members n fs)) \<subseteq> set (List.map fst fs)"
proof
  fix k
  assume "k \<in> set (List.map fst (pretty_members n fs))"
  then obtain t w where "(k, t, w) \<in> set (pretty_members n fs)" by auto
  from pretty_members_in [OF this] show "k \<in> set (List.map fst fs)" by force
qed

lemma pretty_members_distinct:
  "distinct (List.map fst fs) \<Longrightarrow> distinct (List.map fst (pretty_members n fs))"
proof (induction fs)
  case (Cons f fs)
  obtain k v where f: "f = (k, v)" by (cases f)
  have "k \<notin> set (List.map fst (pretty_members n fs))"
    using Cons.prems pretty_members_keys [of n fs] by (auto simp: f)
  with Cons show ?case by (auto simp: f split: option.splits)
qed simp

lemma json_pretty_reads:
  "json_plain v \<Longrightarrow> json_pretty n v = Some t \<Longrightarrow> json_reads t (json_kept v)"
proof (induction n v arbitrary: t rule: json_pretty.induct)
  case (4 n x)
  then show ?case using json_reads_num [of x] by simp
next
  case (6 n xs)
  let ?tvs = "List.map (\<lambda>v. (pretty_element (n + 2) v, json_kept v)) xs"
  have "json_reads u w" if uw: "(u, w) \<in> set ?tvs" for u w
  proof -
    from uw obtain v where v: "v \<in> set xs" "u = pretty_element (n + 2) v" "w = json_kept v" by auto
    show ?thesis
    proof (cases "json_pretty (n + 2) v")
      case None
      then show ?thesis using v json_reads_literal(1) by (simp add: pretty_element_def json_pretty_None)
    next
      case (Some s)
      then show ?thesis using 6 v by (auto simp: pretty_element_def list_all_iff)
    qed
  qed
  then have "json_reads (bracket n (CHR ''['') (CHR '']'') (List.map fst ?tvs)) (JArr (List.map snd ?tvs))"
    by (rule json_reads_bracket_arr)
  moreover have "t = bracket n (CHR ''['') (CHR '']'') (List.map fst ?tvs)"
    using "6.prems"(2) by (simp add: pretty_element_def comp_def)
  moreover have "json_kept (JArr xs) = JArr (List.map snd ?tvs)" by (simp add: comp_def)
  ultimately show ?case by (simp only:)
next
  case (7 n fs)
  have "json_reads u w" if "(k, u, w) \<in> set (pretty_members (n + 2) fs)" for k u w
  proof -
    from pretty_members_in [OF that] obtain v where
      v: "(k, v) \<in> set fs" "json_pretty (n + 2) v = Some u" "w = json_kept v" by blast
    moreover from this "7.prems" have "json_plain v" by (auto simp: list_all_iff)
    ultimately show ?thesis using "7.IH" [of "(k, v)"] by auto
  qed
  then have "json_reads (bracket n (CHR ''{'') (CHR ''}'') (List.map spaced_member (pretty_members (n + 2) fs)))
      (JObj (List.map (\<lambda>(k, t, v). (k, v)) (pretty_members (n + 2) fs)))"
    using "7.prems"(1) by (intro json_reads_bracket_obj pretty_members_distinct) auto
  then show ?case using "7.prems"(2) by (simp add: pretty_members_text pretty_members_kept)
qed (use json_reads_literal json_reads_str in auto)

text \<open>White space around the text changes nothing.\<close>

theorem json_parse_pretty:
  assumes "json_plain v" "json_pretty 0 v = Some t" "list_all json_ws w" "w = [] \<or> hd w = CHR 0x0A"
  shows "json_parse (t @ w) = Inr (json_kept v)"
proof -
  have "json_reads t (json_kept v)" by (rule json_pretty_reads [OF assms(1,2)])
  moreover have "json_delim w" using assms(4) by (auto simp: json_delim_def)
  ultimately have "json_value (2 * length (t @ w) + 1) (t @ w) = Some (json_kept v, w)"
    by (intro json_readsD) simp_all
  moreover have "skip_ws w = []" using assms(3) skip_ws_app [of w "[]"] by (simp add: skip_ws_def)
  ultimately show ?thesis by (simp add: json_parse_def)
qed

end
