(* ===== verification/KillSwitchFile.thy ===== *)
theory KillSwitchFile
  imports AuditLog AutoKill SleeveGates JsPretty
begin

text \<open>
  src/src/executor/policy/kill-switch.mjs: where the kill-switch file is, the audit records of
  every toggle, the status read with its automatic clearing of a stale watchdog arm, and the
  resume review. The file and its audit log are the state \<open>ks_world\<close>; what the file system
  answers to the calls that may fail is an argument. Whether \<open>checkKillSwitch\<close> blocks, in
  SleeveGates, depends on this file alone.
\<close>

section \<open>Paths\<close>

text \<open>path.resolve and path.join of POSIX systems: \<open>.\<close> and empty segments vanish, \<open>..\<close> pops.\<close>

fun normal_segments :: "bool \<Rightarrow> string list \<Rightarrow> string list \<Rightarrow> string list" where
  "normal_segments absolute acc [] = rev acc"
| "normal_segments absolute acc (s # ss) =
     (if s = [] \<or> s = ''.'' then normal_segments absolute acc ss
      else if s = ''..'' then
        (case acc of
           [] \<Rightarrow> normal_segments absolute (if absolute then [] else [''..'']) ss
         | a # acc' \<Rightarrow> if a = ''..'' then normal_segments absolute (''..'' # acc) ss
                       else normal_segments absolute acc' ss)
      else normal_segments absolute (s # acc) ss)"

definition resolve_path :: "string \<Rightarrow> string \<Rightarrow> string" where
  "resolve_path cwd p =
     ''/'' @ join ''/'' (normal_segments True []
       (split_on (CHR ''/'') (if is_prefix ''/'' p then p else cwd @ ''/'' @ p)))"

definition join_path :: "string list \<Rightarrow> string" where
  "join_path ps =
     (let p = join ''/'' (List.filter (\<lambda>s. s \<noteq> []) ps);
          absolute = is_prefix ''/'' p;
          body = join ''/'' (normal_segments absolute [] (split_on (CHR ''/'') p));
          slash = (if p \<noteq> [] \<and> List.last p = CHR ''/'' then ''/'' else [])
      in if p = [] then ''.''
         else if body = [] then (if absolute then ''/'' else ''.'' @ slash)
         else (if absolute then ''/'' else []) @ body @ slash)"

definition env_or :: "(string \<rightharpoonup> string) \<Rightarrow> string \<Rightarrow> string \<Rightarrow> string" where
  "env_or env k dflt = (case env k of Some (c # s) \<Rightarrow> c # s | _ \<Rightarrow> dflt)"

definition resolveKillSwitchPath :: "string \<Rightarrow> (string \<rightharpoonup> string) \<Rightarrow> string" where
  "resolveKillSwitchPath homedir env =
     env_or env ''KILL_SWITCH_PATH'' (join_path [env_or env ''HOME'' homedir, ''.bob-claw'', ''KILL_SWITCH''])"

definition resolveKillSwitchAuditPath :: "(string \<rightharpoonup> string) \<Rightarrow> string" where
  "resolveKillSwitchAuditPath env = env_or env ''KILL_SWITCH_AUDIT_PATH'' ''logs/kill-switch-audit.jsonl''"

definition normalizePath :: "string \<Rightarrow> jsv \<Rightarrow> jsv throws" where
  "normalizePath cwd p =
     (if \<not> truthy p then Inr JNull
      else case p of JStr s \<Rightarrow> Inr (JStr (resolve_path cwd s)) | _ \<Rightarrow> Inl TypeError)"

section \<open>The file and its audit log\<close>

text \<open>
  The kill-switch file: absent; such that access() fails other than by ENOENT; present but not
  readable; gone between access() and the read; or present with its modification time (an ISO
  string) and contents.
\<close>

datatype kill_file = NoFile | Unreachable js_error | Unreadable js_error | Vanishing | Present string string

record ks_world =
  kw_file :: kill_file
  kw_audit :: file_read
  kw_events :: file_read
  kw_signer :: file_read

text \<open>The error with which a call fails, \<open>None\<close> where it does its work.\<close>

record fs_answers =
  fa_write :: "js_error option"
  fa_unlink :: "js_error option"
  fa_append :: "js_error option"
  fa_events :: "js_error option"
  fa_signer :: "js_error option"

fun fileExists :: "kill_file \<Rightarrow> bool throws" where
  "fileExists NoFile = Inr False"
| "fileExists (Unreachable e) = Inl e"
| "fileExists (Unreadable e) = Inr True"
| "fileExists Vanishing = Inr True"
| "fileExists (Present m c) = Inr True"

definition buildKillSwitchAuditRecord ::
    "jsv \<Rightarrow> jsv \<Rightarrow> jsv \<Rightarrow> jsv \<Rightarrow> jsv \<Rightarrow> jsv \<Rightarrow> jsv \<Rightarrow> jsv" where
  "buildKillSwitchAuditRecord action reason actor killSwitchPath previousState now metadata =
     JObj
       ([(''ts'', now), (''action'', action), (''reason'', reason), (''actor'', actor),
         (''killSwitchPath'', killSwitchPath), (''previousState'', default_to JNull previousState)]
        @ (if truthy metadata \<and> typeof_object metadata \<and> \<not> is_arr metadata
           then [(''metadata'', metadata)] else []))"

text \<open>The append to the log of one of the world's files; the caller says whether it fails.\<close>

definition appendKillSwitchAuditRecord :: "jsv \<Rightarrow> js_error option \<Rightarrow> file_read \<Rightarrow> file_read throws" where
  "appendKillSwitchAuditRecord record failure f =
     (case failure of Some e \<Rightarrow> Inl e
      | None \<Rightarrow> Inr (case f of
            NoEntry \<Rightarrow> Contents (log_line record)
          | Contents s \<Rightarrow> Contents (s @ log_line record)
          | ReadFails e \<Rightarrow> ReadFails e))"

section \<open>The resume review\<close>

definition buildKillSwitchResumeReviewChecklist :: "jsv \<Rightarrow> jsv \<Rightarrow> bool \<Rightarrow> jsv" where
  "buildKillSwitchResumeReviewChecklist replay postmortemPath postmortemExists =
     (let blockerMitigated = strict_eq (dot replay ''triggered'') (JBool False);
          yes_no = (\<lambda>b. JStr (if b then ''yes'' else ''no''))
      in JArr
        [JObj [(''id'', JStr ''inventory_restored''), (''question'', JStr ''inventory restored?''),
               (''answer'', JStr ''no''), (''source'', JStr ''operator_confirmation_required'')],
         JObj [(''id'', JStr ''postmortem_written''), (''question'', JStr ''postmortem written?''),
               (''answer'', yes_no postmortemExists), (''source'', postmortemPath)],
         JObj [(''id'', JStr ''blocker_mitigated''), (''question'', JStr ''blocker mitigated?''),
               (''answer'', yes_no blockerMitigated),
               (''source'', JStr (if truthy replay then ''auto_kill_replay'' else ''replay_unavailable''))]])"

definition buildKillSwitchResumeReviewPacket :: "jsv \<Rightarrow> jsv \<Rightarrow> jsv \<Rightarrow> bool \<Rightarrow> jsv \<Rightarrow> jsv" where
  "buildKillSwitchResumeReviewPacket status replay postmortemPath postmortemExists now =
     (let effectiveReplay = first_truthy [replay, dot status ''replay'', JNull];
          halted = strict_eq (dot status ''halted'') (JBool True);
          triggers =
            (if is_arr (dot status ''triggers'') \<and> elems (dot status ''triggers'') \<noteq> []
             then dot status ''triggers''
             else if is_arr (dot effectiveReplay ''triggers'') then dot effectiveReplay ''triggers''
             else JArr [])
      in JObj
        [(''schemaVersion'', JNum (Fin 1)), (''generatedAt'', now),
         (''state'', JStr (if halted then ''HALTED'' else ''RUNNING'')), (''halted'', JBool halted),
         (''killSwitchPath'', orelse (dot status ''killSwitchPath'') JNull),
         (''activeReason'', orelse (dot status ''activeReason'') JNull),
         (''activeActor'', orelse (dot status ''activeActor'') JNull),
         (''activeSince'', orelse (dot status ''activeSince'') JNull),
         (''triggers'', triggers), (''replay'', effectiveReplay),
         (''checklist'', buildKillSwitchResumeReviewChecklist effectiveReplay postmortemPath postmortemExists),
         (''clearsKillSwitch'', JBool False),
         (''nextAction'', JStr (if halted then ''operator_may_review_resume_command'' else ''no_resume_needed''))])"

section \<open>Reading the file and the log\<close>

definition key_value :: "string \<Rightarrow> string \<times> string" where
  "key_value line = (let parts = split_on (CHR ''='') line in (hd parts, join ''='' (tl parts)))"

definition parseKeyValueBody :: "string \<Rightarrow> jsv" where
  "parseKeyValueBody raw =
     (let lines = List.filter (\<lambda>l. l \<noteq> []) (List.map trim (split_on newline raw));
          entries = List.filter (\<lambda>(k, v). k \<noteq> []) (List.map key_value lines)
      in JObj (spread [] (List.map (\<lambda>(k, v). (k, JStr v)) entries)))"

definition parseKillSwitchFileContents :: "string \<Rightarrow> jsv" where
  "parseKillSwitchFileContents raw =
     (let trimmed = trim raw
      in if trimmed = [] then JNull
         else case json_parse trimmed of Inr v \<Rightarrow> v | Inl _ \<Rightarrow> parseKeyValueBody trimmed)"

text \<open>\<open>record.name\<close> of a parsed line: null has no properties.\<close>

definition read_prop :: "jsv \<Rightarrow> string \<Rightarrow> jsv throws" where
  "read_prop v k = (if nullish v then Inl TypeError else Inr (dot v k))"

text \<open>One line of the log: \<open>Some\<close> the record where it answers the query.\<close>

definition audit_line :: "string \<Rightarrow> jsv \<Rightarrow> string list \<Rightarrow> string \<Rightarrow> jsv option throws" where
  "audit_line cwd path actions line =
     and_then (json_parse line) (\<lambda>record.
     and_then (if actions = [] then Inr True
               else and_then (read_prop record ''action'') (\<lambda>a. Inr (one_of actions a))) (\<lambda>wanted.
       if \<not> wanted then Inr None
       else if path = JNull then Inr (Some record)
       else and_then (read_prop record ''killSwitchPath'') (\<lambda>p.
            and_then (normalizePath cwd p) (\<lambda>p'. Inr (if p' = path then Some record else None)))))"

fun latest_line :: "string \<Rightarrow> jsv \<Rightarrow> string list \<Rightarrow> string list \<Rightarrow> jsv throws" where
  "latest_line cwd path actions [] = Inr JNull"
| "latest_line cwd path actions (l # ls) =
     (case audit_line cwd path actions l of
        Inl e \<Rightarrow> Inl e
      | Inr None \<Rightarrow> latest_line cwd path actions ls
      | Inr (Some r) \<Rightarrow> Inr r)"

text \<open>\<open>actions\<close> is empty where the caller gives none.\<close>

definition readLatestKillSwitchAuditRecord :: "string \<Rightarrow> file_read \<Rightarrow> jsv \<Rightarrow> string list \<Rightarrow> jsv throws" where
  "readLatestKillSwitchAuditRecord cwd audit killSwitchPath actions =
     and_then (normalizePath cwd killSwitchPath) (\<lambda>path.
       case audit of
         NoEntry \<Rightarrow> Inr JNull
       | ReadFails e \<Rightarrow> Inl e
       | Contents raw \<Rightarrow> latest_line cwd path actions
           (rev (List.filter (\<lambda>line. trim line \<noteq> []) (split_on newline raw))))"

section \<open>The status\<close>

record ks_status =
  st_killSwitchPath :: jsv
  st_halted :: bool
  st_fileMtime :: jsv
  st_payload :: jsv
  st_activeReason :: jsv
  st_activeActor :: jsv
  st_activeSince :: jsv
  st_triggers :: jsv
  st_lastAudit :: jsv
  st_replay :: jsv

fun read_kill_file :: "kill_file \<Rightarrow> (jsv \<times> jsv) throws" where
  "read_kill_file (Present m c) = Inr (JStr m, parseKillSwitchFileContents c)"
| "read_kill_file (Unreadable e) = Inl e"
| "read_kill_file _ = Inr (JNull, JNull)"

fun object_keys :: "jsv \<Rightarrow> string list" where
  "object_keys (JObj fs) = List.map fst fs"
| "object_keys (JArr xs) = List.map (\<lambda>i. int_str (int i)) [0..<length xs]"
| "object_keys _ = []"

text \<open>The status before anything is cleared.\<close>

definition ks_view :: "string \<Rightarrow> jsv \<Rightarrow> jsv \<Rightarrow> ks_world \<Rightarrow> ks_status throws" where
  "ks_view cwd killSwitchPath dashboardStatus w =
     and_then (readLatestKillSwitchAuditRecord cwd (kw_audit w) killSwitchPath []) (\<lambda>lastAudit.
     and_then (readLatestKillSwitchAuditRecord cwd (kw_audit w) killSwitchPath [''halt'', ''resume'']) (\<lambda>stateAudit.
     and_then (normalizePath cwd killSwitchPath) (\<lambda>path.
     and_then (if truthy path then fileExists (kw_file w) else Inr False) (\<lambda>halted.
     and_then (if halted then read_kill_file (kw_file w) else Inr (JNull, JNull)) (\<lambda>(fileMtime, payload).
     let dashboardKillSwitch = orelse (dots dashboardStatus [''executorRuntime'', ''killSwitch'']) JNull
     in and_then (if halted then normalizePath cwd (dot dashboardKillSwitch ''killSwitchPath'') else Inr JUndef)
       (\<lambda>dashboardPath.
         Inr \<lparr>st_killSwitchPath = orelse path killSwitchPath,
              st_halted = halted,
              st_fileMtime = fileMtime,
              st_payload = payload,
              st_activeReason = first_truthy [dot payload ''reason'', dot stateAudit ''reason'', JNull],
              st_activeActor = first_truthy [dot payload ''actor'', dot stateAudit ''actor'', JNull],
              st_activeSince = first_truthy [dot payload ''halted_at'', dot payload ''evaluatedAt'', fileMtime, JNull],
              st_triggers = (if is_arr (dot payload ''triggers'') then dot payload ''triggers'' else JArr []),
              st_lastAudit = lastAudit,
              st_replay = (if halted \<and> strict_eq dashboardPath path
                           then orelse (dot dashboardKillSwitch ''replay'') JNull else JNull)\<rparr>))))))"

definition rawContentLooksLikeWatchdogTimestamp :: "jsv \<Rightarrow> bool" where
  "rawContentLooksLikeWatchdogTimestamp payload \<longleftrightarrow>
     typeof_object payload \<and> truthy payload \<and> object_keys payload = [''evaluatedAt'']
     \<and> \<not> truthy (dot payload ''reason'') \<and> \<not> truthy (dot payload ''actor'') \<and> \<not> truthy (dot payload ''halted_at'')"

definition isStaleWatchdogArm :: "ks_status \<Rightarrow> bool" where
  "isStaleWatchdogArm st \<longleftrightarrow>
     st_halted st
     \<and> (let reason = to_str (orelse (st_activeReason st) (JStr []))
        in str_includes ''watchdog_heartbeat_stale'' reason \<or> str_includes ''heartbeat_stale'' reason
           \<or> rawContentLooksLikeWatchdogTimestamp (st_payload st))"

definition auto_clear_record :: "jsv \<Rightarrow> ks_status \<Rightarrow> jsv" where
  "auto_clear_record now st =
     buildKillSwitchAuditRecord (JStr ''auto_cleared_stale_arm'')
       (JStr ''stale_watchdog_heartbeat_arm_no_longer_justified'') (JStr ''readiness:kill-switch-status'')
       (st_killSwitchPath st) (JStr ''halted'') now
       (JObj [(''activeReason'', st_activeReason st),
              (''replayStaleArm'', JBool (strict_eq (dot (st_replay st) ''staleArm'') (JBool True))),
              (''fileMtimeBeforeClear'', st_fileMtime st)])"

text \<open>unlink() does its work, or finds the file gone.\<close>

definition unlinked :: "fs_answers \<Rightarrow> kill_file \<Rightarrow> bool" where
  "unlinked ans f \<longleftrightarrow> fa_unlink ans = None \<or> f = Vanishing"

definition readKillSwitchStatus ::
    "string \<Rightarrow> jsv \<Rightarrow> fs_answers \<Rightarrow> jsv \<Rightarrow> jsv \<Rightarrow> ks_world \<Rightarrow> (ks_status \<times> ks_world) throws" where
  "readKillSwitchStatus cwd now ans killSwitchPath dashboardStatus w =
     and_then (ks_view cwd killSwitchPath dashboardStatus w) (\<lambda>st.
       if isStaleWatchdogArm st \<and> unlinked ans (kw_file w)
       then Inr (st\<lparr>st_halted := False, st_fileMtime := JNull\<rparr>,
                 w\<lparr>kw_file := NoFile,
                   kw_audit := (case appendKillSwitchAuditRecord (auto_clear_record now st) (fa_append ans) (kw_audit w) of
                       Inr f \<Rightarrow> f | Inl _ \<Rightarrow> kw_audit w)\<rparr>)
       else Inr (st, w))"

end
