(* ===== verification/KillSwitchWriters.thy ===== *)
theory KillSwitchWriters
  imports KillSwitchFile
begin

text \<open>
  Who writes the kill-switch file: the operator (src/src/cli/run-kill-switch.mjs), the watchdog
  (src/src/executor/watchdog/heartbeat.mjs and watchdog-loop.mjs) and the automatic kill switch
  (src/src/risk/auto-kill-events.mjs). An operation returns its answer, or the error it throws,
  and the world it leaves: an error after the file was written leaves the file written.
\<close>

type_synonym 'a io = "'a throws \<times> ks_world"

section \<open>The operator\<close>

text \<open>The command line: getEnv of src/src/config/env.mjs is \<open>env_or\<close> on the environment.\<close>

record ks_args =
  ka_on :: bool
  ka_off :: bool
  ka_status :: bool
  ka_resumeReview :: bool
  ka_json :: bool
  ka_reason :: "string option"
  ka_actor :: string
  ka_killSwitchPath :: string
  ka_auditPath :: string
  ka_dashboardPath :: string
  ka_postmortemPath :: string

text \<open>\<open>Object.fromEntries\<close> of the \<open>--key=value\<close> arguments: the last one of a key counts.\<close>

definition cli_options :: "string list \<Rightarrow> string \<rightharpoonup> string" where
  "cli_options argv =
     map_of (rev (List.map (\<lambda>arg. key_value (drop 2 arg))
       (List.filter (\<lambda>arg. is_prefix ''--'' arg \<and> CHR ''='' \<in> set arg) argv)))"

definition parseArgs :: "string \<Rightarrow> (string \<rightharpoonup> string) \<Rightarrow> string list \<Rightarrow> ks_args" where
  "parseArgs homedir env argv =
     (let options = cli_options argv
      in \<lparr>ka_on = (''--on'' \<in> set argv), ka_off = (''--off'' \<in> set argv),
          ka_status = (''--status'' \<in> set argv), ka_resumeReview = (''--resume-review'' \<in> set argv),
          ka_json = (''--json'' \<in> set argv),
          ka_reason = (case options ''reason'' of Some (c # s) \<Rightarrow> Some (c # s) | _ \<Rightarrow> None),
          ka_actor = env_or options ''actor'' ''operator-via-llm'',
          ka_killSwitchPath = env_or options ''kill-switch-path''
            (env_or env ''KILL_SWITCH_PATH'' (resolveKillSwitchPath homedir env)),
          ka_auditPath = env_or options ''audit-path''
            (env_or env ''KILL_SWITCH_AUDIT_PATH'' ''logs/kill-switch-audit.jsonl''),
          ka_dashboardPath = env_or options ''dashboard-path''
            (env_or env ''DASHBOARD_STATUS_PATH'' ''dashboard/public/dashboard-status.json''),
          ka_postmortemPath = env_or options ''postmortem-path''
            ''docs/research/parcel-16-gateway-btc-funding-postmortem.md''\<rparr>)"

text \<open>What the command refuses, with the message it prints before it exits.\<close>

definition check_args :: "ks_args \<Rightarrow> unit throws" where
  "check_args args =
     (if ka_killSwitchPath args = []
      then Inl (ErrorMsg ''KILL_SWITCH_PATH not set. Pass --kill-switch-path=... or set env.'')
      else if length (List.filter (\<lambda>b. b)
                [ka_on args, ka_off args, ka_status args, ka_resumeReview args]) \<noteq> 1
      then Inl (ErrorMsg ''Specify exactly one of --on, --off, --status, --resume-review.'')
      else if (ka_on args \<or> ka_off args)
           \<and> (case ka_reason args of None \<Rightarrow> True | Some r \<Rightarrow> length (trim r) < 3)
      then Inl (ErrorMsg (''--reason='' @ [CHR 0x22] @ ''...'' @ [CHR 0x22] @ '' required for --on / --off (min 3 chars).''))
      else Inr ())"

definition halt_body :: "string \<Rightarrow> string \<Rightarrow> string \<Rightarrow> string" where
  "halt_body ts reason actor =
     ''halted_at='' @ ts @ [newline] @ ''reason='' @ reason @ [newline] @ ''actor='' @ actor @ [newline]"

text \<open>\<open>existsSync\<close> answers false where access fails.\<close>

definition existsSync :: "kill_file \<Rightarrow> bool" where
  "existsSync f = (fileExists f = Inr True)"

text \<open>
  \<open>--on\<close> and \<open>--off\<close>: \<open>ts\<close> is the clock, \<open>mtime\<close> the time the file system gives the file. The
  answer is the audit record.
\<close>

definition toggle :: "ks_args \<Rightarrow> string \<Rightarrow> string \<Rightarrow> fs_answers \<Rightarrow> ks_world \<Rightarrow> jsv io" where
  "toggle args ts mtime ans w =
     (let reason = (case ka_reason args of Some r \<Rightarrow> r | None \<Rightarrow> []);
          previousHalted = existsSync (kw_file w);
          record = JObj [(''ts'', JStr ts), (''action'', JStr (if ka_on args then ''halt'' else ''resume'')),
            (''reason'', JStr reason), (''actor'', JStr (ka_actor args)),
            (''killSwitchPath'', JStr (ka_killSwitchPath args)),
            (''previousState'', JStr (if previousHalted then ''halted'' else ''running''))];
          changed =
            (if ka_on args
             then (case fa_write ans of Some e \<Rightarrow> Inl e
                   | None \<Rightarrow> Inr (w\<lparr>kw_file := Present mtime (halt_body ts reason (ka_actor args))\<rparr>))
             else if previousHalted
             then (case fa_unlink ans of Some e \<Rightarrow> Inl e
                   | None \<Rightarrow> if kw_file w = Vanishing then Inl (ErrorMsg ''ENOENT'')
                             else Inr (w\<lparr>kw_file := NoFile\<rparr>))
             else Inr w)
      in case changed of
           Inl e \<Rightarrow> (Inl e, w)
         | Inr w1 \<Rightarrow>
             (case appendKillSwitchAuditRecord record (fa_append ans) (kw_audit w1) of
                Inl e \<Rightarrow> (Inl e, w1)
              | Inr f \<Rightarrow> (Inr record, w1\<lparr>kw_audit := f\<rparr>)))"

definition status_fields :: "ks_status \<Rightarrow> fields" where
  "status_fields st =
     [(''killSwitchPath'', st_killSwitchPath st), (''halted'', JBool (st_halted st)),
      (''fileMtime'', st_fileMtime st), (''payload'', st_payload st),
      (''activeReason'', st_activeReason st), (''activeActor'', st_activeActor st),
      (''activeSince'', st_activeSince st), (''triggers'', st_triggers st),
      (''lastAudit'', st_lastAudit st), (''replay'', st_replay st)]"

text \<open>
  \<open>--status\<close> and \<open>--resume-review\<close>: the replay of the automatic triggers on live inputs is a
  parameter, computed only while the status is halted.
\<close>

definition live_status :: "(ks_status \<Rightarrow> jsv) \<Rightarrow> ks_status \<Rightarrow> jsv" where
  "live_status liveReplay st =
     (let replay = (if st_halted st then liveReplay st else JNull)
      in if truthy replay then JObj (spread (status_fields st) [(''replay'', replay)])
         else JObj (status_fields st))"

definition resume_review ::
    "string \<Rightarrow> ks_args \<Rightarrow> jsv \<Rightarrow> (ks_status \<Rightarrow> jsv) \<Rightarrow> bool \<Rightarrow> jsv \<Rightarrow> fs_answers \<Rightarrow> ks_world \<Rightarrow> jsv io" where
  "resume_review cwd args dashboardStatus liveReplay postmortemExists now ans w =
     (case readKillSwitchStatus cwd now ans (JStr (ka_killSwitchPath args)) dashboardStatus w of
        Inl e \<Rightarrow> (Inl e, w)
      | Inr (st, w1) \<Rightarrow>
          let status = live_status liveReplay st;
              replay = (if st_halted st then liveReplay st else JNull);
              packet = buildKillSwitchResumeReviewPacket status replay (JStr (ka_postmortemPath args))
                postmortemExists now;
              record = buildKillSwitchAuditRecord (JStr ''resume_review_packet'') (JStr ''operator_resume_review'')
                (JStr (ka_actor args)) (JStr (ka_killSwitchPath args))
                (JStr (if truthy (dot status ''halted'') then ''halted'' else ''running'')) now
                (JObj [(''activeReason'', orelse (dot status ''activeReason'') JNull),
                       (''activeSince'', orelse (dot status ''activeSince'') JNull),
                       (''triggers'', dot packet ''triggers''), (''replay'', dot packet ''replay''),
                       (''checklist'', dot packet ''checklist'')])
          in case appendKillSwitchAuditRecord record (fa_append ans) (kw_audit w1) of
               Inl e \<Rightarrow> (Inl e, w1)
             | Inr f \<Rightarrow> (Inr packet, w1\<lparr>kw_audit := f\<rparr>))"

section \<open>The watchdog\<close>

definition writeHeartbeat :: "fields \<Rightarrow> jsv \<Rightarrow> jsv \<Rightarrow> jsv \<times> file_read" where
  "writeHeartbeat metadata now pid =
     (let payload = JObj (spread [(''schemaVersion'', JNum (Fin 1)), (''updatedAt'', now), (''pid'', pid)] metadata)
      in (payload, Contents ((case json_pretty 0 payload of Some t \<Rightarrow> t | None \<Rightarrow> ''undefined'') @ [newline])))"

definition readHeartbeat :: "file_read \<Rightarrow> jsv throws" where
  "readHeartbeat f =
     (case f of
        NoEntry \<Rightarrow> Inr JNull
      | ReadFails e \<Rightarrow> if e = SyntaxError then Inr JNull else Inl e
      | Contents raw \<Rightarrow>
          if trim raw = [] then Inr JNull
          else (case json_parse raw of Inr v \<Rightarrow> Inr v | Inl _ \<Rightarrow> Inr JNull))"

record heartbeat_verdict =
  hv_status :: string
  hv_stale :: bool
  hv_ageMs :: jsv
  hv_ttlMs :: jsv

definition evaluateWatchdogHeartbeat :: "jsv \<Rightarrow> jsv \<Rightarrow> jsv \<Rightarrow> heartbeat_verdict" where
  "evaluateWatchdogHeartbeat heartbeat now ttlMs =
     (if \<not> truthy (dot heartbeat ''updatedAt'')
      then \<lparr>hv_status = ''missing'', hv_stale = True, hv_ageMs = JNull, hv_ttlMs = JUndef\<rparr>
      else
        let ageMs = JNum (jsub (date_of now) (date_of (dot heartbeat ''updatedAt'')));
            stale = vlt ttlMs ageMs
        in \<lparr>hv_status = (if stale then ''stale'' else ''healthy''), hv_stale = stale,
            hv_ageMs = ageMs, hv_ttlMs = ttlMs\<rparr>)"

record watchdog_result =
  wd_heartbeat :: jsv
  wd_evaluation :: heartbeat_verdict
  wd_halted :: bool
  wd_killSwitchPresent :: bool
  wd_killSwitchWritten :: bool

definition watchdog_record :: "jsv \<Rightarrow> heartbeat_verdict \<Rightarrow> jsv \<Rightarrow> string \<Rightarrow> jsv" where
  "watchdog_record heartbeatPath evaluation killSwitchPath now =
     buildKillSwitchAuditRecord (JStr ''halt'') (JStr ''watchdog_heartbeat_stale'') (JStr ''executor:watchdog'')
       killSwitchPath (JStr ''running'') (JStr now)
       (JObj [(''source'', JStr ''watchdog''), (''heartbeatPath'', heartbeatPath),
              (''status'', JStr (hv_status evaluation)), (''ageMs'', hv_ageMs evaluation), (''ttlMs'', hv_ttlMs evaluation)])"

text \<open>
  \<open>f\<close> is what reading the heartbeat file finds. The alert sent after a halt goes to an outside
  service and is not modelled.
\<close>

definition enforceWatchdog ::
    "jsv \<Rightarrow> file_read \<Rightarrow> jsv \<Rightarrow> jsv \<Rightarrow> string \<Rightarrow> string \<Rightarrow> fs_answers \<Rightarrow> ks_world \<Rightarrow> watchdog_result io" where
  "enforceWatchdog heartbeatPath f killSwitchPath ttlMs now mtime ans w =
     (case readHeartbeat f of
        Inl e \<Rightarrow> (Inl e, w)
      | Inr heartbeat \<Rightarrow>
          (case (if truthy killSwitchPath then fileExists (kw_file w) else Inr False) of
             Inl e \<Rightarrow> (Inl e, w)
           | Inr present \<Rightarrow>
               let evaluation = evaluateWatchdogHeartbeat heartbeat (JStr now) ttlMs;
                   result = (\<lambda>written. \<lparr>wd_heartbeat = heartbeat, wd_evaluation = evaluation,
                     wd_halted = (hv_stale evaluation \<and> truthy killSwitchPath),
                     wd_killSwitchPresent = (present \<or> written), wd_killSwitchWritten = written\<rparr>)
               in if hv_stale evaluation \<and> truthy killSwitchPath \<and> \<not> present then
                    (case fa_write ans of
                       Some e \<Rightarrow> (Inl e, w)
                     | None \<Rightarrow>
                         let w1 = w\<lparr>kw_file := Present mtime (now @ [newline])\<rparr>
                         in case appendKillSwitchAuditRecord
                               (watchdog_record heartbeatPath evaluation killSwitchPath now)
                               (fa_append ans) (kw_audit w1) of
                              Inl e \<Rightarrow> (Inl e, w1)
                            | Inr g \<Rightarrow> (Inr (result True), w1\<lparr>kw_audit := g\<rparr>))
                  else (Inr (result False), w)))"

section \<open>The automatic kill switch\<close>

record ak_result =
  akr_verdict :: auto_kill_verdict
  akr_killSwitchPath :: jsv
  akr_killSwitchWritten :: bool
  akr_alreadyArmed :: bool
  akr_killSwitchActive :: bool

text \<open>The append to data/risk/auto-kill-events.jsonl.\<close>

definition appendEvent :: "jsv \<Rightarrow> js_error option \<Rightarrow> file_read \<Rightarrow> file_read throws" where
  "appendEvent record failure f =
     (case failure of Some e \<Rightarrow> Inl e | None \<Rightarrow> Inr (case f of
          NoEntry \<Rightarrow> Contents (log_line record)
        | Contents s \<Rightarrow> Contents (s @ log_line record)
        | ReadFails e \<Rightarrow> ReadFails e))"

definition event_record :: "auto_kill_verdict \<Rightarrow> jsv \<Rightarrow> bool \<Rightarrow> jsv" where
  "event_record verdict killSwitchPath alreadyArmed =
     JObj [(''schemaVersion'', JNum (Fin 1)), (''evaluatedAt'', JStr (akv_evaluatedAt verdict)),
           (''triggers'', JArr (akv_triggers verdict)), (''killSwitchPath'', killSwitchPath),
           (''alreadyArmed'', JBool alreadyArmed)]"

definition buildAutoKillAuditRecord :: "jsv \<Rightarrow> jsv" where
  "buildAutoKillAuditRecord eventRecord =
     buildSignerAuditRecord
       (JObj [(''strategyId'', JStr ''risk:auto-kill''), (''chain'', JStr ''all''),
          (''intentId'', JStr (''auto-kill:'' @ to_str (dot eventRecord ''evaluatedAt''))),
          (''intentType'', JStr ''kill_switch_auto_trigger''), (''amountUsd'', JNum (Fin 0)),
          (''mode'', JStr ''risk_control''),
          (''metadata'', JObj [(''triggers'', dot eventRecord ''triggers''),
             (''killSwitchPath'', dot eventRecord ''killSwitchPath''),
             (''alreadyArmed'', dot eventRecord ''alreadyArmed'')])])
       (JStr ''approved'')
       (JObj [(''stage'', JStr ''kill_switch_auto_triggered''),
          (''killSwitchPath'', dot eventRecord ''killSwitchPath''),
          (''alreadyArmed'', dot eventRecord ''alreadyArmed'')])
       JUndef JUndef JUndef (dot eventRecord ''evaluatedAt'')"

definition trigger_names :: "jsv list \<Rightarrow> string list" where
  "trigger_names triggers =
     List.map to_str (unique_list (List.filter truthy (List.map (\<lambda>t. dot t ''trigger'') triggers)))"

definition buildAutoKillKillSwitchReason :: "jsv list \<Rightarrow> string" where
  "buildAutoKillKillSwitchReason triggers =
     (let names = trigger_names triggers
      in if names \<noteq> [] then ''auto_kill:'' @ join '','' names else ''auto_kill:triggered'')"

definition kill_file_text :: "jsv \<Rightarrow> string" where
  "kill_file_text payload =
     (case json_pretty 0 payload of Some t \<Rightarrow> t | None \<Rightarrow> ''undefined'') @ [newline]"

definition auto_halt_record :: "auto_kill_verdict \<Rightarrow> jsv \<Rightarrow> jsv" where
  "auto_halt_record verdict killSwitchPath =
     buildKillSwitchAuditRecord (JStr ''halt'') (JStr (buildAutoKillKillSwitchReason (akv_triggers verdict)))
       (JStr ''risk:auto-kill'') killSwitchPath (JStr ''running'') (JStr (akv_evaluatedAt verdict))
       (JObj [(''source'', JStr ''auto_kill''), (''triggers'', JArr (akv_triggers verdict))])"

text \<open>What a triggered check writes: the event, the signer record, and the file if it is not there.\<close>

definition record_trigger ::
    "auto_kill_verdict \<Rightarrow> jsv \<Rightarrow> bool \<Rightarrow> fs_answers \<Rightarrow> ks_world \<Rightarrow> unit io" where
  "record_trigger verdict killSwitchPath alreadyArmed ans w =
     (let eventRecord = event_record verdict killSwitchPath alreadyArmed
      in case appendEvent eventRecord (fa_events ans) (kw_events w) of
           Inl e \<Rightarrow> (Inl e, w)
         | Inr f \<Rightarrow>
             let w1 = w\<lparr>kw_events := f\<rparr>
             in case fa_signer ans of
                  Some e \<Rightarrow> (Inl e, w1)
                | None \<Rightarrow> (Inr (), w1\<lparr>kw_signer :=
                    appendSignerAuditRecord (kw_signer w1) (buildAutoKillAuditRecord eventRecord)\<rparr>))"

definition arm_kill_switch ::
    "auto_kill_verdict \<Rightarrow> jsv \<Rightarrow> string \<Rightarrow> fs_answers \<Rightarrow> ks_world \<Rightarrow> unit io" where
  "arm_kill_switch verdict killSwitchPath mtime ans w =
     (case fa_write ans of
        Some e \<Rightarrow> (Inl e, w)
      | None \<Rightarrow>
          let w1 = w\<lparr>kw_file := Present mtime (kill_file_text (event_record verdict killSwitchPath False))\<rparr>
          in case appendKillSwitchAuditRecord (auto_halt_record verdict killSwitchPath) (fa_append ans) (kw_audit w1) of
               Inl e \<Rightarrow> (Inl e, w1)
             | Inr f \<Rightarrow> (Inr (), w1\<lparr>kw_audit := f\<rparr>))"

definition runAutoKillCheck ::
    "auto_kill_input \<Rightarrow> jsv \<Rightarrow> string \<Rightarrow> fs_answers \<Rightarrow> ks_world \<Rightarrow> ak_result io" where
  "runAutoKillCheck a killSwitchPath mtime ans w =
     (case (if truthy killSwitchPath then fileExists (kw_file w) else Inr False) of
        Inl e \<Rightarrow> (Inl e, w)
      | Inr alreadyArmed \<Rightarrow>
          (case evaluateAutoKillTriggers a of
             Inl e \<Rightarrow> (Inl e, w)
           | Inr verdict \<Rightarrow>
               let result = (\<lambda>written active. \<lparr>akr_verdict = verdict, akr_killSwitchPath = killSwitchPath,
                     akr_killSwitchWritten = written, akr_alreadyArmed = alreadyArmed,
                     akr_killSwitchActive = active\<rparr>)
               in if \<not> akv_triggered verdict then (Inr (result False alreadyArmed), w)
                  else (case record_trigger verdict killSwitchPath alreadyArmed ans w of
                      (Inl e, w1) \<Rightarrow> (Inl e, w1)
                    | (Inr _, w1) \<Rightarrow>
                        if truthy killSwitchPath \<and> \<not> alreadyArmed
                        then (case arm_kill_switch verdict killSwitchPath mtime ans w1 of
                            (Inl e, w2) \<Rightarrow> (Inl e, w2)
                          | (Inr _, w2) \<Rightarrow> (Inr (result True True), w2))
                        else (Inr (result False True), w1))))"

section \<open>Steps\<close>

text \<open>
  What may happen to the kill switch at \<open>path\<close> between two commands of the operator: a watchdog
  round, an automatic check, a status read or a resume review, each with any clock, inputs and
  answers of the file system.
\<close>

inductive ks_step :: "string \<Rightarrow> string \<Rightarrow> ks_world \<Rightarrow> ks_world \<Rightarrow> bool" for cwd path where
  Watchdog: "ks_step cwd path w (snd (enforceWatchdog hp f (JStr path) ttlMs now mtime ans w))"
| AutoCheck: "ks_step cwd path w (snd (runAutoKillCheck a (JStr path) mtime ans w))"
| StatusRead: "readKillSwitchStatus cwd now ans (JStr path) dashboardStatus w = Inr (st, w') \<Longrightarrow> ks_step cwd path w w'"
| Review: "ka_killSwitchPath args = path
    \<Longrightarrow> ks_step cwd path w (snd (resume_review cwd args dashboardStatus liveReplay pm now ans w))"

inductive_cases ks_stepE: "ks_step cwd path w w'"

end
