(* ===== verification/KillSwitchSafety.thy ===== *)
theory KillSwitchSafety
  imports KillSwitchWriters JsText
begin

text \<open>
  What the status read does to an armed kill switch. \<open>kill_status_reports_file\<close>: its answer
  agrees with the file it leaves, on which the policy gate decides. \<open>operator_halt_persists\<close>:
  a halt the operator wrote stays armed through every watchdog round, automatic check, status
  read and review, unless its reason mentions a stale heartbeat. \<open>auto_kill_arm_cleared_iff\<close>: a
  halt the automatic kill switch wrote is removed by the next status read exactly when one of
  its triggers is a stale heartbeat, whatever the others are. \<open>watchdog_halt_cleared\<close>: a halt
  the watchdog wrote is always removed, whatever the heartbeat is by then.
\<close>

section \<open>The operator's file\<close>

lemma json_parse_word: "json_parse (CHR ''h'' # s) = Inl SyntaxError"
proof -
  have "\<not> json_ws (CHR ''h'')" by (simp add: json_ws_def)
  moreover have "takeWhile num_char (CHR ''h'' # s) = []" by (simp add: num_char_def is_digit_def)
  moreover have "\<not> json_number_ok []" by (simp add: json_number_ok_def Let_def)
  ultimately show ?thesis by (simp add: json_parse_def Let_def)
qed

lemma trim_key: "\<not> is_space c \<Longrightarrow> trim ((c # k) @ CHR ''='' # v) = (c # k) @ CHR ''='' # rtrim v"
  using rtrim_append [of "CHR ''=''" "c # k" v] by (simp add: trim_first)

lemma key_value_line: "CHR ''='' \<notin> set k \<Longrightarrow> key_value (k @ CHR ''='' # v) = (k, v)"
  by (simp add: key_value_def split_on_line Let_def join_split)

lemma halt_body_parsed:
  assumes "newline \<notin> set ts" "newline \<notin> set reason" "newline \<notin> set actor"
  shows "parseKillSwitchFileContents (halt_body ts reason actor)
    = JObj [(''halted_at'', JStr (rtrim ts)), (''reason'', JStr (rtrim reason)), (''actor'', JStr (rtrim actor))]"
proof -
  let ?a = "''halted_at='' @ ts" and ?b = "''reason='' @ reason" and ?c = "''actor='' @ rtrim actor"
  have body: "halt_body ts reason actor
      = (?a @ newline # ?b @ newline # ''actor'') @ CHR ''='' # (actor @ [newline])"
    by (simp add: halt_body_def)
  have "trim (halt_body ts reason actor) = rtrim (halt_body ts reason actor)"
    by (simp add: halt_body_def trim_first)
  also have "\<dots> = ?a @ newline # ?b @ newline # ?c"
    unfolding body by (subst rtrim_append) (simp_all add: rtrim_newline)
  finally have t: "trim (halt_body ts reason actor) = ?a @ newline # ?b @ newline # ?c" .
  have nl: "newline \<notin> set ?a" "newline \<notin> set ?b" "newline \<notin> set ?c"
    using assms set_rtrim [of actor] by (auto simp: newline_def)
  have lines: "split_on newline (?a @ newline # ?b @ newline # ?c) = [?a, ?b, ?c]"
    using nl by (simp only: split_on_line split_on_none not_False_eq_True)
  have trims: "trim ?a = ''halted_at'' @ CHR ''='' # rtrim ts" "trim ?b = ''reason'' @ CHR ''='' # rtrim reason"
    "trim ?c = ''actor'' @ CHR ''='' # rtrim actor"
    using trim_key [of "CHR ''h''" "''alted_at''" ts] trim_key [of "CHR ''r''" "''eason''" reason]
      trim_key [of "CHR ''a''" "''ctor''" "rtrim actor"] by (simp_all add: rtrim_twice)
  have kv: "key_value (''halted_at'' @ CHR ''='' # rtrim ts) = (''halted_at'', rtrim ts)"
    "key_value (''reason'' @ CHR ''='' # rtrim reason) = (''reason'', rtrim reason)"
    "key_value (''actor'' @ CHR ''='' # rtrim actor) = (''actor'', rtrim actor)"
    by (rule key_value_line, simp)+
  have "parseKeyValueBody (?a @ newline # ?b @ newline # ?c)
      = JObj (spread [] [(''halted_at'', JStr (rtrim ts)), (''reason'', JStr (rtrim reason)), (''actor'', JStr (rtrim actor))])"
    unfolding parseKeyValueBody_def lines list.map trims by (simp add: kv [simplified])
  also have "\<dots> = JObj [(''halted_at'', JStr (rtrim ts)), (''reason'', JStr (rtrim reason)), (''actor'', JStr (rtrim actor))]"
    by (simp add: spread_distinct)
  finally show ?thesis
    unfolding parseKillSwitchFileContents_def t Let_def by (simp add: json_parse_word)
qed

section \<open>The status read\<close>

lemma resolve_truthy: "truthy (JStr (resolve_path cwd p))"
  by (simp add: resolve_path_def)

lemma normalizePath_JStr [simp]:
  "p \<noteq> [] \<Longrightarrow> normalizePath cwd (JStr p) = Inr (JStr (resolve_path cwd p))"
  by (simp add: normalizePath_def)

text \<open>The parts of a status the clearing depends on.\<close>

lemma ks_view_parts:
  assumes "ks_view cwd (JStr path) dash w = Inr st" "path \<noteq> []"
  obtains m payload stateAudit where
    "fileExists (kw_file w) = Inr (st_halted st)"
    "(if st_halted st then read_kill_file (kw_file w) else Inr (JNull, JNull)) = Inr (m, payload)"
    "readLatestKillSwitchAuditRecord cwd (kw_audit w) (JStr path) [''halt'', ''resume''] = Inr stateAudit"
    "st_activeReason st = first_truthy [dot payload ''reason'', dot stateAudit ''reason'', JNull]"
    "st_payload st = payload"
    "st_killSwitchPath st = JStr (resolve_path cwd path)"
proof -
  from assms show ?thesis
    using that unfolding ks_view_def
    by (auto simp: resolve_truthy and_then_Inr Let_def orelse_def simp del: truthy.simps first_truthy.simps
        split: prod.splits)
qed

lemma status_cases:
  assumes "readKillSwitchStatus cwd now ans ksp dash w = Inr (st, w')"
  obtains (kept) "ks_view cwd ksp dash w = Inr st" "w' = w" "\<not> (isStaleWatchdogArm st \<and> unlinked ans (kw_file w))"
  | (cleared) st0 where "ks_view cwd ksp dash w = Inr st0" "isStaleWatchdogArm st0" "unlinked ans (kw_file w)"
      "st_halted st = False" "kw_file w' = NoFile"
proof -
  obtain st0 where v: "ks_view cwd ksp dash w = Inr st0"
    using assms by (auto simp: readKillSwitchStatus_def and_then_Inr)
  show ?thesis
  proof (cases "isStaleWatchdogArm st0 \<and> unlinked ans (kw_file w)")
    case True
    then have "st_halted st = False" "kw_file w' = NoFile"
      using assms v by (auto simp: readKillSwitchStatus_def)
    with v True show ?thesis using cleared by blast
  next
    case False
    with assms v have "st0 = st" "w' = w" by (simp_all add: readKillSwitchStatus_def)
    with v False show ?thesis using kept by blast
  qed
qed

text \<open>A file whose own reason is none of a stale heartbeat: no status read clears it.\<close>

definition explicit_halt :: "kill_file \<Rightarrow> bool" where
  "explicit_halt f \<longleftrightarrow> (\<exists>m c r. f = Present m c \<and> dot (parseKillSwitchFileContents c) ''reason'' = JStr r
     \<and> r \<noteq> [] \<and> \<not> str_includes ''heartbeat_stale'' r)"

lemma watchdog_in_heartbeat:
  "str_includes ''watchdog_heartbeat_stale'' r \<Longrightarrow> str_includes ''heartbeat_stale'' r"
proof (induction r)
  case (Cons c r)
  have "str_includes ''heartbeat_stale'' (c # r)" if p: "is_prefix ''watchdog_heartbeat_stale'' (c # r)"
  proof -
    have "is_prefix ''heartbeat_stale'' (drop 8 r)"
      using p by (auto elim!: is_prefix.elims)
    moreover have "is_prefix q (drop n s) \<Longrightarrow> str_includes q s" for q s n
    proof (induction s arbitrary: n)
      case Nil
      then show ?case by (cases q) auto
    next
      case (Cons x xs)
      then show ?case by (cases n) auto
    qed
    ultimately show ?thesis by auto
  qed
  with Cons show ?case by (simp only: str_includes.simps) blast
qed simp

lemma explicit_not_stale:
  assumes "ks_view cwd (JStr path) dash w = Inr st" "path \<noteq> []" "explicit_halt (kw_file w)"
  shows "\<not> isStaleWatchdogArm st"
proof -
  obtain m c r where f: "kw_file w = Present m c" "dot (parseKillSwitchFileContents c) ''reason'' = JStr r"
    "r \<noteq> []" "\<not> str_includes ''heartbeat_stale'' r"
    using assms(3) unfolding explicit_halt_def by blast
  obtain m' p a where v: "fileExists (kw_file w) = Inr (st_halted st)"
    "(if st_halted st then read_kill_file (kw_file w) else Inr (JNull, JNull)) = Inr (m', p)"
    "st_activeReason st = first_truthy [dot p ''reason'', dot a ''reason'', JNull]" "st_payload st = p"
    by (rule ks_view_parts [OF assms(1,2)])
  have p: "p = parseKillSwitchFileContents c" using v(1,2) by (simp add: f(1))
  have "st_activeReason st = JStr r" using f(2,3) by (simp add: v(3) p)
  moreover have "\<not> str_includes ''watchdog_heartbeat_stale'' r" using f(4) watchdog_in_heartbeat by blast
  moreover have "\<not> rawContentLooksLikeWatchdogTimestamp p"
    using f(2,3) by (simp add: rawContentLooksLikeWatchdogTimestamp_def p)
  ultimately show ?thesis using f(3,4) by (simp add: isStaleWatchdogArm_def Let_def orelse_def v(4))
qed

lemma status_keeps_explicit:
  assumes "readKillSwitchStatus cwd now ans (JStr path) dash w = Inr (st, w')" "path \<noteq> []" "explicit_halt (kw_file w)"
  shows "w' = w"
  using assms(1)
proof (cases rule: status_cases)
  case (cleared st0)
  with explicit_not_stale [OF _ assms(2,3)] show ?thesis by blast
qed

lemma explicit_exists: "explicit_halt f \<Longrightarrow> fileExists f = Inr True"
  by (auto simp: explicit_halt_def)

lemma step_keeps_explicit:
  assumes "ks_step cwd path w w'" "path \<noteq> []" "explicit_halt (kw_file w)"
  shows "explicit_halt (kw_file w')"
  using assms(1)
proof (cases rule: ks_step.cases)
  case (Watchdog hp f ttlMs now mtime ans)
  then show ?thesis
    using explicit_exists [OF assms(3)] assms(2,3) by (auto simp: enforceWatchdog_def Let_def split: sum.splits)
next
  case (AutoCheck a mtime ans)
  then show ?thesis
    using explicit_exists [OF assms(3)] assms(2,3)
    by (auto simp: runAutoKillCheck_def record_trigger_def Let_def split: sum.splits prod.splits option.splits)
next
  case (StatusRead now ans dash st)
  then show ?thesis using status_keeps_explicit [OF _ assms(2,3)] assms(3) by blast
next
  case (Review args dash live pm now ans)
  have keep: "kw_file (snd (resume_review cwd args dash live pm now ans w)) = kw_file w"
  proof (cases "readKillSwitchStatus cwd now ans (JStr path) dash w")
    case (Inr p)
    then obtain st where "readKillSwitchStatus cwd now ans (JStr path) dash w = Inr (st, w)"
      using status_keeps_explicit [OF _ assms(2,3)] by (metis prod.exhaust)
    then show ?thesis using Review(2) by (auto simp: resume_review_def Let_def split: sum.splits)
  qed (use Review(2) in \<open>simp add: resume_review_def\<close>)
  with Review(1) assms(3) show ?thesis by simp
qed

lemma explicit_halt_kept:
  assumes "(ks_step cwd path)\<^sup>*\<^sup>* w w'" "path \<noteq> []" "explicit_halt (kw_file w)"
  shows "explicit_halt (kw_file w')"
  using assms(1,3) by (induction rule: rtranclp_induct) (blast intro: step_keeps_explicit [OF _ assms(2)])+

lemma check_explicit:
  assumes "explicit_halt f" "path \<noteq> []"
  shows "\<exists>r. checkKillSwitch (JStr path) (fileExists f) now = Inr r \<and> pr_decision r = BLOCK"
  using explicit_exists [OF assms(1)] assms(2)
  by (simp add: checkKillSwitch_def push_if_def policy_answer_def decide_def)

text \<open>C8: after the operator's --on, with a one-line reason (and actor and time) that does not contain
  "heartbeat_stale", the gate keeps blocking through every watchdog round, automatic check, status
  read and review, in any number and order, with any inputs and any failures of the file system. A
  reason that does contain "heartbeat_stale" is excluded: the next status read takes such a file for a
  watchdog's and deletes it.\<close>

theorem operator_halt_persists:
  assumes "toggle args ts mtime ans w = (Inr a, w1)" "check_args args = Inr ()" "ka_on args"
    "ka_reason args = Some reason" "newline \<notin> set ts" "newline \<notin> set reason" "newline \<notin> set (ka_actor args)"
    "\<not> str_includes ''heartbeat_stale'' reason"
    "(ks_step cwd (ka_killSwitchPath args))\<^sup>*\<^sup>* w1 w2"
  shows "\<exists>r. checkKillSwitch (JStr (ka_killSwitchPath args)) (fileExists (kw_file w2)) now = Inr r
    \<and> pr_decision r = BLOCK"
proof -
  have ok: "ka_killSwitchPath args \<noteq> []" "trim reason \<noteq> []"
    using assms(2-4) by (auto simp: check_args_def split: if_splits)
  have "kw_file w1 = Present mtime (halt_body ts reason (ka_actor args))"
    using assms(1,3,4) by (auto simp: toggle_def Let_def split: option.splits sum.splits)
  moreover have "rtrim reason \<noteq> []" "\<not> str_includes ''heartbeat_stale'' (rtrim reason)"
    using rtrim_nonempty [OF ok(2)] assms(8) rtrim_includes by blast+
  ultimately have "explicit_halt (kw_file w1)"
    by (auto simp: explicit_halt_def halt_body_parsed [OF assms(5-7)])
  from check_explicit [OF explicit_halt_kept [OF assms(9) ok(1) this] ok(1)] show ?thesis .
qed

text \<open>C30: the status a read returns agrees with the file it leaves: it is halted exactly when the
  kill-switch gate blocks afterwards. The one exception is a file that disappears between the two
  calls of the read.\<close>

theorem kill_status_reports_file:
  assumes "readKillSwitchStatus cwd now ans (JStr path) dash w = Inr (st, w')" "path \<noteq> []"
    "kw_file w \<noteq> Vanishing"
  shows "\<exists>r. checkKillSwitch (JStr path) (fileExists (kw_file w')) later = Inr r
    \<and> (pr_decision r = BLOCK \<longleftrightarrow> st_halted st)"
  using assms(1)
proof (cases rule: status_cases)
  case kept
  obtain m p a where "fileExists (kw_file w) = Inr (st_halted st)"
    by (rule ks_view_parts [OF kept(1) assms(2)])
  with kept(2) assms(2) show ?thesis
    by (simp add: checkKillSwitch_def push_if_def policy_answer_def decide_def)
next
  case (cleared st0)
  then show ?thesis using assms(2) by (simp add: checkKillSwitch_def push_if_def policy_answer_def decide_def)
qed

section \<open>The automatic arm\<close>

text \<open>The record last appended is the one the state query finds.\<close>

lemma split_snoc:
  assumes "newline \<notin> set t" "s = [] \<or> List.last s = newline"
  shows "\<exists>ls. split_on newline (s @ t @ [newline]) = ls @ [t, []]"
  using split_whole(1) [OF assms(2,1)] by blast

lemma json_text_nonblank:
  assumes "json_plain (JObj fs)" "json_stringify (JObj fs) = Some t"
  shows "trim t \<noteq> []"
proof -
  obtain u where "t = CHR ''{'' # u" using assms(2) by auto
  then show ?thesis using rtrim_append [of "CHR ''{''" "[]" u] by (simp add: trim_first)
qed

lemma latest_is_appended:
  assumes "appendKillSwitchAuditRecord (JObj fs) None f = Inr f'" "whole_lines f" "json_plain (JObj fs)"
    "path \<noteq> []" "fld fs ''killSwitchPath'' = JStr path"
    "fld fs ''action'' = JStr act" "acts = [] \<or> act \<in> set acts" "\<And>e. f \<noteq> ReadFails e"
  shows "readLatestKillSwitchAuditRecord cwd f' (JStr path) acts = Inr (json_kept (JObj fs))"
proof -
  obtain t where t: "json_stringify (JObj fs) = Some t" by simp
  have parse: "json_parse t = Inr (json_kept (JObj fs))" by (rule json_parse_stringify [OF assms(3) t])
  have nl: "newline \<notin> set t" using json_one_line [OF assms(3) t] by (simp add: one_line_def newline_def)
  have d: "distinct (List.map fst fs)" using assms(3) by simp
  have dots: "dot (json_kept (JObj fs)) ''killSwitchPath'' = JStr path" "dot (json_kept (JObj fs)) ''action'' = JStr act"
    unfolding dot_json_kept [OF d] assms(5,6) by simp_all
  have hit: "audit_line cwd (JStr (resolve_path cwd path)) acts t = Inr (Some (json_kept (JObj fs)))"
    using assms(4,7) unfolding audit_line_def parse and_then_simps
    by (auto simp add: read_prop_def dots one_of_def simp del: json_kept.simps) simp_all
  obtain s where s: "f' = Contents (s @ t @ [newline])" "s = [] \<or> List.last s = newline"
    using assms(1,2,8) t by (cases f) (auto simp: appendKillSwitchAuditRecord_def log_line_def simp del: json_stringify.simps)
  from split_snoc [OF nl s(2)] obtain ls where ls: "split_on newline (s @ t @ [newline]) = ls @ [t, []]" by blast
  have "rev (List.filter (\<lambda>line. trim line \<noteq> []) (ls @ [t, []]))
      = t # rev (List.filter (\<lambda>line. trim line \<noteq> []) ls)"
    using json_text_nonblank [OF assms(3) t] by (simp add: trim_def)
  then show ?thesis
    using assms(4) hit by (simp add: readLatestKillSwitchAuditRecord_def s(1) ls del: json_kept.simps)
qed

lemma kept_key:
  assumes "distinct (List.map fst fs)"
  shows "dot (json_kept (JObj fs)) k = (if fld fs k = JUndef then JUndef else json_kept (fld fs k))"
  using dot_json_kept [OF assms] .

lemma pretty_obj_ends:
  assumes "json_pretty n (JObj fs) = Some t"
  shows "\<exists>u. t = u @ ''}''" "\<exists>u. t = CHR ''{'' # u"
  using assms by (auto simp: bracket_def)

lemma trim_pretty:
  assumes "json_pretty n (JObj fs) = Some t"
  shows "trim (t @ [newline]) = t"
proof -
  obtain u v where u: "t = u @ ''}''" and v: "t = CHR ''{'' # v" using pretty_obj_ends [OF assms] by blast
  have "trim (t @ [newline]) = rtrim (t @ [newline])"
    unfolding v append_Cons by (rule trim_first) simp
  also have "\<dots> = rtrim (u @ CHR ''}'' # [newline])" by (simp add: u)
  also have "\<dots> = t" using rtrim_append [of "CHR ''}''" u "[newline]"] by (simp add: u rtrim_def)
  finally show ?thesis .
qed

lemma kill_file_text_parsed:
  assumes "json_plain (JObj fs)"
  shows "parseKillSwitchFileContents (kill_file_text (JObj fs)) = json_kept (JObj fs)"
proof -
  obtain t where t: "json_pretty 0 (JObj fs) = Some t" by simp
  have "t \<noteq> []" using pretty_obj_ends(1) [OF t] by auto
  then show ?thesis
    using json_parse_pretty [OF assms t, of "[]"] trim_pretty [OF t]
    by (simp add: parseKillSwitchFileContents_def kill_file_text_def t Let_def del: json_pretty.simps json_kept.simps)
qed

lemma auto_reason_includes:
  "str_includes ''heartbeat_stale'' (buildAutoKillKillSwitchReason triggers)
    \<longleftrightarrow> (\<exists>n\<in>set (trigger_names triggers). str_includes ''heartbeat_stale'' n)"
proof (cases "trigger_names triggers = []")
  case False
  have "str_includes ''heartbeat_stale'' (''auto_kill'' @ CHR '':'' # join '','' (trigger_names triggers))
      \<longleftrightarrow> str_includes ''heartbeat_stale'' (join '','' (trigger_names triggers))"
    by (subst str_includes_barrier) simp_all
  also have "\<dots> \<longleftrightarrow> (\<exists>n\<in>set (trigger_names triggers). str_includes ''heartbeat_stale'' n)"
    by (rule str_includes_join) simp_all
  finally show ?thesis using False by (simp add: buildAutoKillKillSwitchReason_def Let_def)
qed (simp add: buildAutoKillKillSwitchReason_def)

text \<open>The status of a present file whose log can be read, with no dashboard.\<close>

lemma status_of_present:
  assumes "kw_file w = Present m c" "path \<noteq> []"
    "readLatestKillSwitchAuditRecord cwd (kw_audit w) (JStr path) [] = Inr l"
    "readLatestKillSwitchAuditRecord cwd (kw_audit w) (JStr path) [''halt'', ''resume''] = Inr a"
  obtains st where "ks_view cwd (JStr path) JNull w = Inr st" "st_halted st"
    "st_payload st = parseKillSwitchFileContents c"
    "st_activeReason st = first_truthy [dot (parseKillSwitchFileContents c) ''reason'', dot a ''reason'', JNull]"
proof -
  have "\<exists>st. ks_view cwd (JStr path) JNull w = Inr st \<and> st_halted st
    \<and> st_payload st = parseKillSwitchFileContents c
    \<and> st_activeReason st = first_truthy [dot (parseKillSwitchFileContents c) ''reason'', dot a ''reason'', JNull]"
    unfolding ks_view_def assms(1,3,4) normalizePath_JStr [OF assms(2)] and_then_simps
    by (simp add: resolve_truthy dots_def normalizePath_def del: truthy.simps(5))
  with that show ?thesis by blast
qed

text \<open>A present file whose own content names no reason is cleared exactly by the reason of the last halt.\<close>

lemma clear_by_audit_reason:
  assumes "kw_file w = Present m c" "path \<noteq> []"
    "readLatestKillSwitchAuditRecord cwd (kw_audit w) (JStr path) [] = Inr l"
    "readLatestKillSwitchAuditRecord cwd (kw_audit w) (JStr path) [''halt'', ''resume''] = Inr a"
    "\<not> truthy (dot (parseKillSwitchFileContents c) ''reason'')"
    "\<not> rawContentLooksLikeWatchdogTimestamp (parseKillSwitchFileContents c)"
    "dot a ''reason'' = JStr r" "fa_unlink ans = None"
  shows "\<exists>st w'. readKillSwitchStatus cwd now ans (JStr path) JNull w = Inr (st, w')
    \<and> (kw_file w' = NoFile \<longleftrightarrow> str_includes ''heartbeat_stale'' r)
    \<and> (st_halted st \<longleftrightarrow> kw_file w' \<noteq> NoFile)"
proof -
  obtain st where st: "ks_view cwd (JStr path) JNull w = Inr st" "st_halted st"
    "st_payload st = parseKillSwitchFileContents c"
    "st_activeReason st = first_truthy [dot (parseKillSwitchFileContents c) ''reason'', dot a ''reason'', JNull]"
    by (rule status_of_present [OF assms(1-4)])
  have "to_str (orelse (st_activeReason st) (JStr [])) = r"
    using assms(5) by (cases "r = []") (simp_all add: st(4) assms(7) orelse_def)
  then have "isStaleWatchdogArm st \<longleftrightarrow> str_includes ''heartbeat_stale'' r"
    using st(2) assms(6) watchdog_in_heartbeat by (auto simp: isStaleWatchdogArm_def Let_def st(3))
  then show ?thesis using st(1,2) assms(1,8) by (simp add: readKillSwitchStatus_def unlinked_def)
qed

lemma arm_writes:
  assumes "arm_kill_switch v ksp mtime ans w = (Inr u, w2)"
  shows "kw_file w2 = Present mtime (kill_file_text (event_record v ksp False))"
    "appendKillSwitchAuditRecord (auto_halt_record v ksp) None (kw_audit w) = Inr (kw_audit w2)"
  using assms by (auto simp: arm_kill_switch_def appendKillSwitchAuditRecord_def Let_def split: option.splits)

lemma trigger_keeps_audit:
  "record_trigger v ksp armed ans w = (x, w1) \<Longrightarrow> kw_audit w1 = kw_audit w"
  by (auto simp: record_trigger_def Let_def split: sum.splits option.splits)

lemma check_arms:
  assumes "runAutoKillCheck a ksp mtime ans w = (Inr r, w1)" "akr_killSwitchWritten r"
  obtains w0 u where "kw_audit w0 = kw_audit w" "arm_kill_switch (akr_verdict r) ksp mtime ans w0 = (Inr u, w1)"
proof -
  have "\<exists>w0 u. record_trigger (akr_verdict r) ksp False ans w = (u, w0)
      \<and> arm_kill_switch (akr_verdict r) ksp mtime ans w0 = (Inr (), w1)"
    using assms by (auto simp: runAutoKillCheck_def Let_def split: sum.splits prod.splits if_splits)
  then show ?thesis using that trigger_keeps_audit by blast
qed

text \<open>C31: after the automatic kill switch wrote the file, the next status read deletes it exactly
  when a stale heartbeat is among the triggers that fired, even if a loss limit or an incident fired
  with it.\<close>

theorem auto_kill_arm_cleared_iff:
  assumes "runAutoKillCheck a (JStr path) mtime ans w = (Inr r, w1)" "akr_killSwitchWritten r" "path \<noteq> []"
    "whole_lines (kw_audit w)" "\<forall>e. kw_audit w \<noteq> ReadFails e" "json_plain (JArr (akv_triggers (akr_verdict r)))"
    "fa_unlink ans' = None"
  shows "\<exists>st w2. readKillSwitchStatus cwd now ans' (JStr path) JNull w1 = Inr (st, w2)
    \<and> (kw_file w2 = NoFile
       \<longleftrightarrow> (\<exists>n\<in>set (trigger_names (akv_triggers (akr_verdict r))). str_includes ''heartbeat_stale'' n))
    \<and> (st_halted st \<longleftrightarrow> kw_file w2 \<noteq> NoFile)"
proof -
  let ?v = "akr_verdict r" and ?ev = "event_record (akr_verdict r) (JStr path) False"
  obtain w0 u where w0: "kw_audit w0 = kw_audit w" "arm_kill_switch ?v (JStr path) mtime ans w0 = (Inr u, w1)"
    by (rule check_arms [OF assms(1,2)])
  note w1 = arm_writes [OF w0(2), unfolded w0(1)]
  obtain efs where ev: "?ev = JObj efs" "json_plain (JObj efs)" "\<not> truthy (dot (json_kept (JObj efs)) ''reason'')"
    "object_keys (json_kept (JObj efs)) \<noteq> [''evaluatedAt'']"
    using assms(6) by (auto simp: event_record_def is_double_def rnd_numeral)
  obtain hfs where h: "auto_halt_record ?v (JStr path) = JObj hfs" "json_plain (JObj hfs)"
    "fld hfs ''killSwitchPath'' = JStr path" "fld hfs ''action'' = JStr ''halt''"
    "fld hfs ''reason'' = JStr (buildAutoKillKillSwitchReason (akv_triggers ?v))"
    using assms(6) by (auto simp: auto_halt_record_def buildKillSwitchAuditRecord_def default_to_def)
  note latest = latest_is_appended [OF w1(2) [unfolded h(1)] assms(4) h(2) assms(3) h(3,4)]
  have d: "distinct (List.map fst hfs)" using h(2) by simp
  have reason: "dot (json_kept (JObj hfs)) ''reason'' = JStr (buildAutoKillKillSwitchReason (akv_triggers ?v))"
    unfolding kept_key [OF d] h(5) by simp
  have p: "parseKillSwitchFileContents (kill_file_text ?ev) = json_kept (JObj efs)"
    unfolding ev(1) by (rule kill_file_text_parsed [OF ev(2)])
  show ?thesis
    unfolding auto_reason_includes [symmetric]
    using assms(5) ev(3,4) p
    by (intro clear_by_audit_reason [OF w1(1) assms(3) latest latest _ _ reason assms(7)])
      (auto simp: rawContentLooksLikeWatchdogTimestamp_def)
qed

section \<open>The watchdog's arm\<close>

lemma is_double_jsub [simp]: "is_double (jsub a b)"
  by (simp add: jsub_def)

lemma json_digit_start:
  assumes "is_digit c" "json_parse (c # s) = Inr v"
  shows "\<exists>x. v = JNum x"
proof -
  have c: "\<not> json_ws c" "c \<noteq> CHR ''{''" "c \<noteq> CHR ''[''" "c \<noteq> CHR 0x22" "c \<noteq> CHR ''t''" "c \<noteq> CHR ''f''" "c \<noteq> CHR ''n''"
    using assms(1) by (auto simp: json_ws_digit is_digit_def)
  then show ?thesis
    using assms(2) by (auto simp: json_parse_def Let_def split: option.splits prod.splits if_splits)
qed

lemma digit_not_space: "is_digit c \<Longrightarrow> \<not> is_space c"
  by (auto simp: is_digit_def is_space_def)

text \<open>The body the watchdog writes, a bare time stamp, carries no reason and is no evaluatedAt object.\<close>

lemma timestamp_body:
  assumes "is_digit c" "newline \<notin> set (c # s)" "CHR ''='' \<notin> set (c # s)"
  shows "dot (parseKillSwitchFileContents ((c # s) @ [newline])) ''reason'' = JUndef
    \<and> \<not> rawContentLooksLikeWatchdogTimestamp (parseKillSwitchFileContents ((c # s) @ [newline]))"
proof -
  have sp: "\<not> is_space c" by (rule digit_not_space [OF assms(1)])
  let ?t = "c # rtrim s"
  have rt: "rtrim (c # s') = c # rtrim s'" for s' using rtrim_append [OF sp, of "[]" s'] by simp
  have t: "trim ((c # s) @ [newline]) = ?t"
    using trim_first [OF sp, of "s @ [newline]"] by (simp add: rt rtrim_newline)
  show ?thesis
  proof (cases "json_parse ?t")
    case (Inr v)
    obtain x where "v = JNum x" using json_digit_start [OF assms(1) Inr] by blast
    then show ?thesis
      unfolding parseKillSwitchFileContents_def t Let_def by (simp add: Inr rawContentLooksLikeWatchdogTimestamp_def)
  next
    case (Inl e)
    have n: "newline \<notin> set ?t" "CHR ''='' \<notin> set ?t" using assms(2,3) set_rtrim [of s] by auto
    have tt: "trim ?t = ?t" using trim_first [OF sp, of "rtrim s"] by (simp add: rt rtrim_twice)
    have kv: "key_value ?t = (?t, [])" unfolding key_value_def split_on_none [OF n(2)] Let_def by simp
    have "parseKeyValueBody ?t = JObj [(?t, JStr [])]"
      unfolding parseKeyValueBody_def split_on_none [OF n(1)] Let_def
      by (simp add: tt kv spread_distinct)
    moreover have "?t \<noteq> ''reason''" "?t \<noteq> ''evaluatedAt''" using assms(1) by (auto simp: is_digit_def)
    ultimately show ?thesis
      unfolding parseKillSwitchFileContents_def t Let_def by (simp add: Inl rawContentLooksLikeWatchdogTimestamp_def)
  qed
qed

lemma watchdog_writes:
  assumes "enforceWatchdog hp f ksp ttlMs now mtime ans w = (Inr r, w1)" "wd_killSwitchWritten r"
  shows "wd_evaluation r = evaluateWatchdogHeartbeat (wd_heartbeat r) (JStr now) ttlMs" "hv_stale (wd_evaluation r)"
    "kw_file w1 = Present mtime (now @ [newline])"
    "appendKillSwitchAuditRecord (watchdog_record hp (wd_evaluation r) ksp now) None (kw_audit w) = Inr (kw_audit w1)"
  using assms
  by (auto simp: enforceWatchdog_def Let_def appendKillSwitchAuditRecord_def
      split: sum.splits option.splits if_splits file_read.splits)

lemma age_plain:
  "json_plain (hv_ageMs (evaluateWatchdogHeartbeat h n ttl))"
  "json_plain ttl \<Longrightarrow> json_plain (hv_ttlMs (evaluateWatchdogHeartbeat h n ttl))"
  by (simp_all add: evaluateWatchdogHeartbeat_def Let_def)

text \<open>C35: a halt the watchdog wrote is removed by the next status read, although nothing in that
  read looks at the heartbeat: the verdict that armed the switch may still be true.\<close>

theorem watchdog_halt_cleared:
  assumes "enforceWatchdog (JStr hp) f (JStr path) ttlMs (c # s) mtime ans w = (Inr r, w1)"
    "wd_killSwitchWritten r" "path \<noteq> []" "json_plain ttlMs"
    "is_digit c" "newline \<notin> set (c # s)" "CHR ''='' \<notin> set (c # s)"
    "whole_lines (kw_audit w)" "\<forall>e. kw_audit w \<noteq> ReadFails e" "fa_unlink ans' = None"
  shows "hv_stale (wd_evaluation r)
    \<and> (\<exists>st w2. readKillSwitchStatus cwd now ans' (JStr path) JNull w1 = Inr (st, w2)
        \<and> kw_file w2 = NoFile \<and> \<not> st_halted st)"
proof -
  let ?ev = "wd_evaluation r"
  note ev = watchdog_writes [OF assms(1,2)]
  have ap: "json_plain (hv_ageMs ?ev)" "json_plain (hv_ttlMs ?ev)"
    unfolding ev(1) using age_plain assms(4) by blast+
  obtain hfs where h: "watchdog_record (JStr hp) ?ev (JStr path) (c # s) = JObj hfs" "json_plain (JObj hfs)"
    "fld hfs ''killSwitchPath'' = JStr path" "fld hfs ''action'' = JStr ''halt''"
    "fld hfs ''reason'' = JStr ''watchdog_heartbeat_stale''"
    using ap by (auto simp: watchdog_record_def buildKillSwitchAuditRecord_def default_to_def)
  note latest = latest_is_appended [OF ev(4) [unfolded h(1)] assms(8) h(2) assms(3) h(3,4)]
  have d: "distinct (List.map fst hfs)" using h(2) by simp
  have reason: "dot (json_kept (JObj hfs)) ''reason'' = JStr ''watchdog_heartbeat_stale''"
    unfolding kept_key [OF d] h(5) by simp
  have "\<exists>st w2. readKillSwitchStatus cwd now ans' (JStr path) JNull w1 = Inr (st, w2)
    \<and> (kw_file w2 = NoFile \<longleftrightarrow> str_includes ''heartbeat_stale'' ''watchdog_heartbeat_stale'')
    \<and> (st_halted st \<longleftrightarrow> kw_file w2 \<noteq> NoFile)"
    using assms(9) timestamp_body [OF assms(5-7)]
    by (intro clear_by_audit_reason [OF ev(3) assms(3) latest latest _ _ reason assms(10)]) auto
  with ev(2) show ?thesis by auto
qed

lemma update_absent: "k \<notin> fst ` set al \<Longrightarrow> AList.update k v al = al @ [(k, v)]"
  by (induction al) auto

lemma spread_append:
  "distinct (List.map fst b) \<Longrightarrow> fst ` set a \<inter> fst ` set b = {} \<Longrightarrow> spread a b = a @ b"
  unfolding spread_def
  by (induction b arbitrary: a) (auto simp: set_fld_def update_absent)

lemma fld_member: "distinct (List.map fst fs) \<Longrightarrow> (k, v) \<in> set fs \<Longrightarrow> fld fs k = v"
  by (simp add: fld_def)

text \<open>C34: what the executor writes as its heartbeat is what the watchdog reads: the schema version,
  the time, the process id and every field of the metadata that JSON can hold, and it is stale exactly
  when it is older than the limit. The metadata are plain JSON fields under names of their own.\<close>

theorem heartbeat_roundtrip:
  assumes "writeHeartbeat metadata (JStr (c # now)) (JNum (Fin pid)) = (payload, f)"
    "json_plain (JObj metadata)" "is_double (Fin pid)"
    "{''schemaVersion'', ''updatedAt'', ''pid''} \<inter> fst ` set metadata = {}"
  shows "\<exists>h. readHeartbeat f = Inr h
    \<and> dot h ''schemaVersion'' = JNum (Fin 1) \<and> dot h ''updatedAt'' = JStr (c # now)
    \<and> dot h ''pid'' = JNum (Fin pid)
    \<and> (\<forall>(k, v) \<in> set metadata. v \<noteq> JUndef \<longrightarrow> dot h k = json_kept v)
    \<and> (hv_stale (evaluateWatchdogHeartbeat h later (JNum ttl))
       \<longleftrightarrow> jlt ttl (jsub (date_of later) (date_of (JStr (c # now)))))"
proof -
  let ?own = "[(''schemaVersion'', JNum (Fin 1)), (''updatedAt'', JStr (c # now)), (''pid'', JNum (Fin pid))]"
  let ?fs = "?own @ metadata"
  have meta: "distinct (List.map fst metadata)" using assms(2) by simp
  have payload: "payload = JObj ?fs"
    using assms(1) spread_append [OF meta, of ?own] assms(4) by (auto simp: writeHeartbeat_def Let_def)
  have d: "distinct (List.map fst ?fs)" using meta assms(4) by auto
  have plain: "json_plain (JObj ?fs)"
    using assms(2-4) by (auto simp: is_double_def rnd_numeral)
  have f: "f = Contents (kill_file_text payload)"
    using assms(1) by (auto simp: writeHeartbeat_def Let_def kill_file_text_def simp del: json_pretty.simps)
  obtain t where t: "json_pretty 0 (JObj ?fs) = Some t" by simp
  have "json_parse (t @ [newline]) = Inr (json_kept (JObj ?fs))"
    using json_parse_pretty [OF plain t, of "[newline]"] by (simp add: newline_def del: json_kept.simps)
  moreover have "trim (t @ [newline]) \<noteq> []"
    using trim_pretty [OF t] pretty_obj_ends [OF t] by auto
  moreover have "f = Contents (t @ [newline])"
    unfolding f payload kill_file_text_def t by simp
  ultimately have read: "readHeartbeat f = Inr (json_kept (JObj ?fs))"
    by (simp add: readHeartbeat_def del: json_kept.simps)
  have get: "dot (json_kept (JObj ?fs)) k = json_kept v" if "(k, v) \<in> set ?fs" "v \<noteq> JUndef" for k v
    unfolding kept_key [OF d] fld_member [OF d that(1)] using that(2) by simp
  have own: "dot (json_kept (JObj ?fs)) ''schemaVersion'' = JNum (Fin 1)"
    "dot (json_kept (JObj ?fs)) ''updatedAt'' = JStr (c # now)"
    "dot (json_kept (JObj ?fs)) ''pid'' = JNum (Fin pid)"
    using get [of "''schemaVersion''" "JNum (Fin 1)"] get [of "''updatedAt''" "JStr (c # now)"]
      get [of "''pid''" "JNum (Fin pid)"] by simp_all
  have stale: "hv_stale (evaluateWatchdogHeartbeat (json_kept (JObj ?fs)) later (JNum ttl))
      \<longleftrightarrow> jlt ttl (jsub (date_of later) (date_of (JStr (c # now))))"
    by (simp only: evaluateWatchdogHeartbeat_def own Let_def) (simp add: vlt_def to_prim_def)
  have kept: "\<forall>(k, v) \<in> set metadata. v \<noteq> JUndef \<longrightarrow> dot (json_kept (JObj ?fs)) k = json_kept v"
    using get by auto
  show ?thesis using read own kept stale by blast
qed

text \<open>An emptied or touched file takes the reason of the last halt in the log, however old that is.\<close>

lemma touched_file_cleared_iff:
  assumes "kw_file w = Present m c" "trim c = []" "path \<noteq> []"
    "readLatestKillSwitchAuditRecord cwd (kw_audit w) (JStr path) [] = Inr l"
    "readLatestKillSwitchAuditRecord cwd (kw_audit w) (JStr path) [''halt'', ''resume''] = Inr a"
    "dot a ''reason'' = JStr r" "fa_unlink ans = None"
  shows "\<exists>st w'. readKillSwitchStatus cwd now ans (JStr path) JNull w = Inr (st, w')
    \<and> (kw_file w' = NoFile \<longleftrightarrow> str_includes ''heartbeat_stale'' r)
    \<and> (st_halted st \<longleftrightarrow> kw_file w' \<noteq> NoFile)"
  using assms(2)
  by (intro clear_by_audit_reason [OF assms(1,3-5) _ _ assms(6,7)])
    (simp_all add: parseKillSwitchFileContents_def rawContentLooksLikeWatchdogTimestamp_def)

text \<open>A heartbeat whose time cannot be read is never stale.\<close>

lemma unreadable_heartbeat_healthy:
  assumes "truthy (dot h ''updatedAt'')" "date_of (dot h ''updatedAt'') = NaN"
  shows "\<not> hv_stale (evaluateWatchdogHeartbeat h now (JNum ttl))"
  using assms by (cases "date_of now"; cases ttl)
    (simp_all add: evaluateWatchdogHeartbeat_def Let_def vlt_def to_prim_def jsub_def)

section \<open>Instances\<close>

definition fs_works :: fs_answers where
  "fs_works = \<lparr>fa_write = None, fa_unlink = None, fa_append = None, fa_events = None, fa_signer = None\<rparr>"

definition fresh_world :: ks_world where
  "fresh_world = \<lparr>kw_file = NoFile, kw_audit = NoEntry, kw_events = NoEntry, kw_signer = NoEntry\<rparr>"

definition halt_args :: ks_args where
  "halt_args = parseArgs ''/home/op'' (\<lambda>_. None) [''--on'', ''--reason=manual halt'', ''--kill-switch-path=/k'']"

lemma halt_args_fields:
  "ka_on halt_args" "ka_reason halt_args = Some ''manual halt''" "ka_killSwitchPath halt_args = ''/k''"
  "ka_actor halt_args = ''operator-via-llm''" "check_args halt_args = Inr ()"
  by code_simp+

theorem operator_halt_persists_witness:
  "\<exists>w1 a. toggle halt_args ''t'' ''m'' fs_works fresh_world = (Inr a, w1)
    \<and> (\<exists>r. checkKillSwitch (JStr ''/k'')
          (fileExists (kw_file (snd (enforceWatchdog (JStr ''hb'') NoEntry (JStr ''/k'') (JNum (Fin 60000)) ''t'' ''m'' fs_works w1))))
          JNull = Inr r \<and> pr_decision r = BLOCK)"
proof -
  obtain w1 a where t: "toggle halt_args ''t'' ''m'' fs_works fresh_world = (Inr a, w1)"
    by (simp add: toggle_def Let_def halt_args_fields fs_works_def fresh_world_def appendKillSwitchAuditRecord_def)
  have steps: "(ks_step [] (ka_killSwitchPath halt_args))\<^sup>*\<^sup>* w1
      (snd (enforceWatchdog (JStr ''hb'') NoEntry (JStr ''/k'') (JNum (Fin 60000)) ''t'' ''m'' fs_works w1))"
    unfolding halt_args_fields by (rule r_into_rtranclp) (rule ks_step.Watchdog)
  have "\<exists>r. checkKillSwitch (JStr (ka_killSwitchPath halt_args))
      (fileExists (kw_file (snd (enforceWatchdog (JStr ''hb'') NoEntry (JStr ''/k'') (JNum (Fin 60000)) ''t'' ''m'' fs_works w1))))
      JNull = Inr r \<and> pr_decision r = BLOCK"
    by (rule operator_halt_persists [OF t halt_args_fields(5,1,2) _ _ _ _ steps])
      (simp_all add: newline_def halt_args_fields)
  with t show ?thesis by (auto simp: halt_args_fields)
qed

theorem kill_status_reports_file_witness:
  "\<exists>st w' r. readKillSwitchStatus [] JNull fs_works (JStr ''/k'') JNull (fresh_world\<lparr>kw_file := Present ''m'' []\<rparr>) = Inr (st, w')
    \<and> checkKillSwitch (JStr ''/k'') (fileExists (kw_file w')) JNull = Inr r \<and> (pr_decision r = BLOCK \<longleftrightarrow> st_halted st)"
proof -
  let ?w = "fresh_world\<lparr>kw_file := Present ''m'' []\<rparr>"
  have none: "readLatestKillSwitchAuditRecord [] (kw_audit ?w) (JStr ''/k'') acts = Inr JNull" for acts
    by (simp add: readLatestKillSwitchAuditRecord_def fresh_world_def)
  obtain st where "ks_view [] (JStr ''/k'') JNull ?w = Inr st"
    using status_of_present [of ?w "''m''" "[]" "''/k''", OF _ _ none none] by auto
  then obtain st' w' where s: "readKillSwitchStatus [] JNull fs_works (JStr ''/k'') JNull ?w = Inr (st', w')"
    by (cases "isStaleWatchdogArm st") (auto simp: readKillSwitchStatus_def unlinked_def fs_works_def)
  have "\<exists>r. checkKillSwitch (JStr ''/k'') (fileExists (kw_file w')) JNull = Inr r \<and> (pr_decision r = BLOCK \<longleftrightarrow> st_halted st')"
    by (rule kill_status_reports_file [OF s]) simp_all
  with s show ?thesis by blast
qed

definition two_triggers :: auto_kill_input where
  "two_triggers = \<lparr>ak_auditRecords = [JObj [(''timestamp'', JStr ''1970-01-01T00:00:30.000Z''),
       (''realized'', JObj [(''netUsd'', JNum (Fin (- 100)))])]],
     ak_oracleSamples = JArr [], ak_heartbeatAtMs = JNum (Fin 0), ak_operatingCapitalUsd = JNull,
     ak_priceSamples = JArr [], ak_clStatus = JObj [], ak_activeProtocols = JArr [], ak_campaignStatus = JObj [],
     ak_config = JObj
       [(''cumulativeLoss'', JObj [(''enabled'', JBool True), (''windowMs'', JNum (Fin 86400000)),
          (''thresholdUsd'', JNum (Fin 50)), (''operatingCapitalFractionFloor'', JNum (Fin 1))]),
        (''heartbeat'', JObj [(''enabled'', JBool True), (''maxAgeMs'', JNum (Fin 60000))])],
     ak_nowMs = Fin 60000, ak_incidentFile = None\<rparr>"

lemma two_triggers_verdict:
  "\<exists>v. evaluateAutoKillTriggers two_triggers = Inr v \<and> akv_triggered v
    \<and> trigger_names (akv_triggers v) = [''cumulative_loss'', ''heartbeat_stale''] \<and> json_plain (JArr (akv_triggers v))"
  by (rule exI [where x = "projr (evaluateAutoKillTriggers two_triggers)"]) code_simp

text \<open>A loss of 100 USD over the limit of 50 armed the switch; the next status read disarms it.\<close>

theorem auto_kill_arm_cleared_iff_witness:
  "\<exists>r w1 st w2. runAutoKillCheck two_triggers (JStr ''/k'') ''m'' fs_works fresh_world = (Inr r, w1)
    \<and> ''cumulative_loss'' \<in> set (trigger_names (akv_triggers (akr_verdict r)))
    \<and> existsSync (kw_file w1)
    \<and> readKillSwitchStatus [] JNull fs_works (JStr ''/k'') JNull w1 = Inr (st, w2) \<and> kw_file w2 = NoFile"
proof -
  obtain v where v: "evaluateAutoKillTriggers two_triggers = Inr v" "akv_triggered v"
    "trigger_names (akv_triggers v) = [''cumulative_loss'', ''heartbeat_stale'']" "json_plain (JArr (akv_triggers v))"
    using two_triggers_verdict by blast
  have "\<exists>r w1. runAutoKillCheck two_triggers (JStr ''/k'') ''m'' fs_works fresh_world = (Inr r, w1)
      \<and> akr_verdict r = v \<and> akr_killSwitchWritten r \<and> existsSync (kw_file w1)"
    using v(2) by (simp add: runAutoKillCheck_def v(1) record_trigger_def arm_kill_switch_def fs_works_def fresh_world_def
        appendEvent_def appendKillSwitchAuditRecord_def Let_def existsSync_def)
  then obtain r w1 where r: "runAutoKillCheck two_triggers (JStr ''/k'') ''m'' fs_works fresh_world = (Inr r, w1)"
    "akr_verdict r = v" "akr_killSwitchWritten r" "existsSync (kw_file w1)" by blast
  have "\<exists>st w2. readKillSwitchStatus [] JNull fs_works (JStr ''/k'') JNull w1 = Inr (st, w2)
    \<and> (kw_file w2 = NoFile
       \<longleftrightarrow> (\<exists>n\<in>set (trigger_names (akv_triggers (akr_verdict r))). str_includes ''heartbeat_stale'' n))
    \<and> (st_halted st \<longleftrightarrow> kw_file w2 \<noteq> NoFile)"
    by (rule auto_kill_arm_cleared_iff [OF r(1,3)])
      (use v(4) in \<open>simp_all add: fresh_world_def fs_works_def r(2) del: json_plain.simps\<close>)
  then show ?thesis using r(1,4) by (auto simp: r(2) v(3))
qed

theorem watchdog_halt_cleared_witness:
  "\<exists>r w1. enforceWatchdog (JStr ''hb'') NoEntry (JStr ''/k'') (JNum (Fin 60000)) ''2026-05-16'' ''m'' fs_works fresh_world
      = (Inr r, w1) \<and> hv_stale (wd_evaluation r)
    \<and> (\<exists>st w2. readKillSwitchStatus [] JNull fs_works (JStr ''/k'') JNull w1 = Inr (st, w2) \<and> kw_file w2 = NoFile)"
proof -
  have "\<exists>r w1. enforceWatchdog (JStr ''hb'') NoEntry (JStr ''/k'') (JNum (Fin 60000)) ''2026-05-16'' ''m'' fs_works fresh_world
      = (Inr r, w1) \<and> wd_killSwitchWritten r"
    by (simp add: enforceWatchdog_def readHeartbeat_def evaluateWatchdogHeartbeat_def fresh_world_def fs_works_def
        appendKillSwitchAuditRecord_def Let_def)
  then obtain r w1 where r: "enforceWatchdog (JStr ''hb'') NoEntry (JStr ''/k'') (JNum (Fin 60000)) ''2026-05-16'' ''m'' fs_works fresh_world
      = (Inr r, w1)" "wd_killSwitchWritten r" by blast
  have d: "is_digit (CHR ''2'')" "is_double (Fin 60000)" by (simp_all add: is_digit_def is_double_def rnd_numeral)
  have "hv_stale (wd_evaluation r)
    \<and> (\<exists>st w2. readKillSwitchStatus [] JNull fs_works (JStr ''/k'') JNull w1 = Inr (st, w2)
        \<and> kw_file w2 = NoFile \<and> \<not> st_halted st)"
    by (rule watchdog_halt_cleared [OF r])
      (use d in \<open>simp_all add: fresh_world_def fs_works_def newline_def\<close>)
  with r(1) show ?thesis by blast
qed

theorem heartbeat_roundtrip_witness:
  "\<exists>payload f h. writeHeartbeat [(''mode'', JStr ''live'')] (JStr ''2026-05-16T00:00:00.000Z'') (JNum (Fin 7)) = (payload, f)
    \<and> readHeartbeat f = Inr h \<and> dot h ''mode'' = JStr ''live'' \<and> dot h ''pid'' = JNum (Fin 7)
    \<and> hv_stale (evaluateWatchdogHeartbeat h (JStr ''2026-05-16T00:02:00.000Z'') (JNum (Fin 60000)))
    \<and> \<not> hv_stale (evaluateWatchdogHeartbeat h (JStr ''2026-05-16T00:01:00.000Z'') (JNum (Fin 60000)))"
proof -
  let ?t = "JStr ''2026-05-16T00:00:00.000Z''" and ?m = "[(''mode'', JStr ''live'')]"
  obtain payload f where w: "writeHeartbeat ?m ?t (JNum (Fin 7)) = (payload, f)"
    by (cases "writeHeartbeat ?m ?t (JNum (Fin 7))")
  have "json_plain (JObj ?m)" "is_double (Fin 7)" "{''schemaVersion'', ''updatedAt'', ''pid''} \<inter> fst ` set ?m = {}"
    by (simp_all add: is_double_def rnd_numeral)
  note rt = heartbeat_roundtrip [OF w this]
  have times: "jlt (Fin 60000) (jsub (date_of (JStr ''2026-05-16T00:02:00.000Z'')) (date_of ?t))"
    "\<not> jlt (Fin 60000) (jsub (date_of (JStr ''2026-05-16T00:01:00.000Z'')) (date_of ?t))"
    by code_simp+
  obtain h where h: "readHeartbeat f = Inr h" "dot h ''mode'' = JStr ''live''" "dot h ''pid'' = JNum (Fin 7)"
    "hv_stale (evaluateWatchdogHeartbeat h (JStr ''2026-05-16T00:02:00.000Z'') (JNum (Fin 60000)))"
    using rt [of "JStr ''2026-05-16T00:02:00.000Z''" "Fin 60000"] times(1) by auto
  moreover have "\<not> hv_stale (evaluateWatchdogHeartbeat h (JStr ''2026-05-16T00:01:00.000Z'') (JNum (Fin 60000)))"
    using rt [of "JStr ''2026-05-16T00:01:00.000Z''" "Fin 60000"] times(2) h(1) by auto
  ultimately show ?thesis using w by blast
qed

end
