(* ===== verification/ExecutionGate.thy ===== *)
theory ExecutionGate
  imports AuditLog PolicyCore FailureStreak
begin

text \<open>
  src/src/risk/execution-gate.mjs (the default policy is in FailureStreak): the risk
  state computed from receipts and journal events, and the decision on a job. Receipts, events,
  jobs and policies are JSON values; the state handed from one function to the other is an
  object, as in the code.

  \<open>exec_gate_live_allow\<close>: what an ALLOW in live mode guarantees. \<open>failure_counts_exact\<close>: the
  three failure counters are the lengths of the leading runs of failures, overall, outside the
  refill scopes and in each scope.
\<close>

section \<open>Jobs and scopes\<close>

definition lower_of :: "jsv \<Rightarrow> string" where
  "lower_of v = lowercase (to_str (orelse v (JStr [])))"

definition isNativeRefillJob :: "jsv \<Rightarrow> bool" where
  "isNativeRefillJob job \<longleftrightarrow> lower_of (dot job ''type'') = ''refill_native''"

definition isRefillJob :: "jsv \<Rightarrow> bool" where
  "isRefillJob job \<longleftrightarrow> is_prefix ''refill_'' (lower_of (dot job ''type''))"

definition normalizeScopePart :: "jsv \<Rightarrow> string option" where
  "normalizeScopePart value =
     (let text = lowercase (trim (to_str (orelse value (JStr [])))) in if text = [] then None else Some text)"

definition part_or_star :: "string option \<Rightarrow> string" where
  "part_or_star p = (case p of Some s \<Rightarrow> s | None \<Rightarrow> ''*'')"

definition scope_parts :: "jsv \<Rightarrow> string option list" where
  "scope_parts record =
     [normalizeScopePart (first_truthy [dot record ''strategyId'', dot record ''strategyLabel'',
        dots record [''strategyPolicy'', ''id'']]),
      normalizeScopePart (dot record ''chain''),
      normalizeScopePart (first_truthy [dot record ''asset'', dot record ''targetAsset'']),
      normalizeScopePart (first_truthy [dot record ''sourceChain'', dots record [''fundingSource'', ''source'', ''chain'']]),
      normalizeScopePart (first_truthy [dot record ''sourceAsset'', dots record [''fundingSource'', ''source'', ''asset''],
        dots record [''fundingSource'', ''source'', ''ticker''], dots record [''fundingSource'', ''source'', ''token'']]),
      normalizeScopePart (first_truthy [dot record ''executionMethod'', dot record ''selectedExecutionMethod'',
        dots record [''fundingSource'', ''method'']])]"

definition refillFailureScope :: "jsv \<Rightarrow> string option" where
  "refillFailureScope record =
     (if \<not> isRefillJob record then None
      else if list_all (\<lambda>p. p = None) (scope_parts record) then None
      else Some (join ''|'' (List.map part_or_star (scope_parts record))))"

definition gateHoursAgo :: "jsv \<Rightarrow> jsv \<Rightarrow> jsnum" where
  "gateHoursAgo timestamp now = jdiv (jsub (date_of now) (date_of timestamp)) (Fin 3600000)"

definition minutesAgo :: "jsv \<Rightarrow> jsv \<Rightarrow> jsnum" where
  "minutesAgo timestamp now = jdiv (jsub (date_of now) (date_of timestamp)) (Fin 60000)"

definition resume_time :: "jsv \<Rightarrow> jsnum option" where
  "resume_time resumeAfterFailureAt =
     (if \<not> truthy resumeAfterFailureAt then None
      else let t = date_of resumeAfterFailureAt in if is_fin t then Some t else None)"

definition strategyPolicyFromJob :: "jsv \<Rightarrow> jsv" where
  "strategyPolicyFromJob job = first_truthy [dot job ''strategyPolicy'', dot job ''strategyConfig'', JNull]"

text \<open>\<open>reduce((max, value) => Math.max(max, value), null)\<close>: null counts as 0.\<close>

definition max_from_null :: "jsv list \<Rightarrow> jsnum option" where
  "max_from_null vs =
     (case vs of [] \<Rightarrow> None | _ \<Rightarrow> Some (foldl (\<lambda>m v. jmax m (to_num v)) (Fin 0) vs))"

definition jobExposureUsd :: "jsv \<Rightarrow> jsnum option" where
  "jobExposureUsd job =
     (let direct = List.filter isFiniteNumber
            [dot job ''estimatedAssetValueUsd'', dot job ''targetAmountUsd'', dot job ''amountUsd'']
      in if isRefillJob job \<and> direct \<noteq> [] then max_from_null direct
         else max_from_null (List.filter isFiniteNumber (dots job [''systemEconomics'', ''routeInputUsd''] # direct)))"

text \<open>\<open>missingInputs\<close> and \<open>settlementRequirements\<close> are arrays where they are present.\<close>

definition fundingSourceAutoExecutable :: "jsv \<Rightarrow> bool" where
  "fundingSourceAutoExecutable fundingSource \<longleftrightarrow>
     truthy fundingSource
     \<and> (strict_eq (dot fundingSource ''selectionStatus'') (JStr ''ready'')
        \<or> strict_eq (dot fundingSource ''selectionStatus'') (JStr ''conditional'')
          \<and> elems (dot fundingSource ''missingInputs'') = []
          \<and> elems (dot fundingSource ''settlementRequirements'') \<noteq> []
          \<and> \<not> truthy (dot fundingSource ''requiresManualFunding''))"

definition failedGasCostUsdForReceipt :: "jsv \<Rightarrow> jsv" where
  "failedGasCostUsdForReceipt record =
     (let receiptGasUsd = dots record [''realized'', ''receiptGasUsd''];
          sourceTxSucceeded = (strict_eq (dots record [''flags'', ''failed'']) (JBool False)
            \<or> jeq (to_num (dots record [''receipt'', ''status''])) (Fin 1))
      in if sourceTxSucceeded \<and> isFiniteNumber receiptGasUsd then receiptGasUsd
         else dots record [''realized'', ''actualKnownCostUsd''])"

definition lower_pick :: "jsv \<Rightarrow> jsv \<Rightarrow> string \<Rightarrow> string" where
  "lower_pick strategyPolicy job k = lower_of (orelse (dot strategyPolicy k) (dot job k))"

definition isLeverageExecution :: "jsv \<Rightarrow> jsv \<Rightarrow> bool" where
  "isLeverageExecution job strategyPolicy \<longleftrightarrow>
     strict_eq (dot strategyPolicy ''isLeverage'') (JBool True)
     \<or> str_includes ''leverage'' (lower_pick strategyPolicy job ''actionType'')
     \<or> str_includes ''lending_loop'' (lower_pick strategyPolicy job ''actionType'')
     \<or> str_includes ''leverage'' (lower_pick strategyPolicy job ''strategyType'')"

definition isHoldingPeriodCarryStrategy :: "jsv \<Rightarrow> jsv \<Rightarrow> bool" where
  "isHoldingPeriodCarryStrategy job strategyPolicy \<longleftrightarrow>
     lower_pick strategyPolicy job ''economicsMode'' = ''holding_period_carry''
     \<or> lower_pick strategyPolicy job ''category'' = ''yield''
     \<or> str_includes ''yield'' (lower_pick strategyPolicy job ''actionType'')
     \<or> str_includes ''lending_loop'' (lower_pick strategyPolicy job ''actionType'')
     \<or> str_includes ''lending_loop'' (lower_pick strategyPolicy job ''strategyType'')"

definition missingLeverageFields :: "jsv \<Rightarrow> string list" where
  "missingLeverageFields strategyPolicy =
     List.filter (\<lambda>field. \<not> isFiniteNumber (dot strategyPolicy field))
       [''perTradeCapUsd'', ''healthFactorMin'', ''liquidationBufferPct'', ''unwindTriggerHealthFactor'',
        ''maxLoopIterations'', ''maxLtvPct'']"

section \<open>Failures\<close>

definition errorMessage :: "jsv \<Rightarrow> string" where
  "errorMessage record =
     to_str (first_truthy [dots record [''error'', ''message''], dot record ''error'', JStr []])"

text \<open>
  The regular expression \<open>a.+b\<close> for two literals: at least one character between them and no
  line terminator.
\<close>

definition line_end :: "char \<Rightarrow> bool" where
  "line_end c \<longleftrightarrow> c = CHR 0x0A \<or> c = CHR 0x0D"

fun gap_then :: "string \<Rightarrow> string \<Rightarrow> bool" where
  "gap_then b [] = False"
| "gap_then b (c # s) = (\<not> line_end c \<and> (is_prefix b s \<or> gap_then b s))"

fun match_gap :: "string \<Rightarrow> string \<Rightarrow> string \<Rightarrow> bool" where
  "match_gap a b [] = False"
| "match_gap a b (c # s) =
     (is_prefix a (c # s) \<and> gap_then b (drop (length a) (c # s)) \<or> match_gap a b s)"

definition failed :: "jsv \<Rightarrow> bool" where
  "failed record \<longleftrightarrow> strict_eq (dot record ''status'') (JStr ''failed'')"

definition isSignerAvailabilityFailure :: "jsv \<Rightarrow> bool" where
  "isSignerAvailabilityFailure record \<longleftrightarrow>
     failed record
     \<and> (match_gap ''ECONNREFUSED'' ''executor-signer.sock'' (errorMessage record)
        \<or> match_gap ''executor-signer.sock'' ''ECONNREFUSED'' (errorMessage record))"

definition hasExecutionProgressEvidence :: "jsv \<Rightarrow> bool" where
  "hasExecutionProgressEvidence record \<longleftrightarrow>
     list_ex (\<lambda>k. truthy (dot record k))
       [''sourceBalanceAfter'', ''destinationBalanceAfter'', ''destinationProof'', ''receiptIngest'',
        ''destinationObservedDelta'']"

definition truthy_elems :: "jsv \<Rightarrow> jsv list" where
  "truthy_elems v = List.filter truthy (elems v)"

definition isKeyEnvironmentFailure :: "jsv \<Rightarrow> bool" where
  "isKeyEnvironmentFailure record \<longleftrightarrow>
     failed record \<and> \<not> hasExecutionProgressEvidence record
     \<and> truthy_elems (dot record ''txHashes'') = []
     \<and> list_ex (\<lambda>k. str_includes k (errorMessage record))
         [''BURNER_EVM_KEY_PATH'', ''BURNER_PRIVATE_KEY_PATH'', ''BURNER_BTC_KEY_PATH'']"

definition isPartialPreparationFailure :: "jsv \<Rightarrow> bool" where
  "isPartialPreparationFailure record \<longleftrightarrow>
     failed record \<and> \<not> hasExecutionProgressEvidence record
     \<and> (let txHashes = truthy_elems (dot record ''txHashes''); stepIds = truthy_elems (dot record ''stepIds'')
        in txHashes \<noteq> [] \<and> stepIds \<noteq> [] \<and> length txHashes < length stepIds
           \<or> txHashes = [] \<and> str_includes ''insufficient_native_balance_for_gas'' (errorMessage record))"

definition newest_observed :: "jsv \<Rightarrow> jsv \<Rightarrow> jsnum" where
  "newest_observed l r = jsub (date_of (dot r ''observedAt'')) (date_of (dot l ''observedAt''))"

definition latestTerminalStatuses :: "jsv list \<Rightarrow> jsv \<Rightarrow> jsv list" where
  "latestTerminalStatuses events resumeAfterFailureAt =
     sort_by newest_observed
       (List.filter (\<lambda>item. case resume_time resumeAfterFailureAt of
            None \<Rightarrow> True
          | Some t \<Rightarrow> jlt t (date_of (orelse (dot item ''observedAt'') (JNum (Fin 0)))))
       (List.filter (\<lambda>item. \<not> isPartialPreparationFailure item)
       (List.filter (\<lambda>item. \<not> isSignerAvailabilityFailure item)
       (List.filter (\<lambda>item. one_of [''confirmed'', ''delivered'', ''failed''] (dot item ''status'')) events))))"

section \<open>The risk state\<close>

fun leading_failures :: "jsv list \<Rightarrow> nat" where
  "leading_failures [] = 0"
| "leading_failures (item # rest) = (if failed item then Suc (leading_failures rest) else 0)"

fun leading_unscoped_failures :: "jsv list \<Rightarrow> nat" where
  "leading_unscoped_failures [] = 0"
| "leading_unscoped_failures (item # rest) =
     (if refillFailureScope item \<noteq> None then leading_unscoped_failures rest
      else if failed item then Suc (leading_unscoped_failures rest) else 0)"

text \<open>One item of the scope loop: the count and the boundary of every scope met so far.\<close>

definition scope_step :: "(string \<times> nat \<times> jsv) list \<Rightarrow> jsv \<Rightarrow> (string \<times> nat \<times> jsv) list" where
  "scope_step m item =
     (case refillFailureScope item of
        None \<Rightarrow> m
      | Some scope \<Rightarrow>
          let (count, boundary) = (case map_of m scope of Some c \<Rightarrow> c | None \<Rightarrow> (0, JNull))
          in if truthy boundary then m
             else if failed item then AList.update scope (Suc count, boundary) m
             else AList.update scope (count, orelse (dot item ''observedAt'') JNull) m)"

definition scoped_counts :: "jsv list \<Rightarrow> (string \<times> nat \<times> jsv) list" where
  "scoped_counts terminal = foldl scope_step [] terminal"

definition finite_sum :: "jsv list \<Rightarrow> jsnum" where
  "finite_sum vs = jsum (List.map to_num (List.filter isFiniteNumber vs))"

definition buildExecutionRiskState :: "jsv list \<Rightarrow> jsv list \<Rightarrow> jsv \<Rightarrow> jsv \<Rightarrow> jsv \<Rightarrow> jsv" where
  "buildExecutionRiskState receiptRecords executionEvents inventory resumeAfterFailureAt now =
     (let receipt24h = List.filter (\<lambda>item. jle (gateHoursAgo (dot item ''observedAt'') now) (Fin 24)) receiptRecords;
          terminal = latestTerminalStatuses executionEvents resumeAfterFailureAt;
          infrastructureFailureCount = length (List.filter (\<lambda>item.
            isSignerAvailabilityFailure item \<or> isKeyEnvironmentFailure item) executionEvents);
          pnl = (\<lambda>item. dots item [''realized'', ''realizedNetPnlUsd'']);
          projectRealizedPnlUsd = finite_sum (List.map pnl receiptRecords)
      in JObj
        [(''schemaVersion'', JNum (Fin 1)),
         (''observedAt'', now),
         (''dailyRealizedPnlUsd'', JNum (finite_sum (List.map pnl receipt24h))),
         (''projectRealizedPnlUsd'', JNum projectRealizedPnlUsd),
         (''projectLossUsedUsd'', JNum (jmax (Fin 0) (jneg projectRealizedPnlUsd))),
         (''failedGasCost24hUsd'', JNum (finite_sum (List.map failedGasCostUsdForReceipt
            (List.filter (\<lambda>item. strict_eq (dot item ''reconciliationStatus'') (JStr ''failed'')) receipt24h)))),
         (''consecutiveFailures'', jnat (leading_failures terminal)),
         (''unscopedConsecutiveFailures'', jnat (leading_unscoped_failures terminal)),
         (''scopedConsecutiveFailures'', JObj (List.map (\<lambda>(scope, count, boundary). (scope, jnat count))
            (scoped_counts terminal))),
         (''infrastructureFailureCount'', jnat infrastructureFailureCount),
         (''walletEstimatedUsd'', coal (dots inventory [''summary'', ''estimatedWalletUsd'']) JNull),
         (''lastReceiptAt'', case sort_by newest_observed receiptRecords of
            [] \<Rightarrow> JNull | r # _ \<Rightarrow> dot r ''observedAt''),
         (''resumeAfterFailureAt'', resumeAfterFailureAt)])"

section \<open>The decision\<close>

text \<open>The default policy (modelled in FailureStreak) with its numbers evaluated.\<close>

lemma default_policy_obj:
  "buildDefaultRiskPolicy = JObj
     [(''schemaVersion'', JNum (Fin 2)), (''projectLossCapUsd'', JNull), (''dailyLossCapUsd'', JNull),
      (''maxConsecutiveFailures'', JNum (Fin 3)), (''resumeAfterFailureAt'', JNull),
      (''maxFailedGasCost24hUsd'', JNum (Fin 3)), (''canaryWalletFloorUsd'', JNull),
      (''minNetProfitUsd'', JNum (Fin 0)), (''minNetProfitPct'', JNum (Fin 0)),
      (''minNetProfitEpsilonUsd'', JNum (Fin 0)), (''staleJobMinutes'', JNum (Fin 30)),
      (''leverage'', JObj [(''allowed'', JBool True), (''healthFactorMin'', JNull),
        (''liquidationBufferPct'', JNull)])]"
  by (simp add: buildDefaultRiskPolicy_def jint_def rnd_numeral)

datatype exec_decision = ExecAllow | ExecReview | ExecBlocked

definition consecutiveFailuresForJob :: "jsv \<Rightarrow> jsv \<Rightarrow> jsv" where
  "consecutiveFailuresForJob riskState job =
     (if \<not> isRefillJob job then orelse (dot riskState ''consecutiveFailures'') (JNum (Fin 0))
      else
        let scopedCount = (case refillFailureScope job of
              Some scope \<Rightarrow> dots riskState [''scopedConsecutiveFailures'', scope] | None \<Rightarrow> JNull);
            globalUnscopedCount = to_num (orelse (dot riskState ''unscopedConsecutiveFailures'') (JNum (Fin 0)))
        in if is_finite scopedCount then scopedCount
           else if jlt (Fin 0) globalUnscopedCount then JNum globalUnscopedCount else JNum (Fin 0))"

text \<open>The parts of a job the blockers are computed from.\<close>

record job_view =
  jv_effectiveNetPnlUsd :: jsv
  jv_routeNetPnlUsd :: jsv
  jv_routeInputUsd :: jsv
  jv_strategyPolicy :: jsv
  jv_strategyId :: jsv
  jv_perTradeCapUsd :: jsv
  jv_exposureUsd :: "jsnum option"
  jv_leverageStrategy :: bool
  jv_holdingPeriodCarryStrategy :: bool
  jv_leverageMissingFields :: "string list"
  jv_consecutiveFailures :: jsv
  jv_ageMinutes :: jsnum

definition job_parts :: "jsv \<Rightarrow> jsv \<Rightarrow> jsv \<Rightarrow> job_view" where
  "job_parts job riskState now =
     (let economics = dot job ''systemEconomics'';
          strategyPolicy = strategyPolicyFromJob job;
          leverage = isLeverageExecution job strategyPolicy
      in \<lparr>jv_effectiveNetPnlUsd = dot economics ''effectiveSystemNetPnlUsd'',
          jv_routeNetPnlUsd = (if isFiniteNumber (dot economics ''routeExecutableNetEdgeUsd'')
             then dot economics ''routeExecutableNetEdgeUsd'' else dot economics ''routeNetEdgeUsd''),
          jv_routeInputUsd = coal (dot economics ''routeInputUsd'') JNull,
          jv_strategyPolicy = strategyPolicy,
          jv_strategyId = first_truthy [dot strategyPolicy ''id'', dot job ''strategyId'', dot job ''strategyLabel'', JNull],
          jv_perTradeCapUsd = coal (dot strategyPolicy ''perTradeCapUsd'') JNull,
          jv_exposureUsd = jobExposureUsd job,
          jv_leverageStrategy = leverage,
          jv_holdingPeriodCarryStrategy = isHoldingPeriodCarryStrategy job strategyPolicy,
          jv_leverageMissingFields = (if leverage then missingLeverageFields strategyPolicy else []),
          jv_consecutiveFailures = consecutiveFailuresForJob riskState job,
          jv_ageMinutes = minutesAgo (first_truthy [dot job ''createdAt'', dot job ''observedAt'', now]) now\<rparr>)"

definition state_blockers :: "jsv \<Rightarrow> jsv \<Rightarrow> bool \<Rightarrow> jsv \<Rightarrow> string list" where
  "state_blockers riskPolicy riskState live consecutiveFailures =
     (let projectCap = dot riskPolicy ''projectLossCapUsd''; dailyCap = dot riskPolicy ''dailyLossCapUsd'';
          floorUsd = dot riskPolicy ''canaryWalletFloorUsd''; wallet = dot riskState ''walletEstimatedUsd''
      in push_if (isFiniteNumber projectCap \<and> vle projectCap (dot riskState ''projectLossUsedUsd''))
           ''project_loss_cap_reached''
       @ push_if (isFiniteNumber dailyCap
            \<and> vle (dot riskState ''dailyRealizedPnlUsd'') (JNum (jneg (to_num dailyCap)))) ''daily_loss_cap_reached''
       @ push_if (vle (dot riskPolicy ''maxFailedGasCost24hUsd'') (dot riskState ''failedGasCost24hUsd''))
           ''failed_gas_cap_reached''
       @ push_if (vle (dot riskPolicy ''maxConsecutiveFailures'') consecutiveFailures) ''max_consecutive_failures_reached''
       @ push_if (live \<and> isFiniteNumber floorUsd \<and> isFiniteNumber wallet \<and> vlt wallet floorUsd) ''wallet_floor_breached'')"

definition strategy_blockers :: "jsv \<Rightarrow> job_view \<Rightarrow> string list" where
  "strategy_blockers riskPolicy j =
     (let p = jv_strategyPolicy j; cap = jv_perTradeCapUsd j
      in push_if (truthy (jv_strategyId j) \<and> \<not> truthy p) ''strategy_policy_missing''
       @ push_if ((truthy p \<or> truthy (jv_strategyId j)) \<and> \<not> isFiniteNumber cap) ''strategy_per_trade_cap_missing''
       @ push_if (isFiniteNumber cap
            \<and> (case jv_exposureUsd j of Some x \<Rightarrow> is_fin x \<and> jlt (to_num cap) x | None \<Rightarrow> False))
           ''strategy_per_trade_cap_exceeded''
       @ push_if (jv_leverageStrategy j \<and> strict_eq (dots riskPolicy [''leverage'', ''allowed'']) (JBool False))
           ''leverage_policy_disabled''
       @ push_if (jv_leverageStrategy j \<and> jv_leverageMissingFields j \<noteq> []) ''leverage_policy_fields_missing''
       @ push_if (jv_leverageStrategy j \<and> isFiniteNumber (dot p ''currentHealthFactor'')
            \<and> isFiniteNumber (dot p ''healthFactorMin'')
            \<and> vlt (dot p ''currentHealthFactor'') (dot p ''healthFactorMin'')) ''health_factor_below_min''
       @ push_if (jv_leverageStrategy j \<and> isFiniteNumber (dot p ''currentLiquidationBufferPct'')
            \<and> isFiniteNumber (dot p ''liquidationBufferPct'')
            \<and> vlt (dot p ''currentLiquidationBufferPct'') (dot p ''liquidationBufferPct''))
           ''liquidation_buffer_below_min'')"

definition job_reviews :: "jsv \<Rightarrow> string list" where
  "job_reviews job =
     (let source = dot job ''fundingSource''
      in push_if (dot job ''requiresManualReview'' = JBool True) ''job_requires_policy_review''
       @ push_if (strict_eq (dot source ''selectionStatus'') (JStr ''manual_only'')) ''manual_funding_only''
       @ push_if (strict_eq (dot source ''selectionStatus'') (JStr ''conditional'')
            \<and> \<not> fundingSourceAutoExecutable source) ''conditional_funding_source''
       @ push_if (truthy (dot source ''requiresReserveState'')) ''reserve_state_unmodelled''
       @ push_if (truthy (dot source ''requiresManualFunding'')) ''manual_funding_dependency''
       @ push_if (JStr ''bootstrap_native_required'' \<in> set (elems (dot source ''missingInputs'')))
           ''bootstrap_native_required'')"

definition profit_blockers :: "jsv \<Rightarrow> jsv \<Rightarrow> job_view \<Rightarrow> string list" where
  "profit_blockers job riskPolicy j =
     (let readiness = dots job [''systemEconomics'', ''tradeReadiness''];
          net = jv_effectiveNetPnlUsd j; minUsd = dot riskPolicy ''minNetProfitUsd'';
          minPct = dot riskPolicy ''minNetProfitPct''; input = jv_routeInputUsd j
      in push_if (\<not> isRefillJob job \<and> truthy readiness \<and> is_prefix ''reject_'' (to_str readiness)) ''route_trade_rejected''
       @ push_if (isFiniteNumber net \<and> vle net (JNum (Fin 0)) \<and> \<not> isRefillJob job
            \<and> \<not> jv_holdingPeriodCarryStrategy j) ''system_net_pnl_non_positive''
       @ push_if (isFiniteNumber net \<and> vlt (JNum (Fin 0)) net \<and> vlt (JNum (Fin 0)) minUsd \<and> vlt net minUsd)
           ''system_net_pnl_below_min_profit''
       @ push_if (isFiniteNumber input \<and> vlt (JNum (Fin 0)) input \<and> isFiniteNumber net
            \<and> vlt (JNum (Fin 0)) minPct \<and> vlt (JNum (jdiv (to_num net) (to_num input))) minPct)
           ''system_net_pnl_below_min_edge'')"

definition route_warnings :: "job_view \<Rightarrow> string list" where
  "route_warnings j =
     push_if (\<not> isFiniteNumber (jv_routeInputUsd j) \<and> isFiniteNumber (jv_routeNetPnlUsd j)
       \<and> vle (jv_routeNetPnlUsd j) (JNum (Fin 0))) ''route_input_usd_missing''"

record exec_risk_decision =
  xd_observedAt :: jsv
  xd_jobId :: jsv
  xd_mode :: jsv
  xd_decision :: exec_decision
  xd_blockers :: "string list"
  xd_reviews :: "string list"
  xd_warnings :: "string list"
  xd_metrics :: jsv

definition decision_metrics :: "jsv \<Rightarrow> job_view \<Rightarrow> jsv" where
  "decision_metrics riskState j = JObj
     [(''dailyRealizedPnlUsd'', dot riskState ''dailyRealizedPnlUsd''),
      (''projectLossUsedUsd'', dot riskState ''projectLossUsedUsd''),
      (''failedGasCost24hUsd'', dot riskState ''failedGasCost24hUsd''),
      (''consecutiveFailures'', jv_consecutiveFailures j),
      (''globalConsecutiveFailures'', dot riskState ''consecutiveFailures''),
      (''walletEstimatedUsd'', dot riskState ''walletEstimatedUsd''),
      (''effectiveSystemNetPnlUsd'', coal (jv_effectiveNetPnlUsd j) JNull),
      (''routeNetPnlUsd'', coal (jv_routeNetPnlUsd j) JNull),
      (''routeInputUsd'', jv_routeInputUsd j),
      (''exposureUsd'', num_or_null (jv_exposureUsd j)),
      (''strategyId'', jv_strategyId j),
      (''strategyPerTradeCapUsd'', jv_perTradeCapUsd j),
      (''leverageStrategy'', JBool (jv_leverageStrategy j)),
      (''holdingPeriodCarryStrategy'', JBool (jv_holdingPeriodCarryStrategy j)),
      (''missingLeverageFields'', strs (jv_leverageMissingFields j)),
      (''ageMinutes'', JNum (jv_ageMinutes j))]"

definition exec_blockers :: "jsv \<Rightarrow> jsv \<Rightarrow> jsv \<Rightarrow> bool \<Rightarrow> job_view \<Rightarrow> string list" where
  "exec_blockers job riskState riskPolicy live j =
     state_blockers riskPolicy riskState live (jv_consecutiveFailures j)
     @ (if live then strategy_blockers riskPolicy j else [])
     @ push_if (vlt (dot riskPolicy ''staleJobMinutes'') (JNum (jv_ageMinutes j))) ''stale_job_plan''
     @ profit_blockers job riskPolicy j"

definition buildExecutionRiskDecision :: "jsv \<Rightarrow> jsv \<Rightarrow> jsv \<Rightarrow> jsv \<Rightarrow> jsv \<Rightarrow> exec_risk_decision" where
  "buildExecutionRiskDecision job riskState riskPolicy mode now =
     (let j = job_parts job riskState now;
          blockers = exec_blockers job riskState riskPolicy (strict_eq mode (JStr ''live'')) j;
          reviews = job_reviews job
      in \<lparr>xd_observedAt = now, xd_jobId = dot job ''jobId'', xd_mode = mode,
          xd_decision = (if blockers \<noteq> [] then ExecBlocked else if reviews \<noteq> [] then ExecReview else ExecAllow),
          xd_blockers = unique_list blockers, xd_reviews = unique_list reviews,
          xd_warnings = unique_list (route_warnings j), xd_metrics = decision_metrics riskState j\<rparr>)"

section \<open>The counters\<close>

lemma leading_failures_run: "leading_failures xs = length (takeWhile failed xs)"
  by (induction xs) auto

lemma leading_unscoped_run:
  "leading_unscoped_failures xs = length (takeWhile failed (List.filter (\<lambda>i. refillFailureScope i = None) xs))"
  by (induction xs) auto

text \<open>The entry of one scope after the loop, from the items of that scope alone.\<close>

fun scope_entry :: "nat \<times> jsv \<Rightarrow> jsv list \<Rightarrow> nat \<times> jsv" where
  "scope_entry c [] = c"
| "scope_entry (n, b) (i # is) =
     (if truthy b then (n, b)
      else if failed i then scope_entry (Suc n, b) is
      else scope_entry (n, orelse (dot i ''observedAt'') JNull) is)"

lemma scope_entry_done: "truthy b \<Longrightarrow> scope_entry (n, b) is = (n, b)"
  by (cases "is") auto

lemma scope_entry_Cons: "scope_entry c (i # is) = scope_entry (scope_entry c [i]) is"
  by (cases c) (simp add: scope_entry_done)

definition entry_of :: "(string \<times> nat \<times> jsv) list \<Rightarrow> string \<Rightarrow> nat \<times> jsv" where
  "entry_of m scope = (case map_of m scope of Some c \<Rightarrow> c | None \<Rightarrow> (0, JNull))"

lemma scope_step_entry:
  assumes "refillFailureScope x = Some scope"
  shows "map_of (scope_step m x) scope = Some (scope_entry (entry_of m scope) [x])"
proof (cases "map_of m scope")
  case None
  with assms show ?thesis by (simp add: scope_step_def entry_of_def AList.update_conv')
next
  case (Some c)
  with assms show ?thesis by (cases c) (simp add: scope_step_def entry_of_def AList.update_conv')
qed

lemma scope_step_other:
  "refillFailureScope x \<noteq> Some scope \<Longrightarrow> map_of (scope_step m x) scope = map_of m scope"
  by (auto simp: scope_step_def AList.update_conv' Let_def split: option.splits prod.splits)

lemma scope_loop:
  "map_of (foldl scope_step m xs) scope =
     (let is = List.filter (\<lambda>i. refillFailureScope i = Some scope) xs
      in if is = [] then map_of m scope else Some (scope_entry (entry_of m scope) is))"
proof (induction xs arbitrary: m)
  case (Cons x xs)
  show ?case
  proof (cases "refillFailureScope x = Some scope")
    case True
    have e: "entry_of (scope_step m x) scope = scope_entry (entry_of m scope) [x]"
      unfolding entry_of_def [of "scope_step m x"] scope_step_entry [OF True] by simp
    let ?is = "List.filter (\<lambda>i. refillFailureScope i = Some scope) xs"
    have "map_of (foldl scope_step m (x # xs)) scope = Some (scope_entry (entry_of (scope_step m x) scope) ?is)"
      by (cases "?is = []") (simp_all add: Cons.IH scope_step_entry [OF True] e)
    also have "\<dots> = Some (scope_entry (entry_of m scope) (x # ?is))"
      unfolding e scope_entry_Cons [of "entry_of m scope" x ?is] ..
    finally show ?thesis using True by simp
  next
    case False
    then show ?thesis by (simp add: Cons.IH scope_step_other entry_of_def Let_def)
  qed
qed simp

lemma scope_entry_run:
  assumes "\<And>i. i \<in> set is \<Longrightarrow> \<not> failed i \<Longrightarrow> truthy (dot i ''observedAt'')"
  shows "\<not> truthy b \<Longrightarrow> fst (scope_entry (n, b) is) = n + length (takeWhile failed is)"
  using assms
proof (induction "is" arbitrary: n b)
  case (Cons i "is")
  then show ?case by (cases "failed i") (auto simp: orelse_def scope_entry_done)
qed simp

lemma scoped_counter:
  assumes "\<forall>i\<in>set terminal. \<not> failed i \<longrightarrow> truthy (dot i ''observedAt'')"
    "\<exists>i\<in>set terminal. refillFailureScope i = Some scope"
  shows "fld (List.map (\<lambda>(s, n, b). (s, jnat n)) (scoped_counts terminal)) scope
    = jnat (length (takeWhile failed (List.filter (\<lambda>i. refillFailureScope i = Some scope) terminal)))"
proof -
  let ?is = "List.filter (\<lambda>i. refillFailureScope i = Some scope) terminal"
  have "?is \<noteq> []" using assms(2) by (auto simp: filter_empty_conv)
  then have entry: "map_of (scoped_counts terminal) scope = Some (scope_entry (0, JNull) ?is)"
    unfolding scoped_counts_def scope_loop by (simp add: entry_of_def)
  have run: "fst (scope_entry (0, JNull) ?is) = length (takeWhile failed ?is)"
    using scope_entry_run [of ?is JNull 0] assms(1) by simp
  have "map_of (List.map (\<lambda>(s, n, b). (s, jnat n)) m) scope = map_option (\<lambda>(n, b). jnat n) (map_of m scope)"
    for m :: "(string \<times> nat \<times> jsv) list"
    by (induction m) auto
  then show ?thesis using run by (cases "scope_entry (0, JNull) ?is") (simp add: fld_def entry)
qed

lemma risk_state_fields:
  fixes events receipts inventory resume now
  defines "terminal \<equiv> latestTerminalStatuses events resume"
    and "state \<equiv> buildExecutionRiskState receipts events inventory resume now"
  shows "dot state ''consecutiveFailures'' = jnat (length (takeWhile failed terminal))"
    "dot state ''unscopedConsecutiveFailures''
      = jnat (length (takeWhile failed (List.filter (\<lambda>i. refillFailureScope i = None) terminal)))"
    "dots state [''scopedConsecutiveFailures'', scope]
      = fld (List.map (\<lambda>(s, n, b). (s, jnat n)) (scoped_counts terminal)) scope"
    "dot state ''failedGasCost24hUsd'' = JNum (finite_sum (List.map failedGasCostUsdForReceipt
      (List.filter (\<lambda>item. strict_eq (dot item ''reconciliationStatus'') (JStr ''failed''))
        (List.filter (\<lambda>item. jle (gateHoursAgo (dot item ''observedAt'') now) (Fin 24)) receipts))))"
  unfolding state_def terminal_def buildExecutionRiskState_def Let_def
  by (simp_all add: leading_failures_run leading_unscoped_run dots_def)

text \<open>C28: the three failure counters of the risk state: overall and outside the refill scopes the number of
  failures since the last success, and in each refill scope that occurred the same over the scope's own
  events, where every success carries its time.\<close>

theorem failure_counts_exact:
  fixes events receipts :: "jsv list" and inventory resume now :: jsv
  defines "terminal \<equiv> latestTerminalStatuses events resume"
    and "state \<equiv> buildExecutionRiskState receipts events inventory resume now"
  assumes "\<forall>i\<in>set terminal. \<not> failed i \<longrightarrow> truthy (dot i ''observedAt'')"
    "\<exists>i\<in>set terminal. refillFailureScope i = Some scope"
  shows "dot state ''consecutiveFailures'' = jnat (length (takeWhile failed terminal))
    \<and> dot state ''unscopedConsecutiveFailures''
        = jnat (length (takeWhile failed (List.filter (\<lambda>i. refillFailureScope i = None) terminal)))
    \<and> dots state [''scopedConsecutiveFailures'', scope]
        = jnat (length (takeWhile failed (List.filter (\<lambda>i. refillFailureScope i = Some scope) terminal)))"
  unfolding state_def terminal_def risk_state_fields using scoped_counter [OF assms(3,4)] by (simp add: terminal_def)

section \<open>What an ALLOW guarantees\<close>

lemma push_if_Nil [simp]: "push_if b s = [] \<longleftrightarrow> \<not> b"
  by (simp add: push_if_def)

lemma decision_allow:
  assumes "xd_decision (buildExecutionRiskDecision job riskState riskPolicy mode now) = ExecAllow"
  shows "exec_blockers job riskState riskPolicy (strict_eq mode (JStr ''live'')) (job_parts job riskState now) = []"
    "job_reviews job = []"
  using assms by (auto simp: buildExecutionRiskDecision_def Let_def split: if_splits)

lemma jnat_small: "n \<le> 2 ^ 53 \<Longrightarrow> jnat n = JNum (Fin (of_nat n))"
  using rnd_int [of "int n"] by (simp add: jnat_def)

lemma vle_three: "n \<le> 2 ^ 53 \<Longrightarrow> vle (JNum (Fin 3)) (jnat n) \<longleftrightarrow> 3 \<le> n"
  by (simp add: jnat_small vle_def to_prim_def)

lemma terminal_length: "length (latestTerminalStatuses events resume) \<le> length events"
  unfolding latestTerminalStatuses_def length_sort_by
  by (intro order_trans [OF length_filter_le] order_refl)

lemma run_length: "length (takeWhile P (List.filter Q xs)) \<le> length xs"
  using length_takeWhile_le [of P "List.filter Q xs"] length_filter_le [of Q xs] by (rule order_trans)

lemma exposure_finite: "jobExposureUsd job = Some x \<Longrightarrow> is_fin x"
proof -
  have step: "is_fin m \<Longrightarrow> list_all isFiniteNumber vs \<Longrightarrow> is_fin (foldl (\<lambda>m v. jmax m (to_num v)) m vs)" for m vs
  proof (induction vs arbitrary: m)
    case (Cons v vs)
    then obtain y where "v = JNum (Fin y)" by (cases v) (auto simp: isFiniteNumber_def elim: is_finE)
    moreover from this Cons.prems(1) have "is_fin (jmax m (to_num v))" by (auto simp: jmax_def elim!: is_finE)
    ultimately show ?case using Cons by simp
  qed simp
  have "max_from_null vs = Some x \<Longrightarrow> list_all isFiniteNumber vs \<Longrightarrow> is_fin x" for vs
    using step [of "Fin 0" vs] by (auto simp: max_from_null_def split: list.splits)
  moreover have "list_all isFiniteNumber (List.filter isFiniteNumber vs)" for vs by (simp add: list_all_iff)
  ultimately show "jobExposureUsd job = Some x \<Longrightarrow> is_fin x"
    unfolding jobExposureUsd_def Let_def by (metis (no_types, lifting))
qed

text \<open>C9: an ALLOW of the execution gate in live mode, under the default policy and on the state computed from
  the receipts and events: the gas lost to failures in a day does not reach the limit, the job's own failure
  streak is below three, a job with a strategy has a finite per-trade cap that its exposure respects, a
  leveraged one has every leverage bound set, and nothing asks for review.\<close>

theorem exec_gate_live_allow:
  fixes events receipts :: "jsv list" and inventory resume now :: jsv
  defines "terminal \<equiv> latestTerminalStatuses events resume"
    and "state \<equiv> buildExecutionRiskState receipts events inventory resume now"
  assumes "xd_decision (buildExecutionRiskDecision job state buildDefaultRiskPolicy (JStr ''live'') now) = ExecAllow"
    "length events \<le> 2 ^ 53"
  shows "\<not> jle (Fin 3) (to_num (dot state ''failedGasCost24hUsd''))
    \<and> (\<not> isRefillJob job \<longrightarrow> length (takeWhile failed terminal) < 3)
    \<and> (\<forall>scope. isRefillJob job \<and> refillFailureScope job = Some scope
         \<and> (\<forall>i\<in>set terminal. \<not> failed i \<longrightarrow> truthy (dot i ''observedAt''))
         \<longrightarrow> length (takeWhile failed (List.filter (\<lambda>i. refillFailureScope i = Some scope) terminal)) < 3)
    \<and> (truthy (strategyPolicyFromJob job) \<or> truthy (dot job ''strategyId'')
         \<longrightarrow> (\<exists>cap. dot (strategyPolicyFromJob job) ''perTradeCapUsd'' = JNum (Fin cap)
              \<and> (\<forall>x. jobExposureUsd job = Some (Fin x) \<longrightarrow> x \<le> cap)))
    \<and> (isLeverageExecution job (strategyPolicyFromJob job) \<longrightarrow> missingLeverageFields (strategyPolicyFromJob job) = [])
    \<and> job_reviews job = []"
proof -
  let ?j = "job_parts job state now"
  have b: "state_blockers buildDefaultRiskPolicy state True (jv_consecutiveFailures ?j) = []"
    "strategy_blockers buildDefaultRiskPolicy ?j = []"
    using decision_allow(1) [OF assms(3)] by (simp_all add: exec_blockers_def)
  have r: "job_reviews job = []" by (rule decision_allow(2) [OF assms(3)])
  have gas: "\<not> jle (Fin 3) (to_num (dot state ''failedGasCost24hUsd''))"
    using b(1) unfolding state_def
    by (simp add: state_blockers_def Let_def default_policy_obj vle_def to_prim_def risk_state_fields(4))
  have streak: "\<not> vle (JNum (Fin 3)) (consecutiveFailuresForJob state job)"
    using b(1) by (simp add: state_blockers_def Let_def default_policy_obj job_parts_def)
  have or0: "orelse (jnat n) (JNum (Fin 0)) = jnat n" for n by (simp add: orelse_def jnat_def)
  have len: "length terminal \<le> 2 ^ 53" using terminal_length [of events resume] assms(4) by (simp add: terminal_def)
  have three: "\<not> vle (JNum (Fin 3)) (jnat n) \<Longrightarrow> n \<le> length terminal \<Longrightarrow> n < 3" for n
    using vle_three [of n] len by simp
  have plain: "length (takeWhile failed terminal) < 3" if "\<not> isRefillJob job"
    using streak that three [OF _ length_takeWhile_le]
    by (simp add: consecutiveFailuresForJob_def state_def risk_state_fields(1) or0 terminal_def)
  have scoped: "length (takeWhile failed (List.filter (\<lambda>i. refillFailureScope i = Some scope) terminal)) < 3"
    if h: "isRefillJob job" "refillFailureScope job = Some scope"
      "\<forall>i\<in>set terminal. \<not> failed i \<longrightarrow> truthy (dot i ''observedAt'')" for scope
  proof (cases "\<exists>i\<in>set terminal. refillFailureScope i = Some scope")
    case True
    have "dots state [''scopedConsecutiveFailures'', scope]
        = jnat (length (takeWhile failed (List.filter (\<lambda>i. refillFailureScope i = Some scope) terminal)))"
      unfolding state_def risk_state_fields(3) using scoped_counter [OF h(3) True] by (simp add: terminal_def)
    then have "consecutiveFailuresForJob state job
        = jnat (length (takeWhile failed (List.filter (\<lambda>i. refillFailureScope i = Some scope) terminal)))"
      using h(1,2) jnat_small [OF order_trans [OF run_length len]] by (simp add: consecutiveFailuresForJob_def Let_def)
    with streak three [OF _ run_length] show ?thesis by simp
  next
    case False
    then have "List.filter (\<lambda>i. refillFailureScope i = Some scope) terminal = []" by (auto simp: filter_empty_conv)
    then show ?thesis by simp
  qed
  have cap: "\<exists>cap. dot (strategyPolicyFromJob job) ''perTradeCapUsd'' = JNum (Fin cap)
      \<and> (\<forall>x. jobExposureUsd job = Some (Fin x) \<longrightarrow> x \<le> cap)"
    if "truthy (strategyPolicyFromJob job) \<or> truthy (dot job ''strategyId'')"
  proof -
    have "truthy (jv_strategyPolicy ?j) \<or> truthy (jv_strategyId ?j)"
      using that by (auto simp: job_parts_def Let_def)
    then have f: "isFiniteNumber (coal (dot (strategyPolicyFromJob job) ''perTradeCapUsd'') JNull)"
      "\<forall>x. jobExposureUsd job = Some x \<longrightarrow> \<not> (is_fin x \<and> jlt (to_num (coal (dot (strategyPolicyFromJob job) ''perTradeCapUsd'') JNull)) x)"
      using b(2) by (auto simp: strategy_blockers_def Let_def job_parts_def split: option.splits)
    then obtain cap where "dot (strategyPolicyFromJob job) ''perTradeCapUsd'' = JNum (Fin cap)"
      by (cases "dot (strategyPolicyFromJob job) ''perTradeCapUsd''") (auto simp: isFiniteNumber_def elim: is_finE)
    with f(2) show ?thesis by auto
  qed
  have lev: "missingLeverageFields (strategyPolicyFromJob job) = []" if "isLeverageExecution job (strategyPolicyFromJob job)"
    using b(2) that by (simp add: strategy_blockers_def Let_def job_parts_def)
  show ?thesis using gas plain scoped cap lev r by blast
qed

section \<open>Gaps\<close>

text \<open>A creation time that cannot be read makes a job never stale.\<close>

lemma unreadable_creation_never_stale:
  assumes "truthy (dot job ''createdAt'')" "date_of (dot job ''createdAt'') = NaN"
  shows "\<not> vlt limit (JNum (jv_ageMinutes (job_parts job riskState now)))"
proof -
  have "jv_ageMinutes (job_parts job riskState now) = NaN"
    using assms by (cases "date_of now") (simp_all add: job_parts_def Let_def minutesAgo_def jsub_def jdiv_def)
  moreover have "\<not> jlt x NaN" for x by (cases x) simp_all
  ultimately show ?thesis by (auto simp: vlt_def to_prim_def split: jsv.splits)
qed

definition refill_event :: "string \<Rightarrow> jsv \<Rightarrow> jsv" where
  "refill_event status observedAt = JObj
     [(''type'', JStr ''refill_token''), (''chain'', JStr ''base''), (''status'', JStr status),
      (''observedAt'', observedAt)]"

text \<open>A success without its time does not end the streak of its scope: a failure before it still counts.\<close>

lemma success_without_time_ignored:
  "scoped_counts [refill_event ''failed'' (JStr ''2026-01-03''), refill_event ''confirmed'' JNull,
      refill_event ''failed'' (JStr ''2026-01-01'')] = [(''*|base|*|*|*|*'', 2, JNull)]"
  by code_simp

section \<open>Instances\<close>

definition sample_exec_job :: jsv where
  "sample_exec_job = JObj
     [(''jobId'', JStr ''j1''), (''type'', JStr ''swap''), (''amountUsd'', JNum (Fin 5)),
      (''createdAt'', JStr ''2026-01-01T00:00:00.000Z''),
      (''strategyPolicy'', JObj [(''id'', JStr ''s''), (''perTradeCapUsd'', JNum (Fin 10))])]"

theorem exec_gate_live_allow_witness:
  "xd_decision (buildExecutionRiskDecision sample_exec_job
     (buildExecutionRiskState [] [refill_event ''failed'' (JStr ''2026-01-01'')] JNull JNull (JStr ''2026-01-01T00:00:00.000Z''))
     buildDefaultRiskPolicy (JStr ''live'') (JStr ''2026-01-01T00:00:00.000Z'')) = ExecAllow
   \<and> (\<exists>cap. dot (strategyPolicyFromJob sample_exec_job) ''perTradeCapUsd'' = JNum (Fin cap)
       \<and> (\<forall>x. jobExposureUsd sample_exec_job = Some (Fin x) \<longrightarrow> x \<le> cap))"
proof -
  have a: "xd_decision (buildExecutionRiskDecision sample_exec_job
     (buildExecutionRiskState [] [refill_event ''failed'' (JStr ''2026-01-01'')] JNull JNull (JStr ''2026-01-01T00:00:00.000Z''))
     buildDefaultRiskPolicy (JStr ''live'') (JStr ''2026-01-01T00:00:00.000Z'')) = ExecAllow"
    by code_simp
  have "truthy (strategyPolicyFromJob sample_exec_job)" by code_simp
  with exec_gate_live_allow [OF a] a show ?thesis by simp
qed

theorem failure_counts_exact_witness:
  "dots (buildExecutionRiskState []
      [refill_event ''failed'' (JStr ''2026-01-01''), refill_event ''delivered'' (JStr ''2026-01-02''),
       refill_event ''failed'' (JStr ''2026-01-03'')] JNull JNull (JStr ''2026-01-04''))
     [''scopedConsecutiveFailures'', ''*|base|*|*|*|*''] = jnat 1"
proof -
  let ?t = "latestTerminalStatuses [refill_event ''failed'' (JStr ''2026-01-01''),
    refill_event ''delivered'' (JStr ''2026-01-02''), refill_event ''failed'' (JStr ''2026-01-03'')] JNull"
  have t: "?t = [refill_event ''failed'' (JStr ''2026-01-03''), refill_event ''delivered'' (JStr ''2026-01-02''),
      refill_event ''failed'' (JStr ''2026-01-01'')]"
    by code_simp
  have sc: "refillFailureScope (refill_event ''failed'' (JStr ''2026-01-03'')) = Some ''*|base|*|*|*|*''"
    "refillFailureScope (refill_event ''delivered'' (JStr ''2026-01-02'')) = Some ''*|base|*|*|*|*''"
    "refillFailureScope (refill_event ''failed'' (JStr ''2026-01-01'')) = Some ''*|base|*|*|*|*''"
    "failed (refill_event ''failed'' (JStr ''2026-01-03''))" "\<not> failed (refill_event ''delivered'' (JStr ''2026-01-02''))"
    by code_simp+
  have "\<forall>i\<in>set ?t. \<not> failed i \<longrightarrow> truthy (dot i ''observedAt'')"
    unfolding t by (simp add: refill_event_def)
  moreover have "\<exists>i\<in>set ?t. refillFailureScope i = Some ''*|base|*|*|*|*''" unfolding t using sc by simp
  ultimately show ?thesis
    using failure_counts_exact [of _ JNull] by (simp only: t) (simp add: sc)
qed

end
