(* ===== verification/ExecutionGuards.thy ===== *)
theory ExecutionGuards
  imports KillSwitchFile
begin

text \<open>
  src/src/execution/guards.mjs: the guard of a job run over the emergency stop, the kill switch and
  the live-mode file. What access() finds at a path is a parameter of the working directory's
  resolved path.

  \<open>guards_reasons\<close>: a run is blocked exactly when a reason is given.
  \<open>unreadable_kill_switch_ignored\<close>: an access that fails counts as no file, unlike in
  \<open>checkKillSwitch\<close>, which throws.
\<close>

section \<open>The guard\<close>

type_synonym access = "string \<Rightarrow> bool throws"

definition guard_exists :: "access \<Rightarrow> string \<Rightarrow> jsv \<Rightarrow> bool" where
  "guard_exists look cwd path =
     (case path of JStr p \<Rightarrow> p \<noteq> [] \<and> look (resolve_path cwd p) = Inr True | _ \<Rightarrow> False)"

definition samePath :: "string \<Rightarrow> jsv \<Rightarrow> jsv \<Rightarrow> bool" where
  "samePath cwd left right =
     (truthy left \<and> truthy right
      \<and> (case (left, right) of (JStr l, JStr r) \<Rightarrow> resolve_path cwd l = resolve_path cwd r | _ \<Rightarrow> False))"

record exec_guards =
  eg_mode :: jsv
  eg_emergencyStopPath :: jsv
  eg_emergencyStopActive :: bool
  eg_killSwitchPath :: jsv
  eg_killSwitchActive :: bool
  eg_liveModePath :: jsv
  eg_liveModeEnabled :: bool
  eg_blocked :: bool
  eg_reasons :: "string list"

definition readExecutionGuards :: "access \<Rightarrow> string \<Rightarrow> jsv \<Rightarrow> jsv \<Rightarrow> jsv \<Rightarrow> jsv \<Rightarrow> exec_guards" where
  "readExecutionGuards look cwd emergencyStopPath liveModePath killSwitchPath mode =
     (let emergencyStopActive = guard_exists look cwd emergencyStopPath;
          liveModeEnabled = guard_exists look cwd liveModePath;
          killSwitchActive = guard_exists look cwd killSwitchPath;
          live = strict_eq mode (JStr ''live'')
      in \<lparr>eg_mode = mode, eg_emergencyStopPath = emergencyStopPath, eg_emergencyStopActive = emergencyStopActive,
          eg_killSwitchPath = killSwitchPath, eg_killSwitchActive = killSwitchActive,
          eg_liveModePath = liveModePath, eg_liveModeEnabled = liveModeEnabled,
          eg_blocked = (emergencyStopActive \<or> killSwitchActive \<or> live \<and> \<not> liveModeEnabled),
          eg_reasons =
            push_if killSwitchActive ''kill_switch_active''
            @ push_if (emergencyStopActive \<and> \<not> samePath cwd emergencyStopPath killSwitchPath) ''emergency_stop_active''
            @ push_if (live \<and> \<not> liveModeEnabled) ''live_mode_not_enabled''\<rparr>)"

section \<open>Facts\<close>

lemma same_path_same_file: "samePath cwd l r \<Longrightarrow> guard_exists look cwd l = guard_exists look cwd r"
  by (cases l; cases r) (auto simp: samePath_def guard_exists_def)

text \<open>The guard blocks a run exactly when it names a reason: a path shared by the emergency stop and the
  kill switch is reported once and still blocks.\<close>

theorem guards_reasons:
  "eg_blocked (readExecutionGuards look cwd stop live ksp mode)
    \<longleftrightarrow> eg_reasons (readExecutionGuards look cwd stop live ksp mode) \<noteq> []"
  using same_path_same_file [of cwd stop ksp look] by (auto simp: readExecutionGuards_def Let_def push_if_def)

text \<open>A kill switch that cannot be looked at does not block the run.\<close>

lemma unreadable_kill_switch_ignored:
  assumes "p \<noteq> []" "look (resolve_path cwd p) = Inl e" "\<not> guard_exists look cwd stop" "guard_exists look cwd live"
  shows "\<not> eg_blocked (readExecutionGuards look cwd stop live (JStr p) mode)
    \<and> checkKillSwitch (JStr p) (look (resolve_path cwd p)) now = Inl e"
  using assms(3,4) by (simp add: readExecutionGuards_def Let_def guard_exists_def assms(1,2) checkKillSwitch_def)

end
