(* ===== verification/ExecutionJournal.thy ===== *)
theory ExecutionJournal
  imports ExecutionGate
begin

text \<open>
  src/src/execution/journal.mjs: the events of the execution journal and the check that keeps a job
  from being started twice; \<open>stableSerialize\<close> is in Hashing. Events are JSON objects; the default of
  an event's time is the clock, and the model takes it as given.

  \<open>canStart_latest\<close>: the check looks at the newest event of the job alone.
  \<open>journal_blocks_restart\<close>: after an attempt, a submission or a settled reconciliation the job
  cannot be started again without force. \<open>outcome_decides_restart\<close>: after a funding outcome it can,
  unless the settlement status is one of the five the check knows.
\<close>

section \<open>The check\<close>

definition deterministicId :: "jsv \<Rightarrow> string" where
  "deterministicId payload = take 20 (sha256_hex (stableSerialize payload))"

definition job_events :: "jsv list \<Rightarrow> jsv \<Rightarrow> jsv list" where
  "job_events events jobId = List.filter (\<lambda>item. strict_eq (dot item ''jobId'') jobId) events"

definition latestExecutionEvent :: "jsv list \<Rightarrow> jsv \<Rightarrow> jsv option" where
  "latestExecutionEvent events jobId =
     (case sort_by newest_observed (job_events events jobId) of [] \<Rightarrow> None | e # _ \<Rightarrow> Some e)"

record start_answer =
  sa_ok :: bool
  sa_reason :: "string option"
  sa_latest :: "jsv option"

definition started_statuses :: "string list" where
  "started_statuses = [''submitted'', ''confirmed'', ''failed'', ''dry_run_planned'', ''planned'']"

definition canStartExecution :: "jsv list \<Rightarrow> jsv \<Rightarrow> bool \<Rightarrow> start_answer" where
  "canStartExecution events jobId force =
     (case latestExecutionEvent events jobId of
        None \<Rightarrow> \<lparr>sa_ok = True, sa_reason = None, sa_latest = None\<rparr>
      | Some latest \<Rightarrow>
          if force then \<lparr>sa_ok = True, sa_reason = Some ''force_override'', sa_latest = Some latest\<rparr>
          else if one_of started_statuses (dot latest ''status'')
          then \<lparr>sa_ok = False, sa_reason = Some (''job_already_'' @ to_str (dot latest ''status'')),
                sa_latest = Some latest\<rparr>
          else \<lparr>sa_ok = True, sa_reason = None, sa_latest = Some latest\<rparr>)"

section \<open>The events of a run\<close>

definition or_null :: "jsv \<Rightarrow> jsv" where
  "or_null v = orelse v JNull"

definition present_or_null :: "jsv \<Rightarrow> jsv" where
  "present_or_null v = coal v JNull"

text \<open>\<open>attempt_id\<close> hashes the fields that make the attempt unique.\<close>

definition attempt_id :: "fields \<Rightarrow> jsv" where
  "attempt_id fs = JStr (deterministicId (JObj fs))"

definition job_head :: "jsv \<Rightarrow> fields" where
  "job_head job =
     [(''chain'', dot job ''chain''), (''type'', dot job ''type''), (''asset'', dot job ''asset''),
      (''token'', or_null (dot job ''token'')), (''targetAmount'', dot job ''targetAmount''),
      (''targetAmountDecimal'', dot job ''targetAmountDecimal'')]"

definition review_fields :: "jsv \<Rightarrow> fields" where
  "review_fields job =
     [(''requiresManualReview'', JBool (truthy (dot job ''requiresManualReview''))),
      (''reviewReasons'', if is_arr (dot job ''reviewReasons'') then dot job ''reviewReasons'' else JArr [])]"

definition buildExecutionAttemptEvent :: "jsv \<Rightarrow> jsv \<Rightarrow> jsv \<Rightarrow> jsv \<Rightarrow> jsv \<Rightarrow> jsv \<Rightarrow> jsv" where
  "buildExecutionAttemptEvent job actor mode guards riskDecision observedAt = JObj
     ([(''schemaVersion'', JNum (Fin 1)), (''observedAt'', observedAt),
       (''eventType'', JStr ''execution_attempt_planned''),
       (''status'', JStr (if strict_eq mode (JStr ''dry_run'') then ''dry_run_planned'' else ''planned'')),
       (''jobId'', dot job ''jobId''),
       (''attemptId'', attempt_id [(''type'', JStr ''attempt''), (''jobId'', dot job ''jobId''), (''mode'', mode),
          (''observedAt'', observedAt)]),
       (''actor'', actor), (''mode'', mode)]
      @ job_head job @ [(''executionMethod'', dot job ''executionMethod'')] @ review_fields job
      @ [(''constraints'', orelse (dot job ''constraints'') (JObj [])), (''guards'', guards),
         (''riskDecision'', default_to JNull riskDecision)])"

definition buildExecutionBlockedEvent :: "jsv \<Rightarrow> jsv \<Rightarrow> jsv \<Rightarrow> jsv \<Rightarrow> jsv \<Rightarrow> jsv \<Rightarrow> jsv \<Rightarrow> jsv" where
  "buildExecutionBlockedEvent job actor mode blockers fundingSource riskDecision observedAt = JObj
     ([(''schemaVersion'', JNum (Fin 1)), (''observedAt'', observedAt),
       (''eventType'', JStr ''execution_attempt_blocked''), (''status'', JStr ''blocked''),
       (''jobId'', dot job ''jobId''),
       (''attemptId'', attempt_id [(''type'', JStr ''blocked''), (''jobId'', dot job ''jobId''), (''mode'', mode),
          (''blockers'', blockers), (''observedAt'', observedAt)]),
       (''actor'', actor), (''mode'', mode)]
      @ job_head job @ [(''executionMethod'', dot job ''executionMethod'')] @ review_fields job
      @ [(''blockers'', blockers), (''fundingSource'', default_to JNull fundingSource),
         (''riskDecision'', default_to JNull riskDecision)])"

definition buildBridgeFallbackTriggeredEvent ::
    "jsv \<Rightarrow> jsv \<Rightarrow> jsv \<Rightarrow> jsv \<Rightarrow> jsv \<Rightarrow> jsv \<Rightarrow> jsv \<Rightarrow> jsv \<Rightarrow> jsv \<Rightarrow> jsv throws" where
  "buildBridgeFallbackTriggeredEvent job fromExecutionMethod toExecutionMethod failureCount failureThreshold
      candidateIndex actor mode observedAt =
     (if \<not> truthy job then Inl (ErrorMsg ''bridge fallback job is required'')
      else Inr (JObj
        ([(''schemaVersion'', JNum (Fin 1)), (''observedAt'', observedAt),
          (''eventType'', JStr ''bridge_fallback_triggered''), (''status'', JStr ''fallback_triggered''),
          (''jobId'', dot job ''jobId''),
          (''attemptId'', attempt_id [(''type'', JStr ''bridge_fallback_triggered''), (''jobId'', dot job ''jobId''),
             (''fromExecutionMethod'', fromExecutionMethod), (''toExecutionMethod'', toExecutionMethod),
             (''failureCount'', failureCount), (''observedAt'', observedAt)]),
          (''actor'', actor), (''mode'', mode)]
         @ job_head job
         @ [(''resourceKey'', or_null (dot job ''resourceKey'')), (''fromExecutionMethod'', fromExecutionMethod),
            (''toExecutionMethod'', toExecutionMethod), (''executionMethod'', toExecutionMethod),
            (''failureCount'', failureCount), (''failureThreshold'', failureThreshold),
            (''candidateIndex'', default_to JNull candidateIndex)])))"

definition buildExecutionSubmissionEvent :: "jsv \<Rightarrow> jsv \<Rightarrow> jsv \<Rightarrow> jsv \<Rightarrow> jsv" where
  "buildExecutionSubmissionEvent job txHash actor observedAt = JObj
     [(''schemaVersion'', JNum (Fin 1)), (''observedAt'', observedAt), (''eventType'', JStr ''execution_submitted''),
      (''status'', JStr ''submitted''), (''jobId'', dot job ''jobId''),
      (''attemptId'', attempt_id [(''type'', JStr ''submitted''), (''jobId'', dot job ''jobId''), (''txHash'', txHash),
         (''observedAt'', observedAt)]),
      (''actor'', actor), (''chain'', dot job ''chain''), (''txHash'', txHash),
      (''executionMethod'', dot job ''executionMethod''), (''resourceKey'', dot job ''resourceKey'')]"

definition reconciled_status :: "jsv \<Rightarrow> string" where
  "reconciled_status receiptRecord =
     (if strict_eq (dot receiptRecord ''reconciliationStatus'') (JStr ''failed'') then ''failed''
      else if strict_eq (dot receiptRecord ''reconciliationStatus'') (JStr ''reconciled'') then ''confirmed''
      else ''pending_output'')"

definition buildExecutionReconciliationEvent :: "jsv \<Rightarrow> jsv \<Rightarrow> jsv \<Rightarrow> jsv \<Rightarrow> jsv \<Rightarrow> jsv" where
  "buildExecutionReconciliationEvent job txHash receiptRecord actor observedAt = JObj
     [(''schemaVersion'', JNum (Fin 1)), (''observedAt'', observedAt), (''eventType'', JStr ''execution_reconciled''),
      (''status'', JStr (reconciled_status receiptRecord)), (''jobId'', dot job ''jobId''),
      (''attemptId'', attempt_id [(''type'', JStr ''reconciled''), (''jobId'', dot job ''jobId''), (''txHash'', txHash),
         (''observedAt'', observedAt)]),
      (''actor'', actor), (''chain'', dot job ''chain''), (''txHash'', txHash),
      (''executionMethod'', dot job ''executionMethod''),
      (''reconciliationStatus'', dot receiptRecord ''reconciliationStatus''),
      (''realized'', dot receiptRecord ''realized''), (''flags'', dot receiptRecord ''flags'')]"

section \<open>Funding\<close>

definition deriveFundingSnapshotJobId :: "jsv \<Rightarrow> jsv \<Rightarrow> jsv" where
  "deriveFundingSnapshotJobId plan explicitJobId =
     (if truthy explicitJobId then explicitJobId
      else JStr (''funding:'' @ deterministicId (JObj
        [(''type'', JStr ''funding_snapshot_job''), (''strategyId'', or_null (dot plan ''strategyId'')),
         (''chain'', or_null (dot plan ''chain'')), (''inputToken'', or_null (dot plan ''inputToken'')),
         (''outputToken'', or_null (dot plan ''outputToken'')), (''amount'', or_null (dot plan ''amount'')),
         (''quoteObservedAt'', or_null (dots plan [''quote'', ''observedAt''])),
         (''pathId'', or_null (dots plan [''quote'', ''pathId'']))])))"

text \<open>Copies of named fields, \<open>v.k || null\<close> and \<open>v.k ?? null\<close>.\<close>

definition or_nulls :: "jsv \<Rightarrow> string list \<Rightarrow> fields" where
  "or_nulls v ks = List.map (\<lambda>k. (k, or_null (dot v k))) ks"

definition present_or_nulls :: "jsv \<Rightarrow> string list \<Rightarrow> fields" where
  "present_or_nulls v ks = List.map (\<lambda>k. (k, present_or_null (dot v k))) ks"

definition compactQuoteSnapshot :: "jsv \<Rightarrow> jsv" where
  "compactQuoteSnapshot quote =
     (if \<not> truthy quote then JNull
      else JObj
        (or_nulls quote [''observedAt'', ''provider'', ''source'', ''quoteType'', ''chain'', ''pathId'']
         @ present_or_nulls quote [''latencyMs'', ''assembleLatencyMs'']
         @ or_nulls quote [''inputToken'', ''outputToken'', ''inputAmount'', ''outputAmount'']
         @ present_or_nulls quote [''inputValueUsd'', ''outputValueUsd'', ''netOutputValueUsd'', ''gasEstimate'',
             ''gasEstimateValueUsd'', ''priceImpactPct'', ''percentDiff'', ''gweiPerGas'']
         @ or_nulls quote [''txTo'']
         @ present_or_nulls quote [''txGasLimit'', ''txValueWei'']
         @ or_nulls quote [''executionTrust'']))"

definition compactGasSnapshot :: "jsv \<Rightarrow> jsv" where
  "compactGasSnapshot snap =
     (if \<not> truthy snap then JNull
      else JObj
        (or_nulls snap [''observedAt'', ''chain'', ''rpcUrl'']
         @ present_or_nulls snap [''blockNumber'', ''latencyMs'', ''gasPriceWei'', ''baseFeeWei'', ''priorityFeeWei'']))"

definition compactBalanceSnapshot :: "jsv \<Rightarrow> jsv" where
  "compactBalanceSnapshot snap =
     (if \<not> truthy snap then JNull
      else JObj
        (or_nulls snap [''proofSource'', ''rpcUrl'']
         @ [(''balance'', if nullish (dot snap ''balance'') then JNull else JStr (to_str (dot snap ''balance'')))]
         @ or_nulls snap [''ticker'', ''token'', ''chain'']))"

record freshness =
  fr_quoteObservedAt :: jsv
  fr_quoteAgeMs :: jsv
  fr_quoteTtlMs :: jsv
  fr_quoteFresh :: jsv

definition computeQuoteFreshness :: "jsv \<Rightarrow> jsv \<Rightarrow> freshness" where
  "computeQuoteFreshness plan eventObservedAt =
     (let quoteObservedAt = or_null (dots plan [''quote'', ''observedAt'']);
          ttl = to_num (dot plan ''quoteTtlMs'');
          quoteTtlMs = (if is_fin ttl then JNum ttl else JNull);
          age = jsub (date_of eventObservedAt) (date_of quoteObservedAt)
      in if \<not> truthy quoteObservedAt \<or> \<not> truthy eventObservedAt
         then \<lparr>fr_quoteObservedAt = quoteObservedAt, fr_quoteAgeMs = JNull, fr_quoteTtlMs = quoteTtlMs, fr_quoteFresh = JNull\<rparr>
         else \<lparr>fr_quoteObservedAt = quoteObservedAt, fr_quoteAgeMs = (if is_fin age then JNum age else JNull),
               fr_quoteTtlMs = quoteTtlMs,
               fr_quoteFresh = (if quoteTtlMs = JNull \<or> \<not> is_fin age then JNull else JBool (jle age ttl))\<rparr>)"

definition step_ids :: "jsv \<Rightarrow> jsv" where
  "step_ids steps = JArr (List.map (\<lambda>step. dot step ''id'') (elems steps))"

definition buildExecutionFundingSnapshotEvent ::
    "jsv \<Rightarrow> jsv \<Rightarrow> jsv \<Rightarrow> jsv \<Rightarrow> jsv \<Rightarrow> jsv \<Rightarrow> jsv \<Rightarrow> jsv throws" where
  "buildExecutionFundingSnapshotEvent plan actor observedAt job mode fundingSource routeKey =
     (if \<not> truthy plan then Inl (ErrorMsg ''funding snapshot plan is required'')
      else
        let jobId = deriveFundingSnapshotJobId plan (or_null (dot job ''jobId''));
            q = computeQuoteFreshness plan observedAt
        in Inr (JObj
          ([(''schemaVersion'', JNum (Fin 1)), (''observedAt'', observedAt),
            (''eventType'', JStr ''execution_funding_snapshot''), (''status'', JStr ''context_captured''),
            (''jobId'', jobId),
            (''attemptId'', attempt_id [(''type'', JStr ''funding_snapshot''), (''jobId'', jobId),
               (''observedAt'', observedAt), (''planObservedAt'', or_null (dot plan ''observedAt'')),
               (''pathId'', or_null (dots plan [''quote'', ''pathId'']))]),
            (''actor'', actor), (''mode'', mode),
            (''chain'', first_truthy [dot job ''chain'', dot plan ''chain'', JNull]),
            (''type'', orelse (dot job ''type'') (JStr ''funding_snapshot'')),
            (''asset'', first_truthy [dot job ''asset'', dots plan [''outputAsset'', ''ticker''],
               dots plan [''inputAsset'', ''ticker''], JNull]),
            (''token'', first_truthy [dot job ''token'', dot plan ''outputToken'', dot plan ''inputToken'', JNull]),
            (''executionMethod'', orelse (dot job ''executionMethod'') (JStr ''live_funding_snapshot'')),
            (''strategyId'', or_null (dot plan ''strategyId'')),
            (''resourceKey'', or_null (dot job ''resourceKey'')),
            (''routeKey'', first_truthy [routeKey, dots job [''systemEconomics'', ''routeKey''], JNull])]
           @ or_nulls plan [''planStatus'', ''blockedReason'']
           @ [(''fundingSource'', first_truthy [fundingSource, dot job ''fundingSource'', JNull]),
              (''quote'', compactQuoteSnapshot (dot plan ''quote'')),
              (''gas'', compactGasSnapshot (dot plan ''gasSnapshot'')),
              (''gasSnapshotError'', or_null (dot plan ''gasSnapshotError'')),
              (''quoteObservedAt'', fr_quoteObservedAt q), (''quoteAgeMs'', fr_quoteAgeMs q),
              (''quoteTtlMs'', fr_quoteTtlMs q), (''quoteFresh'', fr_quoteFresh q),
              (''sourceBalanceBefore'', compactBalanceSnapshot (dot plan ''sourceBalanceBefore'')),
              (''destinationBalanceBefore'', compactBalanceSnapshot (dot plan ''destinationBalanceBefore''))]
           @ present_or_nulls plan [''slippageBps'', ''gasBufferBps'']
           @ or_nulls plan [''minimumOutputAmount'', ''amount'']
           @ present_or_nulls plan [''amountUsd'']
           @ [(''stepIds'', step_ids (dot plan ''steps''))])))"

definition outcome_tx_hashes :: "jsv list \<Rightarrow> jsv list" where
  "outcome_tx_hashes stepResults =
     List.map (\<lambda>step. or_null (dots step [''signerResult'', ''broadcast'', ''txHash''])) stepResults"

text \<open>\<open>observedAt\<close> is the caller's time, or the execution's.\<close>

definition buildExecutionFundingOutcomeEvent ::
    "jsv \<Rightarrow> jsv \<Rightarrow> jsv \<Rightarrow> jsv \<Rightarrow> jsv \<Rightarrow> jsv \<Rightarrow> jsv \<Rightarrow> jsv throws" where
  "buildExecutionFundingOutcomeEvent plan execution actor observedAt job mode routeKey =
     (if \<not> truthy plan \<or> \<not> truthy execution
      then Inl (ErrorMsg ''funding outcome requires plan and execution'')
      else
        let eventObservedAt = orelse observedAt (dot execution ''observedAt'');
            jobId = deriveFundingSnapshotJobId plan (or_null (dot job ''jobId''));
            stepResults = elems (dot execution ''stepResults'')
        in Inr (JObj
          ([(''schemaVersion'', JNum (Fin 1)), (''observedAt'', eventObservedAt),
            (''eventType'', JStr ''execution_funding_outcome''),
            (''status'', orelse (dot execution ''settlementStatus'') (JStr ''executed'')),
            (''jobId'', jobId),
            (''attemptId'', attempt_id [(''type'', JStr ''funding_outcome''), (''jobId'', jobId),
               (''observedAt'', eventObservedAt), (''txHashes'', JArr (outcome_tx_hashes stepResults))]),
            (''actor'', actor), (''mode'', mode),
            (''chain'', first_truthy [dot job ''chain'', dot plan ''chain'', JNull]),
            (''type'', orelse (dot job ''type'') (JStr ''funding_execution'')),
            (''asset'', first_truthy [dot job ''asset'', dots plan [''outputAsset'', ''ticker''],
               dots plan [''inputAsset'', ''ticker''], JNull]),
            (''token'', first_truthy [dot job ''token'', dot plan ''outputToken'', dot plan ''inputToken'', JNull]),
            (''executionMethod'', orelse (dot job ''executionMethod'') (JStr ''live_funding_execution'')),
            (''strategyId'', or_null (dot plan ''strategyId'')),
            (''resourceKey'', or_null (dot job ''resourceKey'')),
            (''routeKey'', first_truthy [routeKey, dots job [''systemEconomics'', ''routeKey''], JNull]),
            (''settlementStatus'', or_null (dot execution ''settlementStatus'')),
            (''stepIds'', JArr (List.map (\<lambda>step. dot step ''id'') stepResults)),
            (''txHashes'', JArr (List.filter truthy (outcome_tx_hashes stepResults))),
            (''quoteOutputAmount'', or_null (dots plan [''quote'', ''outputAmount''])),
            (''minimumOutputAmount'', or_null (dot plan ''minimumOutputAmount'')),
            (''destinationObservedDelta'', or_null (dots execution [''destinationProof'', ''observedDelta'']))]
           @ List.map (\<lambda>k. (k, compactBalanceSnapshot (dot execution k)))
               [''sourceBalanceBefore'', ''sourceBalanceAfter'', ''destinationBalanceBefore'', ''destinationBalanceAfter'']
           @ or_nulls execution [''destinationProof'', ''receiptIngest'', ''error''])))"

section \<open>What the newest event decides\<close>

text \<open>\<open>e\<close> is recorded after every event of its job, at a time that can be read.\<close>

definition newest_of_job :: "jsv list \<Rightarrow> jsv \<Rightarrow> bool" where
  "newest_of_job events e \<longleftrightarrow>
     is_fin (date_of (dot e ''observedAt''))
     \<and> list_all (\<lambda>o'. is_fin (date_of (dot o' ''observedAt''))
          \<and> jlt (date_of (dot o' ''observedAt'')) (date_of (dot e ''observedAt'')))
        (job_events events (dot e ''jobId''))"

lemma newest_observed_sign:
  assumes "is_fin (date_of (dot a ''observedAt''))" "is_fin (date_of (dot b ''observedAt''))"
    "jlt (date_of (dot b ''observedAt'')) (date_of (dot a ''observedAt''))"
  shows "jlt (newest_observed a b) (Fin 0) \<and> \<not> jlt (newest_observed b a) (Fin 0)"
proof -
  obtain x y where xy: "date_of (dot a ''observedAt'') = Fin x" "date_of (dot b ''observedAt'') = Fin y"
    using assms(1,2) by (auto elim!: is_finE)
  have "is_double (Fin x)" "is_double (Fin y)"
    using is_double_date_of [of "dot a ''observedAt''"] is_double_date_of [of "dot b ''observedAt''"] by (simp_all add: xy)
  with assms(3) jsub_sign [of y x] jsub_sign [of x y] show ?thesis by (simp add: newest_observed_def xy)
qed

lemma newest_observed_refl: "\<not> jlt (newest_observed x x) (Fin 0)"
  by (cases "date_of (dot x ''observedAt'')") (simp_all add: newest_observed_def jsub_def)

lemma latest_is_newest:
  assumes "newest_of_job events e" "dot e ''jobId'' = JStr jobId"
  shows "latestExecutionEvent (events @ [e]) (JStr jobId) = Some e"
proof -
  let ?js = "job_events (events @ [e]) (JStr jobId)"
  have js: "?js = job_events events (JStr jobId) @ [e]" by (simp add: job_events_def assms(2))
  have "jlt (newest_observed e y) (Fin 0) \<and> \<not> jlt (newest_observed y e) (Fin 0)" if "y \<in> set ?js" "y \<noteq> e" for y
    using that assms newest_observed_sign [of e y] by (auto simp: js newest_of_job_def list_all_iff)
  with sort_by_hd [of e ?js newest_observed] newest_observed_refl
  have "sort_by newest_observed ?js \<noteq> [] \<and> hd (sort_by newest_observed ?js) = e" by (simp add: js)
  then show ?thesis by (cases "sort_by newest_observed ?js") (auto simp: latestExecutionEvent_def)
qed

lemma canStart_newest:
  assumes "newest_of_job events e" "dot e ''jobId'' = JStr jobId"
  shows "sa_ok (canStartExecution (events @ [e]) (JStr jobId) force)
    \<longleftrightarrow> force \<or> \<not> one_of started_statuses (dot e ''status'')"
  by (simp add: canStartExecution_def latest_is_newest [OF assms])

lemma event_fields:
  "dot (buildExecutionAttemptEvent job actor mode guards riskDecision t) ''jobId'' = dot job ''jobId''"
  "dot (buildExecutionAttemptEvent job actor mode guards riskDecision t) ''status''
    = JStr (if strict_eq mode (JStr ''dry_run'') then ''dry_run_planned'' else ''planned'')"
  "dot (buildExecutionSubmissionEvent job txHash actor t) ''jobId'' = dot job ''jobId''"
  "dot (buildExecutionSubmissionEvent job txHash actor t) ''status'' = JStr ''submitted''"
  "dot (buildExecutionReconciliationEvent job txHash receipt actor t) ''jobId'' = dot job ''jobId''"
  "dot (buildExecutionReconciliationEvent job txHash receipt actor t) ''status'' = JStr (reconciled_status receipt)"
  by (simp_all add: buildExecutionAttemptEvent_def buildExecutionSubmissionEvent_def buildExecutionReconciliationEvent_def)

lemma settled_status:
  "dot receipt ''reconciliationStatus'' \<in> {JStr ''failed'', JStr ''reconciled''}
    \<Longrightarrow> reconciled_status receipt \<in> {''failed'', ''confirmed''}"
  by (auto simp: reconciled_status_def)

text \<open>C29: once an attempt, a submission or a reconciliation that settled is the newest event of a job, the
  job cannot be started again unless the start is forced, whatever the journal held before.\<close>

theorem journal_blocks_restart:
  assumes "e = buildExecutionAttemptEvent job actor mode guards riskDecision at'
      \<or> e = buildExecutionSubmissionEvent job txHash actor at'
      \<or> e = buildExecutionReconciliationEvent job txHash receipt actor at'
        \<and> dot receipt ''reconciliationStatus'' \<in> {JStr ''failed'', JStr ''reconciled''}"
    "dot job ''jobId'' = JStr jobId" "newest_of_job events e"
  shows "sa_ok (canStartExecution (events @ [e]) (JStr jobId) force) \<longleftrightarrow> force"
proof -
  have settled: "one_of started_statuses (JStr (reconciled_status receipt))"
    if "dot receipt ''reconciliationStatus'' \<in> {JStr ''failed'', JStr ''reconciled''}"
    using settled_status [OF that] by (elim insertE emptyE) (simp_all add: one_of_def started_statuses_def)
  have "dot e ''jobId'' = JStr jobId \<and> one_of started_statuses (dot e ''status'')"
    using assms(1)
  proof (elim disjE conjE)
    assume "e = buildExecutionAttemptEvent job actor mode guards riskDecision at'"
    then show ?thesis by (simp add: event_fields assms(2) one_of_def started_statuses_def)
  next
    assume "e = buildExecutionSubmissionEvent job txHash actor at'"
    then show ?thesis by (simp add: event_fields assms(2) one_of_def started_statuses_def)
  next
    assume "e = buildExecutionReconciliationEvent job txHash receipt actor at'"
      "dot receipt ''reconciliationStatus'' \<in> {JStr ''failed'', JStr ''reconciled''}"
    then show ?thesis using settled by (simp add: event_fields assms(2))
  qed
  then show ?thesis using canStart_newest [OF assms(3)] by simp
qed

lemma outcome_fields:
  assumes "buildExecutionFundingOutcomeEvent plan execution actor t job mode routeKey = Inr e"
  shows "dot e ''jobId'' = deriveFundingSnapshotJobId plan (or_null (dot job ''jobId''))"
    "dot e ''status'' = orelse (dot execution ''settlementStatus'') (JStr ''executed'')"
    "dot e ''observedAt'' = orelse t (dot execution ''observedAt'')"
proof -
  have ok: "truthy plan \<and> truthy execution"
    by (rule ccontr) (use assms in \<open>simp add: buildExecutionFundingOutcomeEvent_def\<close>)
  have e: "Inr e = buildExecutionFundingOutcomeEvent plan execution actor t job mode routeKey" using assms by simp
  have proj: "x = projr (Inr x :: jsv throws)" for x by simp
  show "dot e ''jobId'' = deriveFundingSnapshotJobId plan (or_null (dot job ''jobId''))"
    "dot e ''status'' = orelse (dot execution ''settlementStatus'') (JStr ''executed'')"
    "dot e ''observedAt'' = orelse t (dot execution ''observedAt'')"
    using ok by (subst proj, subst e, simp add: buildExecutionFundingOutcomeEvent_def Let_def)+
qed

text \<open>C36: after the outcome of a live funding run the job can be started again exactly when the settlement
  status is none of the five the check knows: a run that was delivered does not keep its job closed.\<close>

theorem outcome_decides_restart:
  assumes "buildExecutionFundingOutcomeEvent plan execution actor at' job mode routeKey = Inr e"
    "dot job ''jobId'' = JStr (c # jobId)" "newest_of_job events e"
  shows "sa_ok (canStartExecution (events @ [e]) (JStr (c # jobId)) False)
    \<longleftrightarrow> \<not> one_of started_statuses (orelse (dot execution ''settlementStatus'') (JStr ''executed''))"
proof -
  have "dot e ''jobId'' = JStr (c # jobId)"
    "dot e ''status'' = orelse (dot execution ''settlementStatus'') (JStr ''executed'')"
    using outcome_fields [OF assms(1)] assms(2) by (simp_all add: deriveFundingSnapshotJobId_def or_null_def)
  then show ?thesis using canStart_newest [OF assms(3)] by simp
qed

lemma delivered_restarts: "\<not> one_of started_statuses (JStr ''delivered'')" "\<not> one_of started_statuses (JStr ''pending_output'')"
  "\<not> one_of started_statuses (JStr ''source_confirmed_only'')"
  by (simp_all add: one_of_def started_statuses_def)

section \<open>Instances\<close>

definition sample_run_job :: jsv where
  "sample_run_job = JObj [(''jobId'', JStr ''j1''), (''chain'', JStr ''base'')]"

lemma sample_date: "is_fin (date_of (JStr ''2026-01-01''))"
  by code_simp

theorem journal_blocks_restart_witness:
  "\<not> sa_ok (canStartExecution ([] @ [buildExecutionSubmissionEvent sample_run_job (JStr ''0x1'') JNull (JStr ''2026-01-01'')])
     (JStr ''j1'') False)"
proof -
  let ?e = "buildExecutionSubmissionEvent sample_run_job (JStr ''0x1'') JNull (JStr ''2026-01-01'')"
  have n: "newest_of_job [] ?e" using sample_date
    by (simp add: newest_of_job_def job_events_def buildExecutionSubmissionEvent_def)
  have "sa_ok (canStartExecution ([] @ [?e]) (JStr ''j1'') False) \<longleftrightarrow> False"
    by (rule journal_blocks_restart [OF _ _ n]) (auto simp: sample_run_job_def)
  then show ?thesis by simp
qed

theorem outcome_decides_restart_witness:
  "\<exists>e. buildExecutionFundingOutcomeEvent (JObj [(''amount'', JStr ''1'')])
      (JObj [(''settlementStatus'', JStr ''delivered'')]) JNull (JStr ''2026-01-01'') sample_run_job JNull JNull = Inr e
    \<and> sa_ok (canStartExecution ([] @ [e]) (JStr ''j1'') False)"
proof -
  obtain e where e: "buildExecutionFundingOutcomeEvent (JObj [(''amount'', JStr ''1'')])
      (JObj [(''settlementStatus'', JStr ''delivered'')]) JNull (JStr ''2026-01-01'') sample_run_job JNull JNull = Inr e"
    by (simp add: buildExecutionFundingOutcomeEvent_def Let_def)
  then have "dot e ''observedAt'' = JStr ''2026-01-01''"
    using outcome_fields(3) by fastforce
  with sample_date have n: "newest_of_job [] e" by (simp add: newest_of_job_def job_events_def)
  have "dot sample_run_job ''jobId'' = JStr (CHR ''j'' # ''1'')" by (simp add: sample_run_job_def)
  from outcome_decides_restart [OF e this n] e show ?thesis
    by (auto simp: one_of_def started_statuses_def)
qed

end
