(* ===== verification/JsonlStore.thy ===== *)
theory JsonlStore
  imports JsText ExecutionGate
begin

text \<open>
  src/src/lib/jsonl-store.mjs, jsonl-read.mjs and json-safe.mjs: the JSON-lines files most of the
  program keeps its state in, and src/src/risk/canary-guard.mjs, which keeps its session in one.
  A file is what reading it finds (\<open>file_read\<close>), its contents a text of code units below 256,
  stored as UTF-8.

  \<open>latest_record_is_last\<close>: reading a file backwards in chunks of any positive size returns, and
  finds the record a full read finds last, where no chunk splits a character; \<open>split_character_garbled\<close>:
  where one does, it need not. \<open>canary_allowed_iff\<close>: when the canary check lets a trade pass.
\<close>

section \<open>Writing\<close>

text \<open>SafeJsonStringify differs from JSON.stringify on big integers only, which no value here is.\<close>

definition safeJsonStringify :: "jsv \<Rightarrow> string option" where
  "safeJsonStringify value = json_stringify value"

definition store_line :: "jsv \<Rightarrow> string" where
  "store_line record = (case safeJsonStringify record of Some t \<Rightarrow> t | None \<Rightarrow> ''undefined'') @ [newline]"

fun store_append :: "file_read \<Rightarrow> jsv \<Rightarrow> file_read" where
  "store_append NoEntry record = Contents (store_line record)"
| "store_append (Contents s) record = Contents (s @ store_line record)"
| "store_append (ReadFails e) record = ReadFails e"

section \<open>Reading\<close>

definition carriage_return :: char where
  "carriage_return = CHR 0x0D"

text \<open>
  The lines readline yields end at a line feed, a carriage return or both; empty lines are
  skipped, so the two characters may be taken alike.
\<close>

definition readline_lines :: "string \<Rightarrow> string list" where
  "readline_lines s = split_on newline (List.map (\<lambda>c. if c = carriage_return then newline else c) s)"

definition readJsonl :: "file_read \<Rightarrow> jsv list throws" where
  "readJsonl f =
     (case f of
        NoEntry \<Rightarrow> Inr []
      | ReadFails e \<Rightarrow> Inl e
      | Contents raw \<Rightarrow> map_throws json_parse (List.filter (\<lambda>l. l \<noteq> []) (readline_lines raw)))"

text \<open>\<open>split(/\r?\n/u)\<close>\<close>

definition strip_cr :: "string \<Rightarrow> string" where
  "strip_cr l = (if l \<noteq> [] \<and> List.last l = carriage_return then butlast l else l)"

definition text_lines :: "string \<Rightarrow> string list" where
  "text_lines s = (let ls = split_on newline s in List.map strip_cr (butlast ls) @ [List.last ls])"

text \<open>
  \<open>Buffer.toString("utf8")\<close> on a piece of the UTF-8 of a text: each byte cut off from its
  character becomes U+FFFD. The model's strings cannot hold that code unit; 0xFF stands for it,
  which the parser treats alike: allowed inside a string, refused elsewhere.
\<close>

definition REPLACEMENT :: char where
  "REPLACEMENT = CHR 0xFF"

fun utf8_decode :: "int list \<Rightarrow> string" where
  "utf8_decode [] = []"
| "utf8_decode [b] = [if b < 128 then char_of b else REPLACEMENT]"
| "utf8_decode (b # c # bytes) =
     (if b < 128 then char_of b # utf8_decode (c # bytes)
      else if 192 \<le> b \<and> 128 \<le> c \<and> c < 192 then char_of ((b - 192) * 64 + (c - 128)) # utf8_decode bytes
      else REPLACEMENT # utf8_decode (c # bytes))"

text \<open>
  The backward scan over the bytes of the file. \<open>position\<close> counts the bytes not read yet, and
  \<open>text\<close> is what was decoded of the rest, chunk by chunk; the first line of a part that does not
  start the file may be cut and is never taken.
\<close>

partial_function (option) latest_scan :: "nat \<Rightarrow> int list \<Rightarrow> nat \<Rightarrow> string \<Rightarrow> jsv throws option" where
  "latest_scan chunkSize bytes position text =
     (if position = 0 then Some (Inr JNull)
      else
        let readSize = min chunkSize position;
            position' = position - readSize;
            text' = utf8_decode (take readSize (drop position' bytes)) @ text;
            lines = List.filter (\<lambda>l. l \<noteq> []) (text_lines text');
            candidates = (if 0 < position' then tl lines else lines)
        in if candidates = [] then latest_scan chunkSize bytes position' text'
           else Some (json_parse (List.last candidates)))"

declare latest_scan.simps [code]

definition readLatestJsonlRecord :: "nat \<Rightarrow> file_read \<Rightarrow> jsv throws option" where
  "readLatestJsonlRecord chunkSize f =
     (case f of
        NoEntry \<Rightarrow> Some (Inr JNull)
      | ReadFails e \<Rightarrow> Some (Inl e)
      | Contents raw \<Rightarrow> latest_scan chunkSize (utf8 raw) (length (utf8 raw)) [])"

text \<open>\<open>latestBy\<close>: the newest item of each key; an equal or unreadable date does not replace one.\<close>

definition latest_step :: "('a \<Rightarrow> string) \<Rightarrow> ('a \<Rightarrow> jsv) \<Rightarrow> (string \<times> 'a) list \<Rightarrow> 'a \<Rightarrow> (string \<times> 'a) list" where
  "latest_step keyFn dateFn m item =
     (case map_of m (keyFn item) of
        None \<Rightarrow> AList.update (keyFn item) item m
      | Some old \<Rightarrow> if jlt (date_of (dateFn old)) (date_of (dateFn item))
                    then AList.update (keyFn item) item m else m)"

definition latestBy :: "('a \<Rightarrow> string) \<Rightarrow> ('a \<Rightarrow> jsv) \<Rightarrow> 'a list \<Rightarrow> (string \<times> 'a) list" where
  "latestBy keyFn dateFn items = foldl (latest_step keyFn dateFn) [] items"

section \<open>The backward scan finds the last record\<close>

definition full_lines :: "string \<Rightarrow> string list" where
  "full_lines s = List.filter (\<lambda>l. l \<noteq> []) (split_on newline s)"

lemma text_lines_plain:
  assumes "carriage_return \<notin> set s"
  shows "text_lines s = split_on newline s"
proof -
  have "strip_cr l = l" if "l \<in> set (split_on newline s)" for l
    using split_on_set [OF that] assms last_in_set [of l] by (metis strip_cr_def subsetD)
  then have "List.map strip_cr (butlast (split_on newline s)) = butlast (split_on newline s)"
    by (intro map_idI) (auto dest: in_set_butlastD)
  then show ?thesis using split_on_nonempty [of newline s] by (simp add: text_lines_def Let_def)
qed

text \<open>The last of two lines or more in a part of the file is the last line of the file.\<close>

lemma part_last_line:
  assumes "tl (full_lines (drop n raw)) \<noteq> []"
  shows "full_lines raw \<noteq> [] \<and> List.last (full_lines raw) = List.last (tl (full_lines (drop n raw)))"
proof -
  let ?b = "split_on newline (drop n raw)"
  let ?t = "List.filter (\<lambda>l. l \<noteq> []) (tl ?b)"
  have b: "?b = hd ?b # tl ?b" using split_on_nonempty [of newline "drop n raw"] by simp
  have f: "full_lines (drop n raw) = (if hd ?b \<noteq> [] then [hd ?b] else []) @ ?t"
    unfolding full_lines_def by (subst b) simp
  then have t: "?t \<noteq> []" "List.last (tl (full_lines (drop n raw))) = List.last ?t"
    using assms by (auto split: if_splits simp: last_tl)
  have "full_lines raw = full_lines (take n raw @ drop n raw)" by simp
  also have "\<dots> = List.filter (\<lambda>l. l \<noteq> []) (butlast (split_on newline (take n raw))
      @ [List.last (split_on newline (take n raw)) @ hd ?b]) @ ?t"
    unfolding full_lines_def split_on_app by simp
  finally show ?thesis using t by simp
qed

definition last_parsed :: "string list \<Rightarrow> jsv throws" where
  "last_parsed ls = (if ls = [] then Inr JNull else json_parse (List.last ls))"

text \<open>Texts of one-byte characters: every piece of the bytes is decoded to the same piece of the text.\<close>

definition ascii :: "char \<Rightarrow> bool" where
  "ascii c \<longleftrightarrow> of_char c < (128 :: int)"

lemma of_char_range: "0 \<le> (of_char c :: int)" "(of_char c :: int) < 256"
  using pos_mod_sign [of "256 :: int" "of_char c"] pos_mod_bound [of "256 :: int" "of_char c"]
  by (simp_all add: of_char_mod_256)

lemma utf8_Cons: "utf8 (c # s) = (let n = of_char c :: int in if n < 128 then [n] else [192 + n div 64, 128 + n mod 64]) @ utf8 s"
  by (simp add: utf8_def)

lemma utf8_ascii: "list_all ascii s \<Longrightarrow> utf8 s = List.map of_char s"
  by (induction s) (simp_all add: utf8_Cons ascii_def Let_def, simp add: utf8_def)

lemma decode_ascii: "list_all (\<lambda>b. b < 128) bs \<Longrightarrow> utf8_decode bs = List.map char_of bs"
  by (induction bs rule: utf8_decode.induct) auto

lemma decode_low: "b < 128 \<Longrightarrow> utf8_decode (b # bs) = char_of b # utf8_decode bs"
  by (cases bs) auto

lemma decode_utf8: "utf8_decode (utf8 s) = s"
proof (induction s)
  case (Cons c s)
  let ?n = "of_char c :: int"
  show ?case
  proof (cases "?n < 128")
    case True
    then show ?thesis using Cons.IH by (simp add: utf8_Cons decode_low)
  next
    case False
    have "0 \<le> ?n div 64" using of_char_range(1) [of c] by simp
    moreover have "?n div 64 * 64 + ?n mod 64 = ?n" by simp
    moreover have "0 \<le> ?n mod 64" "?n mod 64 < 64" by simp_all
    ultimately show ?thesis using Cons.IH False by (simp add: utf8_Cons Let_def del: div_pos_pos_trivial) (simp add: pos_imp_zdiv_nonneg_iff of_char_range)
  qed
qed (simp add: utf8_def)

lemma scan_last:
  assumes "0 < chunkSize" "carriage_return \<notin> set raw" "list_all ascii raw"
  shows "0 < position \<Longrightarrow> position \<le> length raw \<Longrightarrow>
    latest_scan chunkSize (utf8 raw) position (drop position raw) = Some (last_parsed (full_lines raw))"
proof (induction position rule: less_induct)
  case (less position)
  define p where "p = position - min chunkSize position"
  have p: "p < position" using assms(1) less.prems by (simp add: p_def)
  have "min chunkSize position = position - p" by (simp add: p_def)
  then have "take (min chunkSize position) (drop p (utf8 raw)) = List.map of_char (take (position - p) (drop p raw))"
    by (simp add: utf8_ascii [OF assms(3)] take_map drop_map)
  moreover have "list_all ascii (take (position - p) (drop p raw))"
    using assms(3) by (auto simp: list_all_iff dest!: in_set_takeD in_set_dropD)
  then have "utf8_decode (List.map of_char (take (position - p) (drop p raw))) = take (position - p) (drop p raw)"
    by (subst decode_ascii) (auto simp: list_all_iff ascii_def o_def)
  moreover have "take (position - p) (drop p raw) @ drop position raw = drop p raw"
    using p append_take_drop_id [of "position - p" "drop p raw"] by simp
  ultimately have joined: "utf8_decode (take (min chunkSize position) (drop p (utf8 raw))) @ drop position raw = drop p raw"
    by simp
  have "carriage_return \<notin> set (drop p raw)" using assms(2) by (meson in_set_dropD)
  then have lines: "List.filter (\<lambda>l. l \<noteq> []) (text_lines (drop p raw)) = full_lines (drop p raw)"
    by (simp add: text_lines_plain full_lines_def)
  have step: "latest_scan chunkSize (utf8 raw) position (drop position raw) =
      (let candidates = (if 0 < p then tl (full_lines (drop p raw)) else full_lines (drop p raw))
       in if candidates = [] then latest_scan chunkSize (utf8 raw) p (drop p raw)
          else Some (json_parse (List.last candidates)))"
    using less.prems
    unfolding latest_scan.simps [of chunkSize "utf8 raw" position] Let_def p_def [symmetric] joined lines by simp
  show ?case
  proof (cases "0 < p")
    case True
    show ?thesis
    proof (cases "tl (full_lines (drop p raw)) = []")
      case t: True
      with step True less.IH [OF p True] p less.prems(2) show ?thesis by (simp add: Let_def)
    next
      case False
      with part_last_line [OF this] step True show ?thesis by (simp add: Let_def last_parsed_def)
    qed
  next
    case False
    then have z: "p = 0" by simp
    have "latest_scan chunkSize (utf8 raw) 0 raw = Some (Inr JNull)" by (subst latest_scan.simps) simp
    with step z show ?thesis by (simp add: Let_def last_parsed_def)
  qed
qed

text \<open>A file that fits in one chunk is decoded at once.\<close>

lemma scan_whole:
  assumes "length (utf8 raw) \<le> chunkSize" "raw \<noteq> []" "carriage_return \<notin> set raw"
  shows "latest_scan chunkSize (utf8 raw) (length (utf8 raw)) [] = Some (last_parsed (full_lines raw))"
proof -
  have ne: "length (utf8 raw) \<noteq> 0" using assms(2) by (cases raw) (simp_all add: utf8_Cons Let_def)
  have lines: "List.filter (\<lambda>l. l \<noteq> []) (text_lines raw) = full_lines raw"
    using assms(3) by (simp add: text_lines_plain full_lines_def)
  have z: "latest_scan chunkSize (utf8 raw) 0 raw = Some (Inr JNull)" by (subst latest_scan.simps) simp
  have m: "min chunkSize (length (utf8 raw)) = length (utf8 raw)" using assms(1) by simp
  show ?thesis
    unfolding latest_scan.simps [of chunkSize "utf8 raw" "length (utf8 raw)"] Let_def m
    using ne z by (simp add: decode_utf8 lines last_parsed_def)
qed

lemma map_throws_last:
  "map_throws f xs = Inr ys \<Longrightarrow> xs \<noteq> [] \<Longrightarrow> ys \<noteq> [] \<and> f (List.last xs) = Inr (List.last ys)"
proof (induction xs arbitrary: ys)
  case (Cons x xs)
  then show ?case by (cases "xs = []") (auto simp: and_then_Inr)
qed simp

lemma readline_plain: "carriage_return \<notin> set raw \<Longrightarrow> readline_lines raw = split_on newline raw"
proof -
  assume "carriage_return \<notin> set raw"
  then have "List.map (\<lambda>c. if c = carriage_return then newline else c) raw = raw" by (intro map_idI) auto
  then show ?thesis by (simp add: readline_lines_def)
qed

text \<open>C27: Reading a file without carriage returns backwards, in chunks of any positive size, ends, and
  its answer is the last record a full read gives, null where there is none, provided no chunk can
  split a character: the text is ASCII, or its bytes fit in one chunk. The chunks are decoded one by
  one, so a character split between two of them is lost.
\<close>

theorem latest_record_is_last:
  assumes "readJsonl f = Inr records" "0 < chunkSize" "\<forall>raw. f = Contents raw \<longrightarrow> carriage_return \<notin> set raw"
    "\<forall>raw. f = Contents raw \<longrightarrow> list_all ascii raw \<or> length (utf8 raw) \<le> chunkSize"
  shows "readLatestJsonlRecord chunkSize f = Some (Inr (if records = [] then JNull else List.last records))"
proof (cases f)
  case (Contents raw)
  with assms(3,4) have cr: "carriage_return \<notin> set raw" and plain: "list_all ascii raw \<or> length (utf8 raw) \<le> chunkSize"
    by simp_all
  have m: "map_throws json_parse (full_lines raw) = Inr records"
    using assms(1) Contents by (simp add: readJsonl_def readline_plain [OF cr] full_lines_def)
  have "latest_scan chunkSize (utf8 raw) (length (utf8 raw)) [] = Some (last_parsed (full_lines raw))"
  proof (cases "raw = []")
    case True
    then show ?thesis by (subst latest_scan.simps) (simp add: last_parsed_def full_lines_def utf8_def)
  next
    case False
    show ?thesis
    proof (cases "list_all ascii raw")
      case True
      then have "length (utf8 raw) = length raw" by (simp add: utf8_ascii)
      then show ?thesis using scan_last [OF assms(2) cr True, of "length raw"] False by simp
    next
      case nonascii: False
      then show ?thesis using scan_whole [OF _ False cr] plain by blast
    qed
  qed
  moreover have "last_parsed (full_lines raw) = Inr (if records = [] then JNull else List.last records)"
    using m map_throws_last [OF m] by (cases "full_lines raw = []") (auto simp: last_parsed_def)
  ultimately show ?thesis by (simp add: readLatestJsonlRecord_def Contents)
qed (use assms(1) in \<open>auto simp: readJsonl_def readLatestJsonlRecord_def\<close>)

text \<open>One two-byte character in the last line, cut by a chunk of one byte: the answer is another record.\<close>

lemma split_character_garbled:
  defines "f \<equiv> Contents ([CHR 0x22, CHR 0xE9, CHR 0x22] @ [newline])"
  shows "readJsonl f = Inr [JStr [CHR 0xE9]]"
    "readLatestJsonlRecord 1 f = Some (Inr (JStr [REPLACEMENT, REPLACEMENT]))"
    "readLatestJsonlRecord 5 f = Some (Inr (JStr [CHR 0xE9]))"
  unfolding f_def by code_simp+

text \<open>The entry of a key is a newest item of the key, where the dates can be read.\<close>

lemma latestBy_newest:
  assumes "\<forall>i\<in>set items. is_fin (date_of (dateFn i))" "map_of (latestBy keyFn dateFn items) k = Some e"
  shows "e \<in> set items \<and> keyFn e = k
    \<and> (\<forall>i\<in>set items. keyFn i = k \<longrightarrow> jle (date_of (dateFn i)) (date_of (dateFn e)))"
  using assms
proof (induction items arbitrary: e rule: rev_induct)
  case (snoc x xs)
  let ?m = "latestBy keyFn dateFn xs"
  have m: "latestBy keyFn dateFn (xs @ [x]) = latest_step keyFn dateFn ?m x" by (simp add: latestBy_def)
  have fin: "\<And>i. i \<in> set (xs @ [x]) \<Longrightarrow> is_fin (date_of (dateFn i))" using snoc.prems(1) by auto
  have missing: "map_of ?m k' = None \<Longrightarrow> i \<in> set xs \<Longrightarrow> keyFn i \<noteq> k'" for k' i
  proof (induction xs arbitrary: i rule: rev_induct)
    case (snoc y ys)
    then show ?case
      by (auto simp: latestBy_def latest_step_def AList.update_conv' split: option.splits if_splits)
  qed simp
  show ?case
  proof (cases "keyFn x = k")
    case False
    then have "map_of ?m k = Some e"
      using snoc.prems(2) by (auto simp: m latest_step_def AList.update_conv' split: option.splits if_splits)
    with snoc.IH False fin show ?thesis by auto
  next
    case True
    show ?thesis
    proof (cases "map_of ?m k")
      case None
      then have "e = x" using True snoc.prems(2) by (simp add: m latest_step_def AList.update_conv')
      with missing [OF None] True fin [of x] show ?thesis by (auto elim!: is_finE)
    next
      case (Some old)
      note old = snoc.IH [OF _ Some]
      obtain a b where ab: "date_of (dateFn old) = Fin a" "date_of (dateFn x) = Fin b"
        using fin old by (metis Un_iff insertI1 is_finE list.simps(15) set_append snoc.prems(1))
      have "e = (if a < b then x else old)"
        using True Some snoc.prems(2) by (auto simp: m latest_step_def AList.update_conv' ab split: if_splits)
      moreover have "jle (date_of (dateFn i)) (date_of (dateFn (if a < b then x else old)))"
        if "i \<in> set xs" "keyFn i = k" for i
      proof -
        have "is_fin (date_of (dateFn i))" using fin that(1) by simp
        then obtain c where c: "date_of (dateFn i) = Fin c" by (rule is_finE)
        have "jle (date_of (dateFn i)) (date_of (dateFn old))" using old fin that by simp
        then show ?thesis by (simp add: ab c)
      qed
      ultimately show ?thesis using old fin True by (auto simp: ab)
    qed
  qed
qed (simp add: latestBy_def)

section \<open>The canary guard\<close>

text \<open>
  \<open>r.timestamp?.startsWith(today)\<close>: reading a field of null throws, and so does calling
  startsWith on a timestamp that is there and is no string.
\<close>

definition starts_today :: "string \<Rightarrow> jsv \<Rightarrow> bool throws" where
  "starts_today today r =
     (if nullish r then Inl TypeError
      else case dot r ''timestamp'' of
          JStr t \<Rightarrow> Inr (is_prefix today t)
        | t \<Rightarrow> if nullish t then Inr False else Inl TypeError)"

fun filterToday :: "string \<Rightarrow> jsv list \<Rightarrow> jsv list throws" where
  "filterToday today [] = Inr []"
| "filterToday today (r # records) =
     and_then (starts_today today r) (\<lambda>keep.
     and_then (filterToday today records) (\<lambda>rest. Inr (if keep then r # rest else rest)))"

fun leading_outcome_fails :: "jsv list \<Rightarrow> nat" where
  "leading_outcome_fails [] = 0"
| "leading_outcome_fails (r # rs) =
     (if strict_eq (dot r ''outcome'') (JStr ''fail'') then Suc (leading_outcome_fails rs) else 0)"

definition countConsecutiveFailures :: "jsv list \<Rightarrow> nat" where
  "countConsecutiveFailures records =
     leading_outcome_fails (sort_by (\<lambda>a b. jsub (date_of (dot b ''timestamp'')) (date_of (dot a ''timestamp''))) records)"

definition readEmergencyStop :: "file_read \<Rightarrow> bool throws" where
  "readEmergencyStop f =
     (case f of
        NoEntry \<Rightarrow> Inr False
      | ReadFails e \<Rightarrow> Inl e
      | Contents raw \<Rightarrow> and_then (json_parse raw) (\<lambda>d.
          if nullish d then Inl TypeError else Inr (strict_eq (dot d ''stopped'') (JBool True))))"

text \<open>\<open>a + b\<close>: concatenation where one of the two is a string, else the sum\<close>

definition js_plus :: "jsv \<Rightarrow> jsv \<Rightarrow> jsv" where
  "js_plus a b =
     (let x = to_prim a; y = to_prim b
      in if is_string x \<or> is_string y then JStr (to_str x @ to_str y) else JNum (jadd (to_num x) (to_num y)))"

definition dailyPnl :: "jsv list \<Rightarrow> jsv" where
  "dailyPnl todayRecords =
     foldl (\<lambda>total r. js_plus total (coal (dot r ''profit'') (JNum (Fin 0)))) (JNum (Fin 0)) todayRecords"

record canary_answer =
  ca_allowed :: bool
  ca_reason :: string
  ca_dailyPnl :: jsv
  ca_consecFails :: nat

definition canary_of :: "bool \<Rightarrow> string \<Rightarrow> jsv \<Rightarrow> nat \<Rightarrow> canary_answer" where
  "canary_of allowed reason pnl fails =
     \<lparr>ca_allowed = allowed, ca_reason = reason, ca_dailyPnl = pnl, ca_consecFails = fails\<rparr>"

text \<open>\<open>today\<close> is the date part of the clock, as an ISO string.\<close>

definition canaryCheck ::
    "file_read \<Rightarrow> file_read \<Rightarrow> string \<Rightarrow> jsnum \<Rightarrow> bool \<Rightarrow> canary_answer throws" where
  "canaryCheck stopFile session today tradeProfit dryRun =
     and_then (readEmergencyStop stopFile) (\<lambda>stopped.
       if stopped then Inr (canary_of False ''emergency_stop_active'' (JNum (Fin 0)) 0)
       else and_then (readJsonl session) (\<lambda>records.
         and_then (filterToday today records) (\<lambda>todayRecords.
         let pnl = dailyPnl todayRecords;
             consecFails = countConsecutiveFailures records;
             dailyLimit = dot buildDefaultRiskPolicy ''dailyLossCapUsd''
         in Inr
           (if vle (dot buildDefaultRiskPolicy ''maxConsecutiveFailures'') (jnat consecFails)
            then canary_of False ''max_consecutive_failures'' pnl consecFails
            else if is_finite dailyLimit \<and> vle pnl (JNum (jneg (to_num dailyLimit)))
            then canary_of False ''daily_loss_cap_reached'' pnl consecFails
            else if \<not> dryRun \<and> \<not> jeq tradeProfit (Fin 0)
                 \<and> vlt (JNum tradeProfit) (dot buildDefaultRiskPolicy ''minNetProfitUsd'')
            then canary_of False ''below_min_profit'' pnl consecFails
            else canary_of True ''ok'' pnl consecFails))))"

definition recordTradeResult :: "jsv \<Rightarrow> jsv \<Rightarrow> jsv \<Rightarrow> jsv \<Rightarrow> jsv \<Rightarrow> file_read \<Rightarrow> file_read" where
  "recordTradeResult profit route txHash dryRun now session =
     store_append session (JObj
       [(''timestamp'', now), (''route'', orelse route (JStr ''unknown'')),
        (''profit'', coal profit (JNum (Fin 0))),
        (''outcome'', JStr (if vle (JNum (Fin 0)) profit then ''success'' else ''fail'')),
        (''txHash'', default_to JNull txHash), (''dryRun'', default_to (JBool True) dryRun)])"

definition getCanaryStatus :: "file_read \<Rightarrow> file_read \<Rightarrow> string \<Rightarrow> jsv throws" where
  "getCanaryStatus stopFile session today =
     and_then (readEmergencyStop stopFile) (\<lambda>stopped.
     and_then (readJsonl session) (\<lambda>records.
     and_then (filterToday today records) (\<lambda>todayRecords. Inr (JObj
         [(''mode'', JStr ''canary''), (''dailyPnl'', dailyPnl todayRecords),
          (''dailyLimit'', dot buildDefaultRiskPolicy ''dailyLossCapUsd''),
          (''consecFails'', jnat (countConsecutiveFailures records)),
          (''tradesTotal'', jnat (length todayRecords)), (''stopped'', JBool stopped)]))))"

lemma leading_outcome_run:
  "leading_outcome_fails rs = length (takeWhile (\<lambda>r. strict_eq (dot r ''outcome'') (JStr ''fail'')) rs)"
  by (induction rs) auto

lemma countConsecutiveFailures_le: "countConsecutiveFailures rs \<le> length rs"
  using length_takeWhile_le [of "\<lambda>r. strict_eq (dot r ''outcome'') (JStr ''fail'')"]
  by (metis countConsecutiveFailures_def leading_outcome_run length_sort_by)

text \<open>C37: the canary check lets a trade pass exactly when no emergency stop is set, the latest results hold
  fewer than three failures in a row, and a live trade does not expect a loss.\<close>

theorem canary_allowed_iff:
  assumes "canaryCheck stopFile session today tradeProfit dryRun = Inr c" "tradeProfit \<noteq> NaN"
    "\<forall>rs. readJsonl session = Inr rs \<longrightarrow> length rs \<le> 2 ^ 53"
  shows "ca_allowed c \<longleftrightarrow>
    readEmergencyStop stopFile = Inr False
    \<and> (\<exists>rs. readJsonl session = Inr rs \<and> countConsecutiveFailures rs < 3)
    \<and> (dryRun \<or> jle (Fin 0) tradeProfit)"
proof -
  obtain stopped where st: "readEmergencyStop stopFile = Inr stopped"
    using assms(1) by (auto simp: canaryCheck_def and_then_Inr)
  show ?thesis
  proof (cases stopped)
    case True
    then show ?thesis using assms(1) by (auto simp: canaryCheck_def st canary_of_def)
  next
    case False
    then obtain rs ts where rs: "readJsonl session = Inr rs" "filterToday today rs = Inr ts"
      using assms(1) by (auto simp: canaryCheck_def st and_then_Inr)
    have "countConsecutiveFailures rs \<le> 2 ^ 53"
      using countConsecutiveFailures_le [of rs] assms(3) rs by (metis order_trans)
    note three = vle_three [OF this]
    have neg: "\<not> jeq tradeProfit (Fin 0) \<and> vlt (JNum tradeProfit) (JNum (Fin 0)) \<longleftrightarrow> \<not> jle (Fin 0) tradeProfit"
      using assms(2) by (cases tradeProfit) (auto simp: vlt_def to_prim_def jeq_def)
    show ?thesis
      using assms(1) neg
      by (auto simp: canaryCheck_def st False rs Let_def default_policy_obj three canary_of_def split: if_splits)
  qed
qed

section \<open>Instances\<close>

theorem latest_record_is_last_witness:
  "readLatestJsonlRecord 2 (Contents (''1'' @ [newline] @ ''23'' @ [newline])) = Some (Inr (JNum (Fin 23)))"
proof -
  have r: "readJsonl (Contents (''1'' @ [newline] @ ''23'' @ [newline])) = Inr [JNum (Fin 1), JNum (Fin 23)]"
    by code_simp
  have "carriage_return \<notin> set (''1'' @ [newline] @ ''23'' @ [newline])" by (simp add: newline_def carriage_return_def)
  moreover have "list_all ascii (''1'' @ [newline] @ ''23'' @ [newline])" by code_simp
  ultimately show ?thesis using latest_record_is_last [OF r, of 2] by simp
qed

theorem canary_allowed_iff_witness:
  "\<exists>c. canaryCheck NoEntry NoEntry ''2026-01-01'' (Fin (- 1)) False = Inr c \<and> \<not> ca_allowed c"
proof -
  have r: "readJsonl NoEntry = Inr []" "readEmergencyStop NoEntry = Inr False"
    by (simp_all add: readJsonl_def readEmergencyStop_def)
  then obtain c where c: "canaryCheck NoEntry NoEntry ''2026-01-01'' (Fin (- 1)) False = Inr c"
    by (simp add: canaryCheck_def Let_def)
  from canary_allowed_iff [OF this] r have "\<not> ca_allowed c" by simp
  with c show ?thesis by blast
qed

end
