(* ===== verification/DemotionGate.thy ===== *)
theory DemotionGate
  imports JsonlStore
begin

text \<open>
  The demotion gate, src/src/executor/policy/demotion-policy.mjs: whether recent signer-backed
  receipts keep a strategy from a higher stage. Receipts and thresholds are JSON values.

  \<open>demoted_iff\<close>: the four grounds of a demotion. \<open>no_receipts_not_demoted\<close>: the age of the last
  success is reported and never compared, so an empty window demotes nothing.
\<close>

section \<open>The demotion gate\<close>

definition DEMOTION_THRESHOLDS :: jsv where
  "DEMOTION_THRESHOLDS = JObj
     [(''defaultLookbackDays'', JNum (Fin 1)), (''maxConsecutiveFailures'', JNum (Fin 2)),
      (''minRecentRoundTripEfficiency'', JNum (lit 75 100)), (''maxHoursSinceLastSuccess'', JNum (Fin 24)),
      (''minRecentReceiptsToEvaluate'', JNum (Fin 2))]"

text \<open>\<open>Number(x.toFixed(f))\<close>: the nearest multiple of \<open>10^-f\<close>, a tie going away from zero.\<close>

fun num_to_fixed :: "nat \<Rightarrow> jsnum \<Rightarrow> jsnum" where
  "num_to_fixed f (Fin x) =
     (if 10 ^ 21 \<le> \<bar>x\<bar> then Fin x
      else rnd ((if x < 0 then - 1 else 1) * (of_int \<lfloor>\<bar>x\<bar> * 10 ^ f + 1 / 2\<rfloor> / 10 ^ f)))"
| "num_to_fixed f n = n"

definition withinDemotionLookback :: "jsv \<Rightarrow> jsnum \<Rightarrow> jsnum \<Rightarrow> bool" where
  "withinDemotionLookback receipt nowMs lookbackDays \<longleftrightarrow>
     is_finite (dot receipt ''tsMs'')
     \<and> jle (jsub nowMs (jmul (jmul (jmul (jmul lookbackDays (Fin 24)) (Fin 60)) (Fin 60)) (Fin 1000)))
         (to_num (dot receipt ''tsMs''))"

definition isSignerBacked :: "jsv \<Rightarrow> bool" where
  "isSignerBacked r \<longleftrightarrow> strict_eq (dot r ''source'') (JStr ''signer'') \<and> truthy (dot r ''txHash'')"

definition isSuccess :: "jsv \<Rightarrow> bool" where
  "isSuccess r \<longleftrightarrow> strict_eq (dot r ''outcome'') (JStr ''success'')"

definition isEmergencyUnwind :: "jsv \<Rightarrow> bool" where
  "isEmergencyUnwind r \<longleftrightarrow>
     strict_eq (dot r ''intentType'') (JStr ''emergency_unwind'')
     \<or> strict_eq (dot r ''strategyAction'') (JStr ''emergency_unwind'')"

definition oldest_receipts_first :: "jsv \<Rightarrow> jsv \<Rightarrow> jsnum" where
  "oldest_receipts_first a b = jsub (to_num (dot a ''tsMs'')) (to_num (dot b ''tsMs''))"

text \<open>The signer-backed receipts of the strategy in the window, oldest first.\<close>

definition recent_receipts :: "string \<Rightarrow> jsv list \<Rightarrow> jsnum \<Rightarrow> jsnum \<Rightarrow> jsv list" where
  "recent_receipts strategyId receipts nowMs lookbackDays =
     List.filter isSignerBacked (sort_by oldest_receipts_first
       (List.filter (\<lambda>r. withinDemotionLookback r nowMs lookbackDays)
       (List.filter (\<lambda>r. truthy r \<and> strict_eq (dot r ''strategyId'') (JStr strategyId)) receipts)))"

fun run_of_failures :: "jsv list \<Rightarrow> nat" where
  "run_of_failures [] = 0"
| "run_of_failures (r # rs) = (if \<not> isSuccess r then Suc (run_of_failures rs) else 0)"

definition burst_trigger :: "jsv \<Rightarrow> jsv list \<Rightarrow> jsv list" where
  "burst_trigger thresholds signerBacked =
     (let consecutiveFailures = jnat (run_of_failures (rev signerBacked))
      in if vle (dot thresholds ''minRecentReceiptsToEvaluate'') (jnat (length signerBacked))
            \<and> vle (dot thresholds ''maxConsecutiveFailures'') consecutiveFailures
         then [JObj [(''kind'', JStr ''recent_failure_burst''), (''have'', consecutiveFailures),
                (''max'', dot thresholds ''maxConsecutiveFailures'')]]
         else [])"

definition unwind_trigger :: "jsv list \<Rightarrow> jsv list" where
  "unwind_trigger signerBacked =
     (let n = length (List.filter (\<lambda>r. isEmergencyUnwind r \<and> \<not> isSuccess r) signerBacked)
      in if 0 < n then [JObj [(''kind'', JStr ''emergency_unwind_failure''), (''count'', jnat n)]] else [])"

definition stale_trigger :: "jsv \<Rightarrow> jsnum \<Rightarrow> jsv list \<Rightarrow> jsv list" where
  "stale_trigger thresholds nowMs signerBacked =
     (case signerBacked of
        [] \<Rightarrow> []
      | first # _ \<Rightarrow>
          if List.filter isSuccess signerBacked = []
          then [JObj [(''kind'', JStr ''stale_evidence_no_success_in_window''),
                 (''hoursSinceLastSuccess'', JNum (num_to_fixed 2
                    (jdiv (jsub nowMs (to_num (dot first ''tsMs''))) (Fin 3600000)))),
                 (''maxHours'', dot thresholds ''maxHoursSinceLastSuccess'')]]
          else [])"

definition sats_total :: "string \<Rightarrow> jsv list \<Rightarrow> jsnum" where
  "sats_total k successes =
     jsum (List.filter is_fin (List.map (\<lambda>r. to_num (orelse (dot r k) (JNum (Fin 0)))) successes))"

text \<open>The share of the gross profit left after the round-trip costs, none without a gross profit.\<close>

definition round_trip_efficiency :: "jsv list \<Rightarrow> jsnum option" where
  "round_trip_efficiency successes =
     (let totalCost = sats_total ''roundTripCostSats'' successes;
          totalProfit = sats_total ''realizedProfitSats'' successes;
          gross = jadd totalProfit totalCost
      in if jlt (Fin 0) gross then Some (jdiv (jsub gross totalCost) gross) else None)"

definition efficiency_trigger :: "jsv \<Rightarrow> jsv list \<Rightarrow> jsv list" where
  "efficiency_trigger thresholds signerBacked =
     (let successes = List.filter isSuccess signerBacked
      in if successes = [] then []
         else case round_trip_efficiency successes of
             None \<Rightarrow> []
           | Some efficiency \<Rightarrow>
               if vlt (JNum efficiency) (dot thresholds ''minRecentRoundTripEfficiency'')
               then [JObj [(''kind'', JStr ''round_trip_efficiency_below_threshold''),
                      (''have'', JNum (num_to_fixed 4 efficiency)),
                      (''min'', dot thresholds ''minRecentRoundTripEfficiency'')]]
               else [])"

record demotion_report =
  dm_strategyId :: string
  dm_demoted :: bool
  dm_triggers :: "jsv list"
  dm_evidence :: jsv

text \<open>A thrown TypeError carries the message of the argument it names.\<close>

definition evaluateDemotionPolicy :: "jsv \<Rightarrow> jsv \<Rightarrow> jsv \<Rightarrow> jsv \<Rightarrow> jsv \<Rightarrow> demotion_report throws" where
  "evaluateDemotionPolicy strategyId receipts nowMs thresholds lookbackDays =
     (case strategyId of
        JStr (c # s) \<Rightarrow>
          if \<not> is_arr receipts \<or> \<not> is_finite nowMs then Inl TypeError
          else
            let signerBacked = recent_receipts (c # s) (elems receipts) (to_num nowMs) (to_num lookbackDays);
                triggers = burst_trigger thresholds signerBacked @ unwind_trigger signerBacked
                  @ stale_trigger thresholds (to_num nowMs) signerBacked
                  @ efficiency_trigger thresholds signerBacked
            in Inr \<lparr>dm_strategyId = c # s, dm_demoted = (triggers \<noteq> []), dm_triggers = triggers,
                 dm_evidence = JObj
                   [(''lookbackDays'', lookbackDays),
                    (''signerBackedReceiptCount'', jnat (length signerBacked)),
                    (''successCount'', jnat (length (List.filter isSuccess signerBacked))),
                    (''failureCount'', jnat (length (List.filter (\<lambda>r. \<not> isSuccess r) signerBacked))),
                    (''consecutiveFailures'', jnat (run_of_failures (rev signerBacked))),
                    (''emergencyUnwindFailureCount'', jnat (length (List.filter
                       (\<lambda>r. isEmergencyUnwind r \<and> \<not> isSuccess r) signerBacked)))]\<rparr>
      | _ \<Rightarrow> Inl TypeError)"

definition summarizeDemotionEvidence :: "demotion_report list \<Rightarrow> jsv" where
  "summarizeDemotionEvidence reports =
     (let demoted = List.filter dm_demoted reports; clean = List.filter (\<lambda>r. \<not> dm_demoted r) reports
      in JObj [(''demotedCount'', jnat (length demoted)), (''cleanCount'', jnat (length clean)),
               (''demoted'', strs (List.map dm_strategyId demoted)), (''clean'', strs (List.map dm_strategyId clean))])"

lemma run_of_failures_takeWhile: "run_of_failures rs = length (takeWhile (\<lambda>r. \<not> isSuccess r) rs)"
  by (induction rs) auto

lemma vle_two: "n \<le> 2 ^ 53 \<Longrightarrow> vle (JNum (Fin 2)) (jnat n) \<longleftrightarrow> 2 \<le> n"
  by (simp add: jnat_small vle_def to_prim_def)

text \<open>C32: under the committed thresholds a strategy is demoted exactly when its recent signer-backed receipts end in
  two failures, hold a failed emergency unwind, hold no success, or made successes whose costs took more than
  a quarter of the gross profit.\<close>

theorem demoted_iff:
  fixes receipts :: "jsv list" and now days :: jsnum and sid :: string
  defines "rs \<equiv> recent_receipts sid receipts now days"
  assumes "evaluateDemotionPolicy (JStr sid) (JArr receipts) (JNum now) DEMOTION_THRESHOLDS (JNum days) = Inr d"
    "length receipts \<le> 2 ^ 53"
  shows "dm_demoted d \<longleftrightarrow>
    2 \<le> length (takeWhile (\<lambda>r. \<not> isSuccess r) (rev rs))
    \<or> (\<exists>r\<in>set rs. isEmergencyUnwind r \<and> \<not> isSuccess r)
    \<or> rs \<noteq> [] \<and> (\<forall>r\<in>set rs. \<not> isSuccess r)
    \<or> (\<exists>r\<in>set rs. isSuccess r)
      \<and> (\<exists>e. round_trip_efficiency (List.filter isSuccess rs) = Some e \<and> jlt e (lit 75 100))"
proof -
  have "length rs \<le> length receipts" unfolding rs_def recent_receipts_def
    by (rule order_trans [OF length_filter_le]) (simp add: order_trans [OF length_filter_le length_filter_le])
  with assms(3) have len: "length rs \<le> 2 ^ 53" by simp
  have run: "length (takeWhile (\<lambda>r. \<not> isSuccess r) (rev rs)) \<le> length rs"
    using length_takeWhile_le [of "\<lambda>r. \<not> isSuccess r" "rev rs"] by simp
  have two: "vle (JNum (Fin 2)) (jnat (run_of_failures (rev rs))) \<longleftrightarrow> 2 \<le> length (takeWhile (\<lambda>r. \<not> isSuccess r) (rev rs))"
    "vle (JNum (Fin 2)) (jnat (length rs)) \<longleftrightarrow> 2 \<le> length rs"
    using vle_two len run by (simp_all add: run_of_failures_takeWhile)
  have d: "dm_demoted d \<longleftrightarrow> burst_trigger DEMOTION_THRESHOLDS rs @ unwind_trigger rs
      @ stale_trigger DEMOTION_THRESHOLDS now rs @ efficiency_trigger DEMOTION_THRESHOLDS rs \<noteq> []"
    using assms(2) by (auto simp: evaluateDemotionPolicy_def rs_def Let_def split: list.splits if_splits)
  have b: "burst_trigger DEMOTION_THRESHOLDS rs \<noteq> [] \<longleftrightarrow> 2 \<le> length (takeWhile (\<lambda>r. \<not> isSuccess r) (rev rs))"
    using two run by (auto simp: burst_trigger_def DEMOTION_THRESHOLDS_def Let_def)
  have u: "unwind_trigger rs \<noteq> [] \<longleftrightarrow> (\<exists>r\<in>set rs. isEmergencyUnwind r \<and> \<not> isSuccess r)"
    by (auto simp: unwind_trigger_def Let_def filter_empty_conv)
  have s: "stale_trigger DEMOTION_THRESHOLDS now rs \<noteq> [] \<longleftrightarrow> rs \<noteq> [] \<and> (\<forall>r\<in>set rs. \<not> isSuccess r)"
    by (auto simp: stale_trigger_def filter_empty_conv split: list.splits)
  have e: "efficiency_trigger DEMOTION_THRESHOLDS rs \<noteq> [] \<longleftrightarrow> (\<exists>r\<in>set rs. isSuccess r)
      \<and> (\<exists>e. round_trip_efficiency (List.filter isSuccess rs) = Some e \<and> jlt e (lit 75 100))"
    by (auto simp: efficiency_trigger_def DEMOTION_THRESHOLDS_def Let_def vlt_def to_prim_def filter_empty_conv
        split: option.splits)
  show ?thesis unfolding d using b u s e by auto
qed

text \<open>The hours since the last success are reported, never compared: an empty window demotes nothing.\<close>

lemma no_receipts_not_demoted:
  assumes "evaluateDemotionPolicy (JStr sid) (JArr receipts) (JNum now) thresholds (JNum days) = Inr d"
    "recent_receipts sid receipts now days = []"
    "dot thresholds ''minRecentReceiptsToEvaluate'' = JNum (Fin m)" "0 < m"
  shows "\<not> dm_demoted d"
  using assms by (auto simp: evaluateDemotionPolicy_def Let_def burst_trigger_def unwind_trigger_def stale_trigger_def
      efficiency_trigger_def vle_def to_prim_def jnat_def split: list.splits if_splits)

section \<open>Instances\<close>

definition demotion_receipt :: "string \<Rightarrow> rat \<Rightarrow> jsv" where
  "demotion_receipt outcome ts = JObj
     [(''strategyId'', JStr ''s''), (''tsMs'', JNum (Fin ts)), (''source'', JStr ''signer''), (''txHash'', JStr ''0x1''),
      (''outcome'', JStr outcome)]"

theorem demoted_iff_witness:
  "\<exists>d. evaluateDemotionPolicy (JStr ''s'') (JArr [demotion_receipt ''failed'' 3, demotion_receipt ''success'' 1, demotion_receipt ''failed'' 2])
      (JNum (Fin 10)) DEMOTION_THRESHOLDS (JNum (Fin 1)) = Inr d \<and> dm_demoted d"
proof -
  let ?rs = "[demotion_receipt ''failed'' 3, demotion_receipt ''success'' 1, demotion_receipt ''failed'' 2]"
  obtain d where d: "evaluateDemotionPolicy (JStr ''s'') (JArr ?rs) (JNum (Fin 10)) DEMOTION_THRESHOLDS (JNum (Fin 1)) = Inr d"
    by (simp add: evaluateDemotionPolicy_def Let_def)
  have r: "recent_receipts ''s'' ?rs (Fin 10) (Fin 1)
      = [demotion_receipt ''success'' 1, demotion_receipt ''failed'' 2, demotion_receipt ''failed'' 3]"
    by code_simp
  have s: "isSuccess (demotion_receipt ''success'' 1)" "\<not> isSuccess (demotion_receipt ''failed'' 2)"
    "\<not> isSuccess (demotion_receipt ''failed'' 3)"
    by (simp_all add: isSuccess_def demotion_receipt_def)
  from demoted_iff [OF d] s have "dm_demoted d" by (simp add: r)
  with d show ?thesis by blast
qed

end
