(* ===== verification/StageGates.thy ===== *)
theory StageGates
  imports JsonlStore
begin

text \<open>
  The project's stage: src/src/executor/policy/stage-evaluator.mjs and the log of its transitions,
  stage-transition-audit.mjs, a JSON-lines file.

  \<open>stage_blockers_exact\<close>: the stage is C exactly when no blocker is reported, and then every
  condition holds. \<open>stage_log_chain\<close>: whatever stages are reported one after the other, the log
  links each transition to the one before and records only changes.
\<close>

section \<open>The evaluator\<close>

definition finite_or_null :: "jsv \<Rightarrow> jsv" where
  "finite_or_null v = num_or_null (finiteNumber v)"

text \<open>\<open>finiteNumber(a) ?? finiteNumber(b) ?? c\<close>\<close>

definition fin_first :: "jsv list \<Rightarrow> jsv \<Rightarrow> jsv" where
  "fin_first vs dflt = first_present (List.map finite_or_null vs @ [dflt])"

definition evGateCalibrated :: "jsv \<Rightarrow> bool" where
  "evGateCalibrated stats \<longleftrightarrow>
     strict_eq (dot stats ''calibrated'') (JBool True)
     \<or> vlt (JNum (Fin 0)) (finite_or_null (dot stats ''matchedReceiptCount''))
       \<and> vlt (JNum (Fin 0)) (finite_or_null (dot stats ''keyedEntryCount''))"

definition rolling :: "jsv \<Rightarrow> string \<Rightarrow> string \<Rightarrow> jsv" where
  "rolling marksSlice k w =
     fin_first [dots marksSlice [''reliability'', ''rolling'' @ w, k], dots marksSlice [k, ''rolling'' @ w]] JNull"

datatype stage_rank = StageA | StageB | StageC

fun stage_str :: "stage_rank \<Rightarrow> string" where
  "stage_str StageA = ''A''"
| "stage_str StageB = ''B''"
| "stage_str StageC = ''C''"

record stage_view =
  sv_refresh24h :: jsv
  sv_transient24h :: jsv
  sv_unresolvedRefillRoutes :: jsv
  sv_delivered :: jsv
  sv_calibrated :: bool
  sv_belowSustained :: bool

definition payback_part :: "jsv \<Rightarrow> jsv" where
  "payback_part capitalPlan = first_truthy [dot capitalPlan ''payback'', dot capitalPlan ''expansionGate'', JNull]"

definition expansion_part :: "jsv \<Rightarrow> jsv" where
  "expansion_part capitalPlan = orelse (dot (payback_part capitalPlan) ''expansionGate'') (payback_part capitalPlan)"

definition stage_parts :: "jsv \<Rightarrow> jsv \<Rightarrow> jsv \<Rightarrow> stage_view" where
  "stage_parts marksSlice capitalPlan evGateStats =
     \<lparr>sv_refresh24h = rolling marksSlice ''refreshSuccessRatio'' ''24h'',
      sv_transient24h = rolling marksSlice ''transientFrequency'' ''24h'',
      sv_unresolvedRefillRoutes = fin_first [dot capitalPlan ''unresolvedRefillRoutes'',
         dots capitalPlan [''refill'', ''unresolvedCount'']] (JNum (Fin 0)),
      sv_delivered = fin_first [dot (expansion_part capitalPlan) ''deliveredPeriodCountOnReserveChain''] (JNum (Fin 0)),
      sv_calibrated = evGateCalibrated evGateStats,
      sv_belowSustained = strict_eq
         (dot (orelse (dots marksSlice [''reliability'', ''hysteresis'']) (JObj [])) ''refreshBelow90SustainedFor1h'')
         (JBool True)\<rparr>"

definition refresh_ok :: "stage_view \<Rightarrow> bool" where
  "refresh_ok v \<longleftrightarrow> is_finite (sv_refresh24h v) \<and> vle (JNum (lit 95 100)) (sv_refresh24h v)"

definition transient_ok :: "stage_view \<Rightarrow> bool" where
  "transient_ok v \<longleftrightarrow> is_finite (sv_transient24h v) \<and> vlt (sv_transient24h v) (JNum (lit 5 100))"

definition refills_ok :: "stage_view \<Rightarrow> bool" where
  "refills_ok v \<longleftrightarrow> strict_eq (sv_unresolvedRefillRoutes v) (JNum (Fin 0))"

definition delivered_ok :: "stage_view \<Rightarrow> bool" where
  "delivered_ok v \<longleftrightarrow> vle (JNum (Fin 1)) (sv_delivered v)"

definition stageBReady :: "stage_view \<Rightarrow> bool" where
  "stageBReady v \<longleftrightarrow> sv_calibrated v \<and> refresh_ok v \<and> transient_ok v"

definition stageCReady :: "stage_view \<Rightarrow> bool" where
  "stageCReady v \<longleftrightarrow> stageBReady v \<and> refills_ok v \<and> delivered_ok v"

definition currentStage :: "stage_view \<Rightarrow> stage_rank" where
  "currentStage v =
     (if stageCReady v \<and> \<not> sv_belowSustained v then StageC
      else if stageBReady v \<or> sv_belowSustained v then StageB else StageA)"

definition stage_blockers :: "stage_view \<Rightarrow> string list" where
  "stage_blockers v = unique_list
     (push_if (\<not> sv_calibrated v) ''ev_gate_not_calibrated''
      @ push_if (\<not> refresh_ok v) ''refresh_success_ratio_below_stage_b_threshold''
      @ push_if (\<not> transient_ok v) ''transient_frequency_above_stage_b_threshold''
      @ push_if (\<not> refills_ok v) ''refill_routes_unresolved''
      @ push_if (\<not> delivered_ok v) ''receipt_proven_payback_period_missing''
      @ push_if (sv_belowSustained v) ''stage_c_hysteresis_demoted'')"

text \<open>The evidence an evaluation carries, field by field.\<close>

definition stage_evidence :: "jsv \<Rightarrow> jsv \<Rightarrow> jsv \<Rightarrow> stage_view \<Rightarrow> jsv" where
  "stage_evidence marksSlice capitalPlan evGateStats v =
     (let payback = payback_part capitalPlan; gate = expansion_part capitalPlan;
          scheduler = dot payback ''scheduler'';
          reserveChain = first_truthy [dot gate ''reserveChain'', dot capitalPlan ''reserveChain'', JNull];
          paybackStatus = first_truthy [dot scheduler ''status'', dot payback ''status'', JNull];
          paybackReason = first_truthy [dot scheduler ''reason'', dot payback ''reason'', JNull];
          progress = first_truthy [dot scheduler ''minimumPaybackProgress'', dot scheduler ''previewAfterDestination'', JNull];
          pendingSats = fin_first [dots payback [''carry'', ''pendingSats''], dot payback ''accumulatorPendingSats''] JNull;
          hysteresis = orelse (dots marksSlice [''reliability'', ''hysteresis'']) (JObj []);
          recovery = orelse (dots marksSlice [''reliability'', ''recovery24h'']) (JObj []);
          recoveryB = orelse (dot recovery ''stageB'') (JObj []);
          recoveryH = orelse (dot recovery ''hysteresis'') (JObj []);
          latest = orelse (dots marksSlice [''reliability'', ''latestAttempt'']) (JObj []);
          delivered = sv_delivered v
      in JObj
        (List.map (\<lambda>w. (''refreshSuccessRatio'' @ w, rolling marksSlice ''refreshSuccessRatio'' w)) [''1h'', ''3h'', ''24h'', ''7d'']
         @ List.map (\<lambda>w. (''transientFrequency'' @ w, rolling marksSlice ''transientFrequency'' w)) [''1h'', ''3h'', ''24h'', ''7d'']
         @ [(''unresolvedRefillRoutes'', sv_unresolvedRefillRoutes v), (''reserveChain'', reserveChain),
            (''deliveredPeriodCountOnReserveChain'', delivered), (''paybackStatus'', paybackStatus),
            (''paybackReason'', paybackReason), (''paybackPendingSats'', pendingSats),
            (''paybackProgressToMinimumRatio'', fin_first [dots payback [''carry'', ''progressToMinimumRatio''],
               dots scheduler [''minimumPaybackProgress'', ''progressToMinimumRatio'']] JNull),
            (''paybackReceiptProof'', JObj
              [(''reserveChain'', reserveChain), (''requiredDeliveredPeriodCountOnReserveChain'', JNum (Fin 1)),
               (''deliveredPeriodCountOnReserveChain'', delivered), (''ready'', JBool (delivered_ok v)),
               (''blocker'', if delivered_ok v then JNull else JStr ''receipt_proven_payback_period_missing''),
               (''status'', paybackStatus), (''reason'', paybackReason), (''pendingSats'', pendingSats),
               (''minPaybackSats'', finite_or_null (dot progress ''minPaybackSats'')),
               (''grossTargetBeforeCostsSats'', finite_or_null (dot progress ''grossTargetBeforeCostsSats'')),
               (''satsToMinimumPayback'', finite_or_null (dot progress ''satsToMinimumPayback'')),
               (''proposedMinPaybackPatch'', first_truthy [dot payback ''proposedMinPaybackPatch'',
                  dots payback [''minimumReview'', ''proposedPatchPath''], JNull])]),
            (''evGateCalibrated'', JBool (sv_calibrated v)),
            (''evGateMatchedReceiptCount'', fin_first [dot evGateStats ''matchedReceiptCount''] (JNum (Fin 0))),
            (''evGateKeyedEntryCount'', fin_first [dot evGateStats ''keyedEntryCount''] (JNum (Fin 0))),
            (''evGateLookbackDays'', fin_first [dot evGateStats ''lookbackDays''] JNull),
            (''latestMarkSuccessObservedAt'', orelse (dot latest ''successObservedAt'') JNull),
            (''latestMarkFailureObservedAt'', orelse (dot latest ''failureObservedAt'') JNull),
            (''latestMarkFailureKind'', orelse (dot latest ''failureKind'') JNull),
            (''latestMarkFailurePositionId'', orelse (dot latest ''failurePositionId'') JNull),
            (''refreshBelow90Since'', orelse (dot hysteresis ''refreshBelow90Since'') JNull),
            (''refreshBelow90SustainedFor1h'', JBool (sv_belowSustained v)),
            (''refresh24hStageBSuccessesNeeded'', finite_or_null (dot recoveryB ''successesNeeded'')),
            (''refresh24hStageBEarliestRecoveryAt'', orelse (dot recoveryB ''earliestRecoveryAt'') JNull),
            (''refresh24hHysteresisSuccessesNeeded'', finite_or_null (dot recoveryH ''successesNeeded'')),
            (''refresh24hHysteresisEarliestRecoveryAt'', orelse (dot recoveryH ''earliestRecoveryAt'') JNull)]))"

definition evaluateStage :: "jsv \<Rightarrow> jsv \<Rightarrow> jsv \<Rightarrow> jsv" where
  "evaluateStage marksSlice capitalPlan evGateStats =
     (let v = stage_parts marksSlice capitalPlan evGateStats
      in JObj [(''currentStage'', JStr (stage_str (currentStage v))),
               (''blockers'', strs (stage_blockers v)),
               (''evidence'', stage_evidence marksSlice capitalPlan evGateStats v)])"

text \<open>The evaluated stage is C exactly when the evaluation reports no blocker.\<close>

theorem stage_blockers_exact:
  "dot (evaluateStage marksSlice capitalPlan evGateStats) ''currentStage'' = JStr ''C''
    \<longleftrightarrow> dot (evaluateStage marksSlice capitalPlan evGateStats) ''blockers'' = JArr []"
  unfolding evaluateStage_def Let_def
  by (auto simp: currentStage_def stage_blockers_def stageCReady_def stageBReady_def strs_def push_if_def)

text \<open>A sustained refresh ratio below 90 percent lifts a system at stage A, gate uncalibrated, to stage B.\<close>

lemma sustained_failure_lifts_to_B:
  assumes "sv_belowSustained v"
  shows "currentStage v = StageB" "currentStage (v\<lparr>sv_belowSustained := False, sv_calibrated := False\<rparr>) = StageA"
  using assms by (simp_all add: currentStage_def stageCReady_def stageBReady_def)

text \<open>A null transient frequency counts as zero.\<close>

lemma null_transient_is_zero:
  "rolling (JObj [(''reliability'', JObj [(''rolling24h'', JObj [(''transientFrequency'', JNull)])])]) ''transientFrequency'' ''24h''
    = JNum (Fin 0)"
  by code_simp

section \<open>The log of transitions\<close>

definition stage_order :: "jsv \<Rightarrow> nat" where
  "stage_order s = (if s = JStr ''A'' then 1 else if s = JStr ''B'' then 2 else if s = JStr ''C'' then 3 else 0)"

definition transition_record :: "jsv \<Rightarrow> jsv \<Rightarrow> jsv \<Rightarrow> jsv \<Rightarrow> jsv \<Rightarrow> jsv \<Rightarrow> jsv \<Rightarrow> jsv" where
  "transition_record fromStage toStage timestamp blockers evidence reason actor = JObj
     [(''schemaVersion'', JNum (Fin 1)), (''timestamp'', timestamp), (''fromStage'', fromStage), (''toStage'', toStage),
      (''blockers'', blockers), (''evidence'', evidence), (''reason'', reason), (''actor'', actor),
      (''transitionType'', JStr (if strict_eq fromStage toStage then ''no_change''
         else if stage_order fromStage < stage_order toStage then ''promote'' else ''demote''))]"

definition recordStageTransition ::
    "jsv \<Rightarrow> jsv \<Rightarrow> jsv \<Rightarrow> jsv \<Rightarrow> jsv \<Rightarrow> jsv \<Rightarrow> jsv \<Rightarrow> file_read \<Rightarrow> jsv \<times> file_read" where
  "recordStageTransition fromStage toStage timestamp blockers evidence reason actor f =
     (let record = transition_record fromStage toStage timestamp blockers evidence reason actor
      in (record, store_append f record))"

definition readStageTransitions :: "file_read \<Rightarrow> jsv list throws" where
  "readStageTransitions f =
     (case f of
        NoEntry \<Rightarrow> Inr []
      | ReadFails e \<Rightarrow> Inl e
      | Contents c \<Rightarrow>
          if trim c = [] then Inr []
          else map_throws json_parse (List.filter (\<lambda>l. l \<noteq> []) (split_on newline (trim c))))"

definition getLatestStageTransition :: "file_read \<Rightarrow> jsv throws" where
  "getLatestStageTransition f =
     and_then (readStageTransitions f) (\<lambda>history.
       Inr (if history = [] then JNull else orelse (List.last history) JNull))"

text \<open>\<open>history.slice(-limit)\<close>: a limit of 0 keeps all.\<close>

definition getStageTransitionHistory :: "file_read \<Rightarrow> nat \<Rightarrow> jsv list throws" where
  "getStageTransitionHistory f limit =
     and_then (readStageTransitions f) (\<lambda>history.
       Inr (if limit = 0 then history else drop (length history - limit) history))"

definition syncStageTransitionAudit ::
    "jsv \<Rightarrow> jsv \<Rightarrow> jsv \<Rightarrow> file_read \<Rightarrow> ((bool \<times> jsv) \<times> file_read) throws" where
  "syncStageTransitionAudit stageEvaluation observedAt actor f =
     (let nextStage = orelse (dot stageEvaluation ''currentStage'') JNull;
          blockers = orelse (dot stageEvaluation ''blockers'') (JArr [])
      in and_then (getLatestStageTransition f) (\<lambda>latest.
        if \<not> truthy nextStage then Inr ((False, latest), f)
        else if strict_eq (dot latest ''toStage'') nextStage then Inr ((False, latest), f)
        else
          let (record, f') = recordStageTransition (orelse (dot latest ''toStage'') (JStr ''unknown'')) nextStage observedAt
                (JArr (elems blockers)) (orelse (dot stageEvaluation ''evidence'') (JObj []))
                (orelse (JStr (to_str (JArr (elems blockers)))) (JStr ''stage_transition'')) actor f
          in Inr ((True, record), f')))"

text \<open>One report after the other.\<close>

fun sync_all :: "(jsv \<times> jsv \<times> jsv) list \<Rightarrow> file_read \<Rightarrow> file_read throws" where
  "sync_all [] f = Inr f"
| "sync_all ((evaluation, observedAt, actor) # rest) f =
     and_then (syncStageTransitionAudit evaluation observedAt actor f) (\<lambda>(answer, f'). sync_all rest f')"

section \<open>The chain of transitions\<close>

lemma store_append_is_append: "store_append f r = appendSignerAuditRecord f r"
  by (cases f) (simp_all add: store_line_def log_line_def safeJsonStringify_def)

text \<open>A log written by appends of objects: its text starts with a brace and ends with one and a line break.\<close>

lemma appended_text:
  assumes "rs \<noteq> []" "\<forall>r\<in>set rs. \<exists>fs. r = JObj fs"
  shows "\<exists>s a b. foldl appendSignerAuditRecord NoEntry rs = Contents s
    \<and> s = CHR ''{'' # a \<and> s = b @ CHR ''}'' # [newline]"
  using assms
proof (induction rs rule: rev_induct)
  case (snoc r rs)
  then obtain fs where r: "r = JObj fs" by auto
  obtain u v where line: "log_line r = CHR ''{'' # u" "log_line r = v @ CHR ''}'' # [newline]"
    by (auto simp: r log_line_def)
  show ?case
  proof (cases "rs = []")
    case True
    have "\<exists>a b. log_line r = CHR ''{'' # a \<and> log_line r = b @ CHR ''}'' # [newline]" using line by blast
    with True show ?thesis by simp
  next
    case False
    then obtain s a where "foldl appendSignerAuditRecord NoEntry rs = Contents s" "s = CHR ''{'' # a"
      using snoc by auto
    then show ?thesis using line(2) by auto
  qed
qed simp

lemma trim_braces:
  assumes "s = CHR ''{'' # a" "s = b @ CHR ''}'' # [newline]"
  shows "trim s = b @ ''}''"
proof -
  have "trim s = rtrim s" unfolding assms(1) by (rule trim_first) simp
  also have "\<dots> = b @ CHR ''}'' # rtrim [newline]" unfolding assms(2) by (rule rtrim_append) simp
  finally show ?thesis by (simp add: rtrim_def)
qed

lemma read_appended:
  assumes "list_all log_record rs" "\<forall>r\<in>set rs. \<exists>fs. r = JObj fs"
  shows "readStageTransitions (foldl appendSignerAuditRecord NoEntry rs) = Inr (List.map json_kept rs)"
proof (cases "rs = []")
  case True
  then show ?thesis by (simp add: readStageTransitions_def)
next
  case False
  from appended_text [OF this assms(2)] obtain s a b where
    s: "foldl appendSignerAuditRecord NoEntry rs = Contents s" "s = CHR ''{'' # a" "s = b @ CHR ''}'' # [newline]"
    by blast
  have "readSignerAuditLog (Contents s) = Inr (List.map json_kept rs)"
    using append_read_all [OF assms(1)] by (simp add: s(1))
  moreover have "split_on newline s = split_on newline (b @ ''}'') @ [[]]"
    using split_on_append [of newline "[]" "b @ ''}''"] by (simp add: s(3))
  ultimately show ?thesis by (simp add: readStageTransitions_def s(1) trim_braces [OF s(2,3)])
qed

text \<open>Each record starts where the one before ended, and ends elsewhere.\<close>

fun stage_chain :: "jsv \<Rightarrow> jsv list \<Rightarrow> bool" where
  "stage_chain prev [] = True"
| "stage_chain prev (r # rs) =
     (dot r ''fromStage'' = prev \<and> dot r ''toStage'' \<noteq> prev
      \<and> dot r ''transitionType'' = JStr (if stage_order prev < stage_order (dot r ''toStage'') then ''promote'' else ''demote'')
      \<and> stage_chain (dot r ''toStage'') rs)"

definition last_stage :: "jsv list \<Rightarrow> jsv" where
  "last_stage rs = (if rs = [] then JStr ''unknown'' else dot (List.last rs) ''toStage'')"

lemma stage_chain_snoc:
  "stage_chain prev (rs @ [r]) \<longleftrightarrow> stage_chain prev rs
    \<and> (let p = (if rs = [] then prev else dot (List.last rs) ''toStage'')
       in dot r ''fromStage'' = p \<and> dot r ''toStage'' \<noteq> p
        \<and> dot r ''transitionType'' = JStr (if stage_order p < stage_order (dot r ''toStage'') then ''promote'' else ''demote''))"
  by (induction prev rs rule: stage_chain.induct) (auto simp: Let_def)

definition stage_log :: "file_read \<Rightarrow> jsv list \<Rightarrow> bool" where
  "stage_log f rs \<longleftrightarrow>
     f = foldl appendSignerAuditRecord NoEntry rs \<and> list_all log_record rs \<and> (\<forall>r\<in>set rs. \<exists>fs. r = JObj fs)
     \<and> stage_chain (JStr ''unknown'') (List.map json_kept rs)
     \<and> list_all (\<lambda>r. dot (json_kept r) ''toStage'' \<in> {JStr ''A'', JStr ''B'', JStr ''C''}) rs"

text \<open>A report the log can take: a JSON value whose stage, where it names one, is A, B or C.\<close>

definition stage_report :: "jsv \<times> jsv \<times> jsv \<Rightarrow> bool" where
  "stage_report r = (case r of (e, t, a) \<Rightarrow>
     json_plain e \<and> json_plain t \<and> json_plain a
     \<and> (truthy (dot e ''currentStage'') \<longrightarrow> dot e ''currentStage'' \<in> {JStr ''A'', JStr ''B'', JStr ''C''}))"

lemma json_plain_dot: "json_plain v \<Longrightarrow> k \<noteq> ''length'' \<Longrightarrow> json_plain (dot v k)"
  by (cases v) (auto simp: fld_def list_all_iff split: option.splits dest!: map_of_SomeD)

lemma json_plain_elems: "json_plain v \<Longrightarrow> json_plain (JArr (elems v))"
  by (cases v) simp_all

lemma transition_plain:
  assumes "json_plain e" "json_plain t" "json_plain a" "json_plain p"
  shows "log_record (transition_record (orelse p (JStr ''unknown'')) (orelse (dot e ''currentStage'') JNull) t
    (JArr (elems (orelse (dot e ''blockers'') (JArr [])))) (orelse (dot e ''evidence'') (JObj []))
    (orelse (JStr reason) (JStr ''stage_transition'')) a)"
proof -
  have "json_plain (orelse v w)" if "json_plain v" "json_plain w" for v w using that by (simp add: orelse_def)
  moreover have "is_double (Fin 1)" by (simp add: is_double_def)
  ultimately show ?thesis
    using assms json_plain_dot [OF assms(1)] json_plain_elems
    by (simp add: log_record_def transition_record_def)
qed

lemma transition_kept:
  assumes "log_record (transition_record x y t b ev r a)" "x = JStr xs" "y = JStr ys"
  shows "dot (json_kept (transition_record x y t b ev r a)) ''fromStage'' = x"
    "dot (json_kept (transition_record x y t b ev r a)) ''toStage'' = y"
    "dot (json_kept (transition_record x y t b ev r a)) ''transitionType''
      = JStr (if x = y then ''no_change'' else if stage_order x < stage_order y then ''promote'' else ''demote'')"
proof -
  have d: "distinct (List.map fst (fields_of (transition_record x y t b ev r a)))" by (simp add: transition_record_def)
  have o: "transition_record x y t b ev r a = JObj (fields_of (transition_record x y t b ev r a))"
    by (simp add: transition_record_def)
  have k: "dot (json_kept (transition_record x y t b ev r a)) key
      = (let v = dot (transition_record x y t b ev r a) key in if v = JUndef then JUndef else json_kept v)" for key
    using dot_json_kept [OF d, of key] o by (simp add: Let_def transition_record_def del: json_kept.simps)
  show "dot (json_kept (transition_record x y t b ev r a)) ''fromStage'' = x"
    "dot (json_kept (transition_record x y t b ev r a)) ''toStage'' = y"
    "dot (json_kept (transition_record x y t b ev r a)) ''transitionType''
      = JStr (if x = y then ''no_change'' else if stage_order x < stage_order y then ''promote'' else ''demote'')"
    unfolding k by (simp_all add: transition_record_def assms(2,3) Let_def)
qed

text \<open>One report keeps the log a chain, and leaves it at the reported stage.\<close>

lemma sync_keeps_log:
  assumes "stage_log f rs" "stage_report (e, t, a)"
  shows "\<exists>ans f' rs'. syncStageTransitionAudit e t a f = Inr (ans, f') \<and> stage_log f' rs'
    \<and> last_stage (List.map json_kept rs')
        = (if truthy (dot e ''currentStage'') then dot e ''currentStage'' else last_stage (List.map json_kept rs))"
proof -
  have f: "f = foldl appendSignerAuditRecord NoEntry rs" "list_all log_record rs" "\<forall>r\<in>set rs. \<exists>fs. r = JObj fs"
    "stage_chain (JStr ''unknown'') (List.map json_kept rs)"
    "\<And>r. r \<in> set rs \<Longrightarrow> dot (json_kept r) ''toStage'' \<in> {JStr ''A'', JStr ''B'', JStr ''C''}"
    using assms(1) by (auto simp: stage_log_def list_all_iff)
  have plain: "json_plain e" "json_plain t" "json_plain a" using assms(2) by (simp_all add: stage_report_def)
  define latest where "latest = (if rs = [] then JNull else json_kept (List.last rs))"
  have "truthy (json_kept r)" if "r \<in> set rs" for r using f(3) that by fastforce
  then have l: "getLatestStageTransition f = Inr latest"
    using read_appended [OF f(2,3)] unfolding f(1) [symmetric]
    by (simp add: getLatestStageTransition_def latest_def last_map orelse_def)
  let ?p = "last_stage (List.map json_kept rs)"
  have p: "orelse (dot latest ''toStage'') (JStr ''unknown'') = ?p"
    using f(5) [of "List.last rs"] by (auto simp: latest_def last_stage_def last_map orelse_def)
  have ps: "?p \<in> {JStr ''unknown'', JStr ''A'', JStr ''B'', JStr ''C''}"
    using f(5) [of "List.last rs"] by (auto simp: last_stage_def last_map)
  show ?thesis
  proof (cases "truthy (dot e ''currentStage'')")
    case False
    then show ?thesis using assms(1) by (auto simp: syncStageTransitionAudit_def l Let_def orelse_def)
  next
    case True
    then have c: "dot e ''currentStage'' \<in> {JStr ''A'', JStr ''B'', JStr ''C''}" "orelse (dot e ''currentStage'') JNull = dot e ''currentStage''"
      using assms(2) by (auto simp: stage_report_def orelse_def)
    show ?thesis
    proof (cases "?p = dot e ''currentStage''")
      case same: True
      have "strict_eq (dot latest ''toStage'') (dot e ''currentStage'')"
        using c same p by (auto simp: orelse_def split: if_splits)
      then show ?thesis using True same assms(1) by (auto simp: syncStageTransitionAudit_def l Let_def c(2))
    next
      case False
      have ns: "\<not> strict_eq (dot latest ''toStage'') (dot e ''currentStage'')"
      proof
        assume "strict_eq (dot latest ''toStage'') (dot e ''currentStage'')"
        then have "dot latest ''toStage'' = dot e ''currentStage''"
          using c(1) by (cases "dot latest ''toStage''") auto
        with True p False show False by (simp add: orelse_def)
      qed
      let ?reason = "to_str (JArr (elems (orelse (dot e ''blockers'') (JArr []))))"
      let ?r = "transition_record (orelse (dot latest ''toStage'') (JStr ''unknown'')) (orelse (dot e ''currentStage'') JNull) t
        (JArr (elems (orelse (dot e ''blockers'') (JArr [])))) (orelse (dot e ''evidence'') (JObj []))
        (orelse (JStr ?reason) (JStr ''stage_transition'')) a"
      have "json_plain (dot latest ''toStage'')" using f(5) [of "List.last rs"] by (auto simp: latest_def)
      from transition_plain [OF plain this] have lr: "log_record ?r" .
      obtain xs ys where xy: "orelse (dot latest ''toStage'') (JStr ''unknown'') = JStr xs"
        "orelse (dot e ''currentStage'') JNull = JStr ys" using ps c unfolding p by auto
      note kept = transition_kept [OF lr xy]
      define r where "r = ?r"
      have k: "dot (json_kept r) ''fromStage'' = ?p" "dot (json_kept r) ''toStage'' = dot e ''currentStage''"
        "dot (json_kept r) ''transitionType''
          = JStr (if stage_order ?p < stage_order (dot e ''currentStage'') then ''promote'' else ''demote'')"
        using kept [folded r_def, unfolded p c(2)] False by simp_all
      have o: "\<exists>fs. r = JObj fs" by (simp add: r_def transition_record_def)
      have sync: "syncStageTransitionAudit e t a f = Inr ((True, r), appendSignerAuditRecord f r)"
        using True ns by (simp add: syncStageTransitionAudit_def l Let_def c(2) recordStageTransition_def
            store_append_is_append r_def)
      have lp: "(if List.map json_kept rs = [] then JStr ''unknown'' else dot (List.last (List.map json_kept rs)) ''toStage'') = ?p"
        by (simp add: last_stage_def)
      have "stage_chain (JStr ''unknown'') (List.map json_kept (rs @ [r]))"
        unfolding map_append list.map stage_chain_snoc Let_def lp using f(4) k False by simp
      then have "stage_log (appendSignerAuditRecord f r) (rs @ [r])"
        using f(1-3,5) lr [folded r_def] o k(2) c(1) by (auto simp: stage_log_def list_all_iff)
      moreover have "last_stage (List.map json_kept (rs @ [r])) = dot e ''currentStage''"
        using k(2) by (simp add: last_stage_def)
      ultimately show ?thesis using sync True by auto
    qed
  qed
qed

lemma sync_all_keeps_log:
  assumes "list_all stage_report reports" "stage_log f rs"
  shows "\<exists>f' rs'. sync_all reports f = Inr f' \<and> stage_log f' rs'
    \<and> last_stage (List.map json_kept rs') = foldl (\<lambda>s (e, t, a).
        if truthy (dot e ''currentStage'') then dot e ''currentStage'' else s) (last_stage (List.map json_kept rs)) reports"
  using assms
proof (induction reports arbitrary: f rs)
  case (Cons r reports)
  obtain e t a where r: "r = (e, t, a)" by (cases r)
  from Cons.prems r sync_keeps_log [of f rs e t a] obtain ans f1 rs1 where
    1: "syncStageTransitionAudit e t a f = Inr (ans, f1)" "stage_log f1 rs1"
    "last_stage (List.map json_kept rs1)
        = (if truthy (dot e ''currentStage'') then dot e ''currentStage'' else last_stage (List.map json_kept rs))"
    by auto
  from Cons.IH [OF _ 1(2)] Cons.prems(1) show ?case by (simp add: r 1(1,3))
qed auto

text \<open>C26: any sequence of stage reports, from an empty log, leaves a log that reads back as a chain: the first
  transition comes from unknown, each starts where the one before ended, ends elsewhere and is named promote or
  demote by the order of the stages; and the log ends in the stage reported last.\<close>

theorem stage_log_chain:
  assumes "list_all stage_report reports"
  shows "\<exists>f history. sync_all reports NoEntry = Inr f \<and> readStageTransitions f = Inr history
    \<and> stage_chain (JStr ''unknown'') history
    \<and> last_stage history = foldl (\<lambda>s (e, t, a).
        if truthy (dot e ''currentStage'') then dot e ''currentStage'' else s) (JStr ''unknown'') reports"
proof -
  have "stage_log NoEntry []" by (simp add: stage_log_def)
  from sync_all_keeps_log [OF assms this] obtain f rs where
    f: "sync_all reports NoEntry = Inr f" "stage_log f rs"
    "last_stage (List.map json_kept rs) = foldl (\<lambda>s (e, t, a).
        if truthy (dot e ''currentStage'') then dot e ''currentStage'' else s) (JStr ''unknown'') reports"
    by (auto simp: last_stage_def)
  then have "readStageTransitions f = Inr (List.map json_kept rs)" "stage_chain (JStr ''unknown'') (List.map json_kept rs)"
    using read_appended by (auto simp: stage_log_def)
  with f(1,3) show ?thesis by blast
qed

section \<open>Instances\<close>

theorem stage_log_chain_witness:
  "\<exists>f history. sync_all [(JObj [(''currentStage'', JStr ''A'')], JStr ''t1'', JStr ''op''),
      (JObj [(''currentStage'', JStr ''B'')], JStr ''t2'', JStr ''op'')] NoEntry = Inr f
    \<and> readStageTransitions f = Inr history \<and> stage_chain (JStr ''unknown'') history
    \<and> last_stage history = JStr ''B''"
proof -
  have "list_all stage_report [(JObj [(''currentStage'', JStr ''A'')], JStr ''t1'', JStr ''op''),
      (JObj [(''currentStage'', JStr ''B'')], JStr ''t2'', JStr ''op'')]"
    by (simp add: stage_report_def)
  from stage_log_chain [OF this] show ?thesis by simp
qed

end
