(* ===== verification/AutoPromotion.thy ===== *)
theory AutoPromotion
  imports PolicyCore
begin

text \<open>
  src/src/executor/auto-promotion-gate.mjs over src/src/config/auto-promotion.mjs: the gate an
  evidence file must pass before a strategy's autoExecute flag may be committed.

  \<open>promotion_passed_bounds\<close>: what a passed gate guarantees under the committed thresholds.
\<close>

section \<open>Configuration\<close>

definition AUTO_PROMOTION_DEFAULTS :: jsv where
  "AUTO_PROMOTION_DEFAULTS = JObj
     [(''walkForward'', JObj [(''enabled'', JBool True), (''sharpeMin'', JNum (Fin 1)),
        (''maxDrawdownPct'', JNum (Fin 20)), (''minRegimeChanges'', JNum (Fin 1)), (''minSamplePeriods'', JNum (Fin 12))]),
      (''oosHoldout'', JObj [(''enabled'', JBool True), (''minHoldoutDays'', JNum (Fin 30)),
        (''requireNetPositive'', JBool True)]),
      (''regimeBreakdown'', JObj [(''enabled'', JBool True),
        (''requiredRegimes'', strs [''bear'', ''neutral'', ''bull_peak'']), (''minSamplesPerRegime'', JNum (Fin 1))]),
      (''shadow'', JObj [(''enabled'', JBool True), (''consecutivePositivePeriodsMin'', JNum (Fin 8)),
        (''netOfMeasuredCostPositive'', JBool True), (''minQuoteSuccessRate'', JNum (lit 9 10))]),
      (''execution'', JObj [(''oracleDivergencePctMax'', JNum (Fin 1)), (''slippagePctMax'', JNum (lit 5 10)),
        (''measuredEdgeAboveCostVarianceFloor'', JBool True)]),
      (''initialCanaryCaps'', JObj [(''perTxUsd'', JNum (Fin 200)), (''perDayUsd'', JNum (Fin 1000)),
        (''perChainUsd'', JNum (Fin 1000)), (''maxDailyLossUsd'', JNum (Fin 50)),
        (''maxFailedGasCost24hUsd'', JNum (Fin 25))]),
      (''canaryGraduationPeriods'', JNum (Fin 30))]"

definition promotion_section :: "jsv \<Rightarrow> string \<Rightarrow> fields" where
  "promotion_section overrides k =
     spread (fields_of (dot AUTO_PROMOTION_DEFAULTS k)) (fields_of (orelse (dot overrides k) (JObj [])))"

definition buildAutoPromotionConfig :: "jsv \<Rightarrow> jsv" where
  "buildAutoPromotionConfig overrides = JObj
     [(''walkForward'', JObj (promotion_section overrides ''walkForward'')),
      (''oosHoldout'', JObj (promotion_section overrides ''oosHoldout'')),
      (''regimeBreakdown'', JObj (set_fld ''requiredRegimes''
         (coal (dots overrides [''regimeBreakdown'', ''requiredRegimes''])
               (dots AUTO_PROMOTION_DEFAULTS [''regimeBreakdown'', ''requiredRegimes'']))
         (promotion_section overrides ''regimeBreakdown''))),
      (''shadow'', JObj (promotion_section overrides ''shadow'')),
      (''execution'', JObj (promotion_section overrides ''execution'')),
      (''initialCanaryCaps'', JObj (promotion_section overrides ''initialCanaryCaps'')),
      (''canaryGraduationPeriods'', coal (dot overrides ''canaryGraduationPeriods'')
         (dot AUTO_PROMOTION_DEFAULTS ''canaryGraduationPeriods''))]"

section \<open>The checks\<close>

fun typeof_number :: "jsv \<Rightarrow> bool" where
  "typeof_number (JNum n) = True"
| "typeof_number v = False"

definition shown :: "jsv \<Rightarrow> string" where
  "shown v = to_str (coal v (JStr ''missing''))"

text \<open>A number that must not lie below, or above, its threshold; the blocker names both.\<close>

definition below_min :: "string \<Rightarrow> jsv \<Rightarrow> jsv \<Rightarrow> string list" where
  "below_min name v m =
     push_if (\<not> typeof_number v \<or> vlt v m) (name @ ''('' @ shown v @ '' < '' @ to_str m @ '')'')"

definition above_max :: "string \<Rightarrow> jsv \<Rightarrow> jsv \<Rightarrow> string list" where
  "above_max name v m =
     push_if (\<not> typeof_number v \<or> vlt m v) (name @ ''('' @ shown v @ '' > '' @ to_str m @ '')'')"

definition not_true :: "jsv \<Rightarrow> jsv \<Rightarrow> string \<Rightarrow> string list" where
  "not_true required v name = push_if (truthy required \<and> \<not> strict_eq v (JBool True)) name"

definition checkWalkForward :: "jsv \<Rightarrow> jsv \<Rightarrow> string list" where
  "checkWalkForward evidence gate =
     (if \<not> truthy (dot gate ''enabled'') then []
      else
        let wf = orelse (dot evidence ''walkForward'') (JObj [])
        in below_min ''walk_forward_sharpe_below_min'' (dot wf ''sharpe'') (dot gate ''sharpeMin'')
         @ above_max ''walk_forward_drawdown_exceeded'' (dot wf ''maxDrawdownPct'') (dot gate ''maxDrawdownPct'')
         @ below_min ''walk_forward_regime_changes_insufficient'' (dot wf ''regimeChanges'') (dot gate ''minRegimeChanges'')
         @ below_min ''walk_forward_sample_periods_insufficient'' (dot wf ''samplePeriods'') (dot gate ''minSamplePeriods''))"

definition checkShadow :: "jsv \<Rightarrow> jsv \<Rightarrow> string list" where
  "checkShadow evidence gate =
     (if \<not> truthy (dot gate ''enabled'') then []
      else
        let sh = orelse (dot evidence ''shadow'') (JObj [])
        in below_min ''shadow_consecutive_positive_below_min'' (dot sh ''consecutivePositivePeriods'')
             (dot gate ''consecutivePositivePeriodsMin'')
         @ not_true (dot gate ''netOfMeasuredCostPositive'') (dot sh ''netOfMeasuredCost'')
             ''shadow_not_positive_net_of_measured_cost''
         @ below_min ''shadow_quote_success_rate_low'' (dot sh ''quoteSuccessRate'') (dot gate ''minQuoteSuccessRate''))"

definition checkExecution :: "jsv \<Rightarrow> jsv \<Rightarrow> string list" where
  "checkExecution evidence gate =
     (let ex = orelse (dot evidence ''execution'') (JObj [])
      in above_max ''execution_oracle_divergence_exceeded'' (dot ex ''oracleDivergencePct'') (dot gate ''oracleDivergencePctMax'')
       @ above_max ''execution_slippage_exceeded'' (dot ex ''slippagePct'') (dot gate ''slippagePctMax'')
       @ not_true (dot gate ''measuredEdgeAboveCostVarianceFloor'') (dot ex ''edgeAboveCostVariance'')
           ''execution_edge_below_cost_variance_floor'')"

definition checkOosHoldout :: "jsv \<Rightarrow> jsv \<Rightarrow> string list" where
  "checkOosHoldout evidence gate =
     (if \<not> truthy gate \<or> \<not> truthy (dot gate ''enabled'') then []
      else
        let oos = orelse (dot evidence ''oosHoldout'') JNull
        in if \<not> truthy oos \<or> \<not> typeof_object oos then [''oos_holdout_missing'']
           else below_min ''oos_holdout_window_too_small'' (dot oos ''holdoutDays'') (dot gate ''minHoldoutDays'')
              @ not_true (dot gate ''requireNetPositive'') (dot oos ''netPositive'') ''oos_holdout_not_net_positive'')"

definition check_regime :: "jsv \<Rightarrow> jsv \<Rightarrow> string \<Rightarrow> string list" where
  "check_regime rb gate regime =
     (let entry = dot rb regime
      in if \<not> truthy entry \<or> \<not> typeof_object entry then [''regime_breakdown_missing_'' @ regime]
         else below_min (''regime_breakdown_'' @ regime @ ''_samples_insufficient'') (dot entry ''sampleCount'')
                (dot gate ''minSamplesPerRegime'')
            @ push_if (\<not> typeof_number (dot entry ''netPnlUsd''))
                (''regime_breakdown_'' @ regime @ ''_net_pnl_missing''))"

definition checkRegimeBreakdown :: "jsv \<Rightarrow> jsv \<Rightarrow> string list" where
  "checkRegimeBreakdown evidence gate =
     (if \<not> truthy gate \<or> \<not> truthy (dot gate ''enabled'') then []
      else
        let rb = orelse (dot evidence ''regimeBreakdown'') JNull
        in if \<not> truthy rb \<or> \<not> typeof_object rb then [''regime_breakdown_missing'']
           else concat (List.map (\<lambda>regime. check_regime rb gate (to_str regime)) (elems (dot gate ''requiredRegimes''))))"

record promotion_answer =
  pa_passed :: bool
  pa_blockers :: "string list"
  pa_evaluated :: jsv
  pa_initialCanaryCaps :: jsv

definition promotion_blockers :: "jsv \<Rightarrow> jsv \<Rightarrow> string list" where
  "promotion_blockers evidence config =
     checkWalkForward evidence (dot config ''walkForward'')
     @ checkOosHoldout evidence (dot config ''oosHoldout'')
     @ checkRegimeBreakdown evidence (dot config ''regimeBreakdown'')
     @ checkShadow evidence (dot config ''shadow'')
     @ checkExecution evidence (dot config ''execution'')"

definition evaluateAutoPromotion :: "jsv \<Rightarrow> jsv \<Rightarrow> promotion_answer" where
  "evaluateAutoPromotion evidence config =
     (let caps = dot config ''initialCanaryCaps''
      in if \<not> truthy evidence \<or> \<not> typeof_object evidence
         then \<lparr>pa_passed = False, pa_blockers = [''evidence_missing''], pa_evaluated = JNull, pa_initialCanaryCaps = caps\<rparr>
         else if \<not> truthy (dot evidence ''strategyId'') \<or> \<not> is_string (dot evidence ''strategyId'')
         then \<lparr>pa_passed = False, pa_blockers = [''evidence_missing_strategy_id''], pa_evaluated = JNull,
               pa_initialCanaryCaps = caps\<rparr>
         else
           let blockers = promotion_blockers evidence config
           in \<lparr>pa_passed = (blockers = []), pa_blockers = blockers,
               pa_evaluated = JObj ((''strategyId'', dot evidence ''strategyId'')
                 # List.map (\<lambda>k. (k, orelse (dot evidence k) JNull))
                     [''walkForward'', ''oosHoldout'', ''regimeBreakdown'', ''shadow'', ''execution'']),
               pa_initialCanaryCaps = caps\<rparr>)"

section \<open>What a pass guarantees\<close>

lemma push_if_empty: "push_if b s = [] \<longleftrightarrow> \<not> b"
  by (simp add: push_if_def)

lemma below_min_empty: "below_min name v (JNum m) = [] \<longleftrightarrow> (\<exists>x. v = JNum x \<and> \<not> jlt x m)"
  by (cases v) (auto simp: below_min_def push_if_empty vlt_def to_prim_def)

lemma above_max_empty: "above_max name v (JNum m) = [] \<longleftrightarrow> (\<exists>x. v = JNum x \<and> \<not> jlt m x)"
  by (cases v) (auto simp: above_max_def push_if_empty vlt_def to_prim_def)

lemma not_true_empty: "not_true (JBool True) v name = [] \<longleftrightarrow> v = JBool True"
  by (cases v) (auto simp: not_true_def push_if_empty)

definition committed_promotion :: jsv where
  "committed_promotion = buildAutoPromotionConfig (JObj [])"

lemma committed_gates:
  "dot committed_promotion k =
     (if k \<in> {''walkForward'', ''oosHoldout'', ''regimeBreakdown'', ''shadow'', ''execution'', ''initialCanaryCaps'',
        ''canaryGraduationPeriods''} then dot AUTO_PROMOTION_DEFAULTS k else JUndef)"
  by (simp add: committed_promotion_def buildAutoPromotionConfig_def promotion_section_def AUTO_PROMOTION_DEFAULTS_def
      spread_def set_fld_def dots_def orelse_def)

lemma default_gate:
  "dots AUTO_PROMOTION_DEFAULTS [''walkForward'', ''enabled''] = JBool True"
  "dots AUTO_PROMOTION_DEFAULTS [''walkForward'', ''sharpeMin''] = JNum (Fin 1)"
  "dots AUTO_PROMOTION_DEFAULTS [''walkForward'', ''maxDrawdownPct''] = JNum (Fin 20)"
  "dots AUTO_PROMOTION_DEFAULTS [''walkForward'', ''minRegimeChanges''] = JNum (Fin 1)"
  "dots AUTO_PROMOTION_DEFAULTS [''walkForward'', ''minSamplePeriods''] = JNum (Fin 12)"
  "dots AUTO_PROMOTION_DEFAULTS [''oosHoldout'', ''enabled''] = JBool True"
  "dots AUTO_PROMOTION_DEFAULTS [''oosHoldout'', ''minHoldoutDays''] = JNum (Fin 30)"
  "dots AUTO_PROMOTION_DEFAULTS [''oosHoldout'', ''requireNetPositive''] = JBool True"
  "dots AUTO_PROMOTION_DEFAULTS [''shadow'', ''enabled''] = JBool True"
  "dots AUTO_PROMOTION_DEFAULTS [''shadow'', ''consecutivePositivePeriodsMin''] = JNum (Fin 8)"
  "dots AUTO_PROMOTION_DEFAULTS [''shadow'', ''netOfMeasuredCostPositive''] = JBool True"
  "dots AUTO_PROMOTION_DEFAULTS [''shadow'', ''minQuoteSuccessRate''] = JNum (lit 9 10)"
  "dots AUTO_PROMOTION_DEFAULTS [''execution'', ''oracleDivergencePctMax''] = JNum (Fin 1)"
  "dots AUTO_PROMOTION_DEFAULTS [''execution'', ''slippagePctMax''] = JNum (lit 5 10)"
  "dots AUTO_PROMOTION_DEFAULTS [''execution'', ''measuredEdgeAboveCostVarianceFloor''] = JBool True"
  by (simp_all add: AUTO_PROMOTION_DEFAULTS_def dots_def)

lemma passed_parts:
  assumes "pa_passed (evaluateAutoPromotion evidence config)"
  shows "promotion_blockers evidence config = []"
  using assms by (auto simp: evaluateAutoPromotion_def Let_def split: if_splits)

text \<open>
  A number that is not below, or not above, a bound. A NaN is neither: the checks let it pass, and
  only an evidence file, which is JSON, cannot hold one.
\<close>

fun at_least :: "jsv \<Rightarrow> jsnum \<Rightarrow> bool" where
  "at_least (JNum x) m = (x = NaN \<or> jle m x)"
| "at_least v m = False"

fun at_most :: "jsv \<Rightarrow> jsnum \<Rightarrow> bool" where
  "at_most (JNum x) m = (x = NaN \<or> jle x m)"
| "at_most v m = False"

lemma not_jlt: "m \<noteq> NaN \<Longrightarrow> \<not> jlt x m \<longleftrightarrow> x = NaN \<or> jle m x" "m \<noteq> NaN \<Longrightarrow> \<not> jlt m x \<longleftrightarrow> x = NaN \<or> jle x m"
  by (cases x; cases m; auto)+

lemma below_min_at_least: "m \<noteq> NaN \<Longrightarrow> below_min name v (JNum m) = [] \<longleftrightarrow> at_least v m"
  unfolding below_min_empty by (cases v) (auto simp: not_jlt)

lemma above_max_at_most: "m \<noteq> NaN \<Longrightarrow> above_max name v (JNum m) = [] \<longleftrightarrow> at_most v m"
  unfolding above_max_empty by (cases v) (auto simp: not_jlt)

lemma at_least_number: "at_least v m \<Longrightarrow> \<exists>x. v = JNum x"
  by (cases v) auto

text \<open>A section of the evidence that is missing has no numbers.\<close>

lemma section_field:
  assumes "d = JNull \<or> d = JObj []" "k \<noteq> ''length''"
  shows "dot (orelse (dot evidence p) d) k = dots evidence [p, k]"
  using assms by (cases "dot evidence p") (auto simp: dots_def orelse_def)

lemma walk_forward_passed:
  "checkWalkForward evidence (dot AUTO_PROMOTION_DEFAULTS ''walkForward'') = [] \<longleftrightarrow>
     at_least (dots evidence [''walkForward'', ''sharpe'']) (Fin 1)
     \<and> at_most (dots evidence [''walkForward'', ''maxDrawdownPct'']) (Fin 20)
     \<and> at_least (dots evidence [''walkForward'', ''regimeChanges'']) (Fin 1)
     \<and> at_least (dots evidence [''walkForward'', ''samplePeriods'']) (Fin 12)"
proof -
  note g = default_gate(1-5) [unfolded dots_def foldl_Cons foldl_Nil]
  show ?thesis
    by (simp add: checkWalkForward_def Let_def g section_field below_min_at_least above_max_at_most)
qed

lemma holdout_passed:
  "checkOosHoldout evidence (dot AUTO_PROMOTION_DEFAULTS ''oosHoldout'') = [] \<longleftrightarrow>
     at_least (dots evidence [''oosHoldout'', ''holdoutDays'']) (Fin 30)
     \<and> dots evidence [''oosHoldout'', ''netPositive''] = JBool True"
proof -
  note g = default_gate(6-8) [unfolded dots_def foldl_Cons foldl_Nil]
  let ?oos = "dot evidence ''oosHoldout''"
  have gate: "truthy (dot AUTO_PROMOTION_DEFAULTS ''oosHoldout'')" by (simp add: AUTO_PROMOTION_DEFAULTS_def)
  have obj: "\<exists>x. dots evidence [''oosHoldout'', ''holdoutDays''] = JNum x \<Longrightarrow> truthy ?oos \<and> typeof_object ?oos"
    by (cases ?oos) (auto simp: dots_def)
  show ?thesis
    using obj at_least_number [of "dots evidence [''oosHoldout'', ''holdoutDays'']" "Fin 30"]
    by (auto simp: checkOosHoldout_def Let_def g gate orelse_def dots_def below_min_at_least not_true_empty)
qed

lemma regime_passed:
  "checkRegimeBreakdown evidence (dot AUTO_PROMOTION_DEFAULTS ''regimeBreakdown'') = [] \<longleftrightarrow>
     (\<forall>regime\<in>{''bear'', ''neutral'', ''bull_peak''}.
        at_least (dots evidence [''regimeBreakdown'', regime, ''sampleCount'']) (Fin 1)
        \<and> typeof_number (dots evidence [''regimeBreakdown'', regime, ''netPnlUsd'']))"
proof -
  let ?rb = "dot evidence ''regimeBreakdown''"
  have gate: "truthy (dot AUTO_PROMOTION_DEFAULTS ''regimeBreakdown'')"
    "dot (dot AUTO_PROMOTION_DEFAULTS ''regimeBreakdown'') ''enabled'' = JBool True"
    "dot (dot AUTO_PROMOTION_DEFAULTS ''regimeBreakdown'') ''minSamplesPerRegime'' = JNum (Fin 1)"
    "elems (dot (dot AUTO_PROMOTION_DEFAULTS ''regimeBreakdown'') ''requiredRegimes'')
      = [JStr ''bear'', JStr ''neutral'', JStr ''bull_peak'']"
    by (simp_all add: AUTO_PROMOTION_DEFAULTS_def strs_def)
  have entry: "check_regime rb (dot AUTO_PROMOTION_DEFAULTS ''regimeBreakdown'') k = [] \<longleftrightarrow>
      at_least (dots rb [k, ''sampleCount'']) (Fin 1) \<and> typeof_number (dots rb [k, ''netPnlUsd''])" for rb k
    by (cases "dot rb k") (auto simp: check_regime_def Let_def gate(3) below_min_at_least push_if_empty dots_def)
  have obj: "\<exists>x. dots ?rb [''bear'', ''sampleCount''] = JNum x \<Longrightarrow> truthy ?rb \<and> typeof_object ?rb"
    by (cases ?rb) (auto simp: dots_def)
  have under: "dots evidence (''regimeBreakdown'' # ks) = dots ?rb ks" for ks by (simp add: dots_def)
  show ?thesis
    using obj at_least_number [of "dots ?rb [''bear'', ''sampleCount'']" "Fin 1"] unfolding under
    by (auto simp: checkRegimeBreakdown_def Let_def gate(1,2,4) orelse_def entry)
qed

lemma shadow_passed:
  "checkShadow evidence (dot AUTO_PROMOTION_DEFAULTS ''shadow'') = [] \<longleftrightarrow>
     at_least (dots evidence [''shadow'', ''consecutivePositivePeriods'']) (Fin 8)
     \<and> dots evidence [''shadow'', ''netOfMeasuredCost''] = JBool True
     \<and> at_least (dots evidence [''shadow'', ''quoteSuccessRate'']) (lit 9 10)"
proof -
  note g = default_gate(9-12) [unfolded dots_def foldl_Cons foldl_Nil]
  have "lit 9 10 \<noteq> NaN" by code_simp
  then show ?thesis
    by (simp add: checkShadow_def Let_def g section_field below_min_at_least not_true_empty)
qed

lemma execution_passed:
  "checkExecution evidence (dot AUTO_PROMOTION_DEFAULTS ''execution'') = [] \<longleftrightarrow>
     at_most (dots evidence [''execution'', ''oracleDivergencePct'']) (Fin 1)
     \<and> at_most (dots evidence [''execution'', ''slippagePct'']) (lit 5 10)
     \<and> dots evidence [''execution'', ''edgeAboveCostVariance''] = JBool True"
proof -
  note g = default_gate(13-15) [unfolded dots_def foldl_Cons foldl_Nil]
  have "lit 5 10 \<noteq> NaN" by code_simp
  then show ?thesis
    by (simp add: checkExecution_def Let_def g section_field above_max_at_most not_true_empty)
qed

text \<open>C33: Under the committed thresholds the gate passes exactly the evidence that names its strategy and
  reports all of: a walk-forward Sharpe ratio of at least 1, a drawdown of at most 20 percent, at
  least 1 regime change and 12 sample periods; a holdout of at least 30 days that was net positive;
  for each of the regimes bear, neutral and bull_peak at least 1 sample and a net result; in the
  shadow run at least 8 consecutive positive periods, positive net of the measured cost, and a quote
  success rate of at least 0.9; an oracle divergence of at most 1 percent, a slippage of at most 0.5
  percent and an edge above the cost variance. Each is a number, or true, where required; a NaN,
  which no JSON file holds, would be within every bound.
\<close>

theorem promotion_passed_bounds:
  "pa_passed (evaluateAutoPromotion evidence committed_promotion) \<longleftrightarrow>
     (\<exists>c s. dot evidence ''strategyId'' = JStr (c # s))
     \<and> at_least (dots evidence [''walkForward'', ''sharpe'']) (Fin 1)
     \<and> at_most (dots evidence [''walkForward'', ''maxDrawdownPct'']) (Fin 20)
     \<and> at_least (dots evidence [''walkForward'', ''regimeChanges'']) (Fin 1)
     \<and> at_least (dots evidence [''walkForward'', ''samplePeriods'']) (Fin 12)
     \<and> at_least (dots evidence [''oosHoldout'', ''holdoutDays'']) (Fin 30)
     \<and> dots evidence [''oosHoldout'', ''netPositive''] = JBool True
     \<and> (\<forall>regime\<in>{''bear'', ''neutral'', ''bull_peak''}.
          at_least (dots evidence [''regimeBreakdown'', regime, ''sampleCount'']) (Fin 1)
          \<and> typeof_number (dots evidence [''regimeBreakdown'', regime, ''netPnlUsd'']))
     \<and> at_least (dots evidence [''shadow'', ''consecutivePositivePeriods'']) (Fin 8)
     \<and> dots evidence [''shadow'', ''netOfMeasuredCost''] = JBool True
     \<and> at_least (dots evidence [''shadow'', ''quoteSuccessRate'']) (lit 9 10)
     \<and> at_most (dots evidence [''execution'', ''oracleDivergencePct'']) (Fin 1)
     \<and> at_most (dots evidence [''execution'', ''slippagePct'']) (lit 5 10)
     \<and> dots evidence [''execution'', ''edgeAboveCostVariance''] = JBool True"
proof -
  let ?sid = "dot evidence ''strategyId''"
  have sid: "truthy ?sid \<and> is_string ?sid \<longleftrightarrow> (\<exists>c s. ?sid = JStr (c # s))"
    by (cases ?sid) (auto simp: neq_Nil_conv)
  have obj: "truthy ?sid \<and> is_string ?sid \<Longrightarrow> truthy evidence \<and> typeof_object evidence"
    by (cases evidence) auto
  have "pa_passed (evaluateAutoPromotion evidence committed_promotion) \<longleftrightarrow>
      (truthy ?sid \<and> is_string ?sid) \<and> promotion_blockers evidence committed_promotion = []"
    using obj by (auto simp: evaluateAutoPromotion_def Let_def)
  also have "promotion_blockers evidence committed_promotion = [] \<longleftrightarrow>
      checkWalkForward evidence (dot AUTO_PROMOTION_DEFAULTS ''walkForward'') = []
      \<and> checkOosHoldout evidence (dot AUTO_PROMOTION_DEFAULTS ''oosHoldout'') = []
      \<and> checkRegimeBreakdown evidence (dot AUTO_PROMOTION_DEFAULTS ''regimeBreakdown'') = []
      \<and> checkShadow evidence (dot AUTO_PROMOTION_DEFAULTS ''shadow'') = []
      \<and> checkExecution evidence (dot AUTO_PROMOTION_DEFAULTS ''execution'') = []"
    unfolding promotion_blockers_def by (simp add: committed_gates)
  finally show ?thesis
    unfolding walk_forward_passed holdout_passed regime_passed shadow_passed execution_passed sid by blast
qed

text \<open>A NaN is of type number and below no threshold.\<close>

lemma nan_passes_every_threshold:
  "below_min name (JNum NaN) (JNum m) = []" "above_max name (JNum NaN) (JNum m) = []"
  unfolding below_min_empty above_max_empty by (cases m; simp)+

section \<open>Instances\<close>

definition promotion_evidence :: jsv where
  "promotion_evidence = JObj
     [(''strategyId'', JStr ''s''),
      (''walkForward'', JObj [(''sharpe'', JNum (Fin 2)), (''maxDrawdownPct'', JNum (Fin 10)),
        (''regimeChanges'', JNum (Fin 2)), (''samplePeriods'', JNum (Fin 20))]),
      (''oosHoldout'', JObj [(''holdoutDays'', JNum (Fin 30)), (''netPositive'', JBool True)]),
      (''regimeBreakdown'', JObj (List.map (\<lambda>k. (k, JObj [(''sampleCount'', JNum (Fin 1)), (''netPnlUsd'', JNum (Fin 3))]))
        [''bear'', ''neutral'', ''bull_peak''])),
      (''shadow'', JObj [(''consecutivePositivePeriods'', JNum (Fin 8)), (''netOfMeasuredCost'', JBool True),
        (''quoteSuccessRate'', JNum (Fin 1))]),
      (''execution'', JObj [(''oracleDivergencePct'', JNum (Fin 0)), (''slippagePct'', JNum (Fin 0)),
        (''edgeAboveCostVariance'', JBool True)])]"

theorem promotion_passed_bounds_witness:
  "pa_passed (evaluateAutoPromotion promotion_evidence committed_promotion)"
proof -
  have f: "dot promotion_evidence ''strategyId'' = JStr ''s''"
    "dots promotion_evidence [''oosHoldout'', ''netPositive''] = JBool True"
    "dots promotion_evidence [''shadow'', ''netOfMeasuredCost''] = JBool True"
    "dots promotion_evidence [''execution'', ''edgeAboveCostVariance''] = JBool True"
    by code_simp+
  have n: "at_least (dots promotion_evidence [''walkForward'', ''sharpe'']) (Fin 1)"
    "at_most (dots promotion_evidence [''walkForward'', ''maxDrawdownPct'']) (Fin 20)"
    "at_least (dots promotion_evidence [''walkForward'', ''regimeChanges'']) (Fin 1)"
    "at_least (dots promotion_evidence [''walkForward'', ''samplePeriods'']) (Fin 12)"
    "at_least (dots promotion_evidence [''oosHoldout'', ''holdoutDays'']) (Fin 30)"
    "\<forall>regime\<in>{''bear'', ''neutral'', ''bull_peak''}.
       at_least (dots promotion_evidence [''regimeBreakdown'', regime, ''sampleCount'']) (Fin 1)
       \<and> typeof_number (dots promotion_evidence [''regimeBreakdown'', regime, ''netPnlUsd''])"
    "at_least (dots promotion_evidence [''shadow'', ''consecutivePositivePeriods'']) (Fin 8)"
    "at_least (dots promotion_evidence [''shadow'', ''quoteSuccessRate'']) (lit 9 10)"
    "at_most (dots promotion_evidence [''execution'', ''oracleDivergencePct'']) (Fin 1)"
    "at_most (dots promotion_evidence [''execution'', ''slippagePct'']) (lit 5 10)"
    by code_simp+
  show ?thesis
    unfolding promotion_passed_bounds using f(2-4) n by (simp only: f(1)) simp
qed

end
