(* ===== verification/Spec2Isabelle.thy ===== *)
theory Spec2Isabelle
  imports JsNum JsValue JsDate PolicyCore PolicyConfig CapsRegistry StrategyCaps StaleQuote ApprovalHygiene
    HealthFactor CanaryGates AssetCoverage FailureStreak CapCheck CapSession Hashing EvCost EvGate GasBudget
    RiskDaemons AutoKill GatewayPolicy SleeveGates PolicyEngine EngineProperties
    JsDecimal JsJson AuditLog PaybackLedger PaybackReport JsCalendar PaybackConfig PaybackDecision
    PaybackCron PaybackComposite PaybackPreview ProofManifest PaybackScheduler PaybackSafety
    JsText JsPretty KillSwitchFile KillSwitchWriters KillSwitchSafety ExecutionGate ExecutionGuards
    ExecutionJournal JsonlStore DemotionGate StageGates AutoPromotion
begin

text \<open>
  The safety core of bob-claw: the code that decides whether an intent of an automated trading
  strategy may reach the signer. The system proposes intents (JavaScript objects); the policy
  engine, src/src/executor/policy/index.mjs, puts every intent through some twenty checks and
  answers ALLOW or BLOCK with the list of blocker codes; only an allowed intent is signed.

  The theories, in the order of their dependencies:

  \<^item> JsNum, JsValue, JsDate: the part of JavaScript the code uses. Numbers are binary64 written out:
    a finite number is a rational, \<open>rnd\<close> is round-to-nearest-even, the operations are the rational
    ones followed by \<open>rnd\<close>, with NaN and the infinities as constructors (the two zeros are one).
    Values are a datatype with the coercions \<open>truthy\<close>, \<open>to_num\<close>, \<open>to_str\<close>, property access that
    yields undefined on everything that has no such property, ISO dates and \<open>Array.sort\<close> as a
    stable insertion sort by the code's comparator. A throw is the left side of a sum.
  \<^item> PolicyCore: the result record of a check and the contract every check owes the engine, as the
    locales \<open>policy_gate\<close> and \<open>throwing_gate\<close>; every check interprets one of them.
  \<^item> PolicyConfig, CapsRegistry, StrategyCaps: the committed configuration (src/src/config), the caps
    table with one definition per strategy, its lookup, clamp and validation.
  \<^item> StaleQuote, ApprovalHygiene, HealthFactor, CanaryGates, AssetCoverage, SleeveGates,
    GatewayPolicy: the narrow checks of src/src/executor/policy, one group of definitions per module.
  \<^item> FailureStreak: consecutive-failures.mjs, the streak of failed broadcasts of a strategy.
  \<^item> CapCheck, CapSession: cap-check.mjs, the budgets over the audit log; and a day of that log as the
    signer writes it, checks, signatures and broadcasts interleaved with whatever else is logged.
  \<^item> Hashing, EvCost, EvGate: stable serialization and SHA-256, the cost model built from receipts, the
    expected-value gate with the parent-approval bypass, and the report-only floor.
  \<^item> GasBudget, RiskDaemons, AutoKill: src/src/risk and src/src/executor/risk.
  \<^item> PolicyEngine, EngineProperties: the engine and what an allowed intent is guaranteed.
  \<^item> JsDecimal, JsJson, JsCalendar: more of the language, with proofs: a printed number reads back,
    JSON.stringify and JSON.parse (a recursive descent with as much fuel as the text is long) are
    inverse, and a date determines its day.
  \<^item> AuditLog: src/src/executor/signer/audit-log.mjs, the records of the signer, one JSON text a line.
  \<^item> PaybackLedger, PaybackReport: src/src/executor/payback/accumulator.mjs, the ledger of profit and of
    what was paid back to Bitcoin, read from the audit log and receipts, and what it guarantees.
  \<^item> PaybackConfig, PaybackDecision, PaybackCron, PaybackComposite, PaybackPreview, PaybackScheduler,
    PaybackSafety: src/src/config/payback.mjs and src/src/executor/payback/scheduler.mjs: the policy,
    the decision of a period, the cron expressions, the composite plan of swap, bridge and off-ramp,
    its previews, the tick that carries it out, the loop, and the limits every payment keeps.
  \<^item> ProofManifest: src/src/proof/manifest.mjs, the public manifest of a payment.
  \<^item> JsText, JsPretty: more string lemmas, and JSON.stringify with indentation, which JSON.parse inverts.
  \<^item> KillSwitchFile, KillSwitchWriters, KillSwitchSafety: the kill-switch file with its audit log as a
    state, src/src/executor/policy/kill-switch.mjs, and everything that writes or removes it: the
    operator (src/src/cli/run-kill-switch.mjs), the watchdog (src/src/executor/watchdog), the automatic
    kill switch (src/src/risk/auto-kill-events.mjs) and the status read with its automatic clearing.
    What they do between two commands of the operator is the step relation \<open>ks_step\<close>.
  \<^item> ExecutionGate, ExecutionGuards, ExecutionJournal: src/src/risk/execution-gate.mjs,
    src/src/execution/guards.mjs and journal.mjs, the older path of a job: its risk decision, the files
    that stop a run, the journal of its events and whether it may start again.
  \<^item> JsonlStore: src/src/lib/jsonl-store.mjs and jsonl-read.mjs, the JSON-lines files, and the canary
    guard that keeps its session in one (src/src/risk/canary-guard.mjs).
  \<^item> DemotionGate, StageGates, AutoPromotion: demotion-policy.mjs, stage-evaluator.mjs,
    stage-transition-audit.mjs, and src/src/executor/auto-promotion-gate.mjs with its configuration.

  The payback side and the policy engine meet in the audit log and the kill switch. The signer
  writes the log that the cap check and the ledger read; the tick of the scheduler asks the same
  checkKillSwitch before anything else, decides on the snapshot of the ledger, and hands its steps to
  executors whose intents pass the engine. Those executors, the builders of the three plans and the
  signer's health are arguments of the source's functions and of the model's.

  State. The checks are functions of the intent, the committed configuration, the audit log (a list
  of records) and the time; what they read outside the process (the kill-switch and gateway files,
  gas history, RPC provider, incident file, the clock of \<open>Date.now\<close> and the locale order of strings)
  is the record \<open>policy_world\<close>, and every theorem holds for every such world. A file access that
  throws is a value of that record, so the engine's behaviour under faults is part of the model.

  Lemmas. For each check its decision on every branch; the bounds an allowed intent satisfies (caps,
  shares, quote age, gas); the loops against their specification (streaks, reverts, percentiles,
  worst severity); the invariant of a day of the signer's log, and runs that break it without its
  conditions; what a silent automatic kill switch guarantees; and for the engine that it blocks
  exactly when a check does, that a kill switch or a failing file access never lets an intent
  through, and that an unwind request and an ordinary intent exclude each other.

  For the kill switch: an operator's halt outlives every step, a status read reports the file it
  leaves, and which halts it clears. For jobs: the failure counters against the runs they count, what
  an ALLOW guarantees, and when the journal lets a job start again.

  For the payback: profit and payback are told apart; a decision and a plan stay within the committed
  limits for every ledger and market; a tick runs steps only under them; the loop, over a locale of
  minute schedules interpreted with the committed one, fires once in each due minute.

  Bounds. Numerals of arrays are exact up to 2^53 elements, which the theorems that count assume.
  The decimal printer of numbers searches at most 17 digits and exponents of at most 330, which
  covers every binary64 value. \<open>evGate\<close> recurses into the parent of an approval, which is never an
  approval itself, so it recurses once; its termination proof uses that.

  Limits of the model of JavaScript. Values are JSON values, undefined included: no functions, no
  prototypes. So a strategy, chain or category named like a property of Object.prototype (toString,
  constructor) is found by the source's table lookups and not by the model's; for a strategy the
  source then answers strategy_caps_invalid where the model answers strategy_caps_missing, and both
  block. \<open>to_str\<close> and \<open>date_of\<close> never throw; the source throws on an object with a field toString
  of its own, which is no function in a JSON value, and the theorem that states when the payback snapshot
  returns excludes such values. \<open>date_of\<close> reads the ISO forms and numbers; the other texts that
  \<open>new Date\<close> accepts in an engine-defined way count as unreadable. Severities and risk verdicts are
  the closed enumeration of types.mjs, as every risk daemon of the repository makes them; the
  fallbacks of the circuit breaker for an unknown or absent severity do not arise on them. A status
  read of the kill switch reads the file and its log and removes the file in one step of \<open>ks_step\<close>; a
  writer between its read and its unlink is outside the interleavings considered.

  Not modelled: regular expressions, locales other than by a parameter, Unicode beyond one byte per
  character in hashing, objects with integer-like keys in numeric order, audit files the simulator appends, the replay of the
  automatic triggers on live inputs (a parameter of the status command) and the alert of the
  watchdog; the signer daemon (sockets, keys and third-party signing), the treasury planner,
  dispatchers, dashboards and the other command line tools, which are input and output around this
  core.
\<close>

section \<open>Properties that span components\<close>

lemma jmul_commute: "jmul a b = jmul b a"
  by (cases a; cases b) (simp_all add: jmul_def mult.commute)

text \<open>The two percentile routines of the program, the nearest-rank quantile of the cost model at 0.9 and
  the 90th percentile of the gas price ceiling, select the same element of every non-empty list.\<close>

theorem p90_equivalence:
  assumes "costs \<noteq> []" "length costs \<le> 2 ^ 53"
  shows "quantileNearestRank costs (JNum (lit 9 10)) = (case computeP90 costs of Some x \<Rightarrow> JNum x | None \<Rightarrow> JNull)"
proof -
  let ?n = "length costs"
  have "(case lit 9 10 of Fin q \<Rightarrow> 0 < q \<and> q \<le> 1 \<and> rnd q = Fin q | _ \<Rightarrow> False) = True" by code_simp
  then obtain q where q: "lit 9 10 = Fin q" "0 < q" "q \<le> 1" "is_double (Fin q)"
    by (auto simp: is_double_def split: jsnum.splits)
  obtain y where y: "jmul (Fin q) (len_num costs) = Fin y" "0 < y" "nat \<lceil>y\<rceil> \<le> ?n"
    "1 \<le> nat \<lceil>y\<rceil>"
    "quantileNearestRank costs (JNum (Fin q)) = JNum (sort_by ascending costs ! (nat \<lceil>y\<rceil> - 1))"
    using quantile_selects [OF assms q(2-4)] by blast
  let ?k = "\<lceil>y\<rceil>"
  have k: "1 \<le> ?k" "?k \<le> int ?n" using y(3,4) by linarith+
  have n53: "int ?n \<le> 2 ^ 53" using assms(2) by simp
  have "\<bar>?k - 1\<bar> \<le> 2 ^ 53" "\<bar>int ?n - 1\<bar> \<le> 2 ^ 53" using k n53 by linarith+
  then have one: "jsub (Fin (of_int ?k)) (Fin 1) = Fin (of_int (?k - 1))"
    "jsub (len_num costs) (Fin 1) = Fin (of_int (int ?n - 1))"
    using rnd_int [of "?k - 1"] rnd_int [of "int ?n - 1"] by (simp_all add: jsub_def len_num_fin [OF assms(2)])
  have mn: "jmin (Fin (of_int (?k - 1))) (Fin (of_int (int ?n - 1))) = Fin (of_int (?k - 1))"
  proof -
    have "(of_int (?k - 1) :: rat) \<le> of_int (int ?n - 1)" using k by (simp only: of_int_le_iff)
    then show ?thesis by (auto simp: jmin_def)
  qed
  have mx: "jmax (Fin 0) (Fin (of_int (?k - 1))) = Fin (of_int (?k - 1))"
  proof -
    have "0 \<le> ?k - 1" using k(1) by linarith
    then have "(0::rat) \<le> of_int (?k - 1)" by (simp only: of_int_0_le_iff)
    moreover have "0 \<le> x \<Longrightarrow> jmax (Fin 0) (Fin x) = Fin x" for x :: rat by (cases "x = 0") (auto simp: jmax_def)
    ultimately show ?thesis by blast
  qed
  have asc: "(\<lambda>a b. jsub a b) = ascending" by (rule ext)+ (simp add: ascending_def)
  have ls: "len_num (sort_by ascending costs) = len_num costs" by (simp add: len_num_def)
  have "jmul (len_num costs) (Fin q) = Fin y" using y(1) by (simp add: jmul_commute)
  then have "computeP90 costs = Some (sort_by ascending costs ! nat \<lfloor>of_int (?k - 1) :: rat\<rfloor>)"
    using assms(1) one mn mx by (simp add: computeP90_def Let_def asc ls q(1) flip: len_num_def)
  moreover have "nat \<lfloor>of_int (?k - 1) :: rat\<rfloor> = nat ?k - 1" using k by (simp only: floor_of_int)
  ultimately show ?thesis using y(5) q(1) by simp
qed

theorem p90_equivalence_witness:
  "computeP90 [Fin 3] = Some (Fin 3)"
proof -
  have "quantileNearestRank [Fin 3] (JNum (lit 9 10)) = JNum (Fin 3)" by code_simp
  with p90_equivalence [of "[Fin 3]"] show ?thesis by (simp split: option.splits)
qed

text \<open>C19: an emergency unwind as the builder makes it is let through by the checks that could
  keep a position from being closed: it is safety critical for the EV gate, counts as an exit for the
  asset-coverage guard, is held back by the cap check for a breached loss or gas budget only and by
  the health check for a missing floor only.\<close>

theorem emergency_intent_unobstructed:
  assumes "buildEmergencyUnwindIntent sid chain family amount path triggers pos metadata now = Inr i"
  shows "pr_decision (evaluateEvGate env i h t p) = ALLOW
    \<and> pr_decision (evaluateAssetCoverageGuard i rc t) = ALLOW
    \<and> pr_decision (evaluateTinyLiveCanaryPolicy i caps st recs t) = ALLOW
    \<and> (\<forall>r. caps \<noteq> JUndef \<and> evaluateCapCheck i caps recs budget pol t = Inr r \<longrightarrow>
         set (pr_blockers r) \<subseteq> {''strategy_max_daily_loss_breached'', ''strategy_failed_gas_budget_breached''})
    \<and> set (pr_blockers (evaluateHealthFactorCheck i caps t))
         \<subseteq> {''health_factor_min_missing'', ''liquidation_buffer_min_missing''}"
proof -
  have ty: "dot i ''intentType'' = JStr ''emergency_unwind''" "dot i ''executionReason'' = JStr ''risk_unwind''"
    using emergency_intent_fields [OF assms] by auto
  have ev: "isSafetyCriticalIntent i" by (simp add: isSafetyCriticalIntent_def ty)
  have exit: "isExitLikeIntent i"
  proof -
    have "exit_text (normalizedText (JStr ''emergency_unwind'')) = True" by code_simp
    then show ?thesis by (simp add: isExitLikeIntent_def ty)
  qed
  have "\<not> isOpeningOrIncreasingIntent i \<or> isExitLikeIntent i" using exit by simp
  then have cover: "pr_decision (evaluateAssetCoverageGuard i rc t) = ALLOW"
    by (simp add: evaluateAssetCoverageGuard_def Let_def exit)
  have emergency: "isEmergencyCapIntent i" by (simp add: isEmergencyCapIntent_def ty)
  have cap: "set (pr_blockers r) \<subseteq> {''strategy_max_daily_loss_breached'', ''strategy_failed_gas_budget_breached''}"
    if r: "caps \<noteq> JUndef \<and> evaluateCapCheck i caps recs budget pol t = Inr r" for r
  proof -
    obtain st pst where "pr_blockers r = strategy_cap_blockers i caps st @ portfolio_cap_blockers i
        (resolvePortfolioExposurePolicy budget (if pol = JUndef then JNull else pol)) pst"
      by (rule evaluateCapCheck_Inr [OF conjunct2 [OF r] conjunct1 [OF r]])
    then show ?thesis using emergency_cap_blockers [OF emergency] by simp
  qed
  have gate: "pr_decision (evaluateEvGate env i h t p) = ALLOW"
    by (simp add: evaluateEvGate_def Let_def evGate.simps [of env i] ev buildAllowResult_def)
  have tiny: "pr_decision (evaluateTinyLiveCanaryPolicy i caps st recs t) = ALLOW"
    by (simp add: evaluateTinyLiveCanaryPolicy_def ty)
  have health: "set (pr_blockers (evaluateHealthFactorCheck i caps t))
      \<subseteq> {''health_factor_min_missing'', ''liquidation_buffer_min_missing''}"
  proof (cases "lv_isLeverage (leverage_view_of i caps)")
    case True
    have "lv_emergency (leverage_view_of i caps)" by (simp add: leverage_view_of_def ty)
    then show ?thesis unfolding hf_decision(2) [OF True] set_unique_list by (rule hf_emergency_blockers)
  qed (simp add: evaluateHealthFactorCheck_def Let_def)
  show ?thesis using gate cover tiny cap health by blast
qed

theorem emergency_intent_unobstructed_witness:
  "\<exists>i. buildEmergencyUnwindIntent (JStr ''s'') (JStr ''base'') JNull JNull JNull JNull JNull JNull (JStr ''t'') = Inr i
     \<and> pr_decision (evaluateEvGate sample_env i JNull JNull JUndef) = ALLOW"
proof -
  obtain i where "buildEmergencyUnwindIntent (JStr ''s'') (JStr ''base'') JNull JNull JNull JNull JNull JNull (JStr ''t'') = Inr i"
    by (simp add: buildEmergencyUnwindIntent_def Let_def)
  with emergency_intent_unobstructed [OF this] show ?thesis by blast
qed

end
